(* ===== verification/Rust_Prelude.thy ===== *)
theory Rust_Prelude
  imports Main "HOL-Library.Word"
begin

text \<open>
  Shared vocabulary of the development: the machine integers and strings of the Rust code, the
  decimal text of integers (\<open>to_string\<close> and \<open>parse\<close> of the standard library), the ASCII case
  operations, \<open>Result\<close> as a sum type, and the generic \<open>codec\<close> interface with its
  interpretations for decimal text. Integers are those of the release profile, which is the one
  the repository's Dockerfile deploys: \<open>+\<close>, \<open>-\<close> and \<open>*\<close> on \<open>u64\<close> wrap around.
\<close>

section \<open>Integers, bytes, strings\<close>

type_synonym u8 = "8 word"
type_synonym u16 = "16 word"
type_synonym u32 = "32 word"
type_synonym u64 = "64 word"

text \<open>An \<open>i64\<close> is a mathematical integer; the conversions below check its range.\<close>
type_synonym i64 = int

type_synonym bytes = "8 word list"

text \<open>Rust's \<open>Result<T, E>\<close>: \<open>Inl\<close> is \<open>Err\<close>, \<open>Inr\<close> is \<open>Ok\<close>.\<close>
type_synonym ('e, 'a) result = "'e + 'a"

abbreviation Err :: "'e \<Rightarrow> ('e, 'a) result" where
  "Err \<equiv> Inl"

abbreviation Ok :: "'a \<Rightarrow> ('e, 'a) result" where
  "Ok \<equiv> Inr"

text \<open>\<open>?\<close> in a function without effects, and \<open>ok_or\<close>.\<close>

fun rbind :: "('e, 'a) result \<Rightarrow> ('a \<Rightarrow> ('e, 'b) result) \<Rightarrow> ('e, 'b) result" where
  "rbind (Inl e) f = Inl e"
| "rbind (Inr x) f = f x"

definition ok_or :: "'e \<Rightarrow> 'a option \<Rightarrow> ('e, 'a) result" where
  "ok_or e v = (case v of None \<Rightarrow> Inl e | Some x \<Rightarrow> Inr x)"

lemma ok_or_simps [simp]:
  "ok_or e (Some x) = Inr x" "ok_or e None = Inl e" "ok_or e v = Inr y \<longleftrightarrow> v = Some y"
  by (auto simp: ok_or_def split: option.splits)

lemma rbind_eq_Ok: "rbind r f = Inr y \<longleftrightarrow> (\<exists>x. r = Inr x \<and> f x = Inr y)"
  by (cases r) auto

named_theorems conv_simps \<open>integer conversions and decimal text\<close>

definition i64_try_from :: "u64 \<Rightarrow> i64 option" where
  "i64_try_from n = (if uint n < 2 ^ 63 then Some (uint n) else None)"

definition u64_try_from :: "i64 \<Rightarrow> u64 option" where
  "u64_try_from i = (if 0 \<le> i \<and> i < 2 ^ 64 then Some (word_of_int i) else None)"

definition u32_try_from :: "i64 \<Rightarrow> u32 option" where
  "u32_try_from i = (if 0 \<le> i \<and> i < 2 ^ 32 then Some (word_of_int i) else None)"

lemma u64_try_from_i64 [conv_simps]:
  "i64_try_from n = Some i \<Longrightarrow> u64_try_from i = Some n"
  by (auto simp: i64_try_from_def u64_try_from_def split: if_splits)

lemma i64_try_from_nonneg: "i64_try_from n = Some i \<Longrightarrow> 0 \<le> i \<and> i < 2 ^ 63 \<and> i = uint n"
  by (auto simp: i64_try_from_def split: if_splits)

lemma u64_try_from_Some: "u64_try_from i = Some n \<Longrightarrow> uint n = i"
  by (auto simp: u64_try_from_def uint_word_of_int_eq take_bit_int_eq_self split: if_splits)

lemma u64_add_no_wrap: "uint a + uint b < 2 ^ 64 \<Longrightarrow> uint (a + b) = uint a + uint b" for a b :: u64
  by (rule uint_add_lem [THEN iffD1]) simp

text \<open>Two amounts that fit an \<open>i64\<close> do not wrap when added as \<open>u64\<close>.\<close>

lemma i64_sum_no_wrap:
  assumes "i64_try_from a = Some ai" "i64_try_from b = Some bi"
  shows "uint (a + b) = ai + bi"
proof -
  have "ai = uint a" "bi = uint b" "ai < 2 ^ 63" "bi < 2 ^ 63"
    using i64_try_from_nonneg [OF assms(1)] i64_try_from_nonneg [OF assms(2)] by blast+
  then have "uint a + uint b < 2 ^ 64" by simp
  from u64_add_no_wrap [OF this] \<open>ai = uint a\<close> \<open>bi = uint b\<close> show ?thesis by (simp only:)
qed

lemma unat_u64_sum:
  fixes n a b c :: u64
  assumes "uint n = uint a + uint b + uint c"
  shows "unat n = unat a + unat b + unat c"
  unfolding unat_eq_nat_uint assms
  by (simp only: nat_add_distrib uint_ge_0 add_nonneg_nonneg)
section \<open>Decimal text\<close>

definition digit_char :: "nat \<Rightarrow> char" where
  "digit_char d = char_of (48 + d)"

definition char_digit :: "char \<Rightarrow> nat option" where
  "char_digit c =
     (let k = (of_char c :: nat) in if 48 \<le> k \<and> k \<le> 57 then Some (k - 48) else None)"

fun show_nat :: "nat \<Rightarrow> string" where
  "show_nat n =
     (if n < 10 then [digit_char n] else show_nat (n div 10) @ [digit_char (n mod 10)])"

declare show_nat.simps [simp del]

text \<open>The loop of the standard library's \<open>from_str_radix\<close>: every digit is a checked multiply
  and a checked add against the largest value \<open>m\<close> of the type.\<close>

fun parse_digits :: "nat \<Rightarrow> nat \<Rightarrow> string \<Rightarrow> nat option" where
  "parse_digits m acc [] = Some acc"
| "parse_digits m acc (c # cs) =
     (case char_digit c of
        None \<Rightarrow> None
      | Some d \<Rightarrow> if acc * 10 + d \<le> m then parse_digits m (acc * 10 + d) cs else None)"

definition parse_unsigned :: "nat \<Rightarrow> string \<Rightarrow> nat option" where
  "parse_unsigned m s =
     (case s of
        [] \<Rightarrow> None
      | c # cs \<Rightarrow>
          (let ds = (if c = CHR ''+'' then cs else s)
           in if ds = [] then None else parse_digits m 0 ds))"

definition parse_u64 :: "string \<Rightarrow> u64 option" where
  "parse_u64 s = map_option of_nat (parse_unsigned (2 ^ 64 - 1) s)"

definition parse_u32 :: "string \<Rightarrow> u32 option" where
  "parse_u32 s = map_option of_nat (parse_unsigned (2 ^ 32 - 1) s)"

definition parse_i64 :: "string \<Rightarrow> i64 option" where
  "parse_i64 s =
     (case s of
        c # cs \<Rightarrow>
          (if c = CHR ''-''
           then (if cs = [] then None
                 else map_option (\<lambda>n. - int n) (parse_digits (2 ^ 63) 0 cs))
           else map_option int (parse_unsigned (2 ^ 63 - 1) s))
      | [] \<Rightarrow> None)"

definition show_u64 :: "u64 \<Rightarrow> string" where
  "show_u64 n = show_nat (unat n)"

definition show_i64 :: "i64 \<Rightarrow> string" where
  "show_i64 i = (if i < 0 then CHR ''-'' # show_nat (nat (- i)) else show_nat (nat i))"

lemma char_digit_digit_char [simp]: "d < 10 \<Longrightarrow> char_digit (digit_char d) = Some d"
  by (simp add: char_digit_def digit_char_def Let_def)

lemma digit_char_range: "d < 10 \<Longrightarrow> 48 \<le> (of_char (digit_char d) :: nat) \<and> (of_char (digit_char d) :: nat) \<le> 57"
  by (simp add: digit_char_def)

lemma show_nat_nonempty [simp]: "show_nat n \<noteq> []"
  by (subst show_nat.simps) simp

lemma show_nat_chars: "c \<in> set (show_nat n) \<Longrightarrow> \<exists>d < 10. c = digit_char d"
proof (induction n rule: show_nat.induct)
  case (1 n)
  show ?case
  proof (cases "n < 10")
    case True
    with "1.prems" show ?thesis by (simp add: show_nat.simps [of n]) blast
  next
    case False
    with "1.prems" consider "c \<in> set (show_nat (n div 10))" | "c = digit_char (n mod 10)"
      by (subst (asm) show_nat.simps) auto
    then show ?thesis
    proof cases
      case 1
      with "1.IH" False show ?thesis by blast
    next
      case 2
      moreover have "n mod 10 < 10" by simp
      ultimately show ?thesis by blast
    qed
  qed
qed

lemma show_nat_no_char:
  assumes "of_char c < (48 :: nat) \<or> (57 :: nat) < of_char c"
  shows "c \<notin> set (show_nat n)"
  using assms show_nat_chars digit_char_range by fastforce

lemma parse_digits_append:
  "parse_digits m acc (xs @ ys) =
     (case parse_digits m acc xs of None \<Rightarrow> None | Some a \<Rightarrow> parse_digits m a ys)"
  by (induction xs arbitrary: acc) (auto split: option.splits)

lemma parse_digits_show:
  "n \<le> m \<Longrightarrow> parse_digits m 0 (show_nat n) = Some n"
proof (induction n rule: show_nat.induct)
  case (1 n)
  show ?case
  proof (cases "n < 10")
    case True
    with "1.prems" show ?thesis by (simp add: show_nat.simps [of n])
  next
    case False
    have "n div 10 \<le> m" using "1.prems" by simp
    with "1.IH" False have "parse_digits m 0 (show_nat (n div 10)) = Some (n div 10)"
      by blast
    moreover have "n div 10 * 10 + n mod 10 = n" by simp
    ultimately show ?thesis
      using False "1.prems" by (simp add: show_nat.simps [of n] parse_digits_append)
  qed
qed

lemma parse_unsigned_show [conv_simps]:
  assumes "n \<le> m"
  shows "parse_unsigned m (show_nat n) = Some n"
proof (cases "show_nat n")
  case Nil
  then show ?thesis by simp
next
  case (Cons c cs)
  have "c \<noteq> CHR ''+''"
    using show_nat_no_char [of "CHR ''+''" n] Cons by auto
  with Cons parse_digits_show [OF assms] show ?thesis
    by (simp add: parse_unsigned_def)
qed

lemma show_nat_head_not_minus: "show_nat n = c # cs \<Longrightarrow> c \<noteq> CHR ''-''"
  using show_nat_no_char [of "CHR ''-''" n] by auto

section \<open>Codecs\<close>

text \<open>
  The interface between a component that prints a value and one that reads it back: what
  \<open>dec\<close> returns on the text of a value in range. A message, a file or a command line carries
  text, so every agreement between two parties rests on such a law.
\<close>

locale codec =
  fixes enc :: "'a \<Rightarrow> 'b" and dec :: "'b \<Rightarrow> 'a option" and in_range :: "'a \<Rightarrow> bool"
  assumes dec_enc: "in_range x \<Longrightarrow> dec (enc x) = Some x"
begin

lemma enc_eq_iff: "in_range x \<Longrightarrow> in_range y \<Longrightarrow> enc x = enc y \<longleftrightarrow> x = y"
  using dec_enc by (metis option.inject)

lemma dec_of_peer: "in_range x \<Longrightarrow> msg = enc x \<Longrightarrow> dec msg = Some x"
  by (simp add: dec_enc)

end

lemma unat_le_max64: "unat (w :: u64) \<le> 2 ^ 64 - 1"
  using unsigned_less [of w, where ?'a = nat] by simp

interpretation u64_text: codec show_u64 parse_u64 "\<lambda>_. True"
proof unfold_locales
  fix n :: u64
  show "parse_u64 (show_u64 n) = Some n"
    unfolding parse_u64_def show_u64_def
    using parse_unsigned_show [OF unat_le_max64 [of n]] by (simp only: option.map) simp
qed

interpretation i64_text: codec show_i64 parse_i64 "\<lambda>i. - (2 ^ 63) \<le> i \<and> i < 2 ^ 63"
proof unfold_locales
  fix i :: int
  assume r: "- (2 ^ 63) \<le> i \<and> i < 2 ^ 63"
  show "parse_i64 (show_i64 i) = Some i"
  proof (cases "i < 0")
    case True
    then have "nat (- i) \<le> 2 ^ 63" using r by simp
    from parse_digits_show [OF this] True show ?thesis
      by (simp add: parse_i64_def show_i64_def)
  next
    case False
    then have "nat i \<le> 2 ^ 63 - 1" using r by simp
    from parse_unsigned_show [OF this] False show ?thesis
      by (cases "show_nat (nat i)")
        (auto simp: parse_i64_def show_i64_def dest: show_nat_head_not_minus)
  qed
qed

text \<open>The text of a block height is read back as the same height by both parties, although one
  prints a \<open>u64\<close> and the other parses an \<open>i64\<close>.\<close>

lemma parse_i64_show_u64:
  assumes "i64_try_from n = Some i"
  shows "parse_i64 (show_u64 n) = Some i"
proof -
  have i: "0 \<le> i" "i < 2 ^ 63" "i = uint n"
    using i64_try_from_nonneg [OF assms] by auto
  then have "show_u64 n = show_i64 i"
    by (simp add: show_u64_def show_i64_def)
  moreover have "parse_i64 (show_i64 i) = Some i"
    using i by (intro i64_text.dec_enc) linarith
  ultimately show ?thesis by simp
qed

section \<open>ASCII case\<close>

definition char_upper :: "char \<Rightarrow> char" where
  "char_upper c = (let k = (of_char c :: nat) in if 97 \<le> k \<and> k \<le> 122 then char_of (k - 32) else c)"

definition to_uppercase :: "string \<Rightarrow> string" where
  "to_uppercase s = map char_upper s"

definition eq_ignore_ascii_case :: "string \<Rightarrow> string \<Rightarrow> bool" where
  "eq_ignore_ascii_case a b \<longleftrightarrow> map char_upper a = map char_upper b"

lemma eq_ignore_ascii_case_refl [simp]: "eq_ignore_ascii_case s s"
  by (simp add: eq_ignore_ascii_case_def)

abbreviation newline :: char where
  "newline \<equiv> CHR 0x0A"

lemma show_nat_no_newline [simp]: "newline \<notin> set (show_nat n)"
  by (rule show_nat_no_char) simp

lemma show_u64_no_newline [simp]: "newline \<notin> set (show_u64 n)"
  by (simp add: show_u64_def)

lemma show_i64_no_newline [simp]: "newline \<notin> set (show_i64 i)"
  by (simp add: show_i64_def)

end
