(* ===== verification/Grin_Lib.thy ===== *)
theory Grin_Lib
  imports Rust_Prelude
begin

text \<open>
  The interface of the crates the Grin side calls and whose sources are not part of the
  repository: \<open>grin_core\<close>, \<open>grin_keychain\<close>, \<open>grin_util::secp\<close>, \<open>uuid\<close> and \<open>hex\<close>. Their data
  types appear here as the repository's code takes them apart, and their functions are the fields
  of one record \<open>GrinLib\<close> that every definition using them takes as an argument. Nothing is
  assumed of the fields here; a theorem that relies on documented behaviour names it with one of
  the predicates at the end of this theory.
\<close>

section \<open>Data of the Grin crates\<close>

type_synonym SecretKey = bytes
type_synonym PublicKey = bytes
type_synonym Commitment = bytes
type_synonym RangeProof = bytes
type_synonym Signature = bytes
type_synonym BlindingFactor = bytes
type_synonym Message = bytes
type_synonym Uuid = "128 word"
type_synonym Identifier = bytes

text \<open>\<open>FeeFields\<close> is a packed 64 bit value; it is read only through the library's accessors.\<close>
type_synonym FeeFields = u64

datatype OutputFeatures = Plain | Coinbase

datatype KernelFeatures =
    KPlain (kfee: FeeFields)
  | KCoinbase
  | KHeightLocked (kfee: FeeFields) (klock_height: u64)
  | KNoRecentDuplicate (kfee: FeeFields) (krelative_height: u64)

record Input =
  inp_features :: OutputFeatures
  inp_commit :: Commitment

record Output =
  out_features :: OutputFeatures
  out_commit :: Commitment
  out_proof :: RangeProof

record TxKernel =
  ker_features :: KernelFeatures
  ker_excess :: Commitment
  ker_excess_sig :: Signature

datatype Inputs = CommitOnly "Commitment list" | FeaturesAndCommit "Input list"

record Transaction =
  tx_offset :: BlindingFactor
  tx_inputs :: Inputs
  tx_outputs :: "Output list"
  tx_kernels :: "TxKernel list"

text \<open>\<open>BlindSum\<close>: the positive and the negative blinding factors collected so far.\<close>

record BlindSum =
  positive_blinding_factors :: "BlindingFactor list"
  negative_blinding_factors :: "BlindingFactor list"

text \<open>The outcome of one call of the multi-party bulletproof routine: the finished proof, where
  the round makes one, and what it leaves in its three in-out arguments.\<close>

record MultisigOut =
  ms_proof :: "RangeProof option"
  ms_tau_x :: SecretKey
  ms_t_1 :: PublicKey
  ms_t_2 :: PublicKey

section \<open>Functions of the Grin crates\<close>

record KeyLib =
  hex_encode :: "bytes \<Rightarrow> string"
  hex_decode :: "string \<Rightarrow> bytes option"
  \<comment> \<open>\<open>SecretKey\<close>\<close>
  ZERO_KEY :: SecretKey
  sk_from_slice :: "bytes \<Rightarrow> SecretKey option"
  sk_add_assign :: "SecretKey \<Rightarrow> SecretKey \<Rightarrow> SecretKey option"
  sk_neg_assign :: "SecretKey \<Rightarrow> SecretKey option"
  \<comment> \<open>\<open>PublicKey\<close>\<close>
  pk_new :: PublicKey
  pk_is_valid :: "PublicKey \<Rightarrow> bool"
  pk_from_secret_key :: "SecretKey \<Rightarrow> PublicKey option"
  pk_from_combination :: "PublicKey list \<Rightarrow> PublicKey option"
  pk_from_slice :: "bytes \<Rightarrow> PublicKey option"
  pk_serialize_vec :: "PublicKey \<Rightarrow> bytes"

text \<open>Pedersen commitments and range proofs\<close>

record PedersenLib = KeyLib +
  com_from_vec :: "bytes \<Rightarrow> Commitment"
  com_from_pubkey :: "PublicKey \<Rightarrow> Commitment option"
  secp_commit :: "u64 \<Rightarrow> SecretKey \<Rightarrow> Commitment option"
  commit_sum :: "Commitment list \<Rightarrow> Commitment list \<Rightarrow> Commitment option"
  bullet_proof :: "u64 \<Rightarrow> SecretKey \<Rightarrow> SecretKey \<Rightarrow> SecretKey \<Rightarrow> RangeProof"
  verify_bullet_proof :: "Commitment \<Rightarrow> RangeProof \<Rightarrow> bool"
  bullet_proof_multisig ::
    "u64 \<Rightarrow> SecretKey \<Rightarrow> SecretKey \<Rightarrow> SecretKey option \<Rightarrow> PublicKey \<Rightarrow> PublicKey \<Rightarrow>
     Commitment list \<Rightarrow> SecretKey \<Rightarrow> nat \<Rightarrow> MultisigOut"

text \<open>Aggregated signatures (\<open>secp::aggsig\<close> and \<open>libtx::aggsig\<close>)\<close>

record AggsigLib = PedersenLib +
  sign_single ::
    "Message \<Rightarrow> SecretKey \<Rightarrow> SecretKey \<Rightarrow> SecretKey option \<Rightarrow> PublicKey \<Rightarrow> PublicKey \<Rightarrow>
     PublicKey \<Rightarrow> Signature option"
  verify_single ::
    "Signature \<Rightarrow> Message \<Rightarrow> PublicKey \<Rightarrow> PublicKey \<Rightarrow> PublicKey \<Rightarrow> PublicKey \<Rightarrow> bool"
  calculate_partial_sig ::
    "SecretKey \<Rightarrow> SecretKey \<Rightarrow> PublicKey \<Rightarrow> PublicKey \<Rightarrow> Message \<Rightarrow> Signature option"
  verify_partial_sig ::
    "Signature \<Rightarrow> PublicKey \<Rightarrow> PublicKey \<Rightarrow> PublicKey \<Rightarrow> Message \<Rightarrow> bool"
  add_signatures :: "Signature list \<Rightarrow> PublicKey \<Rightarrow> Signature option"
  verify_completed_sig :: "Signature \<Rightarrow> PublicKey \<Rightarrow> PublicKey \<Rightarrow> Message \<Rightarrow> bool"
  sig_to_raw_data :: "Signature \<Rightarrow> bytes"
  sig_from_raw_data :: "bytes \<Rightarrow> Signature"

text \<open>Keychain, blinding factors and fees\<close>

record BlindLib = AggsigLib +
  blind_sum_new :: BlindSum
  add_blinding_factor :: "BlindSum \<Rightarrow> BlindingFactor \<Rightarrow> BlindSum"
  sub_blinding_factor :: "BlindSum \<Rightarrow> BlindingFactor \<Rightarrow> BlindSum"
  blind_sum :: "BlindSum \<Rightarrow> BlindingFactor option"
  bf_from_secret_key :: "SecretKey \<Rightarrow> BlindingFactor"
  bf_secret_key :: "BlindingFactor \<Rightarrow> SecretKey option"
  bf_split :: "BlindingFactor \<Rightarrow> BlindingFactor \<Rightarrow> BlindingFactor option"
  bf_zero :: BlindingFactor
  tx_fee :: "nat \<Rightarrow> nat \<Rightarrow> nat \<Rightarrow> u64"
  fee_fields_new :: "u64 \<Rightarrow> u64 \<Rightarrow> FeeFields option"
  fee_fields_zero :: FeeFields
  fee_at :: "FeeFields \<Rightarrow> u64 \<Rightarrow> u64"
  nrd_relative_height_new :: "u64 \<Rightarrow> u64 option"
  YEAR_HEIGHT :: u64
  amount_to_hr_string :: "u64 \<Rightarrow> bool \<Rightarrow> string"
  identifier_zero :: Identifier
  derive_key :: "u64 \<Rightarrow> Identifier \<Rightarrow> SecretKey option"

text \<open>Transactions and kernels\<close>

record GrinLib = BlindLib +
  inputs_len :: "Inputs \<Rightarrow> nat"
  inputs_from :: "Input list \<Rightarrow> Inputs"
  tx_empty :: Transaction
  tx_new :: "Inputs \<Rightarrow> Output list \<Rightarrow> TxKernel list \<Rightarrow> Transaction"
  with_output :: "Output \<Rightarrow> Transaction \<Rightarrow> Transaction"
  with_kernel :: "TxKernel \<Rightarrow> Transaction \<Rightarrow> Transaction"
  replace_kernel :: "TxKernel \<Rightarrow> Transaction \<Rightarrow> Transaction"
  replace_inputs :: "Inputs \<Rightarrow> Transaction \<Rightarrow> Transaction"
  replace_outputs :: "Output list \<Rightarrow> Transaction \<Rightarrow> Transaction"
  kernel_with_features :: "KernelFeatures \<Rightarrow> TxKernel"
  kernel_sig_msg :: "KernelFeatures \<Rightarrow> Message option"
  kernel_verify :: "TxKernel \<Rightarrow> bool"
  tx_validate :: "Transaction \<Rightarrow> bool"
  tx_fee_of :: "Transaction \<Rightarrow> u64 \<Rightarrow> u64"

section \<open>Documented behaviour the theorems may rely on\<close>

text \<open>A secret key is a big-endian 32 byte scalar below the order of the curve.\<close>

definition curve_order :: int where
  "curve_order = 0xFFFFFFFFFFFFFFFFFFFFFFFFFFFFFFFEBAAEDCE6AF48A03BBFD25E8CD0364141"

definition be_int :: "bytes \<Rightarrow> int" where
  "be_int bs = foldl (\<lambda>acc b. acc * 256 + uint b) 0 bs"

fun be_bytes :: "nat \<Rightarrow> int \<Rightarrow> bytes" where
  "be_bytes 0 v = []"
| "be_bytes (Suc n) v = be_bytes n (v div 256) @ [word_of_int v]"

definition is_scalar :: "bytes \<Rightarrow> bool" where
  "is_scalar b \<longleftrightarrow> length b = 32 \<and> be_int b < curve_order"

definition valid_sk :: "bytes \<Rightarrow> bool" where
  "valid_sk b \<longleftrightarrow> is_scalar b \<and> be_int b \<noteq> 0"

text \<open>\<open>hex\<close>: two lower case digits a byte, and decoding inverts encoding.\<close>

definition hex_digit :: "nat \<Rightarrow> char" where
  "hex_digit n = (if n < 10 then char_of (48 + n) else char_of (87 + n))"

definition hex_text :: "bytes \<Rightarrow> string" where
  "hex_text b = concat (map (\<lambda>x. [hex_digit (unat x div 16), hex_digit (unat x mod 16)]) b)"

definition hex_laws :: "('z GrinLib_scheme) \<Rightarrow> bool" where
  "hex_laws G \<longleftrightarrow>
     (\<forall>b. hex_encode G b = hex_text b) \<and>
     (\<forall>b. hex_decode G (hex_text b) = Some b)"

lemma hex_decode_encode [simp]: "hex_laws G \<Longrightarrow> hex_decode G (hex_encode G b) = Some b"
  by (simp add: hex_laws_def)

lemma hex_encode_inject: "hex_laws G \<Longrightarrow> hex_encode G a = hex_encode G b \<longleftrightarrow> a = b"
  using hex_decode_encode by (metis option.inject)

lemma hex_digit_not_newline: "n < 16 \<Longrightarrow> newline \<noteq> hex_digit n"
proof -
  assume "n < 16"
  then have "n \<in> {0..15}" by simp
  then have "(of_char (hex_digit n) :: nat) \<noteq> 10" by (auto simp: hex_digit_def)
  moreover have "(of_char newline :: nat) = 10" by code_simp
  ultimately show ?thesis by metis
qed

lemma unat_byte_div [simp]: "unat (x :: u8) div 16 < 16"
  using unsigned_less [of x, where ?'a = nat] by simp

lemma hex_text_no_newline [simp]: "newline \<notin> set (hex_text b)"
  by (simp add: hex_text_def hex_digit_not_newline)

lemma hex_encode_no_newline [simp]: "hex_laws G \<Longrightarrow> newline \<notin> set (hex_encode G b)"
  by (simp add: hex_laws_def)

lemma hex_text_zeros: "hex_text (replicate n 0) = replicate (2 * n) CHR ''0''"
proof (induction n)
  case (Suc n)
  have "hex_digit 0 = CHR ''0''" by code_simp
  with Suc show ?case by (simp add: hex_text_def)
qed (simp add: hex_text_def)

text \<open>Scalars: \<open>from_slice\<close> accepts exactly the nonzero scalars below the order; addition and
  negation are those of the field, an addition that yields zero is refused.\<close>

definition scalar_laws :: "('z GrinLib_scheme) \<Rightarrow> bool" where
  "scalar_laws G \<longleftrightarrow>
     ZERO_KEY G = replicate 32 0 \<and>
     (\<forall>b. sk_from_slice G b = (if valid_sk b then Some b else None)) \<and>
     (\<forall>a b. is_scalar a \<longrightarrow> is_scalar b \<longrightarrow>
        (be_int a + be_int b) mod curve_order \<noteq> 0 \<longrightarrow>
        (\<exists>c. sk_add_assign G a b = Some c \<and> valid_sk c \<and>
             be_int c = (be_int a + be_int b) mod curve_order)) \<and>
     (\<forall>a b. is_scalar a \<longrightarrow> is_scalar b \<longrightarrow>
        (be_int a + be_int b) mod curve_order = 0 \<longrightarrow> sk_add_assign G a b = None) \<and>
     (\<forall>a. valid_sk a \<longrightarrow>
        (\<exists>c. sk_neg_assign G a = Some c \<and> valid_sk c \<and>
             be_int c = (- be_int a) mod curve_order))"

text \<open>Aggregated signatures: raw data of a signature is 64 bytes whose second half is the scalar
  \<open>s\<close>; signing with an extra key adds that key to \<open>s\<close> and leaves the first half as it is.\<close>

definition sig_s :: "('z GrinLib_scheme) \<Rightarrow> Signature \<Rightarrow> bytes" where
  "sig_s G sig = drop 32 (sig_to_raw_data G sig)"

definition adaptor_laws :: "('z GrinLib_scheme) \<Rightarrow> bool" where
  "adaptor_laws G \<longleftrightarrow>
     (\<forall>m sk k x r p sig asig.
        sign_single G m sk k None r p r = Some sig \<longrightarrow>
        sign_single G m sk k (Some x) r p r = Some asig \<longrightarrow>
        is_scalar (sig_s G sig) \<and> is_scalar (sig_s G asig) \<and>
        be_int (sig_s G asig) = (be_int (sig_s G sig) + be_int x) mod curve_order)"

lemma be_int_append: "be_int (xs @ [b]) = be_int xs * 256 + uint b"
  by (simp add: be_int_def)

lemma be_int_nonneg [simp]: "0 \<le> be_int b"
  by (induction b rule: rev_induct) (simp_all add: be_int_append, simp add: be_int_def)

lemma length_be_bytes [simp]: "length (be_bytes n v) = n"
  by (induction n arbitrary: v) auto

lemma be_int_be_bytes: "be_int (be_bytes n v) = v mod 256 ^ n"
proof (induction n arbitrary: v)
  case 0
  then show ?case by (simp add: be_int_def)
next
  case (Suc n)
  have "v mod 256 ^ Suc n = (v div 256) mod 256 ^ n * 256 + v mod 256"
    by (metis add.commute mult.commute mod_mult2_eq' power_Suc zmod_zmult2_eq zero_le_numeral zero_le_power)
  with Suc show ?case
    by (simp add: be_int_append uint_word_of_int)
qed

lemma be_bytes_be_int: "length b = n \<Longrightarrow> be_bytes n (be_int b) = b"
proof (induction b arbitrary: n rule: rev_induct)
  case Nil
  then show ?case by simp
next
  case (snoc x xs)
  then obtain m where n: "n = Suc m" and m: "length xs = m" by (cases n) auto
  have div: "(be_int xs * 256 + uint x) div 256 = be_int xs"
    using uint_bounded [of x] by simp
  have z: "(256 :: u8) = 0" by code_simp
  have "(word_of_int (be_int xs * 256 + uint x) :: u8) = x"
    unfolding of_int_add of_int_mult of_int_numeral z by simp
  then show ?case using snoc.IH [OF m] n div by (simp add: be_int_append)
qed

lemma be_int_inject:
  assumes "length a = length b" and "be_int a = be_int b"
  shows "a = b"
  by (metis assms be_bytes_be_int)

end
