(* ===== verification/Effects.thy ===== *)
theory Effects
  imports Grin_Lib "HOL-Library.Sublist"
begin

text \<open>
  What the program does to the outside world, as data. A computation is a tree: it returns,
  panics, or performs one effect and continues with the answer. The effects are drawing
  randomness (\<open>OsRng\<close>, \<open>thread_rng\<close>, \<open>Uuid::new_v4\<close>), posting a JSON-RPC request to a node,
  writing to and reading a line from the TCP stream, connecting, binding and accepting, and
  sleeping. \<open>replay\<close> runs a computation against a list of events, each an effect with the answer
  the environment gave, so a statement about every event list is a statement about every
  behaviour of randomness, nodes and peer. Includes the request types of \<open>net/http.rs\<close>, which
  the effects carry.
\<close>

section \<open>Request data of \<open>net/http.rs\<close> and \<open>enums.rs\<close>\<close>

datatype HttpMethod = GET | POST

datatype JsonRpcParam =
    PString string
  | PInt u64
  | PBool bool
  | PVec "string list"
  | PTx Transaction

record JsonRpc =
  rpc_jsonrpc :: string
  rpc_id :: string
  rpc_method :: string
  rpc_params :: "JsonRpcParam list"

record BasicAuth =
  auth_username :: string
  auth_password :: "string option"

text \<open>What \<open>reqwest\<close> can answer: the send fails, the body cannot be read, or a status and text.\<close>

datatype http_outcome = SendFailed | TextFailed | Response u16 string

section \<open>Computations\<close>

datatype 'a proc =
    Ret 'a
  | Panic string
  | NoFuel
  | FreshKey "bytes \<Rightarrow> 'a proc"
  | FreshU64 "u64 \<Rightarrow> 'a proc"
  | FreshUuid "Uuid \<Rightarrow> 'a proc"
  | HttpPost string JsonRpc "BasicAuth option" "http_outcome \<Rightarrow> 'a proc"
  | WriteStream string "(string, unit) result \<Rightarrow> 'a proc"
  | ReadLine "(string, string) result \<Rightarrow> 'a proc"
  | Sleep nat "'a proc"
  | Connect string "bool \<Rightarrow> 'a proc"
  | Bind string "bool \<Rightarrow> 'a proc"
  | Accept "bool \<Rightarrow> 'a proc"

primrec pbind :: "'a proc \<Rightarrow> ('a \<Rightarrow> 'b proc) \<Rightarrow> 'b proc" where
  "pbind (Ret a) f = f a"
| "pbind (Panic m) f = Panic m"
| "pbind NoFuel f = NoFuel"
| "pbind (FreshKey k) f = FreshKey (\<lambda>b. pbind (k b) f)"
| "pbind (FreshU64 k) f = FreshU64 (\<lambda>b. pbind (k b) f)"
| "pbind (FreshUuid k) f = FreshUuid (\<lambda>b. pbind (k b) f)"
| "pbind (HttpPost u r a k) f = HttpPost u r a (\<lambda>b. pbind (k b) f)"
| "pbind (WriteStream s k) f = WriteStream s (\<lambda>b. pbind (k b) f)"
| "pbind (ReadLine k) f = ReadLine (\<lambda>b. pbind (k b) f)"
| "pbind (Sleep n p) f = Sleep n (pbind p f)"
| "pbind (Connect s k) f = Connect s (\<lambda>b. pbind (k b) f)"
| "pbind (Bind s k) f = Bind s (\<lambda>b. pbind (k b) f)"
| "pbind (Accept k) f = Accept (\<lambda>b. pbind (k b) f)"

text \<open>\<open>unwrap\<close> and \<open>expect\<close> of an \<open>Option\<close> or a \<open>Result\<close>: a panic where there is no value.\<close>

definition unwrap :: "string \<Rightarrow> 'a option \<Rightarrow> 'a proc" where
  "unwrap m v = (case v of None \<Rightarrow> Panic m | Some x \<Rightarrow> Ret x)"

definition unwrap_res :: "string \<Rightarrow> ('e, 'a) result \<Rightarrow> 'a proc" where
  "unwrap_res m v = (case v of Inl e \<Rightarrow> Panic m | Inr x \<Rightarrow> Ret x)"

text \<open>The \<open>?\<close> operator: an error ends the function with that error.\<close>

definition try_bind :: "('e, 'a) result proc \<Rightarrow> ('a \<Rightarrow> ('e, 'b) result proc) \<Rightarrow> ('e, 'b) result proc" where
  "try_bind p f = pbind p (\<lambda>r. case r of Inl e \<Rightarrow> Ret (Inl e) | Inr x \<Rightarrow> f x)"

definition fresh_key :: "bytes proc" where
  "fresh_key = FreshKey Ret"

text \<open>A loop \<open>for x in xs\<close> whose body may panic.\<close>

fun for_each :: "('a \<Rightarrow> unit proc) \<Rightarrow> 'a list \<Rightarrow> unit proc" where
  "for_each f [] = Ret ()"
| "for_each f (x # xs) = pbind (f x) (\<lambda>_. for_each f xs)"

fun map_proc :: "('a \<Rightarrow> 'b proc) \<Rightarrow> 'a list \<Rightarrow> 'b list proc" where
  "map_proc f [] = Ret []"
| "map_proc f (x # xs) = pbind (f x) (\<lambda>y. pbind (map_proc f xs) (\<lambda>ys. Ret (y # ys)))"

lemma pbind_Ret_right [simp]: "pbind p Ret = p"
  by (induction p) auto

lemma pbind_assoc: "pbind (pbind p f) g = pbind p (\<lambda>x. pbind (f x) g)"
  by (induction p) auto

lemma unwrap_simps [simp]:
  "unwrap m (Some x) = Ret x"
  "unwrap m None = Panic m"
  "unwrap_res m (Inr y) = Ret y"
  "unwrap_res m (Inl e) = Panic m"
  by (simp_all add: unwrap_def unwrap_res_def)

lemma try_bind_simps [simp]:
  "try_bind (Ret (Inr x)) f = f x"
  "try_bind (Ret (Inl e)) f = Ret (Inl e)"
  "try_bind (Panic m) f = Panic m"
  by (simp_all add: try_bind_def)

text \<open>A computation that returns without any effect, and loops of such computations.\<close>

lemma pbind_eq_Ret: "pbind p f = Ret y \<longleftrightarrow> (\<exists>x. p = Ret x \<and> f x = Ret y)"
  by (cases p) auto

lemma unwrap_eq_Ret [simp]:
  "unwrap m v = Ret x \<longleftrightarrow> v = Some x"
  "unwrap_res m' r = Ret y \<longleftrightarrow> r = Inr y"
  by (auto simp: unwrap_def unwrap_res_def split: option.splits sum.splits)

lemma map_proc_eq_Ret: "map_proc f xs = Ret ys \<longleftrightarrow> list_all2 (\<lambda>x y. f x = Ret y) xs ys"
  by (induction xs arbitrary: ys) (auto simp: pbind_eq_Ret list_all2_Cons1)

lemma map_proc_Ret: "(\<And>x. x \<in> set xs \<Longrightarrow> f x = Ret (g x)) \<Longrightarrow> map_proc f xs = Ret (map g xs)"
  by (induction xs) auto

lemma map_proc_Panic:
  "(\<And>x. x \<in> set xs \<Longrightarrow> f x = Ret (g x)) \<Longrightarrow> f y = Panic m \<Longrightarrow>
   map_proc f (xs @ y # zs) = Panic m"
  by (induction xs) auto

text \<open>The value of a computation that returns at once.\<close>

definition proc_value :: "'a proc \<Rightarrow> 'a option" where
  "proc_value p = (case p of Ret x \<Rightarrow> Some x | _ \<Rightarrow> None)"

lemma proc_value_Ret [simp]: "proc_value (Ret x) = Some x" "proc_value (Panic m) = None"
  by (simp_all add: proc_value_def)

text \<open>A computation without effects: it returns or panics.\<close>

named_theorems silentI \<open>introduction rules for computations without effects\<close>

definition silent :: "'a proc \<Rightarrow> bool" where
  "silent p \<longleftrightarrow> (\<exists>y. p = Ret y) \<or> (\<exists>m. p = Panic m)"

lemma silent_simps [simp, intro!, silentI]:
  "silent (Ret y)" "silent (Panic m)" "silent (unwrap m v)" "silent (unwrap_res m r)"
  by (cases v; cases r; simp add: silent_def)+

lemma silent_pbind [intro, silentI]:
  assumes "silent p" and "\<And>x. silent (f x)"
  shows "silent (pbind p f)"
proof (cases p)
  case (Ret y)
  with assms(2) [of y] show ?thesis by simp
qed (use assms(1) in \<open>auto simp: silent_def\<close>)

lemma silent_map_proc [intro, silentI]: "(\<And>x. silent (f x)) \<Longrightarrow> silent (map_proc f xs)"
  by (induction xs) auto

lemma silent_for_each [intro!, silentI]: "(\<And>x. silent (f x)) \<Longrightarrow> silent (for_each f xs)"
  by (induction xs) auto

lemma silent_if [intro, silentI]: "silent p \<Longrightarrow> silent q \<Longrightarrow> silent (if b then p else q)"
  by simp

lemma silent_case_option [intro, silentI]:
  "silent p \<Longrightarrow> (\<And>x. silent (q x)) \<Longrightarrow> silent (case v of None \<Rightarrow> p | Some x \<Rightarrow> q x)"
  by (cases v) auto

lemma silent_case_sum [silentI]:
  "(\<And>e. silent (p e)) \<Longrightarrow> (\<And>x. silent (q x)) \<Longrightarrow> silent (case v of Inl e \<Rightarrow> p e | Inr x \<Rightarrow> q x)"
  by (cases v) auto

lemma silent_case_prod [silentI]: "(\<And>a b. silent (p a b)) \<Longrightarrow> silent (case v of (a, b) \<Rightarrow> p a b)"
  by (cases v) auto

section \<open>Events and replay\<close>

datatype event =
    EKey bytes
  | EU64 u64
  | EUuid Uuid
  | EHttp string JsonRpc "BasicAuth option" http_outcome
  | EWrite string "(string, unit) result"
  | ERead "(string, string) result"
  | ESleep nat
  | EConnect string bool
  | EBind string bool
  | EAccept bool

datatype 'a outcome = Done 'a | Panicked string | OutOfFuel | Stuck

primrec replay :: "'a proc \<Rightarrow> event list \<Rightarrow> 'a outcome \<times> event list" where
  "replay (Ret a) es = (Done a, es)"
| "replay (Panic m) es = (Panicked m, es)"
| "replay NoFuel es = (OutOfFuel, es)"
| "replay (FreshKey k) es =
     (case es of EKey b # es' \<Rightarrow> replay (k b) es' | _ \<Rightarrow> (Stuck, es))"
| "replay (FreshU64 k) es =
     (case es of EU64 b # es' \<Rightarrow> replay (k b) es' | _ \<Rightarrow> (Stuck, es))"
| "replay (FreshUuid k) es =
     (case es of EUuid b # es' \<Rightarrow> replay (k b) es' | _ \<Rightarrow> (Stuck, es))"
| "replay (HttpPost u r a k) es =
     (case es of EHttp u' r' a' out # es' \<Rightarrow>
        (if u' = u \<and> r' = r \<and> a' = a then replay (k out) es' else (Stuck, es))
      | _ \<Rightarrow> (Stuck, es))"
| "replay (WriteStream s k) es =
     (case es of EWrite s' out # es' \<Rightarrow>
        (if s' = s then replay (k out) es' else (Stuck, es))
      | _ \<Rightarrow> (Stuck, es))"
| "replay (ReadLine k) es =
     (case es of ERead out # es' \<Rightarrow> replay (k out) es' | _ \<Rightarrow> (Stuck, es))"
| "replay (Sleep n p) es =
     (case es of ESleep n' # es' \<Rightarrow> (if n' = n then replay p es' else (Stuck, es))
      | _ \<Rightarrow> (Stuck, es))"
| "replay (Connect s k) es =
     (case es of EConnect s' out # es' \<Rightarrow>
        (if s' = s then replay (k out) es' else (Stuck, es))
      | _ \<Rightarrow> (Stuck, es))"
| "replay (Bind s k) es =
     (case es of EBind s' out # es' \<Rightarrow>
        (if s' = s then replay (k out) es' else (Stuck, es))
      | _ \<Rightarrow> (Stuck, es))"
| "replay (Accept k) es =
     (case es of EAccept out # es' \<Rightarrow> replay (k out) es' | _ \<Rightarrow> (Stuck, es))"

text \<open>A run that ends in an outcome, having consumed exactly the given events.\<close>

definition runs_to :: "'a proc \<Rightarrow> event list \<Rightarrow> 'a outcome \<Rightarrow> bool" where
  "runs_to p es r \<longleftrightarrow> replay p es = (r, [])"

text \<open>The node requests a run made, and the lines it wrote and read on the stream.\<close>

fun requests :: "event list \<Rightarrow> (string \<times> JsonRpc) list" where
  "requests [] = []"
| "requests (EHttp u r a out # es) = (u, r) # requests es"
| "requests (_ # es) = requests es"

fun written :: "event list \<Rightarrow> string list" where
  "written [] = []"
| "written (EWrite s out # es) = s # written es"
| "written (_ # es) = written es"

fun lines_read :: "event list \<Rightarrow> string list" where
  "lines_read [] = []"
| "lines_read (ERead (Inr s) # es) = s # lines_read es"
| "lines_read (_ # es) = lines_read es"

lemma replay_pbind:
  "replay (pbind p f) es =
     (case replay p es of
        (Done a, es') \<Rightarrow> replay (f a) es'
      | (Panicked m, es') \<Rightarrow> (Panicked m, es')
      | (OutOfFuel, es') \<Rightarrow> (OutOfFuel, es')
      | (Stuck, es') \<Rightarrow> (Stuck, es'))"
  by (induction p arbitrary: es) (auto split: list.splits event.splits)

lemma replay_fresh_key [simp]:
  "replay (pbind fresh_key f) (EKey b # es) = replay (f b) es"
  by (simp add: fresh_key_def)

lemma replay_silent: "silent p \<Longrightarrow> snd (replay p es) = es"
  by (auto simp: silent_def)

lemma requests_append [simp]: "requests (xs @ ys) = requests xs @ requests ys"
  by (induction xs rule: requests.induct) auto

lemma written_append [simp]: "written (xs @ ys) = written xs @ written ys"
  by (induction xs rule: written.induct) auto

lemma lines_read_append [simp]: "lines_read (xs @ ys) = lines_read xs @ lines_read ys"
  by (induction xs rule: lines_read.induct) auto

text \<open>A run consumes a prefix of the events: what is left over was there.\<close>

lemma replay_suffix: "replay p es = (r, es') \<Longrightarrow> suffix es' es"
  by (induction p arbitrary: es)
    (fastforce split: list.splits event.splits if_splits intro: suffix_ConsI)+

text \<open>A computation that ends on a prefix of the events ends the same way on that prefix alone,
  with more events left over.\<close>

lemma replay_mono:
  "replay p es = (r, es') \<Longrightarrow> r \<noteq> Stuck \<Longrightarrow> replay p (es @ rest) = (r, es' @ rest)"
  by (induction p arbitrary: es) (auto split: list.splits event.splits if_splits)

text \<open>A run that returns uses up the events of a prefix, and runs on that prefix alone.\<close>

lemma replay_suffix_length: "replay p es = (r, es') \<Longrightarrow> length es' \<le> length es"
  using replay_suffix suffix_length_le by blast

lemma replay_stuck:
  "replay p pre = (Stuck, rest) \<Longrightarrow> replay p (pre @ es') = (r, es'') \<Longrightarrow> r = Stuck \<or> length es'' < length es'"
  by (induction p arbitrary: pre)
    (auto simp: replay.simps less_Suc_eq_le dest: replay_suffix_length
      split: list.splits event.splits if_splits)

lemma replay_restrict:
  assumes "replay p (pre @ es') = (Done r, es')"
  shows "replay p pre = (Done r, [])"
proof (cases "replay p pre")
  case (Pair x rest)
  with replay_stuck [of p pre rest es' "Done r" es'] assms have "x \<noteq> Stuck" by auto
  with replay_mono [OF Pair] Pair assms show ?thesis by simp
qed

lemma replay_prefix:
  assumes "replay p es = (Done r, es')"
  obtains pre where "es = pre @ es'" "replay p pre = (Done r, [])"
  using assms replay_suffix [OF assms] replay_restrict [of p _ es' r] by (auto simp: suffix_def)

section \<open>Runs that return\<close>

text \<open>
  The collection \<open>run_simps\<close> takes a run of a computation apart, one step at a time: it states what
  the events and intermediate values of a run that returns have to be.
\<close>

named_theorems run_simps \<open>inversion of runs that return\<close>

lemma run_pbind [run_simps]:
  "replay (pbind p f) es = (Done r, es') \<longleftrightarrow>
   (\<exists>x es1. replay p es = (Done x, es1) \<and> replay (f x) es1 = (Done r, es'))"
  by (auto simp: replay_pbind split: prod.splits outcome.splits)

lemma run_Ret [run_simps]: "replay (Ret x) es = (Done r, es') \<longleftrightarrow> r = x \<and> es' = es"
  by auto

lemma run_Panic [run_simps]: "replay (Panic m) es = (Done r, es') \<longleftrightarrow> False"
  by simp

lemma run_silent: "silent p \<Longrightarrow> replay p es = (Done r, es') \<longleftrightarrow> p = Ret r \<and> es' = es"
  by (auto simp: silent_def)

lemma run_unwrap [run_simps]:
  "replay (unwrap m v) es = (Done r, es') \<longleftrightarrow> v = Some r \<and> es' = es"
  "replay (unwrap_res m w) es = (Done r, es') \<longleftrightarrow> w = Inr r \<and> es' = es"
  by (auto simp: run_silent)

lemma run_fresh_key [run_simps]: "replay fresh_key es = (Done k, es') \<longleftrightarrow> es = EKey k # es'"
  by (auto simp: fresh_key_def split: list.splits event.splits)

lemma run_FreshU64 [run_simps]:
  "replay (FreshU64 k) es = (Done r, es') \<longleftrightarrow> (\<exists>n es1. es = EU64 n # es1 \<and> replay (k n) es1 = (Done r, es'))"
  by (auto split: list.splits event.splits)

lemma run_FreshUuid [run_simps]:
  "replay (FreshUuid k) es = (Done r, es') \<longleftrightarrow> (\<exists>n es1. es = EUuid n # es1 \<and> replay (k n) es1 = (Done r, es'))"
  by (auto split: list.splits event.splits)

lemma run_try_bind [run_simps]:
  "replay (try_bind p f) es = (Done r, es') \<longleftrightarrow>
   (\<exists>e. replay p es = (Done (Inl e), es') \<and> r = Inl e) \<or>
   (\<exists>x es1. replay p es = (Done (Inr x), es1) \<and> replay (f x) es1 = (Done r, es'))"
  unfolding try_bind_def run_pbind
  by (auto split: sum.splits) (metis Inl_Inr_False obj_sumE | blast)+

lemma run_if [run_simps]:
  "replay (if b then p else q) es = (Done r, es') \<longleftrightarrow>
   (b \<and> replay p es = (Done r, es') \<or> \<not> b \<and> replay q es = (Done r, es'))"
  by simp

lemma run_Sleep [run_simps]:
  "replay (Sleep n p) es = (Done r, es') \<longleftrightarrow> (\<exists>es1. es = ESleep n # es1 \<and> replay p es1 = (Done r, es'))"
  by (auto simp: replay.simps split: list.splits event.splits if_splits)

end
