(* ===== verification/Libwallet_Slate.thy ===== *)
theory Libwallet_Slate
  imports Effects
begin

text \<open>
  The slate of the wallet library, \<open>grin-wallet/libwallet/src/slate.rs\<close>, with the part of
  \<open>types.rs\<close> it needs: the data both parties of a transaction build up in turn, the two rounds of
  the signature, and the finished transaction. A method on \<open>&mut self\<close> returns the updated slate.
  None of these methods has an effect on the outside world; those that can panic (an index out
  of range, a failed assertion) are computations of \<open>Effects\<close>, the others return a \<open>result\<close>.
\<close>

section \<open>Data\<close>

datatype WalletError =
    SlateTransactionRequired
  | SlateVersionParse
  | InvalidKernelFeatures u8
  | UnknownKernelFeatures u8
  | KernelFeaturesMissing string
  | CommitError string
  | SecpError
  | LibTXError
  | TransactionError
  | KeychainError
  | FeeError string
  | NotEnoughFunds u64 u64
  | InvalidKeychainMask
  | KeychainDoesntExist
  | UnknownAccountLabel string
  | AccountLabelAlreadyExists string
  | StoreError
  | NotFoundErr
  | PaymentProofError string
  | TransactionDoesntExist string
  | TransactionNotCancellable string
  | TransactionAlreadyReceived string
  | TransactionExpired
  | OnionV3AddressError
  | ED25519KeyError
  | SlateVersionError u16
  | SlatepackSer
  | SlatepackDeserLib
  | AgeError
  | SlatepackDeser string
  | InvalidSlatepackData string
  | GenericError string
  | IOError
  | NodeError string
  | TransactionCancellationError string
  | PaymentProofRetrieval string
  | StoredTxError string
  | SlatepackDecryption string

record SlatepackAddress =
  spa_hrp :: string
  spa_pub_key :: bytes

record InitTxSendArgs =
  its_dest :: string
  its_post_tx :: bool
  its_fluff :: bool
  its_skip_tor :: bool

record InitTxArgs =
  ita_src_acct_name :: "string option"
  ita_amount :: u64
  ita_minimum_confirmations :: u64
  ita_max_outputs :: u32
  ita_num_change_outputs :: u32
  ita_selection_strategy_is_use_all :: bool
  ita_target_slate_version :: "u16 option"
  ita_ttl_blocks :: "u64 option"
  ita_payment_proof_recipient_address :: "SlatepackAddress option"
  ita_estimate_only :: "bool option"
  ita_late_lock :: "bool option"
  ita_send_args :: "InitTxSendArgs option"

record Context =
  parent_key_id :: Identifier
  sec_key :: SecretKey
  sec_nonce :: SecretKey
  initial_sec_key :: SecretKey
  initial_sec_nonce :: SecretKey
  output_ids :: "(Identifier \<times> u64 option \<times> u64) list"
  input_ids :: "(Identifier \<times> u64 option \<times> u64) list"
  ctx_amount :: u64
  ctx_fee :: "FeeFields option"
  payment_proof_derivation_index :: "u32 option"
  late_lock_args :: "InitTxArgs option"
  calculated_excess :: "Commitment option"

record PaymentInfo =
  sender_address :: bytes
  receiver_address :: bytes
  receiver_signature :: "bytes option"

record ParticipantData =
  public_blind_excess :: PublicKey
  public_nonce :: PublicKey
  part_sig :: "Signature option"

datatype SlateState = Unknown | Standard1 | Standard2 | Standard3 | Invoice1 | Invoice2 | Invoice3

record KernelFeaturesArgs =
  lock_height :: u64

record VersionCompatInfo =
  version :: u16
  block_header_version :: u16

record Slate =
  version_info :: VersionCompatInfo
  slate_num_participants :: u8
  slate_id :: Uuid
  slate_state :: SlateState
  slate_tx :: "Transaction option"
  slate_amount :: u64
  fee_fields :: FeeFields
  ttl_cutoff_height :: u64
  slate_kernel_features :: u8
  slate_offset :: BlindingFactor
  participant_data :: "ParticipantData list"
  payment_proof :: "PaymentInfo option"
  kernel_features_args :: "KernelFeaturesArgs option"

definition CURRENT_SLATE_VERSION :: u16 where "CURRENT_SLATE_VERSION = 4"
definition GRIN_BLOCK_HEADER_VERSION :: u16 where "GRIN_BLOCK_HEADER_VERSION = 3"

definition is_complete :: "ParticipantData \<Rightarrow> bool" where
  "is_complete p \<longleftrightarrow> part_sig p \<noteq> None"

section \<open>Making a slate\<close>

definition tx_or_err :: "Slate \<Rightarrow> (WalletError, Transaction) result" where
  "tx_or_err s = ok_or SlateTransactionRequired (slate_tx s)"

definition num_participants :: "Slate \<Rightarrow> u8" where
  "num_participants s = (if slate_num_participants s = 0 then 2 else slate_num_participants s)"

definition compact :: "Slate \<Rightarrow> (WalletError, Slate) result" where
  "compact s = Ok (s\<lparr>slate_tx := None\<rparr>)"

definition empty_transaction :: "('z GrinLib_scheme) \<Rightarrow> Transaction" where
  "empty_transaction G = replace_inputs G (FeaturesAndCommit []) (tx_empty G)"

text \<open>The fresh id is an argument; the caller draws it.\<close>

definition blank_with_kernel_features ::
  "('z GrinLib_scheme) \<Rightarrow> Uuid \<Rightarrow> u8 \<Rightarrow> bool \<Rightarrow> u8 \<Rightarrow> u64 option \<Rightarrow> Slate" where
  "blank_with_kernel_features G uuid np is_invoice kernel_feat_param lock_height_param =
     (let np = (if np = 0 then 2 else np);
          state = (if is_invoice then Invoice1 else Standard1);
          kf = (if kernel_feat_param > 3 then 0 else kernel_feat_param);
          is_height_locked = (lock_height_param \<noteq> None \<and> (kf = 2 \<or> kf = 3));
          kfa = (if is_height_locked
                 then map_option (\<lambda>h. \<lparr>lock_height = h\<rparr>) lock_height_param
                 else None)
      in \<lparr>version_info = \<lparr>version = CURRENT_SLATE_VERSION,
                         block_header_version = GRIN_BLOCK_HEADER_VERSION\<rparr>,
          slate_num_participants = np,
          slate_id = uuid,
          slate_state = state,
          slate_tx = Some (empty_transaction G),
          slate_amount = 0,
          fee_fields = fee_fields_zero G,
          ttl_cutoff_height = 0,
          slate_kernel_features = kf,
          slate_offset = bf_zero G,
          participant_data = [],
          payment_proof = None,
          kernel_features_args = kfa\<rparr>)"

definition blank :: "('z GrinLib_scheme) \<Rightarrow> Uuid \<Rightarrow> u8 \<Rightarrow> bool \<Rightarrow> Slate" where
  "blank G uuid np is_invoice = blank_with_kernel_features G uuid np is_invoice 0 None"

definition remove_other_sigdata ::
  "('z GrinLib_scheme) \<Rightarrow> Slate \<Rightarrow> SecretKey \<Rightarrow> SecretKey \<Rightarrow> (WalletError, Slate) result" where
  "remove_other_sigdata G s nonce key =
     rbind (ok_or SecpError (pk_from_secret_key G nonce)) (\<lambda>pub_nonce.
     rbind (ok_or SecpError (pk_from_secret_key G key)) (\<lambda>pub_key.
     Ok (s\<lparr>participant_data :=
        filter (\<lambda>v. public_nonce v = pub_nonce \<and> public_blind_excess v = pub_key)
          (participant_data s)\<rparr>)))"

section \<open>The kernel\<close>

definition kernel_features :: "('z GrinLib_scheme) \<Rightarrow> Slate \<Rightarrow> (WalletError, KernelFeatures) result" where
  "kernel_features G s =
     (let f = slate_kernel_features s
      in if f = 0 then Ok (KPlain (fee_fields s))
         else if f = 1 then Err (InvalidKernelFeatures 1)
         else if f = 2 then
           (case kernel_features_args s of
              Some a \<Rightarrow> Ok (KHeightLocked (fee_fields s) (lock_height a))
            | None \<Rightarrow> Err (KernelFeaturesMissing ''lock_height''))
         else if f = 3 then
           (case kernel_features_args s of
              Some a \<Rightarrow> rbind (ok_or TransactionError (nrd_relative_height_new G (lock_height a)))
                        (\<lambda>h. Ok (KNoRecentDuplicate (fee_fields s) h))
            | None \<Rightarrow> Err (KernelFeaturesMissing ''lock_height''))
         else Err (UnknownKernelFeatures f))"

definition msg_to_sign :: "('z GrinLib_scheme) \<Rightarrow> Slate \<Rightarrow> (WalletError, Message) result" where
  "msg_to_sign G s =
     rbind (kernel_features G s) (\<lambda>k. ok_or TransactionError (kernel_sig_msg G k))"

definition update_kernel :: "('z GrinLib_scheme) \<Rightarrow> Slate \<Rightarrow> (WalletError, Slate) result" where
  "update_kernel G s =
     rbind (tx_or_err s) (\<lambda>tx.
     rbind (kernel_features G s) (\<lambda>k.
     Ok (s\<lparr>slate_tx := Some (replace_kernel G (kernel_with_features G k) tx)\<rparr>)))"

section \<open>Round 1: keys and nonces\<close>

text \<open>The signature of an entry that is replaced survives: the closure of the filter keeps the
  first one it meets, unless the caller gave one.\<close>

fun kept_part_sig ::
  "PublicKey \<Rightarrow> PublicKey \<Rightarrow> Signature option \<Rightarrow> ParticipantData list \<Rightarrow> Signature option" where
  "kept_part_sig pub_nonce pub_key sig [] = sig"
| "kept_part_sig pub_nonce pub_key sig (v # vs) =
     kept_part_sig pub_nonce pub_key
       (if public_nonce v = pub_nonce \<and> public_blind_excess v = pub_key \<and> sig = None
        then part_sig v else sig) vs"

definition add_participant_info ::
  "('z GrinLib_scheme) \<Rightarrow> Slate \<Rightarrow> Context \<Rightarrow> Signature option \<Rightarrow> (WalletError, Slate) result" where
  "add_participant_info G s ctx sig =
     rbind (ok_or SecpError (pk_from_secret_key G (sec_key ctx))) (\<lambda>pub_key.
     rbind (ok_or SecpError (pk_from_secret_key G (sec_nonce ctx))) (\<lambda>pub_nonce.
     let kept = filter (\<lambda>v. public_nonce v \<noteq> pub_nonce \<or> public_blind_excess v \<noteq> pub_key)
                  (participant_data s);
         sig' = kept_part_sig pub_nonce pub_key sig (participant_data s)
     in Ok (s\<lparr>participant_data := kept @
          [\<lparr>public_blind_excess = pub_key, public_nonce = pub_nonce, part_sig = sig'\<rparr>]\<rparr>)))"

definition fill_round_1 ::
  "('z GrinLib_scheme) \<Rightarrow> Slate \<Rightarrow> Context \<Rightarrow> (WalletError, Slate) result" where
  "fill_round_1 G s ctx = add_participant_info G s ctx None"

section \<open>Round 2: signatures\<close>

definition pub_nonce_sum :: "('z GrinLib_scheme) \<Rightarrow> Slate \<Rightarrow> (WalletError, PublicKey) result" where
  "pub_nonce_sum G s =
     (let pub_nonces = map public_nonce (participant_data s)
      in if pub_nonces = [] then Err (CommitError ''Participant nonces cannot be empty'')
         else ok_or SecpError (pk_from_combination G pub_nonces))"

definition pub_blind_sum :: "('z GrinLib_scheme) \<Rightarrow> Slate \<Rightarrow> (WalletError, PublicKey) result" where
  "pub_blind_sum G s =
     (let pub_blinds = map public_blind_excess (participant_data s)
      in if pub_blinds = [] then Err (CommitError ''Participant Blind sums cannot be empty'')
         else ok_or SecpError (pk_from_combination G pub_blinds))"

definition part_sigs :: "Slate \<Rightarrow> Signature list" where
  "part_sigs s = map (\<lambda>p. the (part_sig p)) (filter (\<lambda>p. part_sig p \<noteq> None) (participant_data s))"

fun verify_part_sigs_loop ::
  "('z GrinLib_scheme) \<Rightarrow> Slate \<Rightarrow> ParticipantData list \<Rightarrow> (WalletError, unit) result" where
  "verify_part_sigs_loop G s [] = Ok ()"
| "verify_part_sigs_loop G s (p # ps) =
     rbind (case part_sig p of
              Some sig \<Rightarrow>
                rbind (pub_nonce_sum G s) (\<lambda>nonce_sum.
                rbind (pub_blind_sum G s) (\<lambda>blind_sum.
                rbind (msg_to_sign G s) (\<lambda>msg.
                if verify_partial_sig G sig nonce_sum (public_blind_excess p) blind_sum msg
                then Ok () else Err LibTXError)))
            | None \<Rightarrow> Ok ())
       (\<lambda>_. verify_part_sigs_loop G s ps)"

definition verify_part_sigs :: "('z GrinLib_scheme) \<Rightarrow> Slate \<Rightarrow> (WalletError, unit) result" where
  "verify_part_sigs G s = verify_part_sigs_loop G s (participant_data s)"

text \<open>The loop that looks for the caller's entry: an index past the participants panics.\<close>

fun set_part_sig ::
  "nat list \<Rightarrow> (ParticipantData \<Rightarrow> bool) \<Rightarrow> Signature \<Rightarrow> ParticipantData list \<Rightarrow> ParticipantData list proc" where
  "set_part_sig [] mine sig ps = Ret ps"
| "set_part_sig (i # is) mine sig ps =
     (if i < length ps
      then (if mine (ps ! i) then Ret (ps[i := (ps ! i)\<lparr>part_sig := Some sig\<rparr>])
            else set_part_sig is mine sig ps)
      else Panic ''index out of bounds'')"

definition my_entry :: "PublicKey \<Rightarrow> PublicKey \<Rightarrow> ParticipantData \<Rightarrow> bool" where
  "my_entry pub_excess pub_nonce p \<longleftrightarrow>
     public_blind_excess p = pub_excess \<and> public_nonce p = pub_nonce"

definition add_my_sig :: "Slate \<Rightarrow> PublicKey \<Rightarrow> PublicKey \<Rightarrow> Signature \<Rightarrow> Slate proc" where
  "add_my_sig s pub_excess pub_nonce sig =
     pbind (set_part_sig [0..<unat (num_participants s)] (my_entry pub_excess pub_nonce) sig
              (participant_data s)) (\<lambda>ps. Ret (s\<lparr>participant_data := ps\<rparr>))"

definition fill_round_2 ::
  "('z GrinLib_scheme) \<Rightarrow> Slate \<Rightarrow> SecretKey \<Rightarrow> SecretKey \<Rightarrow> (WalletError, Slate) result proc" where
  "fill_round_2 G s key nonce =
     (case
        rbind (verify_part_sigs G s) (\<lambda>_.
        rbind (pub_nonce_sum G s) (\<lambda>nonce_sum.
        rbind (pub_blind_sum G s) (\<lambda>blind_sum.
        rbind (msg_to_sign G s) (\<lambda>msg.
        rbind (ok_or LibTXError (calculate_partial_sig G key nonce nonce_sum blind_sum msg)) (\<lambda>sig_part.
        rbind (ok_or SecpError (pk_from_secret_key G key)) (\<lambda>pub_excess.
        rbind (ok_or SecpError (pk_from_secret_key G nonce)) (\<lambda>pub_nonce.
        Ok (sig_part, pub_excess, pub_nonce))))))))
      of
        Inl e \<Rightarrow> Ret (Err e)
      | Inr (sig_part, pub_excess, pub_nonce) \<Rightarrow>
          pbind (add_my_sig s pub_excess pub_nonce sig_part) (\<lambda>s'. Ret (Ok s')))"

section \<open>Finishing the transaction\<close>

definition finalize_signature :: "('z GrinLib_scheme) \<Rightarrow> Slate \<Rightarrow> (WalletError, Signature) result" where
  "finalize_signature G s =
     rbind (verify_part_sigs G s) (\<lambda>_.
     rbind (pub_nonce_sum G s) (\<lambda>nonce_sum.
     rbind (pub_blind_sum G s) (\<lambda>final_pubkey.
     rbind (ok_or LibTXError (add_signatures G (part_sigs s) nonce_sum)) (\<lambda>final_sig.
     rbind (msg_to_sign G s) (\<lambda>msg.
     if verify_completed_sig G final_sig final_pubkey final_pubkey msg
     then Ok final_sig else Err LibTXError)))))"

definition calc_excess :: "('z GrinLib_scheme) \<Rightarrow> Slate \<Rightarrow> (WalletError, Commitment) result" where
  "calc_excess G s =
     rbind (pub_blind_sum G s) (\<lambda>bsum. ok_or SecpError (com_from_pubkey G bsum))"

definition check_fees :: "('z GrinLib_scheme) \<Rightarrow> Slate \<Rightarrow> (WalletError, unit) result" where
  "check_fees G s =
     rbind (tx_or_err s) (\<lambda>tx.
     let fee = tx_fee G (inputs_len G (tx_inputs tx)) (length (tx_outputs tx)) (length (tx_kernels tx))
     in if fee > tx_fee_of G tx (2 * YEAR_HEIGHT G)
        then Err (FeeError (''Fee Dispute Error: '' @ show_u64 (tx_fee_of G tx (2 * YEAR_HEIGHT G)) @
                    '', '' @ show_u64 fee))
        else if fee > slate_amount s + fee_at G (fee_fields s) (2 * YEAR_HEIGHT G)
        then Err (FeeError (''Rejected the transfer because transaction fee ('' @
                    amount_to_hr_string G fee False @ '') exceeds received amount ('' @
                    amount_to_hr_string G
                      (slate_amount s + fee_at G (fee_fields s) (2 * YEAR_HEIGHT G)) False @ '').''))
        else Ok ())"

definition finalize_transaction ::
  "('z GrinLib_scheme) \<Rightarrow> Slate \<Rightarrow> Signature \<Rightarrow> (WalletError, Slate) result proc" where
  "finalize_transaction G s final_sig =
     (case
        rbind (check_fees G s) (\<lambda>_.
        rbind (calc_excess G s) (\<lambda>final_excess.
        rbind (tx_or_err s) (\<lambda>final_tx.
        Ok (final_excess, final_tx))))
      of
        Inl e \<Rightarrow> Ret (Err e)
      | Inr (final_excess, final_tx) \<Rightarrow>
          (if length (tx_kernels final_tx) \<noteq> 1
           then Panic ''assertion failed: final_tx.kernels().len() == 1''
           else
             let kernel = (hd (tx_kernels final_tx))
                            \<lparr>ker_excess := final_excess, ker_excess_sig := final_sig\<rparr>;
                 final_tx = replace_kernel G kernel final_tx
             in case tx_kernels final_tx of
                  [] \<Rightarrow> Panic ''index out of bounds''
                | k # _ \<Rightarrow>
                    (if \<not> kernel_verify G k then Ret (Err TransactionError)
                     else if \<not> tx_validate G final_tx then Ret (Err TransactionError)
                     else Ret (Ok (s\<lparr>slate_tx := Some final_tx\<rparr>)))))"

definition finalize :: "('z GrinLib_scheme) \<Rightarrow> Slate \<Rightarrow> (WalletError, Slate) result proc" where
  "finalize G s =
     (case finalize_signature G s of
        Inl e \<Rightarrow> Ret (Err e)
      | Inr final_sig \<Rightarrow> finalize_transaction G s final_sig)"

section \<open>The offset\<close>

fun sum_ids ::
  "('z GrinLib_scheme) \<Rightarrow> (BlindSum \<Rightarrow> BlindingFactor \<Rightarrow> BlindSum) \<Rightarrow>
   (Identifier \<times> u64 option \<times> u64) list \<Rightarrow> BlindSum \<Rightarrow> (WalletError, BlindSum) result" where
  "sum_ids G comb [] acc = Ok acc"
| "sum_ids G comb ((ident, mmr, amount) # ids) acc =
     rbind (ok_or KeychainError (derive_key G amount ident)) (\<lambda>k.
     sum_ids G comb ids (comb acc (bf_from_secret_key G k)))"

definition adjust_offset :: "('z GrinLib_scheme) \<Rightarrow> Slate \<Rightarrow> Context \<Rightarrow> (WalletError, Slate) result" where
  "adjust_offset G s ctx =
     (let bsum = sub_blinding_factor G (add_blinding_factor G (blind_sum_new G) (slate_offset s))
                  (bf_from_secret_key G (initial_sec_key ctx))
      in rbind (sum_ids G (sub_blinding_factor G) (input_ids ctx) bsum) (\<lambda>bsum.
         rbind (sum_ids G (add_blinding_factor G) (output_ids ctx) bsum) (\<lambda>bsum.
         rbind (ok_or KeychainError (blind_sum G bsum)) (\<lambda>off.
         Ok (s\<lparr>slate_offset := off\<rparr>)))))"

section \<open>What the rounds keep\<close>

lemma kernel_features_cong:
  "slate_kernel_features s' = slate_kernel_features s \<Longrightarrow> fee_fields s' = fee_fields s \<Longrightarrow>
   kernel_features_args s' = kernel_features_args s \<Longrightarrow> kernel_features G s' = kernel_features G s"
  unfolding kernel_features_def by (simp only:)

lemma kernel_features_update [simp]:
  "kernel_features G (s\<lparr>slate_tx := t\<rparr>) = kernel_features G s"
  "kernel_features G (s\<lparr>participant_data := ps\<rparr>) = kernel_features G s"
  by (rule kernel_features_cong; simp)+

lemma msg_to_sign_update [simp]:
  "msg_to_sign G (s\<lparr>slate_tx := t\<rparr>) = msg_to_sign G s"
  "msg_to_sign G (s\<lparr>participant_data := ps\<rparr>) = msg_to_sign G s"
  by (simp_all add: msg_to_sign_def)

lemma sums_update_tx [simp]:
  "pub_nonce_sum G (s\<lparr>slate_tx := t\<rparr>) = pub_nonce_sum G s"
  "pub_blind_sum G (s\<lparr>slate_tx := t\<rparr>) = pub_blind_sum G s"
  "num_participants (s\<lparr>slate_tx := t\<rparr>) = num_participants s"
  "num_participants (s\<lparr>participant_data := ps\<rparr>) = num_participants s"
  by (simp_all add: pub_nonce_sum_def pub_blind_sum_def num_participants_def)

lemma kept_part_sig_Some [simp]: "kept_part_sig n k (Some sig) vs = Some sig"
  by (induction vs) auto

lemma kept_part_sig_none_mine:
  "\<forall>v \<in> set vs. \<not> my_entry k n v \<Longrightarrow> kept_part_sig n k sig vs = sig"
  by (induction vs) (auto simp: my_entry_def)

lemma kept_part_sig_unique:
  assumes "filter (my_entry k n) vs = [v]"
  shows "kept_part_sig n k None vs = part_sig v"
  using assms
proof (induction vs)
  case (Cons u vs)
  show ?case
  proof (cases "my_entry k n u")
    case True
    with Cons.prems have "u = v" "filter (my_entry k n) vs = []" by simp_all
    then have "\<forall>w \<in> set vs. \<not> my_entry k n w" by (simp add: filter_empty_conv)
    with True \<open>u = v\<close> show ?thesis
      using kept_part_sig_none_mine [of vs k n] by (simp add: my_entry_def)
  next
    case False
    then have "kept_part_sig n k None (u # vs) = kept_part_sig n k None vs"
      by (auto simp: my_entry_def)
    with False Cons show ?thesis by simp
  qed
qed simp

lemma filter_distinct_key:
  "distinct (map f xs) \<Longrightarrow> x \<in> set xs \<Longrightarrow> filter (\<lambda>y. f y = f x) xs = [x]"
proof (induction xs)
  case (Cons a xs)
  show ?case
  proof (cases "a = x")
    case True
    with Cons.prems have "\<forall>y \<in> set xs. f y \<noteq> f x" by (metis distinct.simps(2) imageI list.simps(9) set_map)
    with True show ?thesis by (simp add: filter_empty_conv)
  next
    case False
    with Cons have "f a \<noteq> f x" by (metis distinct.simps(2) imageI list.simps(9) set_ConsD set_map)
    with Cons False show ?thesis by simp
  qed
qed simp

text \<open>The keys of an entry, which identify a participant.\<close>

definition entry_keys :: "ParticipantData \<Rightarrow> PublicKey \<times> PublicKey" where
  "entry_keys p = (public_blind_excess p, public_nonce p)"

lemma my_entry_keys: "my_entry k n p \<longleftrightarrow> entry_keys p = (k, n)"
  by (simp add: my_entry_def entry_keys_def)

text \<open>The invariant of a slate's participants: nobody is listed twice.\<close>

definition distinct_participants :: "Slate \<Rightarrow> bool" where
  "distinct_participants s \<longleftrightarrow> distinct (map entry_keys (participant_data s))"

lemma add_participant_info_Ok:
  assumes "add_participant_info G s ctx sig = Ok s'"
  obtains k n where "pk_from_secret_key G (sec_key ctx) = Some k"
    "pk_from_secret_key G (sec_nonce ctx) = Some n"
    "s' = s\<lparr>participant_data := filter (\<lambda>v. \<not> my_entry k n v) (participant_data s) @
       [\<lparr>public_blind_excess = k, public_nonce = n,
         part_sig = kept_part_sig n k sig (participant_data s)\<rparr>]\<rparr>"
proof -
  have "(\<lambda>v. public_nonce v \<noteq> n \<or> public_blind_excess v \<noteq> k) = (\<lambda>v. \<not> my_entry k n v)" for k n
    by (auto simp: my_entry_def)
  with assms that show thesis by (auto simp: add_participant_info_def rbind_eq_Ok Let_def)
qed

lemma add_participant_info_distinct:
  assumes "add_participant_info G s ctx sig = Ok s'" and "distinct_participants s"
  shows "distinct_participants s'"
  using assms(1)
proof (rule add_participant_info_Ok)
  fix k n
  assume s': "s' = s\<lparr>participant_data := filter (\<lambda>v. \<not> my_entry k n v) (participant_data s) @
       [\<lparr>public_blind_excess = k, public_nonce = n,
         part_sig = kept_part_sig n k sig (participant_data s)\<rparr>]\<rparr>"
  have "distinct (map entry_keys (filter (\<lambda>v. \<not> my_entry k n v) (participant_data s)))"
    using assms(2) by (simp add: distinct_participants_def distinct_map_filter)
  with s' show ?thesis
    by (auto simp: distinct_participants_def my_entry_keys entry_keys_def [of "_\<lparr>public_nonce := _\<rparr>"]
        entry_keys_def [of "\<lparr>public_blind_excess = _, public_nonce = _, part_sig = _\<rparr>"])
qed

lemma set_part_sig_Ret:
  "set_part_sig is mine sig ps = Ret ps' \<Longrightarrow>
   ps' = ps \<and> (\<forall>i \<in> set is. \<not> mine (ps ! i)) \<or>
   (\<exists>i \<in> set is. i < length ps \<and> mine (ps ! i) \<and> ps' = ps[i := (ps ! i)\<lparr>part_sig := Some sig\<rparr>])"
  by (induction "is") (auto split: if_splits)

lemma set_part_sig_first:
  assumes "i < length ps" "mine (ps ! i)" "\<And>j. j < i \<Longrightarrow> \<not> mine (ps ! j)" "a \<le> i" "i < n"
  shows "set_part_sig [a..<n] mine sig ps = Ret (ps[i := (ps ! i)\<lparr>part_sig := Some sig\<rparr>])"
  using assms(4)
proof (induction "i - a" arbitrary: a)
  case 0
  then have "a = i" by simp
  with assms show ?case by (simp add: upt_conv_Cons)
next
  case (Suc d)
  then have "a < i" by simp
  moreover have "set_part_sig [Suc a..<n] mine sig ps = Ret (ps[i := (ps ! i)\<lparr>part_sig := Some sig\<rparr>])"
    using Suc by (intro Suc.hyps(1)) auto
  ultimately show ?case using assms by (simp add: upt_conv_Cons)
qed

lemma entry_keys_update_sig [simp]: "entry_keys (p\<lparr>part_sig := sig\<rparr>) = entry_keys p"
  by (simp add: entry_keys_def)

lemma add_my_sig_keys:
  assumes "add_my_sig s k n sig = Ret s'"
  shows "map entry_keys (participant_data s') = map entry_keys (participant_data s)"
    and "s'\<lparr>participant_data := []\<rparr> = s\<lparr>participant_data := []\<rparr>"
  using assms set_part_sig_Ret [of _ _ sig "participant_data s"]
  by (auto simp: add_my_sig_def pbind_eq_Ret map_update list_update_id dest!: set_part_sig_Ret)
    (metis entry_keys_update_sig list_update_id map_update nth_map)

lemma silent_set_part_sig [intro!, silentI]: "silent (set_part_sig is mine sig ps)"
  by (induction "is") auto

lemma silent_add_my_sig [intro!, silentI]: "silent (add_my_sig s k n sig)"
  unfolding add_my_sig_def by auto

lemma silent_fill_round_2 [intro!, silentI]: "silent (fill_round_2 G s key nonce)"
  unfolding fill_round_2_def by (auto split: sum.split prod.split)

lemma silent_finalize [intro!, silentI]: "silent (finalize G s)"
  unfolding finalize_def finalize_transaction_def Let_def
  by (auto split: sum.split prod.split list.split)

lemma verify_part_sigs_loop_Ok:
  "verify_part_sigs_loop G s ps = Ok () \<longleftrightarrow>
   (\<forall>p \<in> set ps. \<forall>sig. part_sig p = Some sig \<longrightarrow>
      (\<exists>ns bs msg. pub_nonce_sum G s = Ok ns \<and> pub_blind_sum G s = Ok bs \<and> msg_to_sign G s = Ok msg \<and>
         verify_partial_sig G sig ns (public_blind_excess p) bs msg))"
  by (induction ps) (auto simp: rbind_eq_Ok split: option.splits if_splits)

lemma verify_part_sigs_Ok:
  "verify_part_sigs G s = Ok () \<longleftrightarrow>
   (\<forall>p \<in> set (participant_data s). \<forall>sig. part_sig p = Some sig \<longrightarrow>
      (\<exists>ns bs msg. pub_nonce_sum G s = Ok ns \<and> pub_blind_sum G s = Ok bs \<and> msg_to_sign G s = Ok msg \<and>
         verify_partial_sig G sig ns (public_blind_excess p) bs msg))"
  by (simp add: verify_part_sigs_def verify_part_sigs_loop_Ok)

section \<open>The life of a slate\<close>

text \<open>What both parties agree on when the slate is made: no later operation may change it.\<close>

definition slate_terms ::
  "Slate \<Rightarrow> Uuid \<times> u8 \<times> u64 \<times> FeeFields \<times> u64 \<times> u8 \<times> KernelFeaturesArgs option \<times> BlindingFactor" where
  "slate_terms s =
     (slate_id s, slate_num_participants s, slate_amount s, fee_fields s, ttl_cutoff_height s,
      slate_kernel_features s, kernel_features_args s, slate_offset s)"

text \<open>
  The contract of an operation that the parties apply to a shared slate: it keeps the agreed
  terms and never lists a participant twice. What holds of each step then holds of every
  sequence of steps, whoever takes them.
\<close>

locale slate_step =
  fixes step :: "Slate \<Rightarrow> Slate \<Rightarrow> bool"
  assumes keeps_terms: "step s s' \<Longrightarrow> slate_terms s' = slate_terms s"
    and keeps_distinct: "step s s' \<Longrightarrow> distinct_participants s \<Longrightarrow> distinct_participants s'"
begin

lemma steps_keep_terms: "step\<^sup>*\<^sup>* s s' \<Longrightarrow> slate_terms s' = slate_terms s"
  by (induction rule: rtranclp_induct) (simp_all add: keeps_terms)

lemma steps_keep_distinct: "step\<^sup>*\<^sup>* s s' \<Longrightarrow> distinct_participants s \<Longrightarrow> distinct_participants s'"
  by (induction rule: rtranclp_induct) (simp_all add: keeps_distinct)

end

text \<open>A successful call of one of the library's operations on a slate in progress.\<close>

inductive slate_op :: "('z GrinLib_scheme) \<Rightarrow> Slate \<Rightarrow> Slate \<Rightarrow> bool" for G where
  Round1: "fill_round_1 G s ctx = Ok s' \<Longrightarrow> slate_op G s s'"
| Round2: "fill_round_2 G s key nonce = Ret (Ok s') \<Longrightarrow> slate_op G s s'"
| UpdateKernel: "update_kernel G s = Ok s' \<Longrightarrow> slate_op G s s'"
| Compact: "compact s = Ok s' \<Longrightarrow> slate_op G s s'"
| RemoveOther: "remove_other_sigdata G s nonce key = Ok s' \<Longrightarrow> slate_op G s s'"
| Finalize: "finalize G s = Ret (Ok s') \<Longrightarrow> slate_op G s s'"

inductive_cases slate_opE: "slate_op G s s'"

lemma fill_round_2_Ok:
  "fill_round_2 G s key nonce = Ret (Ok s') \<longleftrightarrow>
   (\<exists>ns bs msg sig k n. verify_part_sigs G s = Ok () \<and> pub_nonce_sum G s = Ok ns \<and>
      pub_blind_sum G s = Ok bs \<and> msg_to_sign G s = Ok msg \<and>
      calculate_partial_sig G key nonce ns bs msg = Some sig \<and>
      pk_from_secret_key G key = Some k \<and> pk_from_secret_key G nonce = Some n \<and>
      add_my_sig s k n sig = Ret s')"
  unfolding fill_round_2_def
  by (auto simp: pbind_eq_Ret rbind_eq_Ok split: sum.splits prod.splits)

lemma finalize_Ok:
  "finalize G s = Ret (Ok s') \<longleftrightarrow>
   (\<exists>sig excess tx k tx'. finalize_signature G s = Ok sig \<and> check_fees G s = Ok () \<and>
      calc_excess G s = Ok excess \<and> slate_tx s = Some tx \<and> tx_kernels tx = [k] \<and>
      tx' = replace_kernel G (k\<lparr>ker_excess := excess, ker_excess_sig := sig\<rparr>) tx \<and>
      (\<exists>k' ks. tx_kernels tx' = k' # ks \<and> kernel_verify G k') \<and> tx_validate G tx' \<and>
      s' = s\<lparr>slate_tx := Some tx'\<rparr>)"
  unfolding finalize_def finalize_transaction_def Let_def
  by (auto simp: rbind_eq_Ok tx_or_err_def length_Suc_conv split: sum.splits prod.splits list.splits if_splits)

lemma add_my_sig_terms: "add_my_sig s k n sig = Ret s' \<Longrightarrow> slate_terms s' = slate_terms s"
  by (auto simp: add_my_sig_def pbind_eq_Ret slate_terms_def)

lemma slate_op_terms: "slate_op G s s' \<Longrightarrow> slate_terms s' = slate_terms s"
  by (erule slate_opE)
    (auto simp: fill_round_1_def fill_round_2_Ok finalize_Ok compact_def update_kernel_def
      remove_other_sigdata_def rbind_eq_Ok slate_terms_def
      dest: add_my_sig_terms elim!: add_participant_info_Ok)

lemma slate_op_distinct:
  assumes "slate_op G s s'" and "distinct_participants s"
  shows "distinct_participants s'"
  using assms(1)
proof cases
  case (Round1 ctx)
  with assms(2) show ?thesis by (auto simp: fill_round_1_def intro: add_participant_info_distinct)
next
  case (Round2 key nonce)
  then obtain k n sig where "add_my_sig s k n sig = Ret s'" by (auto simp: fill_round_2_Ok)
  from add_my_sig_keys(1) [OF this] assms(2) show ?thesis by (simp add: distinct_participants_def)
next
  case (RemoveOther nonce key)
  with assms(2) show ?thesis
    by (auto simp: remove_other_sigdata_def rbind_eq_Ok distinct_participants_def distinct_map_filter)
qed (use assms(2) in \<open>auto simp: update_kernel_def compact_def finalize_Ok rbind_eq_Ok
       distinct_participants_def\<close>)

interpretation slate_life: slate_step "slate_op G" for G :: "'z GrinLib_scheme"
  by unfold_locales (auto dest: slate_op_terms slate_op_distinct)

lemma blank_distinct [simp]: "distinct_participants (blank_with_kernel_features G u n i k h)"
  by (simp add: blank_with_kernel_features_def distinct_participants_def Let_def)

section \<open>Properties\<close>


text \<open>
  Round 1 registers the caller once and touches nobody else: afterwards exactly one entry
  carries the caller's two public keys, it is the last one and keeps a signature it already had,
  and the other entries are there unchanged and in their order.
\<close>

theorem fill_round_1_registers:
  assumes "fill_round_1 G s ctx = Ok s'" and "distinct_participants s"
  shows "\<exists>k n e. pk_from_secret_key G (sec_key ctx) = Some k \<and>
           pk_from_secret_key G (sec_nonce ctx) = Some n \<and>
           participant_data s' = filter (\<lambda>p. \<not> my_entry k n p) (participant_data s) @ [e] \<and>
           entry_keys e = (k, n) \<and>
           (\<forall>p \<in> set (participant_data s). my_entry k n p \<longrightarrow> part_sig e = part_sig p) \<and>
           (\<forall>p \<in> set (participant_data s'). my_entry k n p \<longrightarrow> p = e)"
  using assms(1) unfolding fill_round_1_def
proof (rule add_participant_info_Ok)
  fix k n
  let ?e = "\<lparr>public_blind_excess = k, public_nonce = n,
      part_sig = kept_part_sig n k None (participant_data s)\<rparr>"
  assume kn: "pk_from_secret_key G (sec_key ctx) = Some k" "pk_from_secret_key G (sec_nonce ctx) = Some n"
    and s': "s' = s\<lparr>participant_data := filter (\<lambda>v. \<not> my_entry k n v) (participant_data s) @ [?e]\<rparr>"
  have "part_sig ?e = part_sig p" if "p \<in> set (participant_data s)" "my_entry k n p" for p
  proof -
    have "filter (my_entry k n) (participant_data s) = [p]"
      using filter_distinct_key [of entry_keys "participant_data s" p] that assms(2)
      by (simp add: distinct_participants_def my_entry_keys [abs_def])
    from kept_part_sig_unique [OF this] show ?thesis by simp
  qed
  with kn s' show ?thesis by (intro exI [of _ k] exI [of _ n] exI [of _ ?e]) (auto simp: entry_keys_def)
qed

lemma set_part_sig_map:
  assumes "set_part_sig [0..<n] mine sig ps = Ret ps'" and "length ps \<le> n"
    and "\<And>i j. i < length ps \<Longrightarrow> j < length ps \<Longrightarrow> mine (ps ! i) \<Longrightarrow> mine (ps ! j) \<Longrightarrow> i = j"
  shows "ps' = map (\<lambda>p. if mine p then p\<lparr>part_sig := Some sig\<rparr> else p) ps"
  using set_part_sig_Ret [OF assms(1)]
proof (elim disjE conjE bexE)
  assume "ps' = ps" "\<forall>i \<in> set [0..<n]. \<not> mine (ps ! i)"
  with assms(2) show ?thesis by (auto intro!: nth_equalityI)
next
  fix i
  assume i: "i < length ps" "mine (ps ! i)" "ps' = ps[i := (ps ! i)\<lparr>part_sig := Some sig\<rparr>]"
  show ?thesis
  proof (rule nth_equalityI)
    fix j
    assume "j < length ps'"
    then have "j < length ps" using i by simp
    with i assms(3) show "ps' ! j = map (\<lambda>p. if mine p then p\<lparr>part_sig := Some sig\<rparr> else p) ps ! j"
      by (cases "i = j") auto
  qed (use i in simp)
qed

lemma distinct_entry_index:
  assumes "distinct_participants s" "i < length (participant_data s)" "j < length (participant_data s)"
    "my_entry k n (participant_data s ! i)" "my_entry k n (participant_data s ! j)"
  shows "i = j"
  using assms nth_eq_iff_index_eq [of "map entry_keys (participant_data s)" i j]
  by (simp add: distinct_participants_def my_entry_keys)

text \<open>
  Round 2 signs for the caller only, and only over checked data: it succeeds only where every
  signature already on the slate verifies against the sums of all nonces and keys and the kernel
  message, and then sets the partial signature over those in the caller's entry and nowhere else.
\<close>

theorem fill_round_2_signs:
  assumes "fill_round_2 G s key nonce = Ret (Ok s')" and "distinct_participants s"
    and "length (participant_data s) \<le> unat (num_participants s)"
  shows "\<exists>k n ns bs msg sig. pk_from_secret_key G key = Some k \<and> pk_from_secret_key G nonce = Some n \<and>
           pub_nonce_sum G s = Ok ns \<and> pub_blind_sum G s = Ok bs \<and> msg_to_sign G s = Ok msg \<and>
           (\<forall>p \<in> set (participant_data s). \<forall>old. part_sig p = Some old \<longrightarrow>
              verify_partial_sig G old ns (public_blind_excess p) bs msg) \<and>
           calculate_partial_sig G key nonce ns bs msg = Some sig \<and>
           s' = s\<lparr>participant_data :=
             map (\<lambda>p. if my_entry k n p then p\<lparr>part_sig := Some sig\<rparr> else p) (participant_data s)\<rparr>"
proof -
  from assms(1) obtain k n ns bs msg sig where
    f: "verify_part_sigs G s = Ok ()" "pub_nonce_sum G s = Ok ns" "pub_blind_sum G s = Ok bs"
      "msg_to_sign G s = Ok msg" "calculate_partial_sig G key nonce ns bs msg = Some sig"
      "pk_from_secret_key G key = Some k" "pk_from_secret_key G nonce = Some n"
    and a: "add_my_sig s k n sig = Ret s'"
    by (auto simp: fill_round_2_Ok)
  from a obtain ps where
    ps: "set_part_sig [0..<unat (num_participants s)] (my_entry k n) sig (participant_data s) = Ret ps"
      "s' = s\<lparr>participant_data := ps\<rparr>"
    by (auto simp: add_my_sig_def pbind_eq_Ret)
  have "ps = map (\<lambda>p. if my_entry k n p then p\<lparr>part_sig := Some sig\<rparr> else p) (participant_data s)"
    by (rule set_part_sig_map [OF ps(1) assms(3)]) (rule distinct_entry_index [OF assms(2)])
  with f ps(2) show ?thesis
    by (intro exI conjI) (auto simp: verify_part_sigs_Ok)
qed

text \<open>
  C35. Nothing leaves finalisation unchecked: it succeeds only when every partial signature and the
  aggregated one verify, the fee is sufficient, and the transaction with the completed kernel
  passes the kernel and the transaction validation; the slate changes in its transaction only.
\<close>

theorem finalize_only_valid:
  assumes "finalize G s = Ret (Ok s')"
  shows "\<exists>ns bs msg sig excess tx k.
           pub_nonce_sum G s = Ok ns \<and> pub_blind_sum G s = Ok bs \<and> msg_to_sign G s = Ok msg \<and>
           (\<forall>p \<in> set (participant_data s). \<forall>old. part_sig p = Some old \<longrightarrow>
              verify_partial_sig G old ns (public_blind_excess p) bs msg) \<and>
           add_signatures G (part_sigs s) ns = Some sig \<and> verify_completed_sig G sig bs bs msg \<and>
           com_from_pubkey G bs = Some excess \<and>
           slate_tx s = Some tx \<and> tx_kernels tx = [k] \<and>
           tx_fee G (inputs_len G (tx_inputs tx)) (length (tx_outputs tx)) 1
             \<le> tx_fee_of G tx (2 * YEAR_HEIGHT G) \<and>
           s' = s\<lparr>slate_tx :=
             Some (replace_kernel G (k\<lparr>ker_excess := excess, ker_excess_sig := sig\<rparr>) tx)\<rparr> \<and>
           tx_validate G (replace_kernel G (k\<lparr>ker_excess := excess, ker_excess_sig := sig\<rparr>) tx)"
  using assms
  by (auto simp: finalize_Ok finalize_signature_def calc_excess_def check_fees_def tx_or_err_def Let_def
      rbind_eq_Ok verify_part_sigs_Ok not_less split: if_splits)

end
