(* ===== verification/Btc_Lib.thy ===== *)
theory Btc_Lib
  imports Effects
begin

text \<open>
  The interface of the \<open>bitcoin\<close> crate (and of its \<open>secp256k1\<close>), which is not part of the
  repository: the data types the code takes apart, the functions as fields of a record that
  extends \<open>GrinLib\<close>, and predicates for documented behaviour. A script under construction is the
  list of calls made on \<open>script::Builder\<close>; how they are encoded is the field \<open>into_script\<close>.
\<close>

section \<open>Data of the \<open>bitcoin\<close> crate\<close>

datatype Network = Testnet | Bitcoin

record PrivateKey =
  pk_compressed :: bool
  pk_network :: Network
  pk_key :: bytes

type_synonym BtcPublicKey = bytes
type_synonym Script = bytes
type_synonym Txid = bytes
type_synonym Address = string
type_synonym BtcSig = bytes

datatype opcode =
    OP_IF | OP_ELSE | OP_ENDIF | OP_CLTV | OP_DROP | OP_CHECKSIG | OP_CHECKMULTISIG
  | OP_PUSHNUM_2 | OP_PUSHBYTES_0

datatype build_op =
    PushOpcode opcode
  | PushInt i64
  | PushKey BtcPublicKey
  | PushSlice bytes

record OutPoint =
  op_txid :: Txid
  op_vout :: u32

record TxIn =
  previous_output :: OutPoint
  script_sig :: Script
  sequence :: u32
  witness :: "bytes list"

record TxOut =
  txo_value :: u64
  script_pubkey :: Script

record BtcTransaction =
  btx_version :: int
  btx_lock_time :: u32
  btx_input :: "TxIn list"
  btx_output :: "TxOut list"

section \<open>Functions of the \<open>bitcoin\<close> crate\<close>

text \<open>Scripts, addresses and transactions\<close>

record ScriptLib = GrinLib +
  into_script :: "build_op list \<Rightarrow> Script"
  script_hash :: "Script \<Rightarrow> bytes"
  new_p2sh :: "bytes \<Rightarrow> Script"
  new_p2pkh :: "bytes \<Rightarrow> Script"
  pubkey_hash :: "BtcPublicKey \<Rightarrow> bytes"
  address_from_script :: "Script \<Rightarrow> Network \<Rightarrow> Address option"
  txid_from_str :: "string \<Rightarrow> Txid option"
  txid_to_string :: "Txid \<Rightarrow> string"
  tx_txid :: "BtcTransaction \<Rightarrow> Txid"
  btx_serialize :: "BtcTransaction \<Rightarrow> bytes"
  btx_deserialize :: "bytes \<Rightarrow> BtcTransaction option"
  signature_hash :: "BtcTransaction \<Rightarrow> nat \<Rightarrow> Script \<Rightarrow> u8 \<Rightarrow> bytes"

text \<open>Keys and signatures\<close>

record BtcLib = ScriptLib +
  message_from_slice :: "bytes \<Rightarrow> Message option"
  ecdsa_sign :: "Message \<Rightarrow> bytes \<Rightarrow> BtcSig"
  ecdsa_verify :: "Message \<Rightarrow> BtcSig \<Rightarrow> BtcPublicKey \<Rightarrow> bool"
  serialize_der :: "BtcSig \<Rightarrow> bytes"
  public_key :: "PrivateKey \<Rightarrow> BtcPublicKey"
  to_wif :: "PrivateKey \<Rightarrow> string"
  from_wif :: "string \<Rightarrow> PrivateKey option"
  btc_pk_to_string :: "BtcPublicKey \<Rightarrow> string"
  btc_pk_from_str :: "string \<Rightarrow> BtcPublicKey option"
  btc_pk_to_bytes :: "BtcPublicKey \<Rightarrow> bytes"
  btc_sk_from_slice :: "bytes \<Rightarrow> bytes option"

section \<open>Documented behaviour the theorems may rely on\<close>

text \<open>Text forms: a key's WIF and a public key's text are read back as the same key, and neither
  has a line break.\<close>

definition key_text_laws :: "('z BtcLib_scheme) \<Rightarrow> bool" where
  "key_text_laws L \<longleftrightarrow>
     (\<forall>sk. valid_sk (pk_key sk) \<longrightarrow> from_wif L (to_wif L sk) = Some sk) \<and>
     (\<forall>sk. valid_sk (pk_key sk) \<longrightarrow>
        btc_pk_from_str L (btc_pk_to_string L (public_key L sk)) = Some (public_key L sk)) \<and>
     (\<forall>p. newline \<notin> set (btc_pk_to_string L p))"

text \<open>Both \<open>secp256k1\<close> wrappers accept the same secret scalars, and a message is 32 bytes.\<close>

definition btc_scalar_laws :: "('z BtcLib_scheme) \<Rightarrow> bool" where
  "btc_scalar_laws L \<longleftrightarrow>
     (\<forall>b. btc_sk_from_slice L b = (if valid_sk b then Some b else None)) \<and>
     (\<forall>b. message_from_slice L b = (if length b = 32 then Some b else None)) \<and>
     (\<forall>tx i s h. length (signature_hash L tx i s h) = 32)"

text \<open>A testnet address can be made from any pay-to-script-hash script.\<close>

definition p2sh_address_laws :: "('z BtcLib_scheme) \<Rightarrow> bool" where
  "p2sh_address_laws L \<longleftrightarrow>
     (\<forall>h. \<exists>a. address_from_script L (new_p2sh L h) Testnet = Some a \<and> newline \<notin> set a)"

end
