(* ===== verification/Config.thy ===== *)
theory Config
  imports Effects
begin

text \<open>
  \<open>constants.rs\<close>, \<open>enums.rs\<close>, \<open>settings.rs\<close> and the settings part of \<open>main.rs\<close>.
\<close>

section \<open>\<open>constants.rs\<close>\<close>

definition BTC_SATS :: u64 where "BTC_SATS = 100000000"
definition NANO_GRIN :: u64 where "NANO_GRIN = 1000000000"
definition GRIN_MAX_NANOGRIN :: u64 where "GRIN_MAX_NANOGRIN = 10000000 * NANO_GRIN"
definition BTC_MAX_SATS :: u64 where "BTC_MAX_SATS = 21000000 * 100000000"
definition MAX_TIMEOUT :: u64 where "MAX_TIMEOUT = 60 * 24 * 5"
definition BTC_BLOCK_TIME :: u64 where "BTC_BLOCK_TIME = 10"
definition GRIN_BLOCK_TIME :: u64 where "GRIN_BLOCK_TIME = 1"
definition TEST_NET :: bool where "TEST_NET = True"
definition FFFFFFFF :: u32 where "FFFFFFFF = 4294967295"
definition SIGHASH_ALL :: u8 where "SIGHASH_ALL = 0x01"
definition BTC_FEE :: u64 where "BTC_FEE = 500"
definition MAX_ATTEMPTS_VERF_FUNDS :: nat where "MAX_ATTEMPTS_VERF_FUNDS = 120"

lemmas constants_simps =
  BTC_SATS_def NANO_GRIN_def GRIN_MAX_NANOGRIN_def BTC_MAX_SATS_def MAX_TIMEOUT_def
  BTC_BLOCK_TIME_def GRIN_BLOCK_TIME_def TEST_NET_def FFFFFFFF_def SIGHASH_ALL_def BTC_FEE_def
  MAX_ATTEMPTS_VERF_FUNDS_def

section \<open>\<open>enums.rs\<close>\<close>

datatype Currency = BTC | GRIN

definition parse_currency_from_string :: "string \<Rightarrow> Currency proc" where
  "parse_currency_from_string cur =
     (if to_uppercase cur = ''BTC'' \<or> to_uppercase cur = ''BITCOIN'' then Ret BTC
      else if to_uppercase cur = ''GRIN'' then Ret GRIN
      else Panic ''Invalid Currency provided'')"

datatype SwapStatus = INITIALIZED | SETUP | EXECUTING | FINISHED | FAILED

datatype SwapType = OFFERED | REQUESTED

text \<open>The order in which a swap goes through its states; the two end states are the largest.\<close>

instantiation SwapStatus :: linorder
begin

fun status_rank :: "SwapStatus \<Rightarrow> nat" where
  "status_rank INITIALIZED = 0"
| "status_rank SETUP = 1"
| "status_rank EXECUTING = 2"
| "status_rank FINISHED = 3"
| "status_rank FAILED = 4"

definition less_eq_SwapStatus :: "SwapStatus \<Rightarrow> SwapStatus \<Rightarrow> bool" where
  "less_eq_SwapStatus a b \<longleftrightarrow> status_rank a \<le> status_rank b"

definition less_SwapStatus :: "SwapStatus \<Rightarrow> SwapStatus \<Rightarrow> bool" where
  "less_SwapStatus a b \<longleftrightarrow> status_rank a < status_rank b"

instance
proof
  fix x y z :: SwapStatus
  show "(x < y) = (x \<le> y \<and> \<not> y \<le> x)"
    by (auto simp: less_eq_SwapStatus_def less_SwapStatus_def)
  show "x \<le> x" by (simp add: less_eq_SwapStatus_def)
  show "x \<le> y \<Longrightarrow> y \<le> z \<Longrightarrow> x \<le> z" by (simp add: less_eq_SwapStatus_def)
  show "x \<le> y \<Longrightarrow> y \<le> x \<Longrightarrow> x = y"
    by (cases x; cases y) (simp_all add: less_eq_SwapStatus_def)
  show "x \<le> y \<or> y \<le> x" by (auto simp: less_eq_SwapStatus_def)
qed

end

lemma status_le_simps [simp]:
  "INITIALIZED \<le> s" "s \<le> FAILED" "SETUP \<le> EXECUTING" "SETUP \<le> FINISHED" "EXECUTING \<le> FINISHED"
  by (cases s; simp add: less_eq_SwapStatus_def)+

section \<open>\<open>settings.rs\<close>\<close>

record NodeSettings =
  node_url :: string
  node_user :: string
  node_pass :: string
  node_port :: u16
  node_id :: string

type_synonym BtcNodeSettings = NodeSettings
type_synonym GrinNodeSettings = NodeSettings

record Settings =
  btc_settings :: BtcNodeSettings
  grin_settings :: GrinNodeSettings
  tcp_addr :: string
  tcp_port :: string
  slate_directory :: string

text \<open>\<open>main.rs\<close>: a setting present in the environment replaces the one of the file.\<close>

definition env_or :: "(string \<Rightarrow> string option) \<Rightarrow> string \<Rightarrow> string \<Rightarrow> string" where
  "env_or env name dflt = (case env name of Some v \<Rightarrow> v | None \<Rightarrow> dflt)"

definition overwrite_settings_with_env :: "(string \<Rightarrow> string option) \<Rightarrow> Settings \<Rightarrow> Settings" where
  "overwrite_settings_with_env env settings =
     \<lparr>btc_settings = btc_settings settings,
      grin_settings = grin_settings settings,
      tcp_addr = env_or env ''SETTINGS_TCP_ADDR'' (tcp_addr settings),
      tcp_port = env_or env ''SETTINGS_TCP_PORT'' (tcp_port settings),
      slate_directory = env_or env ''SETTINGS_SLATE_DIRECTORY'' (slate_directory settings)\<rparr>"

lemma overwrite_settings_keeps_nodes:
  "btc_settings (overwrite_settings_with_env env s) = btc_settings s"
  "grin_settings (overwrite_settings_with_env env s) = grin_settings s"
  by (simp_all add: overwrite_settings_with_env_def)

lemma overwrite_settings_empty_env: "overwrite_settings_with_env (\<lambda>_. None) s = s"
  by (simp add: overwrite_settings_with_env_def env_or_def)

end
