(* ===== verification/Net_Http.thy ===== *)
theory Net_Http
  imports Config
begin

text \<open>
  \<open>net/http.rs\<close>: the request factory with its response stub, and the execution of a JSON-RPC
  request. A transport failure panics (\<open>expect\<close>), a status outside 200..299 is an error value.
\<close>

record HttpResponse =
  resp_status :: u16
  resp_content :: string

record RequestFactory =
  factory_stub :: "HttpResponse option"

record HttpRequest =
  req_url :: string
  req_method :: HttpMethod
  req_body :: JsonRpc
  req_auth :: "BasicAuth option"
  req_stub :: "HttpResponse option"

definition json_rpc_new :: "string \<Rightarrow> string \<Rightarrow> string \<Rightarrow> JsonRpcParam list \<Rightarrow> JsonRpc" where
  "json_rpc_new jsonrpc ident meth params =
     \<lparr>rpc_jsonrpc = jsonrpc, rpc_id = ident, rpc_method = meth, rpc_params = params\<rparr>"

definition request_factory_new :: "HttpResponse option \<Rightarrow> RequestFactory" where
  "request_factory_new stub = \<lparr>factory_stub = stub\<rparr>"

definition new_json_rpc_request ::
  "RequestFactory \<Rightarrow> string \<Rightarrow> JsonRpc \<Rightarrow> string \<Rightarrow> string \<Rightarrow> HttpRequest" where
  "new_json_rpc_request fac url body username password =
     \<lparr>req_url = url,
      req_method = POST,
      req_body = body,
      req_auth = Some \<lparr>auth_username = username, auth_password = Some password\<rparr>,
      req_stub = factory_stub fac\<rparr>"

definition is_success :: "u16 \<Rightarrow> bool" where
  "is_success st \<longleftrightarrow> 200 \<le> st \<and> st < 300"

definition http_execute :: "HttpRequest \<Rightarrow> (string, HttpResponse) result proc" where
  "http_execute rq =
     (case req_stub rq of
        Some r \<Rightarrow>
          (if resp_status r \<noteq> 200
           then Ret (Err (''RPC Request failed with invalid respcode: '' @ show_nat (unat (resp_status r))))
           else Ret (Ok \<lparr>resp_status = resp_status r, resp_content = resp_content r\<rparr>))
      | None \<Rightarrow>
          (if req_method rq = POST
           then HttpPost (req_url rq) (req_body rq) (req_auth rq) (\<lambda>out. case out of
                SendFailed \<Rightarrow> Panic ''Http Request failed''
              | TextFailed \<Rightarrow> Panic ''Failed to read http response''
              | Response status content \<Rightarrow>
                  (if is_success status
                   then Ret (Ok \<lparr>resp_status = status, resp_content = content\<rparr>)
                   else Ret (Err (''RPC Request failed with invalid respcode: '' @
                          show_nat (unat status) @ '' '' @ content))))
           else Ret (Err ''Http method currently not implemented'')))"

text \<open>
  A node client owns its settings and a request factory. Every RPC has the same frame: it posts
  one request made from the settings and hands the body of a successful response on; the frame
  is shared by \<open>BitcoinCore\<close> and \<open>GrinCore\<close>.
\<close>

definition rpc_call ::
  "NodeSettings \<Rightarrow> RequestFactory \<Rightarrow> string \<Rightarrow> JsonRpc \<Rightarrow> (string, HttpResponse) result proc" where
  "rpc_call st fac url rpc =
     http_execute (new_json_rpc_request fac url rpc (node_user st) (node_pass st))"

definition node_auth :: "NodeSettings \<Rightarrow> BasicAuth option" where
  "node_auth st = Some \<lparr>auth_username = node_user st, auth_password = Some (node_pass st)\<rparr>"

lemma rpc_call_no_stub:
  "factory_stub fac = None \<Longrightarrow>
   rpc_call st fac url rpc = HttpPost url rpc (node_auth st) (\<lambda>out. case out of
       SendFailed \<Rightarrow> Panic ''Http Request failed''
     | TextFailed \<Rightarrow> Panic ''Failed to read http response''
     | Response status content \<Rightarrow>
         (if is_success status
          then Ret (Ok \<lparr>resp_status = status, resp_content = content\<rparr>)
          else Ret (Err (''RPC Request failed with invalid respcode: '' @
                 show_nat (unat status) @ '' '' @ content))))"
  by (simp add: rpc_call_def http_execute_def new_json_rpc_request_def node_auth_def)

lemma rpc_call_stub_silent:
  "factory_stub fac = Some r \<Longrightarrow>
   replay (rpc_call st fac url rpc) es = (out, es') \<Longrightarrow> es = es'"
  by (auto simp: rpc_call_def http_execute_def new_json_rpc_request_def split: if_splits)

lemma replay_rpc_call:
  assumes "factory_stub fac = None"
  shows "replay (rpc_call st fac url rpc) (EHttp url rpc (node_auth st) (Response code body) # es) =
     (if is_success code
      then (Done (Ok \<lparr>resp_status = code, resp_content = body\<rparr>), es)
      else (Done (Err (''RPC Request failed with invalid respcode: '' @
                 show_nat (unat code) @ '' '' @ body)), es))"
  using assms by (simp add: rpc_call_no_stub)

lemma rpc_call_one_request:
  assumes "factory_stub fac = None" and "replay (rpc_call st fac url rpc) es = (Done r, es')"
  shows "\<exists>out. es = EHttp url rpc (node_auth st) out # es'"
  using assms by (auto simp: rpc_call_no_stub split: list.splits event.splits if_splits http_outcome.splits)

text \<open>
  The contract of a node call towards the protocols: it is one request, made from the client's
  settings, followed by an evaluation of the answer without effects. Whatever the node answers,
  a run of the call consumes exactly that request.
\<close>

locale node_rpc =
  fixes call :: "'c \<Rightarrow> (string, 'a) result proc"
    and st :: "'c \<Rightarrow> NodeSettings" and fac :: "'c \<Rightarrow> RequestFactory"
    and url :: "'c \<Rightarrow> string" and req :: "'c \<Rightarrow> JsonRpc"
  assumes framed: "\<exists>k. call c = try_bind (rpc_call (st c) (fac c) (url c) (req c)) k \<and> (\<forall>x. silent (k x))"
begin

lemma one_request:
  assumes "factory_stub (fac c) = None" and "replay (call c) es = (out, es')" and "out \<noteq> Stuck"
  shows "\<exists>ans. es = EHttp (url c) (req c) (node_auth (st c)) ans # es' \<and> out \<noteq> OutOfFuel"
proof -
  obtain k where k: "call c = try_bind (rpc_call (st c) (fac c) (url c) (req c)) k" "\<And>x. silent (k x)"
    using framed by blast
  have s: "replay (k x) es1 = (o1, es2) \<Longrightarrow> es2 = es1 \<and> o1 \<noteq> OutOfFuel" for x es1 o1 es2
    using k(2) [of x] by (auto simp: silent_def)
  show ?thesis
    using assms unfolding k(1) try_bind_def rpc_call_no_stub [OF assms(1)]
    by (auto dest: s split: list.splits event.splits if_splits http_outcome.splits)
qed

lemma stubbed_silent:
  assumes "factory_stub (fac c) = Some r"
  shows "silent (call c)"
proof -
  obtain k where k: "call c = try_bind (rpc_call (st c) (fac c) (url c) (req c)) k" "\<And>x. silent (k x)"
    using framed by blast
  show ?thesis
    unfolding k(1) try_bind_def rpc_call_def http_execute_def new_json_rpc_request_def
    using assms k(2) by simp
qed

lemma replay_call_requests:
  assumes "factory_stub (fac c) = None" and "replay (call c) es = (Done r, es')"
  shows "requests es = (url c, req c) # requests es'"
  using one_request [OF assms] by auto

end

lemma node_rpcI:
  assumes "\<And>c. call c = try_bind (rpc_call (st c) (fac c) (url c) (req c)) (k c)"
    and "\<And>c x. silent (k c x)"
  shows "node_rpc call st fac url req"
  using assms by unfold_locales blast

end
