(* ===== verification/Rpc_Lib.thy ===== *)
theory Rpc_Lib
  imports Complex_Main Btc_Lib Net_Http
begin

text \<open>
  \<open>bitcoin/bitcoin_core_responses.rs\<close> and \<open>grin/grin_core_responses.rs\<close>: the responses of the two
  nodes, and \<open>serde_json::from_str\<close> at each of their types as a field of the library record. The
  amounts of Bitcoin Core arrive as 32 bit floating point numbers; the second part gives their
  arithmetic, on the rational numbers they denote.
\<close>

section \<open>Binary floating point of 32 bits\<close>

text \<open>A finite \<open>f32\<close> is the rational it denotes.\<close>

type_synonym f32 = rat

text \<open>Round to nearest, ties to even.\<close>

definition round_half_even :: "rat \<Rightarrow> int" where
  "round_half_even q =
     (let n = floor q; r = q - of_int n
      in if r > 1 / 2 \<or> (r = 1 / 2 \<and> odd n) then n + 1 else n)"

definition pow2 :: "int \<Rightarrow> rat" where
  "pow2 e = (if 0 \<le> e then 2 ^ nat e else 1 / 2 ^ nat (- e))"

text \<open>The exponent of the last significant bit: the least \<open>e \<ge> -149\<close> with \<open>q < 2 ^ (e + 24)\<close>. The
  search starts at \<open>-149\<close>, the exponent of the subnormal numbers; \<open>254\<close> steps reach the largest
  finite exponent.\<close>

fun f32_exponent_from :: "nat \<Rightarrow> int \<Rightarrow> rat \<Rightarrow> int" where
  "f32_exponent_from 0 e q = e"
| "f32_exponent_from (Suc n) e q = (if q < pow2 (e + 24) then e else f32_exponent_from n (e + 1) q)"

definition f32_exponent :: "rat \<Rightarrow> int" where
  "f32_exponent q = f32_exponent_from 254 (- 149) q"

definition f32_round :: "rat \<Rightarrow> f32" where
  "f32_round q = (let e = f32_exponent q in of_int (round_half_even (q / pow2 e)) * pow2 e)"

definition f32_mul :: "f32 \<Rightarrow> f32 \<Rightarrow> f32" where
  "f32_mul a b = f32_round (a * b)"

text \<open>\<open>as u64\<close>: towards zero, saturating.\<close>

definition f32_as_u64 :: "f32 \<Rightarrow> u64" where
  "f32_as_u64 q =
     (if q \<le> 0 then 0 else if q \<ge> 2 ^ 64 then - 1 else word_of_int (floor q))"

section \<open>Responses\<close>

record RpcError =
  err_code :: int
  err_message :: string

record 'a JsonRpcResponse =
  resp_result :: "'a option"
  resp_error :: "RpcError option"
  resp_id :: string

record NetworkInfoResult =
  ni_version :: u32
  ni_subversion :: string
  ni_localservices :: string
  ni_localservicesnames :: "string list"
  ni_localrelay :: bool
  ni_timeoffset :: u32
  ni_networkactive :: bool
  ni_connections :: u32
  ni_relayfee :: f32
  ni_incrementalfee :: f32
  ni_warnings :: string

record UTXO =
  utxo_txid :: string
  utxo_vout :: u32
  utxo_address :: string
  utxo_label :: string
  utxo_scriptPubKey :: string
  utxo_amount :: f32
  utxo_confirmations :: u32
  utxo_spendable :: bool
  utxo_solvable :: bool
  utxo_safe :: bool

text \<open>The result of \<open>getblockcount\<close> is not optional.\<close>

record BlockCountResponse =
  bc_result :: u64
  bc_error :: "RpcError option"
  bc_id :: string

record GetTipResultOk =
  tip_height :: u64
  tip_last_block_pushed :: string
  tip_prev_block_to_last :: string
  tip_total_difficulty :: u64

text \<open>A response of the Grin node also names the protocol version.\<close>

record 'a GrinRpcResponse =
  grin_resp_id :: string
  grin_resp_jsonrpc :: string
  grin_resp_result :: "'a option"
  grin_resp_error :: "RpcError option"

section \<open>\<open>serde_json::from_str\<close>\<close>

record RpcLib = BtcLib +
  from_str_network_info :: "string \<Rightarrow> NetworkInfoResult JsonRpcResponse option"
  from_str_unit :: "string \<Rightarrow> unit JsonRpcResponse option"
  from_str_list_unspent :: "string \<Rightarrow> UTXO list JsonRpcResponse option"
  from_str_block_count :: "string \<Rightarrow> BlockCountResponse option"
  from_str_send_raw_tx :: "string \<Rightarrow> string JsonRpcResponse option"
  from_str_get_tip :: "string \<Rightarrow> GetTipResultOk GrinRpcResponse option"
  from_str_push_tx :: "string \<Rightarrow> unit GrinRpcResponse option"

end
