(* ===== verification/Slate_V4.thy ===== *)
theory Slate_V4
  imports Libwallet_Slate Rpc_Lib "HOL-Library.Multiset"
begin

text \<open>
  The exchange format of a slate: \<open>slate_versions/v4.rs\<close> and \<open>slate_versions/mod.rs\<close> of the wallet
  library and the conversions at the end of its \<open>slate.rs\<close>. The text of a \<open>SlateV4\<close> is the work of
  \<open>serde_json\<close> on derived code; writing and reading it are fields of the library record. The
  transaction of a slate is not part of the exchanged text: it is rebuilt from commitments and
  participant data.
\<close>

section \<open>Data of version 4\<close>

datatype SlateStateV4 =
  V4Unknown | V4Standard1 | V4Standard2 | V4Standard3 | V4Invoice1 | V4Invoice2 | V4Invoice3

record KernelFeaturesArgsV4 =
  lock_hgt :: u64

record VersionCompatInfoV4 =
  v4_version :: u16
  v4_block_header_version :: u16

record ParticipantDataV4 =
  xs_v4 :: PublicKey
  nonce_v4 :: PublicKey
  part_v4 :: "Signature option"

record PaymentInfoV4 =
  saddr :: bytes
  raddr :: bytes
  rsig :: "bytes option"

record CommitsV4 =
  com_f :: u8
  com_c :: Commitment
  com_p :: "RangeProof option"

record SlateV4 =
  ver :: VersionCompatInfoV4
  id_v4 :: Uuid
  sta :: SlateStateV4
  off :: BlindingFactor
  num_parts :: u8
  amt :: u64
  fee_v4 :: FeeFields
  feat :: u8
  ttl :: u64
  sigs :: "ParticipantDataV4 list"
  coms :: "CommitsV4 list option"
  proof_v4 :: "PaymentInfoV4 option"
  feat_args :: "KernelFeaturesArgsV4 option"

datatype VersionedSlate = V4 SlateV4

text \<open>\<open>serde_json\<close> at the types of a slate.\<close>

record SlateLib = RpcLib +
  to_string_slate_v4 :: "SlateV4 \<Rightarrow> string"
  from_str_versioned_slate :: "string \<Rightarrow> VersionedSlate option"

section \<open>To version 4\<close>

fun state_to_v4 :: "SlateState \<Rightarrow> SlateStateV4" where
  "state_to_v4 Unknown = V4Unknown"
| "state_to_v4 Standard1 = V4Standard1"
| "state_to_v4 Standard2 = V4Standard2"
| "state_to_v4 Standard3 = V4Standard3"
| "state_to_v4 Invoice1 = V4Invoice1"
| "state_to_v4 Invoice2 = V4Invoice2"
| "state_to_v4 Invoice3 = V4Invoice3"

definition participant_to_v4 :: "ParticipantData \<Rightarrow> ParticipantDataV4" where
  "participant_to_v4 d =
     \<lparr>xs_v4 = public_blind_excess d, nonce_v4 = public_nonce d, part_v4 = part_sig d\<rparr>"

definition kernel_args_to_v4 :: "KernelFeaturesArgs \<Rightarrow> KernelFeaturesArgsV4" where
  "kernel_args_to_v4 a = \<lparr>lock_hgt = lock_height a\<rparr>"

definition version_to_v4 :: "VersionCompatInfo \<Rightarrow> VersionCompatInfoV4" where
  "version_to_v4 v =
     \<lparr>v4_version = version v, v4_block_header_version = block_header_version v\<rparr>"

definition payment_to_v4 :: "PaymentInfo \<Rightarrow> PaymentInfoV4" where
  "payment_to_v4 p =
     \<lparr>saddr = sender_address p, raddr = receiver_address p, rsig = receiver_signature p\<rparr>"

fun features_to_v4 :: "OutputFeatures \<Rightarrow> u8" where
  "features_to_v4 Plain = 0"
| "features_to_v4 Coinbase = 1"

definition output_to_v4 :: "Output \<Rightarrow> CommitsV4" where
  "output_to_v4 out =
     \<lparr>com_f = features_to_v4 (out_features out), com_c = out_commit out, com_p = Some (out_proof out)\<rparr>"

definition input_to_v4 :: "Input \<Rightarrow> CommitsV4" where
  "input_to_v4 inp =
     \<lparr>com_f = features_to_v4 (inp_features inp), com_c = inp_commit inp, com_p = None\<rparr>"

definition coms_to_v4 :: "Slate \<Rightarrow> CommitsV4 list option" where
  "coms_to_v4 s =
     (case slate_tx s of
        None \<Rightarrow> None
      | Some tx \<Rightarrow>
          Some ((case tx_inputs tx of
                   CommitOnly inputs \<Rightarrow>
                     map (\<lambda>c. input_to_v4 \<lparr>inp_features = Plain, inp_commit = c\<rparr>) inputs
                 | FeaturesAndCommit inputs \<Rightarrow> map input_to_v4 inputs)
                @ map output_to_v4 (tx_outputs tx)))"

definition slate_to_v4 :: "Slate \<Rightarrow> SlateV4" where
  "slate_to_v4 s =
     \<lparr>ver = version_to_v4 (version_info s),
      id_v4 = slate_id s,
      sta = state_to_v4 (slate_state s),
      off = slate_offset s,
      num_parts = slate_num_participants s,
      amt = slate_amount s,
      fee_v4 = fee_fields s,
      feat = slate_kernel_features s,
      ttl = ttl_cutoff_height s,
      sigs = map participant_to_v4 (participant_data s),
      coms = coms_to_v4 s,
      proof_v4 = map_option payment_to_v4 (payment_proof s),
      feat_args = map_option kernel_args_to_v4 (kernel_features_args s)\<rparr>"

section \<open>From version 4\<close>

fun state_from_v4 :: "SlateStateV4 \<Rightarrow> SlateState" where
  "state_from_v4 V4Unknown = Unknown"
| "state_from_v4 V4Standard1 = Standard1"
| "state_from_v4 V4Standard2 = Standard2"
| "state_from_v4 V4Standard3 = Standard3"
| "state_from_v4 V4Invoice1 = Invoice1"
| "state_from_v4 V4Invoice2 = Invoice2"
| "state_from_v4 V4Invoice3 = Invoice3"

definition participant_from_v4 :: "ParticipantDataV4 \<Rightarrow> ParticipantData" where
  "participant_from_v4 d =
     \<lparr>public_blind_excess = xs_v4 d, public_nonce = nonce_v4 d, part_sig = part_v4 d\<rparr>"

definition kernel_args_from_v4 :: "KernelFeaturesArgsV4 \<Rightarrow> KernelFeaturesArgs" where
  "kernel_args_from_v4 a = \<lparr>lock_height = lock_hgt a\<rparr>"

definition version_from_v4 :: "VersionCompatInfoV4 \<Rightarrow> VersionCompatInfo" where
  "version_from_v4 v =
     \<lparr>version = v4_version v, block_header_version = v4_block_header_version v\<rparr>"

definition payment_from_v4 :: "PaymentInfoV4 \<Rightarrow> PaymentInfo" where
  "payment_from_v4 p =
     \<lparr>sender_address = saddr p, receiver_address = raddr p, receiver_signature = rsig p\<rparr>"

definition features_from_v4 :: "u8 \<Rightarrow> OutputFeatures" where
  "features_from_v4 f = (if f = 1 then Coinbase else Plain)"

text \<open>The temporary slate of \<open>tx_from_slate_v4\<close> gets a random id, which nothing reads; it is 0
  here.\<close>

definition calc_slate_v4 :: "('z GrinLib_scheme) \<Rightarrow> SlateV4 \<Rightarrow> Slate" where
  "calc_slate_v4 G v =
     (blank G 0 2 False)\<lparr>fee_fields := fee_v4 v, participant_data := map participant_from_v4 (sigs v)\<rparr>"

definition kernel_from_v4 :: "('z GrinLib_scheme) \<Rightarrow> SlateV4 \<Rightarrow> TxKernel" where
  "kernel_from_v4 G v =
     (let calc_slate = calc_slate_v4 G v;
          excess = (case calc_excess G calc_slate of Inr e \<Rightarrow> e | Inl _ \<Rightarrow> com_from_vec G [0]);
          excess_sig = (case finalize_signature G calc_slate of
                          Inr s \<Rightarrow> s | Inl _ \<Rightarrow> sig_from_raw_data G (replicate 64 0))
      in \<lparr>ker_features =
            (if feat v = 0 then KPlain (fee_v4 v)
             else if feat v = 1 then
               KHeightLocked (fee_v4 v) (case feat_args v of Some a \<Rightarrow> lock_hgt a | None \<Rightarrow> 0)
             else KPlain (fee_v4 v)),
          ker_excess = excess,
          ker_excess_sig = excess_sig\<rparr>)"

definition outputs_from_v4 :: "CommitsV4 list \<Rightarrow> Output list" where
  "outputs_from_v4 cs =
     map (\<lambda>c. \<lparr>out_features = features_from_v4 (com_f c), out_commit = com_c c, out_proof = the (com_p c)\<rparr>)
       (filter (\<lambda>c. com_p c \<noteq> None) cs)"

definition inputs_from_v4 :: "CommitsV4 list \<Rightarrow> Input list" where
  "inputs_from_v4 cs =
     map (\<lambda>c. \<lparr>inp_features = features_from_v4 (com_f c), inp_commit = com_c c\<rparr>)
       (filter (\<lambda>c. com_p c = None) cs)"

definition tx_from_slate_v4 :: "('z GrinLib_scheme) \<Rightarrow> SlateV4 \<Rightarrow> Transaction option" where
  "tx_from_slate_v4 G v =
     (case coms v of
        None \<Rightarrow> None
      | Some cs \<Rightarrow>
          (let tx = with_kernel G (kernel_from_v4 G v) (empty_transaction G);
               tx = replace_outputs G (outputs_from_v4 cs)
                      (replace_inputs G (inputs_from G (inputs_from_v4 cs)) tx)
           in Some (tx\<lparr>tx_offset := off v\<rparr>)))"

definition slate_from_v4 :: "('z GrinLib_scheme) \<Rightarrow> SlateV4 \<Rightarrow> Slate" where
  "slate_from_v4 G v =
     \<lparr>version_info = version_from_v4 (ver v),
      slate_num_participants = num_parts v,
      slate_id = id_v4 v,
      slate_state = state_from_v4 (sta v),
      slate_tx = tx_from_slate_v4 G v,
      slate_amount = amt v,
      fee_fields = fee_v4 v,
      ttl_cutoff_height = ttl v,
      slate_kernel_features = feat v,
      slate_offset = off v,
      participant_data = map participant_from_v4 (sigs v),
      payment_proof = map_option payment_from_v4 (proof_v4 v),
      kernel_features_args = map_option kernel_args_from_v4 (feat_args v)\<rparr>"

section \<open>Text\<close>

definition upgrade :: "('z GrinLib_scheme) \<Rightarrow> VersionedSlate \<Rightarrow> (WalletError, Slate) result" where
  "upgrade G vs = (case vs of V4 s \<Rightarrow> Ok (slate_from_v4 G s))"

definition slate_to_string :: "('z SlateLib_scheme) \<Rightarrow> Slate \<Rightarrow> string" where
  "slate_to_string L s = to_string_slate_v4 L (slate_to_v4 s)"

definition deserialize_upgrade :: "('z SlateLib_scheme) \<Rightarrow> string \<Rightarrow> (WalletError, Slate) result" where
  "deserialize_upgrade L txt =
     rbind (ok_or SlateVersionParse (from_str_versioned_slate L txt)) (\<lambda>vs.
     upgrade L vs)"

section \<open>Documented behaviour the theorems may rely on\<close>

text \<open>\<open>grin_core\<close>: the body of a transaction keeps its parts sorted, so replacing or adding parts is
  known up to the order; the other parts stay as they are.\<close>

definition tx_body_laws :: "('z GrinLib_scheme) \<Rightarrow> bool" where
  "tx_body_laws G \<longleftrightarrow>
     tx_kernels (tx_empty G) = [] \<and> tx_outputs (tx_empty G) = [] \<and>
     (\<forall>is. \<exists>is'. inputs_from G is = FeaturesAndCommit is' \<and> mset is' = mset is) \<and>
     (\<forall>i t. replace_inputs G i t = t\<lparr>tx_inputs := i\<rparr>) \<and>
     (\<forall>os t. \<exists>os'. replace_outputs G os t = t\<lparr>tx_outputs := os'\<rparr> \<and> mset os' = mset os) \<and>
     (\<forall>k t. \<exists>ks. with_kernel G k t = t\<lparr>tx_kernels := ks\<rparr> \<and> mset ks = mset (k # tx_kernels t)) \<and>
     (\<forall>k t. replace_kernel G k t = t\<lparr>tx_kernels := [k]\<rparr>) \<and>
     (\<forall>out t. \<exists>os'. with_output G out t = t\<lparr>tx_outputs := os'\<rparr> \<and> mset os' = mset (out # tx_outputs t)) \<and>
     (\<forall>f. ker_features (kernel_with_features G f) = f)"

text \<open>\<open>serde_json\<close>: the text of a slate is one line, and it is read back as that slate.\<close>

definition slate_json_laws :: "('z SlateLib_scheme) \<Rightarrow> bool" where
  "slate_json_laws L \<longleftrightarrow>
     (\<forall>v. from_str_versioned_slate L (to_string_slate_v4 L v) = Some (V4 v)) \<and>
     (\<forall>v. newline \<notin> set (to_string_slate_v4 L v))"

section \<open>Round trip\<close>

lemma from_to_v4 [simp]:
  "state_from_v4 (state_to_v4 st) = st"
  "participant_from_v4 (participant_to_v4 p) = p"
  "kernel_args_from_v4 (kernel_args_to_v4 a) = a"
  "version_from_v4 (version_to_v4 v) = v"
  "payment_from_v4 (payment_to_v4 i) = i"
  "features_from_v4 (features_to_v4 f) = f"
  by (cases st; cases f; simp add: participant_from_v4_def participant_to_v4_def kernel_args_from_v4_def
      kernel_args_to_v4_def version_from_v4_def version_to_v4_def payment_from_v4_def payment_to_v4_def
      features_from_v4_def)+

text \<open>What a slate becomes on the way to the other party: its transaction is rebuilt.\<close>

definition rebuilt :: "('z GrinLib_scheme) \<Rightarrow> Slate \<Rightarrow> Slate" where
  "rebuilt G s = s\<lparr>slate_tx := tx_from_slate_v4 G (slate_to_v4 s)\<rparr>"

lemma slate_from_to_v4: "slate_from_v4 G (slate_to_v4 s) = rebuilt G s"
  by (cases s) (simp add: slate_from_v4_def slate_to_v4_def rebuilt_def option.map_comp comp_def
      map_idI option.map_ident)

lemma deserialize_slate_to_string:
  "slate_json_laws L \<Longrightarrow> deserialize_upgrade L (slate_to_string L s) = Ok (rebuilt L s)"
  by (simp add: deserialize_upgrade_def slate_to_string_def slate_json_laws_def upgrade_def
      slate_from_to_v4)

lemma slate_to_string_no_newline [simp]: "slate_json_laws L \<Longrightarrow> newline \<notin> set (slate_to_string L s)"
  by (simp add: slate_to_string_def slate_json_laws_def)

lemma rebuilt_terms [simp]:
  "slate_terms (rebuilt G s) = slate_terms s" "participant_data (rebuilt G s) = participant_data s"
  "distinct_participants (rebuilt G s) = distinct_participants s"
  by (simp_all add: rebuilt_def slate_terms_def distinct_participants_def)

lemma rebuilt_sums [simp]:
  "pub_nonce_sum G (rebuilt G' s) = pub_nonce_sum G s" "pub_blind_sum G (rebuilt G' s) = pub_blind_sum G s"
  "msg_to_sign G (rebuilt G' s) = msg_to_sign G s" "num_participants (rebuilt G' s) = num_participants s"
  by (simp_all add: rebuilt_def)

text \<open>The interface to the protocols: the text of a slate that has gone through the exchange
  format is a codec.\<close>

interpretation slate_text: codec "slate_to_string L"
  "\<lambda>t. case deserialize_upgrade L t of Inr s \<Rightarrow> Some s | Inl _ \<Rightarrow> None"
  "\<lambda>s. slate_json_laws L \<and> rebuilt L s = s" for L :: "'z SlateLib_scheme"
  by unfold_locales (simp add: deserialize_slate_to_string)

lemma outputs_from_v4_coms:
  "outputs_from_v4 (map input_to_v4 is @ map output_to_v4 os) = os"
  "inputs_from_v4 (map input_to_v4 is @ map output_to_v4 os) = is"
  by (simp_all add: outputs_from_v4_def inputs_from_v4_def input_to_v4_def output_to_v4_def
      filter_map comp_def map_idI)

text \<open>The inputs of a transaction with their features, plain where it carries commitments only.\<close>

definition input_list :: "Transaction \<Rightarrow> Input list" where
  "input_list tx = (case tx_inputs tx of
     CommitOnly cs \<Rightarrow> map (\<lambda>c. \<lparr>inp_features = Plain, inp_commit = c\<rparr>) cs
   | FeaturesAndCommit is \<Rightarrow> is)"

lemma coms_to_v4_Some:
  "slate_tx s = Some tx \<Longrightarrow>
   coms_to_v4 s = Some (map input_to_v4 (input_list tx) @ map output_to_v4 (tx_outputs tx))"
  by (simp add: coms_to_v4_def input_list_def split: Inputs.split)

lemma rebuilt_tx:
  assumes "tx_body_laws G" and "slate_tx s = Some tx"
  shows "\<exists>tx'. slate_tx (rebuilt G s) = Some tx' \<and> mset (input_list tx') = mset (input_list tx) \<and>
           mset (tx_outputs tx') = mset (tx_outputs tx) \<and> tx_offset tx' = slate_offset s \<and>
           tx_kernels tx' = [kernel_from_v4 G (slate_to_v4 s)]"
proof -
  let ?k = "kernel_from_v4 G (slate_to_v4 s)"
  let ?e = "empty_transaction G"
  let ?is = "inputs_from G (input_list tx)"
  have e: "?e = (tx_empty G)\<lparr>tx_inputs := FeaturesAndCommit []\<rparr>" "tx_kernels (tx_empty G) = []"
    using assms(1) by (simp_all add: tx_body_laws_def empty_transaction_def)
  obtain ks where "with_kernel G ?k ?e = ?e\<lparr>tx_kernels := ks\<rparr>" "mset ks = mset (?k # tx_kernels ?e)"
    using assms(1) unfolding tx_body_laws_def by blast
  then have k: "with_kernel G ?k ?e = ?e\<lparr>tx_kernels := [?k]\<rparr>" using e by simp
  obtain is' where i: "?is = FeaturesAndCommit is'" "mset is' = mset (input_list tx)"
    using assms(1) unfolding tx_body_laws_def by blast
  let ?t = "?e\<lparr>tx_kernels := [?k]\<rparr>\<lparr>tx_inputs := ?is\<rparr>"
  obtain os' where o: "replace_outputs G (tx_outputs tx) ?t = ?t\<lparr>tx_outputs := os'\<rparr>"
    "mset os' = mset (tx_outputs tx)"
    using assms(1) unfolding tx_body_laws_def by blast
  have "replace_inputs G ?is (?e\<lparr>tx_kernels := [?k]\<rparr>) = ?t"
    using assms(1) by (simp add: tx_body_laws_def)
  with k o(1) have "slate_tx (rebuilt G s) = Some (?t\<lparr>tx_outputs := os'\<rparr>\<lparr>tx_offset := slate_offset s\<rparr>)"
    by (simp add: rebuilt_def tx_from_slate_v4_def coms_to_v4_Some [OF assms(2)] slate_to_v4_def
        outputs_from_v4_coms Let_def)
  with i o(2) show ?thesis by (simp add: input_list_def)
qed

section \<open>Properties\<close>


text \<open>
  The exchange format loses a lock height: slates number the height-locked kernel 2, the
  conversion expects 1. The transaction a party rebuilds from a slate with a lock height has a
  plain kernel, until \<open>update_kernel\<close> puts the lock back.
\<close>

theorem exchange_loses_height_lock:
  assumes "slate_json_laws L" and "tx_body_laws L" and "slate_tx s = Some tx"
    and "slate_kernel_features s = 2" and "kernel_features_args s = Some \<lparr>lock_height = h\<rparr>"
  shows "\<exists>s' tx' s'' tx''. deserialize_upgrade L (slate_to_string L s) = Ok s' \<and>
           slate_tx s' = Some tx' \<and> map ker_features (tx_kernels tx') = [KPlain (fee_fields s)] \<and>
           update_kernel L s' = Ok s'' \<and> slate_tx s'' = Some tx'' \<and>
           map ker_features (tx_kernels tx'') = [KHeightLocked (fee_fields s) h]"
proof -
  from rebuilt_tx [OF assms(2,3)] obtain tx' where
    tx': "slate_tx (rebuilt L s) = Some tx'" "tx_kernels tx' = [kernel_from_v4 L (slate_to_v4 s)]"
    by blast
  have "kernel_features L (rebuilt L s) = Ok (KHeightLocked (fee_fields s) h)"
    using assms(4,5) by (simp add: kernel_features_def rebuilt_def)
  with tx' have "update_kernel L (rebuilt L s) = Ok ((rebuilt L s)\<lparr>slate_tx :=
      Some (tx'\<lparr>tx_kernels := [kernel_with_features L (KHeightLocked (fee_fields s) h)]\<rparr>)\<rparr>)"
    using assms(2) by (simp add: update_kernel_def tx_or_err_def tx_body_laws_def)
  moreover have "ker_features (kernel_with_features L f) = f" for f
    using assms(2) by (simp add: tx_body_laws_def)
  moreover have "ker_features (kernel_from_v4 L (slate_to_v4 s)) = KPlain (fee_fields s)"
    using assms(4) by (simp add: kernel_from_v4_def slate_to_v4_def Let_def)
  ultimately show ?thesis
    using deserialize_slate_to_string [OF assms(1), of s] tx' by simp
qed

end
