(* ===== verification/Grin_Routines.thy ===== *)
theory Grin_Routines
  imports Slate_V4 Btc_Lib
begin

text \<open>
  \<open>grin/grin_types.rs\<close> and \<open>grin/grin_routines.rs\<close>: coins, the text forms of keys and commitments,
  the context of a multi-party bulletproof and its three rounds. The handles on the curve and on
  the randomness source that the code stores in the context carry no data and are left out.
\<close>

section \<open>Text forms\<close>

definition create_secret_key :: "SecretKey proc" where
  "create_secret_key = fresh_key"

definition sig_extract_s :: "('z GrinLib_scheme) \<Rightarrow> Signature \<Rightarrow> SecretKey proc" where
  "sig_extract_s G sig = unwrap ''SecretKey::from_slice'' (sk_from_slice G (drop 32 (sig_to_raw_data G sig)))"

definition serialize_secret_key :: "('z GrinLib_scheme) \<Rightarrow> SecretKey \<Rightarrow> string" where
  "serialize_secret_key G key = hex_encode G key"

definition deserialize_secret_key :: "('z GrinLib_scheme) \<Rightarrow> string \<Rightarrow> SecretKey proc" where
  "deserialize_secret_key G key =
     (if key = replicate 64 CHR ''0'' then Ret (ZERO_KEY G)
      else pbind (unwrap ''Failed to deserialize a secret key from hex string'' (hex_decode G key)) (\<lambda>b.
           unwrap ''Failed to deserialize a secret key from hex string'' (sk_from_slice G b)))"

definition create_minimal_ctx ::
  "('z GrinLib_scheme) \<Rightarrow> SecretKey \<Rightarrow> SecretKey \<Rightarrow> u64 \<Rightarrow> FeeFields \<Rightarrow> Context" where
  "create_minimal_ctx G key nonce amount fee =
     \<lparr>parent_key_id = identifier_zero G,
      sec_key = key,
      sec_nonce = nonce,
      initial_sec_key = key,
      initial_sec_nonce = nonce,
      output_ids = [],
      input_ids = [],
      ctx_amount = amount,
      ctx_fee = Some fee,
      payment_proof_derivation_index = None,
      late_lock_args = None,
      calculated_excess = None\<rparr>"

definition serialize_commitment :: "('z GrinLib_scheme) \<Rightarrow> Commitment \<Rightarrow> string" where
  "serialize_commitment G com = hex_encode G com"

definition serialize_grin_public_key :: "('z GrinLib_scheme) \<Rightarrow> PublicKey \<Rightarrow> string" where
  "serialize_grin_public_key G pk = hex_encode G (pk_serialize_vec G pk)"

definition deserialize_grin_pub_key :: "('z GrinLib_scheme) \<Rightarrow> string \<Rightarrow> PublicKey proc" where
  "deserialize_grin_pub_key G s =
     pbind (unwrap ''hex::decode'' (hex_decode G s)) (\<lambda>pk_bytes.
     unwrap ''PublicKey::from_slice'' (pk_from_slice G pk_bytes))"

definition deserialize_commitment :: "('z GrinLib_scheme) \<Rightarrow> string \<Rightarrow> Commitment proc" where
  "deserialize_commitment G com =
     pbind (unwrap ''Failed to deserialize pedersen commitment'' (hex_decode G com)) (\<lambda>b.
     Ret (com_from_vec G b))"

definition grin_to_nanogrin :: "u64 \<Rightarrow> u64" where
  "grin_to_nanogrin value = value * 1000000000"

definition grin_pk_from_btc_pk :: "('z BtcLib_scheme) \<Rightarrow> BtcPublicKey \<Rightarrow> PublicKey proc" where
  "grin_pk_from_btc_pk L bpk =
     unwrap ''PublicKey::from_slice'' (pk_from_slice L (btc_pk_to_bytes L bpk))"

definition grin_sk_from_btc_sk :: "('z BtcLib_scheme) \<Rightarrow> PrivateKey \<Rightarrow> SecretKey proc" where
  "grin_sk_from_btc_sk L sk = unwrap ''SecretKey::from_slice'' (sk_from_slice L (pk_key sk))"

definition estimate_fees :: "('z GrinLib_scheme) \<Rightarrow> nat \<Rightarrow> nat \<Rightarrow> nat \<Rightarrow> u64" where
  "estimate_fees G num_inp num_out num_ker = tx_fee G num_inp num_out num_ker"

section \<open>Coins\<close>

record MWCoin =
  mw_commitment :: string
  mw_blinding_factor :: string
  mw_value :: u64

definition mwcoin_new :: "('z GrinLib_scheme) \<Rightarrow> Commitment \<Rightarrow> SecretKey \<Rightarrow> u64 \<Rightarrow> MWCoin" where
  "mwcoin_new G com bf value =
     \<lparr>mw_commitment = serialize_commitment G com,
      mw_blinding_factor = serialize_secret_key G bf,
      mw_value = value\<rparr>"

section \<open>The context of a multi-party range proof\<close>

record MPBPContext =
  t_1 :: PublicKey
  t_2 :: PublicKey
  mp_amount :: u64
  shared_nonce :: SecretKey
  tau_x :: SecretKey
  mp_commit :: Commitment

record SerMPCtx =
  ser_t_1 :: string
  ser_t_2 :: string
  ser_amount :: u64
  ser_shared_nonce :: string
  ser_commit :: string
  ser_tau_x :: string

record MpLib = SlateLib +
  to_string_ser_mp_ctx :: "SerMPCtx \<Rightarrow> string"
  from_str_ser_mp_ctx :: "string \<Rightarrow> SerMPCtx option"

definition mpbp_new :: "('z GrinLib_scheme) \<Rightarrow> SecretKey \<Rightarrow> u64 \<Rightarrow> Commitment \<Rightarrow> MPBPContext" where
  "mpbp_new G nonce amount com =
     \<lparr>t_1 = pk_new G, t_2 = pk_new G, mp_amount = amount, shared_nonce = nonce,
      tau_x = ZERO_KEY G, mp_commit = com\<rparr>"

definition mpbp_ser :: "('z GrinLib_scheme) \<Rightarrow> MPBPContext \<Rightarrow> SerMPCtx" where
  "mpbp_ser G ctx =
     \<lparr>ser_t_1 = serialize_grin_public_key G (t_1 ctx),
      ser_t_2 = serialize_grin_public_key G (t_2 ctx),
      ser_amount = mp_amount ctx,
      ser_shared_nonce = serialize_secret_key G (shared_nonce ctx),
      ser_commit = serialize_commitment G (mp_commit ctx),
      ser_tau_x = serialize_secret_key G (tau_x ctx)\<rparr>"

definition mpbp_to_string :: "('z MpLib_scheme) \<Rightarrow> MPBPContext \<Rightarrow> string" where
  "mpbp_to_string L ctx = to_string_ser_mp_ctx L (mpbp_ser L ctx)"

definition mpbp_from_string :: "('z MpLib_scheme) \<Rightarrow> string \<Rightarrow> MPBPContext proc" where
  "mpbp_from_string L str =
     pbind (unwrap ''serde_json::from_str'' (from_str_ser_mp_ctx L str)) (\<lambda>ser_obj.
     pbind (deserialize_grin_pub_key L (ser_t_1 ser_obj)) (\<lambda>t1.
     pbind (deserialize_grin_pub_key L (ser_t_2 ser_obj)) (\<lambda>t2.
     pbind (deserialize_secret_key L (ser_shared_nonce ser_obj)) (\<lambda>nonce.
     pbind (deserialize_secret_key L (ser_tau_x ser_obj)) (\<lambda>tau.
     pbind (deserialize_commitment L (ser_commit ser_obj)) (\<lambda>com.
     Ret \<lparr>t_1 = t1, t_2 = t2, mp_amount = ser_amount ser_obj, shared_nonce = nonce, tau_x = tau,
          mp_commit = com\<rparr>))))))"

definition add_commit :: "('z GrinLib_scheme) \<Rightarrow> MPBPContext \<Rightarrow> Commitment \<Rightarrow> MPBPContext proc" where
  "add_commit G ctx c2 =
     pbind (unwrap ''commit_sum'' (commit_sum G [mp_commit ctx, c2] [])) (\<lambda>c.
     Ret (ctx\<lparr>mp_commit := c\<rparr>))"

definition add_t_1 :: "('z GrinLib_scheme) \<Rightarrow> MPBPContext \<Rightarrow> PublicKey \<Rightarrow> MPBPContext proc" where
  "add_t_1 G ctx t =
     (if \<not> pk_is_valid G (t_1 ctx) then Ret (ctx\<lparr>t_1 := t\<rparr>)
      else pbind (unwrap ''from_combination'' (pk_from_combination G [t_1 ctx, t])) (\<lambda>t'.
           Ret (ctx\<lparr>t_1 := t'\<rparr>)))"

definition add_t_2 :: "('z GrinLib_scheme) \<Rightarrow> MPBPContext \<Rightarrow> PublicKey \<Rightarrow> MPBPContext proc" where
  "add_t_2 G ctx t =
     (if \<not> pk_is_valid G (t_2 ctx) then Ret (ctx\<lparr>t_2 := t\<rparr>)
      else pbind (unwrap ''from_combination'' (pk_from_combination G [t_2 ctx, t])) (\<lambda>t'.
           Ret (ctx\<lparr>t_2 := t'\<rparr>)))"

definition add_tau_x :: "('z GrinLib_scheme) \<Rightarrow> MPBPContext \<Rightarrow> SecretKey \<Rightarrow> MPBPContext proc" where
  "add_tau_x G ctx tau =
     pbind (unwrap ''add_assign'' (sk_add_assign G (tau_x ctx) tau)) (\<lambda>tau'.
     Ret (ctx\<lparr>tau_x := tau'\<rparr>))"

section \<open>The three rounds\<close>

definition mp_bullet_proof_r1 ::
  "('z GrinLib_scheme) \<Rightarrow> MPBPContext \<Rightarrow> SecretKey \<Rightarrow> SecretKey \<Rightarrow> (string, MPBPContext) result proc" where
  "mp_bullet_proof_r1 G ctx blind nonce =
     pbind create_secret_key (\<lambda>ck.
     pbind (unwrap ''commit'' (secp_commit G 0 ck)) (\<lambda>c.
     let out = bullet_proof_multisig G (mp_amount ctx) blind (shared_nonce ctx) None
                 (pk_new G) (pk_new G) [c] nonce 1
     in pbind (add_t_1 G ctx (ms_t_1 out)) (\<lambda>ctx.
        pbind (add_t_2 G ctx (ms_t_2 out)) (\<lambda>ctx.
        Ret (Ok ctx)))))"

definition mp_bullet_proof_r2 ::
  "('z GrinLib_scheme) \<Rightarrow> MPBPContext \<Rightarrow> SecretKey \<Rightarrow> SecretKey \<Rightarrow> (string, MPBPContext) result proc" where
  "mp_bullet_proof_r2 G ctx blind nonce =
     pbind create_secret_key (\<lambda>tau.
     let out = bullet_proof_multisig G (mp_amount ctx) blind (shared_nonce ctx) (Some tau)
                 (t_1 ctx) (t_2 ctx) [mp_commit ctx] nonce 2
     in pbind (add_tau_x G ctx (ms_tau_x out)) (\<lambda>ctx.
        Ret (Ok ctx)))"

definition mp_bullet_proof_fin ::
  "('z GrinLib_scheme) \<Rightarrow> MPBPContext \<Rightarrow> SecretKey \<Rightarrow> SecretKey \<Rightarrow> (string, RangeProof) result proc" where
  "mp_bullet_proof_fin G ctx blind nonce =
     (let out = bullet_proof_multisig G (mp_amount ctx) blind (shared_nonce ctx) (Some (tau_x ctx))
                  (t_1 ctx) (t_2 ctx) [mp_commit ctx] nonce 0
      in pbind (unwrap ''Failed to finalize MP bulletproof'' (ms_proof out)) (\<lambda>proof.
         Ret (Ok proof)))"

section \<open>Documented behaviour the theorems may rely on\<close>

text \<open>Compressed public keys and commitments of full length are read back as they were written.\<close>

definition point_text_laws :: "('z GrinLib_scheme) \<Rightarrow> bool" where
  "point_text_laws G \<longleftrightarrow>
     (\<forall>p. pk_is_valid G p \<longrightarrow> pk_from_slice G (pk_serialize_vec G p) = Some p) \<and>
     (\<forall>c. length c = 33 \<longrightarrow> com_from_vec G c = c)"

definition mp_json_laws :: "('z MpLib_scheme) \<Rightarrow> bool" where
  "mp_json_laws L \<longleftrightarrow>
     (\<forall>v. from_str_ser_mp_ctx L (to_string_ser_mp_ctx L v) = Some v) \<and>
     (\<forall>v. newline \<notin> set (to_string_ser_mp_ctx L v))"

section \<open>Round trips\<close>

lemma valid_sk_not_zero: "valid_sk k \<Longrightarrow> k \<noteq> replicate 32 0"
proof
  assume k: "valid_sk k" "k = replicate 32 0"
  have "be_int (replicate n 0) = 0" for n
    by (induction n) (simp_all add: be_int_def)
  with k show False by (simp add: valid_sk_def)
qed

lemma deserialize_serialize_secret_key:
  assumes "hex_laws G" "scalar_laws G" "valid_sk k \<or> k = ZERO_KEY G"
  shows "deserialize_secret_key G (serialize_secret_key G k) = Ret k"
proof (cases "k = ZERO_KEY G")
  case True
  then have "k = replicate 32 0" using assms(2) by (simp add: scalar_laws_def)
  then have "serialize_secret_key G k = replicate 64 CHR ''0''"
    using assms(1) hex_text_zeros [of 32] by (simp add: serialize_secret_key_def hex_laws_def)
  with True show ?thesis by (simp add: deserialize_secret_key_def)
next
  case False
  with assms(3) have k: "valid_sk k" by simp
  have "hex_encode G k \<noteq> hex_encode G (replicate 32 0)"
    using valid_sk_not_zero [OF k] by (simp add: hex_encode_inject [OF assms(1)])
  then have "serialize_secret_key G k \<noteq> replicate 64 CHR ''0''"
    using assms(1) hex_text_zeros [of 32] by (simp add: serialize_secret_key_def hex_laws_def)
  moreover have "sk_from_slice G k = Some k" using k assms(2) by (simp add: scalar_laws_def)
  ultimately show ?thesis
    using assms(1) by (simp add: deserialize_secret_key_def serialize_secret_key_def)
qed

interpretation secret_key_text: codec "serialize_secret_key G"
  "\<lambda>s. proc_value (deserialize_secret_key G s)"
  "\<lambda>k. hex_laws G \<and> scalar_laws G \<and> (valid_sk k \<or> k = ZERO_KEY G)" for G :: "'z GrinLib_scheme"
  by unfold_locales (simp add: deserialize_serialize_secret_key)

interpretation grin_pub_key_text: codec "serialize_grin_public_key G"
  "\<lambda>s. proc_value (deserialize_grin_pub_key G s)"
  "\<lambda>p. hex_laws G \<and> point_text_laws G \<and> pk_is_valid G p" for G :: "'z GrinLib_scheme"
  by unfold_locales (simp add: serialize_grin_public_key_def deserialize_grin_pub_key_def point_text_laws_def)

interpretation commitment_text: codec "serialize_commitment G"
  "\<lambda>s. proc_value (deserialize_commitment G s)"
  "\<lambda>c. hex_laws G \<and> point_text_laws G \<and> length c = 33" for G :: "'z GrinLib_scheme"
  by unfold_locales (simp add: serialize_commitment_def deserialize_commitment_def point_text_laws_def)

lemma proc_value_Some: "proc_value p = Some x \<Longrightarrow> p = Ret x"
  by (cases p) (simp_all add: proc_value_def)

text \<open>A context that has been through round 1: both points are valid.\<close>

definition mpbp_wf :: "('z GrinLib_scheme) \<Rightarrow> MPBPContext \<Rightarrow> bool" where
  "mpbp_wf G ctx \<longleftrightarrow>
     pk_is_valid G (t_1 ctx) \<and> pk_is_valid G (t_2 ctx) \<and> length (mp_commit ctx) = 33 \<and>
     (valid_sk (shared_nonce ctx) \<or> shared_nonce ctx = ZERO_KEY G) \<and>
     (valid_sk (tau_x ctx) \<or> tau_x ctx = ZERO_KEY G)"

text \<open>
  The context of the joint range proof survives the exchange: a context that has been through
  round 1 (both points valid, keys valid or zero, a commitment of full length) is read back from
  its text unchanged.
\<close>

theorem mpbp_roundtrip:
  assumes "hex_laws L" "scalar_laws L" "point_text_laws L" "mp_json_laws L" "mpbp_wf L ctx"
  shows "mpbp_from_string L (mpbp_to_string L ctx) = Ret ctx"
proof -
  have "from_str_ser_mp_ctx L (mpbp_to_string L ctx) = Some (mpbp_ser L ctx)"
    using assms(4) by (simp add: mpbp_to_string_def mp_json_laws_def)
  moreover have "deserialize_grin_pub_key L (serialize_grin_public_key L (t_1 ctx)) = Ret (t_1 ctx)"
    "deserialize_grin_pub_key L (serialize_grin_public_key L (t_2 ctx)) = Ret (t_2 ctx)"
    using assms by (auto intro!: proc_value_Some grin_pub_key_text.dec_enc simp: mpbp_wf_def)
  moreover have "deserialize_secret_key L (serialize_secret_key L (shared_nonce ctx)) = Ret (shared_nonce ctx)"
    "deserialize_secret_key L (serialize_secret_key L (tau_x ctx)) = Ret (tau_x ctx)"
    using assms by (auto intro!: proc_value_Some secret_key_text.dec_enc simp: mpbp_wf_def)
  moreover have "deserialize_commitment L (serialize_commitment L (mp_commit ctx)) = Ret (mp_commit ctx)"
    using assms by (auto intro!: proc_value_Some commitment_text.dec_enc simp: mpbp_wf_def)
  ultimately show ?thesis by (simp add: mpbp_from_string_def mpbp_ser_def)
qed

text \<open>A context that has not been through round 1 has no readable text: its points are the
  invalid key.\<close>

lemma mpbp_fresh_unreadable:
  assumes "hex_laws L" "mp_json_laws L" "pk_from_slice L (pk_serialize_vec L (pk_new L)) = None"
  shows "mpbp_from_string L (mpbp_to_string L (mpbp_new L nonce amount com)) =
    Panic ''PublicKey::from_slice''"
  using assms
  by (simp add: mpbp_from_string_def mpbp_to_string_def mp_json_laws_def mpbp_ser_def mpbp_new_def
      deserialize_grin_pub_key_def serialize_grin_public_key_def)

end
