(* ===== verification/Grin_Core.thy ===== *)
theory Grin_Core
  imports Grin_Routines
begin

text \<open>
  \<open>grin/grin_core.rs\<close>: the building blocks of Mimblewimble transactions with one or two senders
  and one or two receivers, adaptor signatures included, and the client of a Grin node. The
  handles on curve, keychain and randomness that \<open>GrinCore\<close> stores carry no data of their own.
\<close>

section \<open>Data\<close>

record GrinCore =
  grin_node :: GrinNodeSettings
  grin_factory :: RequestFactory

record SpendCoinsResult =
  sp_slate :: Slate
  sp_sig_key :: SecretKey
  sp_sig_nonce :: SecretKey
  sp_change_coin :: "MWCoin option"

record RecvCoinsResult =
  rc_slate :: Slate
  rc_output_coin :: MWCoin

record AptRecCoinsResult =
  ar_slate :: Slate
  ar_output_coin :: MWCoin
  ar_prt_sig :: "Signature \<times> Signature"

record DRecvCoinsResult =
  dr_slate :: Slate
  dr_out_key_blind :: SecretKey
  dr_sig_nonce :: SecretKey
  dr_prf_nonce :: SecretKey
  dr_prf_ctx :: MPBPContext

definition grin_core_new :: "GrinNodeSettings \<Rightarrow> RequestFactory \<Rightarrow> GrinCore" where
  "grin_core_new settings req_factory = \<lparr>grin_node = settings, grin_factory = req_factory\<rparr>"

section \<open>Shared steps\<close>

text \<open>The range proof of every output of a transaction is checked; a bad one panics.\<close>

definition verify_outputs :: "('z GrinLib_scheme) \<Rightarrow> Transaction \<Rightarrow> unit proc" where
  "verify_outputs G tx =
     for_each (\<lambda>out. if verify_bullet_proof G (out_commit out) (out_proof out) then Ret ()
                     else Panic ''Failed to verify outputcoin rangeproof'') (tx_outputs tx)"

definition tx_or_empty :: "('z GrinLib_scheme) \<Rightarrow> Slate \<Rightarrow> Transaction" where
  "tx_or_empty G s = (case slate_tx s of Some tx \<Rightarrow> tx | None \<Rightarrow> tx_empty G)"

definition expect_proc :: "string \<Rightarrow> ('e, 'a) result proc \<Rightarrow> 'a proc" where
  "expect_proc m p = pbind p (unwrap_res m)"

section \<open>Spending\<close>

definition sum_mw :: "MWCoin list \<Rightarrow> u64" where
  "sum_mw inputs = foldl (\<lambda>acc c. acc + mw_value c) 0 inputs"

definition has_duplicate :: "MWCoin list \<Rightarrow> bool" where
  "has_duplicate inputs =
     list_ex (\<lambda>(i, coin). list_ex (\<lambda>(j, cmp). i \<noteq> j \<and> mw_commitment coin = mw_commitment cmp)
       (enumerate 0 inputs)) (enumerate 0 inputs)"

text \<open>The loops over the input coins: their commitments as inputs, their keys subtracted from the
  sum of blinding factors.\<close>

fun spend_inputs ::
  "('z GrinLib_scheme) \<Rightarrow> MWCoin list \<Rightarrow> Input list \<Rightarrow> BlindSum \<Rightarrow> (Input list \<times> BlindSum) proc" where
  "spend_inputs G [] inp_vector bsum = Ret (inp_vector, bsum)"
| "spend_inputs G (coin # coins) inp_vector bsum =
     pbind (deserialize_commitment G (mw_commitment coin)) (\<lambda>com.
     pbind (deserialize_secret_key G (mw_blinding_factor coin)) (\<lambda>inp_key.
     spend_inputs G coins (inp_vector @ [\<lparr>inp_features = Plain, inp_commit = com\<rparr>])
       (sub_blinding_factor G bsum (bf_from_secret_key G inp_key))))"

definition spend_coins ::
  "('z GrinLib_scheme) \<Rightarrow> MWCoin list \<Rightarrow> u64 \<Rightarrow> u64 \<Rightarrow> nat \<Rightarrow> u8 \<Rightarrow> (string, SpendCoinsResult) result proc" where
  "spend_coins G inputs fund_value timelock num_of_outputs np =
     (let lock_height_param = (if timelock \<noteq> 0 then Some timelock else None);
          kernel_feat_param = (if lock_height_param \<noteq> None then 2 else 0)
      in FreshUuid (\<lambda>uuid.
         let slate = blank_with_kernel_features G uuid np False kernel_feat_param lock_height_param;
             fee = tx_fee G (length inputs) num_of_outputs 1;
             inpval = sum_mw inputs
         in if inputs = [] then Ret (Err ''No inputs provided'')
            else if fund_value \<le> 0 then Ret (Err ''Invalid parameters for fund_value provided'')
            else if num_of_outputs > 1 \<and> inpval < fund_value + fee \<or> inpval < fund_value
            then Ret (Err ''Spend coins function failed, input coins do not have enough value'')
            else if has_duplicate inputs
            then Ret (Err ''Spend coins function failed, duplicate input coins provided'')
            else
              pbind create_secret_key (\<lambda>change_coin_key.
              pbind create_secret_key (\<lambda>sig_nonce.
              pbind create_secret_key (\<lambda>prf_nonce.
              pbind create_secret_key (\<lambda>rew_nonce.
              pbind create_secret_key (\<lambda>offset_key.
              let offset = bf_from_secret_key G offset_key
              in
              pbind (unwrap ''FeeFields::new'' (fee_fields_new G 0 fee)) (\<lambda>fee_field.
              let tx = tx_empty G;
                  slate = slate\<lparr>fee_fields := fee_field, slate_amount := fund_value,
                                slate_offset := offset\<rparr>
              in
              pbind (spend_inputs G inputs [] (blind_sum_new G)) (\<lambda>(inp_vector, bsum).
              let tx = tx_new G (FeaturesAndCommit inp_vector) (tx_outputs tx) (tx_kernels tx)
              in
              pbind (unwrap ''i64::try_from'' (i64_try_from inpval)) (\<lambda>inp_i.
              pbind (unwrap ''i64::try_from'' (i64_try_from fund_value)) (\<lambda>fund_i.
              pbind (unwrap ''i64::try_from'' (i64_try_from fee)) (\<lambda>fee_i.
              let change_value = inp_i - fund_i - fee_i
              in
              pbind (if change_value > 0 then
                       let out_bf = bf_from_secret_key G change_coin_key;
                           bsum = add_blinding_factor G bsum out_bf
                       in pbind (unwrap ''u64::try_from'' (u64_try_from change_value)) (\<lambda>change_value_u64.
                          pbind (unwrap ''Failed to create change coin commitment''
                                   (secp_commit G change_value_u64 change_coin_key)) (\<lambda>com.
                          let proof = bullet_proof G change_value_u64 change_coin_key rew_nonce prf_nonce;
                              out = \<lparr>out_features = Plain, out_commit = com, out_proof = proof\<rparr>
                          in Ret (with_output G out tx, bsum, change_value_u64, Some com)))
                     else Ret (tx, bsum, 0, None)) (\<lambda>(tx, bsum, change_value_u64, com).
              pbind (unwrap ''Failure when calculating blinding factor sum'' (blind_sum G bsum)) (\<lambda>final_bf.
              let tx = tx\<lparr>tx_offset := offset\<rparr>;
                  slate = slate\<lparr>slate_tx := Some tx\<rparr>
              in
              pbind (unwrap ''split'' (bf_split G final_bf offset)) (\<lambda>key_bf.
              pbind (unwrap ''secret_key'' (bf_secret_key G key_bf)) (\<lambda>final_key.
              pbind (unwrap ''secret_key'' (bf_secret_key G final_bf)) (\<lambda>initial_key.
              let ctx = (create_minimal_ctx G final_key sig_nonce fund_value fee_field)
                          \<lparr>initial_sec_key := initial_key\<rparr>
              in
              pbind (unwrap_res ''Failed to complete round 1 on the senders turn''
                       (fill_round_1 G slate ctx)) (\<lambda>slate.
              let change_coin_output =
                    (case com of
                       None \<Rightarrow> None
                     | Some c \<Rightarrow> Some (mwcoin_new G c change_coin_key change_value_u64))
              in Ret (Ok \<lparr>sp_slate = slate, sp_sig_key = final_key, sp_sig_nonce = sig_nonce,
                          sp_change_coin = change_coin_output\<rparr>)))))))))))))))))))"

fun spend_keys :: "('z GrinLib_scheme) \<Rightarrow> MWCoin list \<Rightarrow> BlindSum \<Rightarrow> BlindSum proc" where
  "spend_keys G [] bsum = Ret bsum"
| "spend_keys G (coin # coins) bsum =
     pbind (deserialize_secret_key G (mw_blinding_factor coin)) (\<lambda>inp_key.
     spend_keys G coins (sub_blinding_factor G bsum (bf_from_secret_key G inp_key)))"

definition d_spend_coins ::
  "('z GrinLib_scheme) \<Rightarrow> MWCoin list \<Rightarrow> Slate \<Rightarrow> u64 \<Rightarrow> u64 \<Rightarrow> (string, SpendCoinsResult) result proc" where
  "d_spend_coins G inputs slate fund_value timelock =
     (let tx = tx_or_empty G slate
      in
      pbind (verify_outputs G tx) (\<lambda>_.
      if slate_amount slate \<noteq> fund_value then Ret (Err ''Transaction amount found to be invalid'')
      else if inputs_len G (tx_inputs tx) \<noteq> length inputs
      then Ret (Err ''Inputs don't match with coins given in parameters'')
      else
        pbind (if timelock \<noteq> 0 then
                 (if slate_kernel_features slate = 2
                  then pbind (unwrap ''kernel_features_args'' (kernel_features_args slate)) (\<lambda>a.
                       Ret (lock_height a = timelock))
                  else Ret False)
               else Ret (slate_kernel_features slate = 0)) (\<lambda>valid_features.
        if \<not> valid_features then Ret (Err ''Transaction timelock is not setup correctly!'')
        else
          pbind (spend_keys G inputs (blind_sum_new G)) (\<lambda>bsum.
          pbind (unwrap ''Failed to calculate final blinding factor sum'' (blind_sum G bsum)) (\<lambda>bf.
          pbind (unwrap ''secret_key'' (bf_secret_key G bf)) (\<lambda>final_key.
          pbind create_secret_key (\<lambda>sig_nonce.
          let ctx = create_minimal_ctx G final_key sig_nonce fund_value (fee_fields slate)
          in
          pbind (unwrap_res ''Failed to complete round 1 on the senders turn''
                   (fill_round_1 G slate ctx)) (\<lambda>slate.
          Ret (Ok \<lparr>sp_slate = slate, sp_sig_key = final_key, sp_sig_nonce = sig_nonce,
                   sp_change_coin = None\<rparr>)))))))))"

section \<open>Receiving\<close>

text \<open>What \<open>recv_coins\<close> and \<open>apt_recv_coins\<close> have in common: the output coin, the kernel and
  round 1.\<close>

definition recv_output ::
  "('z GrinLib_scheme) \<Rightarrow> Slate \<Rightarrow> u64 \<Rightarrow> (Slate \<times> SecretKey \<times> SecretKey \<times> Commitment) proc" where
  "recv_output G slate fund_value =
     (let tx = tx_or_empty G slate
      in
      pbind (verify_outputs G tx) (\<lambda>_.
      pbind create_secret_key (\<lambda>out_coin_key.
      pbind create_secret_key (\<lambda>rew_nonce.
      pbind create_secret_key (\<lambda>prf_nonce.
      pbind create_secret_key (\<lambda>sig_nonce.
      pbind (unwrap ''Failed to generate pedersen commitment for recv_coins output coin''
               (secp_commit G fund_value out_coin_key)) (\<lambda>com.
      let proof = bullet_proof G fund_value out_coin_key rew_nonce prf_nonce;
          tx = with_output G \<lparr>out_features = Plain, out_commit = com, out_proof = proof\<rparr> tx;
          slate = slate\<lparr>slate_tx := Some tx\<rparr>
      in
      pbind (unwrap_res ''Failed to udpate kernel in recv_coins'' (update_kernel G slate)) (\<lambda>slate.
      let ctx = create_minimal_ctx G out_coin_key sig_nonce fund_value (fee_fields slate)
      in
      pbind (unwrap_res ''Failed to complete round 1 on receivers turn''
               (fill_round_1 G slate ctx)) (\<lambda>slate.
      Ret (slate, out_coin_key, sig_nonce, com))))))))))"

definition recv_coins ::
  "('z GrinLib_scheme) \<Rightarrow> Slate \<Rightarrow> u64 \<Rightarrow> (string, RecvCoinsResult) result proc" where
  "recv_coins G slate fund_value =
     pbind (recv_output G slate fund_value) (\<lambda>(slate, out_coin_key, sig_nonce, com).
     pbind (expect_proc ''Failed to complete round 2 on receivers turn''
              (fill_round_2 G slate out_coin_key sig_nonce)) (\<lambda>slate.
     Ret (Ok \<lparr>rc_slate = slate, rc_output_coin = mwcoin_new G com out_coin_key fund_value\<rparr>)))"

definition apt_recv_coins ::
  "('z GrinLib_scheme) \<Rightarrow> Slate \<Rightarrow> u64 \<Rightarrow> SecretKey \<Rightarrow> (string, AptRecCoinsResult) result proc" where
  "apt_recv_coins G slate fund_value x =
     pbind (recv_output G slate fund_value) (\<lambda>(slate, out_coin_key, sig_nonce, com).
     pbind (unwrap_res ''pub_nonce_sum'' (pub_nonce_sum G slate)) (\<lambda>nonce_sum.
     pbind (unwrap_res ''pub_blind_sum'' (pub_blind_sum G slate)) (\<lambda>key_sum.
     pbind (unwrap_res ''msg_to_sign'' (msg_to_sign G slate)) (\<lambda>msg.
     pbind (unwrap ''Failed to calculate adapted signature in apt_recv''
              (sign_single G msg out_coin_key sig_nonce None nonce_sum key_sum nonce_sum)) (\<lambda>sig.
     pbind (unwrap ''Failed to calculate unadapted signature in apt_recv''
              (sign_single G msg out_coin_key sig_nonce (Some x) nonce_sum key_sum nonce_sum)) (\<lambda>apt_sig.
     pbind (unwrap ''PublicKey::from_secret_key'' (pk_from_secret_key G out_coin_key)) (\<lambda>pub_excess.
     pbind (unwrap ''PublicKey::from_secret_key'' (pk_from_secret_key G sig_nonce)) (\<lambda>pub_nonce.
     pbind (add_my_sig slate pub_excess pub_nonce apt_sig) (\<lambda>slate.
     Ret (Ok \<lparr>ar_slate = slate, ar_output_coin = mwcoin_new G com out_coin_key fund_value,
              ar_prt_sig = (apt_sig, sig)\<rparr>))))))))))"

definition drecv_coins_r1 ::
  "('z GrinLib_scheme) \<Rightarrow> Slate \<Rightarrow> u64 \<Rightarrow> (string, DRecvCoinsResult) result proc" where
  "drecv_coins_r1 G slate fund_value =
     pbind (verify_outputs G (tx_or_empty G slate)) (\<lambda>_.
     pbind create_secret_key (\<lambda>out_coin_blind.
     pbind create_secret_key (\<lambda>nonce.
     pbind create_secret_key (\<lambda>prf_nonce.
     pbind create_secret_key (\<lambda>sig_nonce.
     pbind (unwrap_res ''Faile to fill_round_1 on drecv_coins r1''
              (fill_round_1 G slate
                 (create_minimal_ctx G out_coin_blind sig_nonce fund_value (fee_fields slate)))) (\<lambda>slate.
     pbind (unwrap ''Failed to generate pedersen commitment for drecv_coins_r1''
              (secp_commit G fund_value out_coin_blind)) (\<lambda>com.
     let prf_ctx = mpbp_new G nonce fund_value com
     in
     pbind (expect_proc ''Failed to run round 1A of mp bulletproofs''
              (mp_bullet_proof_r1 G prf_ctx out_coin_blind prf_nonce)) (\<lambda>prf_ctx.
     Ret (Ok \<lparr>dr_slate = slate, dr_out_key_blind = out_coin_blind, dr_sig_nonce = sig_nonce,
              dr_prf_nonce = prf_nonce, dr_prf_ctx = prf_ctx\<rparr>)))))))))"

definition drecv_coins_r2 ::
  "('z GrinLib_scheme) \<Rightarrow> Slate \<Rightarrow> u64 \<Rightarrow> MPBPContext \<Rightarrow> (string, RecvCoinsResult \<times> MPBPContext) result proc" where
  "drecv_coins_r2 G slate fund_value prf_ctx =
     pbind (verify_outputs G (tx_or_empty G slate)) (\<lambda>_.
     pbind create_secret_key (\<lambda>out_coin_blind.
     pbind create_secret_key (\<lambda>prf_nonce.
     pbind create_secret_key (\<lambda>sig_nonce.
     pbind (unwrap ''Failed to generete pedersen commitment for drecv_coins_r2''
              (secp_commit G 0 out_coin_blind)) (\<lambda>com.
     pbind (add_commit G prf_ctx com) (\<lambda>prf_ctx.
     pbind (expect_proc ''Failed to run round 1B of mp bulletproofs''
              (mp_bullet_proof_r1 G prf_ctx out_coin_blind prf_nonce)) (\<lambda>prf_ctx.
     pbind (expect_proc ''Failed to run round 2A of mp bulletproofs''
              (mp_bullet_proof_r2 G prf_ctx out_coin_blind prf_nonce)) (\<lambda>prf_ctx.
     pbind (unwrap_res ''Failed to run fill_round_1 on drecv_coins_r2''
              (fill_round_1 G slate
                 (create_minimal_ctx G out_coin_blind sig_nonce fund_value (fee_fields slate)))) (\<lambda>slate.
     pbind (expect_proc ''Failed to run fill_round_2 on drecv_coins_r2''
              (fill_round_2 G slate out_coin_blind sig_nonce)) (\<lambda>slate.
     let coin = mwcoin_new G (mp_commit prf_ctx) out_coin_blind fund_value
     in Ret (Ok (\<lparr>rc_slate = slate, rc_output_coin = coin\<rparr>, prf_ctx))))))))))))"

definition drecv_coins_r3 ::
  "('z GrinLib_scheme) \<Rightarrow> Slate \<Rightarrow> MPBPContext \<Rightarrow> SecretKey \<Rightarrow> SecretKey \<Rightarrow> SecretKey \<Rightarrow>
   (string, RecvCoinsResult) result proc" where
  "drecv_coins_r3 G slate prf_ctx out_coin_blind prf_nonce sig_nonce =
     (let commit = mp_commit prf_ctx;
          amount = mp_amount prf_ctx
      in
      pbind (expect_proc ''failed to run round 2 of mp_bullet_proof''
               (mp_bullet_proof_r2 G prf_ctx out_coin_blind prf_nonce)) (\<lambda>prf_ctx.
      pbind (expect_proc ''Failed to finalize mp bulletproof''
               (mp_bullet_proof_fin G prf_ctx out_coin_blind prf_nonce)) (\<lambda>proof.
      let out = \<lparr>out_features = Plain, out_commit = commit, out_proof = proof\<rparr>
      in
      pbind (unwrap ''slate.tx'' (slate_tx slate)) (\<lambda>tx.
      let slate = slate\<lparr>slate_tx := Some (with_output G out tx)\<rparr>
      in
      pbind (expect_proc ''fill_round_2'' (fill_round_2 G slate out_coin_blind sig_nonce)) (\<lambda>slate.
      pbind (unwrap_res ''Failed to update kernel in drecv_coins_r3'' (update_kernel G slate)) (\<lambda>slate.
      Ret (Ok \<lparr>rc_slate = slate, rc_output_coin = mwcoin_new G commit out_coin_blind amount\<rparr>)))))))"

section \<open>Finishing\<close>

definition verify_adapted :: "('z GrinLib_scheme) \<Rightarrow> Slate \<Rightarrow> PublicKey \<Rightarrow> PublicKey \<Rightarrow> Message \<Rightarrow> PublicKey \<Rightarrow> unit proc" where
  "verify_adapted G slate nonce_sum key_sum msg px =
     for_each (\<lambda>p. case part_sig p of
         None \<Rightarrow> Ret ()
       | Some sig \<Rightarrow>
           (if verify_single G sig msg nonce_sum (public_blind_excess p) key_sum px then Ret ()
            else Panic ''Partial adapted signature verification failed'')) (participant_data slate)"

definition fin_tx ::
  "('z GrinLib_scheme) \<Rightarrow> Slate \<Rightarrow> SecretKey \<Rightarrow> SecretKey \<Rightarrow> bool \<Rightarrow> PublicKey option \<Rightarrow>
   (Signature \<times> Signature) option \<Rightarrow> (string, Slate) result proc" where
  "fin_tx G slate key nonce fin pub_x replace_sig =
     pbind (unwrap ''slate.tx'' (slate_tx slate)) (\<lambda>tx.
     pbind (verify_outputs G tx) (\<lambda>_.
     pbind
       (case pub_x of
          Some px \<Rightarrow>
            pbind (unwrap_res ''pub_nonce_sum'' (pub_nonce_sum G slate)) (\<lambda>nonce_sum.
            pbind (unwrap_res ''pub_blind_sum'' (pub_blind_sum G slate)) (\<lambda>key_sum.
            pbind (unwrap_res ''msg_to_sign'' (msg_to_sign G slate)) (\<lambda>msg.
            pbind (verify_adapted G slate nonce_sum key_sum msg px) (\<lambda>_.
            pbind (unwrap ''Failed to calculate signature in fin_tx''
                     (sign_single G msg key nonce None nonce_sum key_sum nonce_sum)) (\<lambda>sig.
            pbind (unwrap ''PublicKey::from_secret_key'' (pk_from_secret_key G key)) (\<lambda>pub_excess.
            pbind (unwrap ''PublicKey::from_secret_key'' (pk_from_secret_key G nonce)) (\<lambda>pub_nonce.
            add_my_sig slate pub_excess pub_nonce sig)))))))
        | None \<Rightarrow>
            pbind (case replace_sig of
                     Some (old_sig, new_sig) \<Rightarrow>
                       pbind (set_part_sig [0..<unat (num_participants slate)]
                                (\<lambda>p. part_sig p = Some old_sig) new_sig (participant_data slate)) (\<lambda>ps.
                       Ret (slate\<lparr>participant_data := ps\<rparr>))
                   | None \<Rightarrow> Ret slate) (\<lambda>slate.
            expect_proc ''Failed to complete round 2 on senders turn'' (fill_round_2 G slate key nonce)))
       (\<lambda>slate.
     if fin
     then pbind (expect_proc ''Failed to finalize transaction'' (finalize G slate)) (\<lambda>slate. Ret (Ok slate))
     else Ret (Ok slate))))"

definition ext_witness :: "('z GrinLib_scheme) \<Rightarrow> Signature \<Rightarrow> Signature \<Rightarrow> SecretKey proc" where
  "ext_witness G prt_sig apt_sig =
     pbind (sig_extract_s G apt_sig) (\<lambda>apt_s.
     pbind (sig_extract_s G prt_sig) (\<lambda>prt_s.
     pbind (unwrap ''neg_assign'' (sk_neg_assign G prt_s)) (\<lambda>prt_s.
     unwrap ''add_assign'' (sk_add_assign G apt_s prt_s))))"

section \<open>The Grin node\<close>

definition grin_url :: "GrinCore \<Rightarrow> string" where
  "grin_url core =
     ''http://'' @ node_url (grin_node core) @ '':'' @ show_nat (unat (node_port (grin_node core))) @ ''/v2/foreign''"

definition grin_rpc :: "GrinCore \<Rightarrow> string \<Rightarrow> JsonRpcParam list \<Rightarrow> JsonRpc" where
  "grin_rpc core meth params = json_rpc_new ''2.0'' (node_id (grin_node core)) meth params"

definition get_block_height :: "('z RpcLib_scheme) \<Rightarrow> GrinCore \<Rightarrow> (string, u64) result proc" where
  "get_block_height L core =
     try_bind (rpc_call (grin_node core) (grin_factory core) (grin_url core)
                 (grin_rpc core ''get_tip'' [])) (\<lambda>x.
     pbind (unwrap ''serde_json::from_str'' (from_str_get_tip L (resp_content x))) (\<lambda>parsed.
     case grin_resp_error parsed of
       Some e \<Rightarrow> Ret (Err (err_message e))
     | None \<Rightarrow>
         (if grin_resp_id parsed \<noteq> node_id (grin_node core) then Ret (Err ''Invalid JRPC response id'')
          else pbind (unwrap ''result'' (grin_resp_result parsed)) (\<lambda>r. Ret (Ok (tip_height r))))))"

definition push_transaction :: "('z RpcLib_scheme) \<Rightarrow> GrinCore \<Rightarrow> Transaction \<Rightarrow> (string, unit) result proc" where
  "push_transaction L core tx =
     try_bind (rpc_call (grin_node core) (grin_factory core) (grin_url core)
                 (grin_rpc core ''push_transaction'' [PTx tx, PBool True])) (\<lambda>x.
     pbind (unwrap ''serde_json::from_str'' (from_str_push_tx L (resp_content x))) (\<lambda>parsed.
     case grin_resp_error parsed of
       Some e \<Rightarrow> Ret (Err (err_message e))
     | None \<Rightarrow>
         (if grin_resp_id parsed \<noteq> node_id (grin_node core) then Ret (Err ''Invalid JRPC response id'')
          else Ret (Ok ()))))"

section \<open>Every call of the node is one request\<close>

interpretation tip_rpc: node_rpc "get_block_height L" grin_node grin_factory grin_url
  "\<lambda>core. grin_rpc core ''get_tip'' []" for L :: "'z RpcLib_scheme"
  by (rule node_rpcI, rule get_block_height_def, intro silentI)

interpretation push_rpc: node_rpc "\<lambda>core. push_transaction L core tx" grin_node grin_factory grin_url
  "\<lambda>core. grin_rpc core ''push_transaction'' [PTx tx, PBool True]" for L :: "'z RpcLib_scheme" and tx
  by (rule node_rpcI, rule push_transaction_def, intro silentI)

section \<open>Runs\<close>

declare replay.simps [simp del]

lemma run_expect [run_simps]:
  "replay (expect_proc m p) es = (Done x, es') \<longleftrightarrow> replay p es = (Done (Inr x), es')"
  by (auto simp: expect_proc_def run_simps)

lemma run_create_secret_key [run_simps]:
  "replay create_secret_key es = (Done k, es') \<longleftrightarrow> es = EKey k # es'"
  by (simp add: create_secret_key_def run_simps)

lemma silent_routines [intro!, silentI]:
  "silent (deserialize_commitment G c)" "silent (deserialize_secret_key G c)"
  "silent (deserialize_grin_pub_key G c)" "silent (sig_extract_s G sig)"
  by (auto simp: deserialize_commitment_def deserialize_secret_key_def deserialize_grin_pub_key_def
      sig_extract_s_def)

lemma silent_spend_inputs [intro!, silentI]: "silent (spend_inputs G coins inp bsum)"
  by (induction coins arbitrary: inp bsum) auto

lemma silent_spend_keys [intro!, silentI]: "silent (spend_keys G coins bsum)"
  by (induction coins arbitrary: bsum) auto

lemma silent_verify_outputs [intro!, silentI]: "silent (verify_outputs G tx)"
  by (auto simp: verify_outputs_def)

lemma silent_verify_adapted [intro!, silentI]: "silent (verify_adapted G s ns ks msg px)"
  unfolding verify_adapted_def by (auto split: option.split)

lemma silent_expect [intro!, silentI]: "silent p \<Longrightarrow> silent (expect_proc m p)"
  by (auto simp: expect_proc_def)

lemma silent_fin_tx [intro!, silentI]: "silent (fin_tx G s key nonce fin px rs)"
  unfolding fin_tx_def by (intro silentI)

lemma silent_ext_witness [intro!, silentI]: "silent (ext_witness G a b)"
  by (auto simp: ext_witness_def)

lemmas silent_runs [run_simps] =
  run_silent [OF silent_spend_inputs] run_silent [OF silent_spend_keys]
  run_silent [OF silent_verify_outputs] run_silent [OF silent_verify_adapted]
  run_silent [OF silent_fin_tx] run_silent [OF silent_ext_witness]
  run_silent [OF silent_set_part_sig] run_silent [OF silent_add_my_sig]
  run_silent [OF silent_fill_round_2] run_silent [OF silent_finalize]
  run_silent [OF silent_routines(1)] run_silent [OF silent_routines(2)]
  run_silent [OF silent_routines(3)] run_silent [OF silent_routines(4)]

lemma for_each_Ret: "for_each f xs = Ret () \<longleftrightarrow> (\<forall>x \<in> set xs. f x = Ret ())"
  by (induction xs) (auto simp: pbind_eq_Ret)

lemma verify_outputs_Ret:
  "verify_outputs G tx = Ret u \<longleftrightarrow>
   (\<forall>out \<in> set (tx_outputs tx). verify_bullet_proof G (out_commit out) (out_proof out))"
  by (auto simp: verify_outputs_def for_each_Ret split: if_splits)

lemma list_ex_enumerate: "list_ex (\<lambda>(i, x). P i x) (enumerate 0 xs) \<longleftrightarrow> (\<exists>i < length xs. P i (xs ! i))"
  by (auto simp: list_ex_iff in_set_enumerate_eq)

lemma has_duplicate_iff: "has_duplicate inputs \<longleftrightarrow> \<not> distinct (map mw_commitment inputs)"
  unfolding has_duplicate_def list_ex_enumerate distinct_conv_nth by (simp del: not_all) blast

lemma blank_parts [simp]:
  "participant_data (blank_with_kernel_features G u n i k h) = []"
  "slate_num_participants (blank_with_kernel_features G u n i k h) = (if n = 0 then 2 else n)"
  by (simp_all add: blank_with_kernel_features_def Let_def)

lemma ex_if_Some: "(\<exists>y. (if b then Some x else None) = Some y) \<longleftrightarrow> b"
  by simp

lemma spend_coins_Ok:
  assumes "replay (spend_coins G inputs fund_value timelock no np) es = (Done (Ok r), es')"
  obtains uuid ck pn rn offk ff tx k n inp_i fund_i fee_i where
     "es = EUuid uuid # EKey ck # EKey (sp_sig_nonce r) # EKey pn # EKey rn # EKey offk # es'"
     "inputs \<noteq> []" "fund_value \<noteq> 0" "\<not> has_duplicate inputs"
     "\<not> (no > 1 \<and> sum_mw inputs < fund_value + tx_fee G (length inputs) no (Suc 0) \<or> sum_mw inputs < fund_value)"
     "i64_try_from (sum_mw inputs) = Some inp_i" "i64_try_from fund_value = Some fund_i"
     "i64_try_from (tx_fee G (length inputs) no (Suc 0)) = Some fee_i"
     "pk_from_secret_key G (sp_sig_key r) = Some k" "pk_from_secret_key G (sp_sig_nonce r) = Some n"
     "sp_slate r = (blank_with_kernel_features G uuid np False (if timelock \<noteq> 0 then 2 else 0)
        (if timelock \<noteq> 0 then Some timelock else None))
        \<lparr>fee_fields := ff, slate_amount := fund_value, slate_offset := bf_from_secret_key G offk,
         slate_tx := Some tx, participant_data := [\<lparr>public_blind_excess = k, public_nonce = n, part_sig = None\<rparr>]\<rparr>"
     "tx_offset tx = bf_from_secret_key G offk"
     "if inp_i - fund_i - fee_i > 0
      then \<exists>v c. u64_try_from (inp_i - fund_i - fee_i) = Some v \<and> sp_change_coin r = Some (mwcoin_new G c ck v)
      else sp_change_coin r = None"
proof -
  show thesis
    using assms unfolding spend_coins_def Let_def
    apply (simp add: run_simps fill_round_1_def create_minimal_ctx_def split: prod.splits)
    apply (elim exE conjE add_participant_info_Ok)
    apply (erule disjE)
    subgoal by clarsimp (rule that, (rule refl | assumption | simp add: ex_if_Some not_less | auto)+)
    subgoal by clarsimp (rule that, (rule refl | assumption | simp add: ex_if_Some not_less | auto)+)
    done
qed

lemma d_spend_coins_Ok:
  assumes "replay (d_spend_coins G inputs slate fund_value timelock) es = (Done (Ok r), es')"
  obtains k n where
    "es = EKey (sp_sig_nonce r) # es'"
    "slate_amount slate = fund_value" "inputs_len G (tx_inputs (tx_or_empty G slate)) = length inputs"
    "if timelock = 0 then slate_kernel_features slate = 0
     else slate_kernel_features slate = 2 \<and> kernel_features_args slate = Some \<lparr>lock_height = timelock\<rparr>"
    "pk_from_secret_key G (sp_sig_key r) = Some k" "pk_from_secret_key G (sp_sig_nonce r) = Some n"
    "sp_slate r = slate\<lparr>participant_data := filter (\<lambda>v. \<not> my_entry k n v) (participant_data slate) @
       [\<lparr>public_blind_excess = k, public_nonce = n,
         part_sig = kept_part_sig n k None (participant_data slate)\<rparr>]\<rparr>"
    "sp_change_coin r = None"
proof -
  show thesis
    using assms unfolding d_spend_coins_def Let_def
    apply (simp add: run_simps fill_round_1_def create_minimal_ctx_def cong: if_cong)
    apply (elim exE conjE add_participant_info_Ok)
    apply (rule that)
    by (auto split: if_splits)
qed

lemma recv_output_Done:
  assumes "replay (recv_output G slate fund_value) es = (Done (slate', out_key, sig_nonce, com), es')"
  obtains rn pn k n tx' where
    "es = EKey out_key # EKey rn # EKey pn # EKey sig_nonce # es'"
    "secp_commit G fund_value out_key = Some com"
    "pk_from_secret_key G out_key = Some k" "pk_from_secret_key G sig_nonce = Some n"
    "slate' = slate\<lparr>slate_tx := Some tx',
       participant_data := filter (\<lambda>v. \<not> my_entry k n v) (participant_data slate) @
         [\<lparr>public_blind_excess = k, public_nonce = n,
           part_sig = kept_part_sig n k None (participant_data slate)\<rparr>]\<rparr>"
proof -
  show thesis
    using assms unfolding recv_output_def Let_def
    apply (simp add: run_simps fill_round_1_def create_minimal_ctx_def update_kernel_def rbind_eq_Ok)
    apply (elim exE conjE add_participant_info_Ok)
    apply (rule that)
    by auto
qed

lemma apt_recv_coins_Ok:
  assumes "replay (apt_recv_coins G slate fund_value x) es = (Done (Ok r), es')"
  obtains out_key rn pn sig_nonce k n tx' ns ks msg sig apt s1 where
    "es = EKey out_key # EKey rn # EKey pn # EKey sig_nonce # es'"
    "s1 = slate\<lparr>slate_tx := Some tx',
       participant_data := filter (\<lambda>v. \<not> my_entry k n v) (participant_data slate) @
         [\<lparr>public_blind_excess = k, public_nonce = n,
           part_sig = kept_part_sig n k None (participant_data slate)\<rparr>]\<rparr>"
    "sign_single G msg out_key sig_nonce None ns ks ns = Some sig"
    "sign_single G msg out_key sig_nonce (Some x) ns ks ns = Some apt"
    "add_my_sig s1 k n apt = Ret (ar_slate r)" "ar_prt_sig r = (apt, sig)"
proof -
  from assms obtain s1 out_key sig_nonce com es1 ns ks msg sig apt k n where
    ro: "replay (recv_output G slate fund_value) es = (Done (s1, out_key, sig_nonce, com), es1)"
    and f: "sign_single G msg out_key sig_nonce None ns ks ns = Some sig"
      "sign_single G msg out_key sig_nonce (Some x) ns ks ns = Some apt"
      "pk_from_secret_key G out_key = Some k" "pk_from_secret_key G sig_nonce = Some n"
      "add_my_sig s1 k n apt = Ret (ar_slate r)" "ar_prt_sig r = (apt, sig)" "es1 = es'"
    unfolding apt_recv_coins_def by (auto simp: run_simps split: prod.splits)
  from ro show thesis
    by (rule recv_output_Done) (rule that [OF _ _ f(1,2) _ f(6)], use f in auto)
qed

lemma fin_tx_adapted_Ok:
  assumes "fin_tx G slate key nonce False (Some px) rs = Ret (Ok s')"
  obtains ns ks msg sig k n where
    "pub_nonce_sum G slate = Ok ns" "pub_blind_sum G slate = Ok ks" "msg_to_sign G slate = Ok msg"
    "verify_adapted G slate ns ks msg px = Ret ()"
    "sign_single G msg key nonce None ns ks ns = Some sig"
    "pk_from_secret_key G key = Some k" "pk_from_secret_key G nonce = Some n"
    "add_my_sig slate k n sig = Ret s'"
  using assms unfolding fin_tx_def by (auto simp: pbind_eq_Ret)

lemma fin_tx_replace_Ok:
  assumes "fin_tx G slate key nonce True None (Some (old, new)) = Ret (Ok s')"
  obtains ps s2 where
    "set_part_sig [0..<unat (num_participants slate)] (\<lambda>p. part_sig p = Some old) new
       (participant_data slate) = Ret ps"
    "fill_round_2 G (slate\<lparr>participant_data := ps\<rparr>) key nonce = Ret (Ok s2)"
    "finalize G s2 = Ret (Ok s')"
  using assms unfolding fin_tx_def by (auto simp: pbind_eq_Ret expect_proc_def)

section \<open>The hidden secret\<close>

lemma scalar_lawsD:
  assumes "scalar_laws G"
  shows "sk_from_slice G b = (if valid_sk b then Some b else None)"
    and "valid_sk a \<Longrightarrow> \<exists>c. sk_neg_assign G a = Some c \<and> valid_sk c \<and> be_int c = (- be_int a) mod curve_order"
    and "is_scalar a \<Longrightarrow> is_scalar b \<Longrightarrow>
       sk_add_assign G a b = (if (be_int a + be_int b) mod curve_order = 0 then None else sk_add_assign G a b) \<and>
       (\<forall>c. sk_add_assign G a b = Some c \<longrightarrow> valid_sk c \<and> be_int c = (be_int a + be_int b) mod curve_order) \<and>
       ((be_int a + be_int b) mod curve_order \<noteq> 0 \<longrightarrow> (\<exists>c. sk_add_assign G a b = Some c))"
  using assms unfolding scalar_laws_def by (blast, blast, fastforce)

lemma scalar_mod [simp]: "is_scalar a \<Longrightarrow> be_int a mod curve_order = be_int a"
  by (simp add: is_scalar_def)

lemma is_scalar_inject: "is_scalar a \<Longrightarrow> is_scalar b \<Longrightarrow> be_int a = be_int b \<Longrightarrow> a = b"
  by (rule be_int_inject) (simp_all add: is_scalar_def)

lemma valid_sk_scalar [simp]: "valid_sk a \<Longrightarrow> is_scalar a"
  by (simp add: valid_sk_def)

text \<open>The difference of two signatures whose \<open>s\<close> differ by \<open>x\<close> is \<open>x\<close>.\<close>

lemma ext_witness_diff:
  assumes "scalar_laws G" "is_scalar x" "valid_sk (sig_s G sig)" "valid_sk (sig_s G apt)"
    and "be_int (sig_s G apt) = (be_int (sig_s G sig) + be_int x) mod curve_order"
  shows "ext_witness G sig apt = (if be_int x = 0 then Panic ''add_assign'' else Ret x)"
proof -
  obtain m where m: "sk_neg_assign G (sig_s G sig) = Some m" "valid_sk m"
    "be_int m = (- be_int (sig_s G sig)) mod curve_order"
    using scalar_lawsD(2) [OF assms(1,3)] by blast
  have d: "(be_int (sig_s G apt) + be_int m) mod curve_order = be_int x"
    using assms(2) unfolding assms(5) m(3) by (simp add: mod_simps)
  have ex: "sig_extract_s G s = Ret (sig_s G s)" if "valid_sk (sig_s G s)" for s
    using that scalar_lawsD(1) [OF assms(1)] by (simp add: sig_extract_s_def sig_s_def)
  note add = scalar_lawsD(3) [OF assms(1), of "sig_s G apt" m, unfolded d]
  show ?thesis
  proof (cases "be_int x = 0")
    case True
    with add assms(4) m have "sk_add_assign G (sig_s G apt) m = None" by simp
    with True ex assms(3,4) m show ?thesis by (simp add: ext_witness_def)
  next
    case False
    with add assms(4) m obtain c where c: "sk_add_assign G (sig_s G apt) m = Some c" "valid_sk c"
      "be_int c = be_int x" by auto
    with assms(2) have "c = x" by (intro is_scalar_inject) simp_all
    with False c ex assms(3,4) m show ?thesis by (simp add: ext_witness_def)
  qed
qed

lemma ext_witness_Ret:
  assumes "scalar_laws G" "ext_witness G sig apt = Ret y"
  shows "valid_sk (sig_s G sig)" "valid_sk (sig_s G apt)"
  using assms scalar_lawsD(1) [OF assms(1)]
  by (auto simp: ext_witness_def pbind_eq_Ret sig_extract_s_def sig_s_def split: if_splits)

lemma ext_witness_same:
  assumes "scalar_laws G"
  shows "ext_witness G sig sig \<noteq> Ret y"
proof
  assume r: "ext_witness G sig sig = Ret y"
  have z: "is_scalar (replicate 32 0)" "be_int (replicate 32 0) = 0"
  proof -
    have "be_int (replicate n 0) = 0" for n by (induction n) (simp_all add: be_int_def)
    then show "is_scalar (replicate 32 0)" "be_int (replicate 32 0) = 0"
      by (simp_all add: is_scalar_def curve_order_def)
  qed
  have "ext_witness G sig sig = Panic ''add_assign''"
    using ext_witness_diff [OF assms z(1) ext_witness_Ret [OF assms r]] z(2)
      ext_witness_Ret(1) [OF assms r] by simp
  with r show False by simp
qed

section \<open>Properties\<close>

text \<open>
  C6. The adapted signature hides the secret, and the difference of the two signatures gives it
  back: whatever key, nonce and message were signed, \<open>ext_witness\<close> on the plain and the adapted
  signature returns the secret the adapted one was made with.
\<close>

theorem ext_witness_reveals_secret:
  assumes "scalar_laws G" "adaptor_laws G" "valid_sk x"
    and "sign_single G msg key nonce None ns ks ns = Some sig"
    and "sign_single G msg key nonce (Some x) ns ks ns = Some apt"
    and "valid_sk (sig_s G sig)" "valid_sk (sig_s G apt)"
  shows "ext_witness G sig apt = Ret x"
proof -
  have "be_int (sig_s G apt) = (be_int (sig_s G sig) + be_int x) mod curve_order"
    using assms(2,4,5) unfolding adaptor_laws_def by blast
  from ext_witness_diff [OF assms(1) _ assms(6,7) this] assms(3) show ?thesis
    by (simp add: valid_sk_def)
qed

text \<open>
  Spending conserves value: a sender who makes a transaction with a change output spends coins
  worth exactly the amount, the fee and the change coin together.
\<close>

theorem spend_coins_conserves_value:
  assumes "replay (spend_coins G inputs fund_value timelock no np) es = (Done (Ok r), es')"
    and "1 < no"
  shows "unat (sum_mw inputs) = unat fund_value + unat (tx_fee G (length inputs) no 1) +
           (case sp_change_coin r of None \<Rightarrow> 0 | Some c \<Rightarrow> unat (mw_value c))"
  using assms(1)
proof (rule spend_coins_Ok)
  fix ck inp_i fund_i fee_i
  let ?fee = "tx_fee G (length inputs) no (Suc 0)"
  assume enough: "\<not> (1 < no \<and> sum_mw inputs < fund_value + ?fee \<or> sum_mw inputs < fund_value)"
    and i: "i64_try_from (sum_mw inputs) = Some inp_i" "i64_try_from fund_value = Some fund_i"
      "i64_try_from ?fee = Some fee_i"
    and ch: "if 0 < inp_i - fund_i - fee_i
      then \<exists>v c. u64_try_from (inp_i - fund_i - fee_i) = Some v \<and> sp_change_coin r = Some (mwcoin_new G c ck v)
      else sp_change_coin r = None"
  have v: "uint (sum_mw inputs) = inp_i" "uint fund_value = fund_i" "uint ?fee = fee_i"
    using i64_try_from_nonneg [OF i(1)] i64_try_from_nonneg [OF i(2)] i64_try_from_nonneg [OF i(3)]
    by blast+
  have "fund_value + ?fee \<le> sum_mw inputs" using enough assms(2) by (simp add: not_less)
  then have le: "fund_i + fee_i \<le> inp_i"
    unfolding word_le_def i64_sum_no_wrap [OF i(2,3)] v .
  show ?thesis
  proof (cases "0 < inp_i - fund_i - fee_i")
    case True
    with ch obtain w c where w: "u64_try_from (inp_i - fund_i - fee_i) = Some w"
      "sp_change_coin r = Some (mwcoin_new G c ck w)" by auto
    from u64_try_from_Some [OF w(1)] have "uint (sum_mw inputs) = uint fund_value + uint ?fee + uint w"
      unfolding v by simp
    from unat_u64_sum [OF this] w(2) show ?thesis by (simp add: mwcoin_new_def)
  next
    case False
    with le have "inp_i = fund_i + fee_i + uint (0 :: u64)" by simp
    then have "uint (sum_mw inputs) = uint fund_value + uint ?fee + uint (0 :: u64)" unfolding v .
    from unat_u64_sum [OF this] ch False show ?thesis by simp
  qed
qed

text \<open>
  C34. The second owner of a shared coin signs nothing but the agreed spending: it goes on only
  where the slate's amount is the one it expects, the slate spends as many inputs as it was
  given coins, every range proof verifies, and the kernel is locked to exactly the height asked
  for, or not locked at all when none was.
\<close>

theorem d_spend_coins_guards:
  assumes "replay (d_spend_coins G inputs slate fund_value timelock) es = (Done (Ok r), es')"
  shows "slate_amount slate = fund_value \<and>
         inputs_len G (tx_inputs (tx_or_empty G slate)) = length inputs \<and>
         (\<forall>out \<in> set (tx_outputs (tx_or_empty G slate)).
            verify_bullet_proof G (out_commit out) (out_proof out)) \<and>
         kernel_features G (sp_slate r) =
           Ok (if timelock = 0 then KPlain (fee_fields slate)
               else KHeightLocked (fee_fields slate) timelock)"
proof -
  have "verify_outputs G (tx_or_empty G slate) = Ret ()"
    using assms unfolding d_spend_coins_def Let_def by (auto simp: run_simps)
  with assms show ?thesis
    by (elim d_spend_coins_Ok) (auto simp: verify_outputs_Ret kernel_features_def split: if_splits)
qed

end
