(* ===== verification/Net_Tcp.thy ===== *)
theory Net_Tcp
  imports Effects
begin

text \<open>
  \<open>net/tcp.rs\<close>: a message is one line, and every message is answered by the line \<open>ACK\<close>. The
  first part translates the four functions over the stream effects. The second part models what
  \<open>read_from_stream\<close> does to the byte stream itself: it wraps the socket in a fresh
  \<open>BufReader\<close>, reads one line and drops the reader together with whatever else the operating
  system had already handed over.
\<close>

section \<open>Messages over the stream\<close>

definition write_to_stream :: "string \<Rightarrow> (string, unit) result proc" where
  "write_to_stream msg = WriteStream (msg @ [newline]) Ret"

text \<open>\<open>len - 1\<close> on \<open>usize\<close> wraps at \<open>0\<close>, and \<open>String::truncate\<close> does nothing when the new
  length is not below the old one.\<close>

definition usize_pred :: "nat \<Rightarrow> nat" where
  "usize_pred len = (if len = 0 then 2 ^ 64 - 1 else len - 1)"

definition string_truncate :: "nat \<Rightarrow> string \<Rightarrow> string" where
  "string_truncate new_len s = (if new_len \<le> length s then take new_len s else s)"

definition read_from_stream :: "(string, string) result proc" where
  "read_from_stream =
     ReadLine (\<lambda>r. case r of
         Inr msg \<Rightarrow> Ret (Ok (string_truncate (usize_pred (length msg)) msg))
       | Inl e \<Rightarrow> Ret (Err e))"

definition send_msg :: "string \<Rightarrow> unit proc" where
  "send_msg msg =
     pbind (write_to_stream msg) (\<lambda>w.
     pbind (unwrap_res ''write_to_stream'' w) (\<lambda>_.
     pbind read_from_stream (\<lambda>r.
     pbind (unwrap_res ''read_from_stream'' r) (\<lambda>r.
     if r = ''ACK'' then Ret () else Panic ''assertion failed: r == ACK''))))"

definition receive_msg :: "string proc" where
  "receive_msg =
     pbind read_from_stream (\<lambda>r.
     pbind (unwrap_res ''read_from_stream'' r) (\<lambda>msg.
     pbind (write_to_stream ''ACK'') (\<lambda>w.
     pbind (unwrap_res ''write_to_stream'' w) (\<lambda>_.
     Ret msg))))"

lemma string_truncate_line [simp]: "string_truncate (usize_pred (length m + 1)) (m @ [newline]) = m"
  by (simp add: string_truncate_def usize_pred_def)

lemma string_truncate_Suc [simp]: "string_truncate (usize_pred (Suc (length m))) (m @ [newline]) = m"
  by (simp add: string_truncate_def usize_pred_def)

text \<open>End of file: \<open>read_line\<close> returns the empty string and the message is empty.\<close>

lemma string_truncate_eof [simp]: "string_truncate (usize_pred 0) [] = []"
  by (simp add: string_truncate_def usize_pred_def)

definition sent :: "string \<Rightarrow> event list" where
  "sent m = [EWrite (m @ [newline]) (Ok ()), ERead (Ok (''ACK'' @ [newline]))]"

definition rcvd :: "string \<Rightarrow> event list" where
  "rcvd m = [ERead (Ok (m @ [newline])), EWrite (''ACK'' @ [newline]) (Ok ())]"

text \<open>
  The contract between the transport and the protocols above it: what a conversation leaves on
  the stream, one call at a time. \<open>sent\<close> and \<open>rcvd\<close> are the events of a delivered message.
\<close>

locale channel =
  fixes send :: "string \<Rightarrow> unit proc" and recv :: "string proc"
    and sent_ev :: "string \<Rightarrow> event list" and rcvd_ev :: "string \<Rightarrow> event list"
    and res :: "'r itself"
  assumes send_step:
      "\<And>(f :: unit \<Rightarrow> 'r proc) es. replay (pbind (send m) f) (sent_ev m @ es) = replay (f ()) es"
    and recv_step:
      "\<And>(f :: string \<Rightarrow> 'r proc) es. replay (pbind recv f) (rcvd_ev m @ es) = replay (f m) es"
    and line_out: "written (sent_ev m) = lines_read (rcvd_ev m)"
    and line_back: "written (rcvd_ev m) = lines_read (sent_ev m)"
begin

fun converse :: "(string + unit) list \<Rightarrow> string list \<Rightarrow> (string list \<Rightarrow> 'r proc) \<Rightarrow> 'r proc" where
  "converse [] got k = k (rev got)"
| "converse (Inl m # acts) got k = pbind (send m) (\<lambda>_. converse acts got k)"
| "converse (Inr u # acts) got k = pbind recv (\<lambda>m. converse acts (m # got) k)"

fun conv_events :: "(string + unit) list \<Rightarrow> string list \<Rightarrow> event list" where
  "conv_events [] ms = []"
| "conv_events (Inl m # acts) ms = sent_ev m @ conv_events acts ms"
| "conv_events (Inr u # acts) [] = []"
| "conv_events (Inr u # acts) (m # ms) = rcvd_ev m @ conv_events acts ms"

lemma converse_delivers:
  "length ms = length (filter (\<lambda>a. \<not> isl a) acts) \<Longrightarrow>
   replay (converse acts got k) (conv_events acts ms @ es) = replay (k (rev got @ ms)) es"
proof (induction acts got k arbitrary: ms rule: converse.induct)
  case (3 u acts got k)
  then show ?case by (cases ms) (auto simp: recv_step)
qed (auto simp: send_step)

lemma exchange:
  fixes f :: "string \<Rightarrow> 'r proc"
  shows "replay (pbind (send a) (\<lambda>_. pbind recv f)) (sent_ev a @ rcvd_ev b @ es) = replay (f b) es"
  "replay (pbind recv (\<lambda>m. pbind (send b) (\<lambda>_. f m))) (rcvd_ev a @ sent_ev b @ es) = replay (f a) es"
  by (simp_all add: send_step recv_step)

end

interpretation tcp: channel send_msg receive_msg sent rcvd "TYPE('r)"
proof unfold_locales
  fix m :: string and f :: "unit \<Rightarrow> 'r proc" and es
  show "replay (pbind (send_msg m) f) (sent m @ es) = replay (f ()) es"
    by (simp add: send_msg_def write_to_stream_def read_from_stream_def sent_def
        string_truncate_def usize_pred_def)
next
  fix m :: string and f :: "string \<Rightarrow> 'r proc" and es
  show "replay (pbind receive_msg f) (rcvd m @ es) = replay (f m) es"
    by (simp add: receive_msg_def write_to_stream_def read_from_stream_def rcvd_def)
next
  fix m :: string
  show "written (sent m) = lines_read (rcvd m)" "written (rcvd m) = lines_read (sent m)"
    by (simp_all add: sent_def rcvd_def)
qed

lemma requests_sent_rcvd [simp]: "requests (sent m) = []" "requests (rcvd m) = []"
  by (simp_all add: sent_def rcvd_def)

text \<open>What a message exchange can end in, whatever the peer does.\<close>

lemma send_msg_outcome:
  "replay (send_msg m) es = (Done u, es') \<Longrightarrow> \<exists>a. es = EWrite (m @ [newline]) (Ok ()) # ERead (Ok a) # es'
     \<and> string_truncate (usize_pred (length a)) a = ''ACK''"
  by (auto simp: send_msg_def write_to_stream_def read_from_stream_def unwrap_res_def
      split: list.splits event.splits sum.splits if_splits)

lemma receive_msg_outcome:
  "replay receive_msg es = (Done m, es') \<Longrightarrow>
     \<exists>a. es = ERead (Ok a) # EWrite (''ACK'' @ [newline]) (Ok ()) # es'
       \<and> m = string_truncate (usize_pred (length a)) a"
  by (auto simp: receive_msg_def write_to_stream_def read_from_stream_def unwrap_res_def
      split: list.splits event.splits sum.splits if_splits)

lemma run_send [run_simps]:
  "replay (send_msg m) es = (Done u, es') \<longleftrightarrow>
   (\<exists>a. es = EWrite (m @ [newline]) (Ok ()) # ERead (Ok a) # es' \<and>
        string_truncate (usize_pred (length a)) a = ''ACK'')"
  using send_msg_outcome [of m es u es']
  by (auto simp: send_msg_def write_to_stream_def read_from_stream_def)

lemma run_receive [run_simps]:
  "replay receive_msg es = (Done m, es') \<longleftrightarrow>
   (\<exists>a. es = ERead (Ok a) # EWrite (''ACK'' @ [newline]) (Ok ()) # es' \<and>
        m = string_truncate (usize_pred (length a)) a)"
  using receive_msg_outcome [of es m es']
  by (auto simp: receive_msg_def write_to_stream_def read_from_stream_def)

section \<open>The byte stream under \<open>read_from_stream\<close>\<close>

text \<open>
  The socket as the segments that successive \<open>read\<close> calls return: how the bytes are cut into
  segments is up to timing. \<open>BufReader::read_line\<close> takes segments until one holds a newline; the
  bytes of that segment after the newline stay in the reader's buffer, which is dropped when
  \<open>read_from_stream\<close> returns.
\<close>

fun read_line_dropping :: "string list \<Rightarrow> string \<times> string list" where
  "read_line_dropping [] = ([], [])"
| "read_line_dropping (seg # segs) =
     (if newline \<in> set seg
      then (takeWhile (\<lambda>c. c \<noteq> newline) seg @ [newline], segs)
      else (case read_line_dropping segs of (l, rest) \<Rightarrow> (seg @ l, rest)))"

fun read_messages :: "nat \<Rightarrow> string list \<Rightarrow> string list" where
  "read_messages 0 segs = []"
| "read_messages (Suc n) segs =
     (case read_line_dropping segs of
        (l, rest) \<Rightarrow> string_truncate (usize_pred (length l)) l # read_messages n rest)"

text \<open>Segments that never carry a byte past the end of a line.\<close>

definition line_aligned :: "string list \<Rightarrow> bool" where
  "line_aligned segs \<longleftrightarrow> (\<forall>seg \<in> set segs. newline \<in> set seg \<longrightarrow> (\<exists>l. newline \<notin> set l \<and> seg = l @ [newline]))"

lemma takeWhile_line [simp]:
  "newline \<notin> set l \<Longrightarrow> takeWhile (\<lambda>c. c \<noteq> newline) (l @ newline # t) = l"
  by (induction l) auto

lemma read_line_dropping_aligned:
  assumes "line_aligned segs" and "concat segs = m @ newline # rest" and "newline \<notin> set m"
  shows "\<exists>segs'. read_line_dropping segs = (m @ [newline], segs') \<and> concat segs' = rest
           \<and> line_aligned segs'"
  using assms
proof (induction segs arbitrary: m)
  case Nil
  then show ?case by simp
next
  case (Cons seg segs)
  have al: "line_aligned segs" using Cons.prems(1) by (simp add: line_aligned_def)
  show ?case
  proof (cases "newline \<in> set seg")
    case True
    then obtain l where l: "newline \<notin> set l" "seg = l @ [newline]"
      using Cons.prems(1) by (auto simp: line_aligned_def)
    with Cons.prems(2) have "l @ newline # concat segs = m @ newline # rest" by simp
    with l(1) Cons.prems(3) have "l = m" "concat segs = rest"
      by (auto dest: split_list simp: append_eq_append_conv2 append_eq_Cons_conv Cons_eq_append_conv)
    with l True al show ?thesis by simp
  next
    case False
    with Cons.prems(2,3) obtain m' where m': "m = seg @ m'" "concat segs = m' @ newline # rest"
      by (auto simp: append_eq_append_conv2 append_eq_Cons_conv Cons_eq_append_conv)
    with Cons.prems(3) have "newline \<notin> set m'" by simp
    from Cons.IH [OF al m'(2) this] m'(1) False show ?thesis by auto
  qed
qed

lemma read_messages_aligned:
  assumes "line_aligned segs"
    and "concat segs = concat (map (\<lambda>m. m @ [newline]) ms) @ rest"
    and "\<forall>m \<in> set ms. newline \<notin> set m"
  shows "read_messages (length ms) segs = ms"
  using assms
proof (induction ms arbitrary: segs)
  case Nil
  then show ?case by simp
next
  case (Cons m ms)
  then have "concat segs = m @ newline # (concat (map (\<lambda>m. m @ [newline]) ms) @ rest)"
    and "newline \<notin> set m" by simp_all
  from read_line_dropping_aligned [OF Cons.prems(1) this] obtain segs' where
    s: "read_line_dropping segs = (m @ [newline], segs')"
      "concat segs' = concat (map (\<lambda>m. m @ [newline]) ms) @ rest" "line_aligned segs'"
    by blast
  from Cons.IH [OF s(3,2)] Cons.prems(3) s(1) show ?case by simp
qed

section \<open>Properties\<close>

text \<open>
  Reading loses nothing when no segment carries bytes past a line end: \<open>n\<close> calls of
  \<open>read_from_stream\<close> return exactly the \<open>n\<close> messages that were written, however each line was
  cut into pieces.
\<close>

theorem tcp_aligned_delivery:
  assumes "line_aligned segs"
    and "concat segs = concat (map (\<lambda>m. m @ [newline]) ms)"
    and "\<forall>m \<in> set ms. newline \<notin> set m"
  shows "read_messages (length ms) segs = ms"
  using read_messages_aligned [of segs ms "[]"] assms by simp

theorem tcp_aligned_delivery_witness:
  "read_messages (length [''EXECUTE'', ''ACK'']) [''EXE'', ''CUTE'' @ [newline], ''ACK'' @ [newline]]
     = [''EXECUTE'', ''ACK'']"
proof (rule tcp_aligned_delivery)
  show "line_aligned [''EXE'', ''CUTE'' @ [newline], ''ACK'' @ [newline]]"
    by (auto simp: line_aligned_def intro: exI [of _ "''CUTE''"] exI [of _ "''ACK''"])
qed simp_all

text \<open>
  C39. The acknowledgement scheme does not give that alignment. A party that receives a message
  and then sends one writes \<open>ACK\<close> and its own message with no read in between; if the two lines
  reach the other side in one segment, that side's read of the acknowledgement throws the message
  away, and its next read finds nothing.
\<close>

theorem tcp_message_lost_after_ack:
  fixes a b :: string
  defines "es \<equiv> [ERead (Ok (a @ [newline])), EWrite (''ACK'' @ [newline]) (Ok ()),
                 EWrite (b @ [newline]) (Ok ())]"
  shows "replay (pbind receive_msg (\<lambda>_. send_msg b)) es = (Stuck, []) \<and>
         read_messages 2 [concat (written es)] = [''ACK'', []]"
  by (simp add: es_def receive_msg_def send_msg_def write_to_stream_def read_from_stream_def
      numeral_2_eq_2 string_truncate_def usize_pred_def)

end
