(* ===== verification/Grin_Tx.thy ===== *)
theory Grin_Tx
  imports Grin_Core Net_Tcp
begin

text \<open>
  \<open>grin/grin_tx.rs\<close>: the two-party protocols over the stream that build a Mimblewimble
  transaction: a plain payment, a payment into a shared coin, the spending of a shared coin, and
  the spending of a shared coin that reveals a secret to the first party.
\<close>

section \<open>Data\<close>

type_synonym GrinTx = GrinCore

record DBuildMWTxResult =
  db_tx :: Slate
  db_coin :: "MWCoin option"

record DSharedOutMwTxResult =
  ds_tx :: Slate
  ds_change_coin :: "MWCoin option"
  ds_shared_coin :: MWCoin

record ContractMwResult =
  cm_tx :: Slate
  cm_coin :: "MWCoin option"
  cm_x :: SecretKey

definition grin_tx_new :: "GrinNodeSettings \<Rightarrow> RequestFactory \<Rightarrow> GrinTx" where
  "grin_tx_new settings req_factory = grin_core_new settings req_factory"

definition read_slate :: "('z SlateLib_scheme) \<Rightarrow> string \<Rightarrow> Slate proc" where
  "read_slate L m = unwrap_res ''Slate::deserialize_upgrade'' (deserialize_upgrade L m)"

section \<open>A plain payment\<close>

definition dbuildmw_tx_alice ::
  "('z MpLib_scheme) \<Rightarrow> MWCoin list \<Rightarrow> u64 \<Rightarrow> u64 \<Rightarrow> (string, DBuildMWTxResult) result proc" where
  "dbuildmw_tx_alice L inp fund_value timelock =
     try_bind (spend_coins L inp fund_value timelock 2 2) (\<lambda>spend.
     pbind (send_msg (slate_to_string L (sp_slate spend))) (\<lambda>_.
     pbind receive_msg (\<lambda>bob_msg.
     pbind (read_slate L bob_msg) (\<lambda>ptx2.
     pbind (expect_proc ''fin_tx''
              (fin_tx L ptx2 (sp_sig_key spend) (sp_sig_nonce spend) True None None)) (\<lambda>fin.
     pbind (send_msg (slate_to_string L fin)) (\<lambda>_.
     Ret (Ok \<lparr>db_tx = fin, db_coin = sp_change_coin spend\<rparr>)))))))"

definition dbuild_mw_tx_bob :: "('z MpLib_scheme) \<Rightarrow> u64 \<Rightarrow> (string, DBuildMWTxResult) result proc" where
  "dbuild_mw_tx_bob L fund_value =
     pbind receive_msg (\<lambda>alice_msg.
     pbind (read_slate L alice_msg) (\<lambda>ptx.
     pbind (expect_proc ''recv_coins'' (recv_coins L ptx fund_value)) (\<lambda>ptx2.
     pbind (send_msg (slate_to_string L (rc_slate ptx2))) (\<lambda>_.
     pbind receive_msg (\<lambda>alice_msg.
     pbind (read_slate L alice_msg) (\<lambda>tx.
     Ret (Ok \<lparr>db_tx = tx, db_coin = Some (rc_output_coin ptx2)\<rparr>)))))))"

section \<open>A payment into a shared coin\<close>

definition dshared_out_mw_tx_alice ::
  "('z MpLib_scheme) \<Rightarrow> MWCoin list \<Rightarrow> u64 \<Rightarrow> u64 \<Rightarrow> (string, DSharedOutMwTxResult) result proc" where
  "dshared_out_mw_tx_alice L inp fund_value timelock =
     pbind (expect_proc ''spend_coins'' (spend_coins L inp fund_value timelock 2 3)) (\<lambda>spend.
     pbind (expect_proc ''drecv_coins_r1'' (drecv_coins_r1 L (sp_slate spend) fund_value)) (\<lambda>recv.
     pbind (send_msg (slate_to_string L (dr_slate recv))) (\<lambda>_.
     pbind (send_msg (mpbp_to_string L (dr_prf_ctx recv))) (\<lambda>_.
     pbind receive_msg (\<lambda>bob_msg.
     pbind receive_msg (\<lambda>bob_msg2.
     pbind (read_slate L bob_msg) (\<lambda>ptx2.
     pbind (mpbp_from_string L bob_msg2) (\<lambda>prf_ctx.
     pbind (expect_proc ''drecv_coins_r3''
              (drecv_coins_r3 L ptx2 prf_ctx (dr_out_key_blind recv) (dr_prf_nonce recv)
                 (dr_sig_nonce recv))) (\<lambda>recv3.
     pbind (expect_proc ''fin_tx''
              (fin_tx L (rc_slate recv3) (sp_sig_key spend) (sp_sig_nonce spend) True None None)) (\<lambda>fin_slate.
     pbind (send_msg (slate_to_string L fin_slate)) (\<lambda>_.
     Ret (Ok \<lparr>ds_tx = fin_slate, ds_change_coin = sp_change_coin spend,
              ds_shared_coin = rc_output_coin recv3\<rparr>))))))))))))"

definition dshared_out_mw_tx_bob ::
  "('z MpLib_scheme) \<Rightarrow> u64 \<Rightarrow> (string, DSharedOutMwTxResult) result proc" where
  "dshared_out_mw_tx_bob L fund_value =
     pbind receive_msg (\<lambda>alice_msg1.
     pbind receive_msg (\<lambda>alice_msg2.
     pbind (read_slate L alice_msg1) (\<lambda>ptx.
     pbind (mpbp_from_string L alice_msg2) (\<lambda>prf_ctx.
     try_bind (drecv_coins_r2 L ptx fund_value prf_ctx) (\<lambda>(recv2, prf_ctx2).
     pbind (send_msg (slate_to_string L (rc_slate recv2))) (\<lambda>_.
     pbind (send_msg (mpbp_to_string L prf_ctx2)) (\<lambda>_.
     pbind receive_msg (\<lambda>tx_str.
     pbind (read_slate L tx_str) (\<lambda>tx.
     Ret (Ok \<lparr>ds_tx = tx, ds_change_coin = None, ds_shared_coin = rc_output_coin recv2\<rparr>))))))))))"

section \<open>Spending a shared coin\<close>

definition dshared_inp_mw_tx_alice ::
  "('z MpLib_scheme) \<Rightarrow> MWCoin \<Rightarrow> u64 \<Rightarrow> u64 \<Rightarrow> (string, DBuildMWTxResult) result proc" where
  "dshared_inp_mw_tx_alice L inp fund_value timelock =
     try_bind (spend_coins L [inp] fund_value timelock 1 3) (\<lambda>spend.
     pbind (send_msg (slate_to_string L (sp_slate spend))) (\<lambda>_.
     pbind receive_msg (\<lambda>bob_msg.
     pbind (read_slate L bob_msg) (\<lambda>ptx2.
     pbind (unwrap_res ''update_kernel'' (update_kernel L ptx2)) (\<lambda>ptx2.
     try_bind (fin_tx L ptx2 (sp_sig_key spend) (sp_sig_nonce spend) True None None) (\<lambda>fin_slate.
     pbind (send_msg (slate_to_string L fin_slate)) (\<lambda>_.
     Ret (Ok \<lparr>db_tx = fin_slate, db_coin = sp_change_coin spend\<rparr>))))))))"

definition dshared_inp_mw_tx_bob ::
  "('z MpLib_scheme) \<Rightarrow> MWCoin \<Rightarrow> u64 \<Rightarrow> u64 \<Rightarrow> (string, DBuildMWTxResult) result proc" where
  "dshared_inp_mw_tx_bob L inp fund_value timelock =
     pbind receive_msg (\<lambda>alice_msg.
     pbind (read_slate L alice_msg) (\<lambda>ptx.
     try_bind (d_spend_coins L [inp] ptx fund_value timelock) (\<lambda>dspend.
     try_bind (recv_coins L (sp_slate dspend) fund_value) (\<lambda>recv.
     pbind (expect_proc ''fin_tx''
              (fin_tx L (rc_slate recv) (sp_sig_key dspend) (sp_sig_nonce dspend) False None None)) (\<lambda>fin.
     pbind (send_msg (slate_to_string L fin)) (\<lambda>_.
     pbind receive_msg (\<lambda>alice_msg.
     pbind (read_slate L alice_msg) (\<lambda>fin_slate.
     pbind (unwrap_res ''update_kernel'' (update_kernel L fin_slate)) (\<lambda>fin_slate.
     pbind (expect_proc ''finalize'' (finalize L fin_slate)) (\<lambda>fin_slate.
     Ret (Ok \<lparr>db_tx = fin_slate, db_coin = Some (rc_output_coin recv)\<rparr>)))))))))))"

section \<open>Spending a shared coin and revealing a secret\<close>

text \<open>The signature of the third participant, the receiver.\<close>

definition third_sig :: "Slate \<Rightarrow> Signature proc" where
  "third_sig s =
     (if 2 < length (participant_data s)
      then unwrap ''part_sig'' (part_sig (participant_data s ! 2))
      else Panic ''participant_data.get(2)'')"

definition dcontract_mw_tx_alice ::
  "('z MpLib_scheme) \<Rightarrow> MWCoin \<Rightarrow> u64 \<Rightarrow> u64 \<Rightarrow> PublicKey \<Rightarrow> (string, ContractMwResult) result proc" where
  "dcontract_mw_tx_alice L inp fund_value timelock pub_x =
     try_bind (spend_coins L [inp] fund_value timelock 1 3) (\<lambda>spend.
     pbind (send_msg (slate_to_string L (sp_slate spend))) (\<lambda>_.
     pbind receive_msg (\<lambda>bob_msg.
     pbind (read_slate L bob_msg) (\<lambda>ptx2.
     pbind (third_sig ptx2) (\<lambda>apt_sig_bob.
     try_bind (fin_tx L ptx2 (sp_sig_key spend) (sp_sig_nonce spend) False (Some pub_x) None) (\<lambda>fin.
     pbind (send_msg (slate_to_string L fin)) (\<lambda>_.
     pbind receive_msg (\<lambda>bob_msg2.
     pbind (read_slate L bob_msg2) (\<lambda>final_slate.
     pbind (third_sig final_slate) (\<lambda>sig_bob.
     pbind (ext_witness L sig_bob apt_sig_bob) (\<lambda>x.
     Ret (Ok \<lparr>cm_tx = final_slate, cm_coin = sp_change_coin spend, cm_x = x\<rparr>))))))))))))"

definition dcontract_mw_tx_bob ::
  "('z MpLib_scheme) \<Rightarrow> MWCoin \<Rightarrow> u64 \<Rightarrow> u64 \<Rightarrow> SecretKey \<Rightarrow> (string, ContractMwResult) result proc" where
  "dcontract_mw_tx_bob L inp fund_value timelock x =
     pbind receive_msg (\<lambda>alice_msg.
     pbind (read_slate L alice_msg) (\<lambda>ptx.
     try_bind (d_spend_coins L [inp] ptx fund_value timelock) (\<lambda>dspend.
     try_bind (apt_recv_coins L (sp_slate dspend) fund_value x) (\<lambda>rec.
     pbind (send_msg (slate_to_string L (ar_slate rec))) (\<lambda>_.
     pbind receive_msg (\<lambda>alice_msg2.
     pbind (read_slate L alice_msg2) (\<lambda>ptx3.
     try_bind (fin_tx L ptx3 (sp_sig_key dspend) (sp_sig_nonce dspend) True None
                 (Some (ar_prt_sig rec))) (\<lambda>fin.
     pbind (send_msg (slate_to_string L fin)) (\<lambda>_.
     Ret (Ok \<lparr>cm_tx = fin, cm_coin = Some (ar_output_coin rec), cm_x = x\<rparr>))))))))))"

section \<open>Runs of the protocols\<close>

lemma run_try_Ok [run_simps]:
  "replay (try_bind p f) es = (Done (Inr r), es') \<longleftrightarrow>
   (\<exists>x es1. replay p es = (Done (Inr x), es1) \<and> replay (f x) es1 = (Done (Inr r), es'))"
  unfolding run_try_bind by auto

declare run_try_bind [run_simps del]

lemma run_read_slate [run_simps]:
  "replay (read_slate L m) es = (Done s, es') \<longleftrightarrow> deserialize_upgrade L m = Inr s \<and> es' = es"
  by (simp add: read_slate_def run_simps)

lemma run_third_sig [run_simps]:
  "replay (third_sig s) es = (Done sig, es') \<longleftrightarrow>
     2 < length (participant_data s) \<and> part_sig (participant_data s ! 2) = Some sig \<and> es' = es"
  by (auto simp: third_sig_def run_simps)

lemma dcontract_alice_run:
  assumes "replay (dcontract_mw_tx_alice L inp v t px) es = (Done (Ok r), es')"
  obtains spend es1 a1 m2 a3 m4 ptx2 apt fin sig where
    "replay (spend_coins L [inp] v t 1 3) es = (Done (Ok spend), es1)"
    "es1 = EWrite (slate_to_string L (sp_slate spend) @ [newline]) (Ok ()) # ERead (Ok a1) #
       ERead (Ok m2) # EWrite (''ACK'' @ [newline]) (Ok ()) #
       EWrite (slate_to_string L fin @ [newline]) (Ok ()) # ERead (Ok a3) #
       ERead (Ok m4) # EWrite (''ACK'' @ [newline]) (Ok ()) # es'"
    "deserialize_upgrade L (string_truncate (usize_pred (length m2)) m2) = Ok ptx2"
    "2 < length (participant_data ptx2)" "part_sig (participant_data ptx2 ! 2) = Some apt"
    "fin_tx L ptx2 (sp_sig_key spend) (sp_sig_nonce spend) False (Some px) None = Ret (Ok fin)"
    "deserialize_upgrade L (string_truncate (usize_pred (length m4)) m4) = Ok (cm_tx r)"
    "2 < length (participant_data (cm_tx r))" "part_sig (participant_data (cm_tx r) ! 2) = Some sig"
    "ext_witness L sig apt = Ret (cm_x r)"
  using assms unfolding dcontract_mw_tx_alice_def
  apply (simp only: run_simps)
  apply (elim exE conjE)
  apply (rule that, assumption)
  apply (auto)
  done

lemma dcontract_bob_run:
  assumes "replay (dcontract_mw_tx_bob L inp v t x) es = (Done (Ok r), es')"
  obtains ptx dspend rc m1 a2 m3 a4 ptx3 es1 es2 es3 where
    "es = ERead (Ok m1) # EWrite (''ACK'' @ [newline]) (Ok ()) # es1"
    "deserialize_upgrade L (string_truncate (usize_pred (length m1)) m1) = Ok ptx"
    "replay (d_spend_coins L [inp] ptx v t) es1 = (Done (Ok dspend), es2)"
    "replay (apt_recv_coins L (sp_slate dspend) v x) es2 = (Done (Ok rc), es3)"
    "es3 = EWrite (slate_to_string L (ar_slate rc) @ [newline]) (Ok ()) # ERead (Ok a2) #
       ERead (Ok m3) # EWrite (''ACK'' @ [newline]) (Ok ()) #
       EWrite (slate_to_string L (cm_tx r) @ [newline]) (Ok ()) # ERead (Ok a4) # es'"
    "deserialize_upgrade L (string_truncate (usize_pred (length m3)) m3) = Ok ptx3"
    "fin_tx L ptx3 (sp_sig_key dspend) (sp_sig_nonce dspend) True None (Some (ar_prt_sig rc)) = Ret (Ok (cm_tx r))"
  using assms unfolding dcontract_mw_tx_bob_def
  apply (simp only: run_simps)
  apply (elim exE conjE)
  apply (rule that)
  apply (auto)
  done

lemma set_part_sig_entry:
  assumes "set_part_sig is mine sig ps = Ret ps'"
  shows "length ps' = length ps"
    and "j < length ps \<Longrightarrow> \<not> mine (ps ! j) \<Longrightarrow> ps' ! j = ps ! j"
    and "j < length ps \<Longrightarrow> ps' ! j = ps ! j \<or> ps' ! j = (ps ! j)\<lparr>part_sig := Some sig\<rparr>"
  using set_part_sig_Ret [OF assms] by (auto simp: nth_list_update)

lemma add_my_sig_entry:
  assumes "add_my_sig s k n sig = Ret s'"
  shows "length (participant_data s') = length (participant_data s)"
    and "j < length (participant_data s) \<Longrightarrow> \<not> my_entry k n (participant_data s ! j) \<Longrightarrow>
       participant_data s' ! j = participant_data s ! j"
    and "j < length (participant_data s) \<Longrightarrow> participant_data s' ! j = participant_data s ! j \<or>
       participant_data s' ! j = (participant_data s ! j)\<lparr>part_sig := Some sig\<rparr>"
  using assms set_part_sig_entry by (auto simp: add_my_sig_def pbind_eq_Ret) blast+

lemma three_entries:
  assumes "2 < length (filter (\<lambda>v. \<not> my_entry k2 n2 v) (filter (\<lambda>v. \<not> my_entry k1 n1 v) [a] @ [e1]) @ [e2])"
  shows "\<not> my_entry k1 n1 a" "\<not> my_entry k2 n2 a" "\<not> my_entry k2 n2 e1"
  using assms by (auto split: if_splits)

lemma my_entry_self:
  "my_entry k n \<lparr>public_blind_excess = k', public_nonce = n', part_sig = sig\<rparr> \<longleftrightarrow> k = k' \<and> n = n'"
  by (auto simp: my_entry_def)

lemma fill_round_2_entry:
  assumes "fill_round_2 G s key nonce = Ret (Ok s')" "pk_from_secret_key G key = Some k"
    "pk_from_secret_key G nonce = Some n" "j < length (participant_data s)"
    "\<not> my_entry k n (participant_data s ! j)"
  shows "participant_data s' ! j = participant_data s ! j"
  using assms add_my_sig_entry(2) by (auto simp: fill_round_2_Ok)

text \<open>What the receiver's half of round 2 leaves in the slate it sends: three entries, the last of
  them its own with the adapted signature.\<close>

lemma bob_sends_adapted:
  assumes "participant_data ptx = [a]" "part_sig a = None"
    and "replay (d_spend_coins G [inp] ptx v t) es1 = (Done (Ok dspend), es2)"
    and "replay (apt_recv_coins G (sp_slate dspend) v x) es2 = (Done (Ok rc), es3)"
    and "2 < length (participant_data (ar_slate rc))"
    and "part_sig (participant_data (ar_slate rc) ! 2) = Some apt"
  obtains k1 n1 k2 n2 e1 msg key nonce ns ks sig where
    "pk_from_secret_key G (sp_sig_key dspend) = Some k1" "pk_from_secret_key G (sp_sig_nonce dspend) = Some n1"
    "participant_data (ar_slate rc) ! 2 = \<lparr>public_blind_excess = k2, public_nonce = n2, part_sig = Some apt\<rparr>"
    "length (participant_data (ar_slate rc)) = 3"
    "\<not> my_entry k2 n2 a" "\<not> (k2 = k1 \<and> n2 = n1)"
    "sign_single G msg key nonce None ns ks ns = Some sig"
    "sign_single G msg key nonce (Some x) ns ks ns = Some apt"
    "ar_prt_sig rc = (apt, sig)"
proof -
  from assms(3) obtain k1 n1 e1 where
    d: "pk_from_secret_key G (sp_sig_key dspend) = Some k1" "pk_from_secret_key G (sp_sig_nonce dspend) = Some n1"
      "participant_data (sp_slate dspend) = filter (\<lambda>v. \<not> my_entry k1 n1 v) [a] @ [e1]"
      "e1 = \<lparr>public_blind_excess = k1, public_nonce = n1, part_sig = None\<rparr>"
    by (elim d_spend_coins_Ok) (use assms(1,2) in auto)
  from assms(4) obtain out_key sig_nonce k2 n2 tx' ns ks msg sig apt' s1 where
    f: "s1 = (sp_slate dspend)\<lparr>slate_tx := Some tx',
       participant_data := filter (\<lambda>v. \<not> my_entry k2 n2 v) (participant_data (sp_slate dspend)) @
         [\<lparr>public_blind_excess = k2, public_nonce = n2,
           part_sig = kept_part_sig n2 k2 None (participant_data (sp_slate dspend))\<rparr>]\<rparr>"
      "sign_single G msg out_key sig_nonce None ns ks ns = Some sig"
      "sign_single G msg out_key sig_nonce (Some x) ns ks ns = Some apt'"
      "add_my_sig s1 k2 n2 apt' = Ret (ar_slate rc)" "ar_prt_sig rc = (apt', sig)"
    by (rule apt_recv_coins_Ok) blast
  let ?e2 = "\<lparr>public_blind_excess = k2, public_nonce = n2,
           part_sig = kept_part_sig n2 k2 None (participant_data (sp_slate dspend))\<rparr>"
  have "2 < length (filter (\<lambda>v. \<not> my_entry k2 n2 v) (filter (\<lambda>v. \<not> my_entry k1 n1 v) [a] @ [e1]) @ [?e2])"
    using assms(5) add_my_sig_entry(1) [OF f(4)] unfolding f(1) d(3) by simp
  note three = three_entries [OF this]
  have pd: "participant_data s1 = [a, e1, ?e2]" "part_sig ?e2 = None"
    using three assms(2) d(4) by (simp_all add: f(1) d(3))
  from add_my_sig_entry(3) [OF f(4), of 2] pd assms(6)
  have "participant_data (ar_slate rc) ! 2 = ?e2\<lparr>part_sig := Some apt'\<rparr>" "apt' = apt" by auto
  then have "participant_data (ar_slate rc) ! 2 = \<lparr>public_blind_excess = k2, public_nonce = n2, part_sig = Some apt\<rparr>" by simp
  moreover have "length (participant_data (ar_slate rc)) = 3" using add_my_sig_entry(1) [OF f(4)] pd by simp
  ultimately show thesis
    using that d(1,2) three f \<open>apt' = apt\<close> d(4) by (auto simp: my_entry_self)
qed

text \<open>The keys the events of a run carry have no text: only messages do.\<close>

lemma string_truncate_msg [simp]: "string_truncate (usize_pred (length (m @ [newline]))) (m @ [newline]) = m"
  by simp

lemma spend_coins_lines:
  assumes "replay (spend_coins G inputs v t no np) es = (Done (Ok r), es')"
  shows "written es = written es'" "lines_read es = lines_read es'"
  using assms by (auto elim!: spend_coins_Ok)

lemma d_spend_coins_lines:
  assumes "replay (d_spend_coins G inputs s v t) es = (Done (Ok r), es')"
  shows "written es = written es'" "lines_read es = lines_read es'"
  using assms by (auto elim!: d_spend_coins_Ok)

lemma apt_recv_coins_lines:
  assumes "replay (apt_recv_coins G s v x) es = (Done (Ok r), es')"
  shows "written es = written es'" "lines_read es = lines_read es'"
  using assms by (auto elim!: apt_recv_coins_Ok)

text \<open>What the two runs hand to each other when every line one party read is a line the other wrote.\<close>

lemma dcontract_talk:
  assumes "replay (dcontract_mw_tx_alice L inp_a v t px) es_a = (Done (Ok ra), ea')"
    and "replay (dcontract_mw_tx_bob L inp_b v' t' x) es_b = (Done (Ok rb), eb')"
    and "lines_read es_a = written es_b" "lines_read es_b = written es_a" "slate_json_laws L"
  obtains spend es1 fin dspend rc es2 es3 es4 apt sig where
    "replay (spend_coins L [inp_a] v t 1 3) es_a = (Done (Ok spend), es1)"
    "replay (d_spend_coins L [inp_b] (rebuilt L (sp_slate spend)) v' t') es2 = (Done (Ok dspend), es3)"
    "replay (apt_recv_coins L (sp_slate dspend) v' x) es3 = (Done (Ok rc), es4)"
    "2 < length (participant_data (ar_slate rc))" "part_sig (participant_data (ar_slate rc) ! 2) = Some apt"
    "fin_tx L (rebuilt L (ar_slate rc)) (sp_sig_key spend) (sp_sig_nonce spend) False (Some px) None = Ret (Ok fin)"
    "fin_tx L (rebuilt L fin) (sp_sig_key dspend) (sp_sig_nonce dspend) True None (Some (ar_prt_sig rc))
       = Ret (Ok (cm_tx rb))"
    "cm_tx ra = rebuilt L (cm_tx rb)" "part_sig (participant_data (cm_tx rb) ! 2) = Some sig"
    "ext_witness L sig apt = Ret (cm_x ra)"
proof -
  from assms(1) obtain spend es1 a1 m2 a3 m4 ptx2 apt fin sig where
    a: "replay (spend_coins L [inp_a] v t 1 3) es_a = (Done (Ok spend), es1)"
      "es1 = EWrite (slate_to_string L (sp_slate spend) @ [newline]) (Ok ()) # ERead (Ok a1) #
       ERead (Ok m2) # EWrite (''ACK'' @ [newline]) (Ok ()) #
       EWrite (slate_to_string L fin @ [newline]) (Ok ()) # ERead (Ok a3) #
       ERead (Ok m4) # EWrite (''ACK'' @ [newline]) (Ok ()) # ea'"
      "deserialize_upgrade L (string_truncate (usize_pred (length m2)) m2) = Ok ptx2"
      "2 < length (participant_data ptx2)" "part_sig (participant_data ptx2 ! 2) = Some apt"
      "fin_tx L ptx2 (sp_sig_key spend) (sp_sig_nonce spend) False (Some px) None = Ret (Ok fin)"
      "deserialize_upgrade L (string_truncate (usize_pred (length m4)) m4) = Ok (cm_tx ra)"
      "part_sig (participant_data (cm_tx ra) ! 2) = Some sig" "ext_witness L sig apt = Ret (cm_x ra)"
    by (rule dcontract_alice_run) blast
  from assms(2) obtain ptx dspend rc m1 a2 m3 a4 ptx3 es2 es3 es4 where
    b: "es_b = ERead (Ok m1) # EWrite (''ACK'' @ [newline]) (Ok ()) # es2"
      "deserialize_upgrade L (string_truncate (usize_pred (length m1)) m1) = Ok ptx"
      "replay (d_spend_coins L [inp_b] ptx v' t') es2 = (Done (Ok dspend), es3)"
      "replay (apt_recv_coins L (sp_slate dspend) v' x) es3 = (Done (Ok rc), es4)"
      "es4 = EWrite (slate_to_string L (ar_slate rc) @ [newline]) (Ok ()) # ERead (Ok a2) #
       ERead (Ok m3) # EWrite (''ACK'' @ [newline]) (Ok ()) #
       EWrite (slate_to_string L (cm_tx rb) @ [newline]) (Ok ()) # ERead (Ok a4) # eb'"
      "deserialize_upgrade L (string_truncate (usize_pred (length m3)) m3) = Ok ptx3"
      "fin_tx L ptx3 (sp_sig_key dspend) (sp_sig_nonce dspend) True None (Some (ar_prt_sig rc)) = Ret (Ok (cm_tx rb))"
    by (rule dcontract_bob_run) blast
  have m: "m1 = slate_to_string L (sp_slate spend) @ [newline]" "m2 = slate_to_string L (ar_slate rc) @ [newline]"
    "m3 = slate_to_string L fin @ [newline]" "m4 = slate_to_string L (cm_tx rb) @ [newline]"
    using assms(3,4) spend_coins_lines [OF a(1)] d_spend_coins_lines [OF b(3)] apt_recv_coins_lines [OF b(4)]
    by (auto simp: a(2) b(1,5))
  have d: "ptx = rebuilt L (sp_slate spend)" "ptx2 = rebuilt L (ar_slate rc)" "ptx3 = rebuilt L fin"
    "cm_tx ra = rebuilt L (cm_tx rb)"
    using a(3,7) b(2,6) deserialize_slate_to_string [OF assms(5)] unfolding m string_truncate_msg by simp_all
  show thesis
    by (rule that [OF a(1) b(3) [unfolded d] b(4) _ _ a(6) [unfolded d] b(7) [unfolded d] d(4) _ a(9)])
      (use a d in simp_all)
qed

text \<open>The first party's signature leaves the third entry alone; the receiver's finish either replaces
  the adapted signature there or leaves it.\<close>

lemma alice_keeps_third:
  assumes "fin_tx G s key nonce False (Some px) None = Ret (Ok fin)"
    and "pk_from_secret_key G key = Some k" "pk_from_secret_key G nonce = Some n"
    and "2 < length (participant_data s)" "\<not> my_entry k n (participant_data s ! 2)"
  shows "length (participant_data fin) = length (participant_data s)"
    "participant_data fin ! 2 = participant_data s ! 2"
proof -
  obtain sig where "add_my_sig s k n sig = Ret fin"
    using assms(1) by (elim fin_tx_adapted_Ok) (use assms(2,3) in auto)
  from add_my_sig_entry(1) [OF this] add_my_sig_entry(2) [OF this assms(4,5)]
  show "length (participant_data fin) = length (participant_data s)"
    "participant_data fin ! 2 = participant_data s ! 2" by auto
qed

lemma bob_replaces_third:
  assumes "fin_tx G s key nonce True None (Some (apt, sig)) = Ret (Ok s')"
    and "pk_from_secret_key G key = Some k" "pk_from_secret_key G nonce = Some n"
    and "2 < length (participant_data s)" "\<not> my_entry k n (participant_data s ! 2)"
    and "part_sig (participant_data s ! 2) = Some apt"
  shows "part_sig (participant_data s' ! 2) \<in> {Some apt, Some sig}"
proof -
  obtain ps s2 where r: "set_part_sig [0..<unat (num_participants s)] (\<lambda>p. part_sig p = Some apt) sig
       (participant_data s) = Ret ps"
    "fill_round_2 G (s\<lparr>participant_data := ps\<rparr>) key nonce = Ret (Ok s2)" "finalize G s2 = Ret (Ok s')"
    using assms(1) by (rule fin_tx_replace_Ok) blast
  have ps: "length ps = length (participant_data s)"
    "ps ! 2 = participant_data s ! 2 \<or> ps ! 2 = (participant_data s ! 2)\<lparr>part_sig := Some sig\<rparr>"
    using set_part_sig_entry(1) [OF r(1)] set_part_sig_entry(3) [OF r(1) assms(4)] by auto
  have "participant_data s2 ! 2 = ps ! 2"
    using fill_round_2_entry [OF r(2) assms(2,3), of 2] ps assms(4,5) by (auto simp: my_entry_def)
  moreover have "participant_data s' = participant_data s2" using r(3) by (auto simp: finalize_Ok)
  ultimately show ?thesis using ps(2) assms(6) by auto
qed

text \<open>The secret goes over with the finished slate, whatever either party does afterwards.\<close>

lemma contract_secret:
  assumes "replay (dcontract_mw_tx_alice L inp_a v t px) es_a = (Done (Ok ra), ea')"
    and "replay (dcontract_mw_tx_bob L inp_b v' t' x) es_b = (Done (Ok rb), eb')"
    and "lines_read es_a = written es_b" "lines_read es_b = written es_a"
    and "slate_json_laws L" "scalar_laws L" "adaptor_laws L"
    and "is_scalar x"
  shows "cm_x ra = x \<and> cm_tx ra = rebuilt L (cm_tx rb)"
  using dcontract_talk [OF assms(1-5)]
proof cases
  case r: (1 spend es1 fin dspend rc es2 es3 es4 apt sig)
  obtain k n where ka: "pk_from_secret_key L (sp_sig_key spend) = Some k"
    "pk_from_secret_key L (sp_sig_nonce spend) = Some n"
    "participant_data (sp_slate spend) = [\<lparr>public_blind_excess = k, public_nonce = n, part_sig = None\<rparr>]"
    using r(1) by (elim spend_coins_Ok) auto
  let ?a = "\<lparr>public_blind_excess = k, public_nonce = n, part_sig = None\<rparr> :: ParticipantData"
  have pa: "participant_data (rebuilt L (sp_slate spend)) = [?a]" "part_sig ?a = None" using ka(3) by simp_all
  obtain k1 n1 k2 n2 msg key nonce ns ks sig' where
    bk: "pk_from_secret_key L (sp_sig_key dspend) = Some k1" "pk_from_secret_key L (sp_sig_nonce dspend) = Some n1"
      "participant_data (ar_slate rc) ! 2 = \<lparr>public_blind_excess = k2, public_nonce = n2, part_sig = Some apt\<rparr>"
      "\<not> my_entry k2 n2 ?a" "\<not> (k2 = k1 \<and> n2 = n1)"
      "sign_single L msg key nonce None ns ks ns = Some sig'"
      "sign_single L msg key nonce (Some x) ns ks ns = Some apt" "ar_prt_sig rc = (apt, sig')"
    by (rule bob_sends_adapted [OF pa r(2-5)]) blast
  have "\<not> my_entry k n (participant_data (rebuilt L (ar_slate rc)) ! 2)"
    using bk(3,4) by (auto simp: my_entry_self)
  note fin = alice_keeps_third [OF r(6) ka(1,2) _ this]
  have "part_sig (participant_data (cm_tx rb) ! 2) \<in> {Some apt, Some sig'}"
    by (rule bob_replaces_third [OF r(7) [unfolded bk(8)] bk(1,2)])
      (use fin r(4) bk(3,5) in \<open>auto simp: my_entry_self\<close>)
  moreover have "sig \<noteq> apt" using ext_witness_same [OF assms(6)] r(10) by auto
  ultimately have w: "ext_witness L sig' apt = Ret (cm_x ra)" using r(9,10) by simp
  have "be_int (sig_s L apt) = (be_int (sig_s L sig') + be_int x) mod curve_order"
    using assms(7) bk(6,7) unfolding adaptor_laws_def by blast
  from ext_witness_diff [OF assms(6,8) ext_witness_Ret [OF assms(6) w] this] w r(8) show ?thesis
    by (simp split: if_splits)
qed

section \<open>Properties\<close>

text \<open>
  C7. Spending the shared coin reveals the secret: whatever randomness and coins the two parties
  use, if both runs of the contract protocol succeed and each party has read what the other wrote,
  then the secret the first party ends up with is the one the second party put in, and both hold
  the same finished slate.
\<close>

theorem dcontract_reveals_x:
  assumes "replay (dcontract_mw_tx_alice L inp_a v t px) es_a = (Done (Ok ra), [])"
    and "replay (dcontract_mw_tx_bob L inp_b v' t' x) es_b = (Done (Ok rb), [])"
    and "lines_read es_a = written es_b" "lines_read es_b = written es_a"
    and "slate_json_laws L" "scalar_laws L" "adaptor_laws L"
    and "is_scalar x"
  shows "cm_x ra = x \<and> cm_tx ra = rebuilt L (cm_tx rb)"
  using contract_secret [OF assms(1-4)] assms(5-8) by blast

end
