(* ===== verification/Btc_Script.thy ===== *)
theory Btc_Script
  imports Btc_Lib
begin

text \<open>
  The specification the Bitcoin routines are proved against: the documented meaning of the
  script operations the repository builds (BIP 16 for pay-to-script-hash, BIP 65 for
  \<open>OP_CHECKLOCKTIMEVERIFY\<close>), on the list of builder calls a script was made from. Numbers are kept
  as numbers on the stack, so their byte encoding plays no role. This is no translation of
  code of the repository: nodes run scripts, the program only builds them.
\<close>

datatype item = Num int | Data bytes

record script_env =
  env_lock_time :: u32
  env_sequence :: u32
  env_checksig :: "bytes \<Rightarrow> bytes \<Rightarrow> bool"

fun item_true :: "item \<Rightarrow> bool" where
  "item_true (Num i) \<longleftrightarrow> i \<noteq> 0"
| "item_true (Data b) \<longleftrightarrow> (\<exists>x \<in> set b. x \<noteq> 0)"

definition of_bool_item :: "bool \<Rightarrow> item" where
  "of_bool_item b = (if b then Num 1 else Data [])"

text \<open>Signatures have to match public keys in the order of the keys.\<close>

fun match_sigs :: "(bytes \<Rightarrow> bytes \<Rightarrow> bool) \<Rightarrow> bytes list \<Rightarrow> bytes list \<Rightarrow> bool" where
  "match_sigs chk [] ks \<longleftrightarrow> True"
| "match_sigs chk (s # ss) [] \<longleftrightarrow> False"
| "match_sigs chk (s # ss) (k # ks) \<longleftrightarrow>
     (if chk s k then match_sigs chk ss ks else match_sigs chk (s # ss) ks)"

text \<open>The topmost \<open>n\<close> byte strings of the stack, deepest first.\<close>

fun pop_data :: "nat \<Rightarrow> item list \<Rightarrow> (bytes list \<times> item list) option" where
  "pop_data 0 st = Some ([], st)"
| "pop_data (Suc n) (Data b # st) =
     (case pop_data n st of None \<Rightarrow> None | Some (bs, st') \<Rightarrow> Some (bs @ [b], st'))"
| "pop_data (Suc n) st = None"

text \<open>\<open>n\<close> keys below their number, \<open>m\<close> signatures below theirs, and one extra element.\<close>

definition check_multisig :: "script_env \<Rightarrow> item list \<Rightarrow> item list option" where
  "check_multisig E st =
     (case st of
        Num n # st1 \<Rightarrow>
          (case pop_data (nat n) st1 of
             Some (ks, Num m # st2) \<Rightarrow>
               (case pop_data (nat m) st2 of
                  Some (ss, Data [] # st3) \<Rightarrow>
                    Some (of_bool_item (match_sigs (env_checksig E) ss ks) # st3)
                | _ \<Rightarrow> None)
           | _ \<Rightarrow> None)
      | _ \<Rightarrow> None)"

text \<open>BIP 65: both heights or both times, the operand reached, and the input not final.\<close>

definition cltv_ok :: "script_env \<Rightarrow> int \<Rightarrow> bool" where
  "cltv_ok E n \<longleftrightarrow>
     0 \<le> n \<and>
     (n < 500000000 \<longleftrightarrow> uint (env_lock_time E) < 500000000) \<and>
     n \<le> uint (env_lock_time E) \<and>
     env_sequence E \<noteq> 0xFFFFFFFF"

text \<open>One operation inside a branch that is taken, on the stack (top first).\<close>

fun exec_op :: "('z BtcLib_scheme) \<Rightarrow> script_env \<Rightarrow> build_op \<Rightarrow> item list \<Rightarrow> item list option" where
  "exec_op L E (PushInt i) st = Some (Num i # st)"
| "exec_op L E (PushKey k) st = Some (Data (btc_pk_to_bytes L k) # st)"
| "exec_op L E (PushSlice b) st = Some (Data b # st)"
| "exec_op L E (PushOpcode OP_PUSHNUM_2) st = Some (Num 2 # st)"
| "exec_op L E (PushOpcode OP_PUSHBYTES_0) st = Some (Data [] # st)"
| "exec_op L E (PushOpcode OP_DROP) st = (case st of [] \<Rightarrow> None | x # st' \<Rightarrow> Some st')"
| "exec_op L E (PushOpcode OP_CLTV) st =
     (case st of Num n # _ \<Rightarrow> if cltv_ok E n then Some st else None | _ \<Rightarrow> None)"
| "exec_op L E (PushOpcode OP_CHECKSIG) st =
     (case st of Data k # Data s # st' \<Rightarrow> Some (of_bool_item (env_checksig E s k) # st') | _ \<Rightarrow> None)"
| "exec_op L E (PushOpcode OP_CHECKMULTISIG) st = check_multisig E st"
| "exec_op L E (PushOpcode _) st = None"

text \<open>A whole script: the list of booleans holds, innermost first, whether each open \<open>OP_IF\<close> is in
  a branch that is taken.\<close>

fun run_script ::
  "('z BtcLib_scheme) \<Rightarrow> script_env \<Rightarrow> build_op list \<Rightarrow> bool list \<Rightarrow> item list \<Rightarrow> item list option" where
  "run_script L E [] cs st = (if cs = [] then Some st else None)"
| "run_script L E (PushOpcode OP_IF # ops) cs st =
     (if list_all id cs
      then (case st of [] \<Rightarrow> None | x # st' \<Rightarrow> run_script L E ops (item_true x # cs) st')
      else run_script L E ops (False # cs) st)"
| "run_script L E (PushOpcode OP_ELSE # ops) cs st =
     (case cs of [] \<Rightarrow> None | c # cs' \<Rightarrow> run_script L E ops ((\<not> c) # cs') st)"
| "run_script L E (PushOpcode OP_ENDIF # ops) cs st =
     (case cs of [] \<Rightarrow> None | c # cs' \<Rightarrow> run_script L E ops cs' st)"
| "run_script L E (op # ops) cs st =
     (if list_all id cs
      then (case exec_op L E op st of None \<Rightarrow> None | Some st' \<Rightarrow> run_script L E ops cs st')
      else run_script L E ops cs st)"

text \<open>BIP 16: the input script leaves the serialized script on top, which is then run on the rest
  of the stack and has to leave a true value.\<close>

definition leaves_true :: "item list option \<Rightarrow> bool" where
  "leaves_true r = (case r of Some (t # _) \<Rightarrow> item_true t | _ \<Rightarrow> False)"

definition p2sh_accepts ::
  "('z BtcLib_scheme) \<Rightarrow> script_env \<Rightarrow> build_op list \<Rightarrow> build_op list \<Rightarrow> bool" where
  "p2sh_accepts L E lock_ops sig_ops =
     (case run_script L E sig_ops [] [] of
        Some (Data s # st) \<Rightarrow>
          s = into_script L lock_ops \<and> leaves_true (run_script L E lock_ops [] st)
      | _ \<Rightarrow> False)"

lemma item_true_of_bool_item [simp]: "item_true (of_bool_item b) = b"
  by (simp add: of_bool_item_def)

lemma leaves_true_iff: "leaves_true r \<longleftrightarrow> (\<exists>t st. r = Some (t # st) \<and> item_true t)"
  by (auto simp: leaves_true_def split: option.splits list.splits)

lemma p2sh_accepts_iff:
  "p2sh_accepts L E lock_ops sig_ops \<longleftrightarrow>
     (\<exists>st t st'. run_script L E sig_ops [] [] = Some (Data (into_script L lock_ops) # st) \<and>
        run_script L E lock_ops [] st = Some (t # st') \<and> item_true t)"
  by (cases "run_script L E sig_ops [] []")
    (auto simp: p2sh_accepts_def leaves_true_iff split: list.split item.split)

text \<open>What a node checks of a signature in the script of input \<open>ix\<close>: the last byte selects the
  digest, the rest is a DER signature over it. \<open>checks_like_node\<close> says that \<open>chk\<close> answers that
  way for every signature in DER form.\<close>

definition checks_like_node ::
  "('z BtcLib_scheme) \<Rightarrow> BtcTransaction \<Rightarrow> nat \<Rightarrow> Script \<Rightarrow> (bytes \<Rightarrow> bytes \<Rightarrow> bool) \<Rightarrow> bool" where
  "checks_like_node L tx ix lock_script chk \<longleftrightarrow>
     (\<forall>sig h pk. chk (serialize_der L sig @ [h]) (btc_pk_to_bytes L pk) =
        ecdsa_verify L (signature_hash L tx ix lock_script h) sig pk)"

text \<open>ECDSA is correct: a signature verifies under the public key of the signing key.\<close>

definition ecdsa_laws :: "('z BtcLib_scheme) \<Rightarrow> bool" where
  "ecdsa_laws L \<longleftrightarrow>
     (\<forall>m sk. length m = 32 \<longrightarrow> ecdsa_verify L m (ecdsa_sign L m (pk_key sk)) (public_key L sk))"

text \<open>The digest of the legacy signature scheme covers no input script of the transaction.\<close>

definition strip_sigs :: "BtcTransaction \<Rightarrow> BtcTransaction" where
  "strip_sigs tx = tx\<lparr>btx_input := map (\<lambda>i. i\<lparr>script_sig := []\<rparr>) (btx_input tx)\<rparr>"

definition sighash_laws :: "('z BtcLib_scheme) \<Rightarrow> bool" where
  "sighash_laws L \<longleftrightarrow>
     (\<forall>tx i s h. signature_hash L tx i s h = signature_hash L (strip_sigs tx) i s h)"

end
