(* ===== verification/Bitcoin_Routines.thy ===== *)
theory Bitcoin_Routines
  imports Btc_Script Config
begin

text \<open>
  \<open>bitcoin/bitcoin_types.rs\<close> and \<open>bitcoin/btcroutines.rs\<close>: keys, the lock transaction and the
  transactions that spend it, their scripts and signatures, and the text forms of all of these.
\<close>

section \<open>Keys and text forms\<close>

definition create_private_key :: "PrivateKey proc" where
  "create_private_key =
     pbind fresh_key (\<lambda>skey.
       let nw = (if TEST_NET then Testnet else Bitcoin)
       in Ret \<lparr>pk_compressed = True, pk_network = nw, pk_key = skey\<rparr>)"

definition deserialize_script :: "('z BtcLib_scheme) \<Rightarrow> string \<Rightarrow> Script proc" where
  "deserialize_script L s = unwrap ''hex::decode'' (hex_decode L s)"

definition serialize_script :: "('z BtcLib_scheme) \<Rightarrow> Script \<Rightarrow> string" where
  "serialize_script L s = hex_encode L s"

definition serialize_btc_tx :: "('z BtcLib_scheme) \<Rightarrow> BtcTransaction \<Rightarrow> string" where
  "serialize_btc_tx L tx = hex_encode L (btx_serialize L tx)"

definition deserialize_btc_tx :: "('z BtcLib_scheme) \<Rightarrow> string \<Rightarrow> BtcTransaction proc" where
  "deserialize_btc_tx L s =
     pbind (unwrap ''hex::decode'' (hex_decode L s)) (\<lambda>b.
     unwrap ''deserialize'' (btx_deserialize L b))"

definition serialize_priv_key :: "('z BtcLib_scheme) \<Rightarrow> PrivateKey \<Rightarrow> string" where
  "serialize_priv_key L sk = to_wif L sk"

definition deserialize_priv_key :: "('z BtcLib_scheme) \<Rightarrow> string \<Rightarrow> PrivateKey proc" where
  "deserialize_priv_key L s = unwrap ''from_wif'' (from_wif L s)"

definition serialize_pub_key :: "('z BtcLib_scheme) \<Rightarrow> BtcPublicKey \<Rightarrow> string" where
  "serialize_pub_key L pk = btc_pk_to_string L pk"

definition deserialize_pub_key :: "('z BtcLib_scheme) \<Rightarrow> string \<Rightarrow> BtcPublicKey proc" where
  "deserialize_pub_key L s = unwrap ''PublicKey::from_str'' (btc_pk_from_str L s)"

definition private_key_from_grin_sk :: "('z BtcLib_scheme) \<Rightarrow> SecretKey \<Rightarrow> PrivateKey proc" where
  "private_key_from_grin_sk L sk =
     pbind (unwrap ''SecretKey::from_slice'' (btc_sk_from_slice L sk)) (\<lambda>btc_sk.
     Ret \<lparr>pk_compressed = True, pk_network = Testnet, pk_key = btc_sk\<rparr>)"

section \<open>\<open>BTCInput\<close>\<close>

record BTCInput =
  bi_txid :: string
  bi_vout :: u32
  bi_value :: u64
  bi_secret :: string
  bi_pub_key :: string
  bi_pub_script :: string

definition btc_input_new2 ::
  "('z BtcLib_scheme) \<Rightarrow> string \<Rightarrow> u32 \<Rightarrow> u64 \<Rightarrow> PrivateKey \<Rightarrow> BtcPublicKey \<Rightarrow> Script \<Rightarrow> BTCInput" where
  "btc_input_new2 L txid vout value secret pub_key pub_script =
     \<lparr>bi_txid = txid, bi_vout = vout, bi_value = value,
      bi_secret = serialize_priv_key L secret,
      bi_pub_key = serialize_pub_key L pub_key,
      bi_pub_script = serialize_script L pub_script\<rparr>"

section \<open>Scripts\<close>

definition lock_builder :: "BtcPublicKey \<Rightarrow> BtcPublicKey \<Rightarrow> BtcPublicKey \<Rightarrow> i64 \<Rightarrow> build_op list" where
  "lock_builder recv_pk pub_x refund_pk refund_time =
     [PushOpcode OP_IF,
      PushInt refund_time,
      PushOpcode OP_CLTV,
      PushOpcode OP_DROP,
      PushKey refund_pk,
      PushOpcode OP_CHECKSIG,
      PushOpcode OP_ELSE,
      PushOpcode OP_PUSHNUM_2,
      PushKey recv_pk,
      PushKey pub_x,
      PushOpcode OP_PUSHNUM_2,
      PushOpcode OP_CHECKMULTISIG,
      PushOpcode OP_ENDIF]"

definition get_lock_pub_script ::
  "('z BtcLib_scheme) \<Rightarrow> BtcPublicKey \<Rightarrow> BtcPublicKey \<Rightarrow> BtcPublicKey \<Rightarrow> i64 \<Rightarrow> bool \<Rightarrow> Script" where
  "get_lock_pub_script L recv_pk pub_x refund_pk refund_time wrap_in_p2sh =
     (let builder = lock_builder recv_pk pub_x refund_pk refund_time
      in if wrap_in_p2sh then new_p2sh L (script_hash L (into_script L builder))
         else into_script L builder)"

definition get_p2pkh_pub_script :: "('z BtcLib_scheme) \<Rightarrow> BtcPublicKey \<Rightarrow> Script" where
  "get_p2pkh_pub_script L recv_pk = new_p2pkh L (pubkey_hash L recv_pk)"

definition script_to_address :: "('z BtcLib_scheme) \<Rightarrow> Script \<Rightarrow> Address proc" where
  "script_to_address L s =
     (let nw = (if TEST_NET then Testnet else Bitcoin)
      in unwrap ''Address::from_script'' (address_from_script L s nw))"

section \<open>Transactions\<close>

definition unsigned_txin :: "Txid \<Rightarrow> u32 \<Rightarrow> u32 \<Rightarrow> TxIn" where
  "unsigned_txin txid vout seq =
     \<lparr>previous_output = \<lparr>op_txid = txid, op_vout = vout\<rparr>, script_sig = [], sequence = seq, witness = []\<rparr>"

definition sum_values :: "BTCInput list \<Rightarrow> u64" where
  "sum_values inputs = foldl (\<lambda>acc i. acc + bi_value i) 0 inputs"

definition create_lock_transaction ::
  "('z BtcLib_scheme) \<Rightarrow> BtcPublicKey \<Rightarrow> BtcPublicKey \<Rightarrow> BtcPublicKey \<Rightarrow> BtcPublicKey \<Rightarrow>
   BTCInput list \<Rightarrow> u64 \<Rightarrow> u64 \<Rightarrow> i64 \<Rightarrow> (string, BtcTransaction) result proc" where
  "create_lock_transaction L recv_pk pub_x refund_pk change_pk inputs amount fee refund_time =
     pbind (map_proc (\<lambda>btcinp.
         pbind (unwrap ''Failed to parse tx id from string'' (txid_from_str L (bi_txid btcinp))) (\<lambda>txid.
         Ret (unsigned_txin txid (bi_vout btcinp) FFFFFFFF))) inputs) (\<lambda>txinp.
     let inp_amount = sum_values inputs
     in if inp_amount < amount + fee then Ret (Err ''Input coin amount is too little'')
        else
          let lock_script_pub = get_lock_pub_script L recv_pk pub_x refund_pk refund_time True;
              ch_script_pub = get_p2pkh_pub_script L change_pk;
              txout = [\<lparr>txo_value = amount, script_pubkey = lock_script_pub\<rparr>,
                       \<lparr>txo_value = inp_amount - amount - fee, script_pubkey = ch_script_pub\<rparr>]
          in Ret (Ok \<lparr>btx_version = 1, btx_lock_time = 0, btx_input = txinp, btx_output = txout\<rparr>))"

definition create_spend_lock_transaction ::
  "('z BtcLib_scheme) \<Rightarrow> BtcPublicKey \<Rightarrow> BTCInput \<Rightarrow> u64 \<Rightarrow> u64 \<Rightarrow> u32 \<Rightarrow>
   (string, BtcTransaction) result proc" where
  "create_spend_lock_transaction L recv_pk inp amount fee lock_time =
     (let inp_amount = bi_value inp
      in pbind (unwrap ''Hash::from_str'' (txid_from_str L (bi_txid inp))) (\<lambda>txid.
         let txinp = [unsigned_txin txid (bi_vout inp) (if lock_time = 0 then FFFFFFFF else 0)]
         in if inp_amount \<noteq> amount then Ret (Err ''Please fully redeem input coin'')
            else
              let out_script = new_p2pkh L (pubkey_hash L recv_pk)
              in Ret (Ok \<lparr>btx_version = 1, btx_lock_time = lock_time, btx_input = txinp,
                   btx_output = [\<lparr>txo_value = amount - fee, script_pubkey = out_script\<rparr>]\<rparr>)))"

section \<open>Signing\<close>

definition serialize_sig_der_with_sighash :: "('z BtcLib_scheme) \<Rightarrow> BtcSig \<Rightarrow> u8 \<Rightarrow> bytes" where
  "serialize_sig_der_with_sighash L sig sig_hash = serialize_der L sig @ [sig_hash]"

definition list_get :: "'a list \<Rightarrow> nat \<Rightarrow> 'a option" where
  "list_get xs i = (if i < length xs then Some (xs ! i) else None)"

definition sign_p2pkh_transaction ::
  "('z BtcLib_scheme) \<Rightarrow> BtcTransaction \<Rightarrow> Script list \<Rightarrow> PrivateKey list \<Rightarrow> BtcPublicKey list \<Rightarrow>
   BtcTransaction proc" where
  "sign_p2pkh_transaction L tx script_pubkeys skeys pkeys =
     pbind (map_proc (\<lambda>(i, unsigned_inp).
         pbind (unwrap ''script_pubkeys.get'' (list_get script_pubkeys i)) (\<lambda>script_pk.
         pbind (unwrap ''skeys.get'' (list_get skeys i)) (\<lambda>sk.
         pbind (unwrap ''pkeys.get'' (list_get pkeys i)) (\<lambda>pub_key.
         let sighash = signature_hash L tx i script_pk SIGHASH_ALL
         in pbind (unwrap ''Message::from_slice'' (message_from_slice L sighash)) (\<lambda>msg.
            let sig = ecdsa_sign L msg (pk_key sk);
                sig_der = serialize_sig_der_with_sighash L sig SIGHASH_ALL;
                redeem_script = into_script L [PushSlice sig_der, PushKey pub_key]
            in Ret (unsigned_inp\<lparr>script_sig := redeem_script\<rparr>))))))
         (enumerate 0 (btx_input tx))) (\<lambda>signed_inp.
     Ret \<lparr>btx_version = btx_version tx, btx_lock_time = btx_lock_time tx,
          btx_input = signed_inp, btx_output = btx_output tx\<rparr>)"

definition sign_lock_transaction_redeemer ::
  "('z BtcLib_scheme) \<Rightarrow> BtcTransaction \<Rightarrow> nat \<Rightarrow> Script \<Rightarrow> PrivateKey \<Rightarrow> PrivateKey \<Rightarrow>
   BtcTransaction proc" where
  "sign_lock_transaction_redeemer L tx ix lock_script sk x =
     pbind (map_proc (\<lambda>(i, unsigned_inp).
         if i = ix then
           let sighash = signature_hash L tx ix lock_script SIGHASH_ALL
           in pbind (unwrap ''Message::from_slice'' (message_from_slice L sighash)) (\<lambda>msg.
              let sig_a = ecdsa_sign L msg (pk_key sk);
                  sig_x = ecdsa_sign L msg (pk_key x);
                  sig_a_der = serialize_sig_der_with_sighash L sig_a SIGHASH_ALL;
                  sig_x_der = serialize_sig_der_with_sighash L sig_x SIGHASH_ALL;
                  fin_script = into_script L
                    [PushOpcode OP_PUSHBYTES_0, PushSlice sig_a_der, PushSlice sig_x_der,
                     PushOpcode OP_PUSHBYTES_0, PushSlice lock_script]
              in Ret (unsigned_inp\<lparr>script_sig := fin_script\<rparr>))
         else Ret unsigned_inp)
         (enumerate 0 (btx_input tx))) (\<lambda>signed_inp.
     Ret \<lparr>btx_version = btx_version tx, btx_lock_time = btx_lock_time tx,
          btx_input = signed_inp, btx_output = btx_output tx\<rparr>)"

definition sign_lock_transaction_refund ::
  "('z BtcLib_scheme) \<Rightarrow> BtcTransaction \<Rightarrow> nat \<Rightarrow> Script \<Rightarrow> PrivateKey \<Rightarrow> BtcTransaction proc" where
  "sign_lock_transaction_refund L tx ix lock_script sk =
     pbind (map_proc (\<lambda>(i, unsigned_inp).
         if i = ix then
           let sighash = signature_hash L tx ix lock_script SIGHASH_ALL
           in pbind (unwrap ''Message::from_slice'' (message_from_slice L sighash)) (\<lambda>msg.
              let sig = ecdsa_sign L msg (pk_key sk);
                  sig_der = serialize_sig_der_with_sighash L sig SIGHASH_ALL;
                  fin_script = into_script L [PushSlice sig_der, PushInt 1, PushSlice lock_script]
              in Ret (unsigned_inp\<lparr>script_sig := fin_script\<rparr>))
         else Ret unsigned_inp)
         (enumerate 0 (btx_input tx))) (\<lambda>signed_inp.
     Ret \<lparr>btx_version = btx_version tx, btx_lock_time = btx_lock_time tx,
          btx_input = signed_inp, btx_output = btx_output tx\<rparr>)"

section \<open>What signing keeps\<close>

text \<open>
  The contract of a signing routine towards its callers: it ends without any effect, and it
  changes nothing of a transaction but its input scripts.
\<close>

locale signer =
  fixes sign :: "BtcTransaction \<Rightarrow> BtcTransaction proc"
  assumes keeps: "sign tx = Ret tx' \<Longrightarrow> strip_sigs tx' = strip_sigs tx"
    and no_effects: "silent (sign tx)"
begin

lemma keeps_parts:
  assumes "sign tx = Ret tx'"
  shows "btx_output tx' = btx_output tx" "btx_lock_time tx' = btx_lock_time tx"
    "btx_version tx' = btx_version tx"
    "map previous_output (btx_input tx') = map previous_output (btx_input tx)"
    "map sequence (btx_input tx') = map sequence (btx_input tx)"
proof -
  let ?s = "\<lambda>i. i\<lparr>script_sig := []\<rparr> :: TxIn"
  have m: "map ?s (btx_input tx') = map ?s (btx_input tx)"
    and "btx_output tx' = btx_output tx" "btx_lock_time tx' = btx_lock_time tx"
      "btx_version tx' = btx_version tx"
    using keeps [OF assms] by (cases tx; cases tx'; simp add: strip_sigs_def)+
  then show "btx_output tx' = btx_output tx" "btx_lock_time tx' = btx_lock_time tx"
    "btx_version tx' = btx_version tx" by simp_all
  from m have "map (previous_output \<circ> ?s) (btx_input tx') = map (previous_output \<circ> ?s) (btx_input tx)"
    "map (sequence \<circ> ?s) (btx_input tx') = map (sequence \<circ> ?s) (btx_input tx)"
    by (simp_all only: map_map [symmetric])
  then show "map previous_output (btx_input tx') = map previous_output (btx_input tx)"
    "map sequence (btx_input tx') = map sequence (btx_input tx)"
    by (simp_all add: comp_def)
qed

lemma keeps_sighash:
  "sighash_laws L \<Longrightarrow> sign tx = Ret tx' \<Longrightarrow> signature_hash L tx' i s h = signature_hash L tx i s h"
  using keeps by (metis sighash_laws_def)

end

text \<open>A loop over the numbered inputs that replaces input scripts, and nothing else.\<close>

lemma sign_inputs_strip:
  assumes "map_proc f (enumerate n inp) = Ret ys"
    and "\<And>i u y. f (i, u) = Ret y \<Longrightarrow> y\<lparr>script_sig := []\<rparr> = u\<lparr>script_sig := []\<rparr>"
  shows "map (\<lambda>i. i\<lparr>script_sig := []\<rparr> :: TxIn) ys = map (\<lambda>i. i\<lparr>script_sig := []\<rparr>) inp"
  using assms(1)
proof (induction inp arbitrary: n ys)
  case (Cons u inp)
  then obtain y ys' where "ys = y # ys'" "f (n, u) = Ret y" "map_proc f (enumerate (Suc n) inp) = Ret ys'"
    by (auto simp: pbind_eq_Ret)
  with Cons.IH assms(2) show ?case by simp
qed simp

lemma sign_tx_strip:
  assumes "pbind (map_proc f (enumerate 0 (btx_input tx))) (\<lambda>signed_inp.
     Ret \<lparr>btx_version = btx_version tx, btx_lock_time = btx_lock_time tx,
          btx_input = signed_inp, btx_output = btx_output tx\<rparr>) = Ret tx'"
    and "\<And>i u y. f (i, u) = Ret y \<Longrightarrow> y\<lparr>script_sig := []\<rparr> = u\<lparr>script_sig := []\<rparr>"
  shows "strip_sigs tx' = strip_sigs tx"
  using assms(1) sign_inputs_strip [where f = f, OF _ assms(2)]
  by (cases tx) (auto simp: pbind_eq_Ret strip_sigs_def)

interpretation p2pkh_signer: signer "\<lambda>tx. sign_p2pkh_transaction L tx spks sks pks"
  for L :: "'z BtcLib_scheme" and spks sks pks
proof unfold_locales
  fix tx tx'
  assume "sign_p2pkh_transaction L tx spks sks pks = Ret tx'"
  then show "strip_sigs tx' = strip_sigs tx"
    unfolding sign_p2pkh_transaction_def Let_def
    by (rule sign_tx_strip) (auto simp: pbind_eq_Ret split: if_splits)
next
  fix tx
  show "silent (sign_p2pkh_transaction L tx spks sks pks)"
    unfolding sign_p2pkh_transaction_def Let_def
    by (intro silent_pbind silent_map_proc) (auto split: prod.split)
qed

interpretation redeem_signer: signer "\<lambda>tx. sign_lock_transaction_redeemer L tx ix lock_script sk x"
  for L :: "'z BtcLib_scheme" and ix lock_script sk x
proof unfold_locales
  fix tx tx'
  assume "sign_lock_transaction_redeemer L tx ix lock_script sk x = Ret tx'"
  then show "strip_sigs tx' = strip_sigs tx"
    unfolding sign_lock_transaction_redeemer_def Let_def
    by (rule sign_tx_strip) (auto simp: pbind_eq_Ret split: if_splits)
next
  fix tx
  show "silent (sign_lock_transaction_redeemer L tx ix lock_script sk x)"
    unfolding sign_lock_transaction_redeemer_def Let_def
    by (intro silent_pbind silent_map_proc) (auto split: prod.split)
qed

interpretation refund_signer: signer "\<lambda>tx. sign_lock_transaction_refund L tx ix lock_script sk"
  for L :: "'z BtcLib_scheme" and ix lock_script sk
proof unfold_locales
  fix tx tx'
  assume "sign_lock_transaction_refund L tx ix lock_script sk = Ret tx'"
  then show "strip_sigs tx' = strip_sigs tx"
    unfolding sign_lock_transaction_refund_def Let_def
    by (rule sign_tx_strip) (auto simp: pbind_eq_Ret split: if_splits)
next
  fix tx
  show "silent (sign_lock_transaction_refund L tx ix lock_script sk)"
    unfolding sign_lock_transaction_refund_def Let_def
    by (intro silent_pbind silent_map_proc) (auto split: prod.split)
qed

section \<open>The lock transaction\<close>

lemma sum_values_unat:
  "unat acc + sum_list (map (unat \<circ> bi_value) inputs) < 2 ^ 64 \<Longrightarrow>
   unat (foldl (\<lambda>acc i. acc + bi_value i) acc inputs) =
     unat acc + sum_list (map (unat \<circ> bi_value) inputs)"
proof (induction inputs arbitrary: acc)
  case (Cons i inputs)
  have "unat (acc + bi_value i) = unat acc + unat (bi_value i)"
    by (rule unat_add_lem [THEN iffD1]) (use Cons.prems in simp)
  with Cons show ?case by simp
qed simp

lemma sum_values_no_wrap:
  "sum_list (map (unat \<circ> bi_value) inputs) < 2 ^ 64 \<Longrightarrow>
   unat (sum_values inputs) = sum_list (map (unat \<circ> bi_value) inputs)"
  unfolding sum_values_def using sum_values_unat [of 0] by simp

definition tx_out_total :: "BtcTransaction \<Rightarrow> nat" where
  "tx_out_total tx = sum_list (map (unat \<circ> txo_value) (btx_output tx))"

text \<open>The inputs the loop of \<open>create_lock_transaction\<close> makes: \<open>None\<close> where a transaction id does
  not parse.\<close>

fun lock_inputs :: "('z BtcLib_scheme) \<Rightarrow> BTCInput list \<Rightarrow> TxIn list option" where
  "lock_inputs L [] = Some []"
| "lock_inputs L (i # is) =
     (case txid_from_str L (bi_txid i) of
        None \<Rightarrow> None
      | Some t \<Rightarrow> map_option (\<lambda>r. unsigned_txin t (bi_vout i) FFFFFFFF # r) (lock_inputs L is))"

lemma lock_inputs_loop:
  "map_proc (\<lambda>btcinp.
      pbind (unwrap m (txid_from_str L (bi_txid btcinp))) (\<lambda>txid.
      Ret (unsigned_txin txid (bi_vout btcinp) FFFFFFFF))) inputs = unwrap m (lock_inputs L inputs)"
  by (induction inputs) (auto simp: unwrap_def split: option.split)

lemma create_lock_transaction_eq:
  "create_lock_transaction L recv_pk pub_x refund_pk change_pk inputs amount fee refund_time =
     (case lock_inputs L inputs of
        None \<Rightarrow> Panic ''Failed to parse tx id from string''
      | Some txinp \<Rightarrow>
          if sum_values inputs < amount + fee then Ret (Err ''Input coin amount is too little'')
          else Ret (Ok \<lparr>btx_version = 1, btx_lock_time = 0, btx_input = txinp, btx_output =
             [\<lparr>txo_value = amount,
               script_pubkey = get_lock_pub_script L recv_pk pub_x refund_pk refund_time True\<rparr>,
              \<lparr>txo_value = sum_values inputs - amount - fee,
               script_pubkey = get_p2pkh_pub_script L change_pk\<rparr>]\<rparr>))"
  unfolding create_lock_transaction_def lock_inputs_loop Let_def
  by (simp split: option.split)

lemma change_value_unat:
  fixes a f n :: u64
  assumes "unat a + unat f < 2 ^ 64" and "\<not> n < a + f"
  shows "unat (n - a - f) + unat a + unat f = unat n"
proof -
  have "unat (a + f) = unat a + unat f"
    using assms(1) by (intro unat_add_lem [THEN iffD1]) simp
  moreover have "unat (n - (a + f)) = unat n - unat (a + f)"
    using assms(2) by (intro unat_sub) (simp add: not_less)
  ultimately show ?thesis
    using assms(2) by (simp add: diff_diff_add not_less word_le_nat_alt)
qed

text \<open>An input of a transaction spends the coin a \<open>BTCInput\<close> names.\<close>

definition spends_coin :: "('z BtcLib_scheme) \<Rightarrow> BTCInput \<Rightarrow> TxIn \<Rightarrow> bool" where
  "spends_coin L i t \<longleftrightarrow>
     txid_from_str L (bi_txid i) = Some (op_txid (previous_output t)) \<and>
     op_vout (previous_output t) = bi_vout i"

lemma lock_inputs_spend:
  "lock_inputs L inputs = Some txinp \<Longrightarrow> list_all2 (spends_coin L) inputs txinp"
  by (induction inputs arbitrary: txinp)
    (auto simp: spends_coin_def unsigned_txin_def split: option.splits)

section \<open>The lock script and the transactions that spend it\<close>

lemma run_lock_branches:
  "run_script L E (lock_builder recv_pk pub_x refund_pk t) [] st =
     (case st of
        [] \<Rightarrow> None
      | c # st' \<Rightarrow>
          if item_true c
          then (if cltv_ok E t
                then exec_op L E (PushOpcode OP_CHECKSIG) (Data (btc_pk_to_bytes L refund_pk) # st')
                else None)
          else check_multisig E (Num 2 # Data (btc_pk_to_bytes L pub_x) #
                 Data (btc_pk_to_bytes L recv_pk) # Num 2 # st'))"
  by (auto simp: lock_builder_def of_bool_item_def split: list.split option.split item.split)

lemma pop_data_2:
  "pop_data 2 st = Some (bs, st') \<longleftrightarrow> (\<exists>a b. st = Data b # Data a # st' \<and> bs = [a, b])"
  unfolding numeral_2_eq_2
  by (auto split: option.splits elim!: pop_data.elims)

lemma check_multisig_2:
  "check_multisig E (Num 2 # Data k2 # Data k1 # Num 2 # st) = Some (t # st') \<Longrightarrow> item_true t \<Longrightarrow>
   \<exists>s1 s2. env_checksig E s1 k1 \<and> env_checksig E s2 k2"
  by (auto simp: check_multisig_def numeral_2_eq_2 split: option.splits list.splits item.splits if_splits
      elim!: pop_data.elims) blast+

lemma p2sh_refund_script:
  "p2sh_accepts L E (lock_builder recv_pk pub_x refund_pk t)
     [PushSlice der, PushInt 1, PushSlice (into_script L (lock_builder recv_pk pub_x refund_pk t))]
   \<longleftrightarrow> cltv_ok E t \<and> env_checksig E der (btc_pk_to_bytes L refund_pk)"
  by (simp add: p2sh_accepts_iff run_lock_branches)

lemma p2sh_redeem_script:
  "env_checksig E der1 (btc_pk_to_bytes L recv_pk) \<Longrightarrow> env_checksig E der2 (btc_pk_to_bytes L pub_x) \<Longrightarrow>
   p2sh_accepts L E (lock_builder recv_pk pub_x refund_pk t)
     [PushOpcode OP_PUSHBYTES_0, PushSlice der1, PushSlice der2, PushOpcode OP_PUSHBYTES_0,
      PushSlice (into_script L (lock_builder recv_pk pub_x refund_pk t))]"
  by (simp add: p2sh_accepts_iff run_lock_branches check_multisig_def numeral_2_eq_2)

lemma create_spend_lock_transaction_Ok:
  "create_spend_lock_transaction L recv_pk inp amount fee lock_time = Ret (Ok tx) \<Longrightarrow>
   bi_value inp = amount \<and>
   (\<exists>txid. txid_from_str L (bi_txid inp) = Some txid \<and>
     tx = \<lparr>btx_version = 1, btx_lock_time = lock_time,
       btx_input = [unsigned_txin txid (bi_vout inp) (if lock_time = 0 then FFFFFFFF else 0)],
       btx_output = [\<lparr>txo_value = amount - fee, script_pubkey = get_p2pkh_pub_script L recv_pk\<rparr>]\<rparr>)"
  by (auto simp: create_spend_lock_transaction_def Let_def pbind_eq_Ret get_p2pkh_pub_script_def
      split: if_splits)

section \<open>Properties\<close>

text \<open>
  C33. The lock transaction conserves value. Where the input values and the amount with its fee
  do not wrap, it is refused exactly when the inputs do not cover amount and fee; otherwise its
  inputs spend the given coins in order, the first output locks the amount under the swap's
  script, and outputs and fee add up to the inputs.
\<close>

theorem lock_tx_conserves_value:
  assumes "create_lock_transaction L recv_pk pub_x refund_pk change_pk inputs amount fee refund_time
             = Ret r"
    and "sum_list (map (unat \<circ> bi_value) inputs) < 2 ^ 64"
    and "unat amount + unat fee < 2 ^ 64"
  shows "if sum_list (map (unat \<circ> bi_value) inputs) < unat amount + unat fee
         then r = Err ''Input coin amount is too little''
         else \<exists>tx. r = Ok tx \<and>
           list_all2 (spends_coin L) inputs (btx_input tx) \<and>
           hd (btx_output tx) = \<lparr>txo_value = amount,
             script_pubkey = get_lock_pub_script L recv_pk pub_x refund_pk refund_time True\<rparr> \<and>
           tx_out_total tx + unat fee = sum_list (map (unat \<circ> bi_value) inputs)"
proof -
  obtain txinp where inp: "lock_inputs L inputs = Some txinp"
    using assms(1) by (auto simp: create_lock_transaction_eq split: option.splits)
  have s: "unat (sum_values inputs) = sum_list (map (unat \<circ> bi_value) inputs)"
    by (rule sum_values_no_wrap [OF assms(2)])
  have af: "unat (amount + fee) = unat amount + unat fee"
    using assms(3) by (intro unat_add_lem [THEN iffD1]) simp
  have lt: "sum_values inputs < amount + fee \<longleftrightarrow>
      sum_list (map (unat \<circ> bi_value) inputs) < unat amount + unat fee"
    by (simp add: word_less_nat_alt s af)
  show ?thesis
  proof (cases "sum_values inputs < amount + fee")
    case True
    with assms(1) inp lt show ?thesis by (simp add: create_lock_transaction_eq)
  next
    case False
    have "unat (sum_values inputs - amount - fee) + unat amount + unat fee = unat (sum_values inputs)"
      by (rule change_value_unat [OF assms(3) False])
    with assms(1) inp lt False s lock_inputs_spend [OF inp] show ?thesis
      by (auto simp: create_lock_transaction_eq tx_out_total_def)
  qed
qed

text \<open>
  C2. The lock script keeps the coin safe: whatever input script a spender presents, the script
  is satisfied only with a signature of the refund key once the lock time is reached, or with a
  signature of the receiver's key together with a signature of the statement \<open>X\<close>.
\<close>

theorem lock_script_guards_coin:
  assumes "p2sh_accepts L E (lock_builder recv_pk pub_x refund_pk refund_time) ops"
  shows "(cltv_ok E refund_time \<and> (\<exists>s. env_checksig E s (btc_pk_to_bytes L refund_pk))) \<or>
         (\<exists>s1 s2. env_checksig E s1 (btc_pk_to_bytes L recv_pk) \<and>
                  env_checksig E s2 (btc_pk_to_bytes L pub_x))"
proof -
  from assms obtain st t st' where
    r: "run_script L E (lock_builder recv_pk pub_x refund_pk refund_time) [] st = Some (t # st')"
      "item_true t"
    by (auto simp: p2sh_accepts_iff)
  then obtain c st1 where st: "st = c # st1" by (cases st) (auto simp: run_lock_branches)
  show ?thesis
  proof (cases "item_true c")
    case True
    with r st show ?thesis
      by (auto simp: run_lock_branches split: if_splits list.splits item.splits)
  next
    case False
    with r st check_multisig_2 [of E _ _ st1 t st'] show ?thesis
      by (auto simp: run_lock_branches)
  qed
qed

text \<open>What the two signers leave in the only input of a transaction that spends the lock: the
  operations of its script, with signatures a node accepts.\<close>

lemma refund_signed_input:
  fixes sk :: PrivateKey
  assumes "lock_ops = lock_builder recv_pk pub_x (public_key L sk) refund_time"
    and "ecdsa_laws L" "btc_scalar_laws L" "sighash_laws L"
    and "create_spend_lock_transaction L dest inp amount fee lock_time = Ret (Ok tx)"
    and "sign_lock_transaction_refund L tx 0
           (get_lock_pub_script L recv_pk pub_x (public_key L sk) refund_time False) sk = Ret tx'"
  obtains txid der where
    "btx_input tx' = [(unsigned_txin txid (bi_vout inp) (if lock_time = 0 then FFFFFFFF else 0))
      \<lparr>script_sig := into_script L [PushSlice der, PushInt 1, PushSlice (into_script L lock_ops)]\<rparr>]"
    "btx_lock_time tx' = lock_time"
    "\<And>chk. checks_like_node L tx' 0 (into_script L lock_ops) chk \<Longrightarrow> chk der (btc_pk_to_bytes L (public_key L sk))"
proof -
  let ?ls = "into_script L lock_ops"
  from create_spend_lock_transaction_Ok [OF assms(5)] obtain txid where
    tx: "btx_input tx = [unsigned_txin txid (bi_vout inp) (if lock_time = 0 then FFFFFFFF else 0)]"
      "btx_lock_time tx = lock_time" by auto
  define m where "m = signature_hash L tx 0 ?ls SIGHASH_ALL"
  define der where "der = serialize_der L (ecdsa_sign L m (pk_key sk)) @ [SIGHASH_ALL]"
  have m: "length m = 32" "message_from_slice L m = Some m"
    using assms(3) by (simp_all add: m_def btc_scalar_laws_def)
  have "chk der (btc_pk_to_bytes L (public_key L sk))" if "checks_like_node L tx' 0 ?ls chk" for chk
    using assms(2) that m(1) refund_signer.keeps_sighash [OF assms(4,6), of 0 ?ls SIGHASH_ALL]
    by (simp add: der_def checks_like_node_def ecdsa_laws_def m_def)
  moreover have "btx_input tx' = [(unsigned_txin txid (bi_vout inp) (if lock_time = 0 then FFFFFFFF else 0))
      \<lparr>script_sig := into_script L [PushSlice der, PushInt 1, PushSlice ?ls]\<rparr>]"
    "btx_lock_time tx' = lock_time"
    using assms(6) tx m
    by (auto simp: sign_lock_transaction_refund_def get_lock_pub_script_def Let_def
        serialize_sig_der_with_sighash_def der_def m_def assms(1))
  ultimately show thesis using that by blast
qed

lemma redeem_signed_input:
  fixes sk x :: PrivateKey
  assumes "lock_ops = lock_builder (public_key L sk) (public_key L x) refund_pk refund_time"
    and "ecdsa_laws L" "btc_scalar_laws L" "sighash_laws L"
    and "create_spend_lock_transaction L dest inp amount fee lock_time = Ret (Ok tx)"
    and "sign_lock_transaction_redeemer L tx 0
           (get_lock_pub_script L (public_key L sk) (public_key L x) refund_pk refund_time False) sk x
           = Ret tx'"
  obtains txid der der' where
    "btx_input tx' = [(unsigned_txin txid (bi_vout inp) (if lock_time = 0 then FFFFFFFF else 0))
      \<lparr>script_sig := into_script L [PushOpcode OP_PUSHBYTES_0, PushSlice der, PushSlice der',
         PushOpcode OP_PUSHBYTES_0, PushSlice (into_script L lock_ops)]\<rparr>]"
    "\<And>chk. checks_like_node L tx' 0 (into_script L lock_ops) chk \<Longrightarrow>
       chk der (btc_pk_to_bytes L (public_key L sk)) \<and> chk der' (btc_pk_to_bytes L (public_key L x))"
proof -
  let ?ls = "into_script L lock_ops"
  from create_spend_lock_transaction_Ok [OF assms(5)] obtain txid where
    tx: "btx_input tx = [unsigned_txin txid (bi_vout inp) (if lock_time = 0 then FFFFFFFF else 0)]"
    by auto
  define m where "m = signature_hash L tx 0 ?ls SIGHASH_ALL"
  define der where "der k = serialize_der L (ecdsa_sign L m (pk_key k)) @ [SIGHASH_ALL]"
    for k :: PrivateKey
  have m: "length m = 32" "message_from_slice L m = Some m"
    using assms(3) by (simp_all add: m_def btc_scalar_laws_def)
  have chk: "chk (der k) (btc_pk_to_bytes L (public_key L k))"
    if "checks_like_node L tx' 0 ?ls chk" for k :: PrivateKey and chk
    using assms(2) that m(1) redeem_signer.keeps_sighash [OF assms(4,6), of 0 ?ls SIGHASH_ALL]
    by (simp add: der_def checks_like_node_def ecdsa_laws_def m_def)
  have "btx_input tx' = [(unsigned_txin txid (bi_vout inp) (if lock_time = 0 then FFFFFFFF else 0))
      \<lparr>script_sig := into_script L [PushOpcode OP_PUSHBYTES_0, PushSlice (der sk), PushSlice (der x),
         PushOpcode OP_PUSHBYTES_0, PushSlice ?ls]\<rparr>]"
    using assms(6) tx m
    by (auto simp: sign_lock_transaction_redeemer_def get_lock_pub_script_def Let_def
        serialize_sig_der_with_sighash_def der_def m_def assms(1))
  with chk that show thesis by blast
qed

text \<open>
  C11. The refund transaction opens the lock exactly when its lock time allows it: the script the
  refund signer builds satisfies the lock script if and only if the transaction's lock time is
  set, of the kind of the script's (height or time) and not before it.
\<close>

theorem refund_tx_opens_lock:
  fixes sk :: PrivateKey
  assumes "lock_ops = lock_builder recv_pk pub_x (public_key L sk) refund_time"
    and "ecdsa_laws L" "btc_scalar_laws L" "sighash_laws L"
    and "create_spend_lock_transaction L dest inp amount fee lock_time = Ret (Ok tx)"
    and "sign_lock_transaction_refund L tx 0
           (get_lock_pub_script L recv_pk pub_x (public_key L sk) refund_time False) sk = Ret tx'"
    and "checks_like_node L tx' 0 (into_script L lock_ops) chk"
    and "0 \<le> refund_time"
  shows "\<exists>i ops. btx_input tx' = [i] \<and> script_sig i = into_script L ops \<and>
           (p2sh_accepts L \<lparr>env_lock_time = btx_lock_time tx', env_sequence = sequence i,
                            env_checksig = chk\<rparr> lock_ops ops \<longleftrightarrow>
            lock_time \<noteq> 0 \<and> refund_time \<le> uint lock_time \<and>
            (refund_time < 500000000 \<longleftrightarrow> uint lock_time < 500000000))"
proof -
  obtain txid der where
    "btx_input tx' = [(unsigned_txin txid (bi_vout inp) (if lock_time = 0 then FFFFFFFF else 0))
      \<lparr>script_sig := into_script L [PushSlice der, PushInt 1, PushSlice (into_script L lock_ops)]\<rparr>]"
    "btx_lock_time tx' = lock_time" "chk der (btc_pk_to_bytes L (public_key L sk))"
    using refund_signed_input [OF assms(1-6)] assms(7) by metis
  with assms(8) show ?thesis
    by (auto simp: unsigned_txin_def p2sh_refund_script cltv_ok_def FFFFFFFF_def
        intro!: exI [of _ "[PushSlice der, PushInt 1, PushSlice (into_script L lock_ops)]"] simp: assms(1))
qed

text \<open>
  C10. The redeeming transaction opens the lock at any time: with the receiver's key and the
  witness \<open>x\<close> of the statement, the script the redeem signer builds satisfies the lock script.
\<close>

theorem redeem_tx_opens_lock:
  fixes sk x :: PrivateKey
  assumes "lock_ops = lock_builder (public_key L sk) (public_key L x) refund_pk refund_time"
    and "ecdsa_laws L" "btc_scalar_laws L" "sighash_laws L"
    and "create_spend_lock_transaction L dest inp amount fee lock_time = Ret (Ok tx)"
    and "sign_lock_transaction_redeemer L tx 0
           (get_lock_pub_script L (public_key L sk) (public_key L x) refund_pk refund_time False) sk x
           = Ret tx'"
    and "checks_like_node L tx' 0 (into_script L lock_ops) chk"
  shows "\<exists>i ops. btx_input tx' = [i] \<and> script_sig i = into_script L ops \<and>
           p2sh_accepts L \<lparr>env_lock_time = btx_lock_time tx', env_sequence = sequence i,
                            env_checksig = chk\<rparr> lock_ops ops"
proof -
  obtain txid der der' where
    "btx_input tx' = [(unsigned_txin txid (bi_vout inp) (if lock_time = 0 then FFFFFFFF else 0))
      \<lparr>script_sig := into_script L [PushOpcode OP_PUSHBYTES_0, PushSlice der, PushSlice der',
         PushOpcode OP_PUSHBYTES_0, PushSlice (into_script L lock_ops)]\<rparr>]"
    "chk der (btc_pk_to_bytes L (public_key L sk))" "chk der' (btc_pk_to_bytes L (public_key L x))"
    using redeem_signed_input [OF assms(1-6)] assms(7) by metis
  then show ?thesis
    by (auto intro!: p2sh_redeem_script exI [of _ "[PushOpcode OP_PUSHBYTES_0, PushSlice der, PushSlice der',
           PushOpcode OP_PUSHBYTES_0, PushSlice (into_script L lock_ops)]"] simp: assms(1))
qed

end
