(* ===== verification/Bitcoin_Core.thy ===== *)
theory Bitcoin_Core
  imports Rpc_Lib
begin

text \<open>
  \<open>bitcoin/bitcoin_core.rs\<close>: the client of a Bitcoin Core node. Every call posts one JSON-RPC
  request; a transport failure or an unreadable response panics, a refused request, a foreign
  response id and an error of the node are error values.
\<close>

record BitcoinCore =
  btc_node :: BtcNodeSettings
  btc_factory :: RequestFactory

definition bitcoin_core_new :: "BtcNodeSettings \<Rightarrow> RequestFactory \<Rightarrow> BitcoinCore" where
  "bitcoin_core_new settings req_factory = \<lparr>btc_node = settings, btc_factory = req_factory\<rparr>"

definition get_url :: "BitcoinCore \<Rightarrow> string" where
  "get_url core = ''http://'' @ node_url (btc_node core) @ '':'' @ show_nat (unat (node_port (btc_node core)))"

definition btc_rpc :: "BitcoinCore \<Rightarrow> string \<Rightarrow> JsonRpcParam list \<Rightarrow> JsonRpc" where
  "btc_rpc core meth params = json_rpc_new ''1.0'' (node_id (btc_node core)) meth params"

definition get_network_info :: "('z RpcLib_scheme) \<Rightarrow> BitcoinCore \<Rightarrow> (string, NetworkInfoResult) result proc" where
  "get_network_info L core =
     try_bind (rpc_call (btc_node core) (btc_factory core) (get_url core)
                 (btc_rpc core ''getnetworkinfo'' [])) (\<lambda>x.
     pbind (unwrap ''Failed to parse networkinfo Json response''
              (from_str_network_info L (resp_content x))) (\<lambda>parsed.
     if resp_id parsed \<noteq> node_id (btc_node core)
     then Ret (Err ''RPC Request and Response id didn't match!'')
     else case resp_error parsed of
            Some e \<Rightarrow> Ret (Err (err_message e))
          | None \<Rightarrow>
              pbind (unwrap ''GetNetworkInfo result was empty'' (resp_result parsed)) (\<lambda>r.
              Ret (Ok r))))"

definition import_btc_address :: "('z RpcLib_scheme) \<Rightarrow> BitcoinCore \<Rightarrow> Address \<Rightarrow> (string, unit) result proc" where
  "import_btc_address L core addr =
     try_bind (rpc_call (btc_node core) (btc_factory core) (get_url core)
                 (btc_rpc core ''importaddress'' [PString addr, PString '''', PBool False])) (\<lambda>x.
     pbind (unwrap ''Failed to parse import_btc_address response''
              (from_str_unit L (resp_content x))) (\<lambda>parsed.
     if resp_id parsed \<noteq> node_id (btc_node core)
     then Ret (Err ''RPC Request and Response id didn't match'')
     else case resp_error parsed of
            Some e \<Rightarrow> Ret (Err (err_message e))
          | None \<Rightarrow> Ret (Ok ())))"

definition sat_amount :: "f32 \<Rightarrow> u64" where
  "sat_amount amount = f32_as_u64 (f32_mul amount 100000000)"

definition get_address_final_balance :: "('z RpcLib_scheme) \<Rightarrow> BitcoinCore \<Rightarrow> string \<Rightarrow> (string, u64) result proc" where
  "get_address_final_balance L core addr =
     try_bind (rpc_call (btc_node core) (btc_factory core) (get_url core)
                 (btc_rpc core ''listunspent'' [PInt 0, PInt 9999999, PVec [addr]])) (\<lambda>x.
     pbind (unwrap ''Failed to parse listunspent rpc response''
              (from_str_list_unspent L (resp_content x))) (\<lambda>parsed.
     if resp_id parsed \<noteq> node_id (btc_node core)
     then Ret (Err ''RPC Request and Response id didn't match!'')
     else case resp_error parsed of
            Some e \<Rightarrow> Ret (Err (err_message e))
          | None \<Rightarrow>
              pbind (unwrap ''GetAddressFinalBalance Result was empty'' (resp_result parsed)) (\<lambda>utxos.
              Ret (Ok (foldl (\<lambda>balance e. balance + sat_amount (utxo_amount e)) 0 utxos)))))"

definition get_current_block_height :: "('z RpcLib_scheme) \<Rightarrow> BitcoinCore \<Rightarrow> (string, u64) result proc" where
  "get_current_block_height L core =
     try_bind (rpc_call (btc_node core) (btc_factory core) (get_url core)
                 (btc_rpc core ''getblockcount'' [])) (\<lambda>x.
     pbind (unwrap ''serde_json::from_str'' (from_str_block_count L (resp_content x))) (\<lambda>parsed.
     if bc_id parsed \<noteq> node_id (btc_node core)
     then Ret (Err ''RPC Request and Response id mismacht'')
     else case bc_error parsed of
            Some e \<Rightarrow> Ret (Err (err_message e))
          | None \<Rightarrow> Ret (Ok (bc_result parsed))))"

definition get_address_final_balance_addr :: "('z RpcLib_scheme) \<Rightarrow> BitcoinCore \<Rightarrow> Address \<Rightarrow> (string, u64) result proc" where
  "get_address_final_balance_addr L core addr = get_address_final_balance L core addr"

definition send_raw_transaction :: "('z RpcLib_scheme) \<Rightarrow> BitcoinCore \<Rightarrow> BtcTransaction \<Rightarrow> (string, unit) result proc" where
  "send_raw_transaction L core tx =
     try_bind (rpc_call (btc_node core) (btc_factory core) (get_url core)
                 (btc_rpc core ''sendrawtransaction'' [PString (hex_encode L (btx_serialize L tx))])) (\<lambda>x.
     pbind (unwrap ''Failed to parse sendrawtx rpc response''
              (from_str_send_raw_tx L (resp_content x))) (\<lambda>parsed.
     if resp_id parsed \<noteq> node_id (btc_node core)
     then Ret (Err ''RPC Request and Response id didn't match'')
     else case resp_error parsed of
            Some e \<Rightarrow> Ret (Err (err_message e))
          | None \<Rightarrow> Ret (Ok ())))"

section \<open>Every call is one request\<close>

interpretation network_info_rpc: node_rpc "get_network_info L" btc_node btc_factory get_url
  "\<lambda>core. btc_rpc core ''getnetworkinfo'' []" for L :: "'z RpcLib_scheme"
  by (rule node_rpcI, rule get_network_info_def, intro silentI)

interpretation import_rpc: node_rpc "\<lambda>core. import_btc_address L core addr" btc_node btc_factory get_url
  "\<lambda>core. btc_rpc core ''importaddress'' [PString addr, PString '''', PBool False]"
  for L :: "'z RpcLib_scheme" and addr
  by (rule node_rpcI, rule import_btc_address_def, intro silentI)

interpretation balance_rpc: node_rpc "\<lambda>core. get_address_final_balance L core addr" btc_node btc_factory
  get_url "\<lambda>core. btc_rpc core ''listunspent'' [PInt 0, PInt 9999999, PVec [addr]]"
  for L :: "'z RpcLib_scheme" and addr
  by (rule node_rpcI, rule get_address_final_balance_def, intro silentI)

interpretation btc_height_rpc: node_rpc "get_current_block_height L" btc_node btc_factory get_url
  "\<lambda>core. btc_rpc core ''getblockcount'' []" for L :: "'z RpcLib_scheme"
  by (rule node_rpcI, rule get_current_block_height_def, intro silentI)

interpretation send_raw_rpc: node_rpc "\<lambda>core. send_raw_transaction L core tx" btc_node btc_factory
  get_url "\<lambda>core. btc_rpc core ''sendrawtransaction'' [PString (hex_encode L (btx_serialize L tx))]"
  for L :: "'z RpcLib_scheme" and tx
  by (rule node_rpcI, rule send_raw_transaction_def, intro silentI)

section \<open>Balances\<close>

lemma pow2_pos [simp]: "0 < pow2 e"
  by (simp add: pow2_def)

lemma pow2_add: "pow2 (e + int n) = pow2 e * 2 ^ n"
proof (cases "0 \<le> e")
  case True
  then show ?thesis by (simp add: pow2_def nat_add_distrib power_add)
next
  case False
  define m where "m = nat (- e)"
  then have e: "e = - int m" using False by simp
  show ?thesis
  proof (cases "m \<le> n")
    case True
    then have "nat (e + int n) = n - m" "0 \<le> e + int n" using e by auto
    with e False show ?thesis by (simp add: pow2_def power_diff True)
  next
    case F: False
    then have "nat (- (e + int n)) = m - n" using e by auto
    with e False F show ?thesis by (simp add: pow2_def power_diff)
  qed
qed

lemma f32_exponent_from_spec:
  "e \<le> f32_exponent_from n e q \<and>
   (q < pow2 (f32_exponent_from n e q + 24) \<or> f32_exponent_from n e q = e + int n)"
proof (induction n arbitrary: e)
  case (Suc n)
  from Suc [of "e + 1"] show ?case by auto
qed simp

lemma pow2_mono: "a \<le> b \<Longrightarrow> pow2 a \<le> pow2 b"
  using pow2_add [of a "nat (b - a)"] pow2_pos [of a] by simp

lemma f32_exponent_from_eq:
  "e \<le> x \<Longrightarrow> x \<le> e + int n \<Longrightarrow> pow2 (x + 23) \<le> q \<Longrightarrow> q < pow2 (x + 24) \<Longrightarrow>
   f32_exponent_from n e q = x"
proof (induction n arbitrary: e)
  case (Suc n)
  show ?case
  proof (cases "e = x")
    case False
    with Suc.prems(1,3) have "pow2 (e + 24) \<le> q" using pow2_mono [of "e + 24" "x + 23"] by simp
    with False Suc.prems Suc.IH [of "e + 1"] show ?thesis by simp
  qed (use Suc.prems in simp)
qed simp

lemma round_half_even_eq:
  assumes "of_int n - 1 / 2 < q" "q < of_int n + 1 / 2"
  shows "round_half_even q = n"
proof (cases "of_int n \<le> q")
  case True
  with assms(2) have "floor q = n" by (intro floor_unique) simp_all
  with assms(2) show ?thesis by (simp add: round_half_even_def)
next
  case False
  with assms(1) have "floor q = n - 1" by (intro floor_unique) simp_all
  with assms(1) show ?thesis by (simp add: round_half_even_def)
qed

lemma f32_round_eq:
  assumes "- 149 \<le> e" "e \<le> 105" "pow2 (e + 23) \<le> q" "q < pow2 (e + 24)"
    and "of_int n - 1 / 2 < q / pow2 e" "q / pow2 e < of_int n + 1 / 2"
  shows "f32_round q = of_int n * pow2 e"
proof -
  have "f32_exponent q = e" unfolding f32_exponent_def
    by (rule f32_exponent_from_eq) (use assms in simp_all)
  then show ?thesis by (simp add: f32_round_def round_half_even_eq assms(5,6))
qed

lemma round_half_even_le: "q < of_int k \<Longrightarrow> round_half_even q \<le> k"
proof -
  assume "q < of_int k"
  then have "floor q < k" by (simp add: floor_less_iff)
  then show ?thesis by (simp add: round_half_even_def Let_def)
qed

text \<open>A rounded number of at least \<open>2 ^ 24\<close> is an even integer.\<close>

lemma f32_round_large_even:
  assumes "2 ^ 24 \<le> f32_round q"
  shows "\<exists>k :: int. f32_round q = of_int (2 * k)"
proof -
  define e where "e = f32_exponent q"
  define m where "m = round_half_even (q / pow2 e)"
  have r: "f32_round q = of_int m * pow2 e" by (simp add: f32_round_def e_def m_def Let_def)
  have spec: "q < pow2 (e + 24) \<or> e = 105"
    using f32_exponent_from_spec [of "- 149" 254 q] by (auto simp: e_def f32_exponent_def)
  show ?thesis
  proof (cases "0 < e")
    case True
    define n where "n = nat e"
    have "pow2 e = of_int (2 * 2 ^ (n - 1))" "0 < n"
      using True by (simp_all add: pow2_def n_def flip: power_Suc)
    then have "f32_round q = of_int (2 * (m * 2 ^ (n - 1)))" by (simp add: r)
    then show ?thesis by blast
  next
    case False
    with spec have "q < pow2 e * 2 ^ 24" using pow2_add [of e 24] by auto
    then have "q / pow2 e < of_int (2 ^ 24)" by (simp add: divide_less_eq mult.commute)
    then have "m \<le> 2 ^ 24" unfolding m_def by (rule round_half_even_le)
    moreover have "pow2 e \<le> 1" using False by (simp add: pow2_def)
    ultimately have "of_int m * pow2 e \<le> of_int (2 ^ 24) * 1"
      using pow2_pos [of e] by (intro mult_mono) (simp_all only: of_int_le_iff order.strict_implies_order, simp)
    then have "f32_round q \<le> 2 ^ 24" by (simp add: r)
    with assms have "f32_round q = of_int (2 * 2 ^ 23)" by simp
    then show ?thesis by blast
  qed
qed

lemma sat_amount_large_even:
  assumes "2 ^ 24 \<le> unat (sat_amount a)" and "sat_amount a \<noteq> - 1"
  shows "even (unat (sat_amount a))"
proof -
  define q where "q = f32_mul a 100000000"
  have q: "0 < q" "q < 2 ^ 64" "sat_amount a = word_of_int (floor q)"
    using assms by (auto simp: sat_amount_def f32_as_u64_def q_def split: if_splits)
  have fl: "0 \<le> floor q" "floor q < 2 ^ 64" using q(1,2) by (auto simp: floor_less_iff)
  then have u: "unat (sat_amount a) = nat (floor q)"
    by (simp add: q(3) unat_eq_nat_uint uint_word_of_int)
  with assms(1) fl have "2 ^ 24 \<le> floor q" by (simp add: nat_le_iff le_nat_iff)
  then have "2 ^ 24 \<le> q" by (simp add: le_floor_iff)
  then obtain k where "q = of_int (2 * k)"
    using f32_round_large_even [of "a * 100000000"] by (auto simp: q_def f32_mul_def)
  then have "floor q = 2 * k" by (simp only: floor_of_int)
  with u fl(1) show ?thesis by (simp add: even_nat_iff)
qed

section \<open>Properties\<close>

lemma replay_balance_one_utxo:
  assumes "factory_stub (btc_factory core) = None"
    and "from_str_list_unspent L body =
           Some \<lparr>resp_result = Some [u], resp_error = None, resp_id = node_id (btc_node core)\<rparr>"
  shows "replay (get_address_final_balance L core addr)
      [EHttp (get_url core) (btc_rpc core ''listunspent'' [PInt 0, PInt 9999999, PVec [addr]])
         (node_auth (btc_node core)) (Response 200 body)] = (Done (Ok (sat_amount (utxo_amount u))), [])"
  using assms
  by (simp add: get_address_final_balance_def try_bind_def replay_pbind replay_rpc_call is_success_def)

text \<open>
  The reported balance is not exact: amounts are 32 bit floating point numbers, so an address
  with one coin of an odd number of satoshis above \<open>2 ^ 24\<close> is never reported with that balance,
  whatever number the node's answer is read as.
\<close>

theorem balance_misses_odd_amounts:
  assumes "factory_stub (btc_factory core) = None"
    and "from_str_list_unspent L body =
           Some \<lparr>resp_result = Some [u], resp_error = None, resp_id = node_id (btc_node core)\<rparr>"
    and "odd (unat amount)" and "2 ^ 24 < unat amount" and "amount \<le> BTC_MAX_SATS"
  shows "\<exists>balance. replay (get_address_final_balance L core addr)
      [EHttp (get_url core) (btc_rpc core ''listunspent'' [PInt 0, PInt 9999999, PVec [addr]])
         (node_auth (btc_node core)) (Response 200 body)] = (Done (Ok balance), []) \<and>
      balance \<noteq> amount"
proof -
  have "amount \<noteq> - 1" using assms(5) by (auto simp: BTC_MAX_SATS_def word_le_def unsigned_minus_1_eq_mask mask_eq_exp_minus_1)
  with sat_amount_large_even [of "utxo_amount u"] assms(3,4)
  have "sat_amount (utxo_amount u) \<noteq> amount" by fastforce
  with replay_balance_one_utxo [OF assms(1,2)] show ?thesis by simp
qed

text \<open>
  Nor is it exact for small and round amounts: a coin of 0.009 BTC whose amount is read as the
  nearest \<open>f32\<close> counts as one satoshi less, and one of 0.15 BTC as one satoshi more.
\<close>

theorem balance_of_round_amounts_inexact:
  "sat_amount (f32_round (900000 / 100000000)) = 899999 \<and>
   sat_amount (f32_round (15000000 / 100000000)) = 15000001"
proof -
  have r1: "f32_round (900000 / 100000000) = 9663676 / 2 ^ 30"
    by (subst f32_round_eq [of "- 30" _ 9663676]) (simp_all add: pow2_def)
  have r2: "f32_round (9663676 / 2 ^ 30 * 100000000) = 14399999 / 16"
    by (subst f32_round_eq [of "- 4" _ 14399999]) (simp_all add: pow2_def)
  have r3: "f32_round (15000000 / 100000000) = 10066330 / 2 ^ 26"
    by (subst f32_round_eq [of "- 26" _ 10066330]) (simp_all add: pow2_def)
  have r4: "f32_round (10066330 / 2 ^ 26 * 100000000) = 15000001"
    by (subst f32_round_eq [of 0 _ 15000001]) (simp_all add: pow2_def)
  have "floor (14399999 / 16 :: rat) = 899999" by (rule floor_unique) simp_all
  then have "sat_amount (f32_round (900000 / 100000000)) = 899999"
    unfolding sat_amount_def f32_mul_def r1 r2 by (simp add: f32_as_u64_def)
  moreover have "sat_amount (f32_round (15000000 / 100000000)) = 15000001"
    unfolding sat_amount_def f32_mul_def r3 r4 by (simp add: f32_as_u64_def)
  ultimately show ?thesis by simp
qed

end
