(* ===== verification/Slate_Store.thy ===== *)
theory Slate_Store
  imports Grin_Tx Bitcoin_Routines Bitcoin_Core
begin

text \<open>
  \<open>swap/swap_types.rs\<close> and \<open>swap/slate.rs\<close>: the state of a swap, its public and private half, and
  the two files it is kept in. The disk is a map from paths to contents that the functions take
  and return; it never fails (the code panics where it does). \<open>serde_json\<close> at the types of the
  two halves and \<open>sha2\<close> are fields of the library record.
\<close>

section \<open>Data\<close>

record MWPub =
  mw_amount :: u64
  mw_timelock :: u64
  mw_lock_time :: "i64 option"
  mw_swap_type :: SwapType

record MWPriv =
  mw_inputs :: "MWCoin list"
  partial_key :: u64
  shared_coin :: "MWCoin option"
  change_coin :: "MWCoin option"
  refund_coin :: "MWCoin option"
  swapped_coin :: "MWCoin option"
  refund_tx :: "Transaction option"

record BTCPub =
  btc_amount :: u64
  btc_timelock :: u64
  btc_swap_type :: SwapType
  btc_lock_time :: "i64 option"
  pub_a :: "string option"
  pub_b :: "string option"
  pub_x :: "string option"

record BTCPriv =
  btc_inputs :: "BTCInput list"
  btc_witness :: u64
  btc_sk :: "string option"
  btc_x :: "string option"
  btc_r_sk :: "string option"
  btc_change :: "BTCInput option"
  btc_swapped :: "BTCInput option"
  btc_lock :: "BTCInput option"
  btc_refunded :: "BTCInput option"

record Meta =
  meta_server :: string
  meta_port :: string

record SwapSlatePub =
  status :: SwapStatus
  pub_mw :: MWPub
  pub_btc :: BTCPub
  meta :: Meta

record SwapSlatePriv =
  prv_mw :: MWPriv
  prv_btc :: BTCPriv

record SwapSlate =
  swap_id :: u64
  pub_slate :: SwapSlatePub
  prv_slate :: SwapSlatePriv

record SwapLib = MpLib +
  to_string_pretty_pub :: "SwapSlatePub \<Rightarrow> string"
  from_str_pub :: "string \<Rightarrow> SwapSlatePub option"
  to_string_pretty_prv :: "SwapSlatePriv \<Rightarrow> string"
  from_str_prv :: "string \<Rightarrow> SwapSlatePriv option"
  from_str_settings :: "string \<Rightarrow> Settings option"
  sha256 :: "string \<Rightarrow> bytes"

type_synonym disk = "string \<Rightarrow> string option"

section \<open>Files\<close>

definition get_slate_path :: "u64 \<Rightarrow> string \<Rightarrow> bool \<Rightarrow> string" where
  "get_slate_path ident directory public =
     (if public then directory @ ''/'' @ show_u64 ident @ ''.pub.json''
      else directory @ ''/'' @ show_u64 ident @ ''.prv.json'')"

definition create_if_missing :: "string \<Rightarrow> disk \<Rightarrow> disk" where
  "create_if_missing path d = (if d path = None then d(path \<mapsto> []) else d)"

definition write_slate_to_disk ::
  "('z SwapLib_scheme) \<Rightarrow> SwapSlate \<Rightarrow> string \<Rightarrow> bool \<Rightarrow> bool \<Rightarrow> disk \<Rightarrow> disk" where
  "write_slate_to_disk L slate directory wrt_priv wrt_pub d =
     (let pv_slate_path = get_slate_path (swap_id slate) directory False;
          pb_slate_path = get_slate_path (swap_id slate) directory True;
          d = create_if_missing pb_slate_path (create_if_missing pv_slate_path d);
          ser_prv_slate = to_string_pretty_prv L (prv_slate slate);
          ser_pub_slate = to_string_pretty_pub L (pub_slate slate);
          d = (if wrt_priv then d(pv_slate_path \<mapsto> ser_prv_slate) else d)
      in if wrt_pub then d(pb_slate_path \<mapsto> ser_pub_slate) else d)"

definition read_slate_from_disk ::
  "('z SwapLib_scheme) \<Rightarrow> u64 \<Rightarrow> string \<Rightarrow> disk \<Rightarrow> (string, SwapSlate) result proc" where
  "read_slate_from_disk L ident directory d =
     (case (d (get_slate_path ident directory False), d (get_slate_path ident directory True)) of
        (Some prv_contents, Some pub_contents) \<Rightarrow>
          pbind (unwrap ''serde_json::from_str'' (from_str_pub L pub_contents)) (\<lambda>pub.
          pbind (unwrap ''serde_json::from_str'' (from_str_prv L prv_contents)) (\<lambda>prv.
          Ret (Ok \<lparr>swap_id = ident, pub_slate = pub, prv_slate = prv\<rparr>)))
      | _ \<Rightarrow> Ret (Err ''Unable to read slate files, as the files don't exist''))"

definition get_slate_checksum ::
  "('z SwapLib_scheme) \<Rightarrow> u64 \<Rightarrow> string \<Rightarrow> disk \<Rightarrow> (string, string) result" where
  "get_slate_checksum L ident directory d =
     (case d (get_slate_path ident directory True) of
        None \<Rightarrow> Err ''Unable to read slate files, as the files don't exist''
      | Some pub_contents \<Rightarrow> Ok (hex_text (sha256 L pub_contents)))"

text \<open>The private half of a new swap.\<close>

definition empty_priv :: SwapSlatePriv where
  "empty_priv =
     \<lparr>prv_mw = \<lparr>mw_inputs = [], partial_key = 0, shared_coin = None, change_coin = None,
                refund_coin = None, swapped_coin = None, refund_tx = None\<rparr>,
      prv_btc = \<lparr>btc_inputs = [], btc_witness = 0, btc_sk = None, btc_x = None, btc_r_sk = None,
                 btc_change = None, btc_swapped = None, btc_lock = None, btc_refunded = None\<rparr>\<rparr>"

definition create_priv_from_pub ::
  "('z SwapLib_scheme) \<Rightarrow> u64 \<Rightarrow> string \<Rightarrow> disk \<Rightarrow> ((string, SwapSlate) result \<times> disk) proc" where
  "create_priv_from_pub L ident directory d =
     (case d (get_slate_path ident directory True) of
        None \<Rightarrow>
          Ret (Err ''Unable to create private slate file, as the public file doesn't exist'', d)
      | Some pub_contents \<Rightarrow>
          pbind (unwrap ''serde_json::from_str'' (from_str_pub L pub_contents)) (\<lambda>pub.
          let slate = \<lparr>swap_id = ident, pub_slate = pub, prv_slate = empty_priv\<rparr>
          in Ret (Ok slate, write_slate_to_disk L slate directory True False d)))"

section \<open>Documented behaviour the theorems may rely on\<close>

definition swap_json_laws :: "('z SwapLib_scheme) \<Rightarrow> bool" where
  "swap_json_laws L \<longleftrightarrow>
     (\<forall>p. from_str_pub L (to_string_pretty_pub L p) = Some p) \<and>
     (\<forall>p. from_str_prv L (to_string_pretty_prv L p) = Some p)"

section \<open>The store contract\<close>

text \<open>
  What the commands rely on: a swap read after it was written is that swap, and writing one swap
  does not touch another one of the same directory.
\<close>

locale slate_store =
  fixes put :: "SwapSlate \<Rightarrow> disk \<Rightarrow> disk" and get :: "u64 \<Rightarrow> disk \<Rightarrow> SwapSlate option"
    and checksum :: "u64 \<Rightarrow> disk \<Rightarrow> string option" and digest :: "SwapSlatePub \<Rightarrow> string"
    and good :: bool
  assumes get_put: "good \<Longrightarrow> get (swap_id s) (put s d) = Some s"
    and get_put_other: "i \<noteq> swap_id s \<Longrightarrow> get i (put s d) = get i d"
    and checksum_put: "checksum (swap_id s) (put s d) = Some (digest (pub_slate s))"
begin

lemma put_put: "good \<Longrightarrow> get (swap_id s) (put s (put s' d)) = Some s"
  by (rule get_put)

lemma get_puts_other:
  "\<forall>s \<in> set ss. swap_id s \<noteq> i \<Longrightarrow> get i (fold put ss d) = get i d"
  by (induction ss arbitrary: d) (auto simp: get_put_other)

text \<open>Two parties whose stored swaps have equal public halves compute the same checksum, whatever
  is private to each.\<close>

lemma checksum_agrees:
  "pub_slate s = pub_slate s' \<Longrightarrow> checksum (swap_id s) (put s d) = checksum (swap_id s') (put s' d')"
  by (simp add: checksum_put)

end

lemma show_nat_inject [simp]: "show_nat m = show_nat n \<longleftrightarrow> m = n"
  by (metis max.cobounded1 max.cobounded2 option.inject parse_digits_show)

lemma show_u64_inject [simp]: "show_u64 a = show_u64 b \<longleftrightarrow> a = b"
  by (simp add: show_u64_def word_unat_eq_iff)

lemma get_slate_path_inject [simp]:
  "get_slate_path i dir p = get_slate_path j dir q \<longleftrightarrow> i = j \<and> p = q"
  by (auto simp: get_slate_path_def)

text \<open>A path that belongs to another swap keeps its contents.\<close>

lemma write_slate_other:
  "i \<noteq> swap_id s \<Longrightarrow>
   write_slate_to_disk L s dir wp wb d (get_slate_path i dir p) = d (get_slate_path i dir p)"
  by (simp add: write_slate_to_disk_def create_if_missing_def Let_def)

lemma write_slate_own:
  "write_slate_to_disk L s dir True True d (get_slate_path (swap_id s) dir True) =
     Some (to_string_pretty_pub L (pub_slate s))"
  "write_slate_to_disk L s dir True True d (get_slate_path (swap_id s) dir False) =
     Some (to_string_pretty_prv L (prv_slate s))"
  by (simp_all add: write_slate_to_disk_def Let_def)

interpretation swap_store: slate_store
  "\<lambda>s d. write_slate_to_disk L s dir True True d"
  "\<lambda>i d. case proc_value (read_slate_from_disk L i dir d) of Some (Inr s) \<Rightarrow> Some s | _ \<Rightarrow> None"
  "\<lambda>i d. case get_slate_checksum L i dir d of Inr c \<Rightarrow> Some c | Inl _ \<Rightarrow> None"
  "\<lambda>p. hex_text (sha256 L (to_string_pretty_pub L p))"
  "swap_json_laws L" for L :: "'z SwapLib_scheme" and dir
proof unfold_locales
  fix s :: SwapSlate and d :: disk
  assume "swap_json_laws L"
  then show "(case proc_value (read_slate_from_disk L (swap_id s) dir (write_slate_to_disk L s dir True True d))
      of Some (Inr s) \<Rightarrow> Some s | _ \<Rightarrow> None) = Some s"
    by (simp add: read_slate_from_disk_def write_slate_own swap_json_laws_def)
next
  fix i and s :: SwapSlate and d :: disk
  assume i: "i \<noteq> swap_id s"
  show "(case proc_value (read_slate_from_disk L i dir (write_slate_to_disk L s dir True True d))
      of Some (Inr s) \<Rightarrow> Some s | _ \<Rightarrow> None) =
      (case proc_value (read_slate_from_disk L i dir d) of Some (Inr s) \<Rightarrow> Some s | _ \<Rightarrow> None)"
    unfolding read_slate_from_disk_def write_slate_other [OF i] ..
next
  fix s :: SwapSlate and d :: disk
  show "(case get_slate_checksum L (swap_id s) dir (write_slate_to_disk L s dir True True d)
      of Inr c \<Rightarrow> Some c | Inl _ \<Rightarrow> None) = Some (hex_text (sha256 L (to_string_pretty_pub L (pub_slate s))))"
    by (simp add: get_slate_checksum_def write_slate_own)
qed

end
