(* ===== verification/Talk.thy ===== *)
theory Talk
  imports Grin_Tx Bitcoin_Core
begin

text \<open>
  Which parts of a run use the stream: calls of nodes, fresh keys and waiting leave the lines
  written and read as they are. The protocols above the stream are compared line by line, so each
  of their steps is either a message or quiet.
\<close>

named_theorems quietI \<open>introduction rules for computations that do not use the stream\<close>

definition quiet :: "'a proc \<Rightarrow> bool" where
  "quiet p \<longleftrightarrow> (\<forall>es r es'. replay p es = (Done r, es') \<longrightarrow>
     written es = written es' \<and> lines_read es = lines_read es')"

lemma quietD:
  assumes "quiet p" "replay p es = (Done r, es')"
  shows "written es = written es'" "lines_read es = lines_read es'"
  using assms unfolding quiet_def by blast+

lemma quiet_silent [quietI]: "silent p \<Longrightarrow> quiet p"
  by (auto simp: quiet_def run_silent)

lemma quiet_pbind [quietI]: "quiet p \<Longrightarrow> (\<And>x. quiet (f x)) \<Longrightarrow> quiet (pbind p f)"
  unfolding quiet_def run_pbind by metis

lemma quiet_try_bind [quietI]: "quiet p \<Longrightarrow> (\<And>x. quiet (f x)) \<Longrightarrow> quiet (try_bind p f)"
  unfolding try_bind_def by (intro quiet_pbind) (auto intro: quiet_silent split: sum.split)

lemma quiet_if [quietI]: "quiet p \<Longrightarrow> quiet q \<Longrightarrow> quiet (if b then p else q)"
  by simp

lemma quiet_expect [quietI]: "quiet p \<Longrightarrow> quiet (expect_proc m p)"
  unfolding expect_proc_def by (rule quiet_pbind) (auto intro: quiet_silent)

lemma quiet_fresh_key [quietI]: "quiet fresh_key" "quiet create_secret_key"
  by (auto simp: quiet_def run_simps)

lemma quiet_Sleep [quietI]: "quiet p \<Longrightarrow> quiet (Sleep n p)"
  by (auto simp: quiet_def replay.simps split: list.splits event.splits if_splits)

lemma quiet_rpc_call [quietI]: "quiet (rpc_call st fac url rpc)"
  unfolding quiet_def rpc_call_def http_execute_def new_json_rpc_request_def
  by (auto simp: replay.simps split: option.splits list.splits event.splits if_splits http_outcome.splits)

lemma quiet_node_calls [quietI]:
  "quiet (get_current_block_height L bc)" "quiet (import_btc_address L bc addr)"
  "quiet (get_address_final_balance L bc addr')" "quiet (get_address_final_balance_addr L bc addr'')"
  "quiet (send_raw_transaction L bc tx)" "quiet (get_block_height L gc)" "quiet (push_transaction L gc gtx)"
  unfolding get_current_block_height_def import_btc_address_def get_address_final_balance_def
    get_address_final_balance_addr_def send_raw_transaction_def get_block_height_def push_transaction_def
  by (intro quiet_try_bind quiet_rpc_call quiet_silent silentI)+

end
