(* ===== verification/Protocol.thy ===== *)
theory Protocol
  imports Slate_Store Talk
begin

text \<open>
  \<open>swap/protocol.rs\<close>: the phases of a swap. Each takes the swap by mutable reference; here it
  returns the swap together with the phase's \<open>Result\<close>. "MW" is the party that owns the Grin coins
  (Alice), "BTC" the one that owns the bitcoins (Bob).
\<close>

type_synonym phase = "(SwapSlate \<times> (string, unit) result) proc"

text \<open>\<open>?\<close> in a phase: the error ends it, with the swap as it is.\<close>

definition try_phase ::
  "SwapSlate \<Rightarrow> (string, 'a) result proc \<Rightarrow> ('a \<Rightarrow> phase) \<Rightarrow> phase" where
  "try_phase slate p f =
     pbind p (\<lambda>r. case r of Inl e \<Rightarrow> Ret (slate, Err e) | Inr x \<Rightarrow> f x)"

text \<open>Updates of the nested fields of a swap.\<close>

definition upd_btc_pub :: "(BTCPub \<Rightarrow> BTCPub) \<Rightarrow> SwapSlate \<Rightarrow> SwapSlate" where
  "upd_btc_pub f s = s\<lparr>pub_slate := (pub_slate s)\<lparr>pub_btc := f (pub_btc (pub_slate s))\<rparr>\<rparr>"

definition upd_mw_pub :: "(MWPub \<Rightarrow> MWPub) \<Rightarrow> SwapSlate \<Rightarrow> SwapSlate" where
  "upd_mw_pub f s = s\<lparr>pub_slate := (pub_slate s)\<lparr>pub_mw := f (pub_mw (pub_slate s))\<rparr>\<rparr>"

definition upd_btc_prv :: "(BTCPriv \<Rightarrow> BTCPriv) \<Rightarrow> SwapSlate \<Rightarrow> SwapSlate" where
  "upd_btc_prv f s = s\<lparr>prv_slate := (prv_slate s)\<lparr>prv_btc := f (prv_btc (prv_slate s))\<rparr>\<rparr>"

definition upd_mw_prv :: "(MWPriv \<Rightarrow> MWPriv) \<Rightarrow> SwapSlate \<Rightarrow> SwapSlate" where
  "upd_mw_prv f s = s\<lparr>prv_slate := (prv_slate s)\<lparr>prv_mw := f (prv_mw (prv_slate s))\<rparr>\<rparr>"

definition set_status :: "SwapStatus \<Rightarrow> SwapSlate \<Rightarrow> SwapSlate" where
  "set_status st s = s\<lparr>pub_slate := (pub_slate s)\<lparr>status := st\<rparr>\<rparr>"

section \<open>Locking\<close>

text \<open>The loop that waits for the locked bitcoins, by the number of attempts left: a wrong balance
  ends it, a balance of zero or an error of the node is tried again after a minute.\<close>

fun verify_funds :: "('z RpcLib_scheme) \<Rightarrow> BitcoinCore \<Rightarrow> Address \<Rightarrow> u64 \<Rightarrow> nat \<Rightarrow> bool proc" where
  "verify_funds L btc_core addr amount 0 = Ret False"
| "verify_funds L btc_core addr amount (Suc attempts) =
     pbind (get_address_final_balance_addr L btc_core addr) (\<lambda>r.
     let balance = (case r of Inr b \<Rightarrow> b | Inl _ \<Rightarrow> 0)
     in if balance > 0
        then (if balance \<noteq> amount then Ret False else Ret True)
        else Sleep 60 (verify_funds L btc_core addr amount attempts))"

text \<open>The Grin half of Alice's locking phase, from the verified bitcoins on.\<close>

definition lock_mw_grin ::
  "('z SwapLib_scheme) \<Rightarrow> SwapSlate \<Rightarrow> GrinCore \<Rightarrow> phase" where
  "lock_mw_grin L slate grin_core =
     pbind (expect_proc ''get_block_height'' (get_block_height L grin_core)) (\<lambda>grin_height.
     let grin_lock_height = grin_height + mw_timelock (pub_mw (pub_slate slate))
     in pbind (unwrap ''i64::try_from'' (i64_try_from grin_lock_height)) (\<lambda>lt.
     let slate = upd_mw_pub (\<lambda>m. m\<lparr>mw_lock_time := Some lt\<rparr>) slate
     in pbind (send_msg (show_u64 grin_lock_height)) (\<lambda>_.
     try_phase slate (dshared_out_mw_tx_alice L (mw_inputs (prv_mw (prv_slate slate)))
                        (mw_amount (pub_mw (pub_slate slate))) 0) (\<lambda>shared_out.
     let slate = upd_mw_prv (\<lambda>m. m\<lparr>shared_coin := Some (ds_shared_coin shared_out),
                                    change_coin := ds_change_coin shared_out\<rparr>) slate
     in pbind (unwrap ''change_coin'' (change_coin (prv_mw (prv_slate slate)))) (\<lambda>_.
     let fee = estimate_fees L 1 1 1;
         fund_value = mw_value (ds_shared_coin shared_out) - fee
     in try_phase slate (dshared_inp_mw_tx_bob L (ds_shared_coin shared_out) fund_value
                           grin_lock_height) (\<lambda>refund.
     let slate = upd_mw_prv (\<lambda>m. m\<lparr>refund_coin := db_coin refund,
                                    refund_tx := slate_tx (db_tx refund)\<rparr>) slate
     in pbind (unwrap ''tx'' (slate_tx (ds_tx shared_out))) (\<lambda>tx.
     try_phase slate (push_transaction L grin_core tx) (\<lambda>_.
     Ret (slate, Ok ())))))))))"

definition locking_phase_swap_mw ::
  "('z SwapLib_scheme) \<Rightarrow> SwapSlate \<Rightarrow> GrinCore \<Rightarrow> BitcoinCore \<Rightarrow> phase" where
  "locking_phase_swap_mw L slate grin_core btc_core =
     (let slate = set_status SETUP slate
      in pbind create_private_key (\<lambda>sk_a.
      let pka = public_key L sk_a;
          slate = upd_btc_prv (\<lambda>b. b\<lparr>btc_sk := Some (serialize_priv_key L sk_a)\<rparr>) slate;
          slate = upd_btc_pub (\<lambda>b. b\<lparr>pub_a := Some (serialize_pub_key L pka)\<rparr>) slate
      in pbind (send_msg (serialize_pub_key L pka)) (\<lambda>_.
      pbind receive_msg (\<lambda>msg_bob.
      pbind (deserialize_pub_key L msg_bob) (\<lambda>pkb.
      let slate = upd_btc_pub (\<lambda>b. b\<lparr>pub_b := Some (serialize_pub_key L pkb)\<rparr>) slate
      in pbind receive_msg (\<lambda>msg_bob.
      pbind (deserialize_pub_key L msg_bob) (\<lambda>pkx.
      let slate = upd_btc_pub (\<lambda>b. b\<lparr>pub_x := Some (serialize_pub_key L pkx)\<rparr>) slate
      in pbind receive_msg (\<lambda>msg_bob.
      pbind (unwrap ''parse::<i64>'' (parse_i64 msg_bob)) (\<lambda>lock_time_btc.
      let slate = upd_btc_pub (\<lambda>b. b\<lparr>btc_lock_time := Some lock_time_btc\<rparr>) slate;
          pub_script = get_lock_pub_script L pka pkx pkb lock_time_btc True
      in pbind (unwrap ''Address::from_script'' (address_from_script L pub_script Testnet)) (\<lambda>addr.
      pbind (expect_proc ''import_btc_address'' (import_btc_address L btc_core addr)) (\<lambda>_.
      pbind receive_msg (\<lambda>address.
      pbind receive_msg (\<lambda>txid.
      if addr \<noteq> address
      then Ret (set_status FAILED slate,
                Err ''Lock address sent by Bob doesn't match what we have calculated, stopping swap'')
      else
        pbind (verify_funds L btc_core addr (btc_amount (pub_btc (pub_slate slate)))
                 MAX_ATTEMPTS_VERF_FUNDS) (\<lambda>verified_funds.
        if \<not> verified_funds
        then Ret (set_status FAILED slate, Err ''Failed to verify that btc funds are correctly locked'')
        else
          let slate = upd_btc_prv (\<lambda>b. b\<lparr>btc_lock := Some (btc_input_new2 L txid 0
                        (btc_amount (pub_btc (pub_slate slate))) sk_a pka pub_script)\<rparr>) slate
          in lock_mw_grin L slate grin_core))))))))))))))"

text \<open>The Grin half of Bob's locking phase, from Alice's lock height on.\<close>

definition lock_btc_grin :: "('z SwapLib_scheme) \<Rightarrow> SwapSlate \<Rightarrow> phase" where
  "lock_btc_grin L slate =
     pbind receive_msg (\<lambda>msg_alice.
     pbind (unwrap ''parse::<i64>'' (parse_i64 msg_alice)) (\<lambda>lock_height_grin.
     let slate = upd_mw_pub (\<lambda>m. m\<lparr>mw_lock_time := Some lock_height_grin\<rparr>) slate
     in try_phase slate (dshared_out_mw_tx_bob L (mw_amount (pub_mw (pub_slate slate)))) (\<lambda>shared_out.
     let slate = upd_mw_prv (\<lambda>m. m\<lparr>shared_coin := Some (ds_shared_coin shared_out)\<rparr>) slate;
         fee = estimate_fees L 1 1 1;
         fund_value = mw_value (ds_shared_coin shared_out) - fee
     in pbind (unwrap ''u64::try_from'' (u64_try_from lock_height_grin)) (\<lambda>tl.
     try_phase slate (dshared_inp_mw_tx_alice L (ds_shared_coin shared_out) fund_value tl) (\<lambda>_.
     Ret (slate, Ok ()))))))"

definition locking_phase_swap_btc ::
  "('z SwapLib_scheme) \<Rightarrow> SwapSlate \<Rightarrow> BitcoinCore \<Rightarrow> phase" where
  "locking_phase_swap_btc L slate btc_core =
     (let slate = set_status SETUP slate
      in pbind create_private_key (\<lambda>sk_b.
      let pkb = public_key L sk_b;
          slate = upd_btc_pub (\<lambda>b. b\<lparr>pub_b := Some (serialize_pub_key L pkb)\<rparr>) slate;
          slate = upd_btc_prv (\<lambda>b. b\<lparr>btc_sk := Some (serialize_priv_key L sk_b)\<rparr>) slate
      in pbind create_private_key (\<lambda>sk_r.
      let pkr = public_key L sk_r;
          slate = upd_btc_prv (\<lambda>b. b\<lparr>btc_r_sk := Some (serialize_priv_key L sk_r)\<rparr>) slate
      in pbind create_private_key (\<lambda>x.
      let pkx = public_key L x;
          slate = upd_btc_prv (\<lambda>b. b\<lparr>btc_x := Some (serialize_priv_key L x)\<rparr>) slate;
          slate = upd_btc_pub (\<lambda>b. b\<lparr>pub_x := Some (serialize_pub_key L pkx)\<rparr>) slate
      in pbind receive_msg (\<lambda>msg_alice.
      pbind (deserialize_pub_key L msg_alice) (\<lambda>pka.
      let slate = upd_btc_pub (\<lambda>b. b\<lparr>pub_a := Some (serialize_pub_key L pka)\<rparr>) slate
      in pbind (send_msg (serialize_pub_key L pkb)) (\<lambda>_.
      pbind (send_msg (serialize_pub_key L pkx)) (\<lambda>_.
      try_phase slate (get_current_block_height L btc_core) (\<lambda>btc_current_height.
      let inputs = btc_inputs (prv_btc (prv_slate slate));
          amount = btc_amount (pub_btc (pub_slate slate))
      in pbind (unwrap ''i64::try_from''
                  (i64_try_from (btc_current_height + btc_timelock (pub_btc (pub_slate slate)))))
           (\<lambda>btc_lock_height.
      pbind (send_msg (show_i64 btc_lock_height)) (\<lambda>_.
      let slate = upd_btc_pub (\<lambda>b. b\<lparr>btc_lock_time := Some btc_lock_height\<rparr>) slate
      in try_phase slate (create_lock_transaction L pka pkx pkb pkr inputs amount BTC_FEE btc_lock_height)
           (\<lambda>tx_lock.
      pbind (unwrap ''output.get(0)'' (list_get (btx_output tx_lock) 0)) (\<lambda>lock_out.
      let pub_script = script_pubkey lock_out
      in pbind (unwrap ''output.get(1)'' (list_get (btx_output tx_lock) 1)) (\<lambda>ch_out.
      pbind (unwrap ''Address::from_script'' (address_from_script L pub_script Testnet)) (\<lambda>address.
      pbind (unwrap ''inputs.get(0)'' (list_get inputs 0)) (\<lambda>inp.
      pbind (deserialize_script L (bi_pub_script inp)) (\<lambda>inp_pub_script.
      pbind (deserialize_priv_key L (bi_secret inp)) (\<lambda>inp_sk.
      let inp_pk = public_key L inp_sk
      in pbind (sign_p2pkh_transaction L tx_lock [inp_pub_script] [inp_sk] [inp_pk]) (\<lambda>signed_tx.
      let txid = txid_to_string L (tx_txid L signed_tx)
      in try_phase slate (send_raw_transaction L btc_core signed_tx) (\<lambda>_.
      let change = btc_input_new2 L txid 1 (txo_value ch_out) sk_r pkr (script_pubkey ch_out);
          slate = upd_btc_prv (\<lambda>b. b\<lparr>btc_change := Some change\<rparr>) slate
      in pbind (send_msg address) (\<lambda>_.
      pbind (send_msg txid) (\<lambda>_.
      let slate = upd_btc_prv (\<lambda>b. b\<lparr>btc_lock := Some (btc_input_new2 L txid 0 amount sk_b pkb pub_script)\<rparr>)
                    slate
      in lock_btc_grin L slate))))))))))))))))))))))"

section \<open>Executing\<close>

text \<open>\<open>60 / GRIN_BLOCK_TIME\<close> and \<open>60 / BTC_BLOCK_TIME\<close> are divisions of \<open>u64\<close>.\<close>

definition swap_heights ::
  "('z RpcLib_scheme) \<Rightarrow> GrinCore \<Rightarrow> BitcoinCore \<Rightarrow> SwapSlate \<Rightarrow> (i64 \<times> i64 \<times> u64 \<times> u64) proc" where
  "swap_heights L grin_core btc_core slate =
     pbind (unwrap ''mw.lock_time'' (mw_lock_time (pub_mw (pub_slate slate)))) (\<lambda>locktime_grin.
     pbind (unwrap ''btc.lock_time'' (btc_lock_time (pub_btc (pub_slate slate)))) (\<lambda>locktime_btc.
     pbind (expect_proc ''get_block_height'' (get_block_height L grin_core)) (\<lambda>block_height_grin.
     pbind (expect_proc ''get_current_block_height'' (get_current_block_height L btc_core)) (\<lambda>block_height_btc.
     Ret (locktime_grin, locktime_btc, block_height_grin, block_height_btc)))))"

definition check_if_enough_time ::
  "('z RpcLib_scheme) \<Rightarrow> GrinCore \<Rightarrow> BitcoinCore \<Rightarrow> SwapSlate \<Rightarrow> bool proc" where
  "check_if_enough_time L grin_core btc_core slate =
     pbind (swap_heights L grin_core btc_core slate)
       (\<lambda>(locktime_grin, locktime_btc, block_height_grin, block_height_btc).
     pbind (unwrap ''u64::try_from'' (u64_try_from locktime_grin)) (\<lambda>lg.
     if block_height_grin + 60 div GRIN_BLOCK_TIME \<le> lg
     then pbind (unwrap ''u64::try_from'' (u64_try_from locktime_btc)) (\<lambda>lb.
          Ret (block_height_btc + 60 div BTC_BLOCK_TIME \<le> lb))
     else Ret False))"

definition can_refund ::
  "('z RpcLib_scheme) \<Rightarrow> GrinCore \<Rightarrow> BitcoinCore \<Rightarrow> SwapSlate \<Rightarrow> bool proc" where
  "can_refund L grin_core btc_core slate =
     pbind (swap_heights L grin_core btc_core slate)
       (\<lambda>(locktime_grin, locktime_btc, block_height_grin, block_height_btc).
     pbind (unwrap ''u64::try_from'' (u64_try_from locktime_grin)) (\<lambda>lg.
     if block_height_grin > lg
     then pbind (unwrap ''u64::try_from'' (u64_try_from locktime_btc)) (\<lambda>lb.
          Ret (block_height_btc > lb))
     else Ret False))"

definition exec_phase_swap_mw ::
  "('z SwapLib_scheme) \<Rightarrow> SwapSlate \<Rightarrow> BitcoinCore \<Rightarrow> GrinCore \<Rightarrow> phase" where
  "exec_phase_swap_mw L slate btc_core grin_core =
     pbind (check_if_enough_time L grin_core btc_core slate) (\<lambda>enough.
     if \<not> enough then Ret (slate, Err ''Not enough time left to execute atomic swap'')
     else
       let slate = set_status EXECUTING slate
       in pbind (unwrap ''shared_coin'' (shared_coin (prv_mw (prv_slate slate)))) (\<lambda>coin.
       pbind (unwrap ''pub_x'' (pub_x (pub_btc (pub_slate slate)))) (\<lambda>pub_x_str.
       pbind (deserialize_pub_key L pub_x_str) (\<lambda>pkx.
       pbind (grin_pk_from_btc_pk L pkx) (\<lambda>pub_x_grin.
       let fee = estimate_fees L 1 1 1;
           fund_value = mw_value coin - fee
       in try_phase slate (dcontract_mw_tx_alice L coin fund_value 0 pub_x_grin) (\<lambda>result.
       pbind create_private_key (\<lambda>sk_a2.
       let pub_a2 = public_key L sk_a2
       in pbind (unwrap ''pub_a'' (pub_a (pub_btc (pub_slate slate)))) (\<lambda>pub_a_str.
       pbind (deserialize_pub_key L pub_a_str) (\<lambda>pka.
       pbind (unwrap ''pub_b'' (pub_b (pub_btc (pub_slate slate)))) (\<lambda>pub_b_str.
       pbind (deserialize_pub_key L pub_b_str) (\<lambda>pkb.
       pbind (private_key_from_grin_sk L (cm_x result)) (\<lambda>x_btc.
       pbind (unwrap ''btc.sk'' (btc_sk (prv_btc (prv_slate slate)))) (\<lambda>sk_str.
       pbind (deserialize_priv_key L sk_str) (\<lambda>sk_a.
       pbind (unwrap ''btc.lock'' (btc_lock (prv_btc (prv_slate slate)))) (\<lambda>lock.
       try_phase slate (create_spend_lock_transaction L pub_a2 lock
                          (btc_amount (pub_btc (pub_slate slate))) BTC_FEE 0) (\<lambda>redeem_tx.
       pbind (unwrap ''btc.lock_time'' (btc_lock_time (pub_btc (pub_slate slate)))) (\<lambda>lock_time.
       let lock_script = get_lock_pub_script L pka pkx pkb lock_time False
       in pbind (sign_lock_transaction_redeemer L redeem_tx 0 lock_script sk_a x_btc) (\<lambda>signed_redeem_tx.
       pbind (unwrap ''output.get(0)'' (list_get (btx_output signed_redeem_tx) 0)) (\<lambda>out.
       let txid = txid_to_string L (tx_txid L signed_redeem_tx)
       in try_phase slate (send_raw_transaction L btc_core signed_redeem_tx) (\<lambda>_.
       let slate = upd_btc_prv (\<lambda>b. b\<lparr>btc_swapped := Some (btc_input_new2 L txid 0 (txo_value out)
                     sk_a2 pub_a2 (script_pubkey out))\<rparr>) slate;
           slate = set_status FINISHED slate
       in Ret (slate, Ok ())))))))))))))))))))))"

definition exec_phase_swap_btc ::
  "('z SwapLib_scheme) \<Rightarrow> SwapSlate \<Rightarrow> BitcoinCore \<Rightarrow> GrinCore \<Rightarrow> phase" where
  "exec_phase_swap_btc L slate btc_core grin_core =
     pbind (check_if_enough_time L grin_core btc_core slate) (\<lambda>enough.
     if \<not> enough then Ret (slate, Err ''Not enough time left to execute atomic swap'')
     else
       let slate = set_status EXECUTING slate
       in pbind (unwrap ''shared_coin'' (shared_coin (prv_mw (prv_slate slate)))) (\<lambda>coin.
       pbind (unwrap ''btc.x'' (btc_x (prv_btc (prv_slate slate)))) (\<lambda>x_str.
       pbind (deserialize_priv_key L x_str) (\<lambda>x.
       pbind (grin_sk_from_btc_sk L x) (\<lambda>x_grin.
       let fee = estimate_fees L 1 1 1;
           fund_value = mw_value coin - fee
       in try_phase slate (dcontract_mw_tx_bob L coin fund_value 0 x_grin) (\<lambda>result.
       let slate = upd_mw_prv (\<lambda>m. m\<lparr>swapped_coin := cm_coin result\<rparr>) slate
       in pbind (unwrap ''tx'' (slate_tx (cm_tx result))) (\<lambda>tx.
       try_phase slate (push_transaction L grin_core tx) (\<lambda>_.
       Ret (set_status FINISHED slate, Ok ())))))))))"

section \<open>Refunding\<close>

definition refund_phase_swap_mw ::
  "('z SwapLib_scheme) \<Rightarrow> SwapSlate \<Rightarrow> BitcoinCore \<Rightarrow> GrinCore \<Rightarrow> phase" where
  "refund_phase_swap_mw L slate btc_core grin_core =
     pbind (can_refund L grin_core btc_core slate) (\<lambda>ok.
     if \<not> ok then Ret (slate, Err ''Can't refund yet, too early'')
     else
       pbind (unwrap ''refund_tx'' (refund_tx (prv_mw (prv_slate slate)))) (\<lambda>tx.
       try_phase slate (push_transaction L grin_core tx) (\<lambda>_.
       Ret (set_status FAILED slate, Ok ()))))"

definition refund_phase_swap_btc ::
  "('z SwapLib_scheme) \<Rightarrow> SwapSlate \<Rightarrow> BitcoinCore \<Rightarrow> GrinCore \<Rightarrow> phase" where
  "refund_phase_swap_btc L slate btc_core grin_core =
     pbind (can_refund L grin_core btc_core slate) (\<lambda>ok.
     if \<not> ok then Ret (slate, Err ''Can't refund yet, too early'')
     else
       pbind create_private_key (\<lambda>sk.
       let pk = public_key L sk
       in pbind (unwrap ''pub_a'' (pub_a (pub_btc (pub_slate slate)))) (\<lambda>pub_a_str.
       pbind (deserialize_pub_key L pub_a_str) (\<lambda>pka.
       pbind (unwrap ''btc.sk'' (btc_sk (prv_btc (prv_slate slate)))) (\<lambda>sk_str.
       pbind (deserialize_priv_key L sk_str) (\<lambda>sk_b.
       pbind (unwrap ''btc.x'' (btc_x (prv_btc (prv_slate slate)))) (\<lambda>x_str.
       pbind (deserialize_priv_key L x_str) (\<lambda>x.
       let pkb = public_key L sk_b;
           pkx = public_key L x
       in pbind (unwrap ''btc.lock_time'' (btc_lock_time (pub_btc (pub_slate slate)))) (\<lambda>lock_time.
       pbind (unwrap ''btc.lock'' (btc_lock (prv_btc (prv_slate slate)))) (\<lambda>lock.
       pbind (unwrap ''u32::try_from'' (u32_try_from lock_time)) (\<lambda>lock_time_u32.
       try_phase slate (create_spend_lock_transaction L pk lock
                          (btc_amount (pub_btc (pub_slate slate))) BTC_FEE lock_time_u32) (\<lambda>tx.
       let lock_script = get_lock_pub_script L pka pkx pkb lock_time False
       in pbind (sign_lock_transaction_refund L tx 0 lock_script sk_b) (\<lambda>signed_tx.
       try_phase slate (send_raw_transaction L btc_core signed_tx) (\<lambda>_.
       pbind (unwrap ''output.get(0)'' (list_get (btx_output signed_tx) 0)) (\<lambda>out.
       let slate = upd_btc_prv (\<lambda>b. b\<lparr>btc_refunded :=
                     Some \<lparr>bi_txid = txid_to_string L (tx_txid L signed_tx), bi_vout = 0,
                           bi_value = txo_value out, bi_secret = serialize_priv_key L sk,
                           bi_pub_key = serialize_pub_key L pk,
                           bi_pub_script = serialize_script L (script_pubkey out)\<rparr>\<rparr>) slate
       in Ret (set_status FAILED slate, Ok ()))))))))))))))))"

section \<open>Runs of the phases\<close>

lemma run_try_phase_Ok [run_simps]:
  "replay (try_phase s p f) es = (Done (s', Inr u), es') \<longleftrightarrow>
   (\<exists>x es1. replay p es = (Done (Inr x), es1) \<and> replay (f x) es1 = (Done (s', Inr u), es'))"
  unfolding try_phase_def run_pbind by (auto simp: run_simps split: sum.splits) (metis obj_sumE)

lemma run_create_private_key [run_simps]:
  "replay create_private_key es = (Done sk, es') \<longleftrightarrow>
   (\<exists>k. es = EKey k # es' \<and> sk = \<lparr>pk_compressed = True, pk_network = Testnet, pk_key = k\<rparr>)"
  by (auto simp: create_private_key_def run_simps TEST_NET_def Let_def)

lemma run_deserialize [run_simps]:
  "replay (deserialize_pub_key L m) es = (Done pk, es') \<longleftrightarrow> btc_pk_from_str L m = Some pk \<and> es' = es"
  "replay (deserialize_priv_key L m) es = (Done sk, es') \<longleftrightarrow> from_wif L m = Some sk \<and> es' = es"
  "replay (deserialize_script L m) es = (Done scr, es') \<longleftrightarrow> hex_decode L m = Some scr \<and> es' = es"
  by (simp_all add: deserialize_pub_key_def deserialize_priv_key_def deserialize_script_def run_simps)

lemma silent_btc_tx [silentI]:
  "silent (create_lock_transaction L a b c d inputs amount fee t)"
  "silent (create_spend_lock_transaction L pk inp amount fee lt)"
  "silent (sign_p2pkh_transaction L tx scr sks pks)"
  unfolding create_lock_transaction_def create_spend_lock_transaction_def sign_p2pkh_transaction_def Let_def
  by (intro silentI)+

lemmas btc_tx_runs [run_simps] = silent_btc_tx [THEN run_silent]

lemma pub_slate_upd [simp]:
  "pub_slate (upd_btc_prv f s) = pub_slate s" "pub_slate (upd_mw_prv g s) = pub_slate s"
  "pub_slate (upd_btc_pub h s) = (pub_slate s)\<lparr>pub_btc := h (pub_btc (pub_slate s))\<rparr>"
  "pub_slate (upd_mw_pub k s) = (pub_slate s)\<lparr>pub_mw := k (pub_mw (pub_slate s))\<rparr>"
  "pub_slate (set_status st s) = (pub_slate s)\<lparr>status := st\<rparr>"
  by (simp_all add: upd_btc_prv_def upd_mw_prv_def upd_btc_pub_def upd_mw_pub_def set_status_def)

abbreviation line :: "string \<Rightarrow> string" where "line m \<equiv> m @ [newline]"

definition msg_of :: "string \<Rightarrow> string" where
  "msg_of a = string_truncate (usize_pred (length a)) a"

lemma msg_of_line [simp]: "msg_of (line m) = m"
  by (simp add: msg_of_def)

end
