(* ===== verification/Locking.thy ===== *)
theory Locking
  imports Protocol
begin

text \<open>
  Runs of the locking phase of \<open>swap/protocol.rs\<close>: what each party has written, read and broadcast
  when its run succeeds, and what both parties agree on when each has read what the other wrote.
\<close>

section \<open>Broadcasts\<close>

definition raw_tx_request :: "('z RpcLib_scheme) \<Rightarrow> BitcoinCore \<Rightarrow> BtcTransaction \<Rightarrow> string \<times> JsonRpc" where
  "raw_tx_request L bc tx =
     (get_url bc, btc_rpc bc ''sendrawtransaction'' [PString (hex_encode L (btx_serialize L tx))])"

lemma sent_raw_tx:
  assumes "factory_stub (btc_factory bc) = None" "replay (send_raw_transaction L bc tx) es = (Done r, es')"
  shows "raw_tx_request L bc tx \<in> set (requests es)"
  using send_raw_rpc.replay_call_requests [OF assms] by (simp add: raw_tx_request_def)

lemma requests_suffix: "replay p es = (r, es') \<Longrightarrow> set (requests es') \<subseteq> set (requests es)"
  using replay_suffix by (metis requests_append set_append suffix_def sup.cobounded2)

abbreviation sk_of :: "bytes \<Rightarrow> PrivateKey" where
  "sk_of k \<equiv> \<lparr>pk_compressed = True, pk_network = Testnet, pk_key = k\<rparr>"

lemma prv_btc_upd [simp]:
  "prv_btc (prv_slate (upd_btc_prv f s)) = f (prv_btc (prv_slate s))"
  "prv_btc (prv_slate (upd_mw_prv g s)) = prv_btc (prv_slate s)"
  "prv_slate (upd_btc_pub h s) = prv_slate s" "prv_slate (upd_mw_pub k s) = prv_slate s"
  "prv_slate (set_status st s) = prv_slate s"
  by (simp_all add: upd_btc_prv_def upd_mw_prv_def upd_btc_pub_def upd_mw_pub_def set_status_def)

section \<open>Runs of the locking phase\<close>

lemma lock_mw_grin_Ok:
  assumes "replay (lock_mw_grin L slate gc) es = (Done (s', Ok u), es')"
  obtains h a W where
    "i64_try_from (h + mw_timelock (pub_mw (pub_slate slate))) \<noteq> None"
    "written es = line (show_u64 (h + mw_timelock (pub_mw (pub_slate slate)))) # W"
    "pub_slate s' = (pub_slate slate)\<lparr>pub_mw := (pub_mw (pub_slate slate))\<lparr>mw_lock_time :=
       i64_try_from (h + mw_timelock (pub_mw (pub_slate slate)))\<rparr>\<rparr>"
    "\<exists>R. lines_read es = a # R" "prv_btc (prv_slate s') = prv_btc (prv_slate slate)"
proof -
  from assms obtain h es1 a es2 lt where
    h: "replay (get_block_height L gc) es = (Done (Ok h), es1)"
      "i64_try_from (h + mw_timelock (pub_mw (pub_slate slate))) = Some lt"
      "es1 = EWrite (line (show_u64 (h + mw_timelock (pub_mw (pub_slate slate))))) (Ok ()) # ERead (Ok a) # es2"
      "pub_slate s' = (pub_slate slate)\<lparr>pub_mw := (pub_mw (pub_slate slate))\<lparr>mw_lock_time := Some lt\<rparr>\<rparr>"
      "prv_btc (prv_slate s') = prv_btc (prv_slate slate)"
    unfolding lock_mw_grin_def Let_def
    by (simp only: run_simps) (auto simp: run_simps)
  note q = quietD [OF quiet_node_calls(6) h(1)]
  show thesis
    by (rule that [of h "written es2" a]) (use h q in simp_all)
qed

lemma lock_btc_grin_Ok:
  assumes "replay (lock_btc_grin L slate) es = (Done (s', Ok u), es')"
  obtains m lt R W where
    "parse_i64 (msg_of m) = Some lt"
    "lines_read es = m # R" "written es = line ''ACK'' # W"
    "pub_slate s' = (pub_slate slate)\<lparr>pub_mw := (pub_mw (pub_slate slate))\<lparr>mw_lock_time := Some lt\<rparr>\<rparr>"
    "prv_btc (prv_slate s') = prv_btc (prv_slate slate)"
proof -
  from assms obtain m lt es1 where
    h: "es = ERead (Ok m) # EWrite (line ''ACK'') (Ok ()) # es1" "parse_i64 (msg_of m) = Some lt"
      "pub_slate s' = (pub_slate slate)\<lparr>pub_mw := (pub_mw (pub_slate slate))\<lparr>mw_lock_time := Some lt\<rparr>\<rparr>"
      "prv_btc (prv_slate s') = prv_btc (prv_slate slate)"
    unfolding lock_btc_grin_def Let_def msg_of_def
    by (simp only: run_simps) (auto simp: run_simps)
  show thesis by (rule that [of m lt "lines_read es1" "written es1"]) (use h in simp_all)
qed

lemma quiet_verify_funds: "quiet (verify_funds L bc addr amount n)"
proof (induction n)
  case (Suc n)
  show ?case
    unfolding verify_funds.simps Let_def
    by (intro quiet_pbind quiet_node_calls quiet_if quiet_Sleep Suc) (auto intro: quiet_silent)
qed (simp add: quiet_silent)

lemma locking_phase_swap_mw_Ok:
  assumes "replay (locking_phase_swap_mw L slate gc bc) es = (Done (s', Ok u), es')"
  obtains ka a0 m1 m2 m3 ad tx a6 pkb pkx lt h W R addr e0 es1 e1 es2 es3 where
    "EKey ka \<in> set es"
    "btc_pk_from_str L (msg_of m1) = Some pkb" "btc_pk_from_str L (msg_of m2) = Some pkx"
    "parse_i64 (msg_of m3) = Some lt"
    "lines_read es = a0 # m1 # m2 # m3 # ad # tx # a6 # R"
    "written es = line (btc_pk_to_string L (public_key L (sk_of ka))) #
       line ''ACK'' # line ''ACK'' # line ''ACK'' # line ''ACK'' # line ''ACK'' # line (show_u64 h) # W"
    "i64_try_from h \<noteq> None"
    "pub_slate s' = (pub_slate slate)\<lparr>status := SETUP,
       pub_btc := (pub_btc (pub_slate slate))\<lparr>btc_lock_time := Some lt,
          pub_a := Some (btc_pk_to_string L (public_key L (sk_of ka))),
          pub_b := Some (btc_pk_to_string L pkb), pub_x := Some (btc_pk_to_string L pkx)\<rparr>,
       pub_mw := (pub_mw (pub_slate slate))\<lparr>mw_lock_time := i64_try_from h\<rparr>\<rparr>"
    "prv_btc (prv_slate s') = (prv_btc (prv_slate slate))\<lparr>btc_sk := Some (to_wif L (sk_of ka)),
       btc_lock := Some (btc_input_new2 L (msg_of tx) 0 (btc_amount (pub_btc (pub_slate slate))) (sk_of ka)
         (public_key L (sk_of ka)) (get_lock_pub_script L (public_key L (sk_of ka)) pkx pkb lt True))\<rparr>"
    "address_from_script L (get_lock_pub_script L (public_key L (sk_of ka)) pkx pkb lt True) Testnet = Some addr"
    "es = e0 @ es1" "requests e0 = []" "replay (import_btc_address L bc addr) es1 = (Done (Ok ()), e1 @ es2)"
    "requests e1 = []"
    "replay (verify_funds L bc addr (btc_amount (pub_btc (pub_slate slate))) MAX_ATTEMPTS_VERF_FUNDS) es2 = (Done True, es3)"
proof -
  from assms obtain ka a0 m1 m2 m3 ad tx pkb pkx lt addr es1 es2 es3 s1 where
    r: "es = EKey ka # EWrite (line (btc_pk_to_string L (public_key L (sk_of ka)))) (Ok ()) # ERead (Ok a0) #
         ERead (Ok m1) # EWrite (line ''ACK'') (Ok ()) # ERead (Ok m2) # EWrite (line ''ACK'') (Ok ()) #
         ERead (Ok m3) # EWrite (line ''ACK'') (Ok ()) # es1"
      "btc_pk_from_str L (msg_of m1) = Some pkb" "btc_pk_from_str L (msg_of m2) = Some pkx"
      "parse_i64 (msg_of m3) = Some lt"
      "replay (import_btc_address L bc addr) es1 = (Done (Ok ()),
         ERead (Ok ad) # EWrite (line ''ACK'') (Ok ()) # ERead (Ok tx) # EWrite (line ''ACK'') (Ok ()) # es2)"
      "replay (verify_funds L bc addr (btc_amount (pub_btc (pub_slate slate))) MAX_ATTEMPTS_VERF_FUNDS) es2 = (Done True, es3)"
      "replay (lock_mw_grin L s1 gc) es3 = (Done (s', Ok u), es')"
      "pub_slate s1 = (pub_slate slate)\<lparr>status := SETUP,
         pub_btc := (pub_btc (pub_slate slate))\<lparr>btc_lock_time := Some lt,
          pub_a := Some (btc_pk_to_string L (public_key L (sk_of ka))),
          pub_b := Some (btc_pk_to_string L pkb), pub_x := Some (btc_pk_to_string L pkx)\<rparr>\<rparr>"
      "prv_btc (prv_slate s1) = (prv_btc (prv_slate slate))\<lparr>btc_sk := Some (to_wif L (sk_of ka)),
       btc_lock := Some (btc_input_new2 L (msg_of tx) 0 (btc_amount (pub_btc (pub_slate slate))) (sk_of ka)
         (public_key L (sk_of ka)) (get_lock_pub_script L (public_key L (sk_of ka)) pkx pkb lt True))\<rparr>"
      "address_from_script L (get_lock_pub_script L (public_key L (sk_of ka)) pkx pkb lt True) Testnet = Some addr"
    unfolding locking_phase_swap_mw_def Let_def
    by (simp only: run_simps) (auto simp: run_simps msg_of_def serialize_pub_key_def serialize_priv_key_def)
  note q = quietD [OF quiet_node_calls(2) r(5)] quietD [OF quiet_verify_funds r(6)]
  from r(7) obtain h a W where
    g: "i64_try_from (h + mw_timelock (pub_mw (pub_slate s1))) \<noteq> None"
      "written es3 = line (show_u64 (h + mw_timelock (pub_mw (pub_slate s1)))) # W"
      "pub_slate s' = (pub_slate s1)\<lparr>pub_mw := (pub_mw (pub_slate s1))\<lparr>mw_lock_time :=
         i64_try_from (h + mw_timelock (pub_mw (pub_slate s1)))\<rparr>\<rparr>"
      "\<exists>R. lines_read es3 = a # R" "prv_btc (prv_slate s') = prv_btc (prv_slate s1)"
    by (rule lock_mw_grin_Ok) blast
  from g(4) obtain R where R: "lines_read es3 = a # R" by blast
  let ?e0 = "[EKey ka, EWrite (line (btc_pk_to_string L (public_key L (sk_of ka)))) (Ok ()), ERead (Ok a0),
    ERead (Ok m1), EWrite (line ''ACK'') (Ok ()), ERead (Ok m2), EWrite (line ''ACK'') (Ok ()),
    ERead (Ok m3), EWrite (line ''ACK'') (Ok ())]"
    and ?e1 = "[ERead (Ok ad), EWrite (line ''ACK'') (Ok ()), ERead (Ok tx), EWrite (line ''ACK'') (Ok ())]"
  show thesis
    by (rule that [OF _ r(2-4) _ _ g(1) _ _ r(10) _ _ _ _ r(6), of a0 ad tx a R W ?e0 es1 ?e1])
      (use r q g R in simp_all)
qed

lemma locking_phase_swap_btc_Ok:
  assumes "replay (locking_phase_swap_btc L slate bc) es = (Done (s', Ok u), es')"
  obtains kb kx m0 a1 a2 a3 a4 a5 m6 ad tx pka lt lg W R where
    "EKey kb \<in> set es" "EKey kx \<in> set es"
    "btc_pk_from_str L (msg_of m0) = Some pka"
    "- (2 ^ 63) \<le> lt \<and> lt < 2 ^ 63" "parse_i64 (msg_of m6) = Some lg"
    "lines_read es = m0 # a1 # a2 # a3 # a4 # a5 # m6 # R"
    "written es = line ''ACK'' #
       line (btc_pk_to_string L (public_key L (sk_of kb))) #
       line (btc_pk_to_string L (public_key L (sk_of kx))) #
       line (show_i64 lt) # line ad # line (txid_to_string L (tx_txid L tx)) # line ''ACK'' # W"
    "pub_slate s' = (pub_slate slate)\<lparr>status := SETUP,
       pub_btc := (pub_btc (pub_slate slate))\<lparr>btc_lock_time := Some lt,
          pub_a := Some (btc_pk_to_string L pka),
          pub_b := Some (btc_pk_to_string L (public_key L (sk_of kb))),
          pub_x := Some (btc_pk_to_string L (public_key L (sk_of kx)))\<rparr>,
       pub_mw := (pub_mw (pub_slate slate))\<lparr>mw_lock_time := Some lg\<rparr>\<rparr>"
    "btc_x (prv_btc (prv_slate s')) = Some (to_wif L (sk_of kx))"
    "btc_sk (prv_btc (prv_slate s')) = Some (to_wif L (sk_of kb))"
    "btc_lock (prv_btc (prv_slate s')) = Some (btc_input_new2 L (txid_to_string L (tx_txid L tx)) 0
       (btc_amount (pub_btc (pub_slate slate))) (sk_of kb) (public_key L (sk_of kb)) (get_lock_pub_script L pka (public_key L (sk_of kx)) (public_key L (sk_of kb)) lt True))"
    "list_get (btx_output tx) 0 = Some \<lparr>txo_value = btc_amount (pub_btc (pub_slate slate)),
       script_pubkey = get_lock_pub_script L pka (public_key L (sk_of kx)) (public_key L (sk_of kb)) lt True\<rparr>"
    "address_from_script L (get_lock_pub_script L pka (public_key L (sk_of kx)) (public_key L (sk_of kb)) lt True) Testnet = Some ad"
    "factory_stub (btc_factory bc) = None \<Longrightarrow> raw_tx_request L bc tx \<in> set (requests es)"
proof -
  from assms obtain kb kr kx m0 a1 a2 a3 a4 a5 m6 ad pka lt h tx0 out spks sks pks tx es1 es2 es3 s1 where
    r: "es = EKey kb # EKey kr # EKey kx # ERead (Ok m0) # EWrite (line ''ACK'') (Ok ()) #
         EWrite (line (btc_pk_to_string L (public_key L (sk_of kb)))) (Ok ()) # ERead (Ok a1) #
         EWrite (line (btc_pk_to_string L (public_key L (sk_of kx)))) (Ok ()) # ERead (Ok a2) # es1"
      "btc_pk_from_str L (msg_of m0) = Some pka"
      "replay (get_current_block_height L bc) es1 = (Done (Ok h), EWrite (line (show_i64 lt)) (Ok ()) # ERead (Ok a3) # es2)"
      "i64_try_from (h + btc_timelock (pub_btc (pub_slate slate))) = Some lt"
      "replay (send_raw_transaction L bc tx) es2 = (Done (Ok ()), EWrite (line ad) (Ok ()) # ERead (Ok a4) #
         EWrite (line (txid_to_string L (tx_txid L tx))) (Ok ()) # ERead (Ok a5) # es3)"
      "replay (lock_btc_grin L s1) es3 = (Done (s', Ok u), es')"
      "pub_slate s1 = (pub_slate slate)\<lparr>status := SETUP,
         pub_btc := (pub_btc (pub_slate slate))\<lparr>btc_lock_time := Some lt,
          pub_a := Some (btc_pk_to_string L pka),
          pub_b := Some (btc_pk_to_string L (public_key L (sk_of kb))),
          pub_x := Some (btc_pk_to_string L (public_key L (sk_of kx)))\<rparr>\<rparr>"
      "create_lock_transaction L pka (public_key L (sk_of kx)) (public_key L (sk_of kb)) (public_key L (sk_of kr))
         (btc_inputs (prv_btc (prv_slate slate))) (btc_amount (pub_btc (pub_slate slate))) BTC_FEE lt = Ret (Ok tx0)"
      "list_get (btx_output tx0) 0 = Some out" "sign_p2pkh_transaction L tx0 spks sks pks = Ret tx"
      "address_from_script L (script_pubkey out) Testnet = Some ad"
      "btc_x (prv_btc (prv_slate s1)) = Some (to_wif L (sk_of kx))"
      "btc_sk (prv_btc (prv_slate s1)) = Some (to_wif L (sk_of kb))"
      "btc_lock (prv_btc (prv_slate s1)) = Some (btc_input_new2 L (txid_to_string L (tx_txid L tx)) 0
         (btc_amount (pub_btc (pub_slate slate))) (sk_of kb) (public_key L (sk_of kb)) (script_pubkey out))"
    unfolding locking_phase_swap_btc_def Let_def
    by (simp only: run_simps) (auto simp: run_simps msg_of_def serialize_pub_key_def serialize_priv_key_def)
  note q = quietD [OF quiet_node_calls(1) r(3)] quietD [OF quiet_node_calls(5) r(5)]
  have lt: "- (2 ^ 63) \<le> lt \<and> lt < 2 ^ 63" using i64_try_from_nonneg [OF r(4)] by simp
  from r(6) obtain m lg R W where
    g: "parse_i64 (msg_of m) = Some lg" "lines_read es3 = m # R" "written es3 = line ''ACK'' # W"
      "pub_slate s' = (pub_slate s1)\<lparr>pub_mw := (pub_mw (pub_slate s1))\<lparr>mw_lock_time := Some lg\<rparr>\<rparr>"
      "prv_btc (prv_slate s') = prv_btc (prv_slate s1)"
    by (rule lock_btc_grin_Ok) blast
  have out: "out = \<lparr>txo_value = btc_amount (pub_btc (pub_slate slate)),
      script_pubkey = get_lock_pub_script L pka (public_key L (sk_of kx)) (public_key L (sk_of kb)) lt True\<rparr>"
    "list_get (btx_output tx) 0 = Some out"
    using r(8,9) p2pkh_signer.keeps_parts(1) [OF r(10)]
    by (auto simp: create_lock_transaction_eq list_get_def split: option.splits if_splits)
  have "raw_tx_request L bc tx \<in> set (requests es)" if "factory_stub (btc_factory bc) = None"
    using sent_raw_tx [OF that r(5)] requests_suffix [OF r(3)] r(1) by auto
  then show thesis
    by (intro that [OF _ _ r(2) lt g(1), of kb kx a1 a2 a3 a4 a5 R ad tx W])
      (use r(1,7,11-14) q g(2-5) out in simp_all)
qed

section \<open>Properties\<close>

text \<open>Keys drawn from the randomness source are valid secret keys.\<close>

definition fresh_keys_valid :: "event list \<Rightarrow> bool" where
  "fresh_keys_valid es \<longleftrightarrow> (\<forall>k. EKey k \<in> set es \<longrightarrow> valid_sk k)"

text \<open>
  What locking is for: both parties have the same public half, with the public keys of the two
  owners and of the secret and the lock height; each keeps its private keys; and both know the
  coin at the first output of the broadcast transaction, which carries the agreed amount under the
  lock script of these keys and this height.
\<close>

definition lock_coin :: "('z BtcLib_scheme) \<Rightarrow> BtcTransaction \<Rightarrow> u64 \<Rightarrow> BTCInput \<Rightarrow> bool" where
  "lock_coin L tx amount c \<longleftrightarrow>
     bi_txid c = txid_to_string L (tx_txid L tx) \<and> bi_vout c = 0 \<and> bi_value c = amount"

definition swap_locked ::
  "('z BtcLib_scheme) \<Rightarrow> BtcTransaction \<Rightarrow> PrivateKey \<Rightarrow> PrivateKey \<Rightarrow> PrivateKey \<Rightarrow> i64 \<Rightarrow> SwapSlate \<Rightarrow> SwapSlate \<Rightarrow> bool" where
  "swap_locked L tx sk_a sk_b x t sa sb \<longleftrightarrow>
     pub_slate sa = pub_slate sb \<and>
     pub_a (pub_btc (pub_slate sa)) = Some (btc_pk_to_string L (public_key L sk_a)) \<and>
     pub_b (pub_btc (pub_slate sa)) = Some (btc_pk_to_string L (public_key L sk_b)) \<and>
     pub_x (pub_btc (pub_slate sa)) = Some (btc_pk_to_string L (public_key L x)) \<and>
     btc_lock_time (pub_btc (pub_slate sa)) = Some t \<and>
     btc_sk (prv_btc (prv_slate sa)) = Some (to_wif L sk_a) \<and>
     btc_sk (prv_btc (prv_slate sb)) = Some (to_wif L sk_b) \<and>
     btc_x (prv_btc (prv_slate sb)) = Some (to_wif L x) \<and>
     list_get (btx_output tx) 0 = Some \<lparr>txo_value = btc_amount (pub_btc (pub_slate sa)),
       script_pubkey = get_lock_pub_script L (public_key L sk_a) (public_key L x) (public_key L sk_b) t True\<rparr> \<and>
     (\<exists>ca cb. btc_lock (prv_btc (prv_slate sa)) = Some ca \<and> btc_lock (prv_btc (prv_slate sb)) = Some cb \<and>
        lock_coin L tx (btc_amount (pub_btc (pub_slate sa))) ca \<and> lock_coin L tx (btc_amount (pub_btc (pub_slate sa))) cb)"

text \<open>The state both parties reach when each has read what the other wrote.\<close>

lemma locking_agreement:
  assumes "replay (locking_phase_swap_mw L slate_a gc bc) es_a = (Done (sa, Ok ()), [])"
    and "replay (locking_phase_swap_btc L slate_b bc') es_b = (Done (sb, Ok ()), [])"
    and "lines_read es_a = written es_b" "lines_read es_b = written es_a"
    and "pub_slate slate_a = pub_slate slate_b"
    and "fresh_keys_valid es_a" "fresh_keys_valid es_b" "key_text_laws L"
    and "factory_stub (btc_factory bc') = None"
  shows "\<exists>tx ka kb kx t. raw_tx_request L bc' tx \<in> set (requests es_b) \<and>
     {EKey ka} \<subseteq> set es_a \<and> {EKey kb, EKey kx} \<subseteq> set es_b \<and>
     swap_locked L tx (sk_of ka) (sk_of kb) (sk_of kx) t sa sb \<and>
     status (pub_slate sa) = SETUP"
  using locking_phase_swap_mw_Ok [OF assms(1)]
proof cases
  case a: (1 ka a0 m1 m2 m3 ad tx a6 pkb pkx lt h W R addr e0 ea1 e1 ea2 ea3)
  show ?thesis
    using locking_phase_swap_btc_Ok [OF assms(2)]
  proof cases
    case b: (1 kb kx m0 a1 a2 a3 a4 a5 m6 ad' tx' pka lt' lg W' R')
    have key: "btc_pk_from_str L (btc_pk_to_string L (public_key L (sk_of k))) = Some (public_key L (sk_of k))"
      if "EKey k \<in> set es_a \<union> set es_b" for k
      using that assms(6-8) by (auto simp: key_text_laws_def fresh_keys_valid_def)
    have pk: "pkb = public_key L (sk_of kb)" "pkx = public_key L (sk_of kx)" "pka = public_key L (sk_of ka)"
      using a(1-3,5,6) b(1-3,6,7) assms(3,4) key [of kb] key [of kx] key [of ka] by auto
    have lt: "lt = lt'"
      using a(4,5) b(7) assms(3) i64_text.dec_enc [OF b(4)] by auto
    have h: "i64_try_from h = Some lg"
      using a(6,7) b(5,6) assms(4) parse_i64_show_u64 [of h] by auto
    have txid: "msg_of tx = txid_to_string L (tx_txid L tx')" using a(5) b(7) assms(3) by auto
    have "swap_locked L tx' (sk_of ka) (sk_of kb) (sk_of kx) lt sa sb"
      using a(8,9) b(8-12) assms(5) pk lt h txid
      by (simp add: swap_locked_def lock_coin_def btc_input_new2_def)
    moreover have "status (pub_slate sa) = SETUP" using a(8) by simp
    ultimately show ?thesis using a(1) b(1,2) b(14) [OF assms(9)] by blast
  qed
qed


text \<open>
  C3. The parties agree after locking: if both runs of the locking phase succeed, each has read what
  the other wrote and both started from the same public swap data, then the second party has
  broadcast a transaction for which the swap is locked, with keys drawn in the two runs, and both
  swaps are in the state for execution or refund.
\<close>

theorem locking_phases_agree:
  assumes "replay (locking_phase_swap_mw L slate_a gc bc) es_a = (Done (sa, Ok ()), [])"
    and "replay (locking_phase_swap_btc L slate_b bc') es_b = (Done (sb, Ok ()), [])"
    and "lines_read es_a = written es_b" "lines_read es_b = written es_a"
    and "pub_slate slate_a = pub_slate slate_b"
    and "fresh_keys_valid es_a" "fresh_keys_valid es_b" "key_text_laws L"
    and "factory_stub (btc_factory bc') = None"
  shows "\<exists>tx ka kb kx t. raw_tx_request L bc' tx \<in> set (requests es_b) \<and>
     {EKey ka} \<subseteq> set es_a \<and> {EKey kb, EKey kx} \<subseteq> set es_b \<and>
     swap_locked L tx (sk_of ka) (sk_of kb) (sk_of kx) t sa sb \<and>
     status (pub_slate sa) = SETUP"
  by (rule locking_agreement [OF assms])

section \<open>Waiting for the locked coin\<close>

definition balance_request :: "BitcoinCore \<Rightarrow> Address \<Rightarrow> string \<times> JsonRpc" where
  "balance_request bc addr =
     (get_url bc, btc_rpc bc ''listunspent'' [PInt 0, PInt 9999999, PVec [addr]])"

lemma balance_one_request:
  assumes "factory_stub (btc_factory bc) = None"
    and "replay (get_address_final_balance_addr L bc addr) es = (Done r, es')"
  shows "requests es = balance_request bc addr # requests es'"
  using balance_rpc.replay_call_requests [OF assms(1)] assms(2)
  by (simp add: get_address_final_balance_addr_def balance_request_def)

text \<open>A run of the loop asks for the balance at most as often as it has attempts; if it ends with
  success, the last answer was the amount.\<close>

lemma verify_funds_run:
  assumes "factory_stub (btc_factory bc) = None"
    and "replay (verify_funds L bc addr amount n) es = (Done b, es')"
  shows "\<exists>k pre mid. k \<le> n \<and> es = pre @ mid @ es' \<and>
     requests (pre @ mid) = replicate k (balance_request bc addr) \<and>
     (b \<longrightarrow> 0 < k \<and> 0 < amount \<and> replay (get_address_final_balance_addr L bc addr) mid = (Done (Ok amount), []))"
  using assms(2)
proof (induction n arbitrary: es)
  case 0
  then show ?case by (auto simp: run_simps intro!: exI [of _ 0])
next
  case (Suc n)
  then obtain r es1 where r: "replay (get_address_final_balance_addr L bc addr) es = (Done r, es1)"
    "replay (let balance = (case r of Inr b \<Rightarrow> b | Inl _ \<Rightarrow> 0)
     in if balance > 0 then (if balance \<noteq> amount then Ret False else Ret True)
        else Sleep 60 (verify_funds L bc addr amount n)) es1 = (Done b, es')"
    by (auto simp: run_simps)
  obtain m where m: "es = m @ es1" "replay (get_address_final_balance_addr L bc addr) m = (Done r, [])"
    by (rule replay_prefix [OF r(1)])
  have q: "requests m = [balance_request bc addr]" using balance_one_request [OF assms(1) m(2)] by simp
  define balance :: u64 where "balance = (case r of Inr b \<Rightarrow> b | Inl _ \<Rightarrow> 0)"
  show ?case
  proof (cases "balance > 0")
    case True
    with r(2) have "b = (balance = amount)" "es1 = es'" by (auto simp: run_simps balance_def Let_def split: if_splits)
    moreover have "r = Ok balance" using True by (cases r) (auto simp: balance_def)
    ultimately show ?thesis using m q True by (intro exI [of _ 1] exI [of _ "[]"] exI [of _ m]) auto
  next
    case False
    with r(2) obtain es2 where "es1 = ESleep 60 # es2" "replay (verify_funds L bc addr amount n) es2 = (Done b, es')"
      by (auto simp: balance_def Let_def split: list.splits event.splits if_splits)
    with Suc.IH [OF this(2)] obtain k pre mid where "k \<le> n" "es2 = pre @ mid @ es'"
      "requests (pre @ mid) = replicate k (balance_request bc addr)"
      "b \<longrightarrow> 0 < k \<and> 0 < amount \<and> replay (get_address_final_balance_addr L bc addr) mid = (Done (Ok amount), [])"
      by blast
    with m q \<open>es1 = ESleep 60 # es2\<close> show ?thesis
      by (intro exI [of _ "Suc k"] exI [of _ "m @ ESleep 60 # pre"] exI [of _ mid]) auto
  qed
qed

text \<open>
  C8. No Grin leaves before the bitcoins are there: if the locking phase of the Grin owner succeeds,
  its first requests are the import of the lock script's address and at most 120 questions for
  its balance, the last of them answered with exactly the agreed amount; everything else the run
  asks of a node, the payment into the shared coin included, comes after that.
\<close>

theorem funds_verified_before_payment:
  assumes "replay (locking_phase_swap_mw L slate gc bc) es = (Done (s', Ok ()), es')"
    and "factory_stub (btc_factory bc) = None"
  shows "\<exists>pka pkx pkb t addr k e1 e2 e3. es = e1 @ e2 @ e3 \<and>
     address_from_script L (get_lock_pub_script L pka pkx pkb t True) Testnet = Some addr \<and>
     btc_lock_time (pub_btc (pub_slate s')) = Some t \<and>
     pub_a (pub_btc (pub_slate s')) = Some (btc_pk_to_string L pka) \<and>
     pub_x (pub_btc (pub_slate s')) = Some (btc_pk_to_string L pkx) \<and>
     pub_b (pub_btc (pub_slate s')) = Some (btc_pk_to_string L pkb) \<and>
     requests (e1 @ e2) =
       (get_url bc, btc_rpc bc ''importaddress'' [PString addr, PString [], PBool False]) #
       replicate k (balance_request bc addr) \<and> k \<le> 120 \<and>
     replay (get_address_final_balance_addr L bc addr) e2 =
       (Done (Ok (btc_amount (pub_btc (pub_slate slate)))), [])"
  using locking_phase_swap_mw_Ok [OF assms(1)]
proof cases
  case a: (1 ka a0 m1 m2 m3 ad tx a6 pkb pkx lt h W R addr e0 es1 e1 es2 es3)
  obtain m where m: "es1 = m @ e1 @ es2" "replay (import_btc_address L bc addr) m = (Done (Ok ()), [])"
    by (rule replay_prefix [OF a(13)])
  obtain k pre mid where v: "k \<le> MAX_ATTEMPTS_VERF_FUNDS" "es2 = pre @ mid @ es3"
    "requests (pre @ mid) = replicate k (balance_request bc addr)"
    "replay (get_address_final_balance_addr L bc addr) mid = (Done (Ok (btc_amount (pub_btc (pub_slate slate)))), [])"
    using verify_funds_run [OF assms(2) a(15)] by blast
  have "es = (e0 @ m @ e1 @ pre) @ mid @ es3" using a(11) m(1) v(2) by simp
  moreover have "requests ((e0 @ m @ e1 @ pre) @ mid) =
      (get_url bc, btc_rpc bc ''importaddress'' [PString addr, PString [], PBool False]) #
      replicate k (balance_request bc addr)"
    using import_rpc.replay_call_requests [OF assms(2) m(2)] a(12,14) v(3) by simp
  moreover have "k \<le> 120" using v(1) by (simp add: MAX_ATTEMPTS_VERF_FUNDS_def)
  moreover note a(10) v(4)
  moreover have "btc_lock_time (pub_btc (pub_slate s')) = Some lt"
    "pub_a (pub_btc (pub_slate s')) = Some (btc_pk_to_string L (public_key L (sk_of ka)))"
    "pub_x (pub_btc (pub_slate s')) = Some (btc_pk_to_string L pkx)"
    "pub_b (pub_btc (pub_slate s')) = Some (btc_pk_to_string L pkb)" using a(8) by simp_all
  ultimately show ?thesis by blast
qed


lemma verify_funds_step:
  assumes "replay (get_address_final_balance_addr L bc addr) [ev] = (Done r, [])"
  shows "replay (verify_funds L bc addr amount (Suc n)) (ev # es) =
     replay (let balance = (case r of Inr b \<Rightarrow> b | Inl _ \<Rightarrow> 0)
     in if balance > 0 then (if balance \<noteq> amount then Ret False else Ret True)
        else Sleep 60 (verify_funds L bc addr amount n)) es"
  using replay_mono [OF assms, of es] by (simp add: replay_pbind)

definition no_coin_yet :: "('z RpcLib_scheme) \<Rightarrow> BitcoinCore \<Rightarrow> Address \<Rightarrow> event \<Rightarrow> bool" where
  "no_coin_yet L bc addr ev \<longleftrightarrow>
     (case replay (get_address_final_balance_addr L bc addr) [ev] of
        (Done (Inr b), []) \<Rightarrow> b = 0 | (Done (Inl _), []) \<Rightarrow> True | _ \<Rightarrow> False)"

lemma no_coin_yetE:
  assumes "no_coin_yet L bc addr ev"
  obtains r where "replay (get_address_final_balance_addr L bc addr) [ev] = (Done r, [])"
    "(case r of Inr b \<Rightarrow> b | Inl _ \<Rightarrow> 0) = (0 :: u64)"
  using assms unfolding no_coin_yet_def by (auto split: prod.splits outcome.splits sum.splits list.splits)

lemma verify_funds_waits_on:
  assumes "\<forall>ev \<in> set waits. no_coin_yet L bc addr ev"
  shows "replay (verify_funds L bc addr amount (length waits + n)) (concat (map (\<lambda>ev. [ev, ESleep 60]) waits) @ es) =
    replay (verify_funds L bc addr amount n) es"
  using assms
proof (induction waits)
  case (Cons ev waits)
  then obtain r where "replay (get_address_final_balance_addr L bc addr) [ev] = (Done r, [])"
    "(case r of Inr b \<Rightarrow> b | Inl _ \<Rightarrow> 0) = (0 :: u64)" by (auto elim: no_coin_yetE)
  with Cons verify_funds_step [OF this(1)] show ?case by (simp add: Let_def replay.simps)
qed simp

text \<open>
  The wait for the locked coin ends: as long as the node reports an empty address or an error,
  the loop asks again after a minute; it returns true at the first of up to 120 answers that shows
  the amount, and false after 120 answers without a coin.
\<close>

theorem verify_funds_ends:
  assumes "\<forall>ev \<in> set waits. no_coin_yet L bc addr ev"
    and "replay (get_address_final_balance_addr L bc addr) [paid] = (Done (Ok amount), [])" "0 < amount"
  shows "(length waits < 120 \<longrightarrow> replay (verify_funds L bc addr amount MAX_ATTEMPTS_VERF_FUNDS)
        (concat (map (\<lambda>ev. [ev, ESleep 60]) waits) @ [paid]) = (Done True, [])) \<and>
     (length waits = 120 \<longrightarrow> replay (verify_funds L bc addr amount MAX_ATTEMPTS_VERF_FUNDS)
        (concat (map (\<lambda>ev. [ev, ESleep 60]) waits)) = (Done False, []))"
proof -
  have "replay (verify_funds L bc addr amount MAX_ATTEMPTS_VERF_FUNDS)
      (concat (map (\<lambda>ev. [ev, ESleep 60]) waits) @ [paid]) = (Done True, [])" if "length waits < 120"
  proof -
    have "MAX_ATTEMPTS_VERF_FUNDS = length waits + Suc (119 - length waits)"
      using that by (simp add: MAX_ATTEMPTS_VERF_FUNDS_def)
    then have "replay (verify_funds L bc addr amount MAX_ATTEMPTS_VERF_FUNDS)
      (concat (map (\<lambda>ev. [ev, ESleep 60]) waits) @ [paid]) =
      replay (verify_funds L bc addr amount (Suc (119 - length waits))) [paid]"
      using verify_funds_waits_on [OF assms(1), of amount "Suc (119 - length waits)" "[paid]"] by metis
    with verify_funds_step [OF assms(2)] assms(3) show ?thesis by (simp add: replay.simps)
  qed
  moreover have "replay (verify_funds L bc addr amount MAX_ATTEMPTS_VERF_FUNDS)
      (concat (map (\<lambda>ev. [ev, ESleep 60]) waits)) = (Done False, [])" if "length waits = 120"
    using verify_funds_waits_on [OF assms(1), of amount 0 "[]"] that
    by (simp add: MAX_ATTEMPTS_VERF_FUNDS_def replay.simps)
  ultimately show ?thesis by blast
qed

end
