(* ===== verification/Settlement.thy ===== *)
theory Settlement
  imports Locking
begin

text \<open>
  How a swap ends: runs of the execution and the refund phase of \<open>swap/protocol.rs\<close>, followed down
  to the transaction that is broadcast and the script it has to satisfy.
\<close>

section \<open>Runs of the two phases\<close>


lemma silent_lock_signers [silentI]:
  "silent (sign_lock_transaction_refund L tx ix scr sk)"
  "silent (sign_lock_transaction_redeemer L tx ix scr sk x)"
  using refund_signer.no_effects redeem_signer.no_effects by blast+

lemmas lock_signer_runs [run_simps] = silent_lock_signers [THEN run_silent]

lemma run_swap_heights [run_simps]:
  "replay (swap_heights L gc bc slate) es = (Done (tg, tb, hg, hb), es') \<longleftrightarrow>
   mw_lock_time (pub_mw (pub_slate slate)) = Some tg \<and> btc_lock_time (pub_btc (pub_slate slate)) = Some tb \<and>
   (\<exists>es1. replay (get_block_height L gc) es = (Done (Ok hg), es1) \<and>
      replay (get_current_block_height L bc) es1 = (Done (Ok hb), es'))"
  by (auto simp: swap_heights_def run_simps)

lemma can_refund_True:
  "replay (can_refund L gc bc slate) es = (Done True, es') \<Longrightarrow>
   \<exists>tg tb hg hb es1. mw_lock_time (pub_mw (pub_slate slate)) = Some tg \<and>
     btc_lock_time (pub_btc (pub_slate slate)) = Some tb \<and>
     replay (get_block_height L gc) es = (Done (Ok hg), es1) \<and>
     replay (get_current_block_height L bc) es1 = (Done (Ok hb), es') \<and>
     0 \<le> tg \<and> tg < uint hg \<and> 0 \<le> tb \<and> tb < uint hb"
  unfolding can_refund_def
  by (auto simp: run_simps word_less_def dest!: u64_try_from_Some)

lemma check_if_enough_time_True:
  "replay (check_if_enough_time L gc bc slate) es = (Done True, es') \<Longrightarrow>
   \<exists>tg tb hg hb es1. mw_lock_time (pub_mw (pub_slate slate)) = Some tg \<and>
     btc_lock_time (pub_btc (pub_slate slate)) = Some tb \<and>
     replay (get_block_height L gc) es = (Done (Ok hg), es1) \<and>
     replay (get_current_block_height L bc) es1 = (Done (Ok hb), es') \<and>
     uint (hg + 60) \<le> tg \<and> uint (hb + 6) \<le> tb"
  unfolding check_if_enough_time_def
  by (auto simp: run_simps word_le_def constants_simps dest!: u64_try_from_Some)

lemma refund_phase_swap_btc_Ok:
  assumes "replay (refund_phase_swap_btc L slate bc gc) es = (Done (s', Ok u), es')"
  obtains k s_a pka s_b sk_b s_x x t lock t32 tx tx' es1 es2 where
    "replay (can_refund L gc bc slate) es = (Done True, EKey k # es1)"
    "pub_a (pub_btc (pub_slate slate)) = Some s_a" "btc_pk_from_str L s_a = Some pka"
    "btc_sk (prv_btc (prv_slate slate)) = Some s_b" "from_wif L s_b = Some sk_b"
    "btc_x (prv_btc (prv_slate slate)) = Some s_x" "from_wif L s_x = Some x"
    "btc_lock_time (pub_btc (pub_slate slate)) = Some t" "u32_try_from t = Some t32"
    "btc_lock (prv_btc (prv_slate slate)) = Some lock"
    "create_spend_lock_transaction L (public_key L (sk_of k)) lock
       (btc_amount (pub_btc (pub_slate slate))) BTC_FEE t32 = Ret (Ok tx)"
    "sign_lock_transaction_refund L tx 0
       (get_lock_pub_script L pka (public_key L x) (public_key L sk_b) t False) sk_b = Ret tx'"
    "replay (send_raw_transaction L bc tx') es1 = (Done (Ok ()), es2)"
    "status (pub_slate s') = FAILED"
proof -
  have "\<exists>k s_a pka s_b sk_b s_x x t lock t32 tx tx' es1 es2.
    replay (can_refund L gc bc slate) es = (Done True, EKey k # es1) \<and>
    pub_a (pub_btc (pub_slate slate)) = Some s_a \<and> btc_pk_from_str L s_a = Some pka \<and>
    btc_sk (prv_btc (prv_slate slate)) = Some s_b \<and> from_wif L s_b = Some sk_b \<and>
    btc_x (prv_btc (prv_slate slate)) = Some s_x \<and> from_wif L s_x = Some x \<and>
    btc_lock_time (pub_btc (pub_slate slate)) = Some t \<and> u32_try_from t = Some t32 \<and>
    btc_lock (prv_btc (prv_slate slate)) = Some lock \<and>
    create_spend_lock_transaction L (public_key L (sk_of k)) lock
       (btc_amount (pub_btc (pub_slate slate))) BTC_FEE t32 = Ret (Ok tx) \<and>
    sign_lock_transaction_refund L tx 0
       (get_lock_pub_script L pka (public_key L x) (public_key L sk_b) t False) sk_b = Ret tx' \<and>
    replay (send_raw_transaction L bc tx') es1 = (Done (Ok ()), es2) \<and> status (pub_slate s') = FAILED"
    using assms unfolding refund_phase_swap_btc_def Let_def
    by (simp only: run_simps) auto
  then show thesis using that by blast
qed



lemma silent_key_conversions [silentI]:
  "silent (private_key_from_grin_sk L k)" "silent (grin_pk_from_btc_pk L pk)" "silent (grin_sk_from_btc_sk L sk)"
  unfolding private_key_from_grin_sk_def grin_pk_from_btc_pk_def grin_sk_from_btc_sk_def by (intro silentI)+

lemmas key_conversion_runs [run_simps] = silent_key_conversions [THEN run_silent]

lemma exec_phase_swap_mw_Ok:
  assumes "replay (exec_phase_swap_mw L slate bc gc) es = (Done (s', Ok u), es')"
  obtains coin s_x pkx px res k s_a pka s_b pkb x_btc s_k sk_a lock t tx tx' es1 es2 where
    "replay (check_if_enough_time L gc bc slate) es = (Done True, es1)"
    "shared_coin (prv_mw (prv_slate slate)) = Some coin"
    "pub_x (pub_btc (pub_slate slate)) = Some s_x" "btc_pk_from_str L s_x = Some pkx"
    "replay (dcontract_mw_tx_alice L coin (mw_value coin - estimate_fees L 1 1 1) 0 px) es1 = (Done (Ok res), EKey k # es2)"
    "pub_a (pub_btc (pub_slate slate)) = Some s_a" "btc_pk_from_str L s_a = Some pka"
    "pub_b (pub_btc (pub_slate slate)) = Some s_b" "btc_pk_from_str L s_b = Some pkb"
    "private_key_from_grin_sk L (cm_x res) = Ret x_btc"
    "btc_sk (prv_btc (prv_slate slate)) = Some s_k" "from_wif L s_k = Some sk_a"
    "btc_lock (prv_btc (prv_slate slate)) = Some lock" "btc_lock_time (pub_btc (pub_slate slate)) = Some t"
    "create_spend_lock_transaction L (public_key L (sk_of k)) lock
       (btc_amount (pub_btc (pub_slate slate))) BTC_FEE 0 = Ret (Ok tx)"
    "sign_lock_transaction_redeemer L tx 0 (get_lock_pub_script L pka pkx pkb t False) sk_a x_btc = Ret tx'"
    "replay (send_raw_transaction L bc tx') es2 = (Done (Ok ()), es')"
    "status (pub_slate s') = FINISHED"
proof -
  have "\<exists>coin s_x pkx px res k s_a pka s_b pkb x_btc s_k sk_a lock t tx tx' es1 es2.
    replay (check_if_enough_time L gc bc slate) es = (Done True, es1) \<and>
    shared_coin (prv_mw (prv_slate slate)) = Some coin \<and>
    pub_x (pub_btc (pub_slate slate)) = Some s_x \<and> btc_pk_from_str L s_x = Some pkx \<and>
    replay (dcontract_mw_tx_alice L coin (mw_value coin - estimate_fees L 1 1 1) 0 px) es1 = (Done (Ok res), EKey k # es2) \<and>
    pub_a (pub_btc (pub_slate slate)) = Some s_a \<and> btc_pk_from_str L s_a = Some pka \<and>
    pub_b (pub_btc (pub_slate slate)) = Some s_b \<and> btc_pk_from_str L s_b = Some pkb \<and>
    private_key_from_grin_sk L (cm_x res) = Ret x_btc \<and>
    btc_sk (prv_btc (prv_slate slate)) = Some s_k \<and> from_wif L s_k = Some sk_a \<and>
    btc_lock (prv_btc (prv_slate slate)) = Some lock \<and> btc_lock_time (pub_btc (pub_slate slate)) = Some t \<and>
    create_spend_lock_transaction L (public_key L (sk_of k)) lock
       (btc_amount (pub_btc (pub_slate slate))) BTC_FEE 0 = Ret (Ok tx) \<and>
    sign_lock_transaction_redeemer L tx 0 (get_lock_pub_script L pka pkx pkb t False) sk_a x_btc = Ret tx' \<and>
    replay (send_raw_transaction L bc tx') es2 = (Done (Ok ()), es') \<and> status (pub_slate s') = FINISHED"
    using assms unfolding exec_phase_swap_mw_def Let_def
    by (simp only: run_simps) (auto simp: set_status_def, blast)
  then show thesis using that by blast
qed

lemma exec_phase_swap_btc_Ok:
  assumes "replay (exec_phase_swap_btc L slate bc gc) es = (Done (s', Ok u), es')"
  obtains coin s_x x x_grin res tx es1 es2 where
    "replay (check_if_enough_time L gc bc slate) es = (Done True, es1)"
    "shared_coin (prv_mw (prv_slate slate)) = Some coin"
    "btc_x (prv_btc (prv_slate slate)) = Some s_x" "from_wif L s_x = Some x"
    "sk_from_slice L (pk_key x) = Some x_grin"
    "replay (dcontract_mw_tx_bob L coin (mw_value coin - estimate_fees L 1 1 1) 0 x_grin) es1 = (Done (Ok res), es2)"
    "slate_tx (cm_tx res) = Some tx" "replay (push_transaction L gc tx) es2 = (Done (Ok ()), es')"
    "swapped_coin (prv_mw (prv_slate s')) = cm_coin res" "status (pub_slate s') = FINISHED"
proof -
  have "\<exists>coin s_x x x_grin res tx es1 es2. replay (check_if_enough_time L gc bc slate) es = (Done True, es1) \<and>
    shared_coin (prv_mw (prv_slate slate)) = Some coin \<and>
    btc_x (prv_btc (prv_slate slate)) = Some s_x \<and> from_wif L s_x = Some x \<and>
    sk_from_slice L (pk_key x) = Some x_grin \<and>
    replay (dcontract_mw_tx_bob L coin (mw_value coin - estimate_fees L 1 1 1) 0 x_grin) es1 = (Done (Ok res), es2) \<and>
    slate_tx (cm_tx res) = Some tx \<and> replay (push_transaction L gc tx) es2 = (Done (Ok ()), es') \<and>
    swapped_coin (prv_mw (prv_slate s')) = cm_coin res \<and> status (pub_slate s') = FINISHED"
    using assms unfolding exec_phase_swap_btc_def Let_def
    by (simp only: run_simps) (auto simp: set_status_def upd_mw_prv_def grin_sk_from_btc_sk_def)
  then show thesis using that by blast
qed

section \<open>Transactions that take the locked coin\<close>

text \<open>The input script of the transaction satisfies the lock script for every check of signatures
  that answers like a node.\<close>

definition opens_lock :: "('z BtcLib_scheme) \<Rightarrow> build_op list \<Rightarrow> BtcTransaction \<Rightarrow> bool" where
  "opens_lock L lock_ops tx \<longleftrightarrow>
     (\<exists>i ops. btx_input tx = [i] \<and> script_sig i = into_script L ops \<and>
        (\<forall>chk. checks_like_node L tx 0 (into_script L lock_ops) chk \<longrightarrow>
           p2sh_accepts L \<lparr>env_lock_time = btx_lock_time tx, env_sequence = sequence i,
                           env_checksig = chk\<rparr> lock_ops ops))"

text \<open>It spends the coin, opens its lock, and pays all but the fee to the given key.\<close>

definition takes_coin ::
  "('z BtcLib_scheme) \<Rightarrow> BTCInput \<Rightarrow> build_op list \<Rightarrow> BtcPublicKey \<Rightarrow> BtcTransaction \<Rightarrow> bool" where
  "takes_coin L lock lock_ops dest tx \<longleftrightarrow>
     list_all2 (spends_coin L) [lock] (btx_input tx) \<and> opens_lock L lock_ops tx \<and>
     btx_output tx = [\<lparr>txo_value = bi_value lock - BTC_FEE, script_pubkey = get_p2pkh_pub_script L dest\<rparr>]"

lemma spend_lock_parts:
  assumes "create_spend_lock_transaction L dest lock amount BTC_FEE lt = Ret (Ok tx)"
    and "btx_output tx' = btx_output tx" "map previous_output (btx_input tx') = map previous_output (btx_input tx)"
  shows "list_all2 (spends_coin L) [lock] (btx_input tx')"
    "btx_output tx' = [\<lparr>txo_value = bi_value lock - BTC_FEE, script_pubkey = get_p2pkh_pub_script L dest\<rparr>]"
  using create_spend_lock_transaction_Ok [OF assms(1)] assms(2,3)
  by (auto simp: spends_coin_def unsigned_txin_def list_all2_Cons1)

lemma refund_takes_coin:
  fixes sk :: PrivateKey
  assumes "ecdsa_laws L" "btc_scalar_laws L" "sighash_laws L"
    and "create_spend_lock_transaction L dest lock amount BTC_FEE t32 = Ret (Ok tx)"
    and "sign_lock_transaction_refund L tx 0 (get_lock_pub_script L pka pkx (public_key L sk) t False) sk = Ret tx'"
    and "u32_try_from t = Some t32" "0 < t"
  shows "takes_coin L lock (lock_builder pka pkx (public_key L sk) t) dest tx'"
proof -
  let ?ops = "lock_builder pka pkx (public_key L sk) t"
  have t: "uint t32 = t"
    using assms(6) by (auto simp: u32_try_from_def uint_word_of_int_eq take_bit_int_eq_self split: if_splits)
  then have "t32 \<noteq> 0" using assms(7) by auto
  obtain txid der where r: "btx_input tx' = [(unsigned_txin txid (bi_vout lock) (if t32 = 0 then FFFFFFFF else 0))
      \<lparr>script_sig := into_script L [PushSlice der, PushInt 1, PushSlice (into_script L ?ops)]\<rparr>]"
    "btx_lock_time tx' = t32"
    "\<And>chk. checks_like_node L tx' 0 (into_script L ?ops) chk \<Longrightarrow> chk der (btc_pk_to_bytes L (public_key L sk))"
    using refund_signed_input [OF refl assms(1-5)] by metis
  then have "opens_lock L ?ops tx'"
    using t \<open>t32 \<noteq> 0\<close> assms(7) unfolding opens_lock_def
    by (auto simp: unsigned_txin_def p2sh_refund_script cltv_ok_def
        intro!: exI [of _ "[PushSlice der, PushInt 1, PushSlice (into_script L ?ops)]"])
  with spend_lock_parts [OF assms(4) refund_signer.keeps_parts(1,4) [OF assms(5)]]
  show ?thesis by (simp add: takes_coin_def)
qed

lemma redeem_takes_coin:
  fixes sk x :: PrivateKey
  assumes "ecdsa_laws L" "btc_scalar_laws L" "sighash_laws L"
    and "create_spend_lock_transaction L dest lock amount BTC_FEE lt = Ret (Ok tx)"
    and "sign_lock_transaction_redeemer L tx 0
           (get_lock_pub_script L (public_key L sk) (public_key L x) pkb t False) sk x = Ret tx'"
  shows "takes_coin L lock (lock_builder (public_key L sk) (public_key L x) pkb t) dest tx'"
proof -
  let ?ops = "lock_builder (public_key L sk) (public_key L x) pkb t"
  obtain txid der der' where r: "btx_input tx' = [(unsigned_txin txid (bi_vout lock) (if lt = 0 then FFFFFFFF else 0))
      \<lparr>script_sig := into_script L [PushOpcode OP_PUSHBYTES_0, PushSlice der, PushSlice der',
         PushOpcode OP_PUSHBYTES_0, PushSlice (into_script L ?ops)]\<rparr>]"
    "\<And>chk. checks_like_node L tx' 0 (into_script L ?ops) chk \<Longrightarrow>
       chk der (btc_pk_to_bytes L (public_key L sk)) \<and> chk der' (btc_pk_to_bytes L (public_key L x))"
    using redeem_signed_input [OF refl assms(1-5)] by metis
  then have "opens_lock L ?ops tx'"
    unfolding opens_lock_def
    by (auto intro!: p2sh_redeem_script [where E = "\<lparr>env_lock_time = l, env_sequence = s, env_checksig = c\<rparr>" for l s c, simplified] exI [of _ "[PushOpcode OP_PUSHBYTES_0, PushSlice der, PushSlice der',
         PushOpcode OP_PUSHBYTES_0, PushSlice (into_script L ?ops)]"])
  with spend_lock_parts [OF assms(4) redeem_signer.keeps_parts(1,4) [OF assms(5)]]
  show ?thesis by (simp add: takes_coin_def)
qed

lemma wif_text: "key_text_laws L \<Longrightarrow> valid_sk (pk_key sk) \<Longrightarrow> from_wif L (to_wif L sk) = Some sk"
  by (simp add: key_text_laws_def)

lemma pk_text:
  "key_text_laws L \<Longrightarrow> valid_sk (pk_key sk) \<Longrightarrow>
   btc_pk_from_str L (btc_pk_to_string L (public_key L sk)) = Some (public_key L sk)"
  by (simp add: key_text_laws_def)

section \<open>Properties\<close>

text \<open>
  C4. A refund gets the bitcoins back: from a locked swap, if the refund phase of the party that
  locked them succeeds, it has broadcast a transaction that spends the locked coin, satisfies its
  lock script and pays all but the fee to a key drawn in this run; the swap is marked as failed.
\<close>

theorem refund_phase_reclaims:
  assumes "replay (refund_phase_swap_btc L slate_b bc gc) es = (Done (s', Ok ()), es')"
    and "swap_locked L lock_tx sk_a sk_b x t slate_a slate_b" "0 < t"
    and "valid_sk (pk_key sk_a)" "valid_sk (pk_key sk_b)" "valid_sk (pk_key x)"
    and "factory_stub (btc_factory bc) = None"
    and "key_text_laws L" "ecdsa_laws L" "btc_scalar_laws L" "sighash_laws L"
  shows "\<exists>tx k c. raw_tx_request L bc tx \<in> set (requests es) \<and> EKey k \<in> set es \<and>
           lock_coin L lock_tx (btc_amount (pub_btc (pub_slate slate_b))) c \<and>
           takes_coin L c (lock_builder (public_key L sk_a) (public_key L x) (public_key L sk_b) t)
             (public_key L (sk_of k)) tx \<and>
           status (pub_slate s') = FAILED"
  using refund_phase_swap_btc_Ok [OF assms(1)]
proof cases
  case r: (1 k s_a' pka s_b' sk_b' s_x' x' t' lock' t32 tx tx' es1 es2)
  have eq: "pka = public_key L sk_a" "sk_b' = sk_b" "x' = x" "t' = t"
    "lock_coin L lock_tx (btc_amount (pub_btc (pub_slate slate_b))) lock'"
    using r(2-8,10) assms(2) wif_text [OF assms(8,5)] wif_text [OF assms(8,6)] pk_text [OF assms(8,4)]
    by (auto simp: swap_locked_def)
  have "suffix (EKey k # es1) es" using replay_suffix [OF r(1)] .
  then have "EKey k \<in> set es" "set (requests es1) \<subseteq> set (requests es)"
    by (auto simp: suffix_def)
  moreover have "raw_tx_request L bc tx' \<in> set (requests es1)" by (rule sent_raw_tx [OF assms(7) r(13)])
  ultimately show ?thesis
    using refund_takes_coin [OF assms(9-11) r(11) r(12) r(9)] assms(3) r(14) eq(5) unfolding eq(1-4) by blast
qed

text \<open>The checks of the heights do not use the stream.\<close>

lemma quiet_check_if_enough_time: "quiet (check_if_enough_time L gc bc slate)"
  unfolding check_if_enough_time_def swap_heights_def
  by (intro quiet_pbind quiet_expect quiet_node_calls quiet_silent silentI)

text \<open>What the receiving party has at the end of the contract protocol.\<close>

lemma dcontract_bob_result:
  assumes "replay (dcontract_mw_tx_bob L inp v t x) es = (Done (Ok r), es')"
  shows "\<exists>tx c. slate_tx (cm_tx r) = Some tx \<and> tx_validate L tx \<and> cm_coin r = Some c \<and> mw_value c = v"
proof -
  from assms obtain ptx3 key nonce old new where
    f: "fin_tx L ptx3 key nonce True None (Some (old, new)) = Ret (Ok (cm_tx r))"
    by (elim dcontract_bob_run) (metis prod.exhaust_sel)
  obtain s2 where "finalize L s2 = Ret (Ok (cm_tx r))" by (rule fin_tx_replace_Ok [OF f]) blast
  moreover have "\<exists>c. cm_coin r = Some c \<and> mw_value c = v"
    using assms unfolding dcontract_mw_tx_bob_def apt_recv_coins_def
    by (simp only: run_simps split_def) (auto simp: mwcoin_new_def)
  ultimately show ?thesis by (auto simp: finalize_Ok)
qed

definition push_tx_request :: "GrinCore \<Rightarrow> Transaction \<Rightarrow> string \<times> JsonRpc" where
  "push_tx_request gc tx = (grin_url gc, grin_rpc gc ''push_transaction'' [PTx tx, PBool True])"

lemma pushed_tx:
  assumes "factory_stub (grin_factory gc) = None" "replay (push_transaction L gc tx) es = (Done r, es')"
  shows "push_tx_request gc tx \<in> set (requests es)"
  using push_rpc.replay_call_requests [OF assms] by (simp add: push_tx_request_def)

text \<open>
  C1. Executing a locked swap gives each party the other's coins: if both runs of the execution
  phase succeed, each having read what the other wrote, then the party that owned the Grin coins
  has broadcast a transaction that takes the locked bitcoins with its own key and with the secret of
  the other party, which it has learnt from the finished Grin transaction; and the other party has
  pushed a valid Grin transaction and holds the coin it makes, worth the shared coin less the fee.
\<close>

theorem exec_phases_swap:
  assumes "replay (exec_phase_swap_mw L slate_a bc gc) es_a = (Done (sa, Ok ()), [])"
    and "replay (exec_phase_swap_btc L slate_b bc' gc') es_b = (Done (sb, Ok ()), [])"
    and "lines_read es_a = written es_b" "lines_read es_b = written es_a"
    and "swap_locked L lock_tx sk_a sk_b (sk_of x) t slate_a slate_b"
    and "valid_sk (pk_key sk_a)" "valid_sk (pk_key sk_b)" "valid_sk x"
    and "factory_stub (btc_factory bc) = None" "factory_stub (grin_factory gc') = None"
    and "slate_json_laws L" "scalar_laws L" "adaptor_laws L" "key_text_laws L"
    and "ecdsa_laws L" "btc_scalar_laws L" "sighash_laws L"
    and "shared_coin (prv_mw (prv_slate slate_b)) = Some coin"
  shows "\<exists>tx k c gtx g. raw_tx_request L bc tx \<in> set (requests es_a) \<and> EKey k \<in> set es_a \<and>
     lock_coin L lock_tx (btc_amount (pub_btc (pub_slate slate_a))) c \<and>
     takes_coin L c (lock_builder (public_key L sk_a) (public_key L (sk_of x)) (public_key L sk_b) t)
       (public_key L (sk_of k)) tx \<and>
     push_tx_request gc' gtx \<in> set (requests es_b) \<and> tx_validate L gtx \<and>
     swapped_coin (prv_mw (prv_slate sb)) = Some g \<and> mw_value g = mw_value coin - estimate_fees L 1 1 1 \<and>
     status (pub_slate sa) = FINISHED \<and> status (pub_slate sb) = FINISHED"
  using exec_phase_swap_mw_Ok [OF assms(1)]
proof cases
  case a: (1 coin_a s_x pkx px ra k s_a pka s_b pkb x_btc s_k sk_a' lock t' tx tx' ea1 ea2)
  show ?thesis
    using exec_phase_swap_btc_Ok [OF assms(2)]
  proof cases
    case b: (1 coin' s_x' x' x_grin rb gtx eb1 eb2)
    have eq: "pka = public_key L sk_a" "pkx = public_key L (sk_of x)" "pkb = public_key L sk_b" "t' = t"
      "sk_a' = sk_a" "x' = sk_of x" "coin' = coin"
      "lock_coin L lock_tx (btc_amount (pub_btc (pub_slate slate_a))) lock"
      using a(3,4,6-9,11-14) b(2-4) assms(5,18) wif_text [OF assms(14,6)] wif_text [OF assms(14), of "sk_of x"]
        pk_text [OF assms(14,6)] pk_text [OF assms(14,7)] pk_text [OF assms(14), of "sk_of x"] assms(8)
      by (auto simp: swap_locked_def)
    have xg: "x_grin = x" "is_scalar x"
      using b(5) assms(8,12) eq(6) by (auto simp: scalar_laws_def)
    note qa = quietD [OF quiet_check_if_enough_time a(1)] and qb = quietD [OF quiet_check_if_enough_time b(1)]
    have "cm_x ra = x"
      using contract_secret [OF a(5) b(6)] assms(3,4,11-13) qa qb xg by simp
    then have x: "x_btc = sk_of x"
      using a(10) assms(8,16) by (simp add: private_key_from_grin_sk_def btc_scalar_laws_def)
    have ea: "suffix (EKey k # ea2) es_a" "suffix eb2 es_b"
      using replay_suffix [OF a(1)] replay_suffix [OF a(5)] replay_suffix [OF b(1)] replay_suffix [OF b(6)]
      by (blast intro: suffix_order.trans)+
    have "takes_coin L lock (lock_builder (public_key L sk_a) (public_key L (sk_of x)) (public_key L sk_b) t)
       (public_key L (sk_of k)) tx'"
      using redeem_takes_coin [OF assms(15-17) a(15)] a(16) unfolding eq(1-5) x by blast
    moreover have "raw_tx_request L bc tx' \<in> set (requests es_a)" "EKey k \<in> set es_a"
      "push_tx_request gc' gtx \<in> set (requests es_b)"
      using sent_raw_tx [OF assms(9) a(17)] pushed_tx [OF assms(10) b(8)] ea by (auto simp: suffix_def)
    moreover obtain g where "tx_validate L gtx" "swapped_coin (prv_mw (prv_slate sb)) = Some g"
      "mw_value g = mw_value coin - estimate_fees L 1 1 1"
      using dcontract_bob_result [OF b(6)] b(7,9) eq(7) by auto
    ultimately show ?thesis using a(18) b(10) eq(8) by blast
  qed
qed

text \<open>The two requests a check of the heights makes.\<close>

definition height_requests :: "GrinCore \<Rightarrow> BitcoinCore \<Rightarrow> (string \<times> JsonRpc) list" where
  "height_requests gc bc =
     [(grin_url gc, grin_rpc gc ''get_tip'' []), (get_url bc, btc_rpc bc ''getblockcount'' [])]"

lemma swap_heights_requests:
  assumes "factory_stub (grin_factory gc) = None" "factory_stub (btc_factory bc) = None"
    and "replay (swap_heights L gc bc slate) es = (Done r, es')"
  shows "requests es = height_requests gc bc @ requests es'"
  using assms(3)
  by (cases r) (auto simp: run_swap_heights height_requests_def tip_rpc.replay_call_requests [OF assms(1)]
      btc_height_rpc.replay_call_requests [OF assms(2)])

lemma height_check_requests:
  assumes "factory_stub (grin_factory gc) = None" "factory_stub (btc_factory bc) = None"
    and "chk \<in> {check_if_enough_time L gc bc slate, can_refund L gc bc slate}"
    and "replay chk es = (Done b, es')"
  shows "requests es = height_requests gc bc @ requests es'"
proof -
  obtain r es1 where "replay (swap_heights L gc bc slate) es = (Done r, es1)" "es1 = es'"
    using assms(3,4) unfolding check_if_enough_time_def can_refund_def
    by (auto simp: run_simps split: prod.splits)
  with swap_heights_requests [OF assms(1,2)] show ?thesis by blast
qed

lemma quiet_can_refund: "quiet (can_refund L gc bc slate)"
  unfolding can_refund_def swap_heights_def
  by (intro quiet_pbind quiet_expect quiet_node_calls quiet_silent silentI)

lemma refused_phases:
  "replay (check_if_enough_time L gc bc slate) es = (Done False, es') \<Longrightarrow>
   phase \<in> {exec_phase_swap_mw L slate bc gc, exec_phase_swap_btc L slate bc gc} \<Longrightarrow>
   replay phase es = (Done (slate, Err ''Not enough time left to execute atomic swap''), es')"
  "replay (can_refund L gc bc slate) es = (Done False, es') \<Longrightarrow>
   phase \<in> {refund_phase_swap_mw L slate bc gc, refund_phase_swap_btc L slate bc gc} \<Longrightarrow>
   replay phase es = (Done (slate, Err ''Can't refund yet, too early''), es')"
  by (auto simp: exec_phase_swap_mw_def exec_phase_swap_btc_def refund_phase_swap_mw_def
      refund_phase_swap_btc_def replay_pbind replay.simps)

text \<open>
  C31. A phase that comes at the wrong time does nothing: where the check of the heights fails,
  execution and refund of either party end with an error after the two height requests; nothing is
  broadcast, no key is drawn, no line is written or read, and the swap stays as it was.
\<close>

theorem mistimed_phase_is_inert:
  assumes "(phase, check) \<in>
      {(exec_phase_swap_mw L slate bc gc, check_if_enough_time L gc bc slate),
       (exec_phase_swap_btc L slate bc gc, check_if_enough_time L gc bc slate),
       (refund_phase_swap_mw L slate bc gc, can_refund L gc bc slate),
       (refund_phase_swap_btc L slate bc gc, can_refund L gc bc slate)}"
    and "factory_stub (grin_factory gc) = None" "factory_stub (btc_factory bc) = None"
    and "replay check es = (Done False, [])"
  shows "\<exists>e. replay phase es = (Done (slate, Err e), []) \<and> requests es = height_requests gc bc \<and>
    written es = [] \<and> lines_read es = []"
proof -
  have c: "check \<in> {check_if_enough_time L gc bc slate, can_refund L gc bc slate}" "quiet check"
    using assms(1) quiet_check_if_enough_time quiet_can_refund by auto
  have "\<exists>e. replay phase es = (Done (slate, Err e), [])"
    using assms(1,4) refused_phases(1) [of L gc bc slate es "[]" phase]
      refused_phases(2) [of L gc bc slate es "[]" phase] by auto
  with height_check_requests [OF assms(2,3) c(1) assms(4)] quietD [OF c(2) assms(4)]
  show ?thesis by simp
qed

text \<open>
  C32. Execution and refund have disjoint windows: if some check allows the execution of a swap
  at one pair of heights and some check allows its refund at another, then the Grin height has
  grown by more than 60 blocks and the Bitcoin height by more than 6 in between. The hypotheses
  say that the heights at execution are far from the end of their 64 bit range.
\<close>

theorem refund_window_after_execution:
  assumes "replay (check_if_enough_time L gc bc slate) es = (Done True, [])"
    and "replay (swap_heights L gc bc slate) es = (Done (tg, tb, hg, hb), [])"
    and "replay (can_refund L gc' bc' slate) es' = (Done True, [])"
    and "replay (swap_heights L gc' bc' slate) es' = (Done (tg', tb', hg', hb'), [])"
    and "uint hg < 2 ^ 63" "uint hb < 2 ^ 63"
  shows "uint hg + 60 < uint hg' \<and> uint hb + 6 < uint hb'"
proof -
  have w: "uint (hg + 60) = uint hg + 60" "uint (hb + 6) = uint hb + 6"
    using assms(5,6) by (simp_all add: uint_word_ariths)
  have "uint (hg + 60) \<le> tg \<and> uint (hb + 6) \<le> tb"
    using check_if_enough_time_True [OF assms(1)] assms(2) by (auto simp: run_swap_heights)
  moreover have "tg' < uint hg' \<and> tb' < uint hb'"
    using can_refund_True [OF assms(3)] assms(4) by (auto simp: run_swap_heights)
  moreover have "tg' = tg" "tb' = tb" using assms(2,4) by (auto simp: run_swap_heights)
  ultimately show ?thesis using w by linarith
qed

end
