(* ===== verification/Commands.thy ===== *)
theory Commands
  imports Settlement
begin

text \<open>
  \<open>commands/\<close> and the rest of \<open>main.rs\<close>: the command line, the eight commands, and the program,
  which runs one command on the files of a swap and writes the swap back. A command takes the
  disk and returns its result with the disk; only \<open>accept\<close> changes it itself. The parse of the
  command line by \<open>clap\<close> is the argument of \<open>parse_arguments\<close>.
\<close>

section \<open>Commands\<close>

record Init =
  init_from :: Currency
  init_to :: Currency
  init_from_amount :: u64
  init_to_amount :: u64
  init_timeout_btc :: u64
  init_timeout_grin :: u64

record ImportBtc =
  ib_swpid :: u64
  ib_txid :: string
  ib_vout :: u32
  ib_value :: u64
  ib_sk :: string
  ib_pub_script :: string

record ImportGrin =
  ig_swpid :: u64
  ig_commitment :: string
  ig_blinding_factor :: string
  ig_value :: u64

datatype Command =
    CInit Init
  | CImportBtc ImportBtc
  | CImportGrin ImportGrin
  | CListen u64
  | CAccept u64
  | CLock u64
  | CCancel u64
  | CExecute u64

definition init_new :: "Currency \<Rightarrow> Currency \<Rightarrow> u64 \<Rightarrow> u64 \<Rightarrow> u64 \<Rightarrow> Init" where
  "init_new from to from_amount to_amount timeout_minutes =
     (let timeout_grin = timeout_minutes div GRIN_BLOCK_TIME;
          timeout_btc = timeout_minutes div BTC_BLOCK_TIME
      in \<lparr>init_from = from, init_to = to, init_from_amount = from_amount, init_to_amount = to_amount,
          init_timeout_btc = timeout_btc, init_timeout_grin = timeout_grin\<rparr>)"

section \<open>The command line\<close>

datatype ArgMatches = ArgMatches (subcommand: "(string \<times> ArgMatches) option") (value_of: "string \<Rightarrow> string option")

definition arg :: "ArgMatches \<Rightarrow> string \<Rightarrow> string proc" where
  "arg m name = unwrap ''value_of'' (value_of m name)"

definition arg_u64 :: "string \<Rightarrow> u64 proc" where
  "arg_u64 s = unwrap ''parse::<u64>'' (parse_u64 s)"

definition arg_u32 :: "string \<Rightarrow> u32 proc" where
  "arg_u32 s = unwrap ''parse::<u32>'' (parse_u32 s)"

definition amount_overflow :: "Currency \<Rightarrow> u64 \<Rightarrow> bool" where
  "amount_overflow cur amount \<longleftrightarrow>
     (cur = BTC \<and> amount > BTC_MAX_SATS) \<or> (cur = GRIN \<and> amount > GRIN_MAX_NANOGRIN)"

definition parse_init :: "ArgMatches \<Rightarrow> Command proc" where
  "parse_init args =
     pbind (arg args ''from-currency'') (\<lambda>from_currency_arg.
     pbind (arg args ''to-currency'') (\<lambda>to_currency_arg.
     pbind (arg args ''from-amount'') (\<lambda>from_amount_arg.
     pbind (arg args ''to-amount'') (\<lambda>to_amount_arg.
     pbind (arg args ''timeout'') (\<lambda>timeout_arg.
     pbind (parse_currency_from_string from_currency_arg) (\<lambda>from_currency.
     pbind (parse_currency_from_string to_currency_arg) (\<lambda>to_currency.
     pbind (arg_u64 from_amount_arg) (\<lambda>from_amount.
     pbind (arg_u64 to_amount_arg) (\<lambda>to_amount.
     pbind (arg_u64 timeout_arg) (\<lambda>timeout_min.
     if amount_overflow from_currency from_amount then Panic ''From amount is too high!''
     else if amount_overflow to_currency to_amount then Panic ''To amount is too high!''
     else if timeout_min > MAX_TIMEOUT then Panic ''Timeout too high! Max timeout is 5 days''
     else Ret (CInit (init_new from_currency to_currency from_amount to_amount timeout_min))))))))))))"

definition parse_import_btc :: "ArgMatches \<Rightarrow> Command proc" where
  "parse_import_btc args =
     pbind (arg args ''swapid'') (\<lambda>swapid_arg.
     pbind (arg args ''txid'') (\<lambda>txid.
     pbind (arg args ''vout'') (\<lambda>vout_arg.
     pbind (arg args ''value'') (\<lambda>value_arg.
     pbind (arg args ''sk'') (\<lambda>sk_wif.
     pbind (arg args ''pub_script'') (\<lambda>pub_script.
     pbind (arg_u64 swapid_arg) (\<lambda>swapid.
     pbind (arg_u32 vout_arg) (\<lambda>vout.
     pbind (arg_u64 value_arg) (\<lambda>value.
     Ret (CImportBtc \<lparr>ib_swpid = swapid, ib_txid = txid, ib_vout = vout, ib_value = value,
                      ib_sk = sk_wif, ib_pub_script = pub_script\<rparr>))))))))))"

definition parse_import_grin :: "ArgMatches \<Rightarrow> Command proc" where
  "parse_import_grin args =
     pbind (arg args ''swapid'') (\<lambda>swapid_arg.
     pbind (arg args ''commitment'') (\<lambda>commitment.
     pbind (arg args ''blinding_factor'') (\<lambda>blinding_factor.
     pbind (arg args ''value'') (\<lambda>value_arg.
     pbind (arg_u64 swapid_arg) (\<lambda>swapid.
     pbind (arg_u64 value_arg) (\<lambda>value.
     Ret (CImportGrin \<lparr>ig_swpid = swapid, ig_commitment = commitment,
                       ig_blinding_factor = blinding_factor, ig_value = value\<rparr>)))))))"

definition parse_swapid :: "(u64 \<Rightarrow> Command) \<Rightarrow> ArgMatches \<Rightarrow> Command proc" where
  "parse_swapid cmd args =
     pbind (arg args ''swapid'') (\<lambda>swapid_arg.
     pbind (arg_u64 swapid_arg) (\<lambda>swapid.
     Ret (cmd swapid)))"

definition parse_arguments :: "ArgMatches \<Rightarrow> (string, Command) result proc" where
  "parse_arguments matches =
     (case subcommand matches of
        None \<Rightarrow> Ret (Err ''Invalid command supplied'')
      | Some (name, args) \<Rightarrow>
          (if name = ''init'' then pbind (parse_init args) (\<lambda>c. Ret (Ok c))
           else if name = ''import'' then
             (case subcommand args of
                Some (sub, subargs) \<Rightarrow>
                  (if sub = ''btc'' then pbind (parse_import_btc subargs) (\<lambda>c. Ret (Ok c))
                   else if sub = ''grin'' then pbind (parse_import_grin subargs) (\<lambda>c. Ret (Ok c))
                   else Ret (Err ''Invalid subcommand for import supplied''))
              | None \<Rightarrow> Ret (Err ''Invalid subcommand for import supplied''))
           else if name = ''listen'' then pbind (parse_swapid CListen args) (\<lambda>c. Ret (Ok c))
           else if name = ''accept'' then pbind (parse_swapid CAccept args) (\<lambda>c. Ret (Ok c))
           else if name = ''lock'' then pbind (parse_swapid CLock args) (\<lambda>c. Ret (Ok c))
           else if name = ''cancel'' then pbind (parse_swapid CCancel args) (\<lambda>c. Ret (Ok c))
           else if name = ''execute'' then pbind (parse_swapid CExecute args) (\<lambda>c. Ret (Ok c))
           else Ret (Err ''Invalid command supplied'')))"

section \<open>Commands without a peer\<close>

definition init_execute :: "Init \<Rightarrow> Settings \<Rightarrow> (string, SwapSlate) result proc" where
  "init_execute c settings =
     FreshU64 (\<lambda>ident.
     if init_from c = BTC \<and> init_to c = GRIN \<or> init_from c = GRIN \<and> init_to c = BTC
     then
       let btc_amt = (if init_from c = BTC then init_from_amount c else init_to_amount c);
           mw_amt = (if init_from c = GRIN then init_from_amount c else init_to_amount c);
           btcpub = \<lparr>btc_amount = btc_amt, btc_timelock = init_timeout_btc c,
                     btc_swap_type = (if init_from c = BTC then OFFERED else REQUESTED),
                     btc_lock_time = None, pub_a = None, pub_b = None, pub_x = None\<rparr>;
           mwpub = \<lparr>mw_amount = mw_amt, mw_timelock = init_timeout_grin c, mw_lock_time = None,
                    mw_swap_type = (if init_from c = GRIN then OFFERED else REQUESTED)\<rparr>;
           mt = \<lparr>meta_server = tcp_addr settings, meta_port = tcp_port settings\<rparr>;
           pub = \<lparr>status = INITIALIZED, pub_mw = mwpub, pub_btc = btcpub, meta = mt\<rparr>
       in Ret (Ok \<lparr>swap_id = ident, pub_slate = pub, prv_slate = empty_priv\<rparr>)
     else Ret (Err ''Swapped currency setup not supported''))"

definition import_btc_execute ::
  "('z SwapLib_scheme) \<Rightarrow> ImportBtc \<Rightarrow> Settings \<Rightarrow> disk \<Rightarrow> (string, SwapSlate) result proc" where
  "import_btc_execute L c settings d =
     pbind (expect_proc ''Failed to read SwapSlate''
              (read_slate_from_disk L (ib_swpid c) (slate_directory settings) d)) (\<lambda>slate.
     pbind (unwrap ''Unable to parse private key, please provide in WIF format''
              (from_wif L (ib_sk c))) (\<lambda>sk.
     let pk = public_key L sk;
         inp = \<lparr>bi_txid = ib_txid c, bi_vout = ib_vout c, bi_value = ib_value c,
                bi_secret = to_wif L sk, bi_pub_key = btc_pk_to_string L pk,
                bi_pub_script = ib_pub_script c\<rparr>
     in Ret (Ok (upd_btc_prv (\<lambda>b. b\<lparr>btc_inputs := btc_inputs b @ [inp]\<rparr>) slate))))"

definition import_grin_execute ::
  "('z SwapLib_scheme) \<Rightarrow> ImportGrin \<Rightarrow> Settings \<Rightarrow> disk \<Rightarrow> (string, SwapSlate) result proc" where
  "import_grin_execute L c settings d =
     pbind (expect_proc ''Failed to read SwapSlate from file''
              (read_slate_from_disk L (ig_swpid c) (slate_directory settings) d)) (\<lambda>slate.
     let coin = \<lparr>mw_commitment = ig_commitment c, mw_blinding_factor = ig_blinding_factor c,
                 mw_value = ig_value c\<rparr>
     in Ret (Ok (upd_mw_prv (\<lambda>m. m\<lparr>mw_inputs := mw_inputs m @ [coin]\<rparr>) slate)))"

definition accept_execute ::
  "('z SwapLib_scheme) \<Rightarrow> u64 \<Rightarrow> Settings \<Rightarrow> disk \<Rightarrow> ((string, SwapSlate) result \<times> disk) proc" where
  "accept_execute L swapid settings d =
     pbind (create_priv_from_pub L swapid (slate_directory settings) d) (\<lambda>(r, d).
     pbind (unwrap_res ''Unable to locate public slate file'' r) (\<lambda>slate.
     Ret (Ok slate, d)))"

section \<open>Commands that call a peer\<close>

definition cmd_btc_core :: "Settings \<Rightarrow> BitcoinCore" where
  "cmd_btc_core settings = bitcoin_core_new (btc_settings settings) (request_factory_new None)"

definition cmd_grin_core :: "Settings \<Rightarrow> GrinCore" where
  "cmd_grin_core settings = grin_core_new (grin_settings settings) (request_factory_new None)"

text \<open>\<open>?\<close> at the end of a command: the phase's error is the command's, its swap the result.\<close>

definition finish_phase :: "phase \<Rightarrow> (string, SwapSlate) result proc" where
  "finish_phase p = pbind p (\<lambda>(slate, r). case r of Inl e \<Rightarrow> Ret (Err e) | Inr _ \<Rightarrow> Ret (Ok slate))"

text \<open>What \<open>lock\<close>, \<open>execute\<close> and \<open>cancel\<close> start with: read the swap, connect to the peer, send the
  checksum of the public half and wait for the answer.\<close>

definition call_peer ::
  "('z SwapLib_scheme) \<Rightarrow> u64 \<Rightarrow> Settings \<Rightarrow> disk \<Rightarrow> (SwapSlate \<times> bool) proc" where
  "call_peer L swapid settings d =
     pbind (expect_proc ''Unable to read slate files from disk''
              (read_slate_from_disk L swapid (slate_directory settings) d)) (\<lambda>slate.
     Connect (meta_server (meta (pub_slate slate)) @ '':'' @ meta_port (meta (pub_slate slate))) (\<lambda>connected.
     if \<not> connected then Panic ''Failed to connect to peer via TCP''
     else
       pbind (unwrap_res ''get_slate_checksum''
                (get_slate_checksum L (swap_id slate) (slate_directory settings) d)) (\<lambda>checksum.
       pbind (send_msg checksum) (\<lambda>_.
       pbind receive_msg (\<lambda>resp.
       Ret (slate, eq_ignore_ascii_case resp ''OK''))))))"

definition lock_execute ::
  "('z SwapLib_scheme) \<Rightarrow> u64 \<Rightarrow> Settings \<Rightarrow> disk \<Rightarrow> (string, SwapSlate) result proc" where
  "lock_execute L swapid settings d =
     pbind (call_peer L swapid settings d) (\<lambda>(slate, ok).
     if \<not> ok then Ret (Err ''Checksums didn't match!'')
     else if status (pub_slate slate) \<noteq> INITIALIZED
     then Ret (Err ''Slate is not in initialized state!'')
     else if btc_swap_type (pub_btc (pub_slate slate)) = OFFERED
     then finish_phase (locking_phase_swap_mw L slate (cmd_grin_core settings) (cmd_btc_core settings))
     else finish_phase (locking_phase_swap_btc L slate (cmd_btc_core settings)))"

definition execute_execute ::
  "('z SwapLib_scheme) \<Rightarrow> u64 \<Rightarrow> Settings \<Rightarrow> disk \<Rightarrow> (string, SwapSlate) result proc" where
  "execute_execute L swapid settings d =
     pbind (call_peer L swapid settings d) (\<lambda>(slate, ok).
     if \<not> ok then Ret (Err ''Checksums didn't match'')
     else if status (pub_slate slate) \<noteq> SETUP
     then Ret (Err ''Slate must be in state SETUP to be executed'')
     else
       pbind (send_msg ''EXECUTE'') (\<lambda>_.
       if btc_swap_type (pub_btc (pub_slate slate)) = OFFERED
       then finish_phase (exec_phase_swap_mw L slate (cmd_btc_core settings) (cmd_grin_core settings))
       else finish_phase (exec_phase_swap_btc L slate (cmd_btc_core settings) (cmd_grin_core settings))))"

definition cancel_execute ::
  "('z SwapLib_scheme) \<Rightarrow> u64 \<Rightarrow> Settings \<Rightarrow> disk \<Rightarrow> (string, SwapSlate) result proc" where
  "cancel_execute L swapid settings d =
     pbind (call_peer L swapid settings d) (\<lambda>(slate, ok).
     if \<not> ok then Ret (Err ''Checksums didn't match'')
     else if status (pub_slate slate) \<noteq> SETUP
     then Ret (Err ''Slate must be in state SETUP to be executed'')
     else
       pbind (send_msg ''CANCEL'') (\<lambda>_.
       if btc_swap_type (pub_btc (pub_slate slate)) = OFFERED
       then finish_phase (refund_phase_swap_mw L slate (cmd_btc_core settings) (cmd_grin_core settings))
       else finish_phase (refund_phase_swap_btc L slate (cmd_btc_core settings) (cmd_grin_core settings))))"

section \<open>The listener\<close>

definition offered_value :: "SwapSlate \<Rightarrow> u64" where
  "offered_value slate =
     (if mw_swap_type (pub_mw (pub_slate slate)) = OFFERED
      then sum_mw (mw_inputs (prv_mw (prv_slate slate)))
      else sum_values (btc_inputs (prv_btc (prv_slate slate))))"

definition from_amount :: "SwapSlate \<Rightarrow> u64" where
  "from_amount slate =
     (if mw_swap_type (pub_mw (pub_slate slate)) = OFFERED then mw_amount (pub_mw (pub_slate slate))
      else btc_amount (pub_btc (pub_slate slate)))"

text \<open>One client; \<open>None\<close> means that the loop goes on to the next one.\<close>

definition serve_client ::
  "('z SwapLib_scheme) \<Rightarrow> SwapSlate \<Rightarrow> Settings \<Rightarrow> disk \<Rightarrow> (string, SwapSlate) result option proc" where
  "serve_client L slate settings d =
     (let btc_core = cmd_btc_core settings;
          grin_core = cmd_grin_core settings;
          offers_btc = (btc_swap_type (pub_btc (pub_slate slate)) = OFFERED);
          leave = (\<lambda>p. pbind (finish_phase p) (\<lambda>r. Ret (Some r)))
      in
      pbind receive_msg (\<lambda>msg.
      pbind (unwrap_res ''get_slate_checksum''
               (get_slate_checksum L (swap_id slate) (slate_directory settings) d)) (\<lambda>checksum.
      if eq_ignore_ascii_case msg checksum
      then
        pbind (send_msg ''OK'') (\<lambda>_.
        if status (pub_slate slate) = INITIALIZED
        then (if offers_btc then leave (locking_phase_swap_btc L slate btc_core)
              else leave (locking_phase_swap_mw L slate grin_core btc_core))
        else if status (pub_slate slate) = SETUP
        then
          pbind receive_msg (\<lambda>msg.
          if msg = ''EXECUTE''
          then (if offers_btc then leave (exec_phase_swap_btc L slate btc_core grin_core)
                else leave (exec_phase_swap_mw L slate btc_core grin_core))
          else (if offers_btc then leave (refund_phase_swap_btc L slate btc_core grin_core)
                else leave (refund_phase_swap_mw L slate btc_core grin_core)))
        else Ret None)
      else
        pbind (send_msg ''FAULT'') (\<lambda>_. Ret None))))"

text \<open>The loop over incoming connections never ends by itself; the fuel is the number of clients
  it may serve.\<close>

fun listen_loop ::
  "nat \<Rightarrow> ('z SwapLib_scheme) \<Rightarrow> SwapSlate \<Rightarrow> Settings \<Rightarrow> disk \<Rightarrow> (string, SwapSlate) result proc" where
  "listen_loop 0 L slate settings d = NoFuel"
| "listen_loop (Suc n) L slate settings d =
     Accept (\<lambda>client.
     if \<not> client then Panic ''client''
     else
       pbind (serve_client L slate settings d) (\<lambda>r.
       case r of Some res \<Rightarrow> Ret res | None \<Rightarrow> listen_loop n L slate settings d))"

definition listen_execute ::
  "nat \<Rightarrow> ('z SwapLib_scheme) \<Rightarrow> u64 \<Rightarrow> Settings \<Rightarrow> disk \<Rightarrow> (string, SwapSlate) result proc" where
  "listen_execute fuel L swapid settings d =
     pbind (expect_proc ''Failed to read SwapSlate from file''
              (read_slate_from_disk L swapid (slate_directory settings) d)) (\<lambda>slate.
     if status (pub_slate slate) \<noteq> SETUP \<and> offered_value slate < from_amount slate
     then Ret (Err ''Not enough value in inputs, please import more Coins'')
     else
       Bind (tcp_addr settings @ '':'' @ tcp_port settings) (\<lambda>bound.
       if \<not> bound then Panic ''TcpListener::bind''
       else listen_loop fuel L slate settings d))"

section \<open>The program\<close>

fun cmd_execute ::
  "nat \<Rightarrow> ('z SwapLib_scheme) \<Rightarrow> Command \<Rightarrow> Settings \<Rightarrow> disk \<Rightarrow> ((string, SwapSlate) result \<times> disk) proc" where
  "cmd_execute fuel L (CInit c) settings d = pbind (init_execute c settings) (\<lambda>r. Ret (r, d))"
| "cmd_execute fuel L (CImportBtc c) settings d = pbind (import_btc_execute L c settings d) (\<lambda>r. Ret (r, d))"
| "cmd_execute fuel L (CImportGrin c) settings d = pbind (import_grin_execute L c settings d) (\<lambda>r. Ret (r, d))"
| "cmd_execute fuel L (CListen i) settings d = pbind (listen_execute fuel L i settings d) (\<lambda>r. Ret (r, d))"
| "cmd_execute fuel L (CAccept i) settings d = accept_execute L i settings d"
| "cmd_execute fuel L (CLock i) settings d = pbind (lock_execute L i settings d) (\<lambda>r. Ret (r, d))"
| "cmd_execute fuel L (CCancel i) settings d = pbind (cancel_execute L i settings d) (\<lambda>r. Ret (r, d))"
| "cmd_execute fuel L (CExecute i) settings d = pbind (execute_execute L i settings d) (\<lambda>r. Ret (r, d))"

definition parse_json_string :: "('z SwapLib_scheme) \<Rightarrow> string \<Rightarrow> Settings proc" where
  "parse_json_string L json = unwrap ''serde_json::from_str'' (from_str_settings L json)"

definition main ::
  "nat \<Rightarrow> ('z SwapLib_scheme) \<Rightarrow> (string \<Rightarrow> string option) \<Rightarrow> string list \<Rightarrow> ArgMatches \<Rightarrow> disk \<Rightarrow> disk proc" where
  "main fuel L env args matches d =
     pbind (unwrap ''Something went wrong reading the settings file'' (d ''config/settings.json'')) (\<lambda>contents.
     pbind (parse_json_string L contents) (\<lambda>read_settings.
     let settings = overwrite_settings_with_env env read_settings
     in if length args \<le> 1 then Ret d
        else
          pbind (expect_proc ''Failed to parse command line arguments'' (parse_arguments matches)) (\<lambda>cmd.
          pbind (cmd_execute fuel L cmd settings d) (\<lambda>(r, d).
          pbind (unwrap_res ''Command execution failed'' r) (\<lambda>slate.
          Ret (write_slate_to_disk L slate (slate_directory settings) True True d))))))"

end
