(* ===== verification/Program.thy ===== *)
theory Program
  imports Commands
begin

text \<open>
  The program over many runs: what a run of \<open>main\<close> does to the files of the swaps, and what any
  sequence of runs leaves unchanged.
\<close>

declare replay.simps [simp del]

section \<open>What every phase keeps\<close>

text \<open>The terms of a swap: amounts, time locks, who offers what, and where the other party is.\<close>

definition swap_terms :: "SwapSlatePub \<Rightarrow> (u64 \<times> u64 \<times> SwapType) \<times> (u64 \<times> u64 \<times> SwapType) \<times> Meta" where
  "swap_terms p =
     ((mw_amount (pub_mw p), mw_timelock (pub_mw p), mw_swap_type (pub_mw p)),
      (btc_amount (pub_btc p), btc_timelock (pub_btc p), btc_swap_type (pub_btc p)), meta p)"

definition same_swap :: "SwapSlate \<Rightarrow> SwapSlate \<Rightarrow> bool" where
  "same_swap s s' \<longleftrightarrow> swap_id s' = swap_id s \<and> swap_terms (pub_slate s') = swap_terms (pub_slate s)"

lemma same_swap_upd [simp]:
  "same_swap s (upd_btc_prv f s') \<longleftrightarrow> same_swap s s'" "same_swap s (upd_mw_prv g s') \<longleftrightarrow> same_swap s s'"
  "same_swap s (set_status st s') \<longleftrightarrow> same_swap s s'" "same_swap s s"
  by (auto simp: same_swap_def swap_terms_def upd_btc_prv_def upd_mw_prv_def set_status_def)

lemma same_swap_pub [simp]:
  "same_swap s (upd_btc_pub (\<lambda>b. b\<lparr>pub_a := a\<rparr>) s') \<longleftrightarrow> same_swap s s'"
  "same_swap s (upd_btc_pub (\<lambda>b. b\<lparr>pub_b := a\<rparr>) s') \<longleftrightarrow> same_swap s s'"
  "same_swap s (upd_btc_pub (\<lambda>b. b\<lparr>pub_x := a\<rparr>) s') \<longleftrightarrow> same_swap s s'"
  "same_swap s (upd_btc_pub (\<lambda>b. b\<lparr>btc_lock_time := t\<rparr>) s') \<longleftrightarrow> same_swap s s'"
  "same_swap s (upd_mw_pub (\<lambda>b. b\<lparr>mw_lock_time := t\<rparr>) s') \<longleftrightarrow> same_swap s s'"
  by (auto simp: same_swap_def swap_terms_def upd_btc_pub_def upd_mw_pub_def)

text \<open>Every swap a phase ends with, be it in success or with an error, satisfies \<open>Q\<close>.\<close>

named_theorems endsI \<open>introduction rules for what a phase ends with\<close>

definition ends_with :: "(SwapSlate \<Rightarrow> bool) \<Rightarrow> phase \<Rightarrow> bool" where
  "ends_with Q p \<longleftrightarrow> (\<forall>es s r es'. replay p es = (Done (s, r), es') \<longrightarrow> Q s)"

lemma ends_withD: "ends_with Q p \<Longrightarrow> replay p es = (Done (s, r), es') \<Longrightarrow> Q s"
  unfolding ends_with_def by blast

lemma ends_Ret [endsI]: "Q s \<Longrightarrow> ends_with Q (Ret (s, r))"
  by (auto simp: ends_with_def run_simps)

lemma ends_pbind [endsI]: "(\<And>x. ends_with Q (f x)) \<Longrightarrow> ends_with Q (pbind p f)"
  unfolding ends_with_def run_pbind by blast

lemma ends_try_phase [endsI]:
  "Q s \<Longrightarrow> (\<And>x. ends_with Q (f x)) \<Longrightarrow> ends_with Q (try_phase s p f)"
  unfolding try_phase_def by (rule ends_pbind) (auto intro: ends_Ret split: sum.split)

lemma ends_if [endsI]: "ends_with Q p \<Longrightarrow> ends_with Q q \<Longrightarrow> ends_with Q (if b then p else q)"
  by simp

lemma phases_keep_terms:
  "ends_with (same_swap s) (locking_phase_swap_mw L s gc bc)" "ends_with (same_swap s) (locking_phase_swap_btc L s bc)"
  "ends_with (same_swap s) (exec_phase_swap_mw L s bc gc)" "ends_with (same_swap s) (exec_phase_swap_btc L s bc gc)"
  "ends_with (same_swap s) (refund_phase_swap_mw L s bc gc)" "ends_with (same_swap s) (refund_phase_swap_btc L s bc gc)"
  unfolding locking_phase_swap_mw_def locking_phase_swap_btc_def exec_phase_swap_mw_def exec_phase_swap_btc_def
    refund_phase_swap_mw_def refund_phase_swap_btc_def lock_mw_grin_def lock_btc_grin_def Let_def
  by (intro endsI; simp)+


section \<open>The states of a swap\<close>

text \<open>Where a successful phase leaves the swap, and the order of the states that are stored.\<close>

fun status_next :: "SwapStatus \<Rightarrow> SwapStatus \<Rightarrow> bool" where
  "status_next INITIALIZED st \<longleftrightarrow> st = SETUP"
| "status_next SETUP st \<longleftrightarrow> st = FINISHED \<or> st = FAILED"
| "status_next _ st \<longleftrightarrow> False"

lemma locking_status:
  "replay (locking_phase_swap_mw L s gc bc) es = (Done (s', Inr u), es') \<Longrightarrow> status (pub_slate s') = SETUP"
  "replay (locking_phase_swap_btc L s bc) es = (Done (s', Inr u), es') \<Longrightarrow> status (pub_slate s') = SETUP"
  by (erule locking_phase_swap_mw_Ok, simp) (erule locking_phase_swap_btc_Ok, simp)

lemma execution_status:
  "replay (exec_phase_swap_mw L s bc gc) es = (Done (s', Inr u), es') \<Longrightarrow> status (pub_slate s') = FINISHED"
  "replay (exec_phase_swap_btc L s bc gc) es = (Done (s', Inr u), es') \<Longrightarrow> status (pub_slate s') = FINISHED"
  by (erule exec_phase_swap_mw_Ok, simp) (erule exec_phase_swap_btc_Ok, simp)

lemma refund_status:
  "replay (refund_phase_swap_mw L s bc gc) es = (Done (s', Inr u), es') \<Longrightarrow> status (pub_slate s') = FAILED"
  "replay (refund_phase_swap_btc L s bc gc) es = (Done (s', Inr u), es') \<Longrightarrow> status (pub_slate s') = FAILED"
proof -
  show "status (pub_slate s') = FAILED" if "replay (refund_phase_swap_mw L s bc gc) es = (Done (s', Inr u), es')"
    using that unfolding refund_phase_swap_mw_def by (simp only: run_simps) auto
qed (erule refund_phase_swap_btc_Ok, simp)

lemmas phase_status = locking_status execution_status refund_status

lemma run_finish_phase [run_simps]:
  "replay (finish_phase p) es = (Done (Inr s), es') \<longleftrightarrow> (\<exists>u. replay p es = (Done (s, Inr u), es'))"
proof
  assume "replay (finish_phase p) es = (Done (Inr s), es')"
  then obtain s1 r es1 where "replay p es = (Done (s1, r), es1)"
    "replay (case r of Inl e \<Rightarrow> Ret (Err e) | Inr _ \<Rightarrow> Ret (Ok s1)) es1 = (Done (Inr s), es')"
    unfolding finish_phase_def run_pbind by auto
  then show "\<exists>u. replay p es = (Done (s, Inr u), es')" by (cases r) (auto simp: run_simps)
qed (auto simp: finish_phase_def run_simps)

definition swap_moves :: "SwapSlate \<Rightarrow> SwapSlate \<Rightarrow> bool" where
  "swap_moves s s' \<longleftrightarrow> same_swap s s' \<and> status_next (status (pub_slate s)) (status (pub_slate s'))"

text \<open>A phase that a command or the listener runs to success moves the swap one state on.\<close>

lemma phase_moves:
  "status (pub_slate s) = INITIALIZED \<Longrightarrow>
     replay (locking_phase_swap_mw L s gc bc) es = (Done (s', Inr u), es') \<Longrightarrow> swap_moves s s'"
  "status (pub_slate s) = INITIALIZED \<Longrightarrow>
     replay (locking_phase_swap_btc L s bc) es = (Done (s', Inr u), es') \<Longrightarrow> swap_moves s s'"
  "status (pub_slate s) = SETUP \<Longrightarrow>
     replay (exec_phase_swap_mw L s bc gc) es = (Done (s', Inr u), es') \<Longrightarrow> swap_moves s s'"
  "status (pub_slate s) = SETUP \<Longrightarrow>
     replay (exec_phase_swap_btc L s bc gc) es = (Done (s', Inr u), es') \<Longrightarrow> swap_moves s s'"
  "status (pub_slate s) = SETUP \<Longrightarrow>
     replay (refund_phase_swap_mw L s bc gc) es = (Done (s', Inr u), es') \<Longrightarrow> swap_moves s s'"
  "status (pub_slate s) = SETUP \<Longrightarrow>
     replay (refund_phase_swap_btc L s bc gc) es = (Done (s', Inr u), es') \<Longrightarrow> swap_moves s s'"
  unfolding swap_moves_def
  by (simp_all add: phase_status phases_keep_terms [THEN ends_withD])

lemma silent_read_slate [silentI]: "silent (read_slate_from_disk L i dir d)"
  unfolding read_slate_from_disk_def by (auto split: option.splits)

lemmas run_read_slate_from_disk [run_simps] = silent_read_slate [THEN run_silent]

lemma run_Connect [run_simps]:
  "replay (Connect a k) es = (Done r, es') \<longleftrightarrow> (\<exists>b es1. es = EConnect a b # es1 \<and> replay (k b) es1 = (Done r, es'))"
  "replay (Bind a k) es = (Done r, es') \<longleftrightarrow> (\<exists>b es1. es = EBind a b # es1 \<and> replay (k b) es1 = (Done r, es'))"
  "replay (Accept k) es = (Done r, es') \<longleftrightarrow> (\<exists>b es1. es = EAccept b # es1 \<and> replay (k b) es1 = (Done r, es'))"
  by (auto simp: replay.simps split: list.splits event.splits if_splits)

lemma run_call_peer:
  assumes "replay (call_peer L i st d) es = (Done (s, ok), es')"
  obtains a c ack m es1 where "read_slate_from_disk L i (slate_directory st) d = Ret (Ok s)"
    "get_slate_checksum L (swap_id s) (slate_directory st) d = Ok c"
    "ok \<longleftrightarrow> eq_ignore_ascii_case (msg_of m) ''OK''"
    "es = EConnect a True # EWrite (line c) (Ok ()) # ERead (Ok ack) # ERead (Ok m) # EWrite (line ''ACK'') (Ok ()) # es'"
proof -
  have "\<exists>a c ack m. read_slate_from_disk L i (slate_directory st) d = Ret (Ok s) \<and>
    get_slate_checksum L (swap_id s) (slate_directory st) d = Ok c \<and>
    ok = eq_ignore_ascii_case (msg_of m) ''OK'' \<and>
    es = EConnect a True # EWrite (line c) (Ok ()) # ERead (Ok ack) # ERead (Ok m) # EWrite (line ''ACK'') (Ok ()) # es'"
    using assms unfolding call_peer_def
    by (simp only: run_simps) (auto simp: msg_of_def run_simps split: if_splits)
  then show thesis using that by blast
qed


section \<open>What a command does to a swap\<close>

lemma peer_commands_move:
  "replay (lock_execute L i st d) es = (Done (Inr s'), es') \<Longrightarrow>
   \<exists>s. read_slate_from_disk L i (slate_directory st) d = Ret (Ok s) \<and> swap_moves s s'"
  "replay (execute_execute L i st d) es = (Done (Inr s'), es') \<Longrightarrow>
   \<exists>s. read_slate_from_disk L i (slate_directory st) d = Ret (Ok s) \<and> swap_moves s s'"
  "replay (cancel_execute L i st d) es = (Done (Inr s'), es') \<Longrightarrow>
   \<exists>s. read_slate_from_disk L i (slate_directory st) d = Ret (Ok s) \<and> swap_moves s s'"
  unfolding lock_execute_def execute_execute_def cancel_execute_def
  by (auto simp: run_simps elim!: run_call_peer split: if_splits dest: phase_moves)

lemma serve_client_moves:
  "replay (serve_client L s st d) es = (Done (Some (Inr s')), es') \<Longrightarrow> swap_moves s s'"
  unfolding serve_client_def Let_def
  by (auto simp: run_simps split: if_splits dest: phase_moves)

lemma listen_loop_moves:
  "replay (listen_loop n L s st d) es = (Done (Inr s'), es') \<Longrightarrow> swap_moves s s'"
proof (induction n arbitrary: es)
  case 0
  then show ?case by (simp add: replay.simps)
next
  case (Suc n)
  then obtain r es1 es2 where "replay (serve_client L s st d) es1 = (Done r, es2)"
    "replay (case r of Some res \<Rightarrow> Ret res | None \<Rightarrow> listen_loop n L s st d) es2 = (Done (Inr s'), es')"
    by (auto simp: run_simps split: if_splits)
  with Suc.IH serve_client_moves show ?case by (auto simp: run_simps split: option.splits)
qed

lemma listen_moves:
  "replay (listen_execute n L i st d) es = (Done (Inr s'), es') \<Longrightarrow>
   \<exists>s. read_slate_from_disk L i (slate_directory st) d = Ret (Ok s) \<and> swap_moves s s'"
  unfolding listen_execute_def by (auto simp: run_simps split: if_splits dest: listen_loop_moves)

lemma import_keeps:
  "replay (import_btc_execute L c st d) es = (Done (Inr s'), es') \<Longrightarrow>
   \<exists>s. read_slate_from_disk L (ib_swpid c) (slate_directory st) d = Ret (Ok s) \<and> swap_id s' = swap_id s \<and> pub_slate s' = pub_slate s"
  "replay (import_grin_execute L c' st d) es = (Done (Inr s'), es') \<Longrightarrow>
   \<exists>s. read_slate_from_disk L (ig_swpid c') (slate_directory st) d = Ret (Ok s) \<and> swap_id s' = swap_id s \<and> pub_slate s' = pub_slate s"
  unfolding import_btc_execute_def import_grin_execute_def Let_def
  by (auto simp: run_simps upd_btc_prv_def upd_mw_prv_def)

lemma accept_keeps:
  assumes "replay (accept_execute L i st d) es = (Done (Inr s', d'), es')"
  shows "\<exists>t. d (get_slate_path i (slate_directory st) True) = Some t \<and> from_str_pub L t = Some (pub_slate s') \<and>
    swap_id s' = i \<and> prv_slate s' = empty_priv \<and> d' = write_slate_to_disk L s' (slate_directory st) True False d"
  using assms unfolding accept_execute_def create_priv_from_pub_def
  by (auto simp: run_simps Let_def split: option.splits sum.splits)

lemma read_slate_id: "read_slate_from_disk L i dir d = Ret (Ok s) \<Longrightarrow> swap_id s = i"
  by (auto simp: read_slate_from_disk_def pbind_eq_Ret split: option.splits)

text \<open>Every command but \<open>init\<close> works on one swap of the disk and either keeps its public half or moves
  it one state on; only files of that swap may change.\<close>

definition public_step :: "SwapSlate \<Rightarrow> SwapSlate \<Rightarrow> bool" where
  "public_step s s' \<longleftrightarrow> swap_id s' = swap_id s \<and> pub_slate s' = pub_slate s \<or> swap_moves s s'"

lemma public_step_on_disk:
  assumes "\<exists>s. read_slate_from_disk L i dir d = Ret (Ok s) \<and> public_step s s'"
    and "read_slate_from_disk L (swap_id s') dir d = Ret (Ok s)"
  shows "public_step s s'"
proof -
  obtain s0 where s0: "read_slate_from_disk L i dir d = Ret (Ok s0)" "public_step s0 s'" using assms(1) by blast
  have "swap_id s' = i"
    using s0(2) read_slate_id [OF s0(1)] by (auto simp: public_step_def swap_moves_def same_swap_def)
  with s0 assms(2) show ?thesis by simp
qed

lemma command_steps:
  "replay (import_btc_execute L cb st d) es = (Done (Inr s'), es') \<Longrightarrow>
   \<exists>s. read_slate_from_disk L (ib_swpid cb) (slate_directory st) d = Ret (Ok s) \<and> public_step s s'"
  "replay (import_grin_execute L cg st d) es = (Done (Inr s'), es') \<Longrightarrow>
   \<exists>s. read_slate_from_disk L (ig_swpid cg) (slate_directory st) d = Ret (Ok s) \<and> public_step s s'"
  "replay (listen_execute n L i st d) es = (Done (Inr s'), es') \<Longrightarrow>
   \<exists>s. read_slate_from_disk L i (slate_directory st) d = Ret (Ok s) \<and> public_step s s'"
  "replay (lock_execute L i st d) es = (Done (Inr s'), es') \<Longrightarrow>
   \<exists>s. read_slate_from_disk L i (slate_directory st) d = Ret (Ok s) \<and> public_step s s'"
  "replay (cancel_execute L i st d) es = (Done (Inr s'), es') \<Longrightarrow>
   \<exists>s. read_slate_from_disk L i (slate_directory st) d = Ret (Ok s) \<and> public_step s s'"
  "replay (execute_execute L i st d) es = (Done (Inr s'), es') \<Longrightarrow>
   \<exists>s. read_slate_from_disk L i (slate_directory st) d = Ret (Ok s) \<and> public_step s s'"
  unfolding public_step_def by (auto dest!: import_keeps listen_moves peer_commands_move)

lemma command_result:
  assumes "replay (cmd_execute fuel L cmd st d) es = (Done (Inr s', d'), es')"
  shows "(\<exists>c. cmd = CInit c \<and> EU64 (swap_id s') \<in> set es \<and> d' = d) \<or>
    (\<forall>s. read_slate_from_disk L (swap_id s') (slate_directory st) d = Ret (Ok s) \<longrightarrow> public_step s s') \<and>
    (d' = d \<or> d' = write_slate_to_disk L s' (slate_directory st) True False d)"
proof (cases cmd)
  case (CInit c)
  with assms show ?thesis
    by (auto simp: init_execute_def run_simps Let_def split: if_splits)
next
  case (CAccept i)
  with assms accept_keeps show ?thesis
    by (fastforce simp: public_step_def read_slate_from_disk_def pbind_eq_Ret split: option.splits)
next
  case (CImportBtc c)
  with assms have r: "replay (import_btc_execute L c st d) es = (Done (Inr s'), es')" "d' = d" by (auto simp: run_simps)
  with public_step_on_disk [OF command_steps(1) [OF r(1)]] show ?thesis by blast
next
  case (CImportGrin c)
  with assms have r: "replay (import_grin_execute L c st d) es = (Done (Inr s'), es')" "d' = d" by (auto simp: run_simps)
  with public_step_on_disk [OF command_steps(2) [OF r(1)]] show ?thesis by blast
next
  case (CListen i)
  with assms have r: "replay (listen_execute fuel L i st d) es = (Done (Inr s'), es')" "d' = d" by (auto simp: run_simps)
  with public_step_on_disk [OF command_steps(3) [OF r(1)]] show ?thesis by blast
next
  case (CLock i)
  with assms have r: "replay (lock_execute L i st d) es = (Done (Inr s'), es')" "d' = d" by (auto simp: run_simps)
  with public_step_on_disk [OF command_steps(4) [OF r(1)]] show ?thesis by blast
next
  case (CCancel i)
  with assms have r: "replay (cancel_execute L i st d) es = (Done (Inr s'), es')" "d' = d" by (auto simp: run_simps)
  with public_step_on_disk [OF command_steps(5) [OF r(1)]] show ?thesis by blast
next
  case (CExecute i)
  with assms have r: "replay (execute_execute L i st d) es = (Done (Inr s'), es')" "d' = d" by (auto simp: run_simps)
  with public_step_on_disk [OF command_steps(6) [OF r(1)]] show ?thesis by blast
qed


section \<open>What a run of the program does to the disk\<close>

definition settings_of ::
  "('z SwapLib_scheme) \<Rightarrow> (string \<Rightarrow> string option) \<Rightarrow> disk \<Rightarrow> Settings option" where
  "settings_of L env d =
     (case d ''config/settings.json'' of
        None \<Rightarrow> None
      | Some t \<Rightarrow> map_option (overwrite_settings_with_env env) (from_str_settings L t))"

lemma silent_parse_arguments: "silent (parse_arguments m)"
  unfolding parse_arguments_def parse_init_def parse_import_btc_def parse_import_grin_def parse_swapid_def
    arg_def arg_u64_def arg_u32_def parse_currency_from_string_def
  by (intro silentI)

lemma main_Done:
  assumes "replay (main fuel L env args matches d) es = (Done d', es')"
  obtains st where "settings_of L env d = Some st" "d' = d"
  | st cmd s d1 where "settings_of L env d = Some st" "parse_arguments matches = Ret (Ok cmd)"
      "replay (cmd_execute fuel L cmd st d) es = (Done (Inr s, d1), es')"
      "d' = write_slate_to_disk L s (slate_directory st) True True d1"
proof -
  from assms obtain t rs where t: "d ''config/settings.json'' = Some t" "from_str_settings L t = Some rs"
    and r: "length args \<le> 1 \<and> d' = d \<or> (\<exists>cmd s d1. parse_arguments matches = Ret (Ok cmd) \<and>
      replay (cmd_execute fuel L cmd (overwrite_settings_with_env env rs) d) es = (Done (Inr s, d1), es') \<and>
      d' = write_slate_to_disk L s (slate_directory (overwrite_settings_with_env env rs)) True True d1)"
    unfolding main_def parse_json_string_def Let_def
    by (auto simp: run_simps run_silent [OF silent_parse_arguments] split: if_splits prod.splits)
  then have "settings_of L env d = Some (overwrite_settings_with_env env rs)" by (simp add: settings_of_def)
  with r that show thesis by blast
qed

lemma config_is_no_slate [simp]: "get_slate_path i dir p \<noteq> ''config/settings.json''"
proof
  assume "get_slate_path i dir p = ''config/settings.json''"
  then have "rev (get_slate_path i dir p) = rev ''config/settings.json''" by simp
  then show False by (simp add: get_slate_path_def split: if_splits)
qed

lemma write_slate_config [simp]:
  "write_slate_to_disk L s dir wp wb d ''config/settings.json'' = d ''config/settings.json''"
proof -
  have "''config/settings.json'' \<noteq> get_slate_path i dir p" for i p using config_is_no_slate [of i dir p] by metis
  then show ?thesis by (simp add: write_slate_to_disk_def create_if_missing_def Let_def)
qed

lemma read_written:
  "swap_json_laws L \<Longrightarrow> read_slate_from_disk L (swap_id s) dir (write_slate_to_disk L s dir True True d) = Ret (Ok s)"
  by (simp add: read_slate_from_disk_def write_slate_own swap_json_laws_def)

lemma read_other:
  "i \<noteq> swap_id s \<Longrightarrow> read_slate_from_disk L i dir (write_slate_to_disk L s dir wp wb d) = read_slate_from_disk L i dir d"
  by (simp add: read_slate_from_disk_def write_slate_other)

text \<open>Identifiers drawn in a run belong to no swap on the disk.\<close>

definition fresh_ids :: "('z SwapLib_scheme) \<Rightarrow> (string \<Rightarrow> string option) \<Rightarrow> disk \<Rightarrow> event list \<Rightarrow> bool" where
  "fresh_ids L env d es \<longleftrightarrow>
     (\<forall>st n. settings_of L env d = Some st \<longrightarrow> EU64 n \<in> set es \<longrightarrow>
        d (get_slate_path n (slate_directory st) True) = None)"

lemma main_step:
  assumes "replay (main fuel L env args matches d) es = (Done d', es')" "fresh_ids L env d es"
    and "swap_json_laws L" "settings_of L env d = Some st"
    and "read_slate_from_disk L i (slate_directory st) d = Ret (Ok s)"
  shows "settings_of L env d' = Some st \<and>
    (\<exists>s'. read_slate_from_disk L i (slate_directory st) d' = Ret (Ok s') \<and> public_step s s')"
  using assms(1)
proof (cases rule: main_Done)
  case 1
  with assms(4,5) show ?thesis by (auto simp: public_step_def)
next
  case (2 st' cmd sn d1)
  with assms(4) have st: "st' = st" by simp
  have d1: "d1 = d \<or> d1 = write_slate_to_disk L sn (slate_directory st) True False d"
    using command_result [OF 2(3)] st by auto
  then have "settings_of L env d' = Some st" using 2(4) assms(4) by (auto simp: settings_of_def)
  moreover have "\<exists>s'. read_slate_from_disk L i (slate_directory st) d' = Ret (Ok s') \<and> public_step s s'"
  proof (cases "i = swap_id sn")
    case True
    have "d (get_slate_path i (slate_directory st) True) \<noteq> None"
      using assms(5) by (auto simp: read_slate_from_disk_def split: option.splits)
    then have "EU64 i \<notin> set es" using assms(2,4) by (auto simp: fresh_ids_def)
    then have "public_step s sn" using command_result [OF 2(3)] assms(5) True st by auto
    then show ?thesis using read_written [OF assms(3)] 2(4) True st by auto
  next
    case False
    with d1 have "read_slate_from_disk L i (slate_directory st) d' = Ret (Ok s)"
      using 2(4) assms(5) st by (auto simp: read_other)
    then show ?thesis by (auto simp: public_step_def)
  qed
  ultimately show ?thesis by blast
qed

text \<open>Any number of runs of the program, one after the other, on the files of one party.\<close>

inductive program_runs :: "('z SwapLib_scheme) \<Rightarrow> (string \<Rightarrow> string option) \<Rightarrow> disk \<Rightarrow> disk \<Rightarrow> bool"
  for L env where
  start: "program_runs L env d d"
| run: "program_runs L env d d1 \<Longrightarrow> replay (main fuel L env args matches d1) es = (Done d2, []) \<Longrightarrow>
    fresh_ids L env d1 es \<Longrightarrow> program_runs L env d d2"

section \<open>Properties\<close>

text \<open>
  C5. Over any sequence of program runs, a stored swap follows the swap's state machine and keeps
  its terms: from \<open>INITIALIZED\<close> to \<open>SETUP\<close> and from there to \<open>FINISHED\<close> or \<open>FAILED\<close>, with the
  amounts, time locks, roles and peer it was made with; it is never lost, and a run that fails stores
  nothing.
\<close>

theorem stored_swap_follows_machine:
  assumes "program_runs L env d d'"
    and "swap_json_laws L" "settings_of L env d = Some st"
    and "read_slate_from_disk L i (slate_directory st) d = Ret (Ok s)"
  shows "settings_of L env d' = Some st \<and>
    (\<exists>s'. read_slate_from_disk L i (slate_directory st) d' = Ret (Ok s') \<and>
       swap_terms (pub_slate s') = swap_terms (pub_slate s) \<and>
       status_next\<^sup>*\<^sup>* (status (pub_slate s)) (status (pub_slate s')))"
  using assms
proof (induction rule: program_runs.induct)
  case (run d d1 fuel args matches es d2)
  then obtain s1 where s1: "settings_of L env d1 = Some st"
    "read_slate_from_disk L i (slate_directory st) d1 = Ret (Ok s1)"
    "swap_terms (pub_slate s1) = swap_terms (pub_slate s)"
    "status_next\<^sup>*\<^sup>* (status (pub_slate s)) (status (pub_slate s1))" by blast
  from main_step [OF run.hyps(2,3) run.prems(1) s1(1,2)] obtain s2 where
    s2: "settings_of L env d2 = Some st" "read_slate_from_disk L i (slate_directory st) d2 = Ret (Ok s2)"
      "public_step s1 s2" by blast
  then have "swap_terms (pub_slate s2) = swap_terms (pub_slate s1)"
    "status_next\<^sup>*\<^sup>* (status (pub_slate s1)) (status (pub_slate s2))"
    by (auto simp: public_step_def swap_moves_def same_swap_def)
  with s1 s2 show ?case by (metis rtranclp_trans)
qed auto


text \<open>A client whose message is not the listener's checksum is turned away.\<close>

lemma serve_stranger:
  assumes "get_slate_checksum L (swap_id s) (slate_directory st) d = Ok c"
    and "\<not> eq_ignore_ascii_case m c"
  shows "replay (serve_client L s st d) (rcvd m @ sent ''FAULT'' @ es) = (Done None, es)"
  using assms unfolding serve_client_def Let_def
  by (simp add: tcp.recv_step tcp.send_step replay.simps)


lemma parse_init_Ret:
  assumes "parse_arguments m = Ret (Ok (CInit c))"
  obtains f t fa ta tm where "c = init_new f t fa ta tm" "\<not> amount_overflow f fa" "\<not> amount_overflow t ta"
    "tm \<le> MAX_TIMEOUT"
proof -
  obtain args where "parse_init args = Ret (CInit c)"
    using assms unfolding parse_arguments_def parse_import_btc_def parse_import_grin_def parse_swapid_def
    by (auto simp: pbind_eq_Ret split: option.splits prod.splits if_splits)
  then show thesis
    unfolding parse_init_def by (auto simp: pbind_eq_Ret not_less split: if_splits intro: that)
qed

lemma timeouts_bounded:
  assumes "tm \<le> MAX_TIMEOUT"
  shows "tm div GRIN_BLOCK_TIME \<le> 7200" "tm div BTC_BLOCK_TIME \<le> 720"
proof -
  have "unat tm \<le> 7200" using assms by (simp add: MAX_TIMEOUT_def word_le_nat_alt)
  then show "tm div GRIN_BLOCK_TIME \<le> 7200" "tm div BTC_BLOCK_TIME \<le> 720"
    by (simp_all add: GRIN_BLOCK_TIME_def BTC_BLOCK_TIME_def word_le_nat_alt unat_div)
qed

text \<open>
  C37. What \<open>init\<close> makes is well formed: from arguments the parser accepts, the amounts are at most
  all bitcoins and the Grin limit, the time locks at most five days of blocks, exactly one of the
  currencies is offered, the state is \<open>INITIALIZED\<close> with no key and no lock time, and nothing
  private is set; the identifier is the number drawn.
\<close>

theorem init_well_formed:
  assumes "parse_arguments m = Ret (Ok (CInit c))"
    and "replay (init_execute c st) es = (Done (Ok s), es')"
  shows "es = EU64 (swap_id s) # es' \<and> status (pub_slate s) = INITIALIZED \<and>
    mw_amount (pub_mw (pub_slate s)) \<le> GRIN_MAX_NANOGRIN \<and> btc_amount (pub_btc (pub_slate s)) \<le> BTC_MAX_SATS \<and>
    mw_timelock (pub_mw (pub_slate s)) \<le> 7200 \<and> btc_timelock (pub_btc (pub_slate s)) \<le> 720 \<and>
    (mw_swap_type (pub_mw (pub_slate s)) = OFFERED) \<noteq> (btc_swap_type (pub_btc (pub_slate s)) = OFFERED) \<and>
    mw_lock_time (pub_mw (pub_slate s)) = None \<and> btc_lock_time (pub_btc (pub_slate s)) = None \<and>
    pub_a (pub_btc (pub_slate s)) = None \<and> pub_b (pub_btc (pub_slate s)) = None \<and>
    pub_x (pub_btc (pub_slate s)) = None \<and> prv_slate s = empty_priv"
proof -
  obtain f t fa ta tm where c: "c = init_new f t fa ta tm" "\<not> amount_overflow f fa" "\<not> amount_overflow t ta"
    "tm \<le> MAX_TIMEOUT" by (rule parse_init_Ret [OF assms(1)])
  then show ?thesis
    using assms(2) timeouts_bounded [OF c(4)]
    by (auto simp: init_execute_def init_new_def run_simps Let_def amount_overflow_def not_less split: if_splits)
qed

text \<open>Without a private half no phase after locking succeeds.\<close>

lemma empty_priv_fails:
  assumes "prv_slate s = empty_priv"
    and "p \<in> {exec_phase_swap_mw L s bc gc, exec_phase_swap_btc L s bc gc, refund_phase_swap_mw L s bc gc,
      refund_phase_swap_btc L s bc gc}"
  shows "replay p es \<noteq> (Done (s', Inr u), es')"
proof
  assume r: "replay p es = (Done (s', Inr u), es')"
  have "p \<noteq> refund_phase_swap_mw L s bc gc"
    using r assms(1) unfolding refund_phase_swap_mw_def by (auto simp: run_simps empty_priv_def)
  with r assms show False
    by (auto simp: empty_priv_def elim: exec_phase_swap_mw_Ok exec_phase_swap_btc_Ok refund_phase_swap_btc_Ok)
qed

text \<open>
  C40. Accepting a swap again forgets its keys: whatever private half is stored, after a run of
  \<open>accept\<close> the swap is read back with an empty one, its public half and state unchanged, so a
  swap that was locked can be neither executed nor refunded from these files.
\<close>

theorem accept_forgets_private_half:
  assumes "replay (main fuel L env args matches d) es = (Done d', es')" "2 \<le> length args"
    and "parse_arguments matches = Ret (Ok (CAccept i))" "settings_of L env d = Some st"
    and "read_slate_from_disk L i (slate_directory st) d = Ret (Ok s)" "swap_json_laws L"
  shows "\<exists>s'. read_slate_from_disk L i (slate_directory st) d' = Ret (Ok s') \<and>
    pub_slate s' = pub_slate s \<and> prv_slate s' = empty_priv \<and>
    (\<forall>p \<in> {exec_phase_swap_mw L s' bc gc, exec_phase_swap_btc L s' bc gc, refund_phase_swap_mw L s' bc gc,
         refund_phase_swap_btc L s' bc gc}. \<forall>es1 s1 es2. replay p es1 \<noteq> (Done (s1, Ok ()), es2))"
proof -
  from assms(1,3,4) obtain s' d1 where
    c: "replay (accept_execute L i st d) es = (Done (Inr s', d1), es')"
      "d' = write_slate_to_disk L s' (slate_directory st) True True d1"
    using assms(2) unfolding main_def parse_json_string_def settings_of_def Let_def
    by (auto simp: run_simps run_silent [OF silent_parse_arguments] split: if_splits prod.splits option.splits)
  note a = accept_keeps [OF c(1)]
  then have "pub_slate s' = pub_slate s" "swap_id s' = i"
    using assms(5) by (auto simp: read_slate_from_disk_def pbind_eq_Ret split: option.splits)
  moreover have "read_slate_from_disk L i (slate_directory st) d' = Ret (Ok s')"
    using read_written [OF assms(6), of s'] \<open>swap_id s' = i\<close> c(2) by simp
  moreover have "prv_slate s' = empty_priv" using a by blast
  ultimately show ?thesis using empty_priv_fails by blast
qed


section \<open>The two parties\<close>

lemma lock_execute_run:
  assumes "replay (lock_execute L i st d) es = (Done (Inr s'), es')"
  obtains a s c ack m es1 where
    "read_slate_from_disk L i (slate_directory st) d = Ret (Ok s)" "status (pub_slate s) = INITIALIZED"
    "es = EConnect a True # EWrite (line c) (Ok ()) # ERead (Ok ack) # ERead (Ok m) # EWrite (line ''ACK'') (Ok ()) # es1"
    "if btc_swap_type (pub_btc (pub_slate s)) = OFFERED
     then replay (locking_phase_swap_mw L s (cmd_grin_core st) (cmd_btc_core st)) es1 = (Done (s', Ok ()), es')
     else replay (locking_phase_swap_btc L s (cmd_btc_core st)) es1 = (Done (s', Ok ()), es')"
proof -
  from assms obtain s ok es1 where c: "replay (call_peer L i st d) es = (Done (s, ok), es1)"
    and r: "status (pub_slate s) = INITIALIZED" "if btc_swap_type (pub_btc (pub_slate s)) = OFFERED
     then replay (locking_phase_swap_mw L s (cmd_grin_core st) (cmd_btc_core st)) es1 = (Done (s', Ok ()), es')
     else replay (locking_phase_swap_btc L s (cmd_btc_core st)) es1 = (Done (s', Ok ()), es')"
    unfolding lock_execute_def by (auto simp: run_simps split: if_splits prod.splits)
  from c show thesis by (rule run_call_peer) (rule that [OF _ r(1) _ r(2)])
qed

lemma serve_lock_run:
  assumes "replay (serve_client L s st d) es = (Done (Some (Inr s')), es')" "status (pub_slate s) = INITIALIZED"
  obtains m c ack es1 where
    "get_slate_checksum L (swap_id s) (slate_directory st) d = Ok c" "eq_ignore_ascii_case (msg_of m) c"
    "es = ERead (Ok m) # EWrite (line ''ACK'') (Ok ()) # EWrite (line ''OK'') (Ok ()) # ERead (Ok ack) # es1"
    "if btc_swap_type (pub_btc (pub_slate s)) = OFFERED
     then replay (locking_phase_swap_btc L s (cmd_btc_core st)) es1 = (Done (s', Ok ()), es')
     else replay (locking_phase_swap_mw L s (cmd_grin_core st) (cmd_btc_core st)) es1 = (Done (s', Ok ()), es')"
proof -
  have "\<exists>m c ack es1.
    get_slate_checksum L (swap_id s) (slate_directory st) d = Ok c \<and> eq_ignore_ascii_case (msg_of m) c \<and>
    es = ERead (Ok m) # EWrite (line ''ACK'') (Ok ()) # EWrite (line ''OK'') (Ok ()) # ERead (Ok ack) # es1 \<and>
    (if btc_swap_type (pub_btc (pub_slate s)) = OFFERED
     then replay (locking_phase_swap_btc L s (cmd_btc_core st)) es1 = (Done (s', Ok ()), es')
     else replay (locking_phase_swap_mw L s (cmd_grin_core st) (cmd_btc_core st)) es1 = (Done (s', Ok ()), es'))"
    using assms unfolding serve_client_def Let_def msg_of_def
    by (auto simp: run_simps split: if_splits)
  then show thesis using that by blast
qed

text \<open>
  C9. \<open>lock\<close> on one side and \<open>listen\<close> on the other lock the swap: if the command succeeds against a
  listener's client service that succeeds too, each has read what the other wrote, and both have the
  same public file, then the two have run the two different halves of the locking phase and the
  swap is locked, with the offering party in the role its offer gives it.
\<close>

theorem lock_command_locks_swap:
  assumes "replay (lock_execute L i st_c d_c) es_c = (Done (Ok sc), [])"
    and "replay (serve_client L slate_s st_s d_s) es_s = (Done (Some (Ok ss)), [])"
    and "lines_read es_c = written es_s" "lines_read es_s = written es_c"
    and "read_slate_from_disk L i (slate_directory st_c) d_c = Ret (Ok slate_c)"
    and "pub_slate slate_c = pub_slate slate_s"
    and "fresh_keys_valid es_c" "fresh_keys_valid es_s" "key_text_laws L"
  shows "\<exists>tx ka kb kx t.
    if btc_swap_type (pub_btc (pub_slate slate_s)) = OFFERED
    then swap_locked L tx (sk_of ka) (sk_of kb) (sk_of kx) t sc ss \<and>
      raw_tx_request L (cmd_btc_core st_s) tx \<in> set (requests es_s)
    else swap_locked L tx (sk_of ka) (sk_of kb) (sk_of kx) t ss sc \<and>
      raw_tx_request L (cmd_btc_core st_c) tx \<in> set (requests es_c)"
  using lock_execute_run [OF assms(1)]
proof cases
  case c: (1 a s ck ack m ec)
  have s: "s = slate_c" "status (pub_slate slate_s) = INITIALIZED" using c(1,2) assms(5,6) by auto
  show ?thesis
    using serve_lock_run [OF assms(2) s(2)]
  proof cases
    case v: (1 m' ck' ack' ev)
    have talk: "lines_read ec = written ev" "lines_read ev = written ec" using assms(3,4) c(3) v(3) by auto
    have keys: "fresh_keys_valid ec" "fresh_keys_valid ev"
      using assms(7,8) c(3) v(3) by (auto simp: fresh_keys_valid_def)
    have stub: "factory_stub (btc_factory (cmd_btc_core st)) = None" for st
      by (simp add: cmd_btc_core_def bitcoin_core_new_def request_factory_new_def)
    show ?thesis
    proof (cases "btc_swap_type (pub_btc (pub_slate slate_s)) = OFFERED")
      case True
      from locking_agreement [OF _ _ talk _ keys assms(9) stub] c(4) v(4) True s assms(6) show ?thesis
        by (fastforce simp: c(3) v(3))
    next
      case False
      from locking_agreement [OF _ _ talk(2,1) _ keys(2,1) assms(9) stub] c(4) v(4) False s assms(6) show ?thesis
        by (fastforce simp: c(3) v(3))
    qed
  qed
qed

end
