(* ===== verification/Phase_Limits.thy ===== *)
theory Phase_Limits
  imports Settlement
begin

text \<open>
  Inputs the code accepts on the command line and cannot carry to the end: where the phases of
  \<open>swap/protocol.rs\<close> stop for all runs, whatever the environment answers.
\<close>

declare replay.simps [simp del]

lemma sign_p2pkh_covers_inputs:
  assumes "sign_p2pkh_transaction L tx spks sks pks = Ret tx'"
  shows "length (btx_input tx) \<le> length spks"
proof (rule ccontr)
  assume "\<not> length (btx_input tx) \<le> length spks"
  then have i: "length spks < length (enumerate 0 (btx_input tx))" by simp
  obtain ys where "map_proc (\<lambda>(i, inp). pbind (unwrap ''script_pubkeys.get'' (list_get spks i)) (\<lambda>script_pk.
       pbind (unwrap ''skeys.get'' (list_get sks i)) (\<lambda>sk. pbind (unwrap ''pkeys.get'' (list_get pks i)) (\<lambda>pub_key.
       let sighash = signature_hash L tx i script_pk SIGHASH_ALL
       in pbind (unwrap ''Message::from_slice'' (message_from_slice L sighash)) (\<lambda>msg.
            let sig = ecdsa_sign L msg (pk_key sk); sig_der = serialize_sig_der_with_sighash L sig SIGHASH_ALL;
                redeem_script = into_script L [PushSlice sig_der, PushKey pub_key]
            in Ret (inp\<lparr>script_sig := redeem_script\<rparr>)))))) (enumerate 0 (btx_input tx)) = Ret ys"
    using assms unfolding sign_p2pkh_transaction_def pbind_eq_Ret by blast
  from list_all2_nthD [OF this [unfolded map_proc_eq_Ret] i] i show False
    by (simp add: nth_enumerate_eq list_get_def)
qed

lemma lock_inputs_length: "lock_inputs L inputs = Some txinp \<Longrightarrow> length txinp = length inputs"
  using lock_inputs_spend list_all2_lengthD by metis

text \<open>
  A lock from several coins never succeeds: the locking phase signs with the key of the first
  imported coin only, so with two or more imported coins, which the parser, the listener and the
  lock transaction all accept, no run of it ends in success.
\<close>

theorem several_coins_cannot_lock:
  assumes "2 \<le> length (btc_inputs (prv_btc (prv_slate slate)))"
  shows "replay (locking_phase_swap_btc L slate bc) es \<noteq> (Done (s', Ok ()), es')"
proof
  assume "replay (locking_phase_swap_btc L slate bc) es = (Done (s', Ok ()), es')"
  then obtain pka pkx pkb pkr t tx0 tx1 s k p where
    "create_lock_transaction L pka pkx pkb pkr (btc_inputs (prv_btc (prv_slate slate)))
       (btc_amount (pub_btc (pub_slate slate))) BTC_FEE t = Ret (Ok tx0)"
    "sign_p2pkh_transaction L tx0 [s] [k] [p] = Ret tx1"
    unfolding locking_phase_swap_btc_def Let_def by (simp only: run_simps) auto
  with sign_p2pkh_covers_inputs [OF this(2)] assms show False
    by (auto simp: create_lock_transaction_eq dest: lock_inputs_length split: option.splits if_splits)
qed

lemma lock_mw_makes_change:
  assumes "replay (locking_phase_swap_mw L slate gc bc) es = (Done (s', Inr u), es')"
  obtains spend es1 es2 where
    "replay (spend_coins L (mw_inputs (prv_mw (prv_slate slate))) (mw_amount (pub_mw (pub_slate slate))) 0 2 3) es1 =
       (Done (Ok spend), es2)" "sp_change_coin spend \<noteq> None"
proof -
  from assms obtain s1 es3 es4 where r: "replay (lock_mw_grin L s1 gc) es3 = (Done (s', Inr u), es4)"
    "mw_inputs (prv_mw (prv_slate s1)) = mw_inputs (prv_mw (prv_slate slate))"
    "mw_amount (pub_mw (pub_slate s1)) = mw_amount (pub_mw (pub_slate slate))"
    unfolding locking_phase_swap_mw_def Let_def
    by (simp only: run_simps) (auto simp: upd_btc_prv_def)
  from r(1) show thesis
    unfolding lock_mw_grin_def dshared_out_mw_tx_alice_def Let_def
    by (simp only: run_simps) (use r(2,3) that in \<open>auto simp: upd_mw_prv_def upd_mw_pub_def\<close>)
qed

text \<open>
  Exact funds cannot lock: when the imported Grin coins are worth exactly the amount and the
  fee, which \<open>spend_coins\<close> accepts, there is no change coin, and no run of the locking phase of their
  owner succeeds; the other party's bitcoins are locked by then.
\<close>

theorem exact_funds_cannot_lock:
  assumes "unat (sum_mw (mw_inputs (prv_mw (prv_slate slate)))) =
      unat (mw_amount (pub_mw (pub_slate slate))) + unat (tx_fee L (length (mw_inputs (prv_mw (prv_slate slate)))) 2 1)"
  shows "replay (locking_phase_swap_mw L slate gc bc) es \<noteq> (Done (s', Ok ()), es')"
proof
  assume "replay (locking_phase_swap_mw L slate gc bc) es = (Done (s', Ok ()), es')"
  then show False
  proof (rule lock_mw_makes_change)
    fix spend es1 es2
    assume r: "replay (spend_coins L (mw_inputs (prv_mw (prv_slate slate))) (mw_amount (pub_mw (pub_slate slate))) 0 2 3) es1 =
       (Done (Ok spend), es2)" and "sp_change_coin spend \<noteq> None"
    from r show False
    proof (rule spend_coins_Ok)
      fix inp_i fund_i fee_i ck
      let ?ins = "mw_inputs (prv_mw (prv_slate slate))"
      assume i: "i64_try_from (sum_mw ?ins) = Some inp_i" "i64_try_from (mw_amount (pub_mw (pub_slate slate))) = Some fund_i"
        "i64_try_from (tx_fee L (length ?ins) 2 (Suc 0)) = Some fee_i"
        and c: "if inp_i - fund_i - fee_i > 0
          then \<exists>v c. u64_try_from (inp_i - fund_i - fee_i) = Some v \<and> sp_change_coin spend = Some (mwcoin_new L c ck v)
          else sp_change_coin spend = None"
      have "inp_i = int (unat (sum_mw ?ins))" "fund_i = int (unat (mw_amount (pub_mw (pub_slate slate))))"
        "fee_i = int (unat (tx_fee L (length ?ins) 2 (Suc 0)))"
        using i [THEN i64_try_from_nonneg] by simp_all
      then have "inp_i - fund_i - fee_i = 0" using assms by simp
      with c \<open>sp_change_coin spend \<noteq> None\<close> show False by simp
    qed
  qed
qed

text \<open>
  A short time lock can never be executed: a swap locked with a Grin time lock of less than 60
  minutes fails the time check of the execution at every height from the one it was locked at on.
\<close>

theorem short_timelock_never_executes:
  assumes "mw_lock_time (pub_mw (pub_slate slate)) = i64_try_from (h0 + mw_timelock (pub_mw (pub_slate slate)))"
    and "mw_timelock (pub_mw (pub_slate slate)) < 60" "uint h0 < 2 ^ 63"
    and "replay (swap_heights L gc bc slate) es = (Done (tg, tb, hg, hb), [])" "h0 \<le> hg" "uint hg < 2 ^ 63"
  shows "replay (check_if_enough_time L gc bc slate) es = (Done False, [])"
proof -
  let ?tl = "mw_timelock (pub_mw (pub_slate slate))"
  have w: "uint (h0 + ?tl) = uint h0 + uint ?tl" "uint (hg + 60) = uint hg + 60"
    using assms(2,3,6) by (auto simp: uint_word_ariths word_less_def)
  from assms(4) have "i64_try_from (h0 + ?tl) = Some tg" using assms(1) by (simp add: run_swap_heights)
  from u64_try_from_i64 [OF this] have "u64_try_from tg = Some (h0 + ?tl)" .
  moreover have "\<not> hg + 60 \<le> h0 + ?tl"
    using w assms(2,5) by (simp add: word_le_def word_less_def)
  ultimately show ?thesis
    using assms(4) by (simp add: check_if_enough_time_def replay_pbind replay.simps constants_simps)
qed

end
