(* ===== verification/Shared_Coin.thy ===== *)
theory Shared_Coin
  imports Talk
begin

text \<open>
  Runs of the payment into a shared coin of \<open>grin/grin_tx.rs\<close>: the two halves of its key, the joint
  range proof, and what the two parties hold afterwards.
\<close>

declare replay.simps [simp del]

section \<open>The rounds do not use the stream\<close>

lemma quiet_FreshUuid [quietI]: "(\<And>u. quiet (k u)) \<Longrightarrow> quiet (FreshUuid k)"
  unfolding quiet_def run_FreshUuid by (metis lines_read.simps(5) written.simps(5))

lemma quiet_case_prod [quietI]: "(\<And>a b. quiet (p a b)) \<Longrightarrow> quiet (case v of (a, b) \<Rightarrow> p a b)"
  by (cases v) auto

lemma silent_mpbp [silentI]:
  "silent (add_commit G ctx c)" "silent (add_t_1 G ctx p)" "silent (add_t_2 G ctx p)" "silent (add_tau_x G ctx k)"
  "silent (mp_bullet_proof_fin G ctx k n)" "silent (mpbp_from_string L m)"
  unfolding add_commit_def add_t_1_def add_t_2_def add_tau_x_def mp_bullet_proof_fin_def mpbp_from_string_def Let_def
  by (intro silentI)+

lemmas mpbp_runs [run_simps] = silent_mpbp [THEN run_silent]

lemma quiet_rounds [quietI]:
  "quiet (mp_bullet_proof_r1 G ctx b n)" "quiet (mp_bullet_proof_r2 G ctx b n)"
  "quiet (drecv_coins_r1 G slate v)" "quiet (drecv_coins_r2 G slate v ctx)" "quiet (drecv_coins_r3 G slate ctx b n sn)"
  "quiet (spend_coins G inputs v t no np)"
proof -
  show r1: "quiet (mp_bullet_proof_r1 G ctx b n)" for ctx b n
    unfolding mp_bullet_proof_r1_def Let_def by (intro quiet_pbind quiet_fresh_key quiet_silent silentI)
  show r2: "quiet (mp_bullet_proof_r2 G ctx b n)" for ctx b n
    unfolding mp_bullet_proof_r2_def Let_def by (intro quiet_pbind quiet_fresh_key quiet_silent silentI)
  show "quiet (drecv_coins_r1 G slate v)"
    unfolding drecv_coins_r1_def Let_def
    by (intro quiet_pbind quiet_fresh_key quiet_expect r1 quiet_silent silentI)
  show "quiet (drecv_coins_r2 G slate v ctx)"
    unfolding drecv_coins_r2_def Let_def
    by (intro quiet_pbind quiet_fresh_key quiet_expect r1 r2 quiet_silent silentI)
  show "quiet (drecv_coins_r3 G slate ctx b n sn)"
    unfolding drecv_coins_r3_def Let_def
    by (intro quiet_pbind quiet_fresh_key quiet_expect r2 quiet_silent silentI)
  show "quiet (spend_coins G inputs v t no np)"
    unfolding spend_coins_def Let_def
    by (intro quietI silentI)
qed


section \<open>What the rounds keep\<close>

lemma add_t_keeps:
  "add_t_1 G ctx p = Ret ctx' \<Longrightarrow> mp_commit ctx' = mp_commit ctx \<and> mp_amount ctx' = mp_amount ctx"
  "add_t_2 G ctx p = Ret ctx' \<Longrightarrow> mp_commit ctx' = mp_commit ctx \<and> mp_amount ctx' = mp_amount ctx"
  "add_tau_x G ctx k = Ret ctx' \<Longrightarrow> mp_commit ctx' = mp_commit ctx \<and> mp_amount ctx' = mp_amount ctx"
  by (auto simp: add_t_1_def add_t_2_def add_tau_x_def pbind_eq_Ret split: if_splits)

lemma mp_round_keeps:
  "replay (mp_bullet_proof_r1 G ctx b n) es = (Done (Inr ctx'), es') \<Longrightarrow>
   mp_commit ctx' = mp_commit ctx \<and> mp_amount ctx' = mp_amount ctx \<and> suffix es' es"
  "replay (mp_bullet_proof_r2 G ctx b n) es = (Done (Inr ctx'), es') \<Longrightarrow>
   mp_commit ctx' = mp_commit ctx \<and> mp_amount ctx' = mp_amount ctx \<and> suffix es' es"
  by (auto simp: mp_bullet_proof_r1_def mp_bullet_proof_r2_def run_simps Let_def dest!: add_t_keeps
      intro: suffix_ConsI)

lemma drecv_coins_r1_Ok:
  assumes "replay (drecv_coins_r1 G slate v) es = (Done (Inr r), es')"
  shows "EKey (dr_out_key_blind r) \<in> set es" "secp_commit G v (dr_out_key_blind r) = Some (mp_commit (dr_prf_ctx r))"
    "mp_amount (dr_prf_ctx r) = v"
  using assms unfolding drecv_coins_r1_def Let_def
  by (auto simp: run_simps mpbp_new_def dest!: mp_round_keeps)

lemma drecv_coins_r2_Ok:
  assumes "replay (drecv_coins_r2 G slate v ctx) es = (Done (Inr (r, ctx')), es')"
  shows "\<exists>k c. EKey k \<in> set es \<and> secp_commit G 0 k = Some c \<and>
    commit_sum G [mp_commit ctx, c] [] = Some (mp_commit ctx') \<and> mp_amount ctx' = mp_amount ctx \<and>
    rc_output_coin r = mwcoin_new G (mp_commit ctx') k v"
  using assms unfolding drecv_coins_r2_def Let_def
  by (auto simp: run_simps add_commit_def pbind_eq_Ret dest!: mp_round_keeps)

lemma drecv_coins_r3_Ok:
  assumes "replay (drecv_coins_r3 G slate ctx b n sn) es = (Done (Inr r), es')"
  shows "rc_output_coin r = mwcoin_new G (mp_commit ctx) b (mp_amount ctx)"
  using assms unfolding drecv_coins_r3_def Let_def by (auto simp: run_simps)

lemma fin_tx_plain_Ok:
  assumes "fin_tx G s key nonce True None None = Ret (Inr s')"
  shows "\<exists>tx. slate_tx s' = Some tx \<and> tx_validate G tx"
  using assms unfolding fin_tx_def by (auto simp: pbind_eq_Ret expect_proc_def finalize_Ok)

text \<open>The documented size of a Pedersen commitment.\<close>

definition commit_size_laws :: "('z GrinLib_scheme) \<Rightarrow> bool" where
  "commit_size_laws G \<longleftrightarrow>
     (\<forall>v k c. secp_commit G v k = Some c \<longrightarrow> length c = 33) \<and>
     (\<forall>ps ns c. commit_sum G ps ns = Some c \<longrightarrow> length c = 33)"

text \<open>Of the context only commitment and amount matter for the coin; they are read back as written.\<close>

lemma mpbp_text_parts:
  assumes "hex_laws L" "point_text_laws L" "mp_json_laws L"
    and "length (mp_commit ctx) = 33" "mpbp_from_string L (mpbp_to_string L ctx) = Ret ctx'"
  shows "mp_commit ctx' = mp_commit ctx" "mp_amount ctx' = mp_amount ctx"
proof -
  have "from_str_ser_mp_ctx L (mpbp_to_string L ctx) = Some (mpbp_ser L ctx)"
    using assms(3) by (simp add: mpbp_to_string_def mp_json_laws_def)
  moreover have "deserialize_commitment L (serialize_commitment L (mp_commit ctx)) = Ret (mp_commit ctx)"
    using assms(1,2,4) by (auto intro!: proc_value_Some commitment_text.dec_enc)
  ultimately show "mp_commit ctx' = mp_commit ctx" "mp_amount ctx' = mp_amount ctx"
    using assms(5) by (auto simp: mpbp_from_string_def mpbp_ser_def pbind_eq_Ret)
qed

section \<open>Runs of the protocol\<close>

abbreviation msg_text :: "string \<Rightarrow> string" where
  "msg_text m \<equiv> string_truncate (usize_pred (length m)) m"

lemma dshared_out_alice_run:
  assumes "replay (dshared_out_mw_tx_alice L inp v t) es = (Done (Inr r), es')"
  obtains recv :: DRecvCoinsResult and m1 m2 a1 a2 a3 ctx where
    "EKey (dr_out_key_blind recv) \<in> set es"
    "secp_commit L v (dr_out_key_blind recv) = Some (mp_commit (dr_prf_ctx recv))" "mp_amount (dr_prf_ctx recv) = v"
    "mpbp_from_string L (msg_text m2) = Ret ctx"
    "ds_shared_coin r = mwcoin_new L (mp_commit ctx) (dr_out_key_blind recv) (mp_amount ctx)"
    "\<exists>tx. slate_tx (ds_tx r) = Some tx \<and> tx_validate L tx"
    "written es = (slate_to_string L (dr_slate recv) @ [newline]) # (mpbp_to_string L (dr_prf_ctx recv) @ [newline]) #
       (''ACK'' @ [newline]) # (''ACK'' @ [newline]) # (slate_to_string L (ds_tx r) @ [newline]) # written es'"
    "lines_read es = a1 # a2 # m1 # m2 # a3 # lines_read es'"
proof -
  from assms obtain spend recv m1 m2 a1 a2 a3 ptx ctx recv3 es1 es2 es3 es4 key nonce where
    r: "replay (spend_coins L inp v t 2 3) es = (Done (Inr spend), es1)"
      "replay (drecv_coins_r1 L (sp_slate spend) v) es1 = (Done (Inr recv), es2)"
      "es2 = EWrite (slate_to_string L (dr_slate recv) @ [newline]) (Ok ()) # ERead (Ok a1) #
        EWrite (mpbp_to_string L (dr_prf_ctx recv) @ [newline]) (Ok ()) # ERead (Ok a2) #
        ERead (Ok m1) # EWrite (''ACK'' @ [newline]) (Ok ()) # ERead (Ok m2) # EWrite (''ACK'' @ [newline]) (Ok ()) # es3"
      "mpbp_from_string L (msg_text m2) = Ret ctx"
      "replay (drecv_coins_r3 L ptx ctx (dr_out_key_blind recv) (dr_prf_nonce recv) (dr_sig_nonce recv)) es3 = (Done (Inr recv3), es4)"
      "fin_tx L (rc_slate recv3) key nonce True None None = Ret (Inr (ds_tx r))"
      "es4 = EWrite (slate_to_string L (ds_tx r) @ [newline]) (Ok ()) # ERead (Ok a3) # es'"
      "ds_shared_coin r = rc_output_coin recv3"
    unfolding dshared_out_mw_tx_alice_def by (simp only: run_simps) auto
  note q = quietD [OF quiet_rounds(6) r(1)] quietD [OF quiet_rounds(3) r(2)] quietD [OF quiet_rounds(5) r(5)]
  have k: "EKey (dr_out_key_blind recv) \<in> set es"
    using drecv_coins_r1_Ok(1) [OF r(2)] replay_suffix [OF r(1)] by (auto simp: suffix_def)
  show thesis
    by (rule that [OF k drecv_coins_r1_Ok(2,3) [OF r(2)] r(4) _ fin_tx_plain_Ok [OF r(6)], of a1 a2 m1 a3])
      (use r(3,7,8) q drecv_coins_r3_Ok [OF r(5)] in simp_all)
qed

lemma dshared_out_bob_run:
  assumes "replay (dshared_out_mw_tx_bob L v) es = (Done (Inr r), es')"
  obtains m1 m2 m3 a1 a2 ctx ctx2 s2 k c where
    "mpbp_from_string L (msg_text m2) = Ret ctx" "EKey k \<in> set es" "secp_commit L 0 k = Some c"
    "commit_sum L [mp_commit ctx, c] [] = Some (mp_commit ctx2)" "mp_amount ctx2 = mp_amount ctx"
    "ds_shared_coin r = mwcoin_new L (mp_commit ctx2) k v"
    "deserialize_upgrade L (msg_text m3) = Inr (ds_tx r)"
    "lines_read es = m1 # m2 # a1 # a2 # m3 # lines_read es'"
    "written es = (''ACK'' @ [newline]) # (''ACK'' @ [newline]) # (slate_to_string L s2 @ [newline]) #
       (mpbp_to_string L ctx2 @ [newline]) # (''ACK'' @ [newline]) # written es'"
proof -
  from assms obtain m1 m2 m3 a1 a2 ptx ctx recv2 ctx2 es1 es2 where
    r: "es = ERead (Ok m1) # EWrite (''ACK'' @ [newline]) (Ok ()) # ERead (Ok m2) # EWrite (''ACK'' @ [newline]) (Ok ()) # es1"
      "mpbp_from_string L (msg_text m2) = Ret ctx"
      "replay (drecv_coins_r2 L ptx v ctx) es1 = (Done (Inr (recv2, ctx2)), es2)"
      "es2 = EWrite (slate_to_string L (rc_slate recv2) @ [newline]) (Ok ()) # ERead (Ok a1) #
        EWrite (mpbp_to_string L ctx2 @ [newline]) (Ok ()) # ERead (Ok a2) # ERead (Ok m3) # EWrite (''ACK'' @ [newline]) (Ok ()) # es'"
      "deserialize_upgrade L (msg_text m3) = Inr (ds_tx r)" "ds_shared_coin r = rc_output_coin recv2"
    unfolding dshared_out_mw_tx_bob_def by (simp only: run_simps) (auto simp: run_simps)
  note q = quietD [OF quiet_rounds(4) r(3)]
  from drecv_coins_r2_Ok [OF r(3)] obtain k c where c:
    "EKey k \<in> set es1" "secp_commit L 0 k = Some c" "commit_sum L [mp_commit ctx, c] [] = Some (mp_commit ctx2)"
    "mp_amount ctx2 = mp_amount ctx" "rc_output_coin recv2 = mwcoin_new L (mp_commit ctx2) k v" by blast
  show thesis
    by (rule that [OF r(2) _ c(2-4) _ r(5), of m1 a1 a2 "rc_slate recv2"]) (use r c q in simp_all)
qed

section \<open>Properties\<close>


end
