(* ===== verification/Ser_Text.thy ===== *)
theory Ser_Text
  imports Slate_Store
begin

text \<open>
  A text form for the data the program hands to \<open>serde_json\<close>: a value becomes a list of numbers,
  and those their decimal digits with a full stop after each. It stands in for the library where a
  concrete instance is needed, to show that the documented behaviour the theorems assume (what was
  written is read back, on one line) can be had by functions that compute.
\<close>

section \<open>Numbers as text\<close>

fun toks_text :: "nat list \<Rightarrow> string" where
  "toks_text [] = []"
| "toks_text (n # ns) = show_nat n @ CHR ''.'' # toks_text ns"

definition dec_value :: "string \<Rightarrow> nat" where
  "dec_value cs = foldl (\<lambda>a c. a * 10 + (case char_digit c of Some d \<Rightarrow> d | None \<Rightarrow> 0)) 0 cs"

fun text_toks :: "string \<Rightarrow> string \<Rightarrow> nat list" where
  "text_toks acc [] = []"
| "text_toks acc (c # cs) =
     (if c = CHR ''.'' then dec_value (rev acc) # text_toks [] cs else text_toks (c # acc) cs)"

lemma dec_value_show: "dec_value (show_nat n) = n"
proof (induction n rule: show_nat.induct)
  case (1 n)
  show ?case
  proof (cases "n < 10")
    case True
    then show ?thesis by (simp add: show_nat.simps [of n] dec_value_def)
  next
    case False
    with "1.IH" show ?thesis
      by (simp add: show_nat.simps [of n] dec_value_def)
  qed
qed

lemma text_toks_append:
  "CHR ''.'' \<notin> set s \<Longrightarrow> text_toks acc (s @ CHR ''.'' # cs) = dec_value (rev acc @ s) # text_toks [] cs"
  by (induction s arbitrary: acc) auto

lemma text_toks_text [simp]: "text_toks [] (toks_text ns) = ns"
  by (induction ns) (simp_all add: text_toks_append dec_value_show show_nat_no_char)

lemma toks_text_no_newline [simp]: "newline \<notin> set (toks_text ns)"
  by (induction ns) simp_all

section \<open>Serialisers\<close>

type_synonym 'a ser = "('a \<Rightarrow> nat list) \<times> (nat list \<Rightarrow> ('a \<times> nat list) option)"

text \<open>A serialiser reads back what it wrote and leaves the rest.\<close>

definition ser_ok :: "'a ser \<Rightarrow> bool" where
  "ser_ok s \<longleftrightarrow> (\<forall>x r. snd s (fst s x @ r) = Some (x, r))"

definition ser_text :: "'a ser \<Rightarrow> 'a \<Rightarrow> string" where
  "ser_text s x = toks_text (fst s x)"

definition ser_parse :: "'a ser \<Rightarrow> string \<Rightarrow> 'a option" where
  "ser_parse s t = map_option fst (snd s (text_toks [] t))"

lemma ser_parse_text: "ser_ok s \<Longrightarrow> ser_parse s (ser_text s x) = Some x"
  unfolding ser_ok_def ser_parse_def ser_text_def text_toks_text
  by (metis append_Nil2 fst_conv option.simps(9))

definition ser_nat :: "nat ser" where
  "ser_nat = (\<lambda>n. [n], \<lambda>ns. case ns of [] \<Rightarrow> None | n # r \<Rightarrow> Some (n, r))"

definition ser_iso :: "('a \<Rightarrow> 'b) \<Rightarrow> ('b \<Rightarrow> 'a) \<Rightarrow> 'b ser \<Rightarrow> 'a ser" where
  "ser_iso f g s = (\<lambda>x. fst s (f x), \<lambda>ns. map_option (\<lambda>(y, r). (g y, r)) (snd s ns))"

definition ser_pair :: "'a ser \<Rightarrow> 'b ser \<Rightarrow> ('a \<times> 'b) ser" where
  "ser_pair s t =
     (\<lambda>(x, y). fst s x @ fst t y,
      \<lambda>ns. case snd s ns of None \<Rightarrow> None
           | Some (x, r) \<Rightarrow> map_option (\<lambda>(y, r'). ((x, y), r')) (snd t r))"

fun dec_list :: "'a ser \<Rightarrow> nat \<Rightarrow> nat list \<Rightarrow> ('a list \<times> nat list) option" where
  "dec_list s 0 ns = Some ([], ns)"
| "dec_list s (Suc k) ns =
     (case snd s ns of None \<Rightarrow> None
      | Some (x, r) \<Rightarrow> map_option (\<lambda>(xs, r'). (x # xs, r')) (dec_list s k r))"

definition ser_list :: "'a ser \<Rightarrow> 'a list ser" where
  "ser_list s =
     (\<lambda>xs. length xs # concat (map (fst s) xs),
      \<lambda>ns. case ns of [] \<Rightarrow> None | k # r \<Rightarrow> dec_list s k r)"

lemma ser_nat_ok [intro!]: "ser_ok ser_nat"
  by (simp add: ser_ok_def ser_nat_def)

lemma ser_iso_ok: "ser_ok s \<Longrightarrow> (\<And>x. g (f x) = x) \<Longrightarrow> ser_ok (ser_iso f g s)"
  by (simp add: ser_ok_def ser_iso_def)

lemma ser_pair_ok [intro!]: "ser_ok s \<Longrightarrow> ser_ok t \<Longrightarrow> ser_ok (ser_pair s t)"
  by (simp add: ser_ok_def ser_pair_def)

lemma dec_list_ok: "ser_ok s \<Longrightarrow> dec_list s (length xs) (concat (map (fst s) xs) @ r) = Some (xs, r)"
  by (induction xs) (simp_all add: ser_ok_def)

lemma ser_list_ok [intro!]: "ser_ok s \<Longrightarrow> ser_ok (ser_list s)"
  unfolding ser_ok_def [of "ser_list s"] by (simp add: ser_list_def dec_list_ok)

definition ser_word :: "'a :: len word ser" where
  "ser_word = ser_iso unat of_nat ser_nat"

definition ser_bool :: "bool ser" where
  "ser_bool = ser_iso (\<lambda>b. if b then 1 else 0) (\<lambda>n. n = 1) ser_nat"

definition ser_string :: "string ser" where
  "ser_string = ser_list (ser_iso of_char char_of ser_nat)"

definition ser_int :: "int ser" where
  "ser_int = ser_iso (\<lambda>i. (i < 0, nat \<bar>i\<bar>)) (\<lambda>(b, n). if b then - int n else int n) (ser_pair ser_bool ser_nat)"

definition ser_opt :: "'a ser \<Rightarrow> 'a option ser" where
  "ser_opt s = ser_iso (\<lambda>v. case v of None \<Rightarrow> [] | Some x \<Rightarrow> [x])
     (\<lambda>xs. case xs of [] \<Rightarrow> None | x # _ \<Rightarrow> Some x) (ser_list s)"

abbreviation ser_bytes :: "bytes ser" where
  "ser_bytes \<equiv> ser_list ser_word"

lemma ser_base_ok [intro!]:
  "ser_ok ser_word" "ser_ok ser_bool" "ser_ok ser_string" "ser_ok ser_int"
  unfolding ser_word_def ser_bool_def ser_string_def ser_int_def
  by (auto intro!: ser_iso_ok split: if_splits)

lemma ser_opt_ok [intro!]: "ser_ok s \<Longrightarrow> ser_ok (ser_opt s)"
  unfolding ser_opt_def by (auto intro!: ser_iso_ok split: option.splits)

section \<open>Slates\<close>

fun ser_SlateStateV4_rank :: "SlateStateV4 \<Rightarrow> nat" where
  "ser_SlateStateV4_rank V4Unknown = 0"
| "ser_SlateStateV4_rank V4Standard1 = 1"
| "ser_SlateStateV4_rank V4Standard2 = 2"
| "ser_SlateStateV4_rank V4Standard3 = 3"
| "ser_SlateStateV4_rank V4Invoice1 = 4"
| "ser_SlateStateV4_rank V4Invoice2 = 5"
| "ser_SlateStateV4_rank V4Invoice3 = 6"

definition ser_SlateStateV4 :: "SlateStateV4 ser" where
  "ser_SlateStateV4 = ser_iso ser_SlateStateV4_rank (\<lambda>k. [V4Unknown, V4Standard1, V4Standard2, V4Standard3, V4Invoice1, V4Invoice2, V4Invoice3] ! k) ser_nat"

lemma ser_SlateStateV4_ok [intro!]: "ser_ok ser_SlateStateV4"
  unfolding ser_SlateStateV4_def
  by (rule ser_iso_ok, blast) (rename_tac x, case_tac x; simp)

definition ser_KernelFeaturesArgsV4 :: "KernelFeaturesArgsV4 ser" where
  "ser_KernelFeaturesArgsV4 = ser_iso
     (\<lambda>x :: KernelFeaturesArgsV4. lock_hgt x)
     (\<lambda>v0. \<lparr>lock_hgt = v0\<rparr>)
     (ser_word)"

lemma ser_KernelFeaturesArgsV4_ok [intro!]: "ser_ok ser_KernelFeaturesArgsV4"
  unfolding ser_KernelFeaturesArgsV4_def by (rule ser_iso_ok) auto

definition ser_VersionCompatInfoV4 :: "VersionCompatInfoV4 ser" where
  "ser_VersionCompatInfoV4 = ser_iso
     (\<lambda>x :: VersionCompatInfoV4. (v4_version x, v4_block_header_version x))
     (\<lambda>(v0, v1). \<lparr>v4_version = v0, v4_block_header_version = v1\<rparr>)
     (ser_pair ser_word ser_word)"

lemma ser_VersionCompatInfoV4_ok [intro!]: "ser_ok ser_VersionCompatInfoV4"
  unfolding ser_VersionCompatInfoV4_def by (rule ser_iso_ok) auto

definition ser_ParticipantDataV4 :: "ParticipantDataV4 ser" where
  "ser_ParticipantDataV4 = ser_iso
     (\<lambda>x :: ParticipantDataV4. (xs_v4 x, nonce_v4 x, part_v4 x))
     (\<lambda>(v0, v1, v2). \<lparr>xs_v4 = v0, nonce_v4 = v1, part_v4 = v2\<rparr>)
     (ser_pair ser_bytes (ser_pair ser_bytes (ser_opt ser_bytes)))"

lemma ser_ParticipantDataV4_ok [intro!]: "ser_ok ser_ParticipantDataV4"
  unfolding ser_ParticipantDataV4_def by (rule ser_iso_ok) auto

definition ser_PaymentInfoV4 :: "PaymentInfoV4 ser" where
  "ser_PaymentInfoV4 = ser_iso
     (\<lambda>x :: PaymentInfoV4. (saddr x, raddr x, rsig x))
     (\<lambda>(v0, v1, v2). \<lparr>saddr = v0, raddr = v1, rsig = v2\<rparr>)
     (ser_pair ser_bytes (ser_pair ser_bytes (ser_opt ser_bytes)))"

lemma ser_PaymentInfoV4_ok [intro!]: "ser_ok ser_PaymentInfoV4"
  unfolding ser_PaymentInfoV4_def by (rule ser_iso_ok) auto

definition ser_CommitsV4 :: "CommitsV4 ser" where
  "ser_CommitsV4 = ser_iso
     (\<lambda>x :: CommitsV4. (com_f x, com_c x, com_p x))
     (\<lambda>(v0, v1, v2). \<lparr>com_f = v0, com_c = v1, com_p = v2\<rparr>)
     (ser_pair ser_word (ser_pair ser_bytes (ser_opt ser_bytes)))"

lemma ser_CommitsV4_ok [intro!]: "ser_ok ser_CommitsV4"
  unfolding ser_CommitsV4_def by (rule ser_iso_ok) auto

definition ser_SlateV4 :: "SlateV4 ser" where
  "ser_SlateV4 = ser_iso
     (\<lambda>x :: SlateV4. (ver x, id_v4 x, sta x, off x, num_parts x, amt x, fee_v4 x, feat
        x, ttl x, sigs x, coms x, proof_v4 x, feat_args x))
     (\<lambda>(v0, v1, v2, v3, v4, v5, v6, v7, v8, v9, v10, v11, v12). \<lparr>ver = v0, id_v4
        = v1, sta = v2, off = v3, num_parts = v4, amt = v5, fee_v4 = v6, feat = v7, ttl = v8, sigs
        = v9, coms = v10, proof_v4 = v11, feat_args = v12\<rparr>)
     (ser_pair ser_VersionCompatInfoV4 (ser_pair ser_word (ser_pair ser_SlateStateV4 (ser_pair
        ser_bytes (ser_pair ser_word (ser_pair ser_word (ser_pair ser_word (ser_pair ser_word
        (ser_pair ser_word (ser_pair (ser_list ser_ParticipantDataV4) (ser_pair (ser_opt (ser_list
        ser_CommitsV4)) (ser_pair (ser_opt ser_PaymentInfoV4) (ser_opt
        ser_KernelFeaturesArgsV4)))))))))))))"

lemma ser_SlateV4_ok [intro!]: "ser_ok ser_SlateV4"
  unfolding ser_SlateV4_def by (rule ser_iso_ok) auto

definition ser_SerMPCtx :: "SerMPCtx ser" where
  "ser_SerMPCtx = ser_iso
     (\<lambda>x :: SerMPCtx. (ser_t_1 x, ser_t_2 x, ser_amount x, ser_shared_nonce x,
        ser_commit x, ser_tau_x x))
     (\<lambda>(v0, v1, v2, v3, v4, v5). \<lparr>ser_t_1 = v0, ser_t_2 = v1, ser_amount = v2,
        ser_shared_nonce = v3, ser_commit = v4, ser_tau_x = v5\<rparr>)
     (ser_pair ser_string (ser_pair ser_string (ser_pair ser_word (ser_pair ser_string
        (ser_pair ser_string ser_string)))))"

lemma ser_SerMPCtx_ok [intro!]: "ser_ok ser_SerMPCtx"
  unfolding ser_SerMPCtx_def by (rule ser_iso_ok) auto

section \<open>Swaps\<close>

fun ser_SwapStatus_rank :: "SwapStatus \<Rightarrow> nat" where
  "ser_SwapStatus_rank INITIALIZED = 0"
| "ser_SwapStatus_rank SETUP = 1"
| "ser_SwapStatus_rank EXECUTING = 2"
| "ser_SwapStatus_rank FINISHED = 3"
| "ser_SwapStatus_rank FAILED = 4"

definition ser_SwapStatus :: "SwapStatus ser" where
  "ser_SwapStatus = ser_iso ser_SwapStatus_rank (\<lambda>k. [INITIALIZED, SETUP, EXECUTING, FINISHED, FAILED] ! k) ser_nat"

lemma ser_SwapStatus_ok [intro!]: "ser_ok ser_SwapStatus"
  unfolding ser_SwapStatus_def
  by (rule ser_iso_ok, blast) (rename_tac x, case_tac x; simp)

fun ser_SwapType_rank :: "SwapType \<Rightarrow> nat" where
  "ser_SwapType_rank OFFERED = 0"
| "ser_SwapType_rank REQUESTED = 1"

definition ser_SwapType :: "SwapType ser" where
  "ser_SwapType = ser_iso ser_SwapType_rank (\<lambda>k. [OFFERED, REQUESTED] ! k) ser_nat"

lemma ser_SwapType_ok [intro!]: "ser_ok ser_SwapType"
  unfolding ser_SwapType_def
  by (rule ser_iso_ok, blast) (rename_tac x, case_tac x; simp)

fun ser_OutputFeatures_rank :: "OutputFeatures \<Rightarrow> nat" where
  "ser_OutputFeatures_rank Plain = 0"
| "ser_OutputFeatures_rank Coinbase = 1"

definition ser_OutputFeatures :: "OutputFeatures ser" where
  "ser_OutputFeatures = ser_iso ser_OutputFeatures_rank (\<lambda>k. [Plain, Coinbase] ! k) ser_nat"

lemma ser_OutputFeatures_ok [intro!]: "ser_ok ser_OutputFeatures"
  unfolding ser_OutputFeatures_def
  by (rule ser_iso_ok, blast) (rename_tac x, case_tac x; simp)

definition ser_MWPub :: "MWPub ser" where
  "ser_MWPub = ser_iso
     (\<lambda>x :: MWPub. (mw_amount x, mw_timelock x, mw_lock_time x, mw_swap_type x))
     (\<lambda>(v0, v1, v2, v3). \<lparr>mw_amount = v0, mw_timelock = v1, mw_lock_time = v2,
        mw_swap_type = v3\<rparr>)
     (ser_pair ser_word (ser_pair ser_word (ser_pair (ser_opt ser_int) ser_SwapType)))"

lemma ser_MWPub_ok [intro!]: "ser_ok ser_MWPub"
  unfolding ser_MWPub_def by (rule ser_iso_ok) auto

definition ser_BTCPub :: "BTCPub ser" where
  "ser_BTCPub = ser_iso
     (\<lambda>x :: BTCPub. (btc_amount x, btc_timelock x, btc_swap_type x, btc_lock_time x,
        pub_a x, pub_b x, pub_x x))
     (\<lambda>(v0, v1, v2, v3, v4, v5, v6). \<lparr>btc_amount = v0, btc_timelock = v1,
        btc_swap_type = v2, btc_lock_time = v3, pub_a = v4, pub_b = v5, pub_x = v6\<rparr>)
     (ser_pair ser_word (ser_pair ser_word (ser_pair ser_SwapType (ser_pair (ser_opt ser_int)
        (ser_pair (ser_opt ser_string) (ser_pair (ser_opt ser_string) (ser_opt ser_string)))))))"

lemma ser_BTCPub_ok [intro!]: "ser_ok ser_BTCPub"
  unfolding ser_BTCPub_def by (rule ser_iso_ok) auto

definition ser_Meta :: "Meta ser" where
  "ser_Meta = ser_iso
     (\<lambda>x :: Meta. (meta_server x, meta_port x))
     (\<lambda>(v0, v1). \<lparr>meta_server = v0, meta_port = v1\<rparr>)
     (ser_pair ser_string ser_string)"

lemma ser_Meta_ok [intro!]: "ser_ok ser_Meta"
  unfolding ser_Meta_def by (rule ser_iso_ok) auto

definition ser_SwapSlatePub :: "SwapSlatePub ser" where
  "ser_SwapSlatePub = ser_iso
     (\<lambda>x :: SwapSlatePub. (status x, pub_mw x, pub_btc x, meta x))
     (\<lambda>(v0, v1, v2, v3). \<lparr>status = v0, pub_mw = v1, pub_btc = v2, meta =
        v3\<rparr>)
     (ser_pair ser_SwapStatus (ser_pair ser_MWPub (ser_pair ser_BTCPub ser_Meta)))"

lemma ser_SwapSlatePub_ok [intro!]: "ser_ok ser_SwapSlatePub"
  unfolding ser_SwapSlatePub_def by (rule ser_iso_ok) auto

definition ser_MWCoin :: "MWCoin ser" where
  "ser_MWCoin = ser_iso
     (\<lambda>x :: MWCoin. (mw_commitment x, mw_blinding_factor x, mw_value x))
     (\<lambda>(v0, v1, v2). \<lparr>mw_commitment = v0, mw_blinding_factor = v1, mw_value =
        v2\<rparr>)
     (ser_pair ser_string (ser_pair ser_string ser_word))"

lemma ser_MWCoin_ok [intro!]: "ser_ok ser_MWCoin"
  unfolding ser_MWCoin_def by (rule ser_iso_ok) auto

definition ser_BTCInput :: "BTCInput ser" where
  "ser_BTCInput = ser_iso
     (\<lambda>x :: BTCInput. (bi_txid x, bi_vout x, bi_value x, bi_secret x, bi_pub_key x,
        bi_pub_script x))
     (\<lambda>(v0, v1, v2, v3, v4, v5). \<lparr>bi_txid = v0, bi_vout = v1, bi_value = v2,
        bi_secret = v3, bi_pub_key = v4, bi_pub_script = v5\<rparr>)
     (ser_pair ser_string (ser_pair ser_word (ser_pair ser_word (ser_pair ser_string (ser_pair
        ser_string ser_string)))))"

lemma ser_BTCInput_ok [intro!]: "ser_ok ser_BTCInput"
  unfolding ser_BTCInput_def by (rule ser_iso_ok) auto

definition ser_Input :: "Input ser" where
  "ser_Input = ser_iso
     (\<lambda>x :: Input. (inp_features x, inp_commit x))
     (\<lambda>(v0, v1). \<lparr>inp_features = v0, inp_commit = v1\<rparr>)
     (ser_pair ser_OutputFeatures ser_bytes)"

lemma ser_Input_ok [intro!]: "ser_ok ser_Input"
  unfolding ser_Input_def by (rule ser_iso_ok) auto

definition ser_Output :: "Output ser" where
  "ser_Output = ser_iso
     (\<lambda>x :: Output. (out_features x, out_commit x, out_proof x))
     (\<lambda>(v0, v1, v2). \<lparr>out_features = v0, out_commit = v1, out_proof =
        v2\<rparr>)
     (ser_pair ser_OutputFeatures (ser_pair ser_bytes ser_bytes))"

lemma ser_Output_ok [intro!]: "ser_ok ser_Output"
  unfolding ser_Output_def by (rule ser_iso_ok) auto

definition ser_KernelFeatures :: "KernelFeatures ser" where
  "ser_KernelFeatures = ser_iso
     (\<lambda>k. case k of KPlain f \<Rightarrow> (0, f, 0) | KCoinbase \<Rightarrow> (1, 0, 0)
        | KHeightLocked f h \<Rightarrow> (2, f, h) | KNoRecentDuplicate f h \<Rightarrow> (3, f, h))
     (\<lambda>(t, f, h). if t = 0 then KPlain f else if t = 1 then KCoinbase
        else if t = 2 then KHeightLocked f h else KNoRecentDuplicate f h)
     (ser_pair ser_nat (ser_pair ser_word ser_word))"

lemma ser_KernelFeatures_ok [intro!]: "ser_ok ser_KernelFeatures"
  unfolding ser_KernelFeatures_def by (rule ser_iso_ok) (auto split: KernelFeatures.splits)

definition ser_Inputs :: "Inputs ser" where
  "ser_Inputs = ser_iso
     (\<lambda>i. case i of CommitOnly cs \<Rightarrow> (True, cs, []) | FeaturesAndCommit is \<Rightarrow> (False, [], is))
     (\<lambda>(b, cs, is). if b then CommitOnly cs else FeaturesAndCommit is)
     (ser_pair ser_bool (ser_pair (ser_list ser_bytes) (ser_list ser_Input)))"

lemma ser_Inputs_ok [intro!]: "ser_ok ser_Inputs"
  unfolding ser_Inputs_def by (rule ser_iso_ok) (auto split: Inputs.splits)

definition ser_TxKernel :: "TxKernel ser" where
  "ser_TxKernel = ser_iso
     (\<lambda>x :: TxKernel. (ker_features x, ker_excess x, ker_excess_sig x))
     (\<lambda>(v0, v1, v2). \<lparr>ker_features = v0, ker_excess = v1, ker_excess_sig =
        v2\<rparr>)
     (ser_pair ser_KernelFeatures (ser_pair ser_bytes ser_bytes))"

lemma ser_TxKernel_ok [intro!]: "ser_ok ser_TxKernel"
  unfolding ser_TxKernel_def by (rule ser_iso_ok) auto

definition ser_Transaction :: "Transaction ser" where
  "ser_Transaction = ser_iso
     (\<lambda>x :: Transaction. (tx_offset x, tx_inputs x, tx_outputs x, tx_kernels x))
     (\<lambda>(v0, v1, v2, v3). \<lparr>tx_offset = v0, tx_inputs = v1, tx_outputs = v2,
        tx_kernels = v3\<rparr>)
     (ser_pair ser_bytes (ser_pair ser_Inputs (ser_pair (ser_list ser_Output) (ser_list
        ser_TxKernel))))"

lemma ser_Transaction_ok [intro!]: "ser_ok ser_Transaction"
  unfolding ser_Transaction_def by (rule ser_iso_ok) auto

definition ser_MWPriv :: "MWPriv ser" where
  "ser_MWPriv = ser_iso
     (\<lambda>x :: MWPriv. (mw_inputs x, partial_key x, shared_coin x, change_coin x,
        refund_coin x, swapped_coin x, refund_tx x))
     (\<lambda>(v0, v1, v2, v3, v4, v5, v6). \<lparr>mw_inputs = v0, partial_key = v1,
        shared_coin = v2, change_coin = v3, refund_coin = v4, swapped_coin = v5, refund_tx =
        v6\<rparr>)
     (ser_pair (ser_list ser_MWCoin) (ser_pair ser_word (ser_pair (ser_opt ser_MWCoin)
        (ser_pair (ser_opt ser_MWCoin) (ser_pair (ser_opt ser_MWCoin) (ser_pair (ser_opt
        ser_MWCoin) (ser_opt ser_Transaction)))))))"

lemma ser_MWPriv_ok [intro!]: "ser_ok ser_MWPriv"
  unfolding ser_MWPriv_def by (rule ser_iso_ok) auto

definition ser_BTCPriv :: "BTCPriv ser" where
  "ser_BTCPriv = ser_iso
     (\<lambda>x :: BTCPriv. (btc_inputs x, btc_witness x, btc_sk x, btc_x x, btc_r_sk x,
        btc_change x, btc_swapped x, btc_lock x, btc_refunded x))
     (\<lambda>(v0, v1, v2, v3, v4, v5, v6, v7, v8). \<lparr>btc_inputs = v0, btc_witness = v1,
        btc_sk = v2, btc_x = v3, btc_r_sk = v4, btc_change = v5, btc_swapped = v6, btc_lock = v7,
        btc_refunded = v8\<rparr>)
     (ser_pair (ser_list ser_BTCInput) (ser_pair ser_word (ser_pair (ser_opt ser_string)
        (ser_pair (ser_opt ser_string) (ser_pair (ser_opt ser_string) (ser_pair (ser_opt
        ser_BTCInput) (ser_pair (ser_opt ser_BTCInput) (ser_pair (ser_opt ser_BTCInput) (ser_opt
        ser_BTCInput)))))))))"

lemma ser_BTCPriv_ok [intro!]: "ser_ok ser_BTCPriv"
  unfolding ser_BTCPriv_def by (rule ser_iso_ok) auto

definition ser_SwapSlatePriv :: "SwapSlatePriv ser" where
  "ser_SwapSlatePriv = ser_iso
     (\<lambda>x :: SwapSlatePriv. (prv_mw x, prv_btc x))
     (\<lambda>(v0, v1). \<lparr>prv_mw = v0, prv_btc = v1\<rparr>)
     (ser_pair ser_MWPriv ser_BTCPriv)"

lemma ser_SwapSlatePriv_ok [intro!]: "ser_ok ser_SwapSlatePriv"
  unfolding ser_SwapSlatePriv_def by (rule ser_iso_ok) auto


end
