(* ===== verification/Lib_Instance.thy ===== *)
theory Lib_Instance
  imports Ser_Text
begin

text \<open>
  One concrete library: functions that compute and have all the documented behaviour the theorems
  assume of the third-party crates. Group elements are their own discrete logarithms, so it is of
  no cryptographic value; it shows that the assumptions can hold together, and the witnesses run
  the program on it.
\<close>

section \<open>Hexadecimal text\<close>

definition hex_value :: "char \<Rightarrow> nat" where
  "hex_value c = (let k = (of_char c :: nat) in if k < 58 then k - 48 else k - 87)"

fun unhex :: "string \<Rightarrow> bytes option" where
  "unhex [] = Some []"
| "unhex [c] = None"
| "unhex (a # b # cs) = map_option (\<lambda>r. of_nat (hex_value a * 16 + hex_value b) # r) (unhex cs)"

lemma hex_value_digit: "n < 16 \<Longrightarrow> hex_value (hex_digit n) = n"
  by (auto simp: hex_value_def hex_digit_def Let_def)

lemma unhex_text [simp]: "unhex (hex_text b) = Some b"
proof (induction b)
  case (Cons x b)
  have "unat x div 16 * 16 + unat x mod 16 = unat x" by simp
  with Cons show ?case by (simp add: hex_text_def hex_value_digit)
qed (simp add: hex_text_def)

section \<open>Scalars and points\<close>

definition sc :: "int \<Rightarrow> bytes" where
  "sc v = be_bytes 32 (v mod curve_order)"

definition sc_opt :: "int \<Rightarrow> bytes option" where
  "sc_opt v = (if v mod curve_order = 0 then None else Some (sc v))"

definition sum_sc :: "bytes list \<Rightarrow> int" where
  "sum_sc bs = sum_list (map be_int bs)"

lemma curve_order_bounds: "0 < curve_order" "curve_order < 256 ^ 32"
  by (simp_all add: curve_order_def)

lemma be_int_sc [simp]: "be_int (sc v) = v mod curve_order"
proof -
  have "v mod curve_order < 256 ^ 32" "0 \<le> v mod curve_order"
    using curve_order_bounds pos_mod_bound [of curve_order v] pos_mod_sign [of curve_order v] by linarith+
  then show ?thesis by (simp add: sc_def be_int_be_bytes)
qed

lemma is_scalar_sc [simp]: "is_scalar (sc v)"
  using curve_order_bounds pos_mod_bound [of curve_order v]
  by (simp add: is_scalar_def) (simp add: sc_def)

lemma length_sc [simp]: "length (sc v) = 32"
  by (simp add: sc_def)

lemma valid_sk_sc [simp]: "valid_sk (sc v) \<longleftrightarrow> v mod curve_order \<noteq> 0"
  by (simp add: valid_sk_def)

definition pt :: "bytes \<Rightarrow> bytes" where
  "pt k = 2 # k"

definition toy_commit :: "u64 \<Rightarrow> bytes \<Rightarrow> bytes" where
  "toy_commit v k = 8 # sc (uint v * 7 + be_int k)"

definition toy_sign :: "bytes \<Rightarrow> bytes \<Rightarrow> bytes option \<Rightarrow> bytes" where
  "toy_sign key nonce x =
     sc (be_int nonce) @ sc (be_int nonce + be_int key + (case x of None \<Rightarrow> 0 | Some k \<Rightarrow> be_int k))"

text \<open>A signature is good for a point (and the statement added to it) when \<open>s = r + p\<close>.\<close>

definition toy_verify :: "bytes \<Rightarrow> int \<Rightarrow> bool" where
  "toy_verify sig p \<longleftrightarrow>
     be_int (drop 32 sig) = (be_int (take 32 sig) + p) mod curve_order"

definition toy_blind_sum :: "BlindSum \<Rightarrow> int" where
  "toy_blind_sum b = sum_sc (positive_blinding_factors b) - sum_sc (negative_blinding_factors b)"

definition toy_wif :: "PrivateKey \<Rightarrow> string" where
  "toy_wif sk = (if pk_compressed sk then CHR ''c'' else CHR ''u'') #
     (if pk_network sk = Testnet then CHR ''t'' else CHR ''b'') # hex_text (pk_key sk)"

definition toy_unwif :: "string \<Rightarrow> PrivateKey option" where
  "toy_unwif s =
     (case s of c # n # h \<Rightarrow>
        map_option (\<lambda>k. \<lparr>pk_compressed = (c = CHR ''c''),
           pk_network = (if n = CHR ''t'' then Testnet else Bitcoin), pk_key = k\<rparr>) (unhex h)
      | _ \<Rightarrow> None)"

lemma toy_unwif_wif [simp]: "toy_unwif (toy_wif sk) = Some sk"
  by (cases sk; cases "pk_network sk") (auto simp: toy_wif_def toy_unwif_def)

section \<open>The instance\<close>

definition toy_settings :: Settings where
  "toy_settings =
     \<lparr>btc_settings = \<lparr>node_url = ''localhost'', node_user = ''u'', node_pass = ''p'', node_port = 18332, node_id = ''btc''\<rparr>,
      grin_settings = \<lparr>node_url = ''localhost'', node_user = ''u'', node_pass = ''p'', node_port = 13413, node_id = ''grin''\<rparr>,
      tcp_addr = ''127.0.0.1'', tcp_port = ''80'', slate_directory = ''slates''\<rparr>"

definition toy :: SwapLib where
  "toy = \<lparr>
     hex_encode = hex_text, hex_decode = unhex,
     ZERO_KEY = replicate 32 0,
     sk_from_slice = (\<lambda>b. if valid_sk b then Some b else None),
     sk_add_assign = (\<lambda>a b. sc_opt (be_int a + be_int b)),
     sk_neg_assign = (\<lambda>a. Some (sc (- be_int a))),
     pk_new = replicate 33 0,
     pk_is_valid = (\<lambda>p. length p = 33 \<and> hd p = 2),
     pk_from_secret_key = (\<lambda>k. Some (pt k)),
     pk_from_combination = (\<lambda>ps. map_option pt (sc_opt (sum_sc (map tl ps)))),
     pk_from_slice = (\<lambda>b. if length b = 33 \<and> hd b = 2 then Some b else None),
     pk_serialize_vec = (\<lambda>p. p),
     com_from_vec = (\<lambda>b. take 33 (b @ replicate 33 0)),
     com_from_pubkey = (\<lambda>p. Some (8 # tl p)),
     secp_commit = (\<lambda>v k. Some (toy_commit v k)),
     commit_sum = (\<lambda>ps ns. Some (8 # sc (sum_sc (map tl ps) - sum_sc (map tl ns)))),
     bullet_proof = (\<lambda>v k r p. [1]),
     verify_bullet_proof = (\<lambda>c p. p = [1]),
     bullet_proof_multisig = (\<lambda>v blind nonce tau t1 t2 cs p step.
        \<lparr>ms_proof = Some [1], ms_tau_x = sc 3, ms_t_1 = pt (sc 5), ms_t_2 = pt (sc 6)\<rparr>),
     sign_single = (\<lambda>m key nonce x r p r'. Some (toy_sign key nonce x)),
     verify_single = (\<lambda>sig m r p ks x. toy_verify sig (be_int (tl p) + be_int (tl x))),
     calculate_partial_sig = (\<lambda>key nonce r p m. Some (toy_sign key nonce None)),
     verify_partial_sig = (\<lambda>sig r p ks m. toy_verify sig (be_int (tl p))),
     add_signatures = (\<lambda>sigs r. Some (sc (sum_sc (map (take 32) sigs)) @ sc (sum_sc (map (drop 32) sigs)))),
     verify_completed_sig = (\<lambda>sig p ks m. toy_verify sig (be_int (tl p))),
     sig_to_raw_data = (\<lambda>s. s), sig_from_raw_data = (\<lambda>s. s),
     blind_sum_new = \<lparr>positive_blinding_factors = [], negative_blinding_factors = []\<rparr>,
     add_blinding_factor = (\<lambda>b k. b\<lparr>positive_blinding_factors := positive_blinding_factors b @ [k]\<rparr>),
     sub_blinding_factor = (\<lambda>b k. b\<lparr>negative_blinding_factors := negative_blinding_factors b @ [k]\<rparr>),
     blind_sum = (\<lambda>b. Some (sc (toy_blind_sum b))),
     bf_from_secret_key = (\<lambda>k. k), bf_secret_key = Some,
     bf_split = (\<lambda>b o'. Some (sc (be_int b - be_int o'))), bf_zero = replicate 32 0,
     tx_fee = (\<lambda>i out k. of_nat (i + out + k)),
     fee_fields_new = (\<lambda>s f. Some f), fee_fields_zero = 0, fee_at = (\<lambda>f h. f),
     nrd_relative_height_new = (\<lambda>h. if h = 0 then None else Some h),
     YEAR_HEIGHT = 524160, amount_to_hr_string = (\<lambda>a t. show_u64 a),
     identifier_zero = [], derive_key = (\<lambda>a i. Some (sc (uint a + 1))),
     inputs_len = (\<lambda>i. case i of CommitOnly cs \<Rightarrow> length cs | FeaturesAndCommit is \<Rightarrow> length is),
     inputs_from = FeaturesAndCommit,
     tx_empty = \<lparr>tx_offset = replicate 32 0, tx_inputs = FeaturesAndCommit [], tx_outputs = [], tx_kernels = []\<rparr>,
     tx_new = (\<lambda>i os ks. \<lparr>tx_offset = replicate 32 0, tx_inputs = i, tx_outputs = os, tx_kernels = ks\<rparr>),
     with_output = (\<lambda>out t. t\<lparr>tx_outputs := tx_outputs t @ [out]\<rparr>),
     with_kernel = (\<lambda>k t. t\<lparr>tx_kernels := tx_kernels t @ [k]\<rparr>),
     replace_kernel = (\<lambda>k t. t\<lparr>tx_kernels := [k]\<rparr>),
     replace_inputs = (\<lambda>i t. t\<lparr>tx_inputs := i\<rparr>),
     replace_outputs = (\<lambda>os t. t\<lparr>tx_outputs := os\<rparr>),
     kernel_with_features = (\<lambda>f. \<lparr>ker_features = f, ker_excess = [], ker_excess_sig = []\<rparr>),
     kernel_sig_msg = (\<lambda>f. Some (replicate 32 0)),
     kernel_verify = (\<lambda>k. toy_verify (ker_excess_sig k) (be_int (tl (ker_excess k)))),
     tx_validate = (\<lambda>t. list_all (\<lambda>k. toy_verify (ker_excess_sig k) (be_int (tl (ker_excess k)))) (tx_kernels t)),
     tx_fee_of = (\<lambda>t h. sum_list (map (\<lambda>k. case ker_features k of KCoinbase \<Rightarrow> 0 | f \<Rightarrow> kfee f) (tx_kernels t))),
     into_script = (\<lambda>ops. concat (map (\<lambda>b. case b of PushOpcode c \<Rightarrow> [3] | PushInt i \<Rightarrow> [4]
        | PushKey k \<Rightarrow> 5 # k | PushSlice s \<Rightarrow> 6 # s) ops)),
     script_hash = (\<lambda>s. s), new_p2sh = (\<lambda>h. 1 # h), new_p2pkh = (\<lambda>h. 2 # h), pubkey_hash = (\<lambda>p. p),
     address_from_script = (\<lambda>s n. Some (hex_text s)),
     txid_from_str = unhex, txid_to_string = hex_text,
     tx_txid = (\<lambda>tx. be_bytes 32 (int (length (btx_output tx)) + uint (btx_lock_time tx) + 1)),
     btx_serialize = (\<lambda>tx. concat (map script_pubkey (btx_output tx))), btx_deserialize = (\<lambda>b. None),
     signature_hash = (\<lambda>tx i s h. be_bytes 32 (int i + uint h)),
     message_from_slice = (\<lambda>b. if length b = 32 then Some b else None),
     ecdsa_sign = (\<lambda>m k. m @ k), ecdsa_verify = (\<lambda>m s p. s = m @ tl p), serialize_der = (\<lambda>s. s),
     public_key = (\<lambda>sk. pt (pk_key sk)),
     to_wif = toy_wif, from_wif = toy_unwif,
     btc_pk_to_string = hex_text, btc_pk_from_str = unhex, btc_pk_to_bytes = (\<lambda>p. p),
     btc_sk_from_slice = (\<lambda>b. if valid_sk b then Some b else None),
     from_str_network_info = (\<lambda>s. None),
     from_str_unit = (\<lambda>s. Some \<lparr>resp_result = None, resp_error = None, resp_id = s\<rparr>),
     from_str_list_unspent = (\<lambda>s. Some \<lparr>resp_result = Some [\<lparr>utxo_txid = '''', utxo_vout = 0, utxo_address = '''',
        utxo_label = '''', utxo_scriptPubKey = '''', utxo_amount = 1 / 4, utxo_confirmations = 1,
        utxo_spendable = True, utxo_solvable = True, utxo_safe = True\<rparr>], resp_error = None, resp_id = s\<rparr>),
     from_str_block_count = (\<lambda>s. map_option (\<lambda>h. \<lparr>bc_result = h, bc_error = None, bc_id = ''btc''\<rparr>) (parse_u64 s)),
     from_str_send_raw_tx = (\<lambda>s. Some \<lparr>resp_result = Some '''', resp_error = None, resp_id = s\<rparr>),
     from_str_get_tip = (\<lambda>s. map_option (\<lambda>h. \<lparr>grin_resp_id = ''grin'', grin_resp_jsonrpc = ''2.0'',
        grin_resp_result = Some \<lparr>tip_height = h, tip_last_block_pushed = '''', tip_prev_block_to_last = '''',
          tip_total_difficulty = 0\<rparr>, grin_resp_error = None\<rparr>) (parse_u64 s)),
     from_str_push_tx = (\<lambda>s. Some \<lparr>grin_resp_id = s, grin_resp_jsonrpc = ''2.0'', grin_resp_result = None,
        grin_resp_error = None\<rparr>),
     to_string_slate_v4 = ser_text ser_SlateV4,
     from_str_versioned_slate = (\<lambda>t. map_option V4 (ser_parse ser_SlateV4 t)),
     to_string_ser_mp_ctx = ser_text ser_SerMPCtx, from_str_ser_mp_ctx = ser_parse ser_SerMPCtx,
     to_string_pretty_pub = ser_text ser_SwapSlatePub, from_str_pub = ser_parse ser_SwapSlatePub,
     to_string_pretty_prv = ser_text ser_SwapSlatePriv, from_str_prv = ser_parse ser_SwapSlatePriv,
     from_str_settings = (\<lambda>s. Some toy_settings), sha256 = (\<lambda>s. map (of_nat \<circ> of_char) (take 32 s))\<rparr>"

lemma toy_sel [simp]:
  "hex_encode toy = hex_text"
  "hex_decode toy = unhex"
  "ZERO_KEY toy = replicate 32 0"
  "sk_from_slice toy = (\<lambda>b. if valid_sk b then Some b else None)"
  "sk_add_assign toy = (\<lambda>a b. sc_opt (be_int a + be_int b))"
  "sk_neg_assign toy = (\<lambda>a. Some (sc (- be_int a)))"
  "pk_new toy = replicate 33 0"
  "pk_is_valid toy = (\<lambda>p. length p = 33 \<and> hd p = 2)"
  "pk_from_secret_key toy = (\<lambda>k. Some (pt k))"
  "pk_from_combination toy = (\<lambda>ps. map_option pt (sc_opt (sum_sc (map tl ps))))"
  "pk_from_slice toy = (\<lambda>b. if length b = 33 \<and> hd b = 2 then Some b else None)"
  "pk_serialize_vec toy = (\<lambda>p. p)"
  "com_from_vec toy = (\<lambda>b. take 33 (b @ replicate 33 0))"
  "com_from_pubkey toy = (\<lambda>p. Some (8 # tl p))"
  "secp_commit toy = (\<lambda>v k. Some (toy_commit v k))"
  "commit_sum toy = (\<lambda>ps ns. Some (8 # sc (sum_sc (map tl ps) - sum_sc (map tl ns))))"
  "bullet_proof toy = (\<lambda>v k r p. [1])"
  "verify_bullet_proof toy = (\<lambda>c p. p = [1])"
    "bullet_proof_multisig toy = (\<lambda>v blind nonce tau t1 t2 cs p step. \<lparr>ms_proof =
     Some [1], ms_tau_x = sc 3, ms_t_1 = pt (sc 5), ms_t_2 = pt (sc 6)\<rparr>)"
  "sign_single toy = (\<lambda>m key nonce x r p r'. Some (toy_sign key nonce x))"
  "verify_single toy = (\<lambda>sig m r p ks x. toy_verify sig (be_int (tl p) + be_int (tl x)))"
  "calculate_partial_sig toy = (\<lambda>key nonce r p m. Some (toy_sign key nonce None))"
  "verify_partial_sig toy = (\<lambda>sig r p ks m. toy_verify sig (be_int (tl p)))"
    "add_signatures toy = (\<lambda>sigs r. Some (sc (sum_sc (map (take 32) sigs)) @ sc (sum_sc (map
     (drop 32) sigs))))"
  "verify_completed_sig toy = (\<lambda>sig p ks m. toy_verify sig (be_int (tl p)))"
  "sig_to_raw_data toy = (\<lambda>s. s)"
  "sig_from_raw_data toy = (\<lambda>s. s)"
    "blind_sum_new toy = \<lparr>positive_blinding_factors = [], negative_blinding_factors =
     []\<rparr>"
    "add_blinding_factor toy = (\<lambda>b k. b\<lparr>positive_blinding_factors :=
     positive_blinding_factors b @ [k]\<rparr>)"
    "sub_blinding_factor toy = (\<lambda>b k. b\<lparr>negative_blinding_factors :=
     negative_blinding_factors b @ [k]\<rparr>)"
  "blind_sum toy = (\<lambda>b. Some (sc (toy_blind_sum b)))"
  "bf_from_secret_key toy = (\<lambda>k. k)"
  "bf_secret_key toy = Some"
  "bf_split toy = (\<lambda>b o'. Some (sc (be_int b - be_int o')))"
  "bf_zero toy = replicate 32 0"
  "tx_fee toy = (\<lambda>i out k. of_nat (i + out + k))"
  "fee_fields_new toy = (\<lambda>s f. Some f)"
  "fee_fields_zero toy = 0"
  "fee_at toy = (\<lambda>f h. f)"
  "nrd_relative_height_new toy = (\<lambda>h. if h = 0 then None else Some h)"
  "YEAR_HEIGHT toy = 524160"
  "amount_to_hr_string toy = (\<lambda>a t. show_u64 a)"
  "identifier_zero toy = []"
  "derive_key toy = (\<lambda>a i. Some (sc (uint a + 1)))"
    "inputs_len toy = (\<lambda>i. case i of CommitOnly cs \<Rightarrow> length cs |
     FeaturesAndCommit is \<Rightarrow> length is)"
  "inputs_from toy = FeaturesAndCommit"
    "tx_empty toy = \<lparr>tx_offset = replicate 32 0, tx_inputs = FeaturesAndCommit [], tx_outputs
     = [], tx_kernels = []\<rparr>"
    "tx_new toy = (\<lambda>i os ks. \<lparr>tx_offset = replicate 32 0, tx_inputs = i, tx_outputs =
     os, tx_kernels = ks\<rparr>)"
  "with_output toy = (\<lambda>out t. t\<lparr>tx_outputs := tx_outputs t @ [out]\<rparr>)"
  "with_kernel toy = (\<lambda>k t. t\<lparr>tx_kernels := tx_kernels t @ [k]\<rparr>)"
  "replace_kernel toy = (\<lambda>k t. t\<lparr>tx_kernels := [k]\<rparr>)"
  "replace_inputs toy = (\<lambda>i t. t\<lparr>tx_inputs := i\<rparr>)"
  "replace_outputs toy = (\<lambda>os t. t\<lparr>tx_outputs := os\<rparr>)"
    "kernel_with_features toy = (\<lambda>f. \<lparr>ker_features = f, ker_excess = [],
     ker_excess_sig = []\<rparr>)"
  "kernel_sig_msg toy = (\<lambda>f. Some (replicate 32 0))"
  "kernel_verify toy = (\<lambda>k. toy_verify (ker_excess_sig k) (be_int (tl (ker_excess k))))"
    "tx_validate toy = (\<lambda>t. list_all (\<lambda>k. toy_verify (ker_excess_sig k) (be_int (tl
     (ker_excess k)))) (tx_kernels t))"
    "tx_fee_of toy = (\<lambda>t h. sum_list (map (\<lambda>k. case ker_features k of KCoinbase
     \<Rightarrow> 0 | f \<Rightarrow> kfee f) (tx_kernels t)))"
    "into_script toy = (\<lambda>ops. concat (map (\<lambda>b. case b of PushOpcode c \<Rightarrow>
     [3] | PushInt i \<Rightarrow> [4] | PushKey k \<Rightarrow> 5 # k | PushSlice s \<Rightarrow> 6
     # s) ops))"
  "script_hash toy = (\<lambda>s. s)"
  "new_p2sh toy = (\<lambda>h. 1 # h)"
  "new_p2pkh toy = (\<lambda>h. 2 # h)"
  "pubkey_hash toy = (\<lambda>p. p)"
  "address_from_script toy = (\<lambda>s n. Some (hex_text s))"
  "txid_from_str toy = unhex"
  "txid_to_string toy = hex_text"
    "tx_txid toy = (\<lambda>tx. be_bytes 32 (int (length (btx_output tx)) + uint (btx_lock_time tx)
     + 1))"
  "btx_serialize toy = (\<lambda>tx. concat (map script_pubkey (btx_output tx)))"
  "btx_deserialize toy = (\<lambda>b. None)"
  "signature_hash toy = (\<lambda>tx i s h. be_bytes 32 (int i + uint h))"
  "message_from_slice toy = (\<lambda>b. if length b = 32 then Some b else None)"
  "ecdsa_sign toy = (\<lambda>m k. m @ k)"
  "ecdsa_verify toy = (\<lambda>m s p. s = m @ tl p)"
  "serialize_der toy = (\<lambda>s. s)"
  "public_key toy = (\<lambda>sk. pt (pk_key sk))"
  "to_wif toy = toy_wif"
  "from_wif toy = toy_unwif"
  "btc_pk_to_string toy = hex_text"
  "btc_pk_from_str toy = unhex"
  "btc_pk_to_bytes toy = (\<lambda>p. p)"
  "btc_sk_from_slice toy = (\<lambda>b. if valid_sk b then Some b else None)"
  "from_str_network_info toy = (\<lambda>s. None)"
    "from_str_unit toy = (\<lambda>s. Some \<lparr>resp_result = None, resp_error = None, resp_id =
     s\<rparr>)"
    "from_str_list_unspent toy = (\<lambda>s. Some \<lparr>resp_result = Some [\<lparr>utxo_txid =
     '''', utxo_vout = 0, utxo_address = '''', utxo_label = '''', utxo_scriptPubKey = '''',
     utxo_amount = 1 / 4, utxo_confirmations = 1, utxo_spendable = True, utxo_solvable = True,
     utxo_safe = True\<rparr>], resp_error = None, resp_id = s\<rparr>)"
    "from_str_block_count toy = (\<lambda>s. map_option (\<lambda>h. \<lparr>bc_result = h, bc_error
     = None, bc_id = ''btc''\<rparr>) (parse_u64 s))"
    "from_str_send_raw_tx toy = (\<lambda>s. Some \<lparr>resp_result = Some '''', resp_error =
     None, resp_id = s\<rparr>)"
    "from_str_get_tip toy = (\<lambda>s. map_option (\<lambda>h. \<lparr>grin_resp_id = ''grin'',
     grin_resp_jsonrpc = ''2.0'', grin_resp_result = Some \<lparr>tip_height = h,
     tip_last_block_pushed = '''', tip_prev_block_to_last = '''', tip_total_difficulty = 0\<rparr>,
     grin_resp_error = None\<rparr>) (parse_u64 s))"
    "from_str_push_tx toy = (\<lambda>s. Some \<lparr>grin_resp_id = s, grin_resp_jsonrpc = ''2.0'',
     grin_resp_result = None, grin_resp_error = None\<rparr>)"
  "to_string_slate_v4 toy = ser_text ser_SlateV4"
  "from_str_versioned_slate toy = (\<lambda>t. map_option V4 (ser_parse ser_SlateV4 t))"
  "to_string_ser_mp_ctx toy = ser_text ser_SerMPCtx"
  "from_str_ser_mp_ctx toy = ser_parse ser_SerMPCtx"
  "to_string_pretty_pub toy = ser_text ser_SwapSlatePub"
  "from_str_pub toy = ser_parse ser_SwapSlatePub"
  "to_string_pretty_prv toy = ser_text ser_SwapSlatePriv"
  "from_str_prv toy = ser_parse ser_SwapSlatePriv"
  "from_str_settings toy = (\<lambda>s. Some toy_settings)"
  "sha256 toy = (\<lambda>s. map (of_nat \<circ> of_char) (take 32 s))"
  by (simp_all add: toy_def)

section \<open>It has the documented behaviour\<close>

lemma toy_hex [simp]: "hex_laws toy"
  by (simp add: hex_laws_def)

lemma neg_mod_curve_order:
  assumes "is_scalar a" "be_int a \<noteq> 0"
  shows "(- be_int a) mod curve_order \<noteq> 0"
proof -
  have "be_int a mod curve_order = be_int a"
    using assms(1) by (intro mod_pos_pos_trivial) (simp_all add: is_scalar_def)
  with assms(2) show ?thesis using zmod_zminus1_not_zero by auto
qed

lemma toy_scalar [simp]: "scalar_laws toy"
  unfolding scalar_laws_def by (auto simp: sc_opt_def valid_sk_def neg_mod_curve_order)

lemma toy_adaptor [simp]: "adaptor_laws toy"
  by (auto simp: adaptor_laws_def sig_s_def toy_sign_def mod_add_left_eq)

lemma toy_key_text [simp]: "key_text_laws toy"
  by (simp add: key_text_laws_def)

lemma toy_btc_scalar [simp]: "btc_scalar_laws toy"
  by (simp add: btc_scalar_laws_def)

lemma toy_p2sh_address [simp]: "p2sh_address_laws toy"
  by (simp add: p2sh_address_laws_def)

lemma toy_ecdsa [simp]: "ecdsa_laws toy"
  by (simp add: ecdsa_laws_def pt_def)

lemma toy_sighash [simp]: "sighash_laws toy"
  by (simp add: sighash_laws_def)

lemma toy_tx_body [simp]: "tx_body_laws toy"
  by (auto simp: tx_body_laws_def)

lemma toy_slate_json [simp]: "slate_json_laws toy"
  by (auto simp: slate_json_laws_def ser_parse_text ser_SlateV4_ok) (simp add: ser_text_def)

lemma toy_point_text [simp]: "point_text_laws toy"
  by (simp add: point_text_laws_def)

lemma toy_mp_json [simp]: "mp_json_laws toy"
  by (auto simp: mp_json_laws_def ser_parse_text ser_SerMPCtx_ok) (simp add: ser_text_def)

lemma toy_swap_json [simp]: "swap_json_laws toy"
  by (auto simp: swap_json_laws_def ser_parse_text ser_SwapSlatePub_ok ser_SwapSlatePriv_ok)

end
