(* ===== verification/Witnesses.thy ===== *)
theory Witnesses
  imports Program Phase_Limits Shared_Coin Lib_Instance
begin

text \<open>
  The properties applied to concrete inputs: each witness discharges the hypotheses of one
  theorem on the library of \<open>Lib_Instance\<close> and states what the theorem says there.
\<close>

lemma toy_read_key [simp]:
  "v mod curve_order \<noteq> 0 \<Longrightarrow> deserialize_secret_key toy (hex_text (sc v)) = Ret (sc v)"
  using deserialize_serialize_secret_key [of toy "sc v"] by (simp add: serialize_secret_key_def)

lemmas toy_run =
  replay.simps Let_def create_secret_key_def fresh_key_def i64_try_from_def u64_try_from_def
  mwcoin_new_def serialize_commitment_def serialize_secret_key_def deserialize_commitment_def
  curve_order_def fill_round_1_def add_participant_info_def

section \<open>Bitcoin\<close>

definition toy_sk :: "int \<Rightarrow> PrivateKey" where
  "toy_sk v = \<lparr>pk_compressed = True, pk_network = Testnet, pk_key = sc v\<rparr>"

definition toy_input :: "u64 \<Rightarrow> BTCInput" where
  "toy_input value = btc_input_new2 toy ''0a'' 1 value (toy_sk 4) (public_key toy (toy_sk 4)) []"

theorem lock_tx_conserves_value_witness:
  "\<exists>tx. create_lock_transaction toy [1] [2] [3] [4] [toy_input 900, toy_input 800] 1000 500 144 = Ret (Ok tx) \<and>
     tx_out_total tx + 500 = 1700"
proof -
  have "create_lock_transaction toy [1] [2] [3] [4] [toy_input 900, toy_input 800] 1000 500 144 = Ret (Ok
      \<lparr>btx_version = 1, btx_lock_time = 0, btx_input = [unsigned_txin [10] 1 FFFFFFFF, unsigned_txin [10] 1 FFFFFFFF],
       btx_output = [\<lparr>txo_value = 1000, script_pubkey = get_lock_pub_script toy [1] [2] [3] 144 True\<rparr>,
         \<lparr>txo_value = 200, script_pubkey = get_p2pkh_pub_script toy [4]\<rparr>]\<rparr>)"
    by (simp add: create_lock_transaction_eq toy_input_def btc_input_new2_def sum_values_def hex_value_def)
  from lock_tx_conserves_value [OF this] this show ?thesis
    by (auto simp: toy_input_def btc_input_new2_def)
qed

theorem balance_misses_odd_amounts_witness:
  "\<exists>core balance. replay (get_address_final_balance toy core ''addr'')
      [EHttp (get_url core) (btc_rpc core ''listunspent'' [PInt 0, PInt 9999999, PVec [''addr'']])
         (node_auth (btc_node core)) (Response 200 ''btc'')] = (Done (Ok balance), []) \<and>
      balance \<noteq> 25000001"
proof -
  define node :: NodeSettings where
    "node = \<lparr>node_url = ''localhost'', node_user = ''u'', node_pass = ''p'', node_port = 18332, node_id = ''btc''\<rparr>"
  define core where "core = bitcoin_core_new node (request_factory_new None)"
  have "factory_stub (btc_factory core) = None" "node_id (btc_node core) = ''btc''"
    by (simp_all add: core_def node_def bitcoin_core_new_def request_factory_new_def)
  from balance_misses_odd_amounts [OF this(1), of toy "''btc''" _ 25000001 "''addr''"] this(2) show ?thesis
    by (auto simp: BTC_MAX_SATS_def)
qed

definition toy_node_check :: "bytes \<Rightarrow> bytes \<Rightarrow> bool" where
  "toy_node_check s k \<longleftrightarrow> butlast s = be_bytes 32 (uint (last s)) @ tl k"

lemma toy_checks_like_node: "checks_like_node toy tx 0 scr toy_node_check"
  by (simp add: checks_like_node_def toy_node_check_def)

theorem lock_script_guards_coin_witness:
  "let E = \<lparr>env_lock_time = 150, env_sequence = 0, env_checksig = (\<lambda>s k. s = [7] \<and> k = [3])\<rparr>
   in p2sh_accepts toy E (lock_builder [1] [2] [3] 144)
        [PushSlice [7], PushInt 1, PushSlice (into_script toy (lock_builder [1] [2] [3] 144))] \<and>
      cltv_ok E 144"
proof -
  let ?E = "\<lparr>env_lock_time = 150, env_sequence = 0, env_checksig = (\<lambda>s k. s = [7] \<and> k = [3])\<rparr> :: script_env"
  have "p2sh_accepts toy ?E (lock_builder [1] [2] [3] 144)
        [PushSlice [7], PushInt 1, PushSlice (into_script toy (lock_builder [1] [2] [3] 144))]"
    unfolding p2sh_refund_script by (simp add: cltv_ok_def)
  from this lock_script_guards_coin [OF this] show ?thesis by simp
qed

text \<open>The coin of the lock transaction, as both spenders know it.\<close>

definition toy_locked :: BTCInput where
  "toy_locked = toy_input 1000"

lemma toy_spend_tx:
  "create_spend_lock_transaction toy [9] toy_locked 1000 500 t = Ret (Ok
     \<lparr>btx_version = 1, btx_lock_time = t, btx_input = [unsigned_txin [10] 1 (if t = 0 then FFFFFFFF else 0)],
      btx_output = [\<lparr>txo_value = 500, script_pubkey = get_p2pkh_pub_script toy [9]\<rparr>]\<rparr>)"
  by (simp add: create_spend_lock_transaction_def toy_locked_def toy_input_def btc_input_new2_def hex_value_def
      get_p2pkh_pub_script_def)

lemma toy_refund_signs: "\<exists>tx'. sign_lock_transaction_refund toy \<lparr>btx_version = 1, btx_lock_time = t,
    btx_input = [i], btx_output = os\<rparr> 0 scr sk = Ret tx'"
  by (simp add: sign_lock_transaction_refund_def Let_def)

lemma toy_redeem_signs: "\<exists>tx'. sign_lock_transaction_redeemer toy \<lparr>btx_version = 1, btx_lock_time = t,
    btx_input = [i], btx_output = os\<rparr> 0 scr sk x = Ret tx'"
  by (simp add: sign_lock_transaction_redeemer_def Let_def)

theorem refund_tx_opens_lock_witness:
  "\<exists>tx tx' i ops. create_spend_lock_transaction toy [9] toy_locked 1000 500 144 = Ret (Ok tx) \<and>
     sign_lock_transaction_refund toy tx 0
       (get_lock_pub_script toy [1] [2] (public_key toy (toy_sk 5)) 144 False) (toy_sk 5) = Ret tx' \<and>
     btx_input tx' = [i] \<and> script_sig i = into_script toy ops \<and>
     p2sh_accepts toy \<lparr>env_lock_time = btx_lock_time tx', env_sequence = sequence i, env_checksig = toy_node_check\<rparr>
       (lock_builder [1] [2] (public_key toy (toy_sk 5)) 144) ops"
proof -
  note tx = toy_spend_tx [of 144]
  from toy_refund_signs obtain tx' where
    tx': "sign_lock_transaction_refund toy \<lparr>btx_version = 1, btx_lock_time = 144,
       btx_input = [unsigned_txin [10] 1 (if (144 :: u32) = 0 then FFFFFFFF else 0)],
       btx_output = [\<lparr>txo_value = 500, script_pubkey = get_p2pkh_pub_script toy [9]\<rparr>]\<rparr> 0
       (get_lock_pub_script toy [1] [2] (public_key toy (toy_sk 5)) 144 False) (toy_sk 5) = Ret tx'" by blast
  from refund_tx_opens_lock [OF refl toy_ecdsa toy_btc_scalar toy_sighash tx tx' toy_checks_like_node] tx tx'
  show ?thesis by auto
qed

theorem redeem_tx_opens_lock_witness:
  "\<exists>tx tx' i ops. create_spend_lock_transaction toy [9] toy_locked 1000 500 0 = Ret (Ok tx) \<and>
     sign_lock_transaction_redeemer toy tx 0
       (get_lock_pub_script toy (public_key toy (toy_sk 5)) (public_key toy (toy_sk 6)) [3] 144 False)
       (toy_sk 5) (toy_sk 6) = Ret tx' \<and>
     btx_input tx' = [i] \<and> script_sig i = into_script toy ops \<and>
     p2sh_accepts toy \<lparr>env_lock_time = btx_lock_time tx', env_sequence = sequence i, env_checksig = toy_node_check\<rparr>
       (lock_builder (public_key toy (toy_sk 5)) (public_key toy (toy_sk 6)) [3] 144) ops"
proof -
  note tx = toy_spend_tx [of 0]
  from toy_redeem_signs obtain tx' where
    tx': "sign_lock_transaction_redeemer toy \<lparr>btx_version = 1, btx_lock_time = 0,
       btx_input = [unsigned_txin [10] 1 (if (0 :: u32) = 0 then FFFFFFFF else 0)],
       btx_output = [\<lparr>txo_value = 500, script_pubkey = get_p2pkh_pub_script toy [9]\<rparr>]\<rparr> 0
       (get_lock_pub_script toy (public_key toy (toy_sk 5)) (public_key toy (toy_sk 6)) [3] 144 False)
       (toy_sk 5) (toy_sk 6) = Ret tx'" by blast
  from redeem_tx_opens_lock [OF refl toy_ecdsa toy_btc_scalar toy_sighash tx tx' toy_checks_like_node] tx tx'
  show ?thesis by blast
qed

section \<open>Slates\<close>

definition toy_ctx :: "int \<Rightarrow> int \<Rightarrow> Context" where
  "toy_ctx k n = create_minimal_ctx toy (sc k) (sc n) 50 4"

definition toy_slate :: Slate where
  "toy_slate = blank_with_kernel_features toy 1 2 False 2 (Some 144)"

lemma sc_inject [simp]: "sc a = sc b \<longleftrightarrow> a mod curve_order = b mod curve_order"
  using be_int_sc by (metis sc_def)

lemma toy_round_1: "fill_round_1 toy toy_slate (toy_ctx k n) = Ok (toy_slate\<lparr>participant_data :=
    [\<lparr>public_blind_excess = pt (sc k), public_nonce = pt (sc n), part_sig = None\<rparr>]\<rparr>)"
  by (simp add: fill_round_1_def add_participant_info_def toy_slate_def toy_ctx_def create_minimal_ctx_def Let_def)

theorem fill_round_1_registers_witness:
  "\<exists>s' k n e. fill_round_1 toy toy_slate (toy_ctx 3 4) = Ok s' \<and>
     pk_from_secret_key toy (sec_key (toy_ctx 3 4)) = Some k \<and> participant_data s' = [e] \<and> entry_keys e = (k, n)"
proof -
  have "distinct_participants toy_slate" by (simp add: toy_slate_def)
  from fill_round_1_registers [OF toy_round_1 this] toy_round_1 show ?thesis
    by (auto simp: toy_slate_def)
qed


text \<open>Two participants, of whom the second has signed.\<close>

definition toy_signed :: "Signature option \<Rightarrow> Slate" where
  "toy_signed sig = toy_slate\<lparr>participant_data :=
     [\<lparr>public_blind_excess = pt (sc 3), public_nonce = pt (sc 4), part_sig = sig\<rparr>,
      \<lparr>public_blind_excess = pt (sc 5), public_nonce = pt (sc 6), part_sig = Some (toy_sign (sc 5) (sc 6) None)\<rparr>],
     slate_tx := Some (replace_kernel toy (kernel_with_features toy (KHeightLocked 6 144)) (empty_transaction toy)),
     slate_amount := 50, fee_fields := 6\<rparr>"

lemmas toy_slate_ops =
  toy_signed_def fill_round_2_Ok verify_part_sigs_def pub_nonce_sum_def pub_blind_sum_def msg_to_sign_def
  kernel_features_def toy_slate_def blank_with_kernel_features_def toy_verify_def toy_sign_def sum_sc_def
  sc_opt_def pt_def curve_order_def add_my_sig_def num_participants_def my_entry_def Let_def upt_conv_Cons

lemma toy_round_2:
  "fill_round_2 toy (toy_signed None) (sc 3) (sc 4) = Ret (Ok (toy_signed (Some (toy_sign (sc 3) (sc 4) None))))"
  by (simp add: toy_slate_ops)

theorem fill_round_2_signs_witness:
  "\<exists>s' sig. fill_round_2 toy (toy_signed None) (sc 3) (sc 4) = Ret (Ok s') \<and>
     calculate_partial_sig toy (sc 3) (sc 4) (pt (sc 10)) (pt (sc 8)) (replicate 32 0) = Some sig \<and>
     map part_sig (participant_data s') = [Some sig, part_sig (participant_data (toy_signed None) ! 1)]"
proof -
  have "distinct_participants (toy_signed None)"
    "length (participant_data (toy_signed None)) \<le> unat (num_participants (toy_signed None))"
    by (simp_all add: toy_slate_ops distinct_participants_def entry_keys_def)
  from fill_round_2_signs [OF toy_round_2 this] toy_round_2 show ?thesis
    by (simp add: toy_slate_ops)
qed
lemma toy_finalize:
  "\<exists>s'. finalize toy (toy_signed (Some (toy_sign (sc 3) (sc 4) None))) = Ret (Ok s')"
  by (simp add: finalize_Ok finalize_signature_def rbind_eq_Ok part_sigs_def check_fees_def tx_or_err_def
      calc_excess_def empty_transaction_def toy_slate_ops)

theorem finalize_only_valid_witness:
  "\<exists>s' tx. finalize toy (toy_signed (Some (toy_sign (sc 3) (sc 4) None))) = Ret (Ok s') \<and>
     slate_tx s' = Some tx \<and> tx_validate toy tx"
proof -
  from toy_finalize obtain s' where f: "finalize toy (toy_signed (Some (toy_sign (sc 3) (sc 4) None))) = Ret (Ok s')"
    by blast
  from finalize_only_valid [OF this] f show ?thesis by force
qed


theorem exchange_loses_height_lock_witness:
  "\<exists>s' tx'. deserialize_upgrade toy (slate_to_string toy (toy_signed None)) = Ok s' \<and>
     slate_tx s' = Some tx' \<and> map ker_features (tx_kernels tx') = [KPlain 6]"
proof -
  have "slate_tx (toy_signed None) =
      Some (replace_kernel toy (kernel_with_features toy (KHeightLocked 6 144)) (empty_transaction toy))"
    "slate_kernel_features (toy_signed None) = 2"
    "kernel_features_args (toy_signed None) = Some \<lparr>lock_height = 144\<rparr>"
    "fee_fields (toy_signed None) = 6"
    by (simp_all add: toy_slate_ops)
  from exchange_loses_height_lock [OF toy_slate_json toy_tx_body this(1-3)] this(4) show ?thesis by auto
qed

section \<open>Grin\<close>

theorem mpbp_roundtrip_witness:
  "mpbp_from_string toy (mpbp_to_string toy \<lparr>t_1 = pt (sc 5), t_2 = pt (sc 6), mp_amount = 50,
     shared_nonce = sc 7, tau_x = ZERO_KEY toy, mp_commit = toy_commit 50 (sc 8)\<rparr>) =
   Ret \<lparr>t_1 = pt (sc 5), t_2 = pt (sc 6), mp_amount = 50, shared_nonce = sc 7, tau_x = ZERO_KEY toy,
     mp_commit = toy_commit 50 (sc 8)\<rparr>"
  by (rule mpbp_roundtrip)
    (simp_all add: mpbp_wf_def pt_def toy_commit_def curve_order_def)

theorem ext_witness_reveals_secret_witness:
  "ext_witness toy (toy_sign (sc 3) (sc 4) None) (toy_sign (sc 3) (sc 4) (Some (sc 11))) = Ret (sc 11)"
  by (rule ext_witness_reveals_secret [of toy _ "replicate 32 0" "sc 3" "sc 4" "[]" "[]"])
    (simp_all add: sig_s_def toy_sign_def curve_order_def)

definition toy_coin :: "u64 \<Rightarrow> int \<Rightarrow> MWCoin" where
  "toy_coin v k = mwcoin_new toy (toy_commit v (sc k)) (sc k) v"

lemma toy_spend: "\<exists>r. replay (spend_coins toy [toy_coin 100 9] 50 0 2 2)
   [EUuid 1, EKey (sc 1), EKey (sc 2), EKey (sc 3), EKey (sc 4), EKey (sc 5)] = (Done (Ok r), [])"
  by (simp add: spend_coins_def toy_coin_def sum_mw_def has_duplicate_def toy_run)

theorem spend_coins_conserves_value_witness:
  "\<exists>r. replay (spend_coins toy [toy_coin 100 9] 50 0 2 2)
     [EUuid 1, EKey (sc 1), EKey (sc 2), EKey (sc 3), EKey (sc 4), EKey (sc 5)] = (Done (Ok r), []) \<and>
     (case sp_change_coin r of None \<Rightarrow> 0 | Some c \<Rightarrow> unat (mw_value c)) = 46"
proof -
  from toy_spend obtain r where r: "replay (spend_coins toy [toy_coin 100 9] 50 0 2 2)
     [EUuid 1, EKey (sc 1), EKey (sc 2), EKey (sc 3), EKey (sc 4), EKey (sc 5)] = (Done (Ok r), [])" by blast
  from spend_coins_conserves_value [OF r] r show ?thesis
    by (simp add: sum_mw_def toy_coin_def mwcoin_new_def)
qed

text \<open>A slate that spends one coin, without a time lock, on its way to the second owner of the coin.\<close>

definition toy_shared_spend :: Slate where
  "toy_shared_spend = (blank toy 1 3 False)\<lparr>slate_amount := 50, slate_tx :=
     Some ((tx_empty toy)\<lparr>tx_inputs := FeaturesAndCommit [\<lparr>inp_features = Plain, inp_commit = [8]\<rparr>]\<rparr>)\<rparr>"

lemma toy_d_spend: "\<exists>r. replay (d_spend_coins toy [toy_coin 53 9] toy_shared_spend 50 0) [EKey (sc 2)] = (Done (Ok r), [])"
  by (simp add: d_spend_coins_def toy_shared_spend_def toy_coin_def verify_outputs_def tx_or_empty_def
      blank_def blank_with_kernel_features_def toy_run)

theorem d_spend_coins_guards_witness:
  "\<exists>r. replay (d_spend_coins toy [toy_coin 53 9] toy_shared_spend 50 0) [EKey (sc 2)] = (Done (Ok r), []) \<and>
     kernel_features toy (sp_slate r) = Ok (KPlain 0)"
proof -
  from toy_d_spend obtain r where
    r: "replay (d_spend_coins toy [toy_coin 53 9] toy_shared_spend 50 0) [EKey (sc 2)] = (Done (Ok r), [])" by blast
  from d_spend_coins_guards [OF r] r show ?thesis
    by (simp add: toy_shared_spend_def blank_def blank_with_kernel_features_def)
qed

end
