(* ===== verification/Contract_Run.thy ===== *)
theory Contract_Run
  imports Witnesses
begin

text \<open>
  A complete run of the contract protocol by both parties on the library of \<open>Lib_Instance\<close>: the
  slates they exchange, step by step, and the secret the first party ends up with.
\<close>

definition result_of :: "('e, 'a) result outcome \<times> event list \<Rightarrow> 'a" where
  "result_of x = (case fst x of Done (Inr r) \<Rightarrow> r | _ \<Rightarrow> undefined)"

definition keys :: "int list \<Rightarrow> event list" where
  "keys ks = map (\<lambda>k. EKey (sc k)) ks"

lemma keys_simps [simp]: "keys [] = []" "keys (k # ks) = EKey (sc k) # keys ks"
  by (simp_all add: keys_def)

lemma pt_inject [simp]: "pt a = pt b \<longleftrightarrow> a = b"
  by (simp add: pt_def)

lemma toy_rebuilt:
  "slate_tx s = Some tx \<Longrightarrow> rebuilt toy s = s\<lparr>slate_tx := Some \<lparr>tx_offset = slate_offset s,
     tx_inputs = FeaturesAndCommit (input_list tx), tx_outputs = tx_outputs tx,
     tx_kernels = [kernel_from_v4 toy (slate_to_v4 s)]\<rparr>\<rparr>"
  by (simp add: rebuilt_def tx_from_slate_v4_def slate_to_v4_def coms_to_v4_Some outputs_from_v4_coms
      empty_transaction_def)

text \<open>Both owners of a shared coin worth 53; the fee of the transaction is 3.\<close>

definition toy_sp :: SpendCoinsResult where
  "toy_sp = result_of (replay (spend_coins toy [toy_coin 53 9] 50 0 1 3) (EUuid 1 # keys [1, 2, 3, 4, 5]))"

definition toy_dsp :: SpendCoinsResult where
  "toy_dsp = result_of (replay (d_spend_coins toy [toy_coin 53 10] (rebuilt toy (sp_slate toy_sp)) 50 0) (keys [6]))"

definition toy_apt :: AptRecCoinsResult where
  "toy_apt = result_of (replay (apt_recv_coins toy (sp_slate toy_dsp) 50 (sc 11)) (keys [7, 12, 13, 8]))"

lemma toy_sp_run:
  "replay (spend_coins toy [toy_coin 53 9] 50 0 1 3) (EUuid 1 # keys [1, 2, 3, 4, 5]) = (Done (Ok toy_sp), [])"
  "sp_sig_key toy_sp = sc (- 14)" "sp_sig_nonce toy_sp = sc 2" "sp_change_coin toy_sp = None"
  "sp_slate toy_sp = (blank_with_kernel_features toy 1 3 False 0 None)\<lparr>fee_fields := 3, slate_amount := 50,
     slate_offset := sc 5, slate_tx := Some \<lparr>tx_offset = sc 5,
        tx_inputs = FeaturesAndCommit [\<lparr>inp_features = Plain, inp_commit = toy_commit 53 (sc 9)\<rparr>],
        tx_outputs = [], tx_kernels = []\<rparr>,
     participant_data := [\<lparr>public_blind_excess = pt (sc (-14)), public_nonce = pt (sc 2), part_sig = None\<rparr>]\<rparr>"
  unfolding toy_sp_def result_of_def
  by (simp_all add: spend_coins_def toy_coin_def sum_mw_def has_duplicate_def toy_blind_sum_def sum_sc_def 
    create_minimal_ctx_def toy_commit_def blank_with_kernel_features_def toy_run)

definition toy_kernel :: TxKernel where
  "toy_kernel = kernel_from_v4 toy (slate_to_v4 (sp_slate toy_sp))"

lemma toy_ptx: "rebuilt toy (sp_slate toy_sp) = (sp_slate toy_sp)\<lparr>slate_tx := Some \<lparr>tx_offset = sc 5,
    tx_inputs = FeaturesAndCommit [\<lparr>inp_features = Plain, inp_commit = toy_commit 53 (sc 9)\<rparr>],
    tx_outputs = [], tx_kernels = [toy_kernel]\<rparr>\<rparr>"
  by (simp add: toy_rebuilt toy_sp_run(5) toy_kernel_def input_list_def)

lemma toy_dsp_run:
  "replay (d_spend_coins toy [toy_coin 53 10] (rebuilt toy (sp_slate toy_sp)) 50 0) (keys [6]) = (Done (Ok toy_dsp), [])"
  "sp_sig_key toy_dsp = sc (- 10)" "sp_sig_nonce toy_dsp = sc 6" "sp_change_coin toy_dsp = None"
  "sp_slate toy_dsp = (rebuilt toy (sp_slate toy_sp))\<lparr>participant_data :=
     [\<lparr>public_blind_excess = pt (sc (- 14)), public_nonce = pt (sc 2), part_sig = None\<rparr>,
      \<lparr>public_blind_excess = pt (sc (- 10)), public_nonce = pt (sc 6), part_sig = None\<rparr>]\<rparr>"
  unfolding toy_dsp_def result_of_def unfolding toy_ptx unfolding toy_sp_run(5)
  by (simp_all add: d_spend_coins_def toy_coin_def toy_blind_sum_def sum_sc_def tx_or_empty_def verify_outputs_def
    create_minimal_ctx_def blank_with_kernel_features_def toy_run)

lemma toy_apt_run:
  "replay (apt_recv_coins toy (sp_slate toy_dsp) 50 (sc 11)) (keys [7, 12, 13, 8]) = (Done (Ok toy_apt), [])"
  "ar_prt_sig toy_apt = (toy_sign (sc 7) (sc 8) (Some (sc 11)), toy_sign (sc 7) (sc 8) None)"
  "ar_output_coin toy_apt = toy_coin 50 7"
  "ar_slate toy_apt = (sp_slate toy_dsp)\<lparr>slate_tx := Some \<lparr>tx_offset = sc 5,
    tx_inputs = FeaturesAndCommit [\<lparr>inp_features = Plain, inp_commit = toy_commit 53 (sc 9)\<rparr>],
    tx_outputs = [\<lparr>out_features = Plain, out_commit = toy_commit 50 (sc 7), out_proof = [1]\<rparr>],
    tx_kernels = [\<lparr>ker_features = KPlain 3, ker_excess = [], ker_excess_sig = []\<rparr>]\<rparr>,
   participant_data :=
     [\<lparr>public_blind_excess = pt (sc (- 14)), public_nonce = pt (sc 2), part_sig = None\<rparr>,
      \<lparr>public_blind_excess = pt (sc (- 10)), public_nonce = pt (sc 6), part_sig = None\<rparr>,
      \<lparr>public_blind_excess = pt (sc 7), public_nonce = pt (sc 8), part_sig = Some (toy_sign (sc 7) (sc 8) (Some (sc 11)))\<rparr>]\<rparr>"
  unfolding toy_apt_def result_of_def unfolding toy_dsp_run(5) unfolding toy_ptx unfolding toy_sp_run(5)
  by (simp_all add: apt_recv_coins_def recv_output_def toy_coin_def tx_or_empty_def verify_outputs_def
    update_kernel_def kernel_features_def pub_nonce_sum_def pub_blind_sum_def msg_to_sign_def sc_opt_def tx_or_err_def
    sum_sc_def add_my_sig_def num_participants_def upt_conv_Cons my_entry_def pt_def
    create_minimal_ctx_def blank_with_kernel_features_def toy_run)

text \<open>The two signatures that finish it, and the runs of both parties.\<close>

definition toy_fin1 :: Slate where
  "toy_fin1 = (rebuilt toy (ar_slate toy_apt))\<lparr>participant_data :=
     [\<lparr>public_blind_excess = pt (sc (- 14)), public_nonce = pt (sc 2), part_sig = Some (toy_sign (sc (- 14)) (sc 2) None)\<rparr>,
      \<lparr>public_blind_excess = pt (sc (- 10)), public_nonce = pt (sc 6), part_sig = None\<rparr>,
      \<lparr>public_blind_excess = pt (sc 7), public_nonce = pt (sc 8), part_sig = Some (toy_sign (sc 7) (sc 8) (Some (sc 11)))\<rparr>]\<rparr>"

lemma toy_slates: "ar_slate toy_apt = (blank_with_kernel_features toy 1 3 False 0 None)\<lparr>fee_fields := 3,
   slate_amount := 50, slate_offset := sc 5, slate_tx := Some \<lparr>tx_offset = sc 5,
    tx_inputs = FeaturesAndCommit [\<lparr>inp_features = Plain, inp_commit = toy_commit 53 (sc 9)\<rparr>],
    tx_outputs = [\<lparr>out_features = Plain, out_commit = toy_commit 50 (sc 7), out_proof = [1]\<rparr>],
    tx_kernels = [\<lparr>ker_features = KPlain 3, ker_excess = [], ker_excess_sig = []\<rparr>]\<rparr>,
   participant_data :=
     [\<lparr>public_blind_excess = pt (sc (- 14)), public_nonce = pt (sc 2), part_sig = None\<rparr>,
      \<lparr>public_blind_excess = pt (sc (- 10)), public_nonce = pt (sc 6), part_sig = None\<rparr>,
      \<lparr>public_blind_excess = pt (sc 7), public_nonce = pt (sc 8), part_sig = Some (toy_sign (sc 7) (sc 8) (Some (sc 11)))\<rparr>]\<rparr>"
  unfolding toy_apt_run(4) unfolding toy_dsp_run(5) unfolding toy_ptx unfolding toy_sp_run(5)
  by (simp add: blank_with_kernel_features_def)

lemma toy_apt_rebuilt: "rebuilt toy (ar_slate toy_apt) = (ar_slate toy_apt)\<lparr>slate_tx := Some \<lparr>tx_offset = sc 5,
    tx_inputs = FeaturesAndCommit [\<lparr>inp_features = Plain, inp_commit = toy_commit 53 (sc 9)\<rparr>],
    tx_outputs = [\<lparr>out_features = Plain, out_commit = toy_commit 50 (sc 7), out_proof = [1]\<rparr>],
    tx_kernels = [kernel_from_v4 toy (slate_to_v4 (ar_slate toy_apt))]\<rparr>\<rparr>"
proof -
  have "slate_offset (ar_slate toy_apt) = sc 5" "slate_tx (ar_slate toy_apt) = Some \<lparr>tx_offset = sc 5,
    tx_inputs = FeaturesAndCommit [\<lparr>inp_features = Plain, inp_commit = toy_commit 53 (sc 9)\<rparr>],
    tx_outputs = [\<lparr>out_features = Plain, out_commit = toy_commit 50 (sc 7), out_proof = [1]\<rparr>],
    tx_kernels = [\<lparr>ker_features = KPlain 3, ker_excess = [], ker_excess_sig = []\<rparr>]\<rparr>"
    by (simp_all add: toy_slates)
  from toy_rebuilt [OF this(2)] this(1) show ?thesis by (simp add: input_list_def)
qed

lemma toy_fin1_run:
  "fin_tx toy (rebuilt toy (ar_slate toy_apt)) (sc (- 14)) (sc 2) False (Some (pt (sc 11))) None = Ret (Ok toy_fin1)"
  unfolding toy_fin1_def toy_apt_rebuilt
  by (simp add: fin_tx_def verify_outputs_def verify_adapted_def pub_nonce_sum_def pub_blind_sum_def msg_to_sign_def
      kernel_features_def sc_opt_def sum_sc_def add_my_sig_def num_participants_def upt_conv_Cons my_entry_def
      toy_verify_def toy_sign_def toy_slates blank_with_kernel_features_def curve_order_def pt_def Let_def)

lemma fin_tx_replaceI:
  "slate_tx s = Some tx \<Longrightarrow> verify_outputs G tx = Ret () \<Longrightarrow>
   set_part_sig [0..<unat (num_participants s)] (\<lambda>p. part_sig p = Some old) new (participant_data s) = Ret ps \<Longrightarrow>
   fill_round_2 G (s\<lparr>participant_data := ps\<rparr>) key nonce = Ret (Ok s2) \<Longrightarrow> finalize G s2 = Ret (Ok fin) \<Longrightarrow>
   fin_tx G s key nonce True None (Some (old, new)) = Ret (Ok fin)"
  by (simp add: fin_tx_def expect_proc_def)

text \<open>The slate as the receiver gets it back, and with two or three plain signatures.\<close>

definition toy_back :: "TxKernel \<Rightarrow> Signature option \<Rightarrow> SecretKey option \<Rightarrow> Slate" where
  "toy_back k sig2 x = (blank_with_kernel_features toy 1 3 False 0 None)\<lparr>fee_fields := 3,
   slate_amount := 50, slate_offset := sc 5, slate_tx := Some \<lparr>tx_offset = sc 5,
    tx_inputs = FeaturesAndCommit [\<lparr>inp_features = Plain, inp_commit = toy_commit 53 (sc 9)\<rparr>],
    tx_outputs = [\<lparr>out_features = Plain, out_commit = toy_commit 50 (sc 7), out_proof = [1]\<rparr>],
    tx_kernels = [k]\<rparr>,
   participant_data :=
     [\<lparr>public_blind_excess = pt (sc (- 14)), public_nonce = pt (sc 2), part_sig = Some (toy_sign (sc (- 14)) (sc 2) None)\<rparr>,
      \<lparr>public_blind_excess = pt (sc (- 10)), public_nonce = pt (sc 6), part_sig = sig2\<rparr>,
      \<lparr>public_blind_excess = pt (sc 7), public_nonce = pt (sc 8), part_sig = Some (toy_sign (sc 7) (sc 8) x)\<rparr>]\<rparr>"

lemma toy_back_rebuilt: "\<exists>k. rebuilt toy toy_fin1 = toy_back k None (Some (sc 11)) \<and> ker_features k = KPlain 3"
proof -
  have "toy_fin1 = toy_back (kernel_from_v4 toy (slate_to_v4 (ar_slate toy_apt))) None (Some (sc 11))"
    unfolding toy_fin1_def toy_apt_rebuilt toy_back_def unfolding toy_slates by simp
  then obtain k where e: "toy_fin1 = toy_back k None (Some (sc 11))" by blast
  define k' where "k' = kernel_from_v4 toy (slate_to_v4 (toy_back k None (Some (sc 11))))"
  have "slate_tx (toy_back k None (Some (sc 11))) = Some \<lparr>tx_offset = sc 5,
    tx_inputs = FeaturesAndCommit [\<lparr>inp_features = Plain, inp_commit = toy_commit 53 (sc 9)\<rparr>],
    tx_outputs = [\<lparr>out_features = Plain, out_commit = toy_commit 50 (sc 7), out_proof = [1]\<rparr>],
    tx_kernels = [k]\<rparr>" by (simp add: toy_back_def)
  from toy_rebuilt [OF this, folded k'_def] have "rebuilt toy (toy_back k None (Some (sc 11))) =
      toy_back k' None (Some (sc 11))"
    by (simp add: toy_back_def input_list_def)
  moreover have "ker_features k' = KPlain 3"
    by (simp add: k'_def toy_back_def kernel_from_v4_def slate_to_v4_def Let_def blank_with_kernel_features_def)
  ultimately show ?thesis unfolding e by blast
qed

lemmas toy_round_simps =
  verify_part_sigs_def pub_nonce_sum_def pub_blind_sum_def msg_to_sign_def kernel_features_def sc_opt_def
  sum_sc_def add_my_sig_def num_participants_def upt_conv_Cons my_entry_def toy_verify_def toy_sign_def
  curve_order_def pt_def Let_def blank_with_kernel_features_def

lemma toy_back_round_2:
  "fill_round_2 toy (toy_back k None None) (sc (- 10)) (sc 6) =
     Ret (Ok (toy_back k (Some (toy_sign (sc (- 10)) (sc 6) None)) None))"
  by (simp add: fill_round_2_Ok toy_back_def toy_round_simps)

lemma toy_back_finalize:
  assumes "ker_features k = KPlain 3"
  shows "\<exists>k'. finalize toy (toy_back k (Some (toy_sign (sc (- 10)) (sc 6) None)) None) =
     Ret (Ok (toy_back k' (Some (toy_sign (sc (- 10)) (sc 6) None)) None))"
  using assms
  by (simp add: finalize_Ok finalize_signature_def rbind_eq_Ok part_sigs_def check_fees_def tx_or_err_def
      calc_excess_def toy_back_def toy_round_simps)

lemma toy_fin2_run:
  "\<exists>k. fin_tx toy (rebuilt toy toy_fin1) (sc (- 10)) (sc 6) True None
     (Some (toy_sign (sc 7) (sc 8) (Some (sc 11)), toy_sign (sc 7) (sc 8) None)) =
     Ret (Ok (toy_back k (Some (toy_sign (sc (- 10)) (sc 6) None)) None))"
proof -
  obtain k where k: "rebuilt toy toy_fin1 = toy_back k None (Some (sc 11))" "ker_features k = KPlain 3"
    using toy_back_rebuilt by blast
  obtain k' where f: "finalize toy (toy_back k (Some (toy_sign (sc (- 10)) (sc 6) None)) None) =
     Ret (Ok (toy_back k' (Some (toy_sign (sc (- 10)) (sc 6) None)) None))"
    using toy_back_finalize [OF k(2)] by blast
  have "fin_tx toy (toy_back k None (Some (sc 11))) (sc (- 10)) (sc 6) True None
     (Some (toy_sign (sc 7) (sc 8) (Some (sc 11)), toy_sign (sc 7) (sc 8) None)) =
     Ret (Ok (toy_back k' (Some (toy_sign (sc (- 10)) (sc 6) None)) None))"
  proof (rule fin_tx_replaceI [OF _ verify_outputs_Ret [THEN iffD2] _ _ f])
    show "set_part_sig [0..<unat (num_participants (toy_back k None (Some (sc 11))))]
      (\<lambda>p. part_sig p = Some (toy_sign (sc 7) (sc 8) (Some (sc 11)))) (toy_sign (sc 7) (sc 8) None)
      (participant_data (toy_back k None (Some (sc 11)))) = Ret (participant_data (toy_back k None None))"
      by (simp add: toy_back_def toy_round_simps)
    show "fill_round_2 toy ((toy_back k None (Some (sc 11)))\<lparr>participant_data :=
        participant_data (toy_back k None None)\<rparr>) (sc (- 10)) (sc 6) =
      Ret (Ok (toy_back k (Some (toy_sign (sc (- 10)) (sc 6) None)) None))"
      using toy_back_round_2 [of k] by (simp add: toy_back_def)
  qed (simp add: toy_back_def, simp)
  with k(1) show ?thesis by auto
qed

lemma replay_try_Done:
  "replay p es = (Done (Ok x), []) \<Longrightarrow> replay (try_bind p f) (es @ rest) = replay (f x) rest"
  using replay_mono [of p es "Done (Ok x)" "[]" rest]
  by (simp add: try_bind_def replay_pbind)

lemma replay_silent_bind: "p = Ret x \<Longrightarrow> replay (pbind p f) es = replay (f x) es"
  by simp

lemma toy_read_slate: "read_slate toy (slate_to_string toy s) = Ret (rebuilt toy s)"
  by (simp add: read_slate_def deserialize_slate_to_string)

lemma ext_toy: "ext_witness toy (toy_sign (sc 7) (sc 8) None) (toy_sign (sc 7) (sc 8) (Some (sc 11))) = Ret (sc 11)"
  by (simp add: ext_witness_def sig_extract_s_def toy_sign_def sc_opt_def curve_order_def)

text \<open>The lines that go over the stream.\<close>

lemma toy_contract:
  "\<exists>t1 t2 t3 t4 ra rb. replay (dcontract_mw_tx_alice toy (toy_coin 53 9) 50 0 (pt (sc 11)))
      ((EUuid 1 # keys [1, 2, 3, 4, 5]) @ sent t1 @ rcvd t2 @ sent t3 @ rcvd t4) = (Done (Ok ra), []) \<and>
    replay (dcontract_mw_tx_bob toy (toy_coin 53 10) 50 0 (sc 11))
      (rcvd t1 @ keys [6] @ keys [7, 12, 13, 8] @ sent t2 @ rcvd t3 @ sent t4) = (Done (Ok rb), [])"
proof -
  obtain k where f2: "fin_tx toy (rebuilt toy toy_fin1) (sc (- 10)) (sc 6) True None
     (Some (toy_sign (sc 7) (sc 8) (Some (sc 11)), toy_sign (sc 7) (sc 8) None)) =
     Ret (Ok (toy_back k (Some (toy_sign (sc (- 10)) (sc 6) None)) None))" using toy_fin2_run by blast
  let ?fin = "toy_back k (Some (toy_sign (sc (- 10)) (sc 6) None)) None"
  let ?t1 = "slate_to_string toy (sp_slate toy_sp)" and ?t2 = "slate_to_string toy (ar_slate toy_apt)"
    and ?t3 = "slate_to_string toy toy_fin1" and ?t4 = "slate_to_string toy ?fin"
  have t2: "third_sig (rebuilt toy (ar_slate toy_apt)) = Ret (toy_sign (sc 7) (sc 8) (Some (sc 11)))"
    by (simp add: third_sig_def) (simp add: toy_slates)
  have t4: "third_sig (rebuilt toy ?fin) = Ret (toy_sign (sc 7) (sc 8) None)"
    by (simp add: third_sig_def) (simp add: toy_back_def)
  have "\<exists>ra. replay (dcontract_mw_tx_alice toy (toy_coin 53 9) 50 0 (pt (sc 11)))
      ((EUuid 1 # keys [1, 2, 3, 4, 5]) @ sent ?t1 @ rcvd ?t2 @ sent ?t3 @ rcvd ?t4 @ []) = (Done (Ok ra), [])"
    unfolding dcontract_mw_tx_alice_def replay_try_Done [OF toy_sp_run(1)] toy_sp_run(2,3)
    unfolding tcp.send_step tcp.recv_step
    unfolding toy_read_slate pbind.simps t2 toy_fin1_run try_bind_simps
    unfolding tcp.send_step tcp.recv_step
    unfolding toy_read_slate pbind.simps t4 ext_toy replay.simps by blast
  moreover have "\<exists>rb. replay (dcontract_mw_tx_bob toy (toy_coin 53 10) 50 0 (sc 11))
      (rcvd ?t1 @ keys [6] @ keys [7, 12, 13, 8] @ sent ?t2 @ rcvd ?t3 @ sent ?t4 @ []) = (Done (Ok rb), [])"
    unfolding dcontract_mw_tx_bob_def tcp.recv_step
    unfolding toy_read_slate pbind.simps replay_try_Done [OF toy_dsp_run(1)] 
    unfolding replay_try_Done [OF toy_apt_run(1)]
    unfolding tcp.send_step tcp.recv_step
    unfolding toy_read_slate pbind.simps toy_dsp_run(2,3) toy_apt_run(2) f2 try_bind_simps
    unfolding tcp.send_step replay.simps by blast
  ultimately show ?thesis unfolding append_Nil2 by blast
qed

theorem dcontract_reveals_x_witness:
  "\<exists>es_a es_b ra rb.
     replay (dcontract_mw_tx_alice toy (toy_coin 53 9) 50 0 (pt (sc 11))) es_a = (Done (Ok ra), []) \<and>
     replay (dcontract_mw_tx_bob toy (toy_coin 53 10) 50 0 (sc 11)) es_b = (Done (Ok rb), []) \<and> cm_x ra = sc 11"
proof -
  from toy_contract obtain t1 t2 t3 t4 ra rb where
    r: "replay (dcontract_mw_tx_alice toy (toy_coin 53 9) 50 0 (pt (sc 11)))
      ((EUuid 1 # keys [1, 2, 3, 4, 5]) @ sent t1 @ rcvd t2 @ sent t3 @ rcvd t4) = (Done (Ok ra), [])"
      "replay (dcontract_mw_tx_bob toy (toy_coin 53 10) 50 0 (sc 11))
      (rcvd t1 @ keys [6] @ keys [7, 12, 13, 8] @ sent t2 @ rcvd t3 @ sent t4) = (Done (Ok rb), [])" by blast
  from dcontract_reveals_x [OF r _ _ toy_slate_json toy_scalar toy_adaptor is_scalar_sc] r show ?thesis
    by (auto simp: sent_def rcvd_def)
qed
end
