(* ===== verification/Swap_Run.thy ===== *)
theory Swap_Run
  imports Contract_Run
begin

text \<open>
  Runs of whole phases and commands on the library of \<open>Lib_Instance\<close>, and the properties of the
  swap applied to them.
\<close>

section \<open>Node answers\<close>

abbreviation toy_bc :: BitcoinCore where "toy_bc \<equiv> cmd_btc_core toy_settings"
abbreviation toy_gc :: GrinCore where "toy_gc \<equiv> cmd_grin_core toy_settings"

lemma toy_cores [simp]:
  "factory_stub (btc_factory toy_bc) = None" "factory_stub (grin_factory toy_gc) = None"
  "node_id (btc_node toy_bc) = ''btc''" "node_id (grin_node toy_gc) = ''grin''"
  by (simp_all add: cmd_btc_core_def cmd_grin_core_def bitcoin_core_new_def grin_core_new_def request_factory_new_def
      toy_settings_def)

definition btc_answers :: "string \<Rightarrow> JsonRpcParam list \<Rightarrow> string \<Rightarrow> event" where
  "btc_answers meth params body =
     EHttp (get_url toy_bc) (btc_rpc toy_bc meth params) (node_auth (btc_node toy_bc)) (Response 200 body)"

definition grin_answers :: "string \<Rightarrow> JsonRpcParam list \<Rightarrow> string \<Rightarrow> event" where
  "grin_answers meth params body =
     EHttp (grin_url toy_gc) (grin_rpc toy_gc meth params) (node_auth (grin_node toy_gc)) (Response 200 body)"

lemma toy_heights:
  "replay (get_block_height toy toy_gc) (grin_answers ''get_tip'' [] (show_u64 h) # es) = (Done (Ok h), es)"
  "replay (get_current_block_height toy toy_bc) (btc_answers ''getblockcount'' [] (show_u64 h) # es) = (Done (Ok h), es)"
  by (simp_all add: get_block_height_def get_current_block_height_def grin_answers_def btc_answers_def try_bind_def
      replay_pbind replay_rpc_call is_success_def replay.simps u64_text.dec_enc)


lemma toy_import:
  "replay (import_btc_address toy toy_bc addr)
     (btc_answers ''importaddress'' [PString addr, PString '''', PBool False] ''btc'' # es) = (Done (Ok ()), es)"
  by (simp add: import_btc_address_def btc_answers_def try_bind_def replay_pbind replay_rpc_call is_success_def replay.simps)

lemma toy_send_raw:
  "replay (send_raw_transaction toy toy_bc tx)
     (btc_answers ''sendrawtransaction'' [PString (hex_text (btx_serialize toy tx))] ''btc'' # es) = (Done (Ok ()), es)"
  by (simp add: send_raw_transaction_def btc_answers_def try_bind_def replay_pbind replay_rpc_call is_success_def replay.simps)

lemma toy_push:
  "replay (push_transaction toy toy_gc tx) (grin_answers ''push_transaction'' [PTx tx, PBool True] ''grin'' # es) =
     (Done (Ok ()), es)"
  by (simp add: push_transaction_def grin_answers_def try_bind_def replay_pbind replay_rpc_call is_success_def replay.simps)

lemma toy_sats: "sat_amount (1 / 4) = 25000000"
proof -
  have "f32_round (25000000 :: rat) = 25000000"
    by (subst f32_round_eq [of 1 _ 12500000]) (simp_all add: pow2_def)
  then show ?thesis by (simp add: sat_amount_def f32_mul_def f32_as_u64_def)
qed

definition balance_answer :: "string \<Rightarrow> event" where
  "balance_answer addr = btc_answers ''listunspent'' [PInt 0, PInt 9999999, PVec [addr]] ''btc''"

lemma toy_balance:
  "replay (get_address_final_balance_addr toy toy_bc addr) (balance_answer addr # es) = (Done (Ok 25000000), es)"
  by (simp add: get_address_final_balance_addr_def get_address_final_balance_def balance_answer_def btc_answers_def
      try_bind_def replay_pbind replay_rpc_call is_success_def replay.simps toy_sats)

lemma toy_verify_funds:
  "replay (verify_funds toy toy_bc addr 25000000 MAX_ATTEMPTS_VERF_FUNDS) (balance_answer addr # es) = (Done True, es)"
proof -
  have m: "MAX_ATTEMPTS_VERF_FUNDS = Suc 119" by (simp add: MAX_ATTEMPTS_VERF_FUNDS_def)
  show ?thesis unfolding m verify_funds.simps by (simp add: replay_pbind toy_balance replay.simps)
qed

theorem verify_funds_ends_witness:
  "\<exists>refused. replay (verify_funds toy toy_bc ''addr'' 25000000 MAX_ATTEMPTS_VERF_FUNDS)
     [refused, ESleep 60, balance_answer ''addr''] = (Done True, [])"
proof -
  define refused where "refused = EHttp (get_url toy_bc)
    (btc_rpc toy_bc ''listunspent'' [PInt 0, PInt 9999999, PVec [''addr'']]) (node_auth (btc_node toy_bc)) (Response 500 ''busy'')"
  have "no_coin_yet toy toy_bc ''addr'' refused"
    by (simp add: no_coin_yet_def refused_def get_address_final_balance_addr_def get_address_final_balance_def
      try_bind_def replay_pbind replay_rpc_call is_success_def replay.simps)
  then have "\<forall>ev \<in> set [refused]. no_coin_yet toy toy_bc ''addr'' ev" by simp
  from verify_funds_ends [OF this toy_balance] have "replay (verify_funds toy toy_bc ''addr'' 25000000 MAX_ATTEMPTS_VERF_FUNDS)
     [refused, ESleep 60, balance_answer ''addr''] = (Done True, [])" by simp
  then show ?thesis by blast
qed

section \<open>A swap\<close>

text \<open>Alice offers Grin for a quarter of a bitcoin.\<close>

definition toy_pub :: SwapSlatePub where
  "toy_pub =
     \<lparr>status = INITIALIZED,
      pub_mw = \<lparr>mw_amount = 53, mw_timelock = 120, mw_lock_time = None, mw_swap_type = OFFERED\<rparr>,
      pub_btc = \<lparr>btc_amount = 25000000, btc_timelock = 12, btc_swap_type = REQUESTED, btc_lock_time = None,
                 pub_a = None, pub_b = None, pub_x = None\<rparr>,
      meta = \<lparr>meta_server = ''127.0.0.1'', meta_port = ''80''\<rparr>\<rparr>"

definition toy_alice :: SwapSlate where
  "toy_alice = upd_mw_prv (\<lambda>m. m\<lparr>mw_inputs := [toy_coin 100 9]\<rparr>) \<lparr>swap_id = 7, pub_slate = toy_pub, prv_slate = empty_priv\<rparr>"

definition toy_bob :: SwapSlate where
  "toy_bob = upd_btc_prv (\<lambda>b. b\<lparr>btc_inputs := [toy_input 30000000]\<rparr>) \<lparr>swap_id = 7, pub_slate = toy_pub, prv_slate = empty_priv\<rparr>"

theorem several_coins_cannot_lock_witness:
  "\<forall>es s' es'. replay (locking_phase_swap_btc toy (upd_btc_prv (\<lambda>b. b\<lparr>btc_inputs := [toy_input 20000000, toy_input 10000000]\<rparr>)
     toy_bob) toy_bc) es \<noteq> (Done (s', Ok ()), es')"
  by (intro allI several_coins_cannot_lock) simp

theorem exact_funds_cannot_lock_witness:
  "\<forall>es s' es'. replay (locking_phase_swap_mw toy (upd_mw_prv (\<lambda>m. m\<lparr>mw_inputs := [toy_coin 57 9]\<rparr>) toy_alice)
     toy_gc toy_bc) es \<noteq> (Done (s', Ok ()), es')"
  by (intro allI exact_funds_cannot_lock) (simp add: upd_mw_prv_def toy_alice_def toy_pub_def sum_mw_def toy_coin_def mwcoin_new_def)

text \<open>Height requests and their answers.\<close>

definition toy_tips :: "u64 \<Rightarrow> u64 \<Rightarrow> event list" where
  "toy_tips hg hb = [grin_answers ''get_tip'' [] (show_u64 hg), btc_answers ''getblockcount'' [] (show_u64 hb)]"

definition toy_set_up :: "i64 \<Rightarrow> i64 \<Rightarrow> SwapSlate \<Rightarrow> SwapSlate" where
  "toy_set_up tg tb s = upd_mw_pub (\<lambda>m. m\<lparr>mw_lock_time := Some tg\<rparr>) (upd_btc_pub (\<lambda>b. b\<lparr>btc_lock_time := Some tb\<rparr>)
     (set_status SETUP s))"

lemma toy_set_up_times [simp]:
  "mw_lock_time (pub_mw (pub_slate (toy_set_up tg tb s))) = Some tg"
  "btc_lock_time (pub_btc (pub_slate (toy_set_up tg tb s))) = Some tb"
  by (simp_all add: toy_set_up_def)

lemma toy_swap_heights:
  assumes "mw_lock_time (pub_mw (pub_slate s)) = Some tg" "btc_lock_time (pub_btc (pub_slate s)) = Some tb"
  shows "replay (swap_heights toy toy_gc toy_bc s) (toy_tips hg hb @ es) = (Done (tg, tb, hg, hb), es)"
  by (simp add: assms swap_heights_def toy_tips_def expect_proc_def replay_pbind toy_heights replay.simps)

lemma toy_checks:
  assumes "mw_lock_time (pub_mw (pub_slate s)) = Some 1120" "btc_lock_time (pub_btc (pub_slate s)) = Some 512"
  shows "replay (check_if_enough_time toy toy_gc toy_bc s) (toy_tips 1010 501 @ es) = (Done True, es)"
    "replay (check_if_enough_time toy toy_gc toy_bc s) (toy_tips 1100 501 @ es) = (Done False, es)"
    "replay (can_refund toy toy_gc toy_bc s) (toy_tips 1130 520 @ es) = (Done True, es)"
  by (simp_all add: check_if_enough_time_def can_refund_def replay_pbind toy_swap_heights [OF assms] u64_try_from_def
      constants_simps replay.simps)

theorem mistimed_phase_is_inert_witness:
  "\<exists>e. replay (exec_phase_swap_mw toy (toy_set_up 1120 512 toy_alice) toy_bc toy_gc) (toy_tips 1100 501) =
     (Done (toy_set_up 1120 512 toy_alice, Err e), [])"
  using mistimed_phase_is_inert [of "exec_phase_swap_mw toy (toy_set_up 1120 512 toy_alice) toy_bc toy_gc"
      "check_if_enough_time toy toy_gc toy_bc (toy_set_up 1120 512 toy_alice)" toy _ toy_bc toy_gc "toy_tips 1100 501"]
    toy_checks(2) [of "toy_set_up 1120 512 toy_alice" "[]"] by simp

theorem refund_window_after_execution_witness:
  "replay (check_if_enough_time toy toy_gc toy_bc (toy_set_up 1120 512 toy_alice)) (toy_tips 1010 501) = (Done True, []) \<and>
   replay (can_refund toy toy_gc toy_bc (toy_set_up 1120 512 toy_alice)) (toy_tips 1130 520) = (Done True, []) \<and>
   uint (1010 :: u64) + 60 < uint (1130 :: u64)"
  using refund_window_after_execution [of toy toy_gc toy_bc "toy_set_up 1120 512 toy_alice" "toy_tips 1010 501" 1120 512 1010 501
      toy_gc toy_bc "toy_tips 1130 520" 1120 512 1130 520]
    toy_checks [of "toy_set_up 1120 512 toy_alice" "[]"] toy_swap_heights [of "toy_set_up 1120 512 toy_alice" 1120 512 _ _ "[]"]
  by simp

theorem short_timelock_never_executes_witness:
  "replay (check_if_enough_time toy toy_gc toy_bc (toy_set_up 1030 512 (upd_mw_pub (\<lambda>m. m\<lparr>mw_timelock := 30\<rparr>) toy_alice)))
     (toy_tips 1000 501) = (Done False, [])"
  by (rule short_timelock_never_executes
      [OF _ _ _ toy_swap_heights [where es = "[]" and tg = 1030 and tb = 512, unfolded append_Nil2], where ?h0.0 = 1000])
    (simp_all add: toy_set_up_def toy_alice_def i64_try_from_def)


section \<open>Ends of a locked swap\<close>

text \<open>The keys of the two owners and of the secret, the lock transaction, and the swap as each party has it.\<close>

definition toy_pk :: "int \<Rightarrow> BtcPublicKey" where "toy_pk k = pt (sc k)"

definition toy_lock_script :: Script where
  "toy_lock_script = get_lock_pub_script toy (toy_pk 21) (toy_pk 11) (toy_pk 22) 512 True"

definition toy_lock_tx :: BtcTransaction where
  "toy_lock_tx = \<lparr>btx_version = 1, btx_lock_time = 0, btx_input = [unsigned_txin [10] 1 FFFFFFFF],
     btx_output = [\<lparr>txo_value = 25000000, script_pubkey = toy_lock_script\<rparr>]\<rparr>"

definition toy_lock_coin :: "int \<Rightarrow> BTCInput" where
  "toy_lock_coin k = btc_input_new2 toy (txid_to_string toy (tx_txid toy toy_lock_tx)) 0 25000000 (sk_of (sc k)) (toy_pk k)
     toy_lock_script"

definition toy_locked_pub :: "SwapSlate \<Rightarrow> SwapSlate" where
  "toy_locked_pub s = toy_set_up 1120 512 (upd_btc_pub (\<lambda>b. b\<lparr>pub_a := Some (hex_text (toy_pk 21)),
     pub_b := Some (hex_text (toy_pk 22)), pub_x := Some (hex_text (toy_pk 11))\<rparr>) s)"

definition toy_la :: SwapSlate where
  "toy_la = toy_locked_pub (upd_mw_prv (\<lambda>m. m\<lparr>shared_coin := Some (toy_coin 53 9)\<rparr>)
     (upd_btc_prv (\<lambda>b. b\<lparr>btc_sk := Some (toy_wif (sk_of (sc 21))), btc_lock := Some (toy_lock_coin 21)\<rparr>) toy_alice))"

definition toy_lb :: SwapSlate where
  "toy_lb = toy_locked_pub (upd_mw_prv (\<lambda>m. m\<lparr>shared_coin := Some (toy_coin 53 10)\<rparr>)
     (upd_btc_prv (\<lambda>b. b\<lparr>btc_sk := Some (toy_wif (sk_of (sc 22))), btc_x := Some (toy_wif (sk_of (sc 11))),
        btc_lock := Some (toy_lock_coin 22)\<rparr>) toy_bob))"

lemma toy_is_locked: "swap_locked toy toy_lock_tx (sk_of (sc 21)) (sk_of (sc 22)) (sk_of (sc 11)) 512 toy_la toy_lb"
  by (simp add: swap_locked_def toy_la_def toy_lb_def toy_locked_pub_def toy_set_up_def toy_alice_def toy_bob_def
      toy_pub_def toy_lock_tx_def toy_lock_coin_def toy_lock_script_def lock_coin_def btc_input_new2_def toy_pk_def list_get_def)

lemma toy_locked_fields [simp]:
  "pub_a (pub_btc (pub_slate toy_la)) = Some (hex_text (toy_pk 21))" "pub_b (pub_btc (pub_slate toy_la)) = Some (hex_text (toy_pk 22))"
  "pub_x (pub_btc (pub_slate toy_la)) = Some (hex_text (toy_pk 11))" "btc_lock_time (pub_btc (pub_slate toy_la)) = Some 512"
  "mw_lock_time (pub_mw (pub_slate toy_la)) = Some 1120"
  "btc_amount (pub_btc (pub_slate toy_la)) = 25000000" "btc_sk (prv_btc (prv_slate toy_la)) = Some (toy_wif (sk_of (sc 21)))"
  "btc_lock (prv_btc (prv_slate toy_la)) = Some (toy_lock_coin 21)" "shared_coin (prv_mw (prv_slate toy_la)) = Some (toy_coin 53 9)"
  "pub_slate toy_lb = pub_slate toy_la" "btc_sk (prv_btc (prv_slate toy_lb)) = Some (toy_wif (sk_of (sc 22)))"
  "btc_x (prv_btc (prv_slate toy_lb)) = Some (toy_wif (sk_of (sc 11)))"
  "btc_lock (prv_btc (prv_slate toy_lb)) = Some (toy_lock_coin 22)" "shared_coin (prv_mw (prv_slate toy_lb)) = Some (toy_coin 53 10)"
  by (simp_all add: toy_la_def toy_lb_def toy_locked_pub_def toy_set_up_def toy_alice_def toy_bob_def toy_pub_def
      upd_mw_prv_def upd_btc_prv_def)

lemma toy_spend_lock:
  "create_spend_lock_transaction toy dest (toy_lock_coin k) 25000000 BTC_FEE t = Ret (Ok
     \<lparr>btx_version = 1, btx_lock_time = t, btx_input = [unsigned_txin (tx_txid toy toy_lock_tx) 0 (if t = 0 then FFFFFFFF else 0)],
      btx_output = [\<lparr>txo_value = 25000000 - BTC_FEE, script_pubkey = get_p2pkh_pub_script toy dest\<rparr>]\<rparr>)"
  by (simp add: create_spend_lock_transaction_def toy_lock_coin_def btc_input_new2_def get_p2pkh_pub_script_def)

lemma toy_texts:
  "btc_pk_from_str toy (hex_text p) = Some p" "from_wif toy (toy_wif sk) = Some sk" "public_key toy (sk_of (sc k)) = toy_pk k"
  by (simp_all add: toy_pk_def)

lemma toy_refund_run:
  "\<exists>tx s'. replay (refund_phase_swap_btc toy toy_lb toy_bc toy_gc)
     (toy_tips 1130 520 @ [EKey (sc 30), btc_answers ''sendrawtransaction'' [PString (hex_text (btx_serialize toy tx))] ''btc'']) =
     (Done (s', Ok ()), [])"
proof -
  obtain tx where tx: "sign_lock_transaction_refund toy \<lparr>btx_version = 1, btx_lock_time = 512,
      btx_input = [unsigned_txin (tx_txid toy toy_lock_tx) 0 0],
      btx_output = [\<lparr>txo_value = 25000000 - BTC_FEE, script_pubkey = get_p2pkh_pub_script toy (toy_pk 30)\<rparr>]\<rparr> 0
      (get_lock_pub_script toy (toy_pk 21) (toy_pk 11) (toy_pk 22) 512 False) (sk_of (sc 22)) = Ret tx"
    using toy_refund_signs by blast
  have out: "btx_output tx = [\<lparr>txo_value = 25000000 - BTC_FEE, script_pubkey = get_p2pkh_pub_script toy (toy_pk 30)\<rparr>]"
    using refund_signer.keeps_parts(1) [OF tx] by simp
  have "\<exists>s'. replay (refund_phase_swap_btc toy toy_lb toy_bc toy_gc)
     (toy_tips 1130 520 @ [EKey (sc 30), btc_answers ''sendrawtransaction'' [PString (hex_text (btx_serialize toy tx))] ''btc'']) =
     (Done (s', Ok ()), [])"
    unfolding refund_phase_swap_btc_def Let_def
    by (simp add: replay_pbind toy_checks replay.simps create_private_key_def fresh_key_def TEST_NET_def
       deserialize_pub_key_def deserialize_priv_key_def u32_try_from_def toy_texts toy_spend_lock try_phase_def tx toy_send_raw out list_get_def
       del: toy_sel)
  then show ?thesis by blast
qed


theorem refund_phase_reclaims_witness:
  "\<exists>es s' tx k c. replay (refund_phase_swap_btc toy toy_lb toy_bc toy_gc) es = (Done (s', Ok ()), []) \<and>
     raw_tx_request toy toy_bc tx \<in> set (requests es) \<and>
     takes_coin toy c (lock_builder (toy_pk 21) (toy_pk 11) (toy_pk 22) 512) (public_key toy (sk_of k)) tx"
proof -
  from toy_refund_run obtain es s' where
    r: "replay (refund_phase_swap_btc toy toy_lb toy_bc toy_gc) es = (Done (s', Ok ()), [])" by blast
  from refund_phase_reclaims [OF r toy_is_locked] r show ?thesis
    by (simp add: curve_order_def toy_texts(3) [symmetric] del: toy_sel) blast
qed


lemma replay_then:
  "replay p es = (Done x, []) \<Longrightarrow> replay (pbind p f) (es @ rest) = replay (f x) rest"
  using replay_mono [of p es "Done x" "[]" rest] by (simp add: replay_pbind)

lemma replay_try_phase_then:
  "replay p es = (Done (Ok x), []) \<Longrightarrow> replay (try_phase s p f) (es @ rest) = replay (f x) rest"
  by (simp add: try_phase_def replay_then)

lemma toy_contract_talk:
  "\<exists>ca cb ra rb. replay (dcontract_mw_tx_alice toy (toy_coin 53 9) 50 0 (pt (sc 11))) ca = (Done (Ok ra), []) \<and>
     replay (dcontract_mw_tx_bob toy (toy_coin 53 10) 50 0 (sc 11)) cb = (Done (Ok rb), []) \<and>
     lines_read ca = written cb \<and> lines_read cb = written ca"
proof -
  from toy_contract obtain t1 t2 t3 t4 ra rb where
    r: "replay (dcontract_mw_tx_alice toy (toy_coin 53 9) 50 0 (pt (sc 11)))
      ((EUuid 1 # keys [1, 2, 3, 4, 5]) @ sent t1 @ rcvd t2 @ sent t3 @ rcvd t4) = (Done (Ok ra), [])"
      "replay (dcontract_mw_tx_bob toy (toy_coin 53 10) 50 0 (sc 11))
      (rcvd t1 @ keys [6] @ keys [7, 12, 13, 8] @ sent t2 @ rcvd t3 @ sent t4) = (Done (Ok rb), [])" by blast
  moreover have "lines_read ((EUuid 1 # keys [1, 2, 3, 4, 5]) @ sent t1 @ rcvd t2 @ sent t3 @ rcvd t4) =
      written (rcvd t1 @ keys [6] @ keys [7, 12, 13, 8] @ sent t2 @ rcvd t3 @ sent t4)"
    "lines_read (rcvd t1 @ keys [6] @ keys [7, 12, 13, 8] @ sent t2 @ rcvd t3 @ sent t4) =
      written ((EUuid 1 # keys [1, 2, 3, 4, 5]) @ sent t1 @ rcvd t2 @ sent t3 @ rcvd t4)"
    by (simp_all add: sent_def rcvd_def)
  ultimately show ?thesis by blast
qed

lemma toy_conversions:
  "grin_pk_from_btc_pk toy (toy_pk 11) = Ret (pt (sc 11))" "private_key_from_grin_sk toy (sc 11) = Ret (sk_of (sc 11))"
  "grin_sk_from_btc_sk toy (sk_of (sc 11)) = Ret (sc 11)" "mw_value (toy_coin 53 k) - estimate_fees toy 1 1 1 = 50"
  by (simp_all add: grin_pk_from_btc_pk_def private_key_from_grin_sk_def grin_sk_from_btc_sk_def toy_pk_def pt_def
    curve_order_def toy_coin_def mwcoin_new_def estimate_fees_def)

lemma toy_exec_alice:
  assumes "replay (dcontract_mw_tx_alice toy (toy_coin 53 9) 50 0 (pt (sc 11))) ca = (Done (Ok ra), [])" "cm_x ra = sc 11"
  shows "\<exists>tx sa. replay (exec_phase_swap_mw toy toy_la toy_bc toy_gc) (toy_tips 1010 501 @ ca @ [EKey (sc 30),
     btc_answers ''sendrawtransaction'' [PString (hex_text (btx_serialize toy tx))] ''btc'']) = (Done (sa, Ok ()), [])"
proof -
  obtain tx where tx: "sign_lock_transaction_redeemer toy \<lparr>btx_version = 1, btx_lock_time = 0,
      btx_input = [unsigned_txin (tx_txid toy toy_lock_tx) 0 FFFFFFFF],
      btx_output = [\<lparr>txo_value = 25000000 - BTC_FEE, script_pubkey = get_p2pkh_pub_script toy (toy_pk 30)\<rparr>]\<rparr> 0
      (get_lock_pub_script toy (toy_pk 21) (toy_pk 11) (toy_pk 22) 512 False) (sk_of (sc 21)) (sk_of (sc 11)) = Ret tx"
    using toy_redeem_signs by blast
  have out: "btx_output tx = [\<lparr>txo_value = 25000000 - BTC_FEE, script_pubkey = get_p2pkh_pub_script toy (toy_pk 30)\<rparr>]"
    using redeem_signer.keeps_parts(1) [OF tx] by simp
  have "\<exists>sa. replay (exec_phase_swap_mw toy toy_la toy_bc toy_gc) (toy_tips 1010 501 @ ca @ [EKey (sc 30),
     btc_answers ''sendrawtransaction'' [PString (hex_text (btx_serialize toy tx))] ''btc'']) = (Done (sa, Ok ()), [])"
    unfolding exec_phase_swap_mw_def Let_def
      replay_then [OF toy_checks(1) [where es = "[]", unfolded append_Nil2, OF toy_locked_fields(5) toy_locked_fields(4)]]
    apply (simp add: toy_texts toy_conversions(1,2) toy_conversions(4) [unfolded One_nat_def] deserialize_pub_key_def del: toy_sel)
    apply (simp add: replay_try_phase_then [OF assms(1)] del: toy_sel)
    apply (simp add: replay_pbind toy_texts toy_conversions deserialize_pub_key_def deserialize_priv_key_def
       assms(2) toy_spend_lock try_phase_def tx toy_send_raw out list_get_def create_private_key_def fresh_key_def TEST_NET_def replay.simps
       del: toy_sel)
    done
  then show ?thesis by blast
qed

lemma toy_exec_bob:
  assumes "replay (dcontract_mw_tx_bob toy (toy_coin 53 10) 50 0 (sc 11)) cb = (Done (Ok rb), [])" "slate_tx (cm_tx rb) = Some gtx"
  shows "\<exists>sb. replay (exec_phase_swap_btc toy toy_lb toy_bc toy_gc) (toy_tips 1010 501 @ cb @
     [grin_answers ''push_transaction'' [PTx gtx, PBool True] ''grin'']) = (Done (sb, Ok ()), [])"
  unfolding exec_phase_swap_btc_def Let_def
    replay_then [OF toy_checks(1) [where es = "[]" and s = toy_lb, unfolded append_Nil2 toy_locked_fields(10), OF toy_locked_fields(5) toy_locked_fields(4)]]
  apply (simp add: toy_texts toy_conversions(3) toy_conversions(4) [unfolded One_nat_def] deserialize_priv_key_def del: toy_sel)
  apply (simp add: replay_try_phase_then [OF assms(1)] del: toy_sel)
  apply (simp add: assms(2) try_phase_def replay_pbind toy_push replay.simps del: toy_sel)
  done

lemma toy_tips_lines [simp]: "written (toy_tips hg hb) = []" "lines_read (toy_tips hg hb) = []"
  by (simp_all add: toy_tips_def grin_answers_def btc_answers_def)

lemma toy_exec_runs:
  "\<exists>ea eb sa sb. replay (exec_phase_swap_mw toy toy_la toy_bc toy_gc) ea = (Done (sa, Ok ()), []) \<and>
     replay (exec_phase_swap_btc toy toy_lb toy_bc toy_gc) eb = (Done (sb, Ok ()), []) \<and>
     lines_read ea = written eb \<and> lines_read eb = written ea"
proof -
  from toy_contract_talk obtain ca cb ra rb where
    r: "replay (dcontract_mw_tx_alice toy (toy_coin 53 9) 50 0 (pt (sc 11))) ca = (Done (Ok ra), [])"
      "replay (dcontract_mw_tx_bob toy (toy_coin 53 10) 50 0 (sc 11)) cb = (Done (Ok rb), [])"
      "lines_read ca = written cb" "lines_read cb = written ca" by blast
  have "cm_x ra = sc 11" using contract_secret [OF r] by simp
  obtain gtx where gtx: "slate_tx (cm_tx rb) = Some gtx" using dcontract_bob_result [OF r(2)] by blast
  obtain tx sa where a: "replay (exec_phase_swap_mw toy toy_la toy_bc toy_gc) (toy_tips 1010 501 @ ca @ [EKey (sc 30),
     btc_answers ''sendrawtransaction'' [PString (hex_text (btx_serialize toy tx))] ''btc'']) = (Done (sa, Ok ()), [])"
    using toy_exec_alice [OF r(1) \<open>cm_x ra = sc 11\<close>] by blast
  obtain sb where b: "replay (exec_phase_swap_btc toy toy_lb toy_bc toy_gc) (toy_tips 1010 501 @ cb @
     [grin_answers ''push_transaction'' [PTx gtx, PBool True] ''grin'']) = (Done (sb, Ok ()), [])"
    using toy_exec_bob [OF r(2) gtx] by blast
  show ?thesis
    by (intro exI conjI, rule a, rule b) (simp_all add: r(3,4) grin_answers_def btc_answers_def)
qed

theorem exec_phases_swap_witness:
  "\<exists>es_a es_b sa sb tx k c. replay (exec_phase_swap_mw toy toy_la toy_bc toy_gc) es_a = (Done (sa, Ok ()), []) \<and>
     replay (exec_phase_swap_btc toy toy_lb toy_bc toy_gc) es_b = (Done (sb, Ok ()), []) \<and>
     raw_tx_request toy toy_bc tx \<in> set (requests es_a) \<and>
     takes_coin toy c (lock_builder (toy_pk 21) (toy_pk 11) (toy_pk 22) 512) (public_key toy (sk_of k)) tx"
proof -
  from toy_exec_runs obtain ea eb sa sb where r: "replay (exec_phase_swap_mw toy toy_la toy_bc toy_gc) ea = (Done (sa, Ok ()), [])"
    "replay (exec_phase_swap_btc toy toy_lb toy_bc toy_gc) eb = (Done (sb, Ok ()), [])"
    "lines_read ea = written eb" "lines_read eb = written ea" by blast
  from exec_phases_swap [OF r toy_is_locked _ _ _ _ _ _ _ _ _ _ _ _ toy_locked_fields(14)] r(1,2)
  show ?thesis by (simp add: curve_order_def toy_texts(3) [symmetric] del: toy_sel) blast
qed

end
