(* ===== verification/Locking_Run.thy ===== *)
theory Locking_Run
  imports Swap_Run
begin

text \<open>
  Complete runs of the locking phase by both parties on the library of \<open>Lib_Instance\<close>: the payment
  into the shared coin, its refund, and the two phases around them.
\<close>

lemma length_toy_commit [simp]: "length (toy_commit v k) = 33"
  by (simp add: toy_commit_def)

lemma be_int_zeros [simp]: "be_int (replicate n 0) = 0"
  by (induction n) (simp_all add: be_int_def)

section \<open>Slates of the runs\<close>

definition toy_base ::
  "u8 \<Rightarrow> u64 option \<Rightarrow> u64 \<Rightarrow> u64 \<Rightarrow> bytes \<Rightarrow> int \<Rightarrow> TxKernel list \<Rightarrow> Output list \<Rightarrow> ParticipantData list \<Rightarrow> Slate" where
  "toy_base ft h fee v c o1 ks outs ps =
     (blank_with_kernel_features toy 1 3 False ft h)\<lparr>fee_fields := fee, slate_amount := v, slate_offset := sc o1,
      slate_tx := Some \<lparr>tx_offset = sc o1, tx_inputs = FeaturesAndCommit [\<lparr>inp_features = Plain, inp_commit = c\<rparr>],
        tx_outputs = outs, tx_kernels = ks\<rparr>,
      participant_data := ps\<rparr>"

definition toy_part :: "int \<Rightarrow> int \<Rightarrow> bool \<Rightarrow> ParticipantData" where
  "toy_part k n b =
     \<lparr>public_blind_excess = pt (sc k), public_nonce = pt (sc n),
      part_sig = (if b then Some (toy_sign (sc k) (sc n) None) else None)\<rparr>"

lemma toy_base_fields [simp]:
  "slate_tx (toy_base ft h fee v c o1 ks outs ps) =
     Some \<lparr>tx_offset = sc o1, tx_inputs = FeaturesAndCommit [\<lparr>inp_features = Plain, inp_commit = c\<rparr>],
        tx_outputs = outs, tx_kernels = ks\<rparr>"
  "participant_data (toy_base ft h fee v c o1 ks outs ps) = ps" "slate_offset (toy_base ft h fee v c o1 ks outs ps) = sc o1"
  "slate_amount (toy_base ft h fee v c o1 ks outs ps) = v" "fee_fields (toy_base ft h fee v c o1 ks outs ps) = fee"
  by (simp_all add: toy_base_def)

lemma toy_base_updates [simp]:
  "(toy_base ft h fee v c o1 ks outs ps)\<lparr>slate_tx := Some \<lparr>tx_offset = sc o1,
     tx_inputs = FeaturesAndCommit [\<lparr>inp_features = Plain, inp_commit = c\<rparr>], tx_outputs = outs', tx_kernels = ks'\<rparr>\<rparr> =
   toy_base ft h fee v c o1 ks' outs' ps"
  "(toy_base ft h fee v c o1 ks outs ps)\<lparr>participant_data := ps'\<rparr> = toy_base ft h fee v c o1 ks outs ps'"
  by (simp_all add: toy_base_def)

lemma toy_base_rebuilt: "\<exists>k. rebuilt toy (toy_base ft h fee v c o1 ks outs ps) = toy_base ft h fee v c o1 [k] outs ps"
proof -
  have "rebuilt toy (toy_base ft h fee v c o1 ks outs ps) =
      (toy_base ft h fee v c o1 ks outs ps)\<lparr>slate_tx := Some \<lparr>tx_offset = sc o1,
        tx_inputs = FeaturesAndCommit [\<lparr>inp_features = Plain, inp_commit = c\<rparr>],
        tx_outputs = outs, tx_kernels = [kernel_from_v4 toy (slate_to_v4 (toy_base ft h fee v c o1 ks outs ps))]\<rparr>\<rparr>"
    using toy_rebuilt [OF toy_base_fields(1)] by (simp add: input_list_def)
  then show ?thesis by auto
qed

lemma toy_base_kernel [simp]:
  "update_kernel toy (toy_base 0 h fee v c o1 ks outs ps) = Ok (toy_base 0 h fee v c o1
     [\<lparr>ker_features = KPlain fee, ker_excess = [], ker_excess_sig = []\<rparr>] outs ps)"
  "update_kernel toy (toy_base 2 (Some t) fee v c o1 ks outs ps) = Ok (toy_base 2 (Some t) fee v c o1
     [\<lparr>ker_features = KHeightLocked fee t, ker_excess = [], ker_excess_sig = []\<rparr>] outs ps)"
  by (simp_all add: update_kernel_def kernel_features_def tx_or_err_def toy_base_def blank_with_kernel_features_def Let_def)

lemmas toy_base_ops = toy_base_def toy_part_def fill_round_2_Ok toy_round_simps

section \<open>The payment into the shared coin\<close>

abbreviation "toy_pay \<equiv> toy_base 0 None 4 53 (toy_commit 100 (sc 9)) 5"

abbreviation toy_out :: "bytes \<Rightarrow> Output" where
  "toy_out c \<equiv> \<lparr>out_features = Plain, out_commit = c, out_proof = [1]\<rparr>"

definition toy_shared :: bytes where
  "toy_shared = 8 # sc (sum_sc (map tl [toy_commit 53 (sc 6), toy_commit 0 (sc 13)]) - sum_sc (map tl []))"

lemma pay_spend:
  "replay (spend_coins toy [toy_coin 100 9] 53 0 2 3) (EUuid 1 # keys [1, 2, 3, 4, 5]) =
     (Done (Ok \<lparr>sp_slate = toy_pay [] [toy_out (toy_commit 43 (sc 1))] [toy_part (-13) 2 False],
       sp_sig_key = sc (-13), sp_sig_nonce = sc 2, sp_change_coin = Some (toy_coin 43 1)\<rparr>), [])"
  by (simp add: spend_coins_def toy_coin_def sum_mw_def has_duplicate_def toy_blind_sum_def sum_sc_def
    create_minimal_ctx_def toy_base_def toy_part_def blank_with_kernel_features_def toy_run)

lemma pay_r1:
  "replay (drecv_coins_r1 toy (toy_pay [] [toy_out (toy_commit 43 (sc 1))] [toy_part (-13) 2 False]) 53) (keys [6, 7, 8, 10, 12]) =
     (Done (Ok \<lparr>dr_slate = toy_pay [] [toy_out (toy_commit 43 (sc 1))] [toy_part (-13) 2 False, toy_part 6 10 False],
       dr_out_key_blind = sc 6, dr_sig_nonce = sc 10, dr_prf_nonce = sc 8,
       dr_prf_ctx = \<lparr>t_1 = pt (sc 5), t_2 = pt (sc 6), mp_amount = 53, shared_nonce = sc 7, tau_x = ZERO_KEY toy,
         mp_commit = toy_commit 53 (sc 6)\<rparr>\<rparr>), [])"
  by (simp add: drecv_coins_r1_def tx_or_empty_def verify_outputs_def mpbp_new_def mp_bullet_proof_r1_def add_t_1_def add_t_2_def
    expect_proc_def create_minimal_ctx_def toy_base_def toy_part_def toy_run my_entry_def)


abbreviation toy_ctx1 :: MPBPContext where
  "toy_ctx1 \<equiv> \<lparr>t_1 = pt (sc 5), t_2 = pt (sc 6), mp_amount = 53, shared_nonce = sc 7, tau_x = ZERO_KEY toy,
     mp_commit = toy_commit 53 (sc 6)\<rparr>"

abbreviation toy_ctx2 :: MPBPContext where
  "toy_ctx2 \<equiv> \<lparr>t_1 = pt (sc 10), t_2 = pt (sc 12), mp_amount = 53, shared_nonce = sc 7, tau_x = sc 3,
     mp_commit = toy_shared\<rparr>"

lemma toy_read_mpbp:
  "mpbp_from_string toy (mpbp_to_string toy toy_ctx1) = Ret toy_ctx1"
  "mpbp_from_string toy (mpbp_to_string toy toy_ctx2) = Ret toy_ctx2"
proof -
  have e: "from_str_ser_mp_ctx toy (mpbp_to_string toy ctx) = Some (mpbp_ser toy ctx)" for ctx
    using toy_mp_json by (simp add: mpbp_to_string_def mp_json_laws_def del: toy_sel)
  have "deserialize_secret_key toy (serialize_secret_key toy (ZERO_KEY toy)) = Ret (ZERO_KEY toy)"
    by (rule deserialize_serialize_secret_key) simp_all
  then show "mpbp_from_string toy (mpbp_to_string toy toy_ctx1) = Ret toy_ctx1"
    "mpbp_from_string toy (mpbp_to_string toy toy_ctx2) = Ret toy_ctx2"
    unfolding mpbp_from_string_def e
    by (simp_all add: mpbp_ser_def deserialize_grin_pub_key_def serialize_grin_public_key_def pt_def serialize_secret_key_def
      deserialize_commitment_def serialize_commitment_def toy_shared_def curve_order_def)
qed

lemma pay_r2:
  "replay (drecv_coins_r2 toy (toy_pay [k] [toy_out (toy_commit 43 (sc 1))] [toy_part (-13) 2 False, toy_part 6 10 False]) 53 toy_ctx1)
     (keys [13, 14, 15, 16, 17]) =
     (Done (Ok (\<lparr>rc_slate = toy_pay [k] [toy_out (toy_commit 43 (sc 1))]
         [toy_part (-13) 2 False, toy_part 6 10 False, toy_part 13 15 True],
       rc_output_coin = mwcoin_new toy toy_shared (sc 13) 53\<rparr>, toy_ctx2)), [])"
proof -
  have "fill_round_2 toy (toy_pay [k] [toy_out (toy_commit 43 (sc 1))]
         [toy_part (-13) 2 False, toy_part 6 10 False, toy_part 13 15 False]) (sc 13) (sc 15) =
     Ret (Ok (toy_pay [k] [toy_out (toy_commit 43 (sc 1))]
         [toy_part (-13) 2 False, toy_part 6 10 False, toy_part 13 15 True]))"
    by (simp add: toy_base_ops)
  moreover have "fill_round_1 toy (toy_pay [k] [toy_out (toy_commit 43 (sc 1))] [toy_part (-13) 2 False, toy_part 6 10 False])
      (create_minimal_ctx toy (sc 13) (sc 15) 53 4) = Ok (toy_pay [k] [toy_out (toy_commit 43 (sc 1))]
         [toy_part (-13) 2 False, toy_part 6 10 False, toy_part 13 15 False])"
    by (simp add: create_minimal_ctx_def toy_part_def toy_run my_entry_def)
  ultimately show ?thesis
    by (simp add: drecv_coins_r2_def tx_or_empty_def verify_outputs_def mp_bullet_proof_r1_def mp_bullet_proof_r2_def
      add_t_1_def add_t_2_def add_tau_x_def add_commit_def expect_proc_def create_secret_key_def fresh_key_def replay.simps Let_def
      toy_shared_def pt_def sum_sc_def sc_opt_def curve_order_def)
qed


abbreviation toy_plain :: TxKernel where
  "toy_plain \<equiv> \<lparr>ker_features = KPlain 4, ker_excess = [], ker_excess_sig = []\<rparr>"

lemma pay_r3:
  "replay (drecv_coins_r3 toy (toy_pay [k] [toy_out (toy_commit 43 (sc 1))]
       [toy_part (-13) 2 False, toy_part 6 10 False, toy_part 13 15 True]) toy_ctx2 (sc 6) (sc 8) (sc 10)) (keys [18]) =
     (Done (Ok \<lparr>rc_slate = toy_pay [toy_plain] [toy_out (toy_commit 43 (sc 1)), toy_out toy_shared]
         [toy_part (-13) 2 False, toy_part 6 10 True, toy_part 13 15 True],
       rc_output_coin = mwcoin_new toy toy_shared (sc 6) 53\<rparr>), [])"
proof -
  have "fill_round_2 toy (toy_pay [k] [toy_out (toy_commit 43 (sc 1)), toy_out toy_shared]
         [toy_part (-13) 2 False, toy_part 6 10 False, toy_part 13 15 True]) (sc 6) (sc 10) =
     Ret (Ok (toy_pay [k] [toy_out (toy_commit 43 (sc 1)), toy_out toy_shared]
         [toy_part (-13) 2 False, toy_part 6 10 True, toy_part 13 15 True]))"
    by (simp add: toy_base_ops)
  then show ?thesis
    by (simp add: drecv_coins_r3_def mp_bullet_proof_r2_def mp_bullet_proof_fin_def add_tau_x_def
      expect_proc_def create_secret_key_def fresh_key_def replay.simps Let_def sc_opt_def curve_order_def)
qed

lemma pay_fin:
  "\<exists>k. fin_tx toy (toy_pay [toy_plain] [toy_out (toy_commit 43 (sc 1)), toy_out toy_shared]
         [toy_part (-13) 2 False, toy_part 6 10 True, toy_part 13 15 True]) (sc (-13)) (sc 2) True None None =
     Ret (Ok (toy_pay [k] [toy_out (toy_commit 43 (sc 1)), toy_out toy_shared]
         [toy_part (-13) 2 True, toy_part 6 10 True, toy_part 13 15 True]))"
proof -
  have "fill_round_2 toy (toy_pay [toy_plain] [toy_out (toy_commit 43 (sc 1)), toy_out toy_shared]
         [toy_part (-13) 2 False, toy_part 6 10 True, toy_part 13 15 True]) (sc (-13)) (sc 2) =
     Ret (Ok (toy_pay [toy_plain] [toy_out (toy_commit 43 (sc 1)), toy_out toy_shared]
         [toy_part (-13) 2 True, toy_part 6 10 True, toy_part 13 15 True]))"
    by (simp add: toy_base_ops)
  moreover have "\<exists>k. finalize toy (toy_pay [toy_plain] [toy_out (toy_commit 43 (sc 1)), toy_out toy_shared]
         [toy_part (-13) 2 True, toy_part 6 10 True, toy_part 13 15 True]) =
     Ret (Ok (toy_pay [k] [toy_out (toy_commit 43 (sc 1)), toy_out toy_shared]
         [toy_part (-13) 2 True, toy_part 6 10 True, toy_part 13 15 True]))"
    by (simp add: finalize_Ok finalize_signature_def rbind_eq_Ok part_sigs_def check_fees_def tx_or_err_def
      calc_excess_def toy_base_ops)
  ultimately show ?thesis by (auto simp: fin_tx_def verify_outputs_def expect_proc_def)
qed


lemma replay_expect_then:
  "replay p es = (Done (Ok x), []) \<Longrightarrow> replay (pbind (expect_proc m p) f) (es @ rest) = replay (f x) rest"
  using replay_mono [of p es "Done (Ok x)" "[]" rest] by (simp add: expect_proc_def replay_pbind replay.simps)

lemma expect_Ret [simp]: "expect_proc m (Ret (Inr x)) = Ret x"
  by (simp add: expect_proc_def)

lemma fresh_keys_simps [simp]:
  "fresh_keys_valid (a @ b) \<longleftrightarrow> fresh_keys_valid a \<and> fresh_keys_valid b" "fresh_keys_valid []"
  "fresh_keys_valid (EKey k # es) \<longleftrightarrow> valid_sk k \<and> fresh_keys_valid es"
  "fresh_keys_valid (EUuid u # es) \<longleftrightarrow> fresh_keys_valid es" "fresh_keys_valid (ERead r # es) \<longleftrightarrow> fresh_keys_valid es"
  "fresh_keys_valid (EWrite m w # es) \<longleftrightarrow> fresh_keys_valid es"
  "fresh_keys_valid (EHttp a1 b1 c1 d1 # es) \<longleftrightarrow> fresh_keys_valid es"
  "fresh_keys_valid (sent m) " "fresh_keys_valid (rcvd m)"
  by (auto simp: fresh_keys_valid_def sent_def rcvd_def)

text \<open>What the two parties have after the payment.\<close>

definition toy_paid :: "int \<Rightarrow> DSharedOutMwTxResult \<Rightarrow> bool" where
  "toy_paid key r \<longleftrightarrow> ds_shared_coin r = mwcoin_new toy toy_shared (sc key) 53 \<and> slate_tx (ds_tx r) \<noteq> None"

lemma toy_payment:
  "\<exists>ea eb ra rb. replay (dshared_out_mw_tx_alice toy [toy_coin 100 9] 53 0) ea = (Done (Ok ra), []) \<and>
     replay (dshared_out_mw_tx_bob toy 53) eb = (Done (Ok rb), []) \<and>
     lines_read ea = written eb \<and> lines_read eb = written ea \<and> fresh_keys_valid ea \<and> fresh_keys_valid eb \<and>
     toy_paid 6 ra \<and> toy_paid 13 rb \<and> ds_change_coin ra \<noteq> None"
proof -
  let ?o1 = "[toy_out (toy_commit 43 (sc 1))]" and ?o2 = "[toy_out (toy_commit 43 (sc 1)), toy_out toy_shared]"
  let ?s1 = "toy_pay [] ?o1 [toy_part (-13) 2 False, toy_part 6 10 False]"
  obtain k1 where k1: "rebuilt toy ?s1 = toy_pay [k1] ?o1 [toy_part (-13) 2 False, toy_part 6 10 False]"
    using toy_base_rebuilt by blast
  let ?s2 = "toy_pay [k1] ?o1 [toy_part (-13) 2 False, toy_part 6 10 False, toy_part 13 15 True]"
  obtain k2 where k2: "rebuilt toy ?s2 = toy_pay [k2] ?o1 [toy_part (-13) 2 False, toy_part 6 10 False, toy_part 13 15 True]"
    using toy_base_rebuilt by blast
  obtain k3 where k3: "fin_tx toy (toy_pay [toy_plain] ?o2 [toy_part (-13) 2 False, toy_part 6 10 True, toy_part 13 15 True])
      (sc (-13)) (sc 2) True None None =
     Ret (Ok (toy_pay [k3] ?o2 [toy_part (-13) 2 True, toy_part 6 10 True, toy_part 13 15 True]))"
    using pay_fin by blast
  let ?s3 = "toy_pay [k3] ?o2 [toy_part (-13) 2 True, toy_part 6 10 True, toy_part 13 15 True]"
  obtain k4 where k4: "rebuilt toy ?s3 = toy_pay [k4] ?o2 [toy_part (-13) 2 True, toy_part 6 10 True, toy_part 13 15 True]"
    using toy_base_rebuilt by blast
  let ?t1 = "slate_to_string toy ?s1" and ?t2 = "mpbp_to_string toy toy_ctx1" and ?t3 = "slate_to_string toy ?s2"
    and ?t4 = "mpbp_to_string toy toy_ctx2" and ?t5 = "slate_to_string toy ?s3"
  let ?ea = "(EUuid 1 # keys [1, 2, 3, 4, 5]) @ keys [6, 7, 8, 10, 12] @ sent ?t1 @ sent ?t2 @ rcvd ?t3 @ rcvd ?t4 @ keys [18] @ sent ?t5"
    and ?eb = "rcvd ?t1 @ rcvd ?t2 @ keys [13, 14, 15, 16, 17] @ sent ?t3 @ sent ?t4 @ rcvd ?t5"
  have "\<exists>ra. replay (dshared_out_mw_tx_alice toy [toy_coin 100 9] 53 0) (?ea @ []) = (Done (Ok ra), []) \<and> toy_paid 6 ra \<and> ds_change_coin ra \<noteq> None"
    unfolding dshared_out_mw_tx_alice_def append_assoc replay_expect_then [OF pay_spend] SpendCoinsResult.simps
      replay_expect_then [OF pay_r1] DRecvCoinsResult.simps tcp.send_step tcp.recv_step toy_read_slate k2 toy_read_mpbp pbind.simps
      replay_expect_then [OF pay_r3] RecvCoinsResult.simps k3 expect_Ret replay.simps
    by (simp add: toy_paid_def)
  moreover have "\<exists>rb. replay (dshared_out_mw_tx_bob toy 53) (?eb @ []) = (Done (Ok rb), []) \<and> toy_paid 13 rb"
    unfolding dshared_out_mw_tx_bob_def append_assoc tcp.recv_step toy_read_slate k1 toy_read_mpbp pbind.simps
      replay_try_Done [OF pay_r2] prod.case RecvCoinsResult.simps tcp.send_step tcp.recv_step toy_read_slate k4 replay.simps
    by (simp add: toy_paid_def)
  moreover have "lines_read ?ea = written ?eb" "lines_read ?eb = written ?ea" "fresh_keys_valid ?ea" "fresh_keys_valid ?eb"
    by (simp add: sent_def rcvd_def, simp add: sent_def rcvd_def, simp_all add: curve_order_def)
  ultimately show ?thesis unfolding append_Nil2 by blast
qed


lemma toy_commit_size: "commit_size_laws toy"
  by (simp add: commit_size_laws_def)


section \<open>The refund of the shared coin\<close>

abbreviation "toy_ref \<equiv> toy_base 2 (Some 1120) 3 50 toy_shared 35"

abbreviation toy_high :: TxKernel where
  "toy_high \<equiv> \<lparr>ker_features = KHeightLocked 3 1120, ker_excess = [], ker_excess_sig = []\<rparr>"

lemma length_toy_shared [simp]: "length toy_shared = 33"
  by (simp add: toy_shared_def)

lemma ref_spend:
  "replay (spend_coins toy [mwcoin_new toy toy_shared (sc 13) 53] 50 1120 1 3) (EUuid 1 # keys [31, 32, 33, 34, 35]) =
     (Done (Ok \<lparr>sp_slate = toy_ref [] [] [toy_part (-48) 32 False],
       sp_sig_key = sc (-48), sp_sig_nonce = sc 32, sp_change_coin = None\<rparr>), [])"
  by (simp add: spend_coins_def sum_mw_def has_duplicate_def toy_blind_sum_def sum_sc_def
    create_minimal_ctx_def toy_base_def toy_part_def blank_with_kernel_features_def toy_run)

lemma ref_d_spend:
  "replay (d_spend_coins toy [mwcoin_new toy toy_shared (sc 6) 53] (toy_ref [k] [] [toy_part (-48) 32 False]) 50 1120) (keys [36]) =
     (Done (Ok \<lparr>sp_slate = toy_ref [k] [] [toy_part (-48) 32 False, toy_part (-6) 36 False],
       sp_sig_key = sc (-6), sp_sig_nonce = sc 36, sp_change_coin = None\<rparr>), [])"
  by (simp add: d_spend_coins_def toy_blind_sum_def sum_sc_def tx_or_empty_def verify_outputs_def
    create_minimal_ctx_def toy_base_def toy_part_def blank_with_kernel_features_def toy_run my_entry_def)

abbreviation "toy_ref_out \<equiv> toy_out (toy_commit 50 (sc 37))"

lemma ref_recv:
  "replay (recv_coins toy (toy_ref [k] [] [toy_part (-48) 32 False, toy_part (-6) 36 False]) 50) (keys [37, 38, 39, 40]) =
     (Done (Ok \<lparr>rc_slate = toy_ref [toy_high] [toy_ref_out] [toy_part (-48) 32 False, toy_part (-6) 36 False, toy_part 37 40 True],
       rc_output_coin = toy_coin 50 37\<rparr>), [])"
proof -
  have "fill_round_2 toy (toy_ref [toy_high] [toy_ref_out] [toy_part (-48) 32 False, toy_part (-6) 36 False, toy_part 37 40 False])
      (sc 37) (sc 40) = Ret (Ok (toy_ref [toy_high] [toy_ref_out] [toy_part (-48) 32 False, toy_part (-6) 36 False, toy_part 37 40 True]))"
    by (simp add: toy_base_ops)
  moreover have "fill_round_1 toy (toy_ref [toy_high] [toy_ref_out] [toy_part (-48) 32 False, toy_part (-6) 36 False])
      (create_minimal_ctx toy (sc 37) (sc 40) 50 3) =
      Ok (toy_ref [toy_high] [toy_ref_out] [toy_part (-48) 32 False, toy_part (-6) 36 False, toy_part 37 40 False])"
    by (simp add: create_minimal_ctx_def toy_part_def toy_run my_entry_def)
  ultimately show ?thesis
    by (simp add: recv_coins_def recv_output_def tx_or_empty_def verify_outputs_def toy_coin_def create_secret_key_def fresh_key_def
      replay.simps Let_def)
qed

lemma ref_sign:
  "fin_tx toy (toy_ref [toy_high] [toy_ref_out] [toy_part (-48) 32 False, toy_part (-6) 36 False, toy_part 37 40 True])
     (sc (-6)) (sc 36) False None None =
   Ret (Ok (toy_ref [toy_high] [toy_ref_out] [toy_part (-48) 32 False, toy_part (-6) 36 True, toy_part 37 40 True]))"
proof -
  have "fill_round_2 toy (toy_ref [toy_high] [toy_ref_out] [toy_part (-48) 32 False, toy_part (-6) 36 False, toy_part 37 40 True])
     (sc (-6)) (sc 36) = Ret (Ok (toy_ref [toy_high] [toy_ref_out] [toy_part (-48) 32 False, toy_part (-6) 36 True, toy_part 37 40 True]))"
    by (simp add: toy_base_ops)
  then show ?thesis by (simp add: fin_tx_def verify_outputs_def)
qed

lemma ref_finalize:
  "\<exists>k. finalize toy (toy_ref [toy_high] [toy_ref_out] [toy_part (-48) 32 True, toy_part (-6) 36 True, toy_part 37 40 True]) =
     Ret (Ok (toy_ref [k] [toy_ref_out] [toy_part (-48) 32 True, toy_part (-6) 36 True, toy_part 37 40 True]))"
  by (simp add: finalize_Ok finalize_signature_def rbind_eq_Ok part_sigs_def check_fees_def tx_or_err_def
    calc_excess_def toy_base_ops)

lemma ref_fin:
  "\<exists>k. fin_tx toy (toy_ref [toy_high] [toy_ref_out] [toy_part (-48) 32 False, toy_part (-6) 36 True, toy_part 37 40 True])
     (sc (-48)) (sc 32) True None None =
   Ret (Ok (toy_ref [k] [toy_ref_out] [toy_part (-48) 32 True, toy_part (-6) 36 True, toy_part 37 40 True]))"
proof -
  have "fill_round_2 toy (toy_ref [toy_high] [toy_ref_out] [toy_part (-48) 32 False, toy_part (-6) 36 True, toy_part 37 40 True])
     (sc (-48)) (sc 32) = Ret (Ok (toy_ref [toy_high] [toy_ref_out] [toy_part (-48) 32 True, toy_part (-6) 36 True, toy_part 37 40 True]))"
    by (simp add: toy_base_ops)
  then show ?thesis using ref_finalize by (auto simp: fin_tx_def verify_outputs_def)
qed

lemma toy_refund_built:
  "\<exists>ea eb ra rb. replay (dshared_inp_mw_tx_bob toy (mwcoin_new toy toy_shared (sc 6) 53) 50 1120) ea = (Done (Ok ra), []) \<and>
     replay (dshared_inp_mw_tx_alice toy (mwcoin_new toy toy_shared (sc 13) 53) 50 1120) eb = (Done (Ok rb), []) \<and>
     lines_read ea = written eb \<and> lines_read eb = written ea \<and> fresh_keys_valid ea \<and> fresh_keys_valid eb"
proof -
  let ?ps1 = "[toy_part (-48) 32 False]" and ?ps2 = "[toy_part (-48) 32 False, toy_part (-6) 36 True, toy_part 37 40 True]"
    and ?ps3 = "[toy_part (-48) 32 True, toy_part (-6) 36 True, toy_part 37 40 True]"
  obtain k1 where k1: "rebuilt toy (toy_ref [] [] ?ps1) = toy_ref [k1] [] ?ps1" using toy_base_rebuilt by blast
  obtain k2 where k2: "rebuilt toy (toy_ref [toy_high] [toy_ref_out] ?ps2) = toy_ref [k2] [toy_ref_out] ?ps2"
    using toy_base_rebuilt by blast
  obtain k3 where k3: "fin_tx toy (toy_ref [toy_high] [toy_ref_out] ?ps2) (sc (-48)) (sc 32) True None None =
     Ret (Ok (toy_ref [k3] [toy_ref_out] ?ps3))" using ref_fin by blast
  obtain k4 where k4: "rebuilt toy (toy_ref [k3] [toy_ref_out] ?ps3) = toy_ref [k4] [toy_ref_out] ?ps3" using toy_base_rebuilt by blast
  obtain k5 where k5: "finalize toy (toy_ref [toy_high] [toy_ref_out] ?ps3) = Ret (Ok (toy_ref [k5] [toy_ref_out] ?ps3))"
    using ref_finalize by blast
  let ?t1 = "slate_to_string toy (toy_ref [] [] ?ps1)" and ?t2 = "slate_to_string toy (toy_ref [toy_high] [toy_ref_out] ?ps2)"
    and ?t3 = "slate_to_string toy (toy_ref [k3] [toy_ref_out] ?ps3)"
  let ?ea = "rcvd ?t1 @ keys [36] @ keys [37, 38, 39, 40] @ sent ?t2 @ rcvd ?t3"
    and ?eb = "(EUuid 1 # keys [31, 32, 33, 34, 35]) @ sent ?t1 @ rcvd ?t2 @ sent ?t3"
  have "\<exists>ra. replay (dshared_inp_mw_tx_bob toy (mwcoin_new toy toy_shared (sc 6) 53) 50 1120) (?ea @ []) = (Done (Ok ra), [])"
    unfolding dshared_inp_mw_tx_bob_def append_assoc tcp.recv_step toy_read_slate k1 pbind.simps replay_try_Done [OF ref_d_spend]
      SpendCoinsResult.simps replay_try_Done [OF ref_recv] RecvCoinsResult.simps ref_sign expect_Ret tcp.send_step tcp.recv_step
      k4 toy_base_kernel unwrap_simps k5 replay.simps by blast
  moreover have "\<exists>rb. replay (dshared_inp_mw_tx_alice toy (mwcoin_new toy toy_shared (sc 13) 53) 50 1120) (?eb @ []) = (Done (Ok rb), [])"
    unfolding dshared_inp_mw_tx_alice_def append_assoc replay_try_Done [OF ref_spend] SpendCoinsResult.simps tcp.send_step tcp.recv_step
      toy_read_slate k2 pbind.simps toy_base_kernel unwrap_simps k3 try_bind_simps replay.simps by blast
  moreover have "lines_read ?ea = written ?eb" "lines_read ?eb = written ?ea" "fresh_keys_valid ?ea" "fresh_keys_valid ?eb"
    by (simp add: sent_def rcvd_def, simp add: sent_def rcvd_def, simp_all add: curve_order_def)
  ultimately show ?thesis unfolding append_Nil2 by blast
qed


section \<open>The locking phases\<close>

definition toy_addr :: string where "toy_addr = hex_text toy_lock_script"

definition toy_signed_lock :: BtcTransaction where
  "toy_signed_lock = (case create_lock_transaction toy (toy_pk 21) (toy_pk 11) (toy_pk 22) (toy_pk 41) [toy_input 30000000] 25000000 BTC_FEE 512 of
     Ret (Inr tx) \<Rightarrow> (case sign_p2pkh_transaction toy tx [[]] [toy_sk 4] [toy_pk 4] of Ret tx' \<Rightarrow> tx' | _ \<Rightarrow> tx))"

abbreviation toy_txid :: string where "toy_txid \<equiv> txid_to_string toy (tx_txid toy toy_signed_lock)"

lemma toy_lock_made:
  "\<exists>tx ch. create_lock_transaction toy (toy_pk 21) (toy_pk 11) (toy_pk 22) (toy_pk 41) [toy_input 30000000] 25000000 BTC_FEE 512 = Ret (Ok tx) \<and>
     btx_output tx = [\<lparr>txo_value = 25000000, script_pubkey = toy_lock_script\<rparr>, ch] \<and>
     sign_p2pkh_transaction toy tx [[]] [toy_sk 4] [toy_pk 4] = Ret toy_signed_lock"
  by (simp add: toy_signed_lock_def create_lock_transaction_eq toy_input_def btc_input_new2_def sum_values_def hex_value_def BTC_FEE_def
      toy_lock_script_def sign_p2pkh_transaction_def list_get_def Let_def)

text \<open>One step of a phase at a time.\<close>

lemma replay_key_step: "replay (pbind create_private_key f) (EKey k # es) = replay (f (sk_of k)) es"
  by (simp add: create_private_key_def fresh_key_def TEST_NET_def replay.simps)

lemma toy_node_steps:
  "replay (pbind (expect_proc m (import_btc_address toy toy_bc addr)) f)
     (btc_answers ''importaddress'' [PString addr, PString '''', PBool False] ''btc'' # es) = replay (f ()) es"
  "replay (pbind (verify_funds toy toy_bc addr 25000000 MAX_ATTEMPTS_VERF_FUNDS) g) (balance_answer addr # es) = replay (g True) es"
  "replay (pbind (expect_proc m (get_block_height toy toy_gc)) h) (grin_answers ''get_tip'' [] (show_u64 n) # es) = replay (h n) es"
  "replay (try_phase s (push_transaction toy toy_gc gtx) p) (grin_answers ''push_transaction'' [PTx gtx, PBool True] ''grin'' # es) =
     replay (p ()) es"
  "replay (try_phase s (get_current_block_height toy toy_bc) h') (btc_answers ''getblockcount'' [] (show_u64 n) # es) = replay (h' n) es"
  "replay (try_phase s (send_raw_transaction toy toy_bc tx) p)
     (btc_answers ''sendrawtransaction'' [PString (hex_text (btx_serialize toy tx))] ''btc'' # es) = replay (p ()) es"
  by (simp_all add: expect_proc_def try_phase_def replay_pbind toy_import toy_verify_funds toy_heights toy_push toy_send_raw replay.simps
      del: toy_sel)

lemma toy_phase_values:
  "serialize_pub_key toy p = hex_text p" "deserialize_pub_key toy (hex_text p) = Ret p"
  "get_lock_pub_script toy (toy_pk 21) (toy_pk 11) (toy_pk 22) 512 True = toy_lock_script"
  "address_from_script toy toy_lock_script Testnet = Some toy_addr"
  "parse_i64 (show_i64 512) = Some 512" "parse_i64 (show_u64 1120) = Some 1120" "i64_try_from 1120 = Some 1120"
  "i64_try_from 512 = Some 512" "u64_try_from 1120 = Some 1120"
  "mw_value (mwcoin_new toy c b 53) - estimate_fees toy 1 1 1 = 50"
proof -
  show "parse_i64 (show_i64 512) = Some 512" using i64_text.dec_enc [of 512] by simp
  show "parse_i64 (show_u64 1120) = Some 1120" using parse_i64_show_u64 [of 1120] by (simp add: i64_try_from_def)
qed (simp_all add: serialize_pub_key_def deserialize_pub_key_def toy_lock_script_def toy_addr_def i64_try_from_def u64_try_from_def
    mwcoin_new_def estimate_fees_def)

lemma toy_lock_mw_grin:
  assumes "replay (dshared_out_mw_tx_alice toy [toy_coin 100 9] 53 0) ep = (Done (Ok ra), [])"
    "ds_shared_coin ra = mwcoin_new toy toy_shared (sc 6) 53" "ds_change_coin ra = Some ch" "slate_tx (ds_tx ra) = Some gtx"
    and "replay (dshared_inp_mw_tx_bob toy (mwcoin_new toy toy_shared (sc 6) 53) 50 1120) er = (Done (Ok rr), [])"
    and "mw_timelock (pub_mw (pub_slate s)) = 120" "mw_amount (pub_mw (pub_slate s)) = 53"
      "mw_inputs (prv_mw (prv_slate s)) = [toy_coin 100 9]"
  shows "\<exists>sa. replay (lock_mw_grin toy s toy_gc)
    (grin_answers ''get_tip'' [] (show_u64 1000) # sent (show_u64 1120) @ ep @ er @
     [grin_answers ''push_transaction'' [PTx gtx, PBool True] ''grin'']) = (Done (sa, Ok ()), [])"
proof -
  have c: "change_coin (prv_mw (prv_slate (upd_mw_prv (\<lambda>m. m\<lparr>shared_coin := a, change_coin := b\<rparr>) s'))) = b" for a b s'
    by (simp add: upd_mw_prv_def)
  show ?thesis
    unfolding lock_mw_grin_def Let_def toy_node_steps
    by (simp add: toy_phase_values toy_phase_values(10) [unfolded One_nat_def] tcp.send_step assms(2-4,6-8) c
        replay_try_phase_then [OF assms(1)] replay_try_phase_then [OF assms(5)] toy_node_steps replay.simps del: toy_sel)
qed

lemma toy_alice_fields [simp]:
  "btc_amount (pub_btc (pub_slate toy_alice)) = 25000000" "mw_amount (pub_mw (pub_slate toy_alice)) = 53"
  "mw_timelock (pub_mw (pub_slate toy_alice)) = 120" "mw_inputs (prv_mw (prv_slate toy_alice)) = [toy_coin 100 9]"
  "pub_slate toy_alice = toy_pub" "pub_slate toy_bob = toy_pub"
  "btc_amount (pub_btc toy_pub) = 25000000" "mw_amount (pub_mw toy_pub) = 53" "btc_timelock (pub_btc toy_pub) = 12"
  "mw_timelock (pub_mw toy_pub) = 120" 
  "btc_inputs (prv_btc (prv_slate toy_bob)) = [toy_input 30000000]"
  by (simp_all add: toy_alice_def toy_bob_def toy_pub_def upd_mw_prv_def upd_btc_prv_def)

lemma toy_lock_alice:
  assumes "replay (dshared_out_mw_tx_alice toy [toy_coin 100 9] 53 0) ep = (Done (Ok ra), [])"
    "ds_shared_coin ra = mwcoin_new toy toy_shared (sc 6) 53" "ds_change_coin ra = Some ch" "slate_tx (ds_tx ra) = Some gtx"
    and "replay (dshared_inp_mw_tx_bob toy (mwcoin_new toy toy_shared (sc 6) 53) 50 1120) er = (Done (Ok rr), [])"
  shows "\<exists>sa. replay (locking_phase_swap_mw toy toy_alice toy_gc toy_bc)
    (EKey (sc 21) # sent (hex_text (toy_pk 21)) @ rcvd (hex_text (toy_pk 22)) @ rcvd (hex_text (toy_pk 11)) @ rcvd (show_i64 512) @
     btc_answers ''importaddress'' [PString toy_addr, PString '''', PBool False] ''btc'' #
     rcvd toy_addr @ rcvd toy_txid @ balance_answer toy_addr #
     grin_answers ''get_tip'' [] (show_u64 1000) # sent (show_u64 1120) @ ep @ er @
     [grin_answers ''push_transaction'' [PTx gtx, PBool True] ''grin'']) = (Done (sa, Ok ()), [])"
  unfolding locking_phase_swap_mw_def Let_def replay_key_step
  apply (simp add: toy_phase_values(1-10) toy_texts(3) tcp.send_step tcp.recv_step toy_node_steps del: toy_sel One_nat_def)
  apply (rule toy_lock_mw_grin [OF assms])
  apply (simp_all add: upd_btc_prv_def upd_btc_pub_def set_status_def)
  done

lemma toy_lock_bob:
  assumes "replay (dshared_out_mw_tx_bob toy 53) ep = (Done (Ok ra), [])"
    "ds_shared_coin ra = mwcoin_new toy toy_shared (sc 13) 53"
    and "replay (dshared_inp_mw_tx_alice toy (mwcoin_new toy toy_shared (sc 13) 53) 50 1120) er = (Done (Ok rr), [])"
  shows "\<exists>sb. replay (locking_phase_swap_btc toy toy_bob toy_bc)
    (EKey (sc 22) # EKey (sc 41) # EKey (sc 11) # rcvd (hex_text (toy_pk 21)) @ sent (hex_text (toy_pk 22)) @ sent (hex_text (toy_pk 11)) @
     btc_answers ''getblockcount'' [] (show_u64 500) # sent (show_i64 512) @
     btc_answers ''sendrawtransaction'' [PString (hex_text (btx_serialize toy toy_signed_lock))] ''btc'' #
     sent toy_addr @ sent toy_txid @ rcvd (show_u64 1120) @ ep @ er) = (Done (sb, Ok ()), [])"
proof -
  obtain tx ch where tx: "create_lock_transaction toy (toy_pk 21) (toy_pk 11) (toy_pk 22) (toy_pk 41) [toy_input 30000000] 25000000 BTC_FEE 512 = Ret (Ok tx)"
     "btx_output tx = [\<lparr>txo_value = 25000000, script_pubkey = toy_lock_script\<rparr>, ch]"
     "sign_p2pkh_transaction toy tx [[]] [toy_sk 4] [toy_pk 4] = Ret toy_signed_lock" using toy_lock_made by blast
  have i: "bi_pub_script (toy_input v) = hex_text []" "bi_secret (toy_input v) = toy_wif (toy_sk 4)" "deserialize_script toy (hex_text []) = Ret []"
    "public_key toy (toy_sk 4) = toy_pk 4" "deserialize_priv_key toy (toy_wif (toy_sk 4)) = Ret (toy_sk 4)" for v
    by (simp_all add: toy_input_def btc_input_new2_def deserialize_script_def toy_pk_def deserialize_priv_key_def serialize_script_def serialize_priv_key_def toy_sk_def)
  have g: "replay (try_phase s (Ret (Ok x)) f) es = replay (f x) es" for s :: SwapSlate and x :: 'x and f es by (simp add: try_phase_def)
  have er: "er = er @ []" by simp
  show ?thesis
  unfolding locking_phase_swap_btc_def Let_def replay_key_step
  apply (simp add: toy_phase_values(1-10) toy_texts(3) tcp.send_step tcp.recv_step toy_node_steps tx(1) g i list_get_def tx(2,3)
    del: toy_sel One_nat_def)
  apply (simp add: lock_btc_grin_def toy_phase_values(1-10) tcp.recv_step replay_try_phase_then [OF assms(1)] assms(2) Let_def replay.simps
    del: toy_sel One_nat_def)
  apply (subst er, subst replay_try_phase_then [OF assms(3)])
  apply (simp add: replay.simps)
  done
qed

lemma toy_answer_lines [simp]:
  "written (btc_answers m ps b # es) = written es" "lines_read (btc_answers m ps b # es) = lines_read es"
  "written (grin_answers m ps b # es) = written es" "lines_read (grin_answers m ps b # es) = lines_read es"
  "written (balance_answer a # es) = written es" "lines_read (balance_answer a # es) = lines_read es"
  "fresh_keys_valid (btc_answers m ps b # es) = fresh_keys_valid es" "fresh_keys_valid (grin_answers m ps b # es) = fresh_keys_valid es"
  "fresh_keys_valid (balance_answer a # es) = fresh_keys_valid es"
  by (simp_all add: balance_answer_def btc_answers_def grin_answers_def fresh_keys_valid_def)

text \<open>Both parties lock the swap, each reading what the other wrote.\<close>

lemma toy_locking_runs:
  "\<exists>ea eb sa sb. replay (locking_phase_swap_mw toy toy_alice toy_gc toy_bc) ea = (Done (sa, Ok ()), []) \<and>
     replay (locking_phase_swap_btc toy toy_bob toy_bc) eb = (Done (sb, Ok ()), []) \<and>
     lines_read ea = written eb \<and> lines_read eb = written ea \<and> fresh_keys_valid ea \<and> fresh_keys_valid eb"
proof -
  from toy_payment obtain pa pb ra rb where
    p: "replay (dshared_out_mw_tx_alice toy [toy_coin 100 9] 53 0) pa = (Done (Ok ra), [])"
       "replay (dshared_out_mw_tx_bob toy 53) pb = (Done (Ok rb), [])"
       "lines_read pa = written pb" "lines_read pb = written pa" "fresh_keys_valid pa" "fresh_keys_valid pb"
       "toy_paid 6 ra" "toy_paid 13 rb" "ds_change_coin ra \<noteq> None" by blast
  from toy_refund_built obtain qa qb ua ub where
    q: "replay (dshared_inp_mw_tx_bob toy (mwcoin_new toy toy_shared (sc 6) 53) 50 1120) qa = (Done (Ok ua), [])"
       "replay (dshared_inp_mw_tx_alice toy (mwcoin_new toy toy_shared (sc 13) 53) 50 1120) qb = (Done (Ok ub), [])"
       "lines_read qa = written qb" "lines_read qb = written qa" "fresh_keys_valid qa" "fresh_keys_valid qb" by blast
  from p(7-9) obtain ch gtx where x: "ds_shared_coin ra = mwcoin_new toy toy_shared (sc 6) 53" "ds_change_coin ra = Some ch"
    "slate_tx (ds_tx ra) = Some gtx" "ds_shared_coin rb = mwcoin_new toy toy_shared (sc 13) 53"
    by (auto simp: toy_paid_def)
  obtain sa where a: "replay (locking_phase_swap_mw toy toy_alice toy_gc toy_bc)
    (EKey (sc 21) # sent (hex_text (toy_pk 21)) @ rcvd (hex_text (toy_pk 22)) @ rcvd (hex_text (toy_pk 11)) @ rcvd (show_i64 512) @
     btc_answers ''importaddress'' [PString toy_addr, PString '''', PBool False] ''btc'' #
     rcvd toy_addr @ rcvd toy_txid @ balance_answer toy_addr #
     grin_answers ''get_tip'' [] (show_u64 1000) # sent (show_u64 1120) @ pa @ qa @
     [grin_answers ''push_transaction'' [PTx gtx, PBool True] ''grin'']) = (Done (sa, Ok ()), [])"
    using toy_lock_alice [OF p(1) x(1-3) q(1)] by blast
  obtain sb where b: "replay (locking_phase_swap_btc toy toy_bob toy_bc)
    (EKey (sc 22) # EKey (sc 41) # EKey (sc 11) # rcvd (hex_text (toy_pk 21)) @ sent (hex_text (toy_pk 22)) @ sent (hex_text (toy_pk 11)) @
     btc_answers ''getblockcount'' [] (show_u64 500) # sent (show_i64 512) @
     btc_answers ''sendrawtransaction'' [PString (hex_text (btx_serialize toy toy_signed_lock))] ''btc'' #
     sent toy_addr @ sent toy_txid @ rcvd (show_u64 1120) @ pb @ qb) = (Done (sb, Ok ()), [])"
    using toy_lock_bob [OF p(2) x(4) q(2)] by blast
  show ?thesis
    by (intro exI conjI, rule a, rule b)
      (simp_all add: p(3-6) q(3-6) sent_def rcvd_def fresh_keys_simps curve_order_def del: toy_sel)
qed

theorem locking_phases_agree_witness:
  "\<exists>sa sb tx ka kb kx t. swap_locked toy tx (sk_of ka) (sk_of kb) (sk_of kx) t sa sb \<and> status (pub_slate sa) = SETUP"
proof -
  from toy_locking_runs obtain ea eb sa sb where
    r: "replay (locking_phase_swap_mw toy toy_alice toy_gc toy_bc) ea = (Done (sa, Ok ()), [])"
     "replay (locking_phase_swap_btc toy toy_bob toy_bc) eb = (Done (sb, Ok ()), [])"
     "lines_read ea = written eb" "lines_read eb = written ea" "fresh_keys_valid ea" "fresh_keys_valid eb" by blast
  from locking_phases_agree [OF r(1-4) _ r(5,6)] show ?thesis by simp blast
qed

theorem funds_verified_before_payment_witness:
  "\<exists>es s' pka pkx pkb t addr e1 e2 e3. replay (locking_phase_swap_mw toy toy_alice toy_gc toy_bc) es = (Done (s', Ok ()), []) \<and>
     es = e1 @ e2 @ e3 \<and>
     address_from_script toy (get_lock_pub_script toy pka pkx pkb t True) Testnet = Some addr \<and>
     replay (get_address_final_balance_addr toy toy_bc addr) e2 = (Done (Ok 25000000), [])"
proof -
  from toy_locking_runs obtain ea sa where
    r: "replay (locking_phase_swap_mw toy toy_alice toy_gc toy_bc) ea = (Done (sa, Ok ()), [])" by blast
  from funds_verified_before_payment [OF r toy_cores(1)] r show ?thesis
    unfolding toy_alice_fields by blast
qed

end
