(* ===== verification/Program_Run.thy ===== *)
theory Program_Run
  imports Locking_Run
begin

text \<open>
  Runs of commands and of the program on the files of one party, with the swap of \<open>Swap_Run\<close>
  on the disk.
\<close>

declare replay.simps [simp del]

definition toy_disk :: "SwapSlate \<Rightarrow> disk" where
  "toy_disk s = write_slate_to_disk toy s ''slates'' True True [''config/settings.json'' \<mapsto> ''{}'']"

definition toy_sum :: string where
  "toy_sum = hex_text (sha256 toy (to_string_pretty_pub toy toy_pub))"

lemma toy_ids [simp]: "swap_id toy_alice = 7" "swap_id toy_bob = 7"
  by (simp_all add: toy_alice_def toy_bob_def upd_mw_prv_def upd_btc_prv_def)

lemma slates_dir [simp]: "slate_directory toy_settings = ''slates''"
  by (simp add: toy_settings_def)

lemma toy_stored:
  assumes "swap_id s = 7"
  shows "read_slate_from_disk toy 7 ''slates'' (toy_disk s) = Ret (Ok s)"
    "get_slate_checksum toy 7 ''slates'' (toy_disk s) = Ok (hex_text (sha256 toy (to_string_pretty_pub toy (pub_slate s))))"
    "settings_of toy (\<lambda>_. None) (toy_disk s) = Some toy_settings"
proof -
  show "read_slate_from_disk toy 7 ''slates'' (toy_disk s) = Ret (Ok s)"
    using read_written [OF toy_swap_json, of s "''slates''"] by (simp add: toy_disk_def assms del: toy_sel)
  show "get_slate_checksum toy 7 ''slates'' (toy_disk s) = Ok (hex_text (sha256 toy (to_string_pretty_pub toy (pub_slate s))))"
    using write_slate_own(1) [of toy s "''slates''"] by (simp add: get_slate_checksum_def toy_disk_def assms del: toy_sel)
  show "settings_of toy (\<lambda>_. None) (toy_disk s) = Some toy_settings"
    by (simp add: settings_of_def toy_disk_def overwrite_settings_empty_env)
qed

section \<open>Locking through the commands\<close>

lemma toy_lock_command:
  assumes "replay (locking_phase_swap_btc toy toy_bob toy_bc) eb = (Done (sb, Ok ()), [])"
  shows "replay (lock_execute toy 7 toy_settings (toy_disk toy_bob))
    (EConnect ''127.0.0.1:80'' True # sent toy_sum @ rcvd ''OK'' @ eb) = (Done (Ok sb), [])"
proof -
  have m: "meta toy_pub = \<lparr>meta_server = ''127.0.0.1'', meta_port = ''80''\<rparr>" by (simp add: toy_pub_def)
  have c: "replay (pbind (call_peer toy 7 toy_settings (toy_disk toy_bob)) f) (EConnect ''127.0.0.1:80'' True # sent toy_sum @ rcvd ''OK'' @ es) =
    replay (f (toy_bob, True)) es" for f :: "SwapSlate \<times> bool \<Rightarrow> (string, SwapSlate) result proc" and es
    unfolding call_peer_def slates_dir toy_stored(1) [OF toy_ids(2)] expect_Ret
    by (simp add: toy_stored(2) pbind_assoc replay.simps tcp.send_step tcp.recv_step toy_sum_def [symmetric] m eq_ignore_ascii_case_def del: toy_sel)
  show ?thesis
    unfolding lock_execute_def c by (simp add: toy_pub_def finish_phase_def run_simps assms)
qed

lemma toy_lock_service:
  assumes "replay (locking_phase_swap_mw toy toy_alice toy_gc toy_bc) ea = (Done (sa, Ok ()), [])"
  shows "replay (serve_client toy toy_alice toy_settings (toy_disk toy_alice))
    (rcvd toy_sum @ sent ''OK'' @ ea) = (Done (Some (Ok sa)), [])"
  unfolding serve_client_def Let_def
  by (simp add: tcp.recv_step tcp.send_step toy_stored(2) toy_sum_def [symmetric] eq_ignore_ascii_case_def del: toy_sel)
    (simp add: toy_pub_def finish_phase_def run_simps assms)

theorem lock_command_locks_swap_witness:
  "\<exists>sc ss tx ka kb kx t es. replay (lock_execute toy 7 toy_settings (toy_disk toy_bob)) es = (Done (Ok sc), []) \<and>
    swap_locked toy tx (sk_of ka) (sk_of kb) (sk_of kx) t ss sc \<and> raw_tx_request toy toy_bc tx \<in> set (requests es)"
proof -
  from toy_locking_runs obtain ea eb sa sb where
    r: "replay (locking_phase_swap_mw toy toy_alice toy_gc toy_bc) ea = (Done (sa, Ok ()), [])"
     "replay (locking_phase_swap_btc toy toy_bob toy_bc) eb = (Done (sb, Ok ()), [])"
     "lines_read ea = written eb" "lines_read eb = written ea" "fresh_keys_valid ea" "fresh_keys_valid eb" by blast
  let ?ec = "EConnect ''127.0.0.1:80'' True # sent toy_sum @ rcvd ''OK'' @ eb" and ?es = "rcvd toy_sum @ sent ''OK'' @ ea"
  have l: "lines_read ?ec = written ?es" "lines_read ?es = written ?ec" by (simp_all add: r(3,4) sent_def rcvd_def)
  have k: "fresh_keys_valid ?ec" "fresh_keys_valid ?es" using r(5,6) by (auto simp: fresh_keys_valid_def sent_def rcvd_def)
  have p: "read_slate_from_disk toy 7 (slate_directory toy_settings) (toy_disk toy_bob) = Ret (Ok toy_bob)"
    by (simp add: toy_stored)
  have o: "btc_swap_type (pub_btc (pub_slate toy_alice)) \<noteq> OFFERED" by (simp add: toy_pub_def)
  from lock_command_locks_swap [OF toy_lock_command [OF r(2)] toy_lock_service [OF r(1)] l p _ k toy_key_text]
  have "\<exists>tx ka kb kx t. swap_locked toy tx (sk_of ka) (sk_of kb) (sk_of kx) t sa sb \<and> raw_tx_request toy toy_bc tx \<in> set (requests ?ec)"
    using o unfolding toy_alice_fields by simp
  with toy_lock_command [OF r(2)] show ?thesis by blast
qed

section \<open>Runs of the program\<close>

definition toy_args :: "(string \<times> string) list \<Rightarrow> ArgMatches" where
  "toy_args kvs = ArgMatches None (map_of kvs)"

definition toy_cmd :: "string \<Rightarrow> (string \<times> string) list \<Rightarrow> ArgMatches" where
  "toy_cmd name kvs = ArgMatches (Some (name, toy_args kvs)) (\<lambda>_. None)"

definition toy_import_args :: ArgMatches where
  "toy_import_args = ArgMatches (Some (''import'', ArgMatches (Some (''grin'',
     toy_args [(''swapid'', show_u64 7), (''commitment'', ''c''), (''blinding_factor'', ''b''), (''value'', show_u64 9)])) (\<lambda>_. None))) (\<lambda>_. None)"

lemma toy_import_parse: "parse_arguments toy_import_args =
   Ret (Ok (CImportGrin \<lparr>ig_swpid = 7, ig_commitment = ''c'', ig_blinding_factor = ''b'', ig_value = 9\<rparr>))"
  by (simp add: parse_arguments_def toy_import_args_def parse_import_grin_def arg_def arg_u64_def toy_args_def u64_text.dec_enc)

lemma toy_import_run:
  "\<exists>d. replay (main 0 toy (\<lambda>_. None) [''swap'', ''import''] toy_import_args (toy_disk toy_alice)) [] = (Done d, [])"
  by (simp add: main_def parse_json_string_def toy_disk_def [of toy_alice] expect_proc_def toy_import_parse import_grin_execute_def
    overwrite_settings_empty_env Let_def replay.simps)
    (simp add: toy_disk_def [symmetric] toy_stored replay.simps del: toy_sel)

theorem stored_swap_follows_machine_witness:
  "\<exists>d s'. program_runs toy (\<lambda>_. None) (toy_disk toy_alice) d \<and> read_slate_from_disk toy 7 ''slates'' d = Ret (Ok s') \<and>
     swap_terms (pub_slate s') = swap_terms toy_pub \<and> status_next\<^sup>*\<^sup>* INITIALIZED (status (pub_slate s'))"
proof -
  obtain d where d: "replay (main 0 toy (\<lambda>_. None) [''swap'', ''import''] toy_import_args (toy_disk toy_alice)) [] = (Done d, [])"
    using toy_import_run by blast
  have r: "program_runs toy (\<lambda>_. None) (toy_disk toy_alice) d"
    by (rule program_runs.run [OF program_runs.start d]) (simp add: fresh_ids_def)
  have p: "status toy_pub = INITIALIZED" by (simp add: toy_pub_def)
  from stored_swap_follows_machine [OF r toy_swap_json toy_stored(3) [OF toy_ids(1)], of 7 toy_alice] r p
  show ?thesis by (simp add: toy_stored del: toy_sel) blast
qed

lemma hex_text_even: "even (length (hex_text b))"
  by (induction b) (simp_all add: hex_text_def)


definition toy_init_args :: ArgMatches where
  "toy_init_args = toy_cmd ''init'' [(''from-currency'', ''GRIN''), (''to-currency'', ''BTC''), (''from-amount'', show_u64 53),
     (''to-amount'', show_u64 25000000), (''timeout'', show_u64 120)]"

lemma toy_init_parse: "parse_arguments toy_init_args = Ret (Ok (CInit (init_new GRIN BTC 53 25000000 120)))"
  by (simp add: parse_arguments_def toy_init_args_def toy_cmd_def parse_init_def arg_def arg_u64_def toy_args_def u64_text.dec_enc
    parse_currency_from_string_def to_uppercase_def char_upper_def amount_overflow_def constants_simps)

theorem init_well_formed_witness:
  "\<exists>s. replay (init_execute (init_new GRIN BTC 53 25000000 120) toy_settings) [EU64 7] = (Done (Ok s), []) \<and> swap_id s = 7 \<and>
     mw_timelock (pub_mw (pub_slate s)) \<le> 7200 \<and> mw_swap_type (pub_mw (pub_slate s)) = OFFERED"
proof -
  obtain s where s: "replay (init_execute (init_new GRIN BTC 53 25000000 120) toy_settings) [EU64 7] = (Done (Ok s), [])"
    "mw_swap_type (pub_mw (pub_slate s)) = OFFERED"
    by (simp add: init_execute_def init_new_def replay.simps)
  with init_well_formed [OF toy_init_parse s(1)] show ?thesis by auto
qed

lemma toy_accept_parse: "parse_arguments (toy_cmd ''accept'' [(''swapid'', show_u64 7)]) = Ret (Ok (CAccept 7))"
  by (simp add: parse_arguments_def toy_cmd_def parse_swapid_def arg_def arg_u64_def toy_args_def u64_text.dec_enc)

lemma toy_accept_run:
  "\<exists>d. replay (main 0 toy (\<lambda>_. None) [''swap'', ''accept''] (toy_cmd ''accept'' [(''swapid'', show_u64 7)]) (toy_disk s)) [] = (Done d, [])"
  if "swap_id s = 7"
proof -
  have p: "toy_disk s (get_slate_path 7 ''slates'' True) = Some (to_string_pretty_pub toy (pub_slate s))"
    using write_slate_own(1) [of toy s "''slates''"] that by (simp add: toy_disk_def del: toy_sel)
  have f: "from_str_pub toy (to_string_pretty_pub toy x) = Some x" for x using toy_swap_json by (simp add: swap_json_laws_def del: toy_sel)
  have st: "from_str_settings toy x = Some toy_settings" for x by simp
  have c: "toy_disk s ''config/settings.json'' = Some ''{}''" by (simp add: toy_disk_def)
  show ?thesis
    by (simp add: main_def parse_json_string_def c expect_proc_def toy_accept_parse accept_execute_def create_priv_from_pub_def p f st
      overwrite_settings_empty_env Let_def replay.simps del: toy_sel)
qed

theorem accept_forgets_private_half_witness:
  "\<exists>d s'. replay (main 0 toy (\<lambda>_. None) [''swap'', ''accept''] (toy_cmd ''accept'' [(''swapid'', show_u64 7)]) (toy_disk toy_lb)) [] = (Done d, []) \<and>
     btc_sk (prv_btc (prv_slate toy_lb)) \<noteq> None \<and> read_slate_from_disk toy 7 ''slates'' d = Ret (Ok s') \<and>
     pub_slate s' = pub_slate toy_lb \<and> (\<forall>es s1 es'. replay (refund_phase_swap_btc toy s' toy_bc toy_gc) es \<noteq> (Done (s1, Ok ()), es'))"
proof -
  have i: "swap_id toy_lb = 7"
    by (simp add: toy_lb_def toy_locked_pub_def toy_set_up_def upd_mw_prv_def upd_btc_prv_def upd_mw_pub_def upd_btc_pub_def set_status_def)
  obtain d where d: "replay (main 0 toy (\<lambda>_. None) [''swap'', ''accept''] (toy_cmd ''accept'' [(''swapid'', show_u64 7)]) (toy_disk toy_lb)) [] = (Done d, [])"
    using toy_accept_run [OF i] by blast
  from accept_forgets_private_half [OF d _ toy_accept_parse toy_stored(3) [OF i], of toy_lb toy_bc toy_gc] d
  show ?thesis by (simp add: toy_stored [OF i] del: toy_sel) blast
qed

end
