(* ===== verification/Wallet_Types.thy ===== *)
theory Wallet_Types
  imports Libwallet_Slate
begin

text \<open>
  The wallet's own data, \<open>grin-wallet/libwallet/src/types.rs\<close>: the outputs it tracks with their
  states, the log of its transactions and the private context of one. A method on \<open>&mut self\<close>
  returns the updated value. \<open>Utc::now\<close> is the argument \<open>now\<close> of the functions that read the clock,
  as seconds. What the wallet calls in \<open>grin_keychain\<close>, \<open>grin_store\<close>, \<open>blake2_rfc\<close> and the transaction
  builder of \<open>grin_core\<close> are the fields of \<open>WalletLib\<close>.
\<close>

section \<open>Libraries\<close>

text \<open>\<open>Keychain\<close> stands for the master key; it is only passed on to the library.\<close>

type_synonym Keychain = bytes

record ExtKeychainPath =
  path_depth :: u8
  path_path :: "u32 list"

text \<open>\<open>libtx::build\<close>: the elements of a partial transaction.\<close>

datatype Append = BuildInput u64 Identifier | BuildCoinbaseInput u64 Identifier | BuildOutput u64 Identifier

record KeychainLib = GrinLib +
  mask_master_key :: "Keychain \<Rightarrow> SecretKey \<Rightarrow> Keychain option"
  \<comment> \<open>\<open>derive_key\<close> with \<open>SwitchCommitmentType::Regular\<close> and with \<open>SwitchCommitmentType::None\<close>\<close>
  kc_derive_key :: "Keychain \<Rightarrow> u64 \<Rightarrow> Identifier \<Rightarrow> SecretKey option"
  kc_derive_key_none :: "Keychain \<Rightarrow> u64 \<Rightarrow> Identifier \<Rightarrow> SecretKey option"
  kc_commit :: "Keychain \<Rightarrow> u64 \<Rightarrow> Identifier \<Rightarrow> Commitment option"
  root_key_id :: Identifier
  to_path :: "Identifier \<Rightarrow> ExtKeychainPath"
  from_path :: "ExtKeychainPath \<Rightarrow> Identifier"
  derive_key_id :: "u8 \<Rightarrow> u32 \<Rightarrow> u32 \<Rightarrow> u32 \<Rightarrow> u32 \<Rightarrow> Identifier"
  last_path_index :: "ExtKeychainPath \<Rightarrow> u32"

record StoreLib = KeychainLib +
  to_key :: "u8 \<Rightarrow> bytes \<Rightarrow> bytes"
  to_key_u64 :: "u8 \<Rightarrow> bytes \<Rightarrow> u64 \<Rightarrow> bytes"
  blake2b :: "bytes \<Rightarrow> bytes"
  uuid_bytes :: "Uuid \<Rightarrow> bytes"
  uuid_to_string :: "Uuid \<Rightarrow> string"

record WalletLib = StoreLib +
  tx_ser_vec :: "Transaction \<Rightarrow> bytes"
  tx_deserialize :: "bytes \<Rightarrow> Transaction option"
  partial_transaction :: "Keychain \<Rightarrow> Transaction \<Rightarrow> Append list \<Rightarrow> (Transaction \<times> BlindingFactor) option"
  fee_from_u64 :: "u64 \<Rightarrow> FeeFields option"
  fee_as_opt :: "FeeFields \<Rightarrow> FeeFields option"
  \<comment> \<open>\<open>OnionV3Address::from_private\<close> and \<open>to_ed25519\<close>, \<open>ed25519_dalek\<close>\<close>
  onion_ed25519 :: "SecretKey \<Rightarrow> bytes option"
  dalek_secret :: "bytes \<Rightarrow> bytes option"
  dalek_public :: "bytes \<Rightarrow> bytes option"
  dalek_sign :: "bytes \<Rightarrow> bytes \<Rightarrow> bytes"
  dalek_verify :: "bytes \<Rightarrow> bytes \<Rightarrow> bytes \<Rightarrow> bool"
  \<comment> \<open>consensus, \<open>secp.commit_value\<close> and \<open>libtx::reward::output\<close>\<close>
  valid_header_version :: "u64 \<Rightarrow> u16 \<Rightarrow> bool"
  coinbase_maturity :: u64
  reward :: "u64 \<Rightarrow> u64"
  secp_commit_value :: "u64 \<Rightarrow> Commitment option"
  reward_output :: "Keychain \<Rightarrow> Identifier \<Rightarrow> u64 \<Rightarrow> bool \<Rightarrow> (Output \<times> TxKernel) option"

text \<open>The trait \<open>NodeClient\<close>: what the node answers while one operation of the wallet runs.\<close>

record NodeClient =
  get_chain_tip :: "(WalletError, u64 \<times> string) result"
  get_kernel :: "Commitment \<Rightarrow> u64 option \<Rightarrow> u64 option \<Rightarrow> (WalletError, (TxKernel \<times> u64 \<times> u64) option) result"
  get_outputs_from_node :: "Commitment list \<Rightarrow> (WalletError, Commitment \<Rightarrow> (string \<times> u64 \<times> u64) option) result"
  \<comment> \<open>the outputs of a range of positions, with the highest position and the last one returned; an output
    has a commitment, a range proof, whether it is a coinbase, its height and its position\<close>
  get_outputs_by_pmmr_index ::
    "u64 \<Rightarrow> u64 option \<Rightarrow> u64 \<Rightarrow>
     (WalletError, u64 \<times> u64 \<times> (Commitment \<times> RangeProof \<times> bool \<times> u64 \<times> u64) list) result"
  height_range_to_pmmr_indices :: "u64 \<Rightarrow> u64 option \<Rightarrow> (WalletError, u64 \<times> u64) result"
  node_post_tx :: "Transaction \<Rightarrow> bool \<Rightarrow> (WalletError, unit) result"

section \<open>Addresses\<close>

text \<open>\<open>address.rs\<close>: the key of an address is the hash of the key at depth one below the account.\<close>

definition address_from_derivation_path ::
  "('z WalletLib_scheme) \<Rightarrow> Keychain \<Rightarrow> Identifier \<Rightarrow> u32 \<Rightarrow> (WalletError, SecretKey) result proc" where
  "address_from_derivation_path L kc parent index =
     (let p = to_path L parent;
          depth = path_depth p + 1;
          i = unat depth - 1
      in if length (path_path p) \<le> 1 \<or> unat depth = 0 \<or> length (path_path p) \<le> i then Panic ''index out of bounds''
         else
           let key_id = from_path L \<lparr>path_depth = depth, path_path = (path_path p)[1 := 1, i := index]\<rparr>
           in Ret (rbind (ok_or KeychainError (kc_derive_key_none L kc 0 key_id)) (\<lambda>sk.
                   ok_or SecpError (sk_from_slice L (blake2b L sk)))))"

section \<open>Outputs\<close>

datatype OutputStatus = Unconfirmed | Unspent | Locked | Spent | Reverted

record OutputData =
  od_root_key_id :: Identifier
  od_key_id :: Identifier
  od_n_child :: u32
  od_commit :: "string option"
  od_mmr_index :: "u64 option"
  od_value :: u64
  od_status :: OutputStatus
  od_height :: u64
  od_lock_height :: u64
  od_is_coinbase :: bool
  od_tx_log_entry :: "u32 option"

definition lock_od :: "OutputData \<Rightarrow> OutputData" where
  "lock_od out = out\<lparr>od_status := Locked\<rparr>"

definition num_confirmations :: "OutputData \<Rightarrow> u64 \<Rightarrow> u64" where
  "num_confirmations out current_height =
     (if od_height out > current_height then 0
      else if od_status out = Unconfirmed then 0
      else 1 + (current_height - od_height out))"

definition eligible_to_spend :: "OutputData \<Rightarrow> u64 \<Rightarrow> u64 \<Rightarrow> bool" where
  "eligible_to_spend out current_height minimum_confirmations =
     (if od_status out \<in> {Spent, Locked}
         \<or> od_status out = Unconfirmed \<and> od_is_coinbase out
         \<or> od_lock_height out > current_height
      then False
      else (od_status out = Unspent \<and> num_confirmations out current_height \<ge> minimum_confirmations)
           \<or> od_status out = Unconfirmed \<and> minimum_confirmations = 0)"

definition mark_unspent :: "OutputData \<Rightarrow> OutputData" where
  "mark_unspent out =
     (case od_status out of
        Unconfirmed \<Rightarrow> out\<lparr>od_status := Unspent\<rparr>
      | Reverted \<Rightarrow> out\<lparr>od_status := Unspent\<rparr>
      | _ \<Rightarrow> out)"

definition mark_spent :: "OutputData \<Rightarrow> OutputData" where
  "mark_spent out =
     (case od_status out of
        Unspent \<Rightarrow> out\<lparr>od_status := Spent\<rparr>
      | Locked \<Rightarrow> out\<lparr>od_status := Spent\<rparr>
      | _ \<Rightarrow> out)"

definition mark_reverted :: "OutputData \<Rightarrow> OutputData" where
  "mark_reverted out =
     (case od_status out of
        Unspent \<Rightarrow> out\<lparr>od_status := Reverted\<rparr>
      | _ \<Rightarrow> out)"

section \<open>The log of transactions\<close>

datatype TxLogEntryType =
    ConfirmedCoinbase
  | TxReceived
  | TxSent
  | TxReceivedCancelled
  | TxSentCancelled
  | TxReverted

record StoredProofInfo =
  spi_receiver_address :: bytes
  spi_receiver_signature :: "bytes option"
  spi_sender_address_path :: u32
  spi_sender_address :: bytes
  spi_sender_signature :: "bytes option"

record TxLogEntry =
  le_parent_key_id :: Identifier
  le_id :: u32
  le_tx_slate_id :: "Uuid option"
  le_tx_type :: TxLogEntryType
  le_creation_ts :: u64
  le_confirmation_ts :: "u64 option"
  le_confirmed :: bool
  le_num_inputs :: nat
  le_num_outputs :: nat
  le_amount_credited :: u64
  le_amount_debited :: u64
  le_fee :: "FeeFields option"
  le_ttl_cutoff_height :: "u64 option"
  le_stored_tx :: "string option"
  le_kernel_excess :: "Commitment option"
  le_kernel_lookup_min_height :: "u64 option"
  le_payment_proof :: "StoredProofInfo option"
  le_reverted_after :: "u64 option"

definition tx_log_entry_new :: "u64 \<Rightarrow> Identifier \<Rightarrow> TxLogEntryType \<Rightarrow> u32 \<Rightarrow> TxLogEntry" where
  "tx_log_entry_new now parent t i =
     \<lparr>le_parent_key_id = parent, le_id = i, le_tx_slate_id = None, le_tx_type = t,
      le_creation_ts = now, le_confirmation_ts = None, le_confirmed = False,
      le_num_inputs = 0, le_num_outputs = 0, le_amount_credited = 0, le_amount_debited = 0,
      le_fee = None, le_ttl_cutoff_height = None, le_stored_tx = None, le_kernel_excess = None,
      le_kernel_lookup_min_height = None, le_payment_proof = None, le_reverted_after = None\<rparr>"

definition sum_confirmed :: "TxLogEntry list \<Rightarrow> u64 \<times> u64" where
  "sum_confirmed txs =
     foldl (\<lambda>acc tx. if le_confirmed tx
                     then (fst acc + le_amount_credited tx, snd acc + le_amount_debited tx)
                     else acc) (0, 0) txs"

definition update_confirmation_ts :: "u64 \<Rightarrow> TxLogEntry \<Rightarrow> TxLogEntry" where
  "update_confirmation_ts now t = t\<lparr>le_confirmation_ts := Some now\<rparr>"

section \<open>Accounts and progress\<close>

record AcctPathMapping =
  acct_label :: string
  acct_path :: Identifier

record ScannedBlockInfo =
  sb_height :: u64
  sb_hash :: string
  sb_start_pmmr_index :: u64
  sb_last_pmmr_index :: u64

datatype WalletInitStatus = InitNeedsScanning | InitNoScanning | InitComplete

record WalletInfo =
  wi_last_confirmed_height :: u64
  wi_minimum_confirmations :: u64
  wi_total :: u64
  wi_amount_awaiting_finalization :: u64
  wi_amount_awaiting_confirmation :: u64
  wi_amount_immature :: u64
  wi_amount_currently_spendable :: u64
  wi_amount_locked :: u64
  wi_amount_reverted :: u64

section \<open>The context of a transaction\<close>

text \<open>\<open>Context::new\<close> outside of tests draws two fresh keys.\<close>

definition with_excess :: "SecretKey \<Rightarrow> SecretKey \<Rightarrow> Identifier \<Rightarrow> Context" where
  "with_excess sec_nonce_val sec_key_val parent =
     \<lparr>parent_key_id = parent, sec_key = sec_key_val, sec_nonce = sec_nonce_val,
      initial_sec_key = sec_key_val, initial_sec_nonce = sec_nonce_val,
      output_ids = [], input_ids = [], ctx_amount = 0, ctx_fee = None,
      payment_proof_derivation_index = None, late_lock_args = None, calculated_excess = None\<rparr>"

definition context_new :: "Identifier \<Rightarrow> Context proc" where
  "context_new parent =
     pbind fresh_key (\<lambda>k. pbind fresh_key (\<lambda>n. Ret (with_excess n k parent)))"

definition add_output :: "Identifier \<Rightarrow> u64 option \<Rightarrow> u64 \<Rightarrow> Context \<Rightarrow> Context" where
  "add_output output_id mmr_index amount ctx =
     ctx\<lparr>output_ids := output_ids ctx @ [(output_id, mmr_index, amount)]\<rparr>"

definition add_input :: "Identifier \<Rightarrow> u64 option \<Rightarrow> u64 \<Rightarrow> Context \<Rightarrow> Context" where
  "add_input input_id mmr_index amount ctx =
     ctx\<lparr>input_ids := input_ids ctx @ [(input_id, mmr_index, amount)]\<rparr>"

section \<open>Lemmas on output states\<close>

text \<open>The states an output can go through: every operation on the status stays within this order,
  and a locked or spent output is not eligible.\<close>

lemma eligible_status:
  "eligible_to_spend out h m \<Longrightarrow> od_status out \<in> {Unspent, Unconfirmed}"
  by (auto simp: eligible_to_spend_def split: if_splits)

lemma eligible_unconfirmed:
  "eligible_to_spend out h m \<Longrightarrow> 0 < m \<Longrightarrow> od_status out = Unspent \<and> m \<le> num_confirmations out h"
  by (auto simp: eligible_to_spend_def split: if_splits)

lemma od_keys_kept [simp]:
  "od_key_id (lock_od out) = od_key_id out" "od_mmr_index (lock_od out) = od_mmr_index out"
  "od_key_id (mark_unspent out) = od_key_id out" "od_mmr_index (mark_unspent out) = od_mmr_index out"
  "od_key_id (mark_spent out) = od_key_id out" "od_mmr_index (mark_spent out) = od_mmr_index out"
  "od_key_id (mark_reverted out) = od_key_id out" "od_mmr_index (mark_reverted out) = od_mmr_index out"
  "od_value (lock_od out) = od_value out" "od_status (lock_od out) = Locked"
  by (simp_all add: lock_od_def mark_unspent_def mark_spent_def mark_reverted_def split: OutputStatus.splits)

lemma lock_od_not_eligible [simp]: "\<not> eligible_to_spend (lock_od out) h m"
  by (simp add: eligible_to_spend_def)

end
