(* ===== verification/Wallet_Store.thy ===== *)
theory Wallet_Store
  imports Wallet_Types "HOL-Library.List_Lexorder"
begin

text \<open>
  The wallet's storage, \<open>grin-wallet/impls/src/backends/lmdb.rs\<close>. The database holds typed values
  under byte keys in the order of the keys, as LMDB does; \<open>grin_store\<close> writes a value in JSON, so
  reading it at its own type gives it back and reading it at another one is an error. A batch
  works on a copy of the database that \<open>commit\<close> makes current; an operation that fails before that
  leaves the wallet as it was. The directory of saved transactions is a map from file names to
  contents.
\<close>

section \<open>The database\<close>

datatype db_value =
    VOutput OutputData
  | VIndex u32
  | VHeight u64
  | VContext Context
  | VTxLog TxLogEntry
  | VAcct AcctPathMapping
  | VScanned ScannedBlockInfo
  | VInit WalletInitStatus

type_synonym db = "(bytes \<times> db_value) list"

fun db_put :: "bytes \<Rightarrow> db_value \<Rightarrow> db \<Rightarrow> db" where
  "db_put k v [] = [(k, v)]"
| "db_put k v ((k', v') # d) =
     (if k = k' then (k, v) # d
      else if k < k' then (k, v) # (k', v') # d
      else (k', v') # db_put k v d)"

definition db_get :: "db \<Rightarrow> bytes \<Rightarrow> db_value option" where
  "db_get d k = map_of d k"

definition db_delete :: "bytes \<Rightarrow> db \<Rightarrow> db" where
  "db_delete k d = filter (\<lambda>(k', _). k' \<noteq> k) d"

text \<open>Iteration over the keys with a prefix byte.\<close>

definition db_scan :: "u8 \<Rightarrow> db \<Rightarrow> db_value list" where
  "db_scan p d = map snd (filter (\<lambda>(k, _). take 1 k = [p]) d)"

definition db_wf :: "db \<Rightarrow> bool" where
  "db_wf d \<longleftrightarrow> sorted_wrt (<) (map fst d)"

text \<open>The contract of a key-value store: what is read after writing and deleting, and that the
  invariant is kept.\<close>

locale kv_store =
  fixes put :: "'k \<Rightarrow> 'v \<Rightarrow> 'd \<Rightarrow> 'd" and get :: "'d \<Rightarrow> 'k \<Rightarrow> 'v option" and del :: "'k \<Rightarrow> 'd \<Rightarrow> 'd"
    and wf :: "'d \<Rightarrow> bool"
  assumes get_put: "get (put k v d) k' = (if k' = k then Some v else get d k')"
    and get_del: "get (del k d) k' = (if k' = k then None else get d k')"
    and wf_put: "wf d \<Longrightarrow> wf (put k v d)"
    and wf_del: "wf d \<Longrightarrow> wf (del k d)"
begin

text \<open>Writing a list of entries.\<close>

lemma get_puts_other:
  "k \<notin> key ` set xs \<Longrightarrow> get (fold (\<lambda>x. put (key x) (val x)) xs d) k = get d k"
  by (induction xs arbitrary: d) (auto simp: get_put)

lemma wf_puts: "wf d \<Longrightarrow> wf (fold (\<lambda>x. put (key x) (val x)) xs d)"
  by (induction xs arbitrary: d) (auto simp: wf_put)

end

lemma db_put_keys: "set (map fst (db_put k v d)) = insert k (set (map fst d))"
  by (induction k v d rule: db_put.induct) auto

interpretation db: kv_store db_put db_get db_delete db_wf
proof unfold_locales
  fix k k' :: bytes and v d
  show "db_get (db_put k v d) k' = (if k' = k then Some v else db_get d k')"
    unfolding db_get_def by (induction k v d rule: db_put.induct) auto
  show "db_get (db_delete k d) k' = (if k' = k then None else db_get d k')"
    unfolding db_get_def db_delete_def by (induction d) auto
  show "db_wf (db_put k v d)" if "db_wf d"
    using that unfolding db_wf_def
    by (induction k v d rule: db_put.induct) (use db_put_keys in \<open>auto simp: not_less le_less\<close>)
  show "db_wf (db_delete k d)" if "db_wf d"
    using that unfolding db_wf_def db_delete_def by (induction d) auto
qed

lemma db_wf_distinct: "db_wf d \<Longrightarrow> distinct (map fst d)"
  unfolding db_wf_def by (induction d) (auto dest: less_imp_neq)

lemma db_get_mem: "db_wf d \<Longrightarrow> db_get d k = Some v \<longleftrightarrow> (k, v) \<in> set d"
  by (simp add: db_get_def db_wf_distinct map_of_eq_Some_iff)

section \<open>Keys\<close>

definition OUTPUT_PREFIX :: u8 where "OUTPUT_PREFIX = 0x6F"
definition DERIV_PREFIX :: u8 where "DERIV_PREFIX = 0x64"
definition CONFIRMED_HEIGHT_PREFIX :: u8 where "CONFIRMED_HEIGHT_PREFIX = 0x63"
definition PRIVATE_TX_CONTEXT_PREFIX :: u8 where "PRIVATE_TX_CONTEXT_PREFIX = 0x70"
definition TX_LOG_ENTRY_PREFIX :: u8 where "TX_LOG_ENTRY_PREFIX = 0x74"
definition TX_LOG_ID_PREFIX :: u8 where "TX_LOG_ID_PREFIX = 0x69"
definition ACCOUNT_PATH_MAPPING_PREFIX :: u8 where "ACCOUNT_PATH_MAPPING_PREFIX = 0x61"
definition LAST_SCANNED_BLOCK :: u8 where "LAST_SCANNED_BLOCK = 0x6C"
definition WALLET_INIT_STATUS :: u8 where "WALLET_INIT_STATUS = 0x77"

lemmas prefix_defs = OUTPUT_PREFIX_def DERIV_PREFIX_def CONFIRMED_HEIGHT_PREFIX_def
  PRIVATE_TX_CONTEXT_PREFIX_def TX_LOG_ENTRY_PREFIX_def TX_LOG_ID_PREFIX_def
  ACCOUNT_PATH_MAPPING_PREFIX_def LAST_SCANNED_BLOCK_def WALLET_INIT_STATUS_def

definition str_bytes :: "string \<Rightarrow> bytes" where
  "str_bytes s = map (of_nat \<circ> of_char) s"

definition output_key :: "('z StoreLib_scheme) \<Rightarrow> Identifier \<Rightarrow> u64 option \<Rightarrow> bytes" where
  "output_key L ident mmr_index =
     (case mmr_index of Some i \<Rightarrow> to_key_u64 L OUTPUT_PREFIX ident i
                      | None \<Rightarrow> to_key L OUTPUT_PREFIX ident)"

text \<open>What \<open>grin_store\<close> documents of its keys: the prefix byte first, then the key, then the
  number; keys of one length are told apart.\<close>

definition store_key_laws :: "('z StoreLib_scheme) \<Rightarrow> bool" where
  "store_key_laws L \<longleftrightarrow>
     (\<forall>p k. take 1 (to_key L p k) = [p]) \<and> (\<forall>p k n. take 1 (to_key_u64 L p k n) = [p]) \<and>
     (\<forall>p k k'. to_key L p k = to_key L p k' \<longrightarrow> k = k') \<and>
     (\<forall>p k k' n n'. length k = length k' \<longrightarrow> to_key_u64 L p k n = to_key_u64 L p k' n' \<longrightarrow> k = k' \<and> n = n') \<and>
     (\<forall>p k k' n. length k = length k' \<longrightarrow> to_key L p k \<noteq> to_key_u64 L p k' n)"

lemma output_key_prefix: "store_key_laws L \<Longrightarrow> take 1 (output_key L i m) = [OUTPUT_PREFIX]"
  by (auto simp: output_key_def store_key_laws_def split: option.splits)

lemma store_key_lawsD:
  assumes "store_key_laws L"
  shows "take 1 (to_key L p k) = [p]" "take 1 (to_key_u64 L p k n) = [p]"
    and "to_key L p k = to_key L p k' \<Longrightarrow> k = k'"
    and "length k = length k' \<Longrightarrow> to_key_u64 L p k n = to_key_u64 L p k' n' \<Longrightarrow> k = k' \<and> n = n'"
    and "length k = length k' \<Longrightarrow> to_key L p k \<noteq> to_key_u64 L p k' n"
  using assms unfolding store_key_laws_def by blast+

lemma output_key_inject:
  assumes "store_key_laws L" "length i = length i'" "output_key L i m = output_key L i' m'"
  shows "i = i' \<and> m = m'"
proof (cases m)
  case None
  then show ?thesis
    using assms(3) store_key_lawsD(3,5) [OF assms(1)] assms(2) by (cases m') (auto simp: output_key_def)
next
  case (Some n)
  then show ?thesis
    using assms(3) store_key_lawsD(4) [OF assms(1,2)] store_key_lawsD(5) [OF assms(1), of i' i, THEN not_sym] assms(2)
    by (cases m') (auto simp: output_key_def)
qed

section \<open>Reading at a type\<close>

fun as_output :: "db_value \<Rightarrow> OutputData option" where
  "as_output (VOutput x) = Some x" | "as_output _ = None"
fun as_index :: "db_value \<Rightarrow> u32 option" where
  "as_index (VIndex x) = Some x" | "as_index _ = None"
fun as_height :: "db_value \<Rightarrow> u64 option" where
  "as_height (VHeight x) = Some x" | "as_height _ = None"
fun as_context :: "db_value \<Rightarrow> Context option" where
  "as_context (VContext x) = Some x" | "as_context _ = None"
fun as_tx_log :: "db_value \<Rightarrow> TxLogEntry option" where
  "as_tx_log (VTxLog x) = Some x" | "as_tx_log _ = None"
fun as_acct :: "db_value \<Rightarrow> AcctPathMapping option" where
  "as_acct (VAcct x) = Some x" | "as_acct _ = None"
fun as_scanned :: "db_value \<Rightarrow> ScannedBlockInfo option" where
  "as_scanned (VScanned x) = Some x" | "as_scanned _ = None"
fun as_init :: "db_value \<Rightarrow> WalletInitStatus option" where
  "as_init (VInit x) = Some x" | "as_init _ = None"

definition get_ser :: "(db_value \<Rightarrow> 'a option) \<Rightarrow> db \<Rightarrow> bytes \<Rightarrow> (WalletError, 'a option) result" where
  "get_ser sel d k =
     (case db_get d k of
        None \<Rightarrow> Ok None
      | Some v \<Rightarrow> (case sel v of Some x \<Rightarrow> Ok (Some x) | None \<Rightarrow> Err StoreError))"

definition option_to_not_found :: "(WalletError, 'a option) result \<Rightarrow> (WalletError, 'a) result" where
  "option_to_not_found r = rbind r (\<lambda>v. ok_or NotFoundErr v)"

section \<open>The backend\<close>

record LMDBBackend =
  lm_db :: db
  lm_saved_txs :: "string \<Rightarrow> string option"
  lm_keychain :: "Keychain option"
  lm_master_checksum :: "bytes option"
  lm_parent_key_id :: Identifier

definition default_path :: "('z StoreLib_scheme) \<Rightarrow> Identifier" where
  "default_path L = derive_key_id L 2 0 0 0 0"

text \<open>A store opened for the first time, with the default account.\<close>

definition lmdb_new :: "('z StoreLib_scheme) \<Rightarrow> db \<Rightarrow> (string \<Rightarrow> string option) \<Rightarrow> LMDBBackend" where
  "lmdb_new L store files =
     (let default_account = \<lparr>acct_label = ''default'', acct_path = default_path L\<rparr>;
          acct_key = to_key L ACCOUNT_PATH_MAPPING_PREFIX (str_bytes ''default'')
      in \<lparr>lm_db = db_put acct_key (VAcct default_account) store, lm_saved_txs = files,
          lm_keychain = None, lm_master_checksum = None, lm_parent_key_id = default_path L\<rparr>)"

text \<open>The mask, where one is asked for, is a fresh key.\<close>

definition set_keychain ::
  "('z StoreLib_scheme) \<Rightarrow> Keychain \<Rightarrow> bool \<Rightarrow> LMDBBackend \<Rightarrow>
   ((WalletError, SecretKey option) result \<times> LMDBBackend) proc" where
  "set_keychain L k with_mask w =
     (case kc_derive_key L k 0 (root_key_id L) of
        None \<Rightarrow> Ret (Err KeychainError, w)
      | Some root_key \<Rightarrow>
          let w = w\<lparr>lm_master_checksum := Some (blake2b L root_key)\<rparr>
          in if with_mask
             then pbind fresh_key (\<lambda>mask_value.
                  case mask_master_key L k mask_value of
                    None \<Rightarrow> Ret (Err KeychainError, w)
                  | Some k' \<Rightarrow> Ret (Ok (Some mask_value), w\<lparr>lm_keychain := Some k'\<rparr>))
             else Ret (Ok None, w\<lparr>lm_keychain := Some k\<rparr>))"

definition close_wallet :: "LMDBBackend \<Rightarrow> LMDBBackend" where
  "close_wallet w = w\<lparr>lm_keychain := None\<rparr>"

definition keychain ::
  "('z StoreLib_scheme) \<Rightarrow> LMDBBackend \<Rightarrow> SecretKey option \<Rightarrow> (WalletError, Keychain) result" where
  "keychain L w keychain_mask =
     (case lm_keychain w of
        None \<Rightarrow> Err KeychainDoesntExist
      | Some k \<Rightarrow>
          rbind (case keychain_mask of None \<Rightarrow> Ok k
                            | Some m \<Rightarrow> ok_or KeychainError (mask_master_key L k m)) (\<lambda>k_masked.
          rbind (ok_or KeychainError (kc_derive_key L k_masked 0 (root_key_id L))) (\<lambda>root_key.
          if lm_master_checksum w \<noteq> Some (blake2b L root_key) then Err InvalidKeychainMask
          else Ok k_masked)))"

definition calc_commit_for_cache ::
  "('z StoreLib_scheme) \<Rightarrow> LMDBBackend \<Rightarrow> SecretKey option \<Rightarrow> u64 \<Rightarrow> Identifier \<Rightarrow>
   (WalletError, string option) result" where
  "calc_commit_for_cache L w keychain_mask amount ident =
     rbind (keychain L w keychain_mask) (\<lambda>k.
     rbind (ok_or KeychainError (kc_commit L k amount ident)) (\<lambda>c.
     Ok (Some (hex_text c))))"

definition od_iter :: "db \<Rightarrow> OutputData list" where
  "od_iter d = List.map_filter as_output (db_scan OUTPUT_PREFIX d)"

definition get_output :: "('z StoreLib_scheme) \<Rightarrow> db \<Rightarrow> Identifier \<Rightarrow> u64 option \<Rightarrow> (WalletError, OutputData) result" where
  "get_output L d ident mmr_index = option_to_not_found (get_ser as_output d (output_key L ident mmr_index))"

definition tx_log_iter :: "db \<Rightarrow> TxLogEntry list" where
  "tx_log_iter d = List.map_filter as_tx_log (db_scan TX_LOG_ENTRY_PREFIX d)"

definition acct_path_iter :: "db \<Rightarrow> AcctPathMapping list" where
  "acct_path_iter d = List.map_filter as_acct (db_scan ACCOUNT_PATH_MAPPING_PREFIX d)"

definition get_tx_log_entry :: "('z StoreLib_scheme) \<Rightarrow> LMDBBackend \<Rightarrow> Uuid \<Rightarrow> (WalletError, TxLogEntry option) result" where
  "get_tx_log_entry L w u = get_ser as_tx_log (lm_db w) (to_key L TX_LOG_ENTRY_PREFIX (uuid_bytes L u))"

definition get_acct_path :: "('z StoreLib_scheme) \<Rightarrow> LMDBBackend \<Rightarrow> string \<Rightarrow> (WalletError, AcctPathMapping option) result" where
  "get_acct_path L w label =
     get_ser as_acct (lm_db w) (to_key L ACCOUNT_PATH_MAPPING_PREFIX (str_bytes label))"

definition set_parent_key_id_by_name :: "string \<Rightarrow> LMDBBackend \<Rightarrow> (WalletError, unit) result \<times> LMDBBackend" where
  "set_parent_key_id_by_name label w =
     (case find (\<lambda>l. acct_label l = label) (acct_path_iter (lm_db w)) of
        Some a \<Rightarrow> (Ok (), w\<lparr>lm_parent_key_id := acct_path a\<rparr>)
      | None \<Rightarrow> (Err (UnknownAccountLabel label), w))"

text \<open>The keys that hide the secrets of a stored context.\<close>

definition private_ctx_xor_keys ::
  "('z StoreLib_scheme) \<Rightarrow> Keychain \<Rightarrow> bytes \<Rightarrow> (WalletError, bytes \<times> bytes) result" where
  "private_ctx_xor_keys L k sid =
     rbind (ok_or KeychainError (kc_derive_key L k 0 (root_key_id L))) (\<lambda>root_key.
     Ok (blake2b L (root_key @ sid @ str_bytes ''blind''),
         blake2b L (root_key @ sid @ str_bytes ''nonce'')))"

definition xor_bytes :: "bytes \<Rightarrow> bytes \<Rightarrow> bytes" where
  "xor_bytes a b = map2 xor a b"

definition xor_context :: "bytes \<times> bytes \<Rightarrow> Context \<Rightarrow> Context" where
  "xor_context ks ctx =
     ctx\<lparr>sec_key := xor_bytes (sec_key ctx) (fst ks), sec_nonce := xor_bytes (sec_nonce ctx) (snd ks)\<rparr>"

definition get_private_context ::
  "('z StoreLib_scheme) \<Rightarrow> LMDBBackend \<Rightarrow> SecretKey option \<Rightarrow> bytes \<Rightarrow> (WalletError, Context) result" where
  "get_private_context L w keychain_mask sid =
     rbind (keychain L w keychain_mask) (\<lambda>k.
     rbind (private_ctx_xor_keys L k sid) (\<lambda>ks.
     rbind (option_to_not_found (get_ser as_context (lm_db w) (to_key_u64 L PRIVATE_TX_CONTEXT_PREFIX sid 0)))
       (\<lambda>ctx. Ok (xor_context ks ctx))))"

definition store_tx :: "('z WalletLib_scheme) \<Rightarrow> string \<Rightarrow> Transaction \<Rightarrow> LMDBBackend \<Rightarrow> LMDBBackend" where
  "store_tx L uuid tx w =
     w\<lparr>lm_saved_txs := (lm_saved_txs w)(uuid @ ''.grintx'' \<mapsto> hex_text (tx_ser_vec L tx))\<rparr>"

definition get_stored_tx ::
  "('z WalletLib_scheme) \<Rightarrow> LMDBBackend \<Rightarrow> string \<Rightarrow> (WalletError, Transaction option) result proc" where
  "get_stored_tx L w uuid =
     (case lm_saved_txs w (uuid @ ''.grintx'') of
        None \<Rightarrow> Ret (Err NotFoundErr)
      | Some content \<Rightarrow>
          pbind (unwrap ''from_hex'' (hex_decode L content)) (\<lambda>tx_bin.
          pbind (unwrap ''deserialize'' (tx_deserialize L tx_bin)) (\<lambda>tx. Ret (Ok (Some tx)))))"

definition index_or_zero :: "(WalletError, u32 option) result \<Rightarrow> (WalletError, u32) result" where
  "index_or_zero r = rbind r (\<lambda>v. Ok (case v of Some i \<Rightarrow> i | None \<Rightarrow> 0))"

definition current_child_index :: "('z StoreLib_scheme) \<Rightarrow> LMDBBackend \<Rightarrow> Identifier \<Rightarrow> (WalletError, u32) result" where
  "current_child_index L w parent = index_or_zero (get_ser as_index (lm_db w) (to_key L DERIV_PREFIX parent))"

definition last_confirmed_height :: "('z StoreLib_scheme) \<Rightarrow> LMDBBackend \<Rightarrow> (WalletError, u64) result" where
  "last_confirmed_height L w =
     rbind (get_ser as_height (lm_db w) (to_key L CONFIRMED_HEIGHT_PREFIX (lm_parent_key_id w)))
       (\<lambda>h. Ok (case h of Some h \<Rightarrow> h | None \<Rightarrow> 0))"

definition last_scanned_block :: "('z StoreLib_scheme) \<Rightarrow> LMDBBackend \<Rightarrow> (WalletError, ScannedBlockInfo) result" where
  "last_scanned_block L w =
     rbind (get_ser as_scanned (lm_db w) (to_key L LAST_SCANNED_BLOCK (str_bytes ''LAST_SCANNED_KEY'')))
       (\<lambda>b. Ok (case b of Some b \<Rightarrow> b
          | None \<Rightarrow> \<lparr>sb_height = 0, sb_hash = [], sb_start_pmmr_index = 0, sb_last_pmmr_index = 0\<rparr>))"

definition init_status :: "('z StoreLib_scheme) \<Rightarrow> LMDBBackend \<Rightarrow> (WalletError, WalletInitStatus) result" where
  "init_status L w =
     rbind (get_ser as_init (lm_db w) (to_key L WALLET_INIT_STATUS (str_bytes ''WALLET_INIT_STATUS'')))
       (\<lambda>s. Ok (case s of Some s \<Rightarrow> s | None \<Rightarrow> InitComplete))"

section \<open>Batches\<close>

definition batch_save :: "('z StoreLib_scheme) \<Rightarrow> OutputData \<Rightarrow> db \<Rightarrow> db" where
  "batch_save L out d = db_put (output_key L (od_key_id out) (od_mmr_index out)) (VOutput out) d"

definition batch_delete :: "('z StoreLib_scheme) \<Rightarrow> Identifier \<Rightarrow> u64 option \<Rightarrow> db \<Rightarrow> db" where
  "batch_delete L ident mmr_index d = db_delete (output_key L ident mmr_index) d"

definition next_tx_log_id :: "('z StoreLib_scheme) \<Rightarrow> Identifier \<Rightarrow> db \<Rightarrow> (WalletError, u32 \<times> db) result" where
  "next_tx_log_id L parent d =
     (let tx_id_key = to_key L TX_LOG_ID_PREFIX parent
      in rbind (index_or_zero (get_ser as_index d tx_id_key)) (\<lambda>last_tx_log_id.
         Ok (last_tx_log_id, db_put tx_id_key (VIndex (last_tx_log_id + 1)) d)))"

definition save_last_confirmed_height :: "('z StoreLib_scheme) \<Rightarrow> Identifier \<Rightarrow> u64 \<Rightarrow> db \<Rightarrow> db" where
  "save_last_confirmed_height L parent height d = db_put (to_key L CONFIRMED_HEIGHT_PREFIX parent) (VHeight height) d"

definition save_last_scanned_block :: "('z StoreLib_scheme) \<Rightarrow> ScannedBlockInfo \<Rightarrow> db \<Rightarrow> db" where
  "save_last_scanned_block L info d = db_put (to_key L LAST_SCANNED_BLOCK (str_bytes ''LAST_SCANNED_KEY'')) (VScanned info) d"

definition save_init_status :: "('z StoreLib_scheme) \<Rightarrow> WalletInitStatus \<Rightarrow> db \<Rightarrow> db" where
  "save_init_status L v d = db_put (to_key L WALLET_INIT_STATUS (str_bytes ''WALLET_INIT_STATUS'')) (VInit v) d"

definition save_child_index :: "('z StoreLib_scheme) \<Rightarrow> Identifier \<Rightarrow> u32 \<Rightarrow> db \<Rightarrow> db" where
  "save_child_index L parent child_n d = db_put (to_key L DERIV_PREFIX parent) (VIndex child_n) d"

definition save_tx_log_entry :: "('z StoreLib_scheme) \<Rightarrow> TxLogEntry \<Rightarrow> Identifier \<Rightarrow> db \<Rightarrow> db" where
  "save_tx_log_entry L tx_in parent d =
     db_put (to_key_u64 L TX_LOG_ENTRY_PREFIX parent (ucast (le_id tx_in))) (VTxLog tx_in) d"

definition save_acct_path :: "('z StoreLib_scheme) \<Rightarrow> AcctPathMapping \<Rightarrow> db \<Rightarrow> db" where
  "save_acct_path L mapping d =
     db_put (to_key L ACCOUNT_PATH_MAPPING_PREFIX (str_bytes (acct_label mapping))) (VAcct mapping) d"

definition lock_output :: "('z StoreLib_scheme) \<Rightarrow> OutputData \<Rightarrow> db \<Rightarrow> db" where
  "lock_output L out d = batch_save L (lock_od out) d"

definition save_private_context ::
  "('z StoreLib_scheme) \<Rightarrow> Keychain \<Rightarrow> bytes \<Rightarrow> Context \<Rightarrow> db \<Rightarrow> (WalletError, db) result" where
  "save_private_context L k sid ctx d =
     rbind (private_ctx_xor_keys L k sid) (\<lambda>ks.
     Ok (db_put (to_key_u64 L PRIVATE_TX_CONTEXT_PREFIX sid 0) (VContext (xor_context ks ctx)) d))"

definition delete_private_context :: "('z StoreLib_scheme) \<Rightarrow> bytes \<Rightarrow> db \<Rightarrow> db" where
  "delete_private_context L sid d = db_delete (to_key_u64 L PRIVATE_TX_CONTEXT_PREFIX sid 0) d"

definition commit_batch :: "db \<Rightarrow> LMDBBackend \<Rightarrow> LMDBBackend" where
  "commit_batch d w = w\<lparr>lm_db := d\<rparr>"

text \<open>The next child of the current parent. The path has room for four levels.\<close>

definition next_child ::
  "('z StoreLib_scheme) \<Rightarrow> SecretKey option \<Rightarrow> LMDBBackend \<Rightarrow> ((WalletError, Identifier) result \<times> LMDBBackend) proc" where
  "next_child L keychain_mask w =
     (case current_child_index L w (lm_parent_key_id w) of
        Inl e \<Rightarrow> Ret (Err e, w)
      | Inr deriv_idx \<Rightarrow>
          let p = to_path L (lm_parent_key_id w);
              depth = path_depth p + 1;
              i = unat depth - 1
          in if unat depth = 0 \<or> length (path_path p) \<le> i then Panic ''index out of bounds''
             else
               (case keychain L w keychain_mask of
                  Inl e \<Rightarrow> Ret (Err e, w)
                | Inr _ \<Rightarrow>
                    Ret (Ok (from_path L \<lparr>path_depth = depth, path_path = (path_path p)[i := deriv_idx]\<rparr>),
                         commit_batch (save_child_index L (lm_parent_key_id w) (deriv_idx + 1) (lm_db w)) w)))"

end
