(* ===== verification/Wallet_Select.thy ===== *)
theory Wallet_Select
  imports Wallet_Store
begin

text \<open>
  \<open>grin-wallet/libwallet/src/internal/selection.rs\<close>: choosing the coins of a transaction, its fee and
  its change, locking them in the wallet and building the receiver's output; with
  \<open>add_transaction_elements\<close> of \<open>slate.rs\<close>, which these functions drive. A function on \<open>&mut wallet\<close>
  returns the wallet with its result. The loop that selects again until the fee is covered takes
  fuel; \<open>select_coins_and_fee_returns\<close> says how much is enough.
\<close>

section \<open>Errors and state\<close>

definition try_w ::
  "((WalletError, 'a) result \<times> LMDBBackend) proc \<Rightarrow>
   ('a \<Rightarrow> LMDBBackend \<Rightarrow> ((WalletError, 'b) result \<times> LMDBBackend) proc) \<Rightarrow>
   ((WalletError, 'b) result \<times> LMDBBackend) proc" where
  "try_w p f = pbind p (\<lambda>(r, w). case r of Inl e \<Rightarrow> Ret (Err e, w) | Inr x \<Rightarrow> f x w)"

definition try_r ::
  "(WalletError, 'a) result \<Rightarrow> LMDBBackend \<Rightarrow> ('a \<Rightarrow> ((WalletError, 'b) result \<times> LMDBBackend) proc) \<Rightarrow>
   ((WalletError, 'b) result \<times> LMDBBackend) proc" where
  "try_r r w f = (case r of Inl e \<Rightarrow> Ret (Err e, w) | Inr x \<Rightarrow> f x)"

section \<open>Coins\<close>

definition sum_outputs :: "OutputData list \<Rightarrow> u64" where
  "sum_outputs coins = foldl (\<lambda>acc c. acc + od_value c) 0 coins"

text \<open>The \<open>take_while\<close> whose closure adds up what it has let through.\<close>

fun take_until :: "u64 \<Rightarrow> u64 \<Rightarrow> OutputData list \<Rightarrow> OutputData list" where
  "take_until amount selected_amount [] = []"
| "take_until amount selected_amount (out # outs) =
     (if selected_amount < amount
      then out # take_until amount (selected_amount + od_value out) outs
      else [])"

definition select_from :: "u64 \<Rightarrow> bool \<Rightarrow> OutputData list \<Rightarrow> OutputData list option" where
  "select_from amount select_all outputs =
     (if sum_outputs outputs \<ge> amount
      then (if select_all then Some outputs else Some (take_until amount 0 outputs))
      else None)"

definition windows :: "nat \<Rightarrow> 'a list \<Rightarrow> 'a list list" where
  "windows n xs = map (\<lambda>i. take n (drop i xs)) [0..<Suc (length xs) - n]"

text \<open>The first window with enough value.\<close>

fun first_window :: "u64 \<Rightarrow> bool \<Rightarrow> OutputData list list \<Rightarrow> OutputData list option" where
  "first_window amount select_all [] = None"
| "first_window amount select_all (win # wins) =
     (case select_from amount select_all win of
        Some outputs \<Rightarrow> Some outputs
      | None \<Rightarrow> first_window amount select_all wins)"

definition eligible_coins :: "LMDBBackend \<Rightarrow> u64 \<Rightarrow> u64 \<Rightarrow> Identifier \<Rightarrow> OutputData list" where
  "eligible_coins w current_height minimum_confirmations parent =
     sort_key od_value (filter (\<lambda>out. od_root_key_id out = parent
        \<and> eligible_to_spend out current_height minimum_confirmations) (od_iter (lm_db w)))"

definition select_coins ::
  "LMDBBackend \<Rightarrow> u64 \<Rightarrow> u64 \<Rightarrow> u64 \<Rightarrow> nat \<Rightarrow> bool \<Rightarrow> Identifier \<Rightarrow> (nat \<times> OutputData list) proc" where
  "select_coins w amount current_height minimum_confirmations max_outputs select_all parent =
     (let eligible = eligible_coins w current_height minimum_confirmations parent;
          max_available = length eligible;
          fallback = Ret (max_available, take max_outputs (rev eligible))
      in if length eligible > max_outputs
         then (if max_outputs = 0 then Panic ''window size must be non-zero''
               else
                 (case first_window amount select_all (windows max_outputs eligible) of
                    Some outputs \<Rightarrow> Ret (max_available, outputs)
                  | None \<Rightarrow>
                      (case select_from amount False eligible of
                         Some outputs \<Rightarrow> Ret (max_available, outputs)
                       | None \<Rightarrow> fallback)))
         else (case select_from amount select_all eligible of
                 Some outputs \<Rightarrow> Ret (max_available, outputs)
               | None \<Rightarrow> fallback))"

section \<open>Coins and fee\<close>

text \<open>The loop \<open>while total < amount_with_fee\<close>.\<close>

fun reselect ::
  "nat \<Rightarrow> ('z WalletLib_scheme) \<Rightarrow> LMDBBackend \<Rightarrow> u64 \<Rightarrow> u64 \<Rightarrow> u64 \<Rightarrow> nat \<Rightarrow> nat \<Rightarrow> bool \<Rightarrow> Identifier \<Rightarrow>
   OutputData list \<Rightarrow> u64 \<Rightarrow> u64 \<Rightarrow> u64 \<Rightarrow> (WalletError, OutputData list \<times> u64 \<times> u64 \<times> u64) result proc" where
  "reselect 0 L w amount current_height minimum_confirmations max_outputs num_outputs use_all parent
     coins tot fee amount_with_fee = NoFuel"
| "reselect (Suc n) L w amount current_height minimum_confirmations max_outputs num_outputs use_all parent
     coins tot fee amount_with_fee =
     (if tot < amount_with_fee
      then (if length coins = max_outputs then Ret (Err (NotEnoughFunds tot amount_with_fee))
            else
              pbind (select_coins w amount_with_fee current_height minimum_confirmations max_outputs use_all parent)
                (\<lambda>(_, coins).
              let fee = tx_fee L (length coins) num_outputs 1
              in reselect n L w amount current_height minimum_confirmations max_outputs num_outputs use_all parent
                   coins (sum_outputs coins) fee (amount + fee)))
      else Ret (Ok (coins, tot, amount, fee)))"

definition select_coins_and_fee ::
  "nat \<Rightarrow> ('z WalletLib_scheme) \<Rightarrow> LMDBBackend \<Rightarrow> u64 \<Rightarrow> u64 \<Rightarrow> u64 \<Rightarrow> nat \<Rightarrow> nat \<Rightarrow> bool \<Rightarrow> Identifier \<Rightarrow>
   (WalletError, OutputData list \<times> u64 \<times> u64 \<times> u64) result proc" where
  "select_coins_and_fee fuel L w amount current_height minimum_confirmations max_outputs change_outputs use_all parent =
     pbind (select_coins w amount current_height minimum_confirmations max_outputs use_all parent)
       (\<lambda>(max_outputs, coins).
     let fee = tx_fee L (length coins) 1 1;
         total = sum_outputs coins;
         amount_with_fee = amount + fee
     in if total = 0 then Ret (Err (NotEnoughFunds 0 amount_with_fee))
        else if total < amount_with_fee \<and> length coins = max_outputs
        then Ret (Err (NotEnoughFunds total amount_with_fee))
        else
          let num_outputs = change_outputs + 1
          in if total \<noteq> amount_with_fee
             then
               let fee = tx_fee L (length coins) num_outputs 1
               in reselect fuel L w amount current_height minimum_confirmations max_outputs num_outputs use_all parent
                    coins total fee (amount + fee)
             else Ret (Ok (coins, total, amount, fee)))"

section \<open>Inputs and change\<close>

text \<open>The amounts of the change outputs: all equal but the last.\<close>

definition change_amount :: "nat \<Rightarrow> u64 \<Rightarrow> u64 \<Rightarrow> nat \<Rightarrow> u64" where
  "change_amount num_change_outputs part_change remainder_change x =
     (if x = num_change_outputs - 1 then part_change + remainder_change else part_change)"

text \<open>The loop over the change outputs; each takes the next child key.\<close>

fun build_change ::
  "('z WalletLib_scheme) \<Rightarrow> SecretKey option \<Rightarrow> u64 list \<Rightarrow> LMDBBackend \<Rightarrow>
   ((u64 \<times> Identifier \<times> u64 option) list \<times> LMDBBackend) proc" where
  "build_change L keychain_mask [] w = Ret ([], w)"
| "build_change L keychain_mask (amt # amts) w =
     pbind (next_child L keychain_mask w) (\<lambda>(r, w).
     pbind (unwrap_res ''next_child'' r) (\<lambda>change_key.
     pbind (build_change L keychain_mask amts w) (\<lambda>(rest, w).
     Ret ((amt, change_key, None) # rest, w))))"

definition coin_elem :: "OutputData \<Rightarrow> Append" where
  "coin_elem coin =
     (if od_is_coinbase coin then BuildCoinbaseInput (od_value coin) (od_key_id coin)
      else BuildInput (od_value coin) (od_key_id coin))"

definition inputs_and_change ::
  "('z WalletLib_scheme) \<Rightarrow> OutputData list \<Rightarrow> SecretKey option \<Rightarrow> u64 \<Rightarrow> u64 \<Rightarrow> nat \<Rightarrow> bool \<Rightarrow> LMDBBackend \<Rightarrow>
   ((WalletError, Append list \<times> (u64 \<times> Identifier \<times> u64 option) list) result \<times> LMDBBackend) proc" where
  "inputs_and_change L coins keychain_mask amount fee num_change_outputs include_inputs_in_sum w =
     (let total = sum_outputs coins;
          change = total - amount - fee;
          parts = (if include_inputs_in_sum then map coin_elem coins else [])
      in if change = 0 then Ret (Ok (parts, []), w)
         else if (of_nat num_change_outputs :: u64) = 0 then Panic ''attempt to divide by zero''
         else
           let part_change = change div of_nat num_change_outputs
           in if part_change = 0 then Panic ''attempt to calculate the remainder with a divisor of zero''
              else
                let remainder_change = change mod part_change
                in pbind (build_change L keychain_mask
                            (map (change_amount num_change_outputs part_change remainder_change)
                               [0..<num_change_outputs]) w) (\<lambda>(changes, w).
                   Ret (Ok (parts @ map (\<lambda>(amt, key, _). BuildOutput amt key) changes, changes), w)))"

definition select_send_tx ::
  "nat \<Rightarrow> ('z WalletLib_scheme) \<Rightarrow> SecretKey option \<Rightarrow> u64 \<Rightarrow> u64 \<Rightarrow> u64 \<Rightarrow> nat \<Rightarrow> nat \<Rightarrow> bool \<Rightarrow> Identifier \<Rightarrow> bool \<Rightarrow>
   LMDBBackend \<Rightarrow>
   ((WalletError, Append list \<times> OutputData list \<times> (u64 \<times> Identifier \<times> u64 option) list \<times> u64) result
    \<times> LMDBBackend) proc" where
  "select_send_tx fuel L keychain_mask amount current_height minimum_confirmations max_outputs change_outputs use_all
     parent include_inputs_in_sum w =
     pbind (select_coins_and_fee fuel L w amount current_height minimum_confirmations max_outputs change_outputs
              use_all parent) (\<lambda>r.
     try_r r w (\<lambda>(coins, _, amount, fee).
     try_w (inputs_and_change L coins keychain_mask amount fee change_outputs include_inputs_in_sum w)
       (\<lambda>(parts, changes) w.
     Ret (Ok (parts, coins, changes, fee), w))))"

section \<open>Sending\<close>

definition add_transaction_elements ::
  "('z WalletLib_scheme) \<Rightarrow> Keychain \<Rightarrow> Append list \<Rightarrow> Slate \<Rightarrow> (WalletError, Slate \<times> BlindingFactor) result" where
  "add_transaction_elements L k elems s =
     rbind (update_kernel L s) (\<lambda>s.
     if elems = [] then Ok (s, bf_zero L)
     else
       rbind (tx_or_err s) (\<lambda>tx.
       rbind (ok_or LibTXError (partial_transaction L k tx elems)) (\<lambda>(tx, blind).
       Ok (s\<lparr>slate_tx := Some tx\<rparr>, blind))))"

text \<open>The cached commitments of the change outputs; one that cannot be computed ends the function.\<close>

fun cache_commits ::
  "('z WalletLib_scheme) \<Rightarrow> LMDBBackend \<Rightarrow> SecretKey option \<Rightarrow> (Identifier \<times> u64) list \<Rightarrow>
   (Identifier \<Rightarrow> (string option \<times> u64) option) \<Rightarrow>
   (WalletError, Identifier \<Rightarrow> (string option \<times> u64) option) result" where
  "cache_commits L w keychain_mask [] m = Ok m"
| "cache_commits L w keychain_mask ((ident, amount) # rest) m =
     rbind (calc_commit_for_cache L w keychain_mask amount ident) (\<lambda>c.
     cache_commits L w keychain_mask rest (m(ident \<mapsto> (c, amount))))"

definition build_send_tx ::
  "nat \<Rightarrow> ('z WalletLib_scheme) \<Rightarrow> Keychain \<Rightarrow> SecretKey option \<Rightarrow> Slate \<Rightarrow> u64 \<Rightarrow> u64 \<Rightarrow> nat \<Rightarrow> nat \<Rightarrow> bool \<Rightarrow>
   u64 option \<Rightarrow> Identifier \<Rightarrow> LMDBBackend \<Rightarrow> ((WalletError, Context \<times> Slate) result \<times> LMDBBackend) proc" where
  "build_send_tx fuel L kc keychain_mask slate current_height minimum_confirmations max_outputs change_outputs use_all
     fixed_fee parent w =
     try_w (select_send_tx fuel L keychain_mask (slate_amount slate) current_height minimum_confirmations max_outputs
              change_outputs use_all parent False w) (\<lambda>(elems, inputs, changes, fee) w.
     if (case fixed_fee of Some f \<Rightarrow> fee \<noteq> f | None \<Rightarrow> False)
     then Ret (Err (FeeError ''The initially selected fee is not sufficient''), w)
     else
       pbind (unwrap ''try_into'' (fee_from_u64 L fee)) (\<lambda>ff.
       let slate = slate\<lparr>fee_fields := ff\<rparr>
       in try_r (add_transaction_elements L kc elems slate) w (\<lambda>(slate, _).
       pbind (context_new parent) (\<lambda>ctx.
       let ctx = ctx\<lparr>ctx_fee := Some (fee_fields slate), ctx_amount := slate_amount slate\<rparr>;
           ctx = fold (\<lambda>inp. add_input (od_key_id inp) (od_mmr_index inp) (od_value inp)) inputs ctx;
           ctx = fold (\<lambda>(amt, ident, mmr_index). add_output ident mmr_index amt) changes ctx
       in try_r (cache_commits L w keychain_mask (map (\<lambda>(amt, ident, _). (ident, amt)) changes) Map.empty) w (\<lambda>_.
       Ret (Ok (ctx, slate), w))))))"

section \<open>Locking\<close>

text \<open>The loop over the inputs of the context: each coin is fetched, tied to the log entry and
  locked; the values add up to the amount debited.\<close>

fun lock_coins ::
  "('z WalletLib_scheme) \<Rightarrow> u32 \<Rightarrow> (Identifier \<times> u64 option \<times> u64) list \<Rightarrow> u64 \<Rightarrow> db \<Rightarrow> (u64 \<times> db) proc" where
  "lock_coins L log_id [] debited d = Ret (debited, d)"
| "lock_coins L log_id ((ident, mmr_index, _) # ids) debited d =
     pbind (unwrap_res ''batch.get'' (get_output L d ident mmr_index)) (\<lambda>coin.
     let coin = coin\<lparr>od_tx_log_entry := Some log_id\<rparr>
     in lock_coins L log_id ids (debited + od_value coin) (lock_output L coin d))"

text \<open>The loop over the outputs of the context: each change output is written as unconfirmed.\<close>

fun save_changes ::
  "('z WalletLib_scheme) \<Rightarrow> u32 \<Rightarrow> Identifier \<Rightarrow> u64 \<Rightarrow> (Identifier \<Rightarrow> (string option \<times> u64) option) \<Rightarrow>
   (Identifier \<times> u64 option \<times> u64) list \<Rightarrow> TxLogEntry \<Rightarrow> db \<Rightarrow> (TxLogEntry \<times> db) proc" where
  "save_changes L log_id parent height commits [] t d = Ret (t, d)"
| "save_changes L log_id parent height commits ((ident, _, _) # ids) t d =
     pbind (unwrap ''output_commits.get'' (commits ident)) (\<lambda>(commit, amt).
     save_changes L log_id parent height commits ids
       (t\<lparr>le_num_outputs := le_num_outputs t + 1, le_amount_credited := le_amount_credited t + amt\<rparr>)
       (batch_save L \<lparr>od_root_key_id = parent, od_key_id = ident, od_n_child = last_path_index L (to_path L ident),
          od_commit = commit, od_mmr_index = None, od_value = amt, od_status = Unconfirmed, od_height = height,
          od_lock_height = 0, od_is_coinbase = False, od_tx_log_entry = Some log_id\<rparr> d))"

text \<open>The payment proof that goes into the log entry of a transaction with one.\<close>

definition sender_proof ::
  "('z WalletLib_scheme) \<Rightarrow> Keychain \<Rightarrow> Identifier \<Rightarrow> Context \<Rightarrow> PaymentInfo option \<Rightarrow>
   (WalletError, StoredProofInfo option) result proc" where
  "sender_proof L kc parent context proof =
     (case proof of
        None \<Rightarrow> Ret (Ok None)
      | Some p \<Rightarrow>
          (case payment_proof_derivation_index context of
             None \<Rightarrow> Ret (Err (PaymentProofError ''Payment proof derivation index required''))
           | Some sender_address_path \<Rightarrow>
               try_bind (address_from_derivation_path L kc parent sender_address_path) (\<lambda>sender_key.
               Ret (rbind (ok_or OnionV3AddressError (onion_ed25519 L sender_key)) (\<lambda>addr.
               Ok (Some \<lparr>spi_receiver_address = receiver_address p, spi_receiver_signature = receiver_signature p,
                         spi_sender_address_path = sender_address_path, spi_sender_address = addr,
                         spi_sender_signature = None\<rparr>))))))"

definition lock_tx_context ::
  "('z WalletLib_scheme) \<Rightarrow> u64 \<Rightarrow> SecretKey option \<Rightarrow> Slate \<Rightarrow> u64 \<Rightarrow> Context \<Rightarrow> Commitment option \<Rightarrow> LMDBBackend \<Rightarrow>
   ((WalletError, unit) result \<times> LMDBBackend) proc" where
  "lock_tx_context L now keychain_mask slate current_height context excess_override w =
     try_r (cache_commits L w keychain_mask (map (\<lambda>(ident, _, amt). (ident, amt)) (output_ids context)) Map.empty) w
       (\<lambda>output_commits.
     try_r (keychain L w keychain_mask) w (\<lambda>kc.
     let parent = parent_key_id context
     in try_r (next_tx_log_id L parent (lm_db w)) w (\<lambda>(log_id, d).
     let t = (tx_log_entry_new now parent TxSent log_id)
               \<lparr>le_tx_slate_id := Some (slate_id slate),
                le_stored_tx := Some (uuid_to_string L (slate_id slate) @ ''.grintx''),
                le_fee := ctx_fee context,
                le_ttl_cutoff_height := (if ttl_cutoff_height slate = 0 then None else Some (ttl_cutoff_height slate)),
                le_kernel_excess :=
                  (case excess_override of
                     Some e \<Rightarrow> Some e
                   | None \<Rightarrow> (case calc_excess L slate of Inr e \<Rightarrow> Some e | Inl _ \<Rightarrow> None)),
                le_kernel_lookup_min_height := Some current_height,
                le_num_inputs := length (input_ids context)\<rparr>
     in pbind (lock_coins L log_id (input_ids context) 0 d) (\<lambda>(amount_debited, d).
     let t = t\<lparr>le_amount_debited := amount_debited\<rparr>
     in pbind (sender_proof L kc parent context (payment_proof slate)) (\<lambda>r.
     try_r r w (\<lambda>proof.
     let t = t\<lparr>le_payment_proof := proof\<rparr>
     in pbind (save_changes L log_id parent current_height output_commits (output_ids context) t d) (\<lambda>(t, d).
     let w = commit_batch (save_tx_log_entry L t parent d) w
     in try_r (tx_or_err slate) w (\<lambda>tx.
     Ret (Ok (), store_tx L (uuid_to_string L (slate_id slate)) tx w)))))))))"

section \<open>Receiving\<close>

definition build_recipient_output ::
  "('z WalletLib_scheme) \<Rightarrow> u64 \<Rightarrow> SecretKey option \<Rightarrow> Slate \<Rightarrow> u64 \<Rightarrow> Identifier \<Rightarrow> LMDBBackend \<Rightarrow>
   ((WalletError, Identifier \<times> Context \<times> TxLogEntry \<times> Slate) result \<times> LMDBBackend) proc" where
  "build_recipient_output L now keychain_mask slate current_height parent w =
     pbind (next_child L keychain_mask w) (\<lambda>(r, w).
     pbind (unwrap_res ''next_available_key'' r) (\<lambda>key_id.
     try_r (keychain L w keychain_mask) w (\<lambda>kc.
     let amount = slate_amount slate
     in try_r (add_transaction_elements L kc [BuildOutput amount key_id] slate) w (\<lambda>(slate, _).
     pbind (context_new parent) (\<lambda>context.
     let context = (add_output key_id None amount context)
                     \<lparr>ctx_amount := amount, ctx_fee := fee_as_opt L (fee_fields slate)\<rparr>
     in try_r (calc_commit_for_cache L w keychain_mask amount key_id) w (\<lambda>commit.
     try_r (next_tx_log_id L parent (lm_db w)) w (\<lambda>(log_id, d).
     let t = (tx_log_entry_new now parent TxReceived log_id)
               \<lparr>le_tx_slate_id := Some (slate_id slate),
                le_amount_credited := amount,
                le_num_outputs := 1,
                le_ttl_cutoff_height := (if ttl_cutoff_height slate = 0 then None else Some (ttl_cutoff_height slate)),
                le_kernel_excess := (case calc_excess L slate of Inr e \<Rightarrow> Some e | Inl _ \<Rightarrow> None),
                le_kernel_lookup_min_height := Some current_height\<rparr>;
         d = batch_save L \<lparr>od_root_key_id = parent, od_key_id = key_id,
               od_n_child = last_path_index L (to_path L key_id), od_commit = commit, od_mmr_index = None,
               od_value = amount, od_status = Unconfirmed, od_height = current_height, od_lock_height = 0,
               od_is_coinbase = False, od_tx_log_entry = Some log_id\<rparr> d
     in Ret (Ok (key_id, context, t, slate), commit_batch (save_tx_log_entry L t parent d) w))))))))"

section \<open>Rebuilding\<close>

definition find_output :: "LMDBBackend \<Rightarrow> Identifier \<Rightarrow> OutputData option" where
  "find_output w ident = find (\<lambda>out. od_key_id out = ident) (od_iter (lm_db w))"

definition repopulate_tx ::
  "('z WalletLib_scheme) \<Rightarrow> SecretKey option \<Rightarrow> Slate \<Rightarrow> Context \<Rightarrow> bool \<Rightarrow> LMDBBackend \<Rightarrow> (WalletError, Slate) result" where
  "repopulate_tx L keychain_mask slate context update_fee w =
     (let slate = slate\<lparr>slate_amount := ctx_amount context\<rparr>
      in rbind (if update_fee
                then rbind (ok_or (FeeError ''Missing fee fields'') (ctx_fee context)) (\<lambda>f. Ok (slate\<lparr>fee_fields := f\<rparr>))
                else Ok slate) (\<lambda>slate.
      rbind (keychain L w keychain_mask) (\<lambda>kc.
      rbind (add_participant_info L slate context None) (\<lambda>slate.
      let parts =
            List.map_filter (\<lambda>(ident, _, value). map_option (\<lambda>i.
                if od_is_coinbase i then BuildCoinbaseInput value (od_key_id i) else BuildInput value (od_key_id i))
              (find_output w ident)) (input_ids context) @
            List.map_filter (\<lambda>(ident, _, value). map_option (\<lambda>i. BuildOutput value (od_key_id i))
              (find_output w ident)) (output_ids context)
      in rbind (add_transaction_elements L kc parts slate) (\<lambda>(slate, _).
         rbind (tx_or_err slate) (\<lambda>tx.
         Ok (slate\<lparr>slate_tx := Some (tx\<lparr>tx_offset := slate_offset slate\<rparr>)\<rparr>)))))))"

end
