(* ===== verification/Wallet_Update.thy ===== *)
theory Wallet_Update
  imports Wallet_Select "HOL-Library.AList"
begin

text \<open>
  \<open>grin-wallet/libwallet/src/internal/updater.rs\<close> and \<open>keys.rs\<close>: reading outputs and log entries
  back, applying what the node says of the outputs, cancelling, the balance, coinbase outputs and
  accounts. A \<open>HashMap\<close> that is iterated over is an association list whose order is the order of
  the iteration; \<open>hash_order\<close> stands for what the standard library makes of the insertions. A
  \<open>HashSet\<close> that is only asked for membership is a list. The clock is the argument \<open>now\<close>.
\<close>

section \<open>Keys and accounts\<close>

definition next_available_key ::
  "('z WalletLib_scheme) \<Rightarrow> SecretKey option \<Rightarrow> LMDBBackend \<Rightarrow> ((WalletError, Identifier) result \<times> LMDBBackend) proc" where
  "next_available_key L keychain_mask w = try_w (next_child L keychain_mask w) (\<lambda>child w. Ret (Ok child, w))"

definition retrieve_existing_key ::
  "('z WalletLib_scheme) \<Rightarrow> LMDBBackend \<Rightarrow> Identifier \<Rightarrow> u64 option \<Rightarrow> (WalletError, Identifier \<times> u32) result" where
  "retrieve_existing_key L w key_id mmr_index =
     rbind (get_output L (lm_db w) key_id mmr_index) (\<lambda>existing. Ok (od_key_id existing, od_n_child existing))"

definition accounts :: "LMDBBackend \<Rightarrow> (WalletError, AcctPathMapping list) result" where
  "accounts w = Ok (acct_path_iter (lm_db w))"

text \<open>\<open>path[0]\<close> of a path; the array of a path has four entries.\<close>

definition account_number :: "('z WalletLib_scheme) \<Rightarrow> AcctPathMapping \<Rightarrow> u32" where
  "account_number L a = path_path (to_path L (acct_path a)) ! 0"

text \<open>\<open>Iterator::max_by\<close>: of several largest elements the last.\<close>

fun max_by :: "('a \<Rightarrow> 'b :: linorder) \<Rightarrow> 'a list \<Rightarrow> 'a option" where
  "max_by f [] = None"
| "max_by f (x # xs) = (case max_by f xs of None \<Rightarrow> Some x | Some y \<Rightarrow> Some (if f y < f x then x else y))"

definition new_acct_path ::
  "('z WalletLib_scheme) \<Rightarrow> SecretKey option \<Rightarrow> string \<Rightarrow> LMDBBackend \<Rightarrow> (WalletError, Identifier) result \<times> LMDBBackend" where
  "new_acct_path L keychain_mask label w =
     (if \<exists>l \<in> set (acct_path_iter (lm_db w)). acct_label l = label then (Err (AccountLabelAlreadyExists label), w)
      else
        let return_id =
              (case max_by (account_number L) (acct_path_iter (lm_db w)) of
                 Some e \<Rightarrow>
                   let p = to_path L (acct_path e)
                   in from_path L (p\<lparr>path_path := (path_path p)[0 := (path_path p) ! 0 + 1]\<rparr>)
               | None \<Rightarrow> derive_key_id L 2 0 0 0 0)
        in case keychain L w keychain_mask of
             Inl e \<Rightarrow> (Err e, w)
           | Inr _ \<Rightarrow>
               (Ok return_id, commit_batch (save_acct_path L \<lparr>acct_label = label, acct_path = return_id\<rparr> (lm_db w)) w))"

definition set_acct_path ::
  "('z WalletLib_scheme) \<Rightarrow> SecretKey option \<Rightarrow> string \<Rightarrow> Identifier \<Rightarrow> LMDBBackend \<Rightarrow> (WalletError, unit) result \<times> LMDBBackend" where
  "set_acct_path L keychain_mask label p w =
     (case keychain L w keychain_mask of
        Inl e \<Rightarrow> (Err e, w)
      | Inr _ \<Rightarrow> (Ok (), commit_batch (save_acct_path L \<lparr>acct_label = label, acct_path = p\<rparr> (lm_db w)) w))"

section \<open>Reading\<close>

record OutputCommitMapping =
  ocm_output :: OutputData
  ocm_commit :: Commitment

text \<open>The commitment of an output: the cached one, or computed again.\<close>

definition output_commitment :: "('z WalletLib_scheme) \<Rightarrow> Keychain \<Rightarrow> OutputData \<Rightarrow> Commitment proc" where
  "output_commitment L kc out =
     (case od_commit out of
        Some c \<Rightarrow> pbind (unwrap ''from_hex'' (hex_decode L c)) (\<lambda>b. Ret (com_from_vec L b))
      | None \<Rightarrow> unwrap ''commit'' (kc_commit L kc (od_value out) (od_key_id out)))"

definition retrieve_outputs ::
  "('z WalletLib_scheme) \<Rightarrow> SecretKey option \<Rightarrow> bool \<Rightarrow> u32 option \<Rightarrow> Identifier option \<Rightarrow> LMDBBackend \<Rightarrow>
   (WalletError, OutputCommitMapping list) result proc" where
  "retrieve_outputs L keychain_mask show_spent tx_id parent w =
     (let outputs = filter (\<lambda>out. show_spent \<or> od_status out \<noteq> Spent) (od_iter (lm_db w));
          outputs = (case tx_id of Some i \<Rightarrow> filter (\<lambda>out. od_tx_log_entry out = Some i) outputs | None \<Rightarrow> outputs);
          outputs = (case parent of Some k \<Rightarrow> filter (\<lambda>out. od_root_key_id out = k) outputs | None \<Rightarrow> outputs);
          outputs = sort_key od_n_child outputs
      in case keychain L w keychain_mask of
           Inl e \<Rightarrow> Ret (Err e)
         | Inr kc \<Rightarrow>
             pbind (map_proc (\<lambda>out. pbind (output_commitment L kc out) (\<lambda>c. Ret \<lparr>ocm_output = out, ocm_commit = c\<rparr>)) outputs)
               (\<lambda>res. Ret (Ok res)))"

definition retrieve_txs ::
  "LMDBBackend \<Rightarrow> u32 option \<Rightarrow> Uuid option \<Rightarrow> Identifier option \<Rightarrow> bool \<Rightarrow> (WalletError, TxLogEntry list) result" where
  "retrieve_txs w tx_id tx_slate_id parent outstanding_only =
     Ok (sort_key le_creation_ts (filter (\<lambda>t.
        (case parent of Some k \<Rightarrow> le_parent_key_id t = k | None \<Rightarrow> True) \<and>
        (case tx_id of Some i \<Rightarrow> le_id t = i | None \<Rightarrow> True) \<and>
        (case tx_slate_id of Some u \<Rightarrow> le_tx_slate_id t = Some u | None \<Rightarrow> True) \<and>
        (outstanding_only \<longrightarrow> \<not> le_confirmed t \<and> le_tx_type t \<in> {TxReceived, TxSent, TxReverted}))
      (tx_log_iter (lm_db w))))"

section \<open>Refreshing\<close>

type_synonym wallet_output = "Identifier \<times> u64 option \<times> u32 option \<times> bool"

definition map_wallet_outputs ::
  "('z WalletLib_scheme) \<Rightarrow> SecretKey option \<Rightarrow> Identifier \<Rightarrow> bool \<Rightarrow> LMDBBackend \<Rightarrow>
   (WalletError, (Commitment \<times> wallet_output) list) result proc" where
  "map_wallet_outputs L keychain_mask parent update_all w =
     (case keychain L w keychain_mask of
        Inl e \<Rightarrow> Ret (Err e)
      | Inr kc \<Rightarrow>
          let unspents = filter (\<lambda>x. od_root_key_id x = parent \<and> od_status x \<noteq> Spent) (od_iter (lm_db w))
          in case retrieve_txs w None None (Some parent) True of
               Inl e \<Rightarrow> Ret (Err e)
             | Inr tx_entries \<Rightarrow>
                 let unspents =
                       (if update_all then unspents
                        else filter (\<lambda>x. case od_tx_log_entry x of
                                           Some t \<Rightarrow> \<exists>te \<in> set tx_entries. le_id te = t
                                         | None \<Rightarrow> True) unspents)
                 in pbind (map_proc (\<lambda>out. pbind (output_commitment L kc out) (\<lambda>c.
                             Ret (c, od_key_id out, od_mmr_index out, od_tx_log_entry out, od_status out = Unspent)))
                           unspents) (\<lambda>entries.
                    Ret (Ok (fold (\<lambda>(c, v). AList.update c v) entries []))))"

definition coinbase_entry ::
  "('z WalletLib_scheme) \<Rightarrow> u64 \<Rightarrow> u64 \<Rightarrow> Identifier \<Rightarrow> Commitment \<Rightarrow> OutputData \<Rightarrow> u32 \<Rightarrow> (WalletError, TxLogEntry) result" where
  "coinbase_entry L now height parent commit out log_id =
     rbind (ok_or SecpError (secp_commit_value L (od_value out))) (\<lambda>over_commit.
     rbind (ok_or SecpError (commit_sum L [commit] [over_commit])) (\<lambda>excess.
     Ok (update_confirmation_ts now ((tx_log_entry_new now parent ConfirmedCoinbase log_id)
       \<lparr>le_confirmed := True, le_amount_credited := od_value out, le_amount_debited := 0, le_num_outputs := 1,
        le_kernel_excess := Some excess, le_kernel_lookup_min_height := Some height\<rparr>))))"

text \<open>An unconfirmed output that the node has confirms the transaction it belongs to.\<close>

definition confirm_entry ::
  "('z WalletLib_scheme) \<Rightarrow> u64 \<Rightarrow> Identifier \<Rightarrow> OutputData \<Rightarrow> db \<Rightarrow> db" where
  "confirm_entry L now parent out d =
     (case find (\<lambda>t. Some (le_id t) = od_tx_log_entry out \<and> le_parent_key_id t = parent) (tx_log_iter d) of
        None \<Rightarrow> d
      | Some t \<Rightarrow>
          let t = (if le_tx_type t = TxReverted then t\<lparr>le_tx_type := TxReceived, le_reverted_after := None\<rparr> else t);
              t = (update_confirmation_ts now t)\<lparr>le_confirmed := True\<rparr>
          in save_tx_log_entry L t parent d)"

text \<open>The body of the loop over the wallet's outputs.\<close>

definition apply_output ::
  "('z WalletLib_scheme) \<Rightarrow> u64 \<Rightarrow> (Commitment \<Rightarrow> (string \<times> u64 \<times> u64) option) \<Rightarrow> u32 list \<Rightarrow> u64 \<Rightarrow> Identifier \<Rightarrow>
   Commitment \<times> wallet_output \<Rightarrow> db \<Rightarrow> (WalletError, db) result" where
  "apply_output L now api_outputs reverted_kernels height parent entry d =
     (case entry of (commit, ident, mmr_index, _, _) \<Rightarrow>
      case get_output L d ident mmr_index of
        Inl _ \<Rightarrow> Ok d
      | Inr out \<Rightarrow>
          (case api_outputs commit of
             Some o_api \<Rightarrow>
               rbind (if od_is_coinbase out \<and> od_status out = Unconfirmed
                      then rbind (next_tx_log_id L parent d) (\<lambda>(log_id, d).
                           rbind (coinbase_entry L now height parent commit out log_id) (\<lambda>t.
                           Ok (out\<lparr>od_tx_log_entry := Some log_id\<rparr>, save_tx_log_entry L t parent d)))
                      else Ok (out, d)) (\<lambda>(out, d).
               let d = (if \<not> od_is_coinbase out \<and> od_status out \<in> {Unconfirmed, Reverted}
                        then confirm_entry L now parent out d else d)
               in Ok (batch_save L (mark_unspent (out\<lparr>od_height := fst (snd o_api)\<rparr>)) d))
           | None \<Rightarrow>
               Ok (batch_save L
                     (if \<not> od_is_coinbase out \<and>
                         (case od_tx_log_entry out of Some i \<Rightarrow> i \<in> set reverted_kernels | None \<Rightarrow> False)
                      then mark_reverted out else mark_spent out) d)))"

fun apply_outputs ::
  "('z WalletLib_scheme) \<Rightarrow> u64 \<Rightarrow> (Commitment \<Rightarrow> (string \<times> u64 \<times> u64) option) \<Rightarrow> u32 list \<Rightarrow> u64 \<Rightarrow> Identifier \<Rightarrow>
   (Commitment \<times> wallet_output) list \<Rightarrow> db \<Rightarrow> (WalletError, db) result" where
  "apply_outputs L now api_outputs reverted_kernels height parent [] d = Ok d"
| "apply_outputs L now api_outputs reverted_kernels height parent (e # es) d =
     rbind (apply_output L now api_outputs reverted_kernels height parent e d)
       (apply_outputs L now api_outputs reverted_kernels height parent es)"

definition revert_entry :: "u64 \<Rightarrow> TxLogEntry \<Rightarrow> TxLogEntry" where
  "revert_entry now t =
     t\<lparr>le_tx_type := TxReverted,
       le_reverted_after := (case le_confirmation_ts t of
                               Some c \<Rightarrow> if c \<le> now then Some (now - c) else None | None \<Rightarrow> None),
       le_confirmed := False\<rparr>"

definition apply_api_outputs ::
  "('z WalletLib_scheme) \<Rightarrow> u64 \<Rightarrow> SecretKey option \<Rightarrow> (Commitment \<times> wallet_output) list \<Rightarrow>
   (Commitment \<Rightarrow> (string \<times> u64 \<times> u64) option) \<Rightarrow> u32 list \<Rightarrow> u64 \<Rightarrow> Identifier \<Rightarrow> LMDBBackend \<Rightarrow>
   (WalletError, unit) result \<times> LMDBBackend" where
  "apply_api_outputs L now keychain_mask wallet_outputs api_outputs reverted_kernels height parent w =
     (case last_confirmed_height L w of
        Inl e \<Rightarrow> (Err e, w)
      | Inr last_height \<Rightarrow>
          if height < last_height then (Ok (), w)
          else
            (case rbind (keychain L w keychain_mask) (\<lambda>_.
                  apply_outputs L now api_outputs reverted_kernels height parent wallet_outputs (lm_db w)) of
               Inl e \<Rightarrow> (Err e, w)
             | Inr d \<Rightarrow>
                 let d = fold (\<lambda>t d. if le_id t \<in> set reverted_kernels \<and> le_parent_key_id t = parent
                                     then save_tx_log_entry L (revert_entry now t) parent d else d) (tx_log_iter d) d
                 in (Ok (), commit_batch (save_last_confirmed_height L parent height d) w)))"

fun check_kernels ::
  "NodeClient \<Rightarrow> (u32 \<times> Commitment \<times> u64 option) list \<Rightarrow> u32 list \<Rightarrow> (WalletError, u32 list) result" where
  "check_kernels nc [] reverted = Ok reverted"
| "check_kernels nc ((i, excess, min_height) # ks) reverted =
     rbind (get_kernel nc excess min_height None) (\<lambda>k.
     check_kernels nc ks (if k = None then i # reverted else reverted))"

definition find_reverted_kernels ::
  "NodeClient \<Rightarrow> (Commitment \<times> wallet_output) list \<Rightarrow> (Commitment \<Rightarrow> (string \<times> u64 \<times> u64) option) \<Rightarrow> Identifier \<Rightarrow>
   LMDBBackend \<Rightarrow> (WalletError, u32 list) result" where
  "find_reverted_kernels nc wallet_outputs api_outputs parent w =
     (let ids = List.map_filter (\<lambda>(commit, _, _, tx_id, was_unspent).
            if was_unspent \<and> api_outputs commit = None then tx_id else None) wallet_outputs;
          kernels = List.map_filter (\<lambda>t. map_option (\<lambda>e. (le_id t, e, le_kernel_lookup_min_height t)) (le_kernel_excess t))
            (filter (\<lambda>t. le_id t \<in> set ids \<and> le_parent_key_id t = parent \<and> le_tx_type t = TxReceived)
              (tx_log_iter (lm_db w)))
      in check_kernels nc kernels [])"

definition clean_old_unconfirmed ::
  "('z WalletLib_scheme) \<Rightarrow> SecretKey option \<Rightarrow> u64 \<Rightarrow> LMDBBackend \<Rightarrow> (WalletError, unit) result \<times> LMDBBackend" where
  "clean_old_unconfirmed L keychain_mask height w =
     (if height < 50 then (Ok (), w)
      else
        let ids_to_del = map od_key_id (filter (\<lambda>out. od_status out = Unconfirmed \<and> od_height out > 0 \<and>
              od_height out < height - 50 \<and> od_is_coinbase out) (od_iter (lm_db w)))
        in case keychain L w keychain_mask of
             Inl e \<Rightarrow> (Err e, w)
           | Inr _ \<Rightarrow> (Ok (), commit_batch (fold (\<lambda>i. batch_delete L i None) ids_to_del (lm_db w)) w))"

definition refresh_output_state ::
  "('z WalletLib_scheme) \<Rightarrow> u64 \<Rightarrow> NodeClient \<Rightarrow>
   ((Commitment \<times> wallet_output) list \<Rightarrow> (Commitment \<times> wallet_output) list) \<Rightarrow> SecretKey option \<Rightarrow> u64 \<Rightarrow> Identifier \<Rightarrow>
   bool \<Rightarrow> LMDBBackend \<Rightarrow> ((WalletError, unit) result \<times> LMDBBackend) proc" where
  "refresh_output_state L now nc hash_order keychain_mask height parent update_all w =
     pbind (map_wallet_outputs L keychain_mask parent update_all w) (\<lambda>r.
     try_r r w (\<lambda>wallet_outputs.
     let wallet_outputs = hash_order wallet_outputs
     in try_r (get_outputs_from_node nc (map fst wallet_outputs)) w (\<lambda>api_outputs.
     try_r (find_reverted_kernels nc wallet_outputs api_outputs parent w) w (\<lambda>reverted_kernels.
     try_w (Ret (apply_api_outputs L now keychain_mask wallet_outputs api_outputs reverted_kernels height parent w)) (\<lambda>_ w.
     try_w (Ret (clean_old_unconfirmed L keychain_mask height w)) (\<lambda>_ w.
     Ret (Ok (), w)))))))"

definition refresh_outputs ::
  "('z WalletLib_scheme) \<Rightarrow> u64 \<Rightarrow> NodeClient \<Rightarrow>
   ((Commitment \<times> wallet_output) list \<Rightarrow> (Commitment \<times> wallet_output) list) \<Rightarrow> SecretKey option \<Rightarrow> Identifier \<Rightarrow>
   bool \<Rightarrow> LMDBBackend \<Rightarrow> ((WalletError, unit) result \<times> LMDBBackend) proc" where
  "refresh_outputs L now nc hash_order keychain_mask parent update_all w =
     try_r (get_chain_tip nc) w (\<lambda>(height, _).
     refresh_output_state L now nc hash_order keychain_mask height parent update_all w)"

section \<open>Cancelling\<close>

definition cancel_output :: "('z WalletLib_scheme) \<Rightarrow> OutputData \<Rightarrow> db \<Rightarrow> db" where
  "cancel_output L out d =
     (let d = (if od_status out \<in> {Unconfirmed, Reverted} then batch_delete L (od_key_id out) (od_mmr_index out) d else d)
      in if od_status out = Locked then batch_save L (out\<lparr>od_status := Unspent\<rparr>) d else d)"

definition cancel_type :: "TxLogEntryType \<Rightarrow> TxLogEntryType" where
  "cancel_type t =
     (case t of TxSent \<Rightarrow> TxSentCancelled
              | TxReceived \<Rightarrow> TxReceivedCancelled
              | TxReverted \<Rightarrow> TxReceivedCancelled
              | _ \<Rightarrow> t)"

definition cancel_tx_and_outputs ::
  "('z WalletLib_scheme) \<Rightarrow> SecretKey option \<Rightarrow> TxLogEntry \<Rightarrow> OutputData list \<Rightarrow> Identifier \<Rightarrow> LMDBBackend \<Rightarrow>
   (WalletError, unit) result \<times> LMDBBackend" where
  "cancel_tx_and_outputs L keychain_mask tx outputs parent w =
     (case keychain L w keychain_mask of
        Inl e \<Rightarrow> (Err e, w)
      | Inr _ \<Rightarrow>
          let d = fold (cancel_output L) outputs (lm_db w);
              tx = tx\<lparr>le_tx_type := cancel_type (le_tx_type tx)\<rparr>
          in (Ok (), commit_batch (save_tx_log_entry L tx parent d) w))"

section \<open>The balance\<close>

record balances =
  unspent_total :: u64
  immature_total :: u64
  awaiting_finalization_total :: u64
  unconfirmed_total :: u64
  locked_total :: u64
  reverted_total :: u64

definition add_balance :: "u64 \<Rightarrow> u64 \<Rightarrow> balances \<Rightarrow> OutputData \<Rightarrow> balances" where
  "add_balance current_height minimum_confirmations b out =
     (let v = od_value out
      in case od_status out of
           Unspent \<Rightarrow>
             if od_is_coinbase out \<and> od_lock_height out > current_height then b\<lparr>immature_total := immature_total b + v\<rparr>
             else if num_confirmations out current_height < minimum_confirmations
             then b\<lparr>unconfirmed_total := unconfirmed_total b + v\<rparr>
             else b\<lparr>unspent_total := unspent_total b + v\<rparr>
         | Unconfirmed \<Rightarrow>
             if od_is_coinbase out then b
             else if minimum_confirmations = 0 then b\<lparr>unconfirmed_total := unconfirmed_total b + v\<rparr>
             else b\<lparr>awaiting_finalization_total := awaiting_finalization_total b + v\<rparr>
         | Locked \<Rightarrow> b\<lparr>locked_total := locked_total b + v\<rparr>
         | Reverted \<Rightarrow> b\<lparr>reverted_total := reverted_total b + v\<rparr>
         | Spent \<Rightarrow> b)"

definition retrieve_info ::
  "('z WalletLib_scheme) \<Rightarrow> Identifier \<Rightarrow> u64 \<Rightarrow> LMDBBackend \<Rightarrow> (WalletError, WalletInfo) result" where
  "retrieve_info L parent minimum_confirmations w =
     rbind (last_confirmed_height L w) (\<lambda>current_height.
     let outputs = filter (\<lambda>out. od_root_key_id out = parent) (od_iter (lm_db w));
         b = foldl (add_balance current_height minimum_confirmations)
               \<lparr>unspent_total = 0, immature_total = 0, awaiting_finalization_total = 0, unconfirmed_total = 0,
                locked_total = 0, reverted_total = 0\<rparr> outputs
     in Ok \<lparr>wi_last_confirmed_height = current_height, wi_minimum_confirmations = minimum_confirmations,
            wi_total = unspent_total b + unconfirmed_total b + immature_total b,
            wi_amount_awaiting_finalization = awaiting_finalization_total b,
            wi_amount_awaiting_confirmation = unconfirmed_total b, wi_amount_immature = immature_total b,
            wi_amount_currently_spendable = unspent_total b, wi_amount_locked = locked_total b,
            wi_amount_reverted = reverted_total b\<rparr>)"

section \<open>Coinbase outputs\<close>

record BlockFees =
  bf_fees :: u64
  bf_height :: u64
  bf_key_id :: "Identifier option"

record CbData =
  cb_output :: Output
  cb_kernel :: TxKernel
  cb_key_id :: "Identifier option"

definition receive_coinbase ::
  "('z WalletLib_scheme) \<Rightarrow> SecretKey option \<Rightarrow> BlockFees \<Rightarrow> bool \<Rightarrow> LMDBBackend \<Rightarrow>
   ((WalletError, Output \<times> TxKernel \<times> BlockFees) result \<times> LMDBBackend) proc" where
  "receive_coinbase L keychain_mask block_fees test_mode w =
     (let height = bf_height block_fees;
          lock = height + coinbase_maturity L;
          parent = lm_parent_key_id w
      in try_w (case bf_key_id block_fees of
                  Some key_id \<Rightarrow>
                    (case retrieve_existing_key L w key_id None of
                       Inr k \<Rightarrow> Ret (Ok (fst k), w)
                     | Inl _ \<Rightarrow> next_available_key L keychain_mask w)
                | None \<Rightarrow> next_available_key L keychain_mask w) (\<lambda>key_id w.
      let amount = reward L (bf_fees block_fees)
      in try_r (calc_commit_for_cache L w keychain_mask amount key_id) w (\<lambda>commit.
      try_r (keychain L w keychain_mask) w (\<lambda>kc.
      let w = commit_batch (batch_save L \<lparr>od_root_key_id = parent, od_key_id = key_id,
                od_n_child = last_path_index L (to_path L key_id), od_commit = commit, od_mmr_index = None,
                od_value = amount, od_status = Unconfirmed, od_height = height, od_lock_height = lock,
                od_is_coinbase = True, od_tx_log_entry = None\<rparr> (lm_db w)) w
      in try_r (ok_or LibTXError (reward_output L kc key_id (bf_fees block_fees) test_mode)) w (\<lambda>(out, kern).
         Ret (Ok (out, kern, block_fees\<lparr>bf_key_id := Some key_id\<rparr>), w))))))"

definition build_coinbase ::
  "('z WalletLib_scheme) \<Rightarrow> SecretKey option \<Rightarrow> BlockFees \<Rightarrow> bool \<Rightarrow> LMDBBackend \<Rightarrow>
   ((WalletError, CbData) result \<times> LMDBBackend) proc" where
  "build_coinbase L keychain_mask block_fees test_mode w =
     try_w (receive_coinbase L keychain_mask block_fees test_mode w) (\<lambda>(out, kern, block_fees) w.
     Ret (Ok \<lparr>cb_output = out, cb_kernel = kern, cb_key_id = bf_key_id block_fees\<rparr>, w))"

end
