(* ===== verification/Wallet_Tx.thy ===== *)
theory Wallet_Tx
  imports Wallet_Update
begin

text \<open>
  \<open>grin-wallet/libwallet/src/internal/tx.rs\<close>: the steps of a transaction in the wallet. A function on
  \<open>&mut slate\<close> returns the slate with its result; \<open>use_test_rng\<close> is false throughout, and the fresh id of
  a slate is drawn as an effect.
\<close>

section \<open>Slates\<close>

definition new_tx_slate ::
  "('z WalletLib_scheme) \<Rightarrow> NodeClient \<Rightarrow> u64 \<Rightarrow> bool \<Rightarrow> u8 \<Rightarrow> u64 option \<Rightarrow> (WalletError, Slate) result proc" where
  "new_tx_slate L nc amount is_invoice np ttl_blocks =
     (case get_chain_tip nc of
        Inl e \<Rightarrow> Ret (Err e)
      | Inr (current_height, _) \<Rightarrow>
          FreshUuid (\<lambda>uuid.
          let s = blank L uuid np is_invoice;
              s = (case ttl_blocks of Some b \<Rightarrow> s\<lparr>ttl_cutoff_height := current_height + b\<rparr> | None \<Rightarrow> s);
              s = s\<lparr>slate_amount := amount\<rparr>;
              s = fold (\<lambda>v s. if valid_header_version L current_height v
                              then s\<lparr>version_info := (version_info s)\<lparr>block_header_version := v\<rparr>\<rparr> else s) [1, 2, 3] s
          in Ret (Ok (s\<lparr>slate_kernel_features := 0\<rparr>))))"

definition estimate_send_tx ::
  "nat \<Rightarrow> ('z WalletLib_scheme) \<Rightarrow> u64 \<Rightarrow> NodeClient \<Rightarrow>
   ((Commitment \<times> wallet_output) list \<Rightarrow> (Commitment \<times> wallet_output) list) \<Rightarrow> SecretKey option \<Rightarrow> u64 \<Rightarrow> u64 \<Rightarrow> nat \<Rightarrow>
   nat \<Rightarrow> bool \<Rightarrow> Identifier \<Rightarrow> LMDBBackend \<Rightarrow> ((WalletError, u64 \<times> u64) result \<times> LMDBBackend) proc" where
  "estimate_send_tx fuel L now nc hash_order keychain_mask amount minimum_confirmations max_outputs num_change_outputs
     use_all parent w =
     try_r (get_chain_tip nc) w (\<lambda>(current_height, _).
     try_w (refresh_outputs L now nc hash_order keychain_mask parent False w) (\<lambda>_ w.
     pbind (select_coins_and_fee fuel L w amount current_height minimum_confirmations max_outputs num_change_outputs
              use_all parent) (\<lambda>r.
     try_r r w (\<lambda>(_, tot, _, fee). Ret (Ok (tot, fee), w)))))"

definition add_inputs_to_slate ::
  "nat \<Rightarrow> ('z WalletLib_scheme) \<Rightarrow> u64 \<Rightarrow> NodeClient \<Rightarrow>
   ((Commitment \<times> wallet_output) list \<Rightarrow> (Commitment \<times> wallet_output) list) \<Rightarrow> SecretKey option \<Rightarrow> Slate \<Rightarrow> u64 \<Rightarrow>
   u64 \<Rightarrow> nat \<Rightarrow> nat \<Rightarrow> bool \<Rightarrow> Identifier \<Rightarrow> bool \<Rightarrow> LMDBBackend \<Rightarrow>
   ((WalletError, Context \<times> Slate) result \<times> LMDBBackend) proc" where
  "add_inputs_to_slate fuel L now nc hash_order keychain_mask slate current_height minimum_confirmations max_outputs
     num_change_outputs use_all parent is_initiator w =
     try_w (refresh_outputs L now nc hash_order keychain_mask parent False w) (\<lambda>_ w.
     try_r (keychain L w keychain_mask) w (\<lambda>kc.
     try_w (build_send_tx fuel L kc keychain_mask slate current_height minimum_confirmations max_outputs
              num_change_outputs use_all None parent w) (\<lambda>(context, slate) w.
     try_r (keychain L w keychain_mask) w (\<lambda>_.
     try_r (fill_round_1 L slate context) w (\<lambda>slate.
     let context = context\<lparr>initial_sec_key := sec_key context\<rparr>
     in if is_initiator then Ret (Ok (context, slate), w)
        else
          try_r (keychain L w keychain_mask) w (\<lambda>_.
          pbind (fill_round_2 L slate (sec_key context) (sec_nonce context)) (\<lambda>r.
          try_r r w (\<lambda>slate. Ret (Ok (context, slate), w)))))))))"

definition add_output_to_slate ::
  "('z WalletLib_scheme) \<Rightarrow> u64 \<Rightarrow> SecretKey option \<Rightarrow> Slate \<Rightarrow> u64 \<Rightarrow> Identifier \<Rightarrow> bool \<Rightarrow> LMDBBackend \<Rightarrow>
   ((WalletError, Context \<times> Slate) result \<times> LMDBBackend) proc" where
  "add_output_to_slate L now keychain_mask slate current_height parent is_initiator w =
     try_r (keychain L w keychain_mask) w (\<lambda>kc.
     try_w (build_recipient_output L now keychain_mask slate current_height parent w) (\<lambda>(_, context, tx, slate) w.
     try_r (fill_round_1 L slate context) w (\<lambda>slate.
     let context = context\<lparr>initial_sec_key := sec_key context\<rparr>
     in if is_initiator then Ret (Ok (context, slate), w)
        else
          pbind (fill_round_2 L slate (sec_key context) (sec_nonce context)) (\<lambda>r.
          try_r r w (\<lambda>slate.
          try_r (keychain L w keychain_mask) w (\<lambda>_.
          try_r (calc_excess L slate) w (\<lambda>excess.
          Ret (Ok (context, slate),
               commit_batch (save_tx_log_entry L (tx\<lparr>le_kernel_excess := Some excess\<rparr>) parent (lm_db w)) w))))))))"

definition create_late_lock_context ::
  "nat \<Rightarrow> ('z WalletLib_scheme) \<Rightarrow> u64 \<Rightarrow> NodeClient \<Rightarrow>
   ((Commitment \<times> wallet_output) list \<Rightarrow> (Commitment \<times> wallet_output) list) \<Rightarrow> SecretKey option \<Rightarrow> Slate \<Rightarrow> u64 \<Rightarrow>
   InitTxArgs \<Rightarrow> Identifier \<Rightarrow> LMDBBackend \<Rightarrow> ((WalletError, Context \<times> Slate) result \<times> LMDBBackend) proc" where
  "create_late_lock_context fuel L now nc hash_order keychain_mask slate current_height init_tx_args parent w =
     try_w (refresh_outputs L now nc hash_order keychain_mask parent False w) (\<lambda>_ w.
     pbind (select_coins_and_fee fuel L w (ita_amount init_tx_args) current_height (ita_minimum_confirmations init_tx_args)
              (unat (ita_max_outputs init_tx_args)) (unat (ita_num_change_outputs init_tx_args))
              (ita_selection_strategy_is_use_all init_tx_args) parent) (\<lambda>r.
     try_r r w (\<lambda>(_, _, _, fee).
     try_r (ok_or TransactionError (fee_fields_new L 0 fee)) w (\<lambda>ff.
     let slate = slate\<lparr>fee_fields := ff\<rparr>
     in try_r (keychain L w keychain_mask) w (\<lambda>_.
     pbind (context_new parent) (\<lambda>context.
     let context = context\<lparr>ctx_fee := Some (fee_fields slate), ctx_amount := slate_amount slate,
                           late_lock_args := Some init_tx_args\<rparr>
     in try_r (fill_round_1 L slate context) w (\<lambda>slate.
     Ret (Ok (context, slate), w))))))))"

text \<open>A transaction to oneself finishes with the keys of the side that began it.\<close>

definition signing_keys :: "Context \<Rightarrow> SecretKey \<times> SecretKey" where
  "signing_keys context =
     (if initial_sec_key context \<noteq> sec_key context \<and> initial_sec_nonce context \<noteq> sec_nonce context
      then (initial_sec_key context, initial_sec_nonce context)
      else (sec_key context, sec_nonce context))"

definition complete_tx ::
  "('z WalletLib_scheme) \<Rightarrow> SecretKey option \<Rightarrow> Slate \<Rightarrow> Context \<Rightarrow> LMDBBackend \<Rightarrow> (WalletError, Slate) result proc" where
  "complete_tx L keychain_mask slate context w =
     (case keychain L w keychain_mask of
        Inl e \<Rightarrow> Ret (Err e)
      | Inr _ \<Rightarrow>
          (case signing_keys context of (key, nonce) \<Rightarrow>
             try_bind (fill_round_2 L slate key nonce) (\<lambda>slate. finalize L slate)))"

section \<open>Cancelling\<close>

definition cancel_tx ::
  "('z WalletLib_scheme) \<Rightarrow> SecretKey option \<Rightarrow> Identifier \<Rightarrow> u32 option \<Rightarrow> Uuid option \<Rightarrow> LMDBBackend \<Rightarrow>
   ((WalletError, unit) result \<times> LMDBBackend) proc" where
  "cancel_tx L keychain_mask parent tx_id tx_slate_id w =
     (let tx_id_string =
            (case tx_id of Some i \<Rightarrow> show_nat (unat i)
             | None \<Rightarrow> (case tx_slate_id of Some u \<Rightarrow> uuid_to_string L u | None \<Rightarrow> []))
      in try_r (retrieve_txs w tx_id tx_slate_id (Some parent) False) w (\<lambda>tx_vec.
         if length tx_vec \<noteq> 1 then Ret (Err (TransactionDoesntExist tx_id_string), w)
         else
           let tx = hd tx_vec
           in if le_tx_type tx \<notin> {TxSent, TxReceived, TxReverted} \<or> le_confirmed tx
              then Ret (Err (TransactionNotCancellable tx_id_string), w)
              else
                pbind (retrieve_outputs L keychain_mask False (Some (le_id tx)) (Some parent) w) (\<lambda>r.
                try_r r w (\<lambda>res.
                Ret (cancel_tx_and_outputs L keychain_mask tx (map ocm_output res) parent w)))))"

section \<open>Payment proofs\<close>

definition payment_proof_message :: "u64 \<Rightarrow> Commitment \<Rightarrow> bytes \<Rightarrow> bytes" where
  "payment_proof_message amount kernel_commitment sender_addr = be_bytes 8 (uint amount) @ kernel_commitment @ sender_addr"

text \<open>Reading past the end is an error; the address has to be a point of the curve.\<close>

definition decode_payment_proof_message ::
  "('z WalletLib_scheme) \<Rightarrow> bytes \<Rightarrow> (WalletError, u64 \<times> Commitment \<times> bytes) result proc" where
  "decode_payment_proof_message L msg =
     (if length msg < 8 + 33 + 32 then Ret (Err IOError)
      else
        let amount = word_of_int (be_int (take 8 msg));
            commit_bytes = take 33 (drop 8 msg);
            sender_address_bytes = take 32 (drop 41 msg)
        in pbind (unwrap ''from_bytes'' (dalek_public L sender_address_bytes)) (\<lambda>addr.
           Ret (Ok (amount, com_from_vec L commit_bytes, addr))))"

definition create_payment_proof_signature ::
  "('z WalletLib_scheme) \<Rightarrow> u64 \<Rightarrow> Commitment \<Rightarrow> bytes \<Rightarrow> SecretKey \<Rightarrow> (WalletError, bytes) result" where
  "create_payment_proof_signature L amount kernel_commitment sender_addr key =
     (let msg = payment_proof_message amount kernel_commitment sender_addr
      in case dalek_secret L key of
           None \<Rightarrow> Err ED25519KeyError
         | Some d_skey \<Rightarrow> Ok (dalek_sign L d_skey msg))"

text \<open>The log entry a finalised slate belongs to: the sent one, or the received one of an invoice.\<close>

definition stored_entry :: "bool \<Rightarrow> TxLogEntry list \<Rightarrow> TxLogEntry option" where
  "stored_entry is_invoiced tx_vec =
     find (\<lambda>t. le_tx_type t = TxSent \<and> \<not> is_invoiced \<or> le_tx_type t = TxReceived \<and> is_invoiced) tx_vec"

definition finished_proof ::
  "('z WalletLib_scheme) \<Rightarrow> SecretKey option \<Rightarrow> Context \<Rightarrow> Slate \<Rightarrow> LMDBBackend \<Rightarrow> PaymentInfo \<Rightarrow>
   (WalletError, StoredProofInfo) result proc" where
  "finished_proof L keychain_mask context slate w p =
     (let derivation_index = (case payment_proof_derivation_index context of Some i \<Rightarrow> i | None \<Rightarrow> 0)
      in case rbind (keychain L w keychain_mask) (\<lambda>kc. rbind (calc_excess L slate) (\<lambda>excess. Ok (kc, excess))) of
           Inl e \<Rightarrow> Ret (Err e)
         | Inr (kc, excess) \<Rightarrow>
             try_bind (address_from_derivation_path L kc (lm_parent_key_id w) derivation_index) (\<lambda>sender_key.
             Ret (rbind (ok_or OnionV3AddressError (onion_ed25519 L sender_key)) (\<lambda>addr.
                  rbind (create_payment_proof_signature L (slate_amount slate) excess (sender_address p) sender_key) (\<lambda>sig.
                  Ok \<lparr>spi_receiver_address = receiver_address p, spi_receiver_signature = receiver_signature p,
                      spi_sender_address_path = derivation_index, spi_sender_address = addr,
                      spi_sender_signature = Some sig\<rparr>)))))"

definition update_stored_tx ::
  "('z WalletLib_scheme) \<Rightarrow> SecretKey option \<Rightarrow> Context \<Rightarrow> Slate \<Rightarrow> bool \<Rightarrow> LMDBBackend \<Rightarrow>
   ((WalletError, unit) result \<times> LMDBBackend) proc" where
  "update_stored_tx L keychain_mask context slate is_invoiced w =
     try_r (retrieve_txs w None (Some (slate_id slate)) None False) w (\<lambda>tx_vec.
     try_r (ok_or (TransactionDoesntExist (uuid_to_string L (slate_id slate))) (stored_entry is_invoiced tx_vec)) w (\<lambda>tx.
     try_r (keychain L w keychain_mask) w (\<lambda>_.
     try_r (calc_excess L slate) w (\<lambda>excess.
     let tx = tx\<lparr>le_kernel_excess := Some excess\<rparr>
     in pbind (case payment_proof slate of
                 None \<Rightarrow> Ret (Ok tx)
               | Some p \<Rightarrow> try_bind (finished_proof L keychain_mask context slate w p)
                             (\<lambda>proof. Ret (Ok (tx\<lparr>le_payment_proof := Some proof\<rparr>)))) (\<lambda>r.
        try_r r w (\<lambda>tx.
        pbind (unwrap ''tx_slate_id'' (le_tx_slate_id tx)) (\<lambda>sid.
        try_r (tx_or_err slate) w (\<lambda>transaction.
        let w = store_tx L (uuid_to_string L sid) transaction w
        in try_r (keychain L w keychain_mask) w (\<lambda>_.
           Ret (Ok (), commit_batch (save_tx_log_entry L tx (le_parent_key_id tx) (lm_db w)) w))))))))))"

text \<open>The proof on a slate against the one the wallet asked for.\<close>

definition check_proof ::
  "('z WalletLib_scheme) \<Rightarrow> Keychain \<Rightarrow> Identifier \<Rightarrow> u32 \<Rightarrow> StoredProofInfo \<Rightarrow> PaymentInfo \<Rightarrow> Slate \<Rightarrow>
   (WalletError, unit) result proc" where
  "check_proof L kc parent index orig p slate =
     try_bind (address_from_derivation_path L kc parent index) (\<lambda>orig_sender_sk.
     Ret (rbind (ok_or OnionV3AddressError (onion_ed25519 L orig_sender_sk)) (\<lambda>orig_sender_address.
     if sender_address p \<noteq> orig_sender_address
     then Err (PaymentProofError ''Sender address on slate does not match original sender address'')
     else if spi_receiver_address orig \<noteq> receiver_address p
     then Err (PaymentProofError ''Recipient address on slate does not match original recipient address'')
     else
       rbind (calc_excess L slate) (\<lambda>excess.
       let msg = payment_proof_message (slate_amount slate) excess orig_sender_address
       in case receiver_signature p of
            None \<Rightarrow> Err (PaymentProofError ''Recipient did not provide requested proof signature'')
          | Some sig \<Rightarrow>
              if dalek_verify L (receiver_address p) msg sig then Ok ()
              else Err (PaymentProofError ''Invalid proof signature'')))))"

definition verify_slate_payment_proof ::
  "('z WalletLib_scheme) \<Rightarrow> SecretKey option \<Rightarrow> Identifier \<Rightarrow> Context \<Rightarrow> Slate \<Rightarrow> LMDBBackend \<Rightarrow>
   (WalletError, unit) result proc" where
  "verify_slate_payment_proof L keychain_mask parent context slate w =
     try_bind (Ret (retrieve_txs w None (Some (slate_id slate)) (Some parent) False)) (\<lambda>tx_vec.
     if tx_vec = [] then Ret (Err (PaymentProofError ''TxLogEntry with original proof info not found (is account correct?)''))
     else
       let orig_proof_info = le_payment_proof (hd tx_vec)
       in case payment_proof slate of
            None \<Rightarrow>
              if orig_proof_info \<noteq> None
              then Ret (Err (PaymentProofError ''Expected Payment Proof for this Transaction is not present''))
              else Ret (Ok ())
          | Some p \<Rightarrow>
              (case orig_proof_info of
                 None \<Rightarrow> Ret (Err (PaymentProofError ''Original proof info not stored in tx''))
               | Some orig \<Rightarrow>
                   (case keychain L w keychain_mask of
                      Inl e \<Rightarrow> Ret (Err e)
                    | Inr kc \<Rightarrow>
                        (case payment_proof_derivation_index context of
                           None \<Rightarrow> Ret (Err (PaymentProofError ''Payment proof derivation index required''))
                         | Some index \<Rightarrow> check_proof L kc parent index orig p slate))))"

end
