(* ===== verification/Wallet_Funds.thy ===== *)
theory Wallet_Funds
  imports Wallet_Select "HOL-Library.Multiset"
begin

text \<open>
  What selection and change promise: the loop over the fee ends, a selection covers amount and
  fee with coins of the account, it fails only when all coins together do not suffice, and how
  the change is split.
\<close>

section \<open>Values without wrap-around\<close>

definition coin_value :: "OutputData list \<Rightarrow> nat" where
  "coin_value coins = (\<Sum>c\<leftarrow>coins. unat (od_value c))"

lemma coin_value_simps [simp]:
  "coin_value [] = 0" "coin_value (c # cs) = unat (od_value c) + coin_value cs"
  "coin_value (cs @ ds) = coin_value cs + coin_value ds" "coin_value (rev cs) = coin_value cs"
  by (simp_all add: coin_value_def rev_map [symmetric] sum_list_rev)

lemma coin_value_mset: "coin_value cs = (\<Sum>c\<in>#mset cs. unat (od_value c))"
  by (induction cs) simp_all

lemma coin_value_le: "mset cs \<subseteq># mset ds \<Longrightarrow> coin_value cs \<le> coin_value ds"
  unfolding coin_value_mset by (metis image_mset_union le_iff_add subset_mset.add_diff_inverse sum_mset.union)

lemma unat_foldl_value:
  "unat (foldl (\<lambda>acc c. acc + od_value c) a cs) = unat a + coin_value cs"
  if "unat a + coin_value cs < 2 ^ 64" for a :: u64
  using that
proof (induction cs arbitrary: a)
  case (Cons c cs)
  then have "unat (a + od_value c) = unat a + unat (od_value c)" by (simp add: unat_word_ariths(1))
  with Cons show ?case by simp
qed simp

lemma unat_sum_outputs: "coin_value cs < 2 ^ 64 \<Longrightarrow> unat (sum_outputs cs) = coin_value cs"
  using unat_foldl_value [of 0 cs] by (simp add: sum_outputs_def)

lemma unat_add_bound: "unat (a :: u64) + unat b < 2 ^ 64 \<Longrightarrow> unat (a + b) = unat a + unat b"
  by (simp add: unat_word_ariths(1))

section \<open>Single selections\<close>

lemma take_until_prefix: "\<exists>n. take_until amount s cs = take n cs"
proof (induction cs arbitrary: s)
  case (Cons c cs)
  then obtain n where "take_until amount (s + od_value c) cs = take n cs" by blast
  then have "take_until amount s (c # cs) = take (if s < amount then Suc n else 0) (c # cs)" by simp
  then show ?case by blast
qed simp

lemma take_until_covers:
  "unat s + coin_value cs < 2 ^ 64 \<Longrightarrow> unat amount \<le> unat s + coin_value cs \<Longrightarrow>
   unat amount \<le> unat s + coin_value (take_until amount s cs)"
proof (induction cs arbitrary: s)
  case (Cons c cs)
  have s: "unat (s + od_value c) = unat s + unat (od_value c)"
    using Cons.prems(1) by (intro unat_add_bound) simp
  then have "unat (s + od_value c) + coin_value cs < 2 ^ 64" "unat amount \<le> unat (s + od_value c) + coin_value cs"
    using Cons.prems by simp_all
  from Cons.IH [OF this] s show ?case by (auto simp: word_less_nat_alt)
qed simp

lemma select_from_Some:
  assumes "select_from amount select_all cs = Some out" "coin_value cs < 2 ^ 64"
  shows "mset out \<subseteq># mset cs" "unat amount \<le> coin_value out"
    "select_all \<Longrightarrow> out = cs" "\<exists>n. out = take n cs"
proof -
  have a: "unat amount \<le> coin_value cs"
    using assms unat_sum_outputs [OF assms(2)] by (simp add: select_from_def word_le_nat_alt split: if_splits)
  obtain n where n: "take_until amount 0 cs = take n cs" using take_until_prefix by blast
  have out: "out = (if select_all then cs else take n cs)"
    using assms(1) n by (auto simp: select_from_def split: if_splits)
  show "mset out \<subseteq># mset cs"
    by (auto simp: out) (metis append_take_drop_id mset_append mset_subset_eq_add_left)
  show "unat amount \<le> coin_value out"
    using a take_until_covers [of 0 cs amount] assms(2) n by (simp add: out)
  show "select_all \<Longrightarrow> out = cs" by (simp add: out)
  show "\<exists>n. out = take n cs" by (metis out take_all_iff order_refl)
qed

lemma select_from_None:
  "select_from amount select_all cs = None \<Longrightarrow> coin_value cs < 2 ^ 64 \<Longrightarrow> coin_value cs < unat amount"
  using unat_sum_outputs [of cs] by (auto simp: select_from_def not_le word_less_nat_alt split: if_splits)

lemma windows_subset: "win \<in> set (windows n cs) \<Longrightarrow> mset win \<subseteq># mset cs"
proof -
  assume "win \<in> set (windows n cs)"
  then obtain i where "win = take n (drop i cs)" by (auto simp: windows_def)
  then show ?thesis
    by (metis append_take_drop_id mset_append mset_subset_eq_add_left mset_subset_eq_add_right subset_mset.order_trans)
qed

lemma first_window_Some:
  "first_window amount select_all wins = Some out \<Longrightarrow> \<exists>win \<in> set wins. select_from amount select_all win = Some out"
  by (induction wins) (auto split: option.splits)

text \<open>What \<open>select_coins\<close> returns: enough coins, or the largest ones when all of them do not suffice.\<close>

lemma select_coins_result:
  assumes "select_coins w amount h m max_outputs all parent = Ret (n, coins)"
    and "coin_value (eligible_coins w h m parent) < 2 ^ 64"
  shows "n = length (eligible_coins w h m parent)"
    and "mset coins \<subseteq># mset (eligible_coins w h m parent)"
    and "unat amount \<le> coin_value coins \<or>
      coin_value (eligible_coins w h m parent) < unat amount \<and> coins = take max_outputs (rev (eligible_coins w h m parent))"
proof -
  define E where "E = eligible_coins w h m parent"
  have E: "coin_value E < 2 ^ 64" using assms(2) by (simp add: E_def)
  have win: "mset out \<subseteq># mset E \<and> unat amount \<le> coin_value out"
    if w: "first_window amount all (windows k E) = Some out" for k out
  proof -
    obtain v where v: "v \<in> set (windows k E)" "select_from amount all v = Some out"
      using first_window_Some [OF w] by blast
    note sub = windows_subset [OF v(1)]
    have "coin_value v < 2 ^ 64" using coin_value_le [OF sub] E by simp
    from select_from_Some(1,2) [OF v(2) this] sub show ?thesis using subset_mset.order_trans by blast
  qed
  have fall: "mset (take k (rev E)) \<subseteq># mset E" for k
    by (metis append_take_drop_id mset_append mset_rev mset_subset_eq_add_left)
  have n: "n = length E" and c: "first_window amount all (windows max_outputs E) = Some coins \<or>
    (\<exists>b. select_from amount b E = Some coins) \<or>
    (\<exists>b. select_from amount b E = None) \<and> coins = take max_outputs (rev E)"
    using assms(1) unfolding select_coins_def E_def [symmetric] Let_def
    by (auto split: if_splits option.splits)
  show "n = length (eligible_coins w h m parent)" using n by (simp add: E_def)
  show "mset coins \<subseteq># mset (eligible_coins w h m parent)"
    using c win select_from_Some(1) [OF _ E] fall unfolding E_def [symmetric] by blast
  show "unat amount \<le> coin_value coins \<or>
      coin_value (eligible_coins w h m parent) < unat amount \<and> coins = take max_outputs (rev (eligible_coins w h m parent))"
    using c win select_from_Some(2) [OF _ E] select_from_None [OF _ E] unfolding E_def [symmetric] by blast
qed

lemma select_coins_Ret:
  "0 < max_outputs \<Longrightarrow> \<exists>coins. select_coins w amount h m max_outputs all parent = Ret (length (eligible_coins w h m parent), coins)"
  by (auto simp: select_coins_def Let_def split: option.splits)

section \<open>Selecting until the fee is covered\<close>

text \<open>The inputs of a selection: no sum of them wraps around.\<close>

definition fees_fit :: "('z WalletLib_scheme) \<Rightarrow> u64 \<Rightarrow> nat \<Rightarrow> nat \<Rightarrow> bool" where
  "fees_fit L amount k n \<longleftrightarrow> (\<forall>i \<le> n. unat amount + unat (tx_fee L i k 1) < 2 ^ 64)"

text \<open>A selection that pays for itself: coins of the account that cover amount and fee.\<close>

definition covers ::
  "('z WalletLib_scheme) \<Rightarrow> u64 \<Rightarrow> nat \<Rightarrow> OutputData list \<Rightarrow> OutputData list \<times> u64 \<times> u64 \<times> u64 \<Rightarrow> bool" where
  "covers L amount k E r \<longleftrightarrow>
     (case r of (coins, tot, amt, fee) \<Rightarrow>
        amt = amount \<and> mset coins \<subseteq># mset E \<and> unat tot = coin_value coins \<and>
        unat amount + unat fee \<le> coin_value coins \<and> fee = tx_fee L (length coins) k 1)"

lemma coin_value_take_mono: "i \<le> j \<Longrightarrow> coin_value (take i cs) \<le> coin_value (take j cs)"
proof -
  assume "i \<le> j"
  then obtain d where "take j cs = take i cs @ d" by (metis append_take_drop_id min.absorb1 take_take)
  then show ?thesis by simp
qed

lemma more_value_more_coins:
  assumes "coin_value (take i cs) < coin_value (take j cs)"
  shows "length (take i cs) < length (take j cs)"
proof (rule ccontr)
  assume "\<not> ?thesis"
  then have "min j (length cs) \<le> min i (length cs)" by (auto simp: min_def split: if_splits)
  from coin_value_take_mono [OF this, of cs] assms show False by (simp add: min_def split: if_splits)
qed

text \<open>The loop from a prefix of the coins, or from all of them: every round selects more coins.\<close>

lemma reselect_prefix:
  fixes w h m parent
  defines "E \<equiv> eligible_coins w h m parent"
  assumes "coin_value E < 2 ^ 64" "fees_fit L amount k (length E)"
    and "length E - length coins < n" "(\<exists>i. coins = take i E) \<or> mset coins = mset E"
  shows "\<exists>r. reselect n L w amount h m (length E) k all parent coins (sum_outputs coins)
      (tx_fee L (length coins) k 1) (amount + tx_fee L (length coins) k 1) = Ret r \<and>
    (case r of Inr x \<Rightarrow> covers L amount k E x
     | Inl e \<Rightarrow> coin_value E < unat amount + unat (tx_fee L (length E) k 1))"
  using assms(4,5)
proof (induction n arbitrary: coins)
  case 0
  then show ?case by simp
next
  case (Suc n)
  have sub: "mset coins \<subseteq># mset E"
    using Suc.prems(2) by (metis append_take_drop_id mset_append mset_subset_eq_add_left subset_mset.order_refl)
  then have len: "length coins \<le> length E" using size_mset_mono by fastforce
  have val: "unat (sum_outputs coins) = coin_value coins"
    using coin_value_le [OF sub] assms(2) by (intro unat_sum_outputs) simp
  have awf: "unat (amount + tx_fee L (length coins) k 1) = unat amount + unat (tx_fee L (length coins) k 1)"
    using assms(3) len by (intro unat_add_bound) (simp add: fees_fit_def)
  show ?case
  proof (cases "sum_outputs coins < amount + tx_fee L (length coins) k 1")
    case False
    then have "unat amount + unat (tx_fee L (length coins) k 1) \<le> coin_value coins"
      using val awf by (simp add: not_less word_le_nat_alt)
    with False sub val show ?thesis by (simp add: covers_def)
  next
    case less: True
    then have lt: "coin_value coins < unat amount + unat (tx_fee L (length coins) k 1)"
      using val awf by (simp add: word_less_nat_alt)
    show ?thesis
    proof (cases "length coins = length E")
      case True
      then have "mset coins = mset E" using sub
        by (metis size_mset subset_mset.le_imp_less_or_eq mset_subset_size less_irrefl)
      then have "coin_value coins = coin_value E" by (simp add: coin_value_mset)
      with less lt True show ?thesis by simp
    next
      case False
      with Suc.prems(2) obtain i where i: "coins = take i E" by (metis size_mset)
      have E0: "0 < length E" using False len by linarith
      define T where "T = amount + tx_fee L (length coins) k 1"
      obtain new where new: "select_coins w T h m (length E) all parent = Ret (length E, new)"
        using select_coins_Ret [OF E0, of w T h m all parent] unfolding E_def by blast
      have more: "((\<exists>j. new = take j E) \<or> mset new = mset E) \<and> length coins < length new"
      proof -
        consider (got) b where "select_from T b E = Some new" | (all) "new = take (length E) (rev E)"
          using new unfolding select_coins_def E_def [symmetric] Let_def
          by (auto split: option.splits)
        then show ?thesis
        proof cases
          case got
          note s = select_from_Some [OF got assms(2)]
          obtain j where j: "new = take j E" using s(4) by blast
          have "coin_value (take i E) < coin_value (take j E)"
            using s(2) lt awf i j by (simp add: T_def)
          from more_value_more_coins [OF this] i j show ?thesis by auto
        next
          case all
          then show ?thesis using False len by simp
        qed
      qed
      then have "length E - length new < n" using Suc.prems(1) len False by linarith
      from Suc.IH [OF this] more less False new show ?thesis by (simp add: T_def Let_def)
    qed
  qed
qed

text \<open>One round of the loop from any coins of the account reaches a prefix or all of them.\<close>

lemma reselect_any:
  fixes w h m parent
  defines "E \<equiv> eligible_coins w h m parent"
  assumes "coin_value E < 2 ^ 64" "fees_fit L amount k (length E)" "mset coins \<subseteq># mset E" "length E + 2 \<le> n"
  shows "\<exists>r. reselect n L w amount h m (length E) k all parent coins (sum_outputs coins)
      (tx_fee L (length coins) k 1) (amount + tx_fee L (length coins) k 1) = Ret r \<and>
    (case r of Inr x \<Rightarrow> covers L amount k E x
     | Inl e \<Rightarrow> coin_value E < unat amount + unat (tx_fee L (length E) k 1))"
proof (cases "length coins = length E")
  case True
  then have "mset coins = mset E" using assms(4)
    by (metis size_mset subset_mset.le_imp_less_or_eq mset_subset_size less_irrefl)
  then show ?thesis
    unfolding E_def by (intro reselect_prefix) (use assms(2,3,5) in \<open>auto simp: E_def\<close>)
next
  case False
  have len: "length coins \<le> length E" using assms(4) size_mset_mono by fastforce
  obtain n' where n': "n = Suc n'" "length E < n'" using assms(5) by (cases n) auto
  define T where "T = amount + tx_fee L (length coins) k 1"
  show ?thesis
  proof (cases "sum_outputs coins < T")
    case less: True
    have E0: "0 < length E" using False len by linarith
    obtain new where new: "select_coins w T h m (length E) all parent = Ret (length E, new)"
      using select_coins_Ret [OF E0, of w T h m all parent] unfolding E_def by blast
    then consider (got) b where "select_from T b E = Some new" | (all) "new = take (length E) (rev E)"
      unfolding select_coins_def E_def [symmetric] Let_def by (auto split: option.splits)
    then have "(\<exists>j. new = take j E) \<or> mset new = mset E"
      using select_from_Some(4) [OF _ assms(2)] by cases auto
    then have "\<exists>r. reselect n' L w amount h m (length E) k all parent new (sum_outputs new)
        (tx_fee L (length new) k 1) (amount + tx_fee L (length new) k 1) = Ret r \<and>
      (case r of Inr x \<Rightarrow> covers L amount k E x
       | Inl e \<Rightarrow> coin_value E < unat amount + unat (tx_fee L (length E) k 1))"
      unfolding E_def by (intro reselect_prefix) (use assms(2,3) n'(2) in \<open>auto simp: E_def\<close>)
    with less False new show ?thesis by (simp add: n'(1) T_def Let_def)
  next
    case False
    have val: "unat (sum_outputs coins) = coin_value coins"
      using coin_value_le [OF assms(4)] assms(2) by (intro unat_sum_outputs) simp
    have "unat T = unat amount + unat (tx_fee L (length coins) k 1)"
      unfolding T_def using assms(3) len by (intro unat_add_bound) (simp add: fees_fit_def)
    with False val have "unat amount + unat (tx_fee L (length coins) k 1) \<le> coin_value coins"
      by (simp add: not_less word_le_nat_alt)
    with False val assms(4) show ?thesis by (simp add: n'(1) T_def covers_def)
  qed
qed

section \<open>Properties\<close>

text \<open>
  C16. Coin selection ends and is complete: for a positive amount whose sums with the fees do not
  wrap around, two rounds more than there are eligible coins are enough. The result covers the
  amount and the fee for its number of coins, with coins of the account and none twice; the selection
  fails only if all eligible coins together do not cover the amount and the fee of spending them.
\<close>

theorem coin_selection_complete:
  fixes w h m parent
  defines "E \<equiv> eligible_coins w h m parent"
  assumes "0 < amount" "0 < max_outputs" "coin_value E < 2 ^ 64"
    and "fees_fit L amount 1 (length E)" "fees_fit L amount (change_outputs + 1) (length E)"
    and "length E + 2 \<le> fuel"
  shows "\<exists>r. select_coins_and_fee fuel L w amount h m max_outputs change_outputs all parent = Ret r \<and>
    (case r of
       Inr x \<Rightarrow> covers L amount 1 E x \<or> covers L amount (change_outputs + 1) E x
     | Inl e \<Rightarrow> coin_value E < unat amount + unat (tx_fee L (length E) 1 1) \<or>
               coin_value E < unat amount + unat (tx_fee L (length E) (change_outputs + 1) 1))"
proof -
  obtain coins where c: "select_coins w amount h m max_outputs all parent = Ret (length E, coins)"
    using select_coins_Ret [OF assms(3)] unfolding E_def by blast
  note sel = select_coins_result [OF c assms(4) [unfolded E_def], folded E_def]
  have len: "length coins \<le> length E" using sel(2) size_mset_mono by fastforce
  have val: "unat (sum_outputs coins) = coin_value coins"
    using coin_value_le [OF sel(2)] assms(4) by (intro unat_sum_outputs) simp
  have awf: "unat (amount + tx_fee L (length coins) 1 1) = unat amount + unat (tx_fee L (length coins) 1 1)"
    using assms(5) len by (intro unat_add_bound) (simp add: fees_fit_def)
  have pos: "0 < unat amount" using assms(2) by (simp add: word_less_nat_alt)
  show ?thesis
  proof (cases "sum_outputs coins = 0")
    case True
    with val have "coin_value coins = 0" by simp
    with sel(3) pos have "coin_value E < unat amount" by auto
    with True c show ?thesis by (simp add: select_coins_and_fee_def Let_def)
  next
    case nz: False
    consider (all) "sum_outputs coins < amount + tx_fee L (length coins) 1 1" "length coins = length E"
      | (exact) "sum_outputs coins = amount + tx_fee L (length coins) 1 1"
      | (loop) "\<not> (sum_outputs coins < amount + tx_fee L (length coins) 1 1 \<and> length coins = length E)"
          "sum_outputs coins \<noteq> amount + tx_fee L (length coins) 1 1" by blast
    then show ?thesis
    proof cases
      case all
      then have "mset coins = mset E" using sel(2)
        by (metis size_mset subset_mset.le_imp_less_or_eq mset_subset_size less_irrefl)
      then have "coin_value coins = coin_value E" by (simp add: coin_value_mset)
      with all val awf have "coin_value E < unat amount + unat (tx_fee L (length E) 1 1)"
        by (simp add: word_less_nat_alt)
      with all nz c show ?thesis by (simp add: select_coins_and_fee_def Let_def)
    next
      case exact
      with val awf sel(2) have "covers L amount 1 E (coins, sum_outputs coins, amount, tx_fee L (length coins) 1 1)"
        by (simp add: covers_def)
      with exact nz c show ?thesis by (simp add: select_coins_and_fee_def Let_def)
    next
      case loop
      then have "select_coins_and_fee fuel L w amount h m max_outputs change_outputs all parent =
        reselect fuel L w amount h m (length E) (change_outputs + 1) all parent coins (sum_outputs coins)
          (tx_fee L (length coins) (change_outputs + 1) 1) (amount + tx_fee L (length coins) (change_outputs + 1) 1)"
        using nz c by (auto simp: select_coins_and_fee_def Let_def)
      moreover obtain r where "reselect fuel L w amount h m (length E) (change_outputs + 1) all parent coins
          (sum_outputs coins) (tx_fee L (length coins) (change_outputs + 1) 1)
          (amount + tx_fee L (length coins) (change_outputs + 1) 1) = Ret r"
        "case r of Inr x \<Rightarrow> covers L amount (change_outputs + 1) E x
         | Inl e \<Rightarrow> coin_value E < unat amount + unat (tx_fee L (length E) (change_outputs + 1) 1)"
        using reselect_any [OF assms(4,6) [unfolded E_def] sel(2) [unfolded E_def] assms(7) [unfolded E_def], folded E_def]
        by blast
      ultimately show ?thesis by (cases r) auto
    qed
  qed
qed

section \<open>Change\<close>

lemma build_change_amounts:
  "build_change L keychain_mask amts w = Ret (changes, w') \<Longrightarrow> map fst changes = amts"
  by (induction amts arbitrary: w changes w') (auto simp: pbind_eq_Ret)

lemma sum_equal_but_last:
  "0 < n \<Longrightarrow> (\<Sum>x\<leftarrow>[0..<n]. if x = n - 1 then a + b else a) = n * a + (b :: nat)"
proof -
  assume "0 < n"
  then obtain k where n: "n = Suc k" by (cases n) auto
  have "(\<Sum>x\<leftarrow>[0..<k]. if x = k then a + b else a) = (\<Sum>x\<leftarrow>[0..<k]. a)"
    by (intro arg_cong [where f = sum_list] map_cong) auto
  then show ?thesis by (simp add: n sum_list_triv)
qed

text \<open>The amounts of the change outputs, as numbers.\<close>

lemma change_amounts_sum:
  fixes change :: u64
  assumes "0 < n" "n < 2 ^ 64" "change div of_nat n \<noteq> 0"
  shows "(\<Sum>x\<leftarrow>[0..<n]. unat (change_amount n (change div of_nat n) (change mod (change div of_nat n)) x)) =
     n * (unat change div n) + unat change mod (unat change div n)"
proof -
  let ?q = "change div of_nat n"
  have q: "unat ?q = unat change div n" using assms(2) by (simp add: unat_div unat_of_nat)
  then have r: "unat (change mod ?q) = unat change mod (unat change div n)" by (simp add: unat_mod)
  have q0: "0 < unat change div n" using assms(3) q by (metis gr0I unat_eq_zero)
  have "unat change div n + unat change mod (unat change div n) \<le> unat change"
  proof -
    have "1 * (unat change div n) \<le> unat change div (unat change div n) * (unat change div n)"
      by (rule mult_right_mono) (use q0 in \<open>simp_all add: Suc_leI div_greater_zero_iff\<close>)
    then show ?thesis by (metis add_le_mono1 div_mult_mod_eq mult_1)
  qed
  also have "\<dots> < 2 ^ 64" using unsigned_less [of change] by simp
  finally have "unat (?q + change mod ?q) = unat change div n + unat change mod (unat change div n)"
    by (subst unat_add_bound) (simp_all add: q r)
  then have "(\<Sum>x\<leftarrow>[0..<n]. unat (change_amount n ?q (change mod ?q) x)) =
     (\<Sum>x\<leftarrow>[0..<n]. if x = n - 1 then unat change div n + unat change mod (unat change div n) else unat change div n)"
    by (intro arg_cong [where f = sum_list] map_cong) (auto simp: change_amount_def q)
  with sum_equal_but_last [OF assms(1)] show ?thesis by simp
qed

text \<open>
  C36. What the change outputs add up to: the amounts are equal but for the last, and together with
  the loss given by the last summand they make the change. The remainder is taken by the
  part instead of the number of outputs, so nothing is lost where the change is at least the
  square of this number, and otherwise up to the whole remainder is; a change smaller than the number of
  outputs ends in a panic.
\<close>

theorem change_outputs_total:
  fixes coins amount fee n
  defines "change \<equiv> coin_value coins - (unat amount + unat fee)"
  assumes "inputs_and_change L coins keychain_mask amount fee n incl w = Ret (Ok (parts, changes), w')"
    and "coin_value coins < 2 ^ 64" "unat amount + unat fee \<le> coin_value coins" "n < 2 ^ 64"
  shows "(\<Sum>(a, _)\<leftarrow>changes. unat a) + change div n * (change mod n div (change div n)) = change \<and>
    (n * n \<le> change \<longrightarrow> (\<Sum>(a, _)\<leftarrow>changes. unat a) = change) \<and>
    (0 < change \<longrightarrow> length changes = n \<and> n \<le> change)"
proof -
  let ?c = "sum_outputs coins - amount - fee"
  have tot: "unat (sum_outputs coins) = coin_value coins" by (rule unat_sum_outputs [OF assms(3)])
  have c: "unat ?c = change"
  proof -
    have "unat (sum_outputs coins - amount) = coin_value coins - unat amount"
      using assms(4) tot by (subst unat_sub) (simp_all add: word_le_nat_alt)
    then show ?thesis
      using assms(4) by (subst unat_sub) (simp_all add: word_le_nat_alt change_def)
  qed
  show ?thesis
  proof (cases "?c = 0")
    case True
    then have "changes = []" "change = 0" using assms(2) c by (auto simp: inputs_and_change_def)
    then show ?thesis by simp
  next
    case False
    then have pos: "0 < change" using c by (metis gr0I unat_eq_zero)
    have b: "of_nat n \<noteq> (0 :: u64)" "?c div of_nat n \<noteq> 0" "map fst changes =
        map (change_amount n (?c div of_nat n) (?c mod (?c div of_nat n))) [0..<n]"
      using assms(2) False
      by (auto simp: inputs_and_change_def Let_def pbind_eq_Ret dest!: build_change_amounts split: if_splits)
    then have n: "0 < n" by (cases n) auto
    have q: "unat (?c div of_nat n) = change div n" using assms(5) c by (simp add: unat_div unat_of_nat)
    then have q0: "0 < change div n" using b(2) by (metis gr0I unat_eq_zero)
    have "(\<Sum>(a, _)\<leftarrow>changes. unat a) = sum_list (map unat (map fst changes))"
      by (simp add: comp_def split_beta')
    also have "\<dots> = n * (change div n) + change mod (change div n)"
      using change_amounts_sum [OF n assms(5) b(2)] by (simp add: b(3) c comp_def)
    also have "change mod (change div n) = (change mod n) mod (change div n)"
      by (metis mod_mult_self3 mult.commute div_mult_mod_eq)
    finally have s: "(\<Sum>(a, _)\<leftarrow>changes. unat a) = n * (change div n) + (change mod n) mod (change div n)" .
    have t: "(\<Sum>(a, _)\<leftarrow>changes. unat a) + change div n * (change mod n div (change div n)) = change"
      using s mult_div_mod_eq [of n change] mult_div_mod_eq [of "change div n" "change mod n"] by linarith
    have "(\<Sum>(a, _)\<leftarrow>changes. unat a) = change" if "n * n \<le> change"
    proof -
      have "n \<le> change div n" using that n by (simp add: less_eq_div_iff_mult_less_eq)
      then have "change mod n < change div n" using n by (meson mod_less_divisor order_less_le_trans)
      with t show ?thesis by simp
    qed
    moreover have "length changes = n" using b(3) by (metis length_map length_upt minus_nat.diff_0)
    moreover have "n \<le> change" using q0 by (simp add: div_greater_zero_iff)
    ultimately show ?thesis using t by blast
  qed
qed

end
