(* ===== verification/Wallet_Locks.thy ===== *)
theory Wallet_Locks
  imports Wallet_Funds
begin

text \<open>
  The outputs in the wallet's database: its invariant, what locking a transaction's inputs does
  to them, and that locked coins are not selected again.
\<close>

section \<open>Inversion of wallet operations\<close>

lemma try_r_Ret: "try_r r w f = Ret (Inr y, w') \<longleftrightarrow> (\<exists>x. r = Inr x \<and> f x = Ret (Inr y, w'))"
  by (auto simp: try_r_def split: sum.splits)

lemma try_w_Ret: "try_w p f = Ret (Inr y, w') \<longleftrightarrow> (\<exists>x w1. p = Ret (Inr x, w1) \<and> f x w1 = Ret (Inr y, w'))"
  unfolding try_w_def pbind_eq_Ret by (auto split: sum.splits) (metis Inl_Inr_False obj_sumE)

lemmas wallet_Ret = try_r_Ret try_w_Ret pbind_eq_Ret

section \<open>The invariant of the database\<close>

text \<open>An output is stored under its own key, and nothing else under a key of this kind.\<close>

definition at_home :: "('z StoreLib_scheme) \<Rightarrow> bytes \<times> db_value \<Rightarrow> bool" where
  "at_home L kv \<longleftrightarrow>
     (case snd kv of
        VOutput out \<Rightarrow> fst kv = output_key L (od_key_id out) (od_mmr_index out)
      | _ \<Rightarrow> take 1 (fst kv) \<noteq> [OUTPUT_PREFIX])"

definition store_ok :: "('z StoreLib_scheme) \<Rightarrow> db \<Rightarrow> bool" where
  "store_ok L d \<longleftrightarrow> db_wf d \<and> (\<forall>kv \<in> set d. at_home L kv)"

lemma store_ok_put:
  assumes "store_ok L d" "at_home L (k, v)"
  shows "store_ok L (db_put k v d)"
proof -
  have "set (db_put k v d) \<subseteq> insert (k, v) (set d)"
    by (induction k v d rule: db_put.induct) auto
  with assms db.wf_put [of d k v] show ?thesis by (auto simp: store_ok_def)
qed

lemma store_ok_delete: "store_ok L d \<Longrightarrow> store_ok L (db_delete k d)"
  using db.wf_del [of d k] by (auto simp: store_ok_def db_delete_def)

lemma store_ok_save [intro]: "store_ok L d \<Longrightarrow> store_ok L (batch_save L out d)"
  unfolding batch_save_def by (rule store_ok_put) (simp_all add: at_home_def)

lemma take_1_key: "store_key_laws L \<Longrightarrow> take 1 (to_key L p k) = [p]" "store_key_laws L \<Longrightarrow> take 1 (to_key_u64 L p k n) = [p]"
  by (simp_all add: store_key_lawsD del: One_nat_def)

lemma store_ok_index [intro]:
  assumes "store_key_laws L" "store_ok L d"
  shows "next_tx_log_id L parent d = Inr (i, d') \<Longrightarrow> store_ok L d'"
    and "store_ok L (save_child_index L parent c d)" "store_ok L (save_tx_log_entry L t parent d)"
    "store_ok L (save_last_confirmed_height L parent h d)"
  using assms unfolding next_tx_log_id_def save_child_index_def save_tx_log_entry_def save_last_confirmed_height_def
  by (auto simp: rbind_eq_Ok Let_def at_home_def take_1_key prefix_defs simp del: One_nat_def intro!: store_ok_put)

lemma get_output_iff:
  "get_output L d i m = Inr out \<longleftrightarrow> db_get d (output_key L i m) = Some (VOutput out)"
proof (cases "db_get d (output_key L i m)")
  case (Some v)
  then show ?thesis
    by (cases v) (simp_all add: get_output_def option_to_not_found_def get_ser_def ok_or_def)
qed (simp add: get_output_def option_to_not_found_def get_ser_def ok_or_def)

lemma stored_at_home:
  assumes "store_ok L d" "db_get d k = Some (VOutput out)"
  shows "k = output_key L (od_key_id out) (od_mmr_index out)"
proof -
  have "(k, VOutput out) \<in> set d" using assms by (simp add: store_ok_def db_get_mem)
  with assms(1) show ?thesis by (auto simp: store_ok_def at_home_def)
qed

lemma od_iter_iff:
  assumes "store_ok L d" "store_key_laws L"
  shows "out \<in> set (od_iter d) \<longleftrightarrow> db_get d (output_key L (od_key_id out) (od_mmr_index out)) = Some (VOutput out)"
proof -
  have as: "as_output v = Some out \<longleftrightarrow> v = VOutput out" for v by (cases v) auto
  have "out \<in> set (od_iter d) \<longleftrightarrow> (\<exists>k. (k, VOutput out) \<in> set d \<and> take 1 k = [OUTPUT_PREFIX])"
    by (force simp: od_iter_def db_scan_def List.map_filter_def as image_iff simp del: One_nat_def)
  also have "\<dots> \<longleftrightarrow> (output_key L (od_key_id out) (od_mmr_index out), VOutput out) \<in> set d"
    using assms output_key_prefix [OF assms(2)] by (auto simp: store_ok_def at_home_def simp del: One_nat_def)
  finally show ?thesis using assms(1) by (simp add: store_ok_def db_get_mem)
qed

section \<open>Locking the inputs\<close>

lemma lock_output_get:
  "db_get (lock_output L out d) k =
     (if k = output_key L (od_key_id out) (od_mmr_index out) then Some (VOutput (lock_od out)) else db_get d k)"
  by (simp add: lock_output_def batch_save_def db.get_put)

definition locked_by :: "('z StoreLib_scheme) \<Rightarrow> u32 \<Rightarrow> db \<Rightarrow> Identifier \<times> u64 option \<times> u64 \<Rightarrow> bool" where
  "locked_by L log_id d inp \<longleftrightarrow>
     (\<exists>coin. get_output L d (fst inp) (fst (snd inp)) = Inr coin \<and> od_status coin = Locked \<and>
        od_tx_log_entry coin = Some log_id)"

abbreviation input_key :: "('z StoreLib_scheme) \<Rightarrow> Identifier \<times> u64 option \<times> u64 \<Rightarrow> bytes" where
  "input_key L inp \<equiv> output_key L (fst inp) (fst (snd inp))"

lemma list_all2_same_value:
  assumes "list_all2 P xs ys" "\<And>x y. P x y \<Longrightarrow> \<exists>z. Q x z \<and> od_value z = od_value y"
  shows "\<exists>zs. list_all2 Q xs zs \<and> map od_value zs = map od_value ys"
  using assms(1)
proof (induction rule: list_all2_induct)
  case (Cons x xs y ys)
  then obtain zs z where "list_all2 Q xs zs" "map od_value zs = map od_value ys" "Q x z" "od_value z = od_value y"
    using assms(2) by blast
  then show ?case by (intro exI [of _ "z # zs"]) simp
qed simp

lemma foldl_values: "foldl (\<lambda>acc c. acc + od_value c) a cs = foldl (+) a (map od_value cs)"
  by (simp add: foldl_map)

text \<open>The loop locks every input and nothing else, and adds up the values of the coins.\<close>

lemma lock_coins_run:
  assumes "lock_coins L log_id ids debited d = Ret (debited', d')" "store_ok L d"
  shows "store_ok L d' \<and> (\<forall>inp \<in> set ids. locked_by L log_id d' inp) \<and>
    (\<forall>k. k \<notin> input_key L ` set ids \<longrightarrow> db_get d' k = db_get d k) \<and>
    (\<exists>coins. list_all2 (\<lambda>inp c. get_output L d (fst inp) (fst (snd inp)) = Inr c) ids coins \<and>
       debited' = foldl (\<lambda>acc c. acc + od_value c) debited coins)"
  using assms
proof (induction L log_id ids debited d arbitrary: debited' d' rule: lock_coins.induct)
  case (2 L log_id i m v ids debited d)
  then obtain c where c: "get_output L d i m = Inr c"
    "lock_coins L log_id ids (debited + od_value c) (lock_output L (c\<lparr>od_tx_log_entry := Some log_id\<rparr>) d) = Ret (debited', d')"
    by (auto simp: pbind_eq_Ret Let_def)
  let ?c = "c\<lparr>od_tx_log_entry := Some log_id\<rparr>" let ?d = "lock_output L ?c d"
  have key: "output_key L i m = output_key L (od_key_id c) (od_mmr_index c)"
    using stored_at_home [OF "2.prems"(2)] c(1) by (simp add: get_output_iff)
  have get: "db_get ?d k = (if k = output_key L i m then Some (VOutput (lock_od ?c)) else db_get d k)" for k
    by (simp add: lock_output_get key)
  have ok: "store_ok L ?d" using "2.prems"(2) by (auto simp: lock_output_def)
  from "2.IH" [OF refl, of c] c(1,2) ok obtain coins where IH: "store_ok L d'"
    "\<forall>inp \<in> set ids. locked_by L log_id d' inp" "\<forall>k. k \<notin> input_key L ` set ids \<longrightarrow> db_get d' k = db_get ?d k"
    "list_all2 (\<lambda>inp c. get_output L ?d (fst inp) (fst (snd inp)) = Inr c) ids coins"
    "debited' = foldl (\<lambda>acc c. acc + od_value c) (debited + od_value c) coins"
    by auto
  have head: "locked_by L log_id d' (i, m, v)"
  proof (cases "output_key L i m \<in> input_key L ` set ids")
    case True
    with IH(2) show ?thesis by (auto simp: locked_by_def get_output_iff)
  next
    case False
    with IH(3) get [of "output_key L i m"] show ?thesis by (auto simp: locked_by_def get_output_iff lock_od_def)
  qed
  have same: "\<exists>c'. get_output L d (fst inp) (fst (snd inp)) = Inr c' \<and> od_value c' = od_value x"
    if "get_output L ?d (fst inp) (fst (snd inp)) = Inr x" for inp x
    using that c(1) by (auto simp: get_output_iff get lock_od_def split: if_splits)
  have "\<exists>zs. list_all2 (\<lambda>inp c. get_output L d (fst inp) (fst (snd inp)) = Inr c) ids zs \<and>
      map od_value zs = map od_value coins"
    by (rule list_all2_same_value [OF IH(4)]) (rule same)
  then obtain coins' where
    c': "list_all2 (\<lambda>inp c. get_output L d (fst inp) (fst (snd inp)) = Inr c) ids coins'"
      "map od_value coins' = map od_value coins" by blast
  then have "debited' = foldl (\<lambda>acc c. acc + od_value c) debited (c # coins')"
    using IH(5) by (simp add: foldl_values c'(2))
  moreover have "list_all2 (\<lambda>inp c. get_output L d (fst inp) (fst (snd inp)) = Inr c) ((i, m, v) # ids) (c # coins')"
    using c(1) c'(1) by simp
  moreover have "db_get d' k = db_get d k" if "k \<notin> input_key L ` set ((i, m, v) # ids)" for k
    using that IH(3) get by auto
  ultimately show ?case using IH(1,2) head by (intro conjI exI [of _ "c # coins'"]) auto
qed (auto simp: locked_by_def)

text \<open>The loop over the outputs writes change outputs only and leaves the debit alone.\<close>

lemma save_changes_run:
  assumes "save_changes L log_id parent h commits outs t d = Ret (t', d')" "store_ok L d"
  shows "store_ok L d' \<and> le_amount_debited t' = le_amount_debited t \<and> le_id t' = le_id t \<and>
    le_num_inputs t' = le_num_inputs t \<and> le_tx_type t' = le_tx_type t \<and> le_tx_slate_id t' = le_tx_slate_id t \<and>
    (\<forall>k. k \<notin> (\<lambda>out. output_key L (fst out) None) ` set outs \<longrightarrow> db_get d' k = db_get d k)"
  using assms
proof (induction L log_id parent h commits outs t d arbitrary: t' d' rule: save_changes.induct)
  case (2 L log_id parent h commits i m v outs t d)
  then obtain c a where c: "commits i = Some (c, a)" by (auto simp: pbind_eq_Ret)
  let ?o = "\<lparr>od_root_key_id = parent, od_key_id = i, od_n_child = last_path_index L (to_path L i), od_commit = c,
    od_mmr_index = None, od_value = a, od_status = Unconfirmed, od_height = h, od_lock_height = 0,
    od_is_coinbase = False, od_tx_log_entry = Some log_id\<rparr>"
  have "save_changes L log_id parent h commits outs
      (t\<lparr>le_num_outputs := le_num_outputs t + 1, le_amount_credited := le_amount_credited t + a\<rparr>)
      (batch_save L ?o d) = Ret (t', d')"
    using "2.prems"(1) c by (simp add: pbind_eq_Ret)
  from "2.IH" [OF this store_ok_save [OF "2.prems"(2)]] show ?case
    by (auto simp: batch_save_def db.get_put)
qed simp

text \<open>The keys of the log are no keys of outputs.\<close>

lemma log_keys_apart:
  assumes "store_key_laws L"
  shows "to_key L TX_LOG_ID_PREFIX parent \<noteq> output_key L i m"
    "to_key_u64 L TX_LOG_ENTRY_PREFIX parent n \<noteq> output_key L i m"
proof -
  have "take 1 (to_key L TX_LOG_ID_PREFIX parent) \<noteq> take 1 (output_key L i m)"
    "take 1 (to_key_u64 L TX_LOG_ENTRY_PREFIX parent n) \<noteq> take 1 (output_key L i m)"
    using take_1_key [OF assms] output_key_prefix [OF assms] by (simp_all add: prefix_defs del: One_nat_def)
  then show "to_key L TX_LOG_ID_PREFIX parent \<noteq> output_key L i m"
    "to_key_u64 L TX_LOG_ENTRY_PREFIX parent n \<noteq> output_key L i m" by metis+
qed

lemma next_tx_log_id_get:
  "next_tx_log_id L parent d = Inr (i, d') \<Longrightarrow> k \<noteq> to_key L TX_LOG_ID_PREFIX parent \<Longrightarrow> db_get d' k = db_get d k"
  by (auto simp: next_tx_log_id_def Let_def rbind_eq_Ok db.get_put)

lemma store_tx_db [simp]: "lm_db (store_tx L u tx w) = lm_db w"
  by (simp add: store_tx_def)

lemma commit_batch_db [simp]: "lm_db (commit_batch d w) = d"
  by (simp add: commit_batch_def)

text \<open>The steps of \<open>lock_tx_context\<close> that returned.\<close>

lemma lock_tx_context_steps:
  assumes "lock_tx_context L now mk sl h ctx ov w = Ret (Ok (), w')"
  obtains commits log_id d0 debited d1 t t' d2 where
    "next_tx_log_id L (parent_key_id ctx) (lm_db w) = Inr (log_id, d0)"
    "lock_coins L log_id (input_ids ctx) 0 d0 = Ret (debited, d1)"
    "save_changes L log_id (parent_key_id ctx) h commits (output_ids ctx) t d1 = Ret (t', d2)"
    "le_id t = log_id" "le_amount_debited t = debited" "le_num_inputs t = length (input_ids ctx)"
    "le_tx_slate_id t = Some (slate_id sl)"
    "lm_db w' = save_tx_log_entry L t' (parent_key_id ctx) d2"
proof -
  from assms obtain commits log_id d0 debited d1 t t' d2 where
    "next_tx_log_id L (parent_key_id ctx) (lm_db w) = Inr (log_id, d0)"
    "lock_coins L log_id (input_ids ctx) 0 d0 = Ret (debited, d1)"
    "save_changes L log_id (parent_key_id ctx) h commits (output_ids ctx) t d1 = Ret (t', d2)"
    "le_id t = log_id" "le_amount_debited t = debited" "le_num_inputs t = length (input_ids ctx)"
    "le_tx_slate_id t = Some (slate_id sl)"
    "lm_db w' = save_tx_log_entry L t' (parent_key_id ctx) d2"
    unfolding lock_tx_context_def Let_def
    by (auto simp: wallet_Ret tx_log_entry_new_def)
  then show ?thesis by (rule that)
qed

lemma tx_log_iter_save:
  assumes "store_key_laws L" "db_wf d"
  shows "t \<in> set (tx_log_iter (save_tx_log_entry L t parent d))"
proof -
  let ?k = "to_key_u64 L TX_LOG_ENTRY_PREFIX parent (ucast (le_id t))"
  have "(?k, VTxLog t) \<in> set (save_tx_log_entry L t parent d)"
    using db_get_mem [OF db.wf_put [OF assms(2)], of ?k "VTxLog t" ?k "VTxLog t"] by (simp add: save_tx_log_entry_def db.get_put)
  moreover have "take 1 ?k = [TX_LOG_ENTRY_PREFIX]" by (rule take_1_key [OF assms(1)])
  ultimately show ?thesis
    by (force simp: tx_log_iter_def db_scan_def List.map_filter_def image_iff simp del: One_nat_def)
qed

text \<open>A locked coin is not eligible, so no selection returns it.\<close>

lemma locked_coin_not_eligible:
  assumes "store_ok L (lm_db w)" "store_key_laws L" "locked_by L log_id (lm_db w) inp"
    and "coin \<in> set (eligible_coins w h m parent)"
  shows "output_key L (od_key_id coin) (od_mmr_index coin) \<noteq> input_key L inp"
proof
  assume "output_key L (od_key_id coin) (od_mmr_index coin) = input_key L inp"
  moreover have "coin \<in> set (od_iter (lm_db w))" "od_status coin \<noteq> Locked"
    using assms(4) by (auto simp: eligible_coins_def eligible_to_spend_def)
  ultimately show False
    using assms(3) od_iter_iff [OF assms(1,2)] by (auto simp: locked_by_def get_output_iff)
qed

lemma select_coins_eligible:
  assumes "select_coins w amount h m max_outputs all parent = Ret (n, coins)"
  shows "set coins \<subseteq> set (eligible_coins w h m parent)"
proof -
  have from_sub: "set out \<subseteq> set cs" if "select_from a all cs = Some out" for a all cs out
    using that take_until_prefix [of a 0 cs] by (auto simp: select_from_def split: if_splits) (metis in_set_takeD)
  have win: "set out \<subseteq> set cs" if w: "first_window a all (windows k cs) = Some out" for a all k cs out
  proof -
    obtain v where v: "v \<in> set (windows k cs)" "select_from a all v = Some out"
      using first_window_Some [OF w] by blast
    then obtain i where "v = take k (drop i cs)" by (auto simp: windows_def)
    with from_sub [OF v(2)] show ?thesis by (auto dest!: in_set_takeD in_set_dropD)
  qed
  show ?thesis
    using assms by (fastforce simp: select_coins_def Let_def split: if_splits option.splits dest: from_sub win in_set_takeD)
qed

lemma lock_keeps_store:
  assumes "lock_tx_context L now keychain_mask sl height ctx excess w = Ret (Ok (), w')"
    and "store_ok L (lm_db w)" "store_key_laws L"
  shows "store_ok L (lm_db w')"
proof -
  from assms(1) obtain commits log_id d0 debited d1 t t' d2 where
    s: "next_tx_log_id L (parent_key_id ctx) (lm_db w) = Inr (log_id, d0)"
    "lock_coins L log_id (input_ids ctx) 0 d0 = Ret (debited, d1)"
    "save_changes L log_id (parent_key_id ctx) height commits (output_ids ctx) t d1 = Ret (t', d2)"
    and w': "lm_db w' = save_tx_log_entry L t' (parent_key_id ctx) d2"
    by (rule lock_tx_context_steps)
  have "store_ok L d0" using store_ok_index(1) [OF assms(3,2) s(1)] .
  with lock_coins_run [OF s(2)] save_changes_run [OF s(3)] have "store_ok L d2" by blast
  then show ?thesis unfolding w' by (rule store_ok_index(3) [OF assms(3)])
qed

text \<open>
  C12. Locking a transaction's context takes its coins out of circulation. Where
  \<open>lock_tx_context\<close> returns, the database still stores every output under its own key, each input
  of the context is locked under the id of the new log entry, that entry is in the log with as many
  inputs as the context has and with the sum of the coins' values as the amount debited, the
  outputs that are neither inputs nor change are untouched, and no later selection of coins, for
  any amount, height or account, returns one of the inputs.
\<close>

theorem wallet_locks_inputs:
  assumes "lock_tx_context L now keychain_mask sl height ctx excess w = Ret (Ok (), w')"
    and "store_ok L (lm_db w)" "store_key_laws L"
    and "\<forall>inp \<in> set (input_ids ctx). \<forall>out \<in> set (output_ids ctx). input_key L inp \<noteq> output_key L (fst out) None"
  shows "store_ok L (lm_db w') \<and>
    (\<exists>t coins. t \<in> set (tx_log_iter (lm_db w')) \<and> le_tx_slate_id t = Some (slate_id sl) \<and>
       le_num_inputs t = length (input_ids ctx) \<and>
       list_all2 (\<lambda>inp c. get_output L (lm_db w) (fst inp) (fst (snd inp)) = Inr c) (input_ids ctx) coins \<and>
       le_amount_debited t = sum_outputs coins \<and>
       (\<forall>inp \<in> set (input_ids ctx). locked_by L (le_id t) (lm_db w') inp)) \<and>
    (\<forall>i m. output_key L i m \<notin> input_key L ` set (input_ids ctx) \<union> (\<lambda>out. output_key L (fst out) None) ` set (output_ids ctx) \<longrightarrow>
       get_output L (lm_db w') i m = get_output L (lm_db w) i m) \<and>
    (\<forall>amount h m max_outputs all parent n coins inp.
       select_coins w' amount h m max_outputs all parent = Ret (n, coins) \<and> inp \<in> set (input_ids ctx) \<longrightarrow>
       (\<forall>c \<in> set coins. output_key L (od_key_id c) (od_mmr_index c) \<noteq> input_key L inp))"
proof -
  from assms(1) obtain commits log_id d0 debited d1 t t' d2 where
    s: "next_tx_log_id L (parent_key_id ctx) (lm_db w) = Inr (log_id, d0)"
    "lock_coins L log_id (input_ids ctx) 0 d0 = Ret (debited, d1)"
    "save_changes L log_id (parent_key_id ctx) height commits (output_ids ctx) t d1 = Ret (t', d2)"
    and t: "le_id t = log_id" "le_amount_debited t = debited" "le_num_inputs t = length (input_ids ctx)"
    "le_tx_slate_id t = Some (slate_id sl)"
    and w': "lm_db w' = save_tx_log_entry L t' (parent_key_id ctx) d2"
    by (rule lock_tx_context_steps)
  have ok0: "store_ok L d0" using store_ok_index(1) [OF assms(3,2) s(1)] .
  have get0: "db_get d0 (output_key L i m) = db_get (lm_db w) (output_key L i m)" for i m
    using next_tx_log_id_get [OF s(1)] log_keys_apart(1) [OF assms(3)] by metis
  from lock_coins_run [OF s(2) ok0] obtain coins where
    lc: "store_ok L d1" "\<forall>inp \<in> set (input_ids ctx). locked_by L log_id d1 inp"
    "\<forall>k. k \<notin> input_key L ` set (input_ids ctx) \<longrightarrow> db_get d1 k = db_get d0 k"
    "list_all2 (\<lambda>inp c. get_output L d0 (fst inp) (fst (snd inp)) = Inr c) (input_ids ctx) coins"
    "debited = foldl (\<lambda>acc c. acc + od_value c) 0 coins" by auto
  note sc = save_changes_run [OF s(3) lc(1)]
  have ok': "store_ok L (lm_db w')" by (rule lock_keeps_store [OF assms(1-3)])
  have get': "db_get (lm_db w') (output_key L i m) = db_get d2 (output_key L i m)" for i m
    using log_keys_apart(2) [OF assms(3), THEN not_sym] by (simp add: w' save_tx_log_entry_def db.get_put)
  have locked: "locked_by L log_id (lm_db w') inp" if "inp \<in> set (input_ids ctx)" for inp
    using that lc(2) sc assms(4) get' by (fastforce simp: locked_by_def get_output_iff)
  have log: "t' \<in> set (tx_log_iter (lm_db w'))"
    unfolding w' using sc by (intro tx_log_iter_save assms(3)) (simp add: store_ok_def)
  have coins: "list_all2 (\<lambda>inp c. get_output L (lm_db w) (fst inp) (fst (snd inp)) = Inr c) (input_ids ctx) coins"
    using lc(4) get0 by (simp add: get_output_iff)
  have other: "get_output L (lm_db w') i m = get_output L (lm_db w) i m"
    if "output_key L i m \<notin> input_key L ` set (input_ids ctx) \<union> (\<lambda>out. output_key L (fst out) None) ` set (output_ids ctx)" for i m
    using that get' get0 lc(3) sc by (simp add: get_output_def get_ser_def)
  have apart: "output_key L (od_key_id c) (od_mmr_index c) \<noteq> input_key L inp"
    if "select_coins w' amount h m max_outputs all parent = Ret (n, cs)" "inp \<in> set (input_ids ctx)" "c \<in> set cs"
    for amount h m max_outputs all parent n cs inp c
    using locked_coin_not_eligible [OF ok' assms(3) locked [OF that(2)]] select_coins_eligible [OF that(1)] that(3) by blast
  show ?thesis
    using ok' log coins other locked lc(5) t sc apart
    by (intro conjI exI [of _ t'] exI [of _ coins]) (auto simp: sum_outputs_def)
qed

section \<open>Stored contexts\<close>

lemma xor_bytes_invol: "length a \<le> length b \<Longrightarrow> xor_bytes (xor_bytes a b) b = a"
  by (induction a b rule: list_induct2') (auto simp: xor_bytes_def xor.assoc)

text \<open>
  The secrets of a transaction survive their storage. A context written by
  \<open>save_private_context\<close> under a slate's id is the context that \<open>get_private_context\<close> gives back, with
  every field as it was, as long as the hash is at least as long as the two secrets it hides; and
  after \<open>delete_private_context\<close> it is gone.
\<close>

theorem private_context_roundtrip:
  assumes "keychain L w keychain_mask = Inr k" "kc_derive_key L k 0 (root_key_id L) = Some root_key"
    and "\<And>bs. length (sec_key ctx) \<le> length (blake2b L bs) \<and> length (sec_nonce ctx) \<le> length (blake2b L bs)"
  shows "\<exists>d. save_private_context L k sid ctx (lm_db w) = Inr d \<and>
    get_private_context L (commit_batch d w) keychain_mask sid = Inr ctx \<and>
    get_private_context L (commit_batch (delete_private_context L sid d) w) keychain_mask sid = Inl NotFoundErr"
proof -
  have k: "keychain L (commit_batch d w) keychain_mask = Inr k" for d
    using assms(1) by (simp add: keychain_def commit_batch_def cong: option.case_cong)
  show ?thesis using assms(2,3)
    by (simp add: save_private_context_def private_ctx_xor_keys_def get_private_context_def k get_ser_def ok_or_def
        option_to_not_found_def db.get_put db.get_del delete_private_context_def xor_context_def xor_bytes_invol)
qed

end
