(* ===== verification/Wallet_Cancel.thy ===== *)
theory Wallet_Cancel
  imports Wallet_Tx Wallet_Locks
begin

text \<open>
  Cancelling a transaction gives its coins back, and the node's word moves outputs through their
  states.
\<close>

section \<open>Cancelling\<close>

abbreviation home_key :: "('z StoreLib_scheme) \<Rightarrow> OutputData \<Rightarrow> bytes" where
  "home_key L out \<equiv> output_key L (od_key_id out) (od_mmr_index out)"

text \<open>What cancelling leaves of an output: unconfirmed ones go, locked ones are free again.\<close>

definition cancelled :: "OutputData \<Rightarrow> OutputData option" where
  "cancelled out =
     (if od_status out \<in> {Unconfirmed, Reverted} then None
      else if od_status out = Locked then Some (out\<lparr>od_status := Unspent\<rparr>)
      else Some out)"

lemma cancel_output_get:
  "db_get (cancel_output L out d) k =
     (if k = home_key L out \<and> od_status out \<in> {Unconfirmed, Reverted, Locked}
      then map_option VOutput (cancelled out) else db_get d k)"
  by (auto simp: cancel_output_def Let_def batch_delete_def batch_save_def db.get_put db.get_del cancelled_def)

lemma store_ok_cancel: "store_ok L d \<Longrightarrow> store_ok L (cancel_output L out d)"
  by (auto simp: cancel_output_def Let_def batch_delete_def intro!: store_ok_delete)

lemma cancel_outputs_get:
  assumes "db_get d (home_key L out) = Some (VOutput out)"
    and "\<forall>x \<in> set outs. home_key L x = home_key L out \<longrightarrow> x = out"
  shows "db_get (fold (cancel_output L) outs d) (home_key L out) =
    (if out \<in> set outs then map_option VOutput (cancelled out) else Some (VOutput out))"
proof -
  have "db_get (fold (cancel_output L) outs d) (home_key L out) =
      (if out \<in> set outs then map_option VOutput (cancelled out) else db_get d (home_key L out))"
    if "db_get d (home_key L out) \<in> {Some (VOutput out), map_option VOutput (cancelled out)}" for d
    using that assms(2)
  proof (induction outs arbitrary: d)
    case (Cons x outs)
    then show ?case
      by (cases "x = out") (auto simp: cancel_output_get cancelled_def split: if_splits)
  qed simp
  with assms(1) show ?thesis by simp
qed

lemma store_ok_cancels: "store_ok L d \<Longrightarrow> store_ok L (fold (cancel_output L) outs d)"
  by (induction outs arbitrary: d) (auto simp: store_ok_cancel)

text \<open>The outputs that cancelling a log entry fetches.\<close>

lemma retrieve_outputs_Ok:
  assumes "retrieve_outputs L mk False (Some i) (Some parent) w = Ret (Inr res)"
  shows "set (map ocm_output res) =
    {out \<in> set (od_iter (lm_db w)). od_status out \<noteq> Spent \<and> od_tx_log_entry out = Some i \<and> od_root_key_id out = parent}"
proof -
  let ?outs = "sort_key od_n_child (filter (\<lambda>out. od_root_key_id out = parent)
    (filter (\<lambda>out. od_tx_log_entry out = Some i) (filter (\<lambda>out. od_status out \<noteq> Spent) (od_iter (lm_db w)))))"
  have same: "map ocm_output ys = xs"
    if "list_all2 (\<lambda>x y. pbind (output_commitment L kc x) (\<lambda>c. Ret \<lparr>ocm_output = x, ocm_commit = c\<rparr>) = Ret y) xs ys"
    for kc xs ys using that by (induction rule: list_all2_induct) (auto simp: pbind_eq_Ret)
  from assms obtain kc where
    "map_proc (\<lambda>out. pbind (output_commitment L kc out) (\<lambda>c. Ret \<lparr>ocm_output = out, ocm_commit = c\<rparr>)) ?outs = Ret res"
    by (auto simp: retrieve_outputs_def Let_def pbind_eq_Ret split: sum.splits)
  then have "map ocm_output res = ?outs" by (intro same) (simp add: map_proc_eq_Ret)
  then have "set (map ocm_output res) = set ?outs" by (rule arg_cong)
  then show ?thesis by auto
qed

text \<open>
  C21. Cancelling a transaction undoes it. \<open>cancel_tx\<close> succeeds only for one unconfirmed sent, received or
  reverted transaction of the account; it then marks that log entry as cancelled, gives every coin
  that was locked for it back as unspent, deletes the outputs it would have created, and leaves every
  other output of the wallet as it was.
\<close>

theorem cancel_releases_coins:
  assumes "cancel_tx L keychain_mask parent tx_id tx_slate_id w = Ret (Ok (), w')"
    and "store_ok L (lm_db w)" "store_key_laws L"
  shows "store_ok L (lm_db w') \<and>
    (\<exists>t \<in> set (tx_log_iter (lm_db w)).
       le_parent_key_id t = parent \<and> (tx_id \<noteq> None \<longrightarrow> tx_id = Some (le_id t)) \<and>
       (tx_slate_id \<noteq> None \<longrightarrow> tx_slate_id = le_tx_slate_id t) \<and>
       le_tx_type t \<in> {TxSent, TxReceived, TxReverted} \<and> \<not> le_confirmed t \<and>
       t\<lparr>le_tx_type := cancel_type (le_tx_type t)\<rparr> \<in> set (tx_log_iter (lm_db w')) \<and>
       (\<forall>out \<in> set (od_iter (lm_db w)).
          get_output L (lm_db w') (od_key_id out) (od_mmr_index out) =
            (if od_tx_log_entry out = Some (le_id t) \<and> od_root_key_id out = parent
             then ok_or NotFoundErr (cancelled out) else Inr out)))"
proof -
  from assms(1) obtain t res where
    t: "retrieve_txs w tx_id tx_slate_id (Some parent) False = Inr [t]"
      "le_tx_type t \<in> {TxSent, TxReceived, TxReverted}" "\<not> le_confirmed t"
    and res: "retrieve_outputs L keychain_mask False (Some (le_id t)) (Some parent) w = Ret (Inr res)"
    and run: "cancel_tx_and_outputs L keychain_mask t (map ocm_output res) parent w = (Ok (), w')"
    unfolding cancel_tx_def
    by (auto simp: Let_def wallet_Ret length_Suc_conv split: if_splits)
  let ?t = "t\<lparr>le_tx_type := cancel_type (le_tx_type t)\<rparr>"
  let ?outs = "map ocm_output res"
  let ?d = "fold (cancel_output L) ?outs (lm_db w)"
  have w': "lm_db w' = save_tx_log_entry L ?t parent ?d"
    using run by (auto simp: cancel_tx_and_outputs_def Let_def split: sum.splits)
  have ok: "store_ok L ?d" by (rule store_ok_cancels [OF assms(2)])
  have log: "?t \<in> set (tx_log_iter (lm_db w'))"
    unfolding w' using ok by (intro tx_log_iter_save assms(3)) (simp add: store_ok_def)
  have "t \<in> set (sort_key le_creation_ts (filter (\<lambda>t. le_parent_key_id t = parent \<and>
      (case tx_id of Some i \<Rightarrow> le_id t = i | None \<Rightarrow> True) \<and>
      (case tx_slate_id of Some u \<Rightarrow> le_tx_slate_id t = Some u | None \<Rightarrow> True)) (tx_log_iter (lm_db w))))"
    using t(1) by (simp add: retrieve_txs_def)
  then have in_log: "t \<in> set (tx_log_iter (lm_db w))" "le_parent_key_id t = parent"
    "tx_id \<noteq> None \<longrightarrow> tx_id = Some (le_id t)" "tx_slate_id \<noteq> None \<longrightarrow> tx_slate_id = le_tx_slate_id t"
    by (auto split: option.splits)
  have out: "get_output L (lm_db w') (od_key_id out) (od_mmr_index out) =
      (if od_tx_log_entry out = Some (le_id t) \<and> od_root_key_id out = parent
       then ok_or NotFoundErr (cancelled out) else Inr out)" if o: "out \<in> set (od_iter (lm_db w))" for out
  proof -
    note iter = od_iter_iff [OF assms(2,3)]
    have home: "db_get (lm_db w) (home_key L out) = Some (VOutput out)" using o iter by simp
    have mem: "x \<in> set (od_iter (lm_db w))" if "x \<in> set ?outs" for x
      using that unfolding retrieve_outputs_Ok [OF res] by simp
    have "\<forall>x \<in> set ?outs. home_key L x = home_key L out \<longrightarrow> x = out"
      using mem iter home by (metis db_value.inject(1) option.inject)
    from cancel_outputs_get [OF home this]
    have "db_get ?d (home_key L out) =
      (if out \<in> set ?outs then map_option VOutput (cancelled out) else Some (VOutput out))" .
    moreover have "db_get (lm_db w') (home_key L out) = db_get ?d (home_key L out)"
      using log_keys_apart(2) [OF assms(3), THEN not_sym] by (simp add: w' save_tx_log_entry_def db.get_put)
    moreover have "cancelled out = Some out" if "od_status out = Spent" using that by (simp add: cancelled_def)
    ultimately show ?thesis
      using o unfolding retrieve_outputs_Ok [OF res]
      by (auto simp: get_output_def get_ser_def option_to_not_found_def ok_or_def split: option.splits)
  qed
  show ?thesis
    using store_ok_index(3) [OF assms(3) ok] in_log t(2,3) log out unfolding w' by blast
qed

end
