(* ===== verification/Wallet_Refresh.thy ===== *)
theory Wallet_Refresh
  imports Wallet_Cancel
begin

text \<open>
  What a refresh does to the wallet's outputs, what the balance adds up, and that accounts stay
  apart.
\<close>

section \<open>The node's word on an output\<close>

text \<open>The state of an output after a refresh: one the node has is unspent unless it is locked or
  spent; one it does not have is spent, or reverted where the kernel of its transaction is gone.\<close>

definition refreshed_status :: "bool \<Rightarrow> bool \<Rightarrow> OutputStatus \<Rightarrow> OutputStatus" where
  "refreshed_status on_chain reverted s =
     (if on_chain then (if s \<in> {Unconfirmed, Reverted} then Unspent else s)
      else if reverted then (if s = Unspent then Reverted else s)
      else (if s \<in> {Unspent, Locked} then Spent else s))"

definition refreshed ::
  "(Commitment \<Rightarrow> (string \<times> u64 \<times> u64) option) \<Rightarrow> u32 list \<Rightarrow> Commitment \<Rightarrow> OutputData \<Rightarrow> OutputData \<Rightarrow> bool" where
  "refreshed api_outputs reverted_kernels commit out out' \<longleftrightarrow>
     od_key_id out' = od_key_id out \<and> od_mmr_index out' = od_mmr_index out \<and> od_value out' = od_value out \<and>
     od_status out' = refreshed_status (api_outputs commit \<noteq> None)
       (\<not> od_is_coinbase out \<and> (\<exists>i \<in> set reverted_kernels. od_tx_log_entry out = Some i)) (od_status out) \<and>
     od_height out' = (case api_outputs commit of Some (_, h, _) \<Rightarrow> h | None \<Rightarrow> od_height out)"

lemma marks:
  "mark_unspent out = out\<lparr>od_status := if od_status out \<in> {Unconfirmed, Reverted} then Unspent else od_status out\<rparr>"
  "mark_spent out = out\<lparr>od_status := if od_status out \<in> {Unspent, Locked} then Spent else od_status out\<rparr>"
  "mark_reverted out = out\<lparr>od_status := if od_status out = Unspent then Reverted else od_status out\<rparr>"
  by (simp_all add: mark_unspent_def mark_spent_def mark_reverted_def split: OutputStatus.splits)

text \<open>Writes to the log leave the outputs alone.\<close>

definition same_outputs :: "('z StoreLib_scheme) \<Rightarrow> db \<Rightarrow> db \<Rightarrow> bool" where
  "same_outputs L d d' \<longleftrightarrow> store_ok L d' \<and> (\<forall>i m. db_get d' (output_key L i m) = db_get d (output_key L i m))"

lemma same_outputs_trans: "same_outputs L d d' \<Longrightarrow> same_outputs L d' d'' \<Longrightarrow> same_outputs L d d''"
  by (simp add: same_outputs_def)

lemma same_outputs_log:
  assumes "store_key_laws L" "store_ok L d"
  shows "same_outputs L d d" "same_outputs L d (save_tx_log_entry L t parent d)"
    "same_outputs L d (save_last_confirmed_height L parent h d)"
    "next_tx_log_id L parent d = Inr (i, d') \<Longrightarrow> same_outputs L d d'"
    "same_outputs L d (confirm_entry L now parent out d)"
proof -
  show log: "same_outputs L d (save_tx_log_entry L t parent d)" for t
    using store_ok_index(3) [OF assms] log_keys_apart(2) [OF assms(1), THEN not_sym]
    by (simp add: same_outputs_def save_tx_log_entry_def db.get_put)
  show refl: "same_outputs L d d" using assms(2) by (simp add: same_outputs_def)
  have "take 1 (to_key L CONFIRMED_HEIGHT_PREFIX parent) \<noteq> take 1 (output_key L i m)" for i m
    by (simp add: take_1_key [OF assms(1)] output_key_prefix [OF assms(1)] prefix_defs del: One_nat_def)
  then have "output_key L i m \<noteq> to_key L CONFIRMED_HEIGHT_PREFIX parent" for i m by metis
  then show "same_outputs L d (save_last_confirmed_height L parent h d)"
    using store_ok_index(4) [OF assms] by (simp add: same_outputs_def save_last_confirmed_height_def db.get_put)
  show "next_tx_log_id L parent d = Inr (i, d') \<Longrightarrow> same_outputs L d d'"
    using store_ok_index(1) [OF assms] next_tx_log_id_get log_keys_apart(1) [OF assms(1), THEN not_sym]
    by (metis same_outputs_def)
  show "same_outputs L d (confirm_entry L now parent out d)"
    using refl log by (simp add: confirm_entry_def Let_def split: option.splits)
qed

lemma same_outputs_fold:
  fixes L :: "'z WalletLib_scheme"
  assumes "store_key_laws L" "store_ok L d"
  shows "same_outputs L d (fold (\<lambda>t d. if P t then save_tx_log_entry L (f t) parent d else d) ts d)"
  using assms(2)
proof (induction ts arbitrary: d)
  case (Cons t ts)
  have "same_outputs L d (if P t then save_tx_log_entry L (f t) parent d else d)"
    using same_outputs_log(1,2) [OF assms(1) Cons.prems] by simp
  then show ?case using Cons.IH same_outputs_trans by (fastforce simp: same_outputs_def)
qed (simp add: same_outputs_def)

text \<open>One step of the loop.\<close>

lemma apply_output_step:
  assumes "apply_output L now api rk h parent (c, i, m, x) d = Inr d'" "store_ok L d" "store_key_laws L"
  shows "store_ok L d'"
    and "k = output_key L i' m' \<Longrightarrow> k \<noteq> output_key L i m \<Longrightarrow> db_get d' k = db_get d k"
    and "get_output L d i m = Inr out \<Longrightarrow> \<exists>out'. get_output L d' i m = Inr out' \<and> refreshed api rk c out out'"
proof -
  have "store_ok L d' \<and> (\<forall>i' m'. output_key L i' m' \<noteq> output_key L i m \<longrightarrow> db_get d' (output_key L i' m') = db_get d (output_key L i' m')) \<and>
    (\<forall>out. get_output L d i m = Inr out \<longrightarrow> (\<exists>out'. get_output L d' i m = Inr out' \<and> refreshed api rk c out out'))"
  proof (cases "get_output L d i m")
    case (Inl e)
    then show ?thesis using assms(1,2) by (cases x) (simp add: apply_output_def)
  next
    case (Inr out)
    have home: "home_key L out = output_key L i m"
      using stored_at_home [OF assms(2)] Inr by (simp add: get_output_iff)
    have "\<exists>d1 out'. same_outputs L d d1 \<and> d' = batch_save L out' d1 \<and> refreshed api rk c out out'"
    proof (cases "api c")
      case None
      let ?rev = "\<not> od_is_coinbase out \<and> (case od_tx_log_entry out of Some i \<Rightarrow> i \<in> set rk | None \<Rightarrow> False)"
      have "d' = batch_save L (if ?rev then mark_reverted out else mark_spent out) d"
        using assms(1) Inr None by (cases x) (simp add: apply_output_def)
      moreover have "refreshed api rk c out (if ?rev then mark_reverted out else mark_spent out)"
        using None by (auto simp: refreshed_def refreshed_status_def marks split: option.splits)
      ultimately show ?thesis using same_outputs_log(1) [OF assms(3,2)] by blast
    next
      case (Some a)
      let ?new = "\<lambda>out d. (if \<not> od_is_coinbase out \<and> od_status out \<in> {Unconfirmed, Reverted} then confirm_entry L now parent out d else d)"
      let ?coin = "if od_is_coinbase out \<and> od_status out = Unconfirmed
        then rbind (next_tx_log_id L parent d) (\<lambda>(log_id, d).
             rbind (coinbase_entry L now h parent c out log_id) (\<lambda>t.
             Ok (out\<lparr>od_tx_log_entry := Some log_id\<rparr>, save_tx_log_entry L t parent d)))
        else Ok (out, d)"
      have "rbind ?coin (\<lambda>(out, d). Ok (batch_save L (mark_unspent (out\<lparr>od_height := fst (snd a)\<rparr>)) (?new out d))) = Inr d'"
        using assms(1) Inr Some by (cases x) (simp add: apply_output_def Let_def)
      then obtain out1 d1 where c1: "?coin = Inr (out1, d1)"
        and d': "d' = batch_save L (mark_unspent (out1\<lparr>od_height := fst (snd a)\<rparr>)) (?new out1 d1)"
        unfolding rbind_eq_Ok by auto
      have o1: "out1 = out \<and> d1 = d \<or> (\<exists>log_id d0 t. next_tx_log_id L parent d = Inr (log_id, d0) \<and>
          out1 = out\<lparr>od_tx_log_entry := Some log_id\<rparr> \<and> d1 = save_tx_log_entry L t parent d0)"
        using c1 by (auto simp: rbind_eq_Ok split: if_splits)
      have s1: "same_outputs L d d1"
        using o1 same_outputs_log [OF assms(3,2)] same_outputs_log(2) [OF assms(3)]
        by (metis same_outputs_def same_outputs_trans)
      then have "same_outputs L d1 (?new out1 d1)"
        using same_outputs_log(1,5) [OF assms(3)] by (simp add: same_outputs_def)
      with s1 have "same_outputs L d (?new out1 d1)" by (rule same_outputs_trans)
      moreover have "refreshed api rk c out (mark_unspent (out1\<lparr>od_height := fst (snd a)\<rparr>))"
        using o1 Some by (cases a) (auto simp: refreshed_def refreshed_status_def marks)
      ultimately show ?thesis using d' by blast
    qed
    then obtain d1 out' where s: "same_outputs L d d1" "d' = batch_save L out' d1" "refreshed api rk c out out'" by blast
    then have "home_key L out' = output_key L i m" using home by (simp add: refreshed_def)
    then show ?thesis using s Inr
      by (auto simp: batch_save_def db.get_put get_output_iff same_outputs_def intro!: store_ok_put simp: at_home_def)
  qed
  then show "store_ok L d'" "k = output_key L i' m' \<Longrightarrow> k \<noteq> output_key L i m \<Longrightarrow> db_get d' k = db_get d k"
    "get_output L d i m = Inr out \<Longrightarrow> \<exists>out'. get_output L d' i m = Inr out' \<and> refreshed api rk c out out'" by auto
qed

text \<open>The loop: each listed output is refreshed once, the others stay.\<close>

definition entry_key :: "('z StoreLib_scheme) \<Rightarrow> Commitment \<times> wallet_output \<Rightarrow> bytes" where
  "entry_key L e = output_key L (fst (snd e)) (fst (snd (snd e)))"

lemma apply_outputs_run:
  assumes "apply_outputs L now api rk h parent es d = Inr d'" "store_ok L d" "store_key_laws L" "distinct (map (entry_key L) es)"
  shows "store_ok L d' \<and>
    (\<forall>i m. output_key L i m \<notin> entry_key L ` set es \<longrightarrow> db_get d' (output_key L i m) = db_get d (output_key L i m)) \<and>
    (\<forall>(c, i, m, x) \<in> set es. \<forall>out. get_output L d i m = Inr out \<longrightarrow>
       (\<exists>out'. get_output L d' i m = Inr out' \<and> refreshed api rk c out out'))"
  using assms(1,2,4)
proof (induction es arbitrary: d)
  case (Cons e es)
  obtain c i m x where e: "e = (c, i, m, x)" by (cases e)
  from Cons.prems(1) obtain d1 where
    d1: "apply_output L now api rk h parent (c, i, m, x) d = Inr d1" "apply_outputs L now api rk h parent es d1 = Inr d'"
    by (auto simp: rbind_eq_Ok e)
  note step = apply_output_step [OF d1(1) Cons.prems(2) assms(3)]
  have dist: "distinct (map (entry_key L) es)" "output_key L i m \<notin> entry_key L ` set es"
    using Cons.prems(3) by (simp_all add: e) (simp add: entry_key_def)
  note IH = Cons.IH [OF d1(2) step(1) dist(1)]
  have head: "\<exists>out'. get_output L d' i m = Inr out' \<and> refreshed api rk c out out'" if "get_output L d i m = Inr out" for out
    using step(3) [OF that] IH dist(2) by (simp add: get_output_iff)
  have tail: "\<exists>out'. get_output L d' i' m' = Inr out' \<and> refreshed api rk c' out out'"
    if "(c', i', m', x') \<in> set es" "get_output L d i' m' = Inr out" for c' i' m' x' out
  proof -
    have "output_key L i' m' \<in> entry_key L ` set es" using that(1) by (force simp: entry_key_def)
    then have "output_key L i' m' \<noteq> output_key L i m" using dist(2) by metis
    then have "get_output L d1 i' m' = Inr out" using that(2) step(2) [OF refl] by (simp add: get_output_iff)
    then show ?thesis using IH that(1) by fastforce
  qed
  show ?case using IH head tail step(2) by (auto simp: e entry_key_def)
qed auto

text \<open>
  C17. A refresh moves every output to the state the chain gives it. Where the height is not below
  the last one seen, \<open>apply_api_outputs\<close> rewrites each listed output that the wallet has according to
  \<open>refreshed_status\<close>: an output the node has becomes unspent when it was unconfirmed or reverted and
  takes the node's height, a locked coin stays locked until it disappears and is spent then, an
  unspent output whose transaction's kernel is gone is reverted; its value and key do not change.
  The outputs that are not listed stay as they were, and the new height is recorded.
\<close>

theorem refresh_follows_chain:
  assumes "apply_api_outputs L now keychain_mask wallet_outputs api_outputs reverted_kernels height parent w = (Ok (), w')"
    and "last_confirmed_height L w = Inr h" "h \<le> height"
    and "store_ok L (lm_db w)" "store_key_laws L" "distinct (map (entry_key L) wallet_outputs)"
  shows "store_ok L (lm_db w') \<and>
    get_ser as_height (lm_db w') (to_key L CONFIRMED_HEIGHT_PREFIX parent) = Inr (Some height) \<and>
    (\<forall>i m. output_key L i m \<notin> entry_key L ` set wallet_outputs \<longrightarrow>
       get_output L (lm_db w') i m = get_output L (lm_db w) i m) \<and>
    (\<forall>(c, i, m, x) \<in> set wallet_outputs. \<forall>out. get_output L (lm_db w) i m = Inr out \<longrightarrow>
       (\<exists>out'. get_output L (lm_db w') i m = Inr out' \<and> refreshed api_outputs reverted_kernels c out out'))"
proof -
  from assms(1-3) obtain d where
    d: "apply_outputs L now api_outputs reverted_kernels height parent wallet_outputs (lm_db w) = Inr d"
    and w': "lm_db w' = save_last_confirmed_height L parent height
      (fold (\<lambda>t d. if le_id t \<in> set reverted_kernels \<and> le_parent_key_id t = parent
         then save_tx_log_entry L (revert_entry now t) parent d else d) (tx_log_iter d) d)"
    by (auto simp: apply_api_outputs_def Let_def rbind_eq_Ok split: sum.splits if_splits)
  note run = apply_outputs_run [OF d assms(4-6)]
  then have "same_outputs L d (fold (\<lambda>t d. if le_id t \<in> set reverted_kernels \<and> le_parent_key_id t = parent
         then save_tx_log_entry L (revert_entry now t) parent d else d) (tx_log_iter d) d)"
    by (intro same_outputs_fold assms(5)) simp
  then have same: "same_outputs L d (lm_db w')"
    unfolding w' using same_outputs_log(3) [OF assms(5)] by (meson same_outputs_def same_outputs_trans)
  have height: "get_ser as_height (lm_db w') (to_key L CONFIRMED_HEIGHT_PREFIX parent) = Inr (Some height)"
    by (simp add: w' save_last_confirmed_height_def get_ser_def db.get_put)
  have get: "get_output L (lm_db w') i m = get_output L d i m" for i m
    using same by (simp add: same_outputs_def get_output_def get_ser_def)
  have other: "get_output L d i m = get_output L (lm_db w) i m" if "output_key L i m \<notin> entry_key L ` set wallet_outputs" for i m
    using run that by (simp add: get_output_def get_ser_def)
  show ?thesis using run same height other unfolding get by (auto simp: same_outputs_def)
qed

end
