(* ===== verification/Wallet_Accounts.thy ===== *)
theory Wallet_Accounts
  imports Wallet_Refresh
begin

text \<open>
  The balance against the coins that can be selected, accounts, and payment proofs.
\<close>

section \<open>The balance\<close>

text \<open>The classes the balance sorts outputs into.\<close>

datatype balance_class = Spendable | Immature | AwaitingConfirmation | AwaitingFinalization | LockedCoin | RevertedCoin | Ignored

definition balance_class_of :: "u64 \<Rightarrow> u64 \<Rightarrow> OutputData \<Rightarrow> balance_class" where
  "balance_class_of h m out =
     (case od_status out of
        Unspent \<Rightarrow> if od_is_coinbase out \<and> od_lock_height out > h then Immature
                   else if num_confirmations out h < m then AwaitingConfirmation else Spendable
      | Unconfirmed \<Rightarrow> if od_is_coinbase out then Ignored else if m = 0 then AwaitingConfirmation else AwaitingFinalization
      | Locked \<Rightarrow> LockedCoin
      | Reverted \<Rightarrow> RevertedCoin
      | Spent \<Rightarrow> Ignored)"

definition class_total :: "u64 \<Rightarrow> u64 \<Rightarrow> balance_class \<Rightarrow> OutputData list \<Rightarrow> u64" where
  "class_total h m c outs = sum_list (map od_value (filter (\<lambda>out. balance_class_of h m out = c) outs))"

lemma class_total_simps [simp]:
  "class_total h m c [] = 0"
  "class_total h m c (out # outs) = (if balance_class_of h m out = c then od_value out else 0) + class_total h m c outs"
  by (simp_all add: class_total_def)

lemma sum_outputs_sum_list: "sum_outputs cs = sum_list (map od_value cs)"
proof -
  have "foldl (\<lambda>acc c. acc + od_value c) a cs = a + sum_list (map od_value cs)" for a
    by (induction cs arbitrary: a) (simp_all add: add.assoc)
  then show ?thesis by (simp add: sum_outputs_def)
qed

lemma sum_outputs_perm: "mset cs = mset ds \<Longrightarrow> sum_outputs cs = sum_outputs ds"
  by (metis mset_map sum_mset_sum_list sum_outputs_sum_list)

text \<open>One pass over the outputs computes all six sums.\<close>

lemma add_balance_run:
  "foldl (add_balance h m) b outs =
     \<lparr>unspent_total = unspent_total b + class_total h m Spendable outs,
      immature_total = immature_total b + class_total h m Immature outs,
      awaiting_finalization_total = awaiting_finalization_total b + class_total h m AwaitingFinalization outs,
      unconfirmed_total = unconfirmed_total b + class_total h m AwaitingConfirmation outs,
      locked_total = locked_total b + class_total h m LockedCoin outs,
      reverted_total = reverted_total b + class_total h m RevertedCoin outs\<rparr>"
proof (induction outs arbitrary: b)
  case (Cons out outs)
  show ?case
    unfolding foldl_Cons Cons.IH
    by (cases "od_status out") (simp_all add: add_balance_def balance_class_of_def Let_def add.assoc)
qed simp


section \<open>Accounts\<close>

text \<open>Accounts are stored under their labels and no two have the same number.\<close>

abbreviation acct_key :: "('z WalletLib_scheme) \<Rightarrow> string \<Rightarrow> bytes" where
  "acct_key L label \<equiv> to_key L ACCOUNT_PATH_MAPPING_PREFIX (str_bytes label)"

definition accounts_home :: "('z WalletLib_scheme) \<Rightarrow> db \<Rightarrow> bool" where
  "accounts_home L d \<longleftrightarrow> db_wf d \<and>
     (\<forall>(k, v) \<in> set d. take 1 k = [ACCOUNT_PATH_MAPPING_PREFIX] \<longrightarrow>
        (case v of VAcct a \<Rightarrow> k = acct_key L (acct_label a) | _ \<Rightarrow> False))"

definition accounts_ok :: "('z WalletLib_scheme) \<Rightarrow> db \<Rightarrow> bool" where
  "accounts_ok L d \<longleftrightarrow> accounts_home L d \<and>
     (\<forall>a \<in> set (acct_path_iter d). \<forall>b \<in> set (acct_path_iter d). account_number L a = account_number L b \<longrightarrow> a = b)"

definition path_laws :: "('z WalletLib_scheme) \<Rightarrow> bool" where
  "path_laws L \<longleftrightarrow> (\<forall>i. length (path_path (to_path L i)) = 4) \<and>
     (\<forall>p. length (path_path p) = 4 \<longrightarrow> to_path L (from_path L p) = p)"

lemma max_by_None: "max_by f xs = None \<longleftrightarrow> xs = []"
  by (cases xs) (auto split: option.splits)

lemma max_by_ge: "max_by f xs = Some m \<Longrightarrow> m \<in> set xs \<and> (\<forall>x \<in> set xs. f x \<le> f m)"
proof (induction xs arbitrary: m)
  case (Cons x xs)
  then show ?case using max_by_None [of f xs] by (cases "max_by f xs") (auto split: if_splits dest: order.strict_implies_order order.trans)
qed simp

lemma str_bytes_inject [simp]: "str_bytes s = str_bytes t \<longleftrightarrow> s = t"
proof -
  have "inj (of_nat \<circ> of_char :: char \<Rightarrow> u8)"
  proof (rule injI)
    fix c d :: char
    assume "(of_nat \<circ> of_char) c = ((of_nat \<circ> of_char) d :: u8)"
    then have "unat (of_nat (of_char c) :: u8) = unat (of_nat (of_char d) :: u8)" by simp
    then have "(of_char c :: nat) = of_char d"
      by (simp add: unat_of_nat)
    then show "c = d" by simp
  qed
  then show ?thesis by (simp add: str_bytes_def inj_map_eq_map)
qed

lemma acct_iff:
  assumes "accounts_home L d" "store_key_laws L"
  shows "a \<in> set (acct_path_iter d) \<longleftrightarrow> db_get d (acct_key L (acct_label a)) = Some (VAcct a)"
proof -
  have as: "as_acct v = Some a \<longleftrightarrow> v = VAcct a" for v by (cases v) auto
  have "a \<in> set (acct_path_iter d) \<longleftrightarrow> (\<exists>k. (k, VAcct a) \<in> set d \<and> take 1 k = [ACCOUNT_PATH_MAPPING_PREFIX])"
    by (force simp: acct_path_iter_def db_scan_def List.map_filter_def as image_iff simp del: One_nat_def)
  also have "\<dots> \<longleftrightarrow> (acct_key L (acct_label a), VAcct a) \<in> set d"
    using assms(1) store_key_lawsD(1) [OF assms(2)] by (fastforce simp: accounts_home_def simp del: One_nat_def)
  finally show ?thesis using assms(1) by (simp add: accounts_home_def db_get_mem)
qed

lemma accounts_home_save:
  assumes "accounts_home L d"
  shows "accounts_home L (save_acct_path L a d)"
proof -
  have "set (db_put k v d) \<subseteq> insert (k, v) (set d)" for k v
    by (induction k v d rule: db_put.induct) auto
  with assms db.wf_put show ?thesis
    by (fastforce simp: accounts_home_def save_acct_path_def simp del: One_nat_def)
qed

lemma save_acct_path_iter:
  assumes "accounts_home L d" "store_key_laws L" "acct_label a \<notin> acct_label ` set (acct_path_iter d)"
  shows "set (acct_path_iter (save_acct_path L a d)) = insert a (set (acct_path_iter d))"
proof -
  have key: "acct_key L l = acct_key L l' \<longleftrightarrow> l = l'" for l l'
    using store_key_lawsD(3) [OF assms(2), of ACCOUNT_PATH_MAPPING_PREFIX "str_bytes l" "str_bytes l'"] by auto
  have "b \<in> set (acct_path_iter (save_acct_path L a d)) \<longleftrightarrow> b = a \<or> b \<in> set (acct_path_iter d)" for b
    unfolding acct_iff [OF accounts_home_save [OF assms(1)] assms(2)] acct_iff [OF assms(1,2)]
    using assms(3) acct_iff [OF assms(1,2), of b]
    by (cases "acct_label b = acct_label a") (auto simp: save_acct_path_def db.get_put key, metis imageI)
  then show ?thesis by auto
qed

text \<open>
  C23. Accounts stay apart. \<open>new_acct_path\<close> refuses a label that is taken; otherwise the wallet has
  exactly one more account, under that label, whose number no other account has, so the keys of two
  accounts never come from the same branch; \<open>get_acct_path\<close> finds it. The invariant of the accounts
  is kept as long as the last 32 bit number is not in use.
\<close>

theorem accounts_stay_apart:
  assumes "new_acct_path L keychain_mask label w = (Ok i, w')"
    and "accounts_ok L (lm_db w)" "store_key_laws L" "path_laws L"
    and "\<forall>a \<in> set (acct_path_iter (lm_db w)). account_number L a \<noteq> - 1"
  shows "accounts_ok L (lm_db w') \<and>
    label \<notin> acct_label ` set (acct_path_iter (lm_db w)) \<and>
    set (acct_path_iter (lm_db w')) = insert \<lparr>acct_label = label, acct_path = i\<rparr> (set (acct_path_iter (lm_db w))) \<and>
    get_acct_path L w' label = Inr (Some \<lparr>acct_label = label, acct_path = i\<rparr>) \<and>
    (\<forall>a \<in> set (acct_path_iter (lm_db w)). account_number L a \<noteq> account_number L \<lparr>acct_label = label, acct_path = i\<rparr>)"
proof -
  let ?new = "\<lparr>acct_label = label, acct_path = i\<rparr>" let ?d = "lm_db w"
  have label: "label \<notin> acct_label ` set (acct_path_iter ?d)"
    and w': "lm_db w' = save_acct_path L ?new ?d"
    and i: "i = (case max_by (account_number L) (acct_path_iter ?d) of
        Some e \<Rightarrow> from_path L ((to_path L (acct_path e))\<lparr>path_path := (path_path (to_path L (acct_path e)))[0 := account_number L e + 1]\<rparr>)
      | None \<Rightarrow> derive_key_id L 2 0 0 0 0)"
    using assms(1) by (auto simp: new_acct_path_def Let_def account_number_def split: if_splits sum.splits option.splits)
  have fresh: "account_number L a \<noteq> account_number L ?new" if a: "a \<in> set (acct_path_iter ?d)" for a
  proof -
    from a obtain e where e: "max_by (account_number L) (acct_path_iter ?d) = Some e"
      by (cases "max_by (account_number L) (acct_path_iter ?d)") (auto simp: max_by_None)
    have "account_number L ?new = account_number L e + 1"
      using assms(4) by (simp add: i e account_number_def path_laws_def)
    moreover have "account_number L a \<le> account_number L e" "e \<in> set (acct_path_iter ?d)"
      using max_by_ge [OF e] a by auto
    moreover have "account_number L e < account_number L e + 1"
      using assms(5) \<open>e \<in> _\<close> by (metis inc_less_eq_self_iff_eq not_le)
    ultimately show ?thesis by auto
  qed
  have home: "accounts_home L ?d" "accounts_home L (lm_db w')"
    using assms(2) accounts_home_save by (auto simp: accounts_ok_def w')
  have iter: "set (acct_path_iter (lm_db w')) = insert ?new (set (acct_path_iter ?d))"
    unfolding w' using label by (intro save_acct_path_iter home assms(3)) simp
  have "accounts_ok L (lm_db w')"
    using assms(2) home(2) fresh unfolding accounts_ok_def iter by (metis insert_iff)
  moreover have "get_acct_path L w' label = Inr (Some ?new)"
    by (simp add: get_acct_path_def w' save_acct_path_def get_ser_def db.get_put)
  ultimately show ?thesis using label iter fresh by blast
qed

section \<open>Payment proofs\<close>

lemma ok_or_Inr: "ok_or e v = Inr x \<longleftrightarrow> v = Some x"
  by (cases v) (auto simp: ok_or_def)

lemma try_bind_Ok: "try_bind p f = Ret (Inr y) \<longleftrightarrow> (\<exists>x. p = Ret (Inr x) \<and> f x = Ret (Inr y))"
  unfolding try_bind_def pbind_eq_Ret by (auto split: sum.splits) (metis Inl_Inr_False obj_sumE)

lemma uint_mod_64: "uint (a :: u64) mod 256 ^ 8 = uint a"
  using uint_bounded [of a] by simp

text \<open>The message of a payment proof has a fixed layout, so it can be taken apart again.\<close>

lemma payment_proof_message_decode:
  assumes "length kernel_commitment = 33" "length sender_addr = 32"
    and "com_from_vec L kernel_commitment = kernel_commitment" "dalek_public L sender_addr = Some sender_addr"
  shows "decode_payment_proof_message L (payment_proof_message amount kernel_commitment sender_addr) =
    Ret (Ok (amount, kernel_commitment, sender_addr))"
proof -
  have "word_of_int (be_int (be_bytes 8 (uint amount))) = amount"
    unfolding be_int_be_bytes uint_mod_64 by simp
  with assms show ?thesis
    by (simp add: decode_payment_proof_message_def payment_proof_message_def)
qed

lemma payment_proof_message_inject:
  assumes "length c = 33" "length c' = 33" "payment_proof_message a c s = payment_proof_message a' c' s'"
  shows "a = a' \<and> c = c' \<and> s = s'"
proof -
  have "be_bytes 8 (uint a) = be_bytes 8 (uint a')" "c = c'" "s = s'"
    using assms by (auto simp: payment_proof_message_def)
  then have "uint a = uint a'" by (metis be_int_be_bytes uint_mod_64)
  with \<open>c = c'\<close> \<open>s = s'\<close> show ?thesis by (simp add: word_uint_eq_iff)
qed

text \<open>A proof on a slate that answers what a log entry asks for.\<close>

definition proof_checks ::
  "('z WalletLib_scheme) \<Rightarrow> Identifier \<Rightarrow> Context \<Rightarrow> Slate \<Rightarrow> TxLogEntry \<Rightarrow> PaymentInfo \<Rightarrow> bool" where
  "proof_checks L parent context slate t p \<longleftrightarrow>
     (\<exists>orig kc index key excess sig.
          le_payment_proof t = Some orig \<and> receiver_address p = spi_receiver_address orig \<and>
          payment_proof_derivation_index context = Some index \<and>
          address_from_derivation_path L kc parent index = Ret (Ok key) \<and>
          onion_ed25519 L key = Some (sender_address p) \<and>
          calc_excess L slate = Inr excess \<and> receiver_signature p = Some sig \<and>
          dalek_verify L (receiver_address p) (payment_proof_message (slate_amount slate) excess (sender_address p)) sig \<and>
          (\<forall>a c s. length excess = 33 \<longrightarrow> length c = 33 \<longrightarrow>
             payment_proof_message a c s = payment_proof_message (slate_amount slate) excess (sender_address p) \<longrightarrow>
             a = slate_amount slate \<and> c = excess \<and> s = sender_address p))"


end
