(* ===== verification/Wallet_Instance.thy ===== *)
theory Wallet_Instance
  imports Wallet_Accounts
begin

text \<open>
  A small library with the documented behaviour the wallet relies on, and a wallet on it with two
  coins: the concrete inputs of the wallet's witnesses.
\<close>

section \<open>The library\<close>

definition small_from_path :: "ExtKeychainPath \<Rightarrow> Identifier" where
  "small_from_path p = path_depth p # concat (map (\<lambda>n. be_bytes 4 (uint n)) (path_path p))"

definition small_to_path :: "Identifier \<Rightarrow> ExtKeychainPath" where
  "small_to_path i =
     (let b = i @ replicate 17 0
      in \<lparr>path_depth = hd b, path_path = map (\<lambda>j. word_of_int (be_int (take 4 (drop (1 + 4 * j) b)))) [0..<4]\<rparr>)"

definition small :: WalletLib where
  "small = \<lparr>
     hex_encode = hex_text, hex_decode = (\<lambda>s. Some []),
     ZERO_KEY = replicate 32 0,
     sk_from_slice = Some,
     sk_add_assign = (\<lambda>a b. Some a),
     sk_neg_assign = Some,
     pk_new = [], pk_is_valid = (\<lambda>p. True), pk_from_secret_key = Some,
     pk_from_combination = (\<lambda>ps. Some (concat ps)), pk_from_slice = Some, pk_serialize_vec = (\<lambda>p. p),
     com_from_vec = (\<lambda>b. b), com_from_pubkey = Some, secp_commit = (\<lambda>v k. Some (be_bytes 8 (uint v) @ k)),
     commit_sum = (\<lambda>ps ns. Some (concat ps)), bullet_proof = (\<lambda>v k r p. [1]), verify_bullet_proof = (\<lambda>c p. p = [1]),
     bullet_proof_multisig = (\<lambda>v blind nonce tau t1 t2 cs p step. \<lparr>ms_proof = None, ms_tau_x = [], ms_t_1 = [], ms_t_2 = []\<rparr>),
     sign_single = (\<lambda>m key nonce x r p r'. Some key), verify_single = (\<lambda>sig m r p ks x. True),
     calculate_partial_sig = (\<lambda>key nonce r p m. Some key), verify_partial_sig = (\<lambda>sig r p ks m. True),
     add_signatures = (\<lambda>sigs r. Some (concat sigs)), verify_completed_sig = (\<lambda>sig p ks m. True),
     sig_to_raw_data = (\<lambda>s. s), sig_from_raw_data = (\<lambda>s. s),
     blind_sum_new = \<lparr>positive_blinding_factors = [], negative_blinding_factors = []\<rparr>,
     add_blinding_factor = (\<lambda>b k. b), sub_blinding_factor = (\<lambda>b k. b), blind_sum = (\<lambda>b. Some []),
     bf_from_secret_key = (\<lambda>k. k), bf_secret_key = Some, bf_split = (\<lambda>b o'. Some b), bf_zero = [],
     tx_fee = (\<lambda>i out k. of_nat (i + out + k)), fee_fields_new = (\<lambda>s f. Some f), fee_fields_zero = 0,
     fee_at = (\<lambda>f h. f), nrd_relative_height_new = Some, YEAR_HEIGHT = 524160,
     amount_to_hr_string = (\<lambda>a t. show_u64 a), identifier_zero = [], derive_key = (\<lambda>a i. Some i),
     inputs_len = (\<lambda>i. case i of CommitOnly cs \<Rightarrow> length cs | FeaturesAndCommit is \<Rightarrow> length is),
     inputs_from = FeaturesAndCommit,
     tx_empty = \<lparr>tx_offset = [], tx_inputs = FeaturesAndCommit [], tx_outputs = [], tx_kernels = []\<rparr>,
     tx_new = (\<lambda>i os ks. \<lparr>tx_offset = [], tx_inputs = i, tx_outputs = os, tx_kernels = ks\<rparr>),
     with_output = (\<lambda>out t. t\<lparr>tx_outputs := tx_outputs t @ [out]\<rparr>),
     with_kernel = (\<lambda>k t. t\<lparr>tx_kernels := tx_kernels t @ [k]\<rparr>),
     replace_kernel = (\<lambda>k t. t\<lparr>tx_kernels := [k]\<rparr>), replace_inputs = (\<lambda>i t. t\<lparr>tx_inputs := i\<rparr>),
     replace_outputs = (\<lambda>os t. t\<lparr>tx_outputs := os\<rparr>),
     kernel_with_features = (\<lambda>f. \<lparr>ker_features = f, ker_excess = [], ker_excess_sig = []\<rparr>),
     kernel_sig_msg = (\<lambda>f. Some []), kernel_verify = (\<lambda>k. True), tx_validate = (\<lambda>t. True), tx_fee_of = (\<lambda>t h. 0),
     mask_master_key = (\<lambda>k m. Some k), kc_derive_key = (\<lambda>k a i. Some (take 32 (k @ i @ replicate 32 0))),
     kc_derive_key_none = (\<lambda>k a i. Some (take 32 (k @ i @ replicate 32 0))),
     kc_commit = (\<lambda>k v i. Some (be_bytes 8 (uint v) @ i)), root_key_id = [0],
     to_path = small_to_path, from_path = small_from_path,
     derive_key_id = (\<lambda>d a b c e. small_from_path \<lparr>path_depth = d, path_path = [a, b, c, e]\<rparr>),
     last_path_index = (\<lambda>p. if path_depth p = 0 then 0 else path_path p ! (unat (path_depth p) - 1)),
     to_key = (\<lambda>p k. p # k), to_key_u64 = (\<lambda>p k n. p # k @ be_bytes 8 (uint n)),
     blake2b = (\<lambda>b. take 32 (b @ replicate 32 0)), uuid_bytes = (\<lambda>u. be_bytes 16 (uint u)),
     uuid_to_string = (\<lambda>u. hex_text (be_bytes 16 (uint u))),
     tx_ser_vec = (\<lambda>t. []), tx_deserialize = (\<lambda>b. None),
     partial_transaction = (\<lambda>k tx elems. Some (tx, [])), fee_from_u64 = Some, fee_as_opt = Some,
     onion_ed25519 = (\<lambda>k. Some (take 32 k)), dalek_secret = Some, dalek_public = Some,
     dalek_sign = (\<lambda>k m. k @ m), dalek_verify = (\<lambda>p m s. s = p @ m),
     valid_header_version = (\<lambda>h v. v = 3), coinbase_maturity = 3, reward = (\<lambda>f. 60 + f),
     secp_commit_value = (\<lambda>v. Some (be_bytes 8 (uint v))), reward_output = (\<lambda>k i f t. None)\<rparr>"

lemma small_sel [simp]:
  "hex_encode small = hex_text"
  "hex_decode small = (\<lambda>s. Some [])"
  "ZERO_KEY small = replicate 32 0"
  "sk_from_slice small = Some"
  "sk_add_assign small = (\<lambda>a b. Some a)"
  "sk_neg_assign small = Some"
  "pk_new small = []"
  "pk_is_valid small = (\<lambda>p. True)"
  "pk_from_secret_key small = Some"
  "pk_from_combination small = (\<lambda>ps. Some (concat ps))"
  "pk_from_slice small = Some"
  "pk_serialize_vec small = (\<lambda>p. p)"
  "com_from_vec small = (\<lambda>b. b)"
  "com_from_pubkey small = Some"
  "secp_commit small = (\<lambda>v k. Some (be_bytes 8 (uint v) @ k))"
  "commit_sum small = (\<lambda>ps ns. Some (concat ps))"
  "bullet_proof small = (\<lambda>v k r p. [1])"
  "verify_bullet_proof small = (\<lambda>c p. p = [1])"
  "bullet_proof_multisig small = (\<lambda>v blind nonce tau t1 t2 cs p step. \<lparr>ms_proof = None, ms_tau_x = [], ms_t_1 = [], ms_t_2 = []\<rparr>)"
  "sign_single small = (\<lambda>m key nonce x r p r'. Some key)"
  "verify_single small = (\<lambda>sig m r p ks x. True)"
  "calculate_partial_sig small = (\<lambda>key nonce r p m. Some key)"
  "verify_partial_sig small = (\<lambda>sig r p ks m. True)"
  "add_signatures small = (\<lambda>sigs r. Some (concat sigs))"
  "verify_completed_sig small = (\<lambda>sig p ks m. True)"
  "sig_to_raw_data small = (\<lambda>s. s)"
  "sig_from_raw_data small = (\<lambda>s. s)"
  "blind_sum_new small = \<lparr>positive_blinding_factors = [], negative_blinding_factors = []\<rparr>"
  "add_blinding_factor small = (\<lambda>b k. b)"
  "sub_blinding_factor small = (\<lambda>b k. b)"
  "blind_sum small = (\<lambda>b. Some [])"
  "bf_from_secret_key small = (\<lambda>k. k)"
  "bf_secret_key small = Some"
  "bf_split small = (\<lambda>b o'. Some b)"
  "bf_zero small = []"
  "tx_fee small = (\<lambda>i out k. of_nat (i + out + k))"
  "fee_fields_new small = (\<lambda>s f. Some f)"
  "fee_fields_zero small = 0"
  "fee_at small = (\<lambda>f h. f)"
  "nrd_relative_height_new small = Some"
  "YEAR_HEIGHT small = 524160"
  "amount_to_hr_string small = (\<lambda>a t. show_u64 a)"
  "identifier_zero small = []"
  "derive_key small = (\<lambda>a i. Some i)"
  "inputs_len small = (\<lambda>i. case i of CommitOnly cs \<Rightarrow> length cs | FeaturesAndCommit is \<Rightarrow> length is)"
  "inputs_from small = FeaturesAndCommit"
  "tx_empty small = \<lparr>tx_offset = [], tx_inputs = FeaturesAndCommit [], tx_outputs = [], tx_kernels = []\<rparr>"
  "tx_new small = (\<lambda>i os ks. \<lparr>tx_offset = [], tx_inputs = i, tx_outputs = os, tx_kernels = ks\<rparr>)"
  "with_output small = (\<lambda>out t. t\<lparr>tx_outputs := tx_outputs t @ [out]\<rparr>)"
  "with_kernel small = (\<lambda>k t. t\<lparr>tx_kernels := tx_kernels t @ [k]\<rparr>)"
  "replace_kernel small = (\<lambda>k t. t\<lparr>tx_kernels := [k]\<rparr>)"
  "replace_inputs small = (\<lambda>i t. t\<lparr>tx_inputs := i\<rparr>)"
  "replace_outputs small = (\<lambda>os t. t\<lparr>tx_outputs := os\<rparr>)"
  "kernel_with_features small = (\<lambda>f. \<lparr>ker_features = f, ker_excess = [], ker_excess_sig = []\<rparr>)"
  "kernel_sig_msg small = (\<lambda>f. Some [])"
  "kernel_verify small = (\<lambda>k. True)"
  "tx_validate small = (\<lambda>t. True)"
  "tx_fee_of small = (\<lambda>t h. 0)"
  "mask_master_key small = (\<lambda>k m. Some k)"
  "kc_derive_key small = (\<lambda>k a i. Some (take 32 (k @ i @ replicate 32 0)))"
  "kc_derive_key_none small = (\<lambda>k a i. Some (take 32 (k @ i @ replicate 32 0)))"
  "kc_commit small = (\<lambda>k v i. Some (be_bytes 8 (uint v) @ i))"
  "root_key_id small = [0]"
  "to_path small = small_to_path"
  "from_path small = small_from_path"
  "derive_key_id small = (\<lambda>d a b c e. small_from_path \<lparr>path_depth = d, path_path = [a, b, c, e]\<rparr>)"
  "last_path_index small = (\<lambda>p. if path_depth p = 0 then 0 else path_path p ! (unat (path_depth p) - 1))"
  "to_key small = (\<lambda>p k. p # k)"
  "to_key_u64 small = (\<lambda>p k n. p # k @ be_bytes 8 (uint n))"
  "blake2b small = (\<lambda>b. take 32 (b @ replicate 32 0))"
  "uuid_bytes small = (\<lambda>u. be_bytes 16 (uint u))"
  "uuid_to_string small = (\<lambda>u. hex_text (be_bytes 16 (uint u)))"
  "tx_ser_vec small = (\<lambda>t. [])"
  "tx_deserialize small = (\<lambda>b. None)"
  "partial_transaction small = (\<lambda>k tx elems. Some (tx, []))"
  "fee_from_u64 small = Some"
  "fee_as_opt small = Some"
  "onion_ed25519 small = (\<lambda>k. Some (take 32 k))"
  "dalek_secret small = Some"
  "dalek_public small = Some"
  "dalek_sign small = (\<lambda>k m. k @ m)"
  "dalek_verify small = (\<lambda>p m s. s = p @ m)"
  "valid_header_version small = (\<lambda>h v. v = 3)"
  "coinbase_maturity small = 3"
  "reward small = (\<lambda>f. 60 + f)"
  "secp_commit_value small = (\<lambda>v. Some (be_bytes 8 (uint v)))"
  "reward_output small = (\<lambda>k i f t. None)"
  by (simp_all add: small_def)

lemma small_store_keys [simp]: "store_key_laws small"
proof -
  have "be_bytes 8 (uint (n :: u64)) = be_bytes 8 (uint n') \<longleftrightarrow> n = n'" for n n'
    by (metis be_int_be_bytes uint_mod_64 word_uint_eq_iff)
  moreover have "k = k' @ be_bytes 8 (uint (n :: u64)) \<Longrightarrow> length k \<noteq> length k'" for k k' n by simp
  ultimately show ?thesis unfolding store_key_laws_def by (auto simp: append_eq_append_conv)
qed

lemma small_paths [simp]: "path_laws small"
proof -
  have u: "word_of_int (be_int (be_bytes 4 (uint (n :: u32)))) = n" for n
  proof -
    have "uint n mod 256 ^ 4 = uint n" using uint_bounded [of n] by simp
    then show ?thesis by (simp add: be_int_be_bytes)
  qed
  have "small_to_path (small_from_path p) = p" if len: "length (path_path p) = 4" for p
  proof -
    obtain a b c d where p: "path_path p = [a, b, c, d]"
      using len by (cases "path_path p"; cases "tl (path_path p)"; cases "tl (tl (path_path p))"; cases "tl (tl (tl (path_path p)))") auto
    have "[0..<4] = [0, 1, 2, 3::nat]" by code_simp
    with p show ?thesis by (cases p) (simp add: small_to_path_def small_from_path_def Let_def u)
  qed
  then show ?thesis by (simp add: path_laws_def small_to_path_def Let_def)
qed

section \<open>A wallet\<close>

abbreviation acct :: Identifier where "acct \<equiv> [2, 0]"

definition small_coin :: "u8 \<Rightarrow> u64 \<Rightarrow> OutputData" where
  "small_coin i v =
     \<lparr>od_root_key_id = acct, od_key_id = [3, i], od_n_child = ucast i, od_commit = None, od_mmr_index = None,
      od_value = v, od_status = Unspent, od_height = 10, od_lock_height = 0, od_is_coinbase = False,
      od_tx_log_entry = None\<rparr>"

definition small_wallet :: LMDBBackend where
  "small_wallet =
     \<lparr>lm_db = batch_save small (small_coin 1 60) (batch_save small (small_coin 2 50)
        (save_acct_path small \<lparr>acct_label = ''default'', acct_path = small_from_path \<lparr>path_depth = 2, path_path = [0, 0, 0, 0]\<rparr>\<rparr>
          (save_last_confirmed_height small acct 20 []))),
      lm_saved_txs = Map.empty, lm_keychain = Some [7],
      lm_master_checksum = Some (blake2b small (take 32 ([7] @ [0] @ replicate 32 0))), lm_parent_key_id = acct\<rparr>"

lemma small_db:
  "lm_db small_wallet =
     [([0x61, 100, 101, 102, 97, 117, 108, 116],
       VAcct \<lparr>acct_label = ''default'', acct_path = 2 # replicate 16 0\<rparr>),
      ([0x63, 2, 0], VHeight 20),
      ([0x6F, 3, 1], VOutput (small_coin 1 60)), ([0x6F, 3, 2], VOutput (small_coin 2 50))]"
  by code_simp

lemma small_store_ok [simp]: "store_ok small (lm_db small_wallet)"
  unfolding store_ok_def db_wf_def small_db
  by (simp add: at_home_def output_key_def small_coin_def prefix_defs)

lemma small_keychain [simp]: "keychain small small_wallet None = Inr [7]"
  by (simp add: keychain_def small_wallet_def)

lemma small_outputs: "od_iter (lm_db small_wallet) = [small_coin 1 60, small_coin 2 50]"
  unfolding small_db by (simp add: od_iter_def db_scan_def prefix_defs List.map_filter_def)

lemma small_eligible: "eligible_coins small_wallet 20 1 acct = [small_coin 2 50, small_coin 1 60]"
  unfolding eligible_coins_def small_outputs
  by (simp add: small_coin_def eligible_to_spend_def num_confirmations_def)

end
