(* ===== verification/Wallet_Run.thy ===== *)
theory Wallet_Run
  imports Wallet_Instance
begin

text \<open>
  The wallet's theorems at concrete inputs: a wallet with coins of 60 and 50 selects, builds change,
  locks a coin for a transaction, cancels it again, hears from the node and adds up its balance.
\<close>

section \<open>Selection and change\<close>

lemma small_fees:
  assumes "k \<le> 2"
  shows "fees_fit small 70 k (length (eligible_coins small_wallet 20 1 acct))"
proof -
  have "unat (of_nat (i + k + 1) :: u64) = i + k + 1" if "i \<le> 2" for i
    using that assms by (simp add: unat_of_nat del: of_nat_add of_nat_Suc)
  then show ?thesis using assms by (simp add: fees_fit_def small_eligible del: of_nat_add of_nat_Suc)
qed

theorem coin_selection_complete_witness:
  "\<exists>x. select_coins_and_fee 10 small small_wallet 70 20 1 10 1 False acct = Ret (Inr x) \<and>
    (covers small 70 1 (eligible_coins small_wallet 20 1 acct) x \<or> covers small 70 (1 + 1) (eligible_coins small_wallet 20 1 acct) x)"
proof -
  have v: "coin_value (eligible_coins small_wallet 20 1 acct) = 110" unfolding small_eligible by (simp add: small_coin_def)
  have t: "tx_fee small (length (eligible_coins small_wallet 20 1 acct)) 1 1 = 4"
    "tx_fee small (length (eligible_coins small_wallet 20 1 acct)) (1 + 1) 1 = 5" by (simp_all add: small_eligible)
  have "length (eligible_coins small_wallet 20 1 acct) + 2 \<le> 10" by (simp add: small_eligible)
  from coin_selection_complete [of 70 10 small_wallet 20 1 acct small 1 10 False] v this small_fees [of 1] small_fees [of "1 + 1"]
  obtain r where r: "select_coins_and_fee 10 small small_wallet 70 20 1 10 1 False acct = Ret r"
    "case r of Inr x \<Rightarrow> covers small 70 1 (eligible_coins small_wallet 20 1 acct) x \<or> covers small 70 (1 + 1) (eligible_coins small_wallet 20 1 acct) x
     | Inl e \<Rightarrow> 110 < unat (70 :: u64) + unat (4 :: u64) \<or> 110 < unat (70 :: u64) + unat (5 :: u64)"
    unfolding v t by auto
  then show ?thesis by (cases r) auto
qed

theorem change_outputs_total_witness:
  "\<exists>parts changes w'. inputs_and_change small [small_coin 1 10] None 4 1 3 True small_wallet = Ret (Ok (parts, changes), w') \<and>
    (\<Sum>(a, _)\<leftarrow>changes. unat a) + 2 = 5"
proof -
  have "(case inputs_and_change small [small_coin 1 10] None 4 1 3 True small_wallet of Ret (Inr _, _) \<Rightarrow> True | _ \<Rightarrow> False)"
    by code_simp
  then obtain parts changes w' where
    r: "inputs_and_change small [small_coin 1 10] None 4 1 3 True small_wallet = Ret (Ok (parts, changes), w')"
    by (auto split: proc.splits sum.splits prod.splits)
  from change_outputs_total [OF r] have "(\<Sum>(a, _)\<leftarrow>changes. unat a) + 2 = 5" by (simp add: small_coin_def)
  with r show ?thesis by blast
qed

section \<open>Locking and cancelling\<close>

definition small_slate :: Slate where
  "small_slate = (blank small 5 2 False)\<lparr>slate_amount := 40\<rparr>"

definition small_context :: Context where
  "small_context = add_output [3, 9] None 17 (add_input [3, 1] None 60 (with_excess [1] [2] acct))"

definition small_locked :: LMDBBackend where
  "small_locked =
     (case lock_tx_context small 100 None small_slate 20 small_context None small_wallet of Ret (Inr _, w) \<Rightarrow> w | _ \<Rightarrow> small_wallet)"

lemma small_lock_run:
  "lock_tx_context small 100 None small_slate 20 small_context None small_wallet = Ret (Ok (), small_locked)"
proof -
  have "(case lock_tx_context small 100 None small_slate 20 small_context None small_wallet of Ret (Inr _, _) \<Rightarrow> True | _ \<Rightarrow> False)"
    by code_simp
  then show ?thesis unfolding small_locked_def by (auto split: proc.splits sum.splits prod.splits)
qed

lemma small_context_ids [simp]:
  "input_ids small_context = [([3, 1], None, 60)]" "output_ids small_context = [([3, 9], None, 17)]"
  by (simp_all add: small_context_def add_output_def add_input_def with_excess_def)

theorem wallet_locks_inputs_witness:
  "\<exists>n coins. select_coins small_locked 30 20 1 10 False acct = Ret (n, coins) \<and>
     output_key small [3, 1] None \<notin> (\<lambda>c. output_key small (od_key_id c) (od_mmr_index c)) ` set coins"
proof -
  have "(case select_coins small_locked 30 20 1 10 False acct of Ret _ \<Rightarrow> True | _ \<Rightarrow> False)" by code_simp
  then obtain n coins where c: "select_coins small_locked 30 20 1 10 False acct = Ret (n, coins)"
    by (auto split: proc.splits)
  have "\<forall>c \<in> set coins. output_key small (od_key_id c) (od_mmr_index c) \<noteq> output_key small [3, 1] None"
    using wallet_locks_inputs [OF small_lock_run] c by (auto simp: output_key_def)
  with c show ?thesis by fastforce
qed

lemma small_cancel_run:
  "\<exists>w'. cancel_tx small None acct None (Some 5) small_locked = Ret (Ok (), w')"
proof -
  have "(case cancel_tx small None acct None (Some 5) small_locked of Ret (Inr _, _) \<Rightarrow> True | _ \<Rightarrow> False)"
    by code_simp
  then show ?thesis by (auto split: proc.splits sum.splits prod.splits)
qed

theorem cancel_releases_coins_witness:
  "\<exists>w'. cancel_tx small None acct None (Some 5) small_locked = Ret (Ok (), w') \<and> store_ok small (lm_db w') \<and>
    (\<exists>t \<in> set (tx_log_iter (lm_db small_locked)). t\<lparr>le_tx_type := cancel_type (le_tx_type t)\<rparr> \<in> set (tx_log_iter (lm_db w')))"
proof -
  obtain w' where r: "cancel_tx small None acct None (Some 5) small_locked = Ret (Ok (), w')" using small_cancel_run by blast
  have "store_ok small (lm_db small_locked)"
    by (rule lock_keeps_store [OF small_lock_run]) simp_all
  from cancel_releases_coins [OF r this] r show ?thesis by auto
qed

section \<open>Refreshing, balance and accounts\<close>

theorem refresh_follows_chain_witness:
  "\<exists>w' out'. apply_api_outputs small 100 None [([], [3, 1], None, None, True)] (\<lambda>_. None) [] 30 acct small_wallet = (Ok (), w') \<and>
    get_output small (lm_db w') [3, 1] None = Inr out' \<and> od_status out' = Spent"
proof -
  have h: "last_confirmed_height small small_wallet = Inr 20"
    by (simp add: last_confirmed_height_def get_ser_def db_get_def small_db prefix_defs) (simp add: small_wallet_def)
  have "fst (apply_api_outputs small 100 None [([], [3, 1], None, None, True)] (\<lambda>_. None) [] 30 acct small_wallet) = Ok ()"
    by code_simp
  then obtain w' where
    r: "apply_api_outputs small 100 None [([], [3, 1], None, None, True)] (\<lambda>_. None) [] 30 acct small_wallet = (Ok (), w')"
    by (metis prod.collapse)
  have o: "get_output small (lm_db small_wallet) [3, 1] None = Inr (small_coin 1 60)"
    by (simp add: get_output_iff db_get_def small_db output_key_def prefix_defs)
  from refresh_follows_chain [OF r h] o obtain out' where
    "get_output small (lm_db w') [3, 1] None = Inr out'" "refreshed (\<lambda>_. None) [] [] (small_coin 1 60) out'" by auto
  with r show ?thesis by (auto simp: refreshed_def refreshed_status_def small_coin_def)
qed


theorem accounts_stay_apart_witness:
  "\<exists>i w'. new_acct_path small None ''savings'' small_wallet = (Ok i, w') \<and> accounts_ok small (lm_db w') \<and>
    get_acct_path small w' ''savings'' = Inr (Some \<lparr>acct_label = ''savings'', acct_path = i\<rparr>)"
proof -
  have iter: "acct_path_iter (lm_db small_wallet) = [\<lparr>acct_label = ''default'', acct_path = 2 # replicate 16 0\<rparr>]"
    by (simp add: acct_path_iter_def small_db db_scan_def prefix_defs List.map_filter_def)
  have "accounts_ok small (lm_db small_wallet)"
    unfolding accounts_ok_def accounts_home_def db_wf_def iter
    unfolding small_db by (simp add: str_bytes_def prefix_defs)
  moreover have "account_number small \<lparr>acct_label = ''default'', acct_path = 2 # replicate 16 0\<rparr> = 0" by code_simp
  moreover have "(case new_acct_path small None ''savings'' small_wallet of (Inr _, _) \<Rightarrow> True | _ \<Rightarrow> False)" by code_simp
  then obtain i w' where r: "new_acct_path small None ''savings'' small_wallet = (Ok i, w')"
    by (auto split: sum.splits prod.splits)
  ultimately show ?thesis using accounts_stay_apart [OF r] iter r by (auto simp: account_number_def)
qed

section \<open>Payment proofs\<close>

definition small_sender :: bytes where
  "small_sender = take 32 (7 # small_from_path \<lparr>path_depth = 3, path_path = [0, 1, 4, 0]\<rparr> @ replicate 32 0)"

definition small_paid :: Slate where
  "small_paid = small_slate\<lparr>
     participant_data := [\<lparr>public_blind_excess = replicate 33 9, public_nonce = [], part_sig = None\<rparr>],
     payment_proof := Some \<lparr>sender_address = small_sender, receiver_address = replicate 32 6,
       receiver_signature = Some (replicate 32 6 @ payment_proof_message 40 (replicate 33 9) small_sender)\<rparr>\<rparr>"

definition small_logged :: LMDBBackend where
  "small_logged = small_wallet\<lparr>lm_db := save_tx_log_entry small ((tx_log_entry_new 100 acct TxSent 0)
     \<lparr>le_tx_slate_id := Some 5, le_payment_proof := Some \<lparr>spi_receiver_address = replicate 32 6, spi_receiver_signature = None,
        spi_sender_address_path = 4, spi_sender_address = small_sender, spi_sender_signature = None\<rparr>\<rparr>)
     acct (lm_db small_wallet)\<rparr>"


end
