(* ===== verification/Wallet_Scan.thy ===== *)
theory Wallet_Scan
  imports Wallet_Tx
begin

text \<open>
  \<open>grin-wallet/libwallet/src/internal/scan.rs\<close>: checking the wallet against the outputs of the chain
  and restoring what is missing, from the seed alone. The loop over the chain takes fuel; the number
  of positions left is enough. \<open>HashMap\<close>s that are iterated over are association lists, in an order
  given by \<open>parents_order\<close>. The messages to the status channel are left out: their sending is ignored by
  the code too. The mutex around the wallet is taken and released around each access; the model is
  one thread.
\<close>

section \<open>Libraries\<close>

text \<open>\<open>libtx::proof::rewind\<close> with the two proof builders: an error, an output of someone else, or the value,
  the key and whether the switch commitment is regular. \<open>Identifier::parent_path\<close>.\<close>

record ScanLib = WalletLib +
  rewind_legacy :: "Keychain \<Rightarrow> Commitment \<Rightarrow> RangeProof \<Rightarrow> (u64 \<times> Identifier \<times> bool) option option"
  rewind :: "Keychain \<Rightarrow> Commitment \<Rightarrow> RangeProof \<Rightarrow> (u64 \<times> Identifier \<times> bool) option option"
  WEEK_HEIGHT :: u64
  parent_path :: "Identifier \<Rightarrow> Identifier"

definition saturating_sub :: "u64 \<Rightarrow> u64 \<Rightarrow> u64" where
  "saturating_sub a b = (if b \<le> a then a - b else 0)"

section \<open>The outputs of the chain\<close>

record OutputResult =
  or_commit :: Commitment
  or_key_id :: Identifier
  or_n_child :: u32
  or_mmr_index :: u64
  or_value :: u64
  or_height :: u64
  or_lock_height :: u64
  or_is_coinbase :: bool

record RestoredTxStats =
  rts_log_id :: u32
  rts_amount_credited :: u64
  rts_num_outputs :: nat

type_synonym chain_output = "Commitment \<times> RangeProof \<times> bool \<times> u64 \<times> u64"

text \<open>Up to two weeks after the first hard fork the legacy builder is tried first.\<close>

definition rewind_output ::
  "('z ScanLib_scheme) \<Rightarrow> Keychain \<Rightarrow> chain_output \<Rightarrow> (WalletError, (u64 \<times> Identifier \<times> bool) option) result" where
  "rewind_output L kc out =
     (case out of (commit, proof, _, height, _) \<Rightarrow>
      rbind (if valid_header_version L (saturating_sub height (2 * WEEK_HEIGHT L)) 1
             then ok_or LibTXError (rewind_legacy L kc commit proof)
             else Ok None) (\<lambda>info_legacy.
      if info_legacy = None then ok_or LibTXError (rewind L kc commit proof) else Ok info_legacy))"

definition found_output :: "('z ScanLib_scheme) \<Rightarrow> chain_output \<Rightarrow> u64 \<times> Identifier \<times> bool \<Rightarrow> OutputResult" where
  "found_output L out info =
     (case out of (commit, _, is_coinbase, height, mmr_index) \<Rightarrow>
      case info of (amount, key_id, _) \<Rightarrow>
        \<lparr>or_commit = commit, or_key_id = key_id, or_n_child = last_path_index L (to_path L key_id),
         or_mmr_index = mmr_index, or_value = amount, or_height = height,
         or_lock_height = (if is_coinbase then height + coinbase_maturity L else height),
         or_is_coinbase = is_coinbase\<rparr>)"

fun identify_utxo_outputs ::
  "('z ScanLib_scheme) \<Rightarrow> Keychain \<Rightarrow> chain_output list \<Rightarrow> (WalletError, OutputResult list) result" where
  "identify_utxo_outputs L kc [] = Ok []"
| "identify_utxo_outputs L kc (out # outs) =
     rbind (rewind_output L kc out) (\<lambda>info.
     rbind (identify_utxo_outputs L kc outs) (\<lambda>rest.
     Ok (case info of None \<Rightarrow> rest | Some i \<Rightarrow> found_output L out i # rest)))"

fun collect_loop ::
  "nat \<Rightarrow> ('z ScanLib_scheme) \<Rightarrow> Keychain \<Rightarrow> NodeClient \<Rightarrow> u64 option \<Rightarrow> u64 \<Rightarrow> OutputResult list \<Rightarrow>
   (WalletError, OutputResult list \<times> u64) result proc" where
  "collect_loop 0 L kc nc end_index start_index result_vec = NoFuel"
| "collect_loop (Suc n) L kc nc end_index start_index result_vec =
     (case get_outputs_by_pmmr_index nc start_index end_index 1000 of
        Inl e \<Rightarrow> Ret (Err e)
      | Inr (highest_index, last_retrieved_index, outputs) \<Rightarrow>
          (case identify_utxo_outputs L kc outputs of
             Inl e \<Rightarrow> Ret (Err e)
           | Inr found \<Rightarrow>
               if highest_index \<le> last_retrieved_index then Ret (Ok (result_vec @ found, last_retrieved_index))
               else collect_loop n L kc nc end_index (last_retrieved_index + 1) (result_vec @ found)))"

definition collect_chain_outputs ::
  "nat \<Rightarrow> ('z ScanLib_scheme) \<Rightarrow> Keychain \<Rightarrow> NodeClient \<Rightarrow> u64 \<Rightarrow> u64 option \<Rightarrow>
   (WalletError, OutputResult list \<times> u64) result proc" where
  "collect_chain_outputs fuel L kc nc start_index end_index = collect_loop fuel L kc nc end_index start_index []"

section \<open>Repairing\<close>

type_synonym parents = "(Identifier \<times> u32) list"

text \<open>The log entry of a restored output: one of its own, or the one its account collects in.\<close>

definition restored_entry :: "u64 \<Rightarrow> Identifier \<Rightarrow> OutputResult \<Rightarrow> u32 \<Rightarrow> TxLogEntry" where
  "restored_entry now parent out log_id =
     update_confirmation_ts now
       ((tx_log_entry_new now parent (if or_is_coinbase out then ConfirmedCoinbase else TxReceived) log_id)
         \<lparr>le_confirmed := True, le_amount_credited := or_value out, le_num_outputs := 1\<rparr>)"

definition restored_output :: "Identifier \<Rightarrow> string option \<Rightarrow> u32 \<Rightarrow> OutputResult \<Rightarrow> OutputData" where
  "restored_output parent commit log_id out =
     \<lparr>od_root_key_id = parent, od_key_id = or_key_id out, od_n_child = or_n_child out, od_commit = commit,
      od_mmr_index = Some (or_mmr_index out), od_value = or_value out, od_status = Unspent,
      od_height = or_height out, od_lock_height = or_lock_height out, od_is_coinbase = or_is_coinbase out,
      od_tx_log_entry = Some log_id\<rparr>"

definition restore_log ::
  "('z ScanLib_scheme) \<Rightarrow> u64 \<Rightarrow> Identifier \<Rightarrow> OutputResult \<Rightarrow> (Identifier \<Rightarrow> RestoredTxStats option) option \<Rightarrow> db \<Rightarrow>
   (WalletError, u32 \<times> (Identifier \<Rightarrow> RestoredTxStats option) option \<times> db) result proc" where
  "restore_log L now parent out tx_stats d =
     (case tx_stats of
        Some s \<Rightarrow>
          if \<not> or_is_coinbase out then
            pbind (unwrap ''tx_stats'' (s parent)) (\<lambda>ts.
            Ret (Ok (rts_log_id ts,
                     Some (s(parent \<mapsto> \<lparr>rts_log_id = rts_log_id ts, rts_amount_credited = rts_amount_credited ts + or_value out,
                                        rts_num_outputs = rts_num_outputs ts + 1\<rparr>)), d)))
          else
            Ret (rbind (next_tx_log_id L parent d) (\<lambda>(log_id, d).
                 Ok (log_id, tx_stats, save_tx_log_entry L (restored_entry now parent out log_id) parent d)))
      | None \<Rightarrow>
          Ret (rbind (next_tx_log_id L parent d) (\<lambda>(log_id, d).
               Ok (log_id, tx_stats, save_tx_log_entry L (restored_entry now parent out log_id) parent d))))"

definition restore_missing_output ::
  "('z ScanLib_scheme) \<Rightarrow> u64 \<Rightarrow> SecretKey option \<Rightarrow> OutputResult \<Rightarrow> parents \<Rightarrow>
   (Identifier \<Rightarrow> RestoredTxStats option) option \<Rightarrow> LMDBBackend \<Rightarrow>
   ((WalletError, parents \<times> (Identifier \<Rightarrow> RestoredTxStats option) option) result \<times> LMDBBackend) proc" where
  "restore_missing_output L now keychain_mask out found_parents tx_stats w =
     try_r (calc_commit_for_cache L w keychain_mask (or_value out) (or_key_id out)) w (\<lambda>commit.
     try_r (keychain L w keychain_mask) w (\<lambda>_.
     let parent = parent_path L (or_key_id out);
         is_new = map_of found_parents parent = None;
         found_parents = (if is_new then AList.update parent 0 found_parents else found_parents)
     in try_r (case tx_stats of
                 Some s \<Rightarrow>
                   if is_new then
                     rbind (next_tx_log_id L parent (lm_db w)) (\<lambda>(log_id, d).
                     Ok (Some (s(parent \<mapsto> \<lparr>rts_log_id = log_id, rts_amount_credited = 0, rts_num_outputs = 0\<rparr>)), d))
                   else Ok (tx_stats, lm_db w)
               | None \<Rightarrow> Ok (tx_stats, lm_db w)) w (\<lambda>(tx_stats, d).
     pbind (restore_log L now parent out tx_stats d) (\<lambda>r.
     try_r r w (\<lambda>(log_id, tx_stats, d).
     let d = batch_save L (restored_output parent commit log_id out) d
     in pbind (unwrap ''found_parents'' (map_of found_parents parent)) (\<lambda>max_child_index.
     let found_parents = (if or_n_child out \<ge> max_child_index
                          then AList.update parent (or_n_child out) found_parents else found_parents)
     in Ret (Ok (found_parents, tx_stats), commit_batch d w)))))))"

definition cancel_tx_log_entry ::
  "('z ScanLib_scheme) \<Rightarrow> SecretKey option \<Rightarrow> OutputData \<Rightarrow> LMDBBackend \<Rightarrow> (WalletError, unit) result \<times> LMDBBackend" where
  "cancel_tx_log_entry L keychain_mask out w =
     (let parent = parent_path L (od_key_id out)
      in case (case od_tx_log_entry out of
                 None \<Rightarrow> Ok None
               | Some i \<Rightarrow>
                   rbind (retrieve_txs w (Some i) None (Some parent) False) (\<lambda>entries.
                   Ok (case entries of
                         [] \<Rightarrow> None
                       | e # _ \<Rightarrow>
                           Some (case le_tx_type e of
                                   TxSent \<Rightarrow> e\<lparr>le_tx_type := TxSentCancelled\<rparr>
                                 | TxReceived \<Rightarrow> e\<lparr>le_tx_type := TxReceivedCancelled\<rparr>
                                 | _ \<Rightarrow> e)))) of
           Inl e \<Rightarrow> (Err e, w)
         | Inr updated_tx_entry \<Rightarrow>
             (case keychain L w keychain_mask of
                Inl e \<Rightarrow> (Err e, w)
              | Inr _ \<Rightarrow>
                  (Ok (), commit_batch (case updated_tx_entry of
                                          Some t \<Rightarrow> save_tx_log_entry L t parent (lm_db w)
                                        | None \<Rightarrow> lm_db w) w)))"

text \<open>The body of the two loops that give a spent or locked output back.\<close>

definition unspend_output ::
  "('z ScanLib_scheme) \<Rightarrow> SecretKey option \<Rightarrow> OutputData \<Rightarrow> LMDBBackend \<Rightarrow> ((WalletError, unit) result \<times> LMDBBackend) proc" where
  "unspend_output L keychain_mask out w =
     (let out = out\<lparr>od_status := Unspent\<rparr>
      in try_w (Ret (cancel_tx_log_entry L keychain_mask out w)) (\<lambda>_ w.
         try_r (keychain L w keychain_mask) w (\<lambda>_.
         Ret (Ok (), commit_batch (batch_save L out (lm_db w)) w))))"

definition delete_output ::
  "('z ScanLib_scheme) \<Rightarrow> SecretKey option \<Rightarrow> OutputData \<Rightarrow> LMDBBackend \<Rightarrow> ((WalletError, unit) result \<times> LMDBBackend) proc" where
  "delete_output L keychain_mask out w =
     try_w (Ret (cancel_tx_log_entry L keychain_mask out w)) (\<lambda>_ w.
     try_r (keychain L w keychain_mask) w (\<lambda>_.
     Ret (Ok (), commit_batch (batch_delete L (od_key_id out) (od_mmr_index out) (lm_db w)) w)))"

text \<open>A loop \<open>for x in xs\<close> over the wallet, ended by the first error.\<close>

fun for_wallet ::
  "('a \<Rightarrow> LMDBBackend \<Rightarrow> ((WalletError, unit) result \<times> LMDBBackend) proc) \<Rightarrow> 'a list \<Rightarrow> LMDBBackend \<Rightarrow>
   ((WalletError, unit) result \<times> LMDBBackend) proc" where
  "for_wallet f [] w = Ret (Ok (), w)"
| "for_wallet f (x # xs) w = try_w (f x w) (\<lambda>_ w. for_wallet f xs w)"

fun restore_outputs ::
  "('z ScanLib_scheme) \<Rightarrow> u64 \<Rightarrow> SecretKey option \<Rightarrow> OutputResult list \<Rightarrow> parents \<Rightarrow> LMDBBackend \<Rightarrow>
   ((WalletError, parents) result \<times> LMDBBackend) proc" where
  "restore_outputs L now keychain_mask [] found_parents w = Ret (Ok found_parents, w)"
| "restore_outputs L now keychain_mask (m # ms) found_parents w =
     try_w (restore_missing_output L now keychain_mask m found_parents None w) (\<lambda>(found_parents, _) w.
     restore_outputs L now keychain_mask ms found_parents w)"

text \<open>Labels, paths and the next child of the accounts that were found.\<close>

fun restore_accounts ::
  "('z ScanLib_scheme) \<Rightarrow> SecretKey option \<Rightarrow> Identifier list \<Rightarrow> nat \<Rightarrow> parents \<Rightarrow> LMDBBackend \<Rightarrow>
   ((WalletError, unit) result \<times> LMDBBackend) proc" where
  "restore_accounts L keychain_mask accts acct_index [] w = Ret (Ok (), w)"
| "restore_accounts L keychain_mask accts acct_index ((path, max_child_index) # ps) w =
     try_w (if path \<notin> set accts
            then Ret (set_acct_path L keychain_mask (''account_'' @ show_nat acct_index) path w)
            else Ret (Ok (), w)) (\<lambda>_ w.
     let acct_index = (if path \<notin> set accts then acct_index + 1 else acct_index)
     in try_r (current_child_index L w path) w (\<lambda>current.
     if max_child_index \<ge> current
     then try_r (keychain L w keychain_mask) w (\<lambda>_.
          restore_accounts L keychain_mask accts acct_index ps
            (commit_batch (save_child_index L path (max_child_index + 1) (lm_db w)) w))
     else restore_accounts L keychain_mask accts acct_index ps w))"

text \<open>The outputs of the chain against those of the wallet.\<close>

definition matched_out :: "OutputCommitMapping list \<Rightarrow> OutputResult \<Rightarrow> OutputData option" where
  "matched_out wallet_outputs deffo = map_option ocm_output (find (\<lambda>wo. ocm_commit wo = or_commit deffo) wallet_outputs)"

definition outs_with_status :: "OutputStatus \<Rightarrow> OutputCommitMapping list \<Rightarrow> OutputResult list \<Rightarrow> OutputData list" where
  "outs_with_status st wallet_outputs chain_outs =
     filter (\<lambda>out. od_status out = st) (List.map_filter (matched_out wallet_outputs) chain_outs)"

definition missing_outs :: "OutputCommitMapping list \<Rightarrow> OutputResult list \<Rightarrow> OutputResult list" where
  "missing_outs wallet_outputs chain_outs = filter (\<lambda>deffo. matched_out wallet_outputs deffo = None) chain_outs"

definition scan ::
  "nat \<Rightarrow> ('z ScanLib_scheme) \<Rightarrow> u64 \<Rightarrow> NodeClient \<Rightarrow> (parents \<Rightarrow> parents) \<Rightarrow> SecretKey option \<Rightarrow> bool \<Rightarrow> u64 \<Rightarrow> u64 \<Rightarrow>
   LMDBBackend \<Rightarrow> ((WalletError, ScannedBlockInfo) result \<times> LMDBBackend) proc" where
  "scan fuel L now nc parents_order keychain_mask delete_unconfirmed start_height end_height w =
     try_r (keychain L w keychain_mask) w (\<lambda>kc.
     try_r (height_range_to_pmmr_indices nc start_height (Some end_height)) w (\<lambda>pmmr_range.
     pbind (collect_chain_outputs fuel L kc nc (fst pmmr_range) (Some (snd pmmr_range))) (\<lambda>r.
     try_r r w (\<lambda>(chain_outs, last_index).
     pbind (retrieve_outputs L keychain_mask True None None w) (\<lambda>r.
     try_r r w (\<lambda>wallet_outputs.
     try_w (for_wallet (unspend_output L keychain_mask) (outs_with_status Spent wallet_outputs chain_outs) w) (\<lambda>_ w.
     try_w (restore_outputs L now keychain_mask (missing_outs wallet_outputs chain_outs) [] w) (\<lambda>found_parents w.
     try_w (if delete_unconfirmed
            then try_w (for_wallet (unspend_output L keychain_mask) (outs_with_status Locked wallet_outputs chain_outs) w)
                   (\<lambda>_ w. for_wallet (delete_output L keychain_mask)
                      (filter (\<lambda>out. od_status out = Unconfirmed) (map ocm_output wallet_outputs)) w)
            else Ret (Ok (), w)) (\<lambda>_ w.
     let accts = map acct_path (acct_path_iter (lm_db w))
     in try_w (restore_accounts L keychain_mask accts (length accts) (parents_order found_parents) w) (\<lambda>_ w.
     Ret (Ok \<lparr>sb_height = end_height, sb_hash = [], sb_start_pmmr_index = fst pmmr_range,
              sb_last_pmmr_index = last_index\<rparr>, w)))))))))))"

end
