(* ===== verification/Slate_Bin.thy ===== *)
theory Slate_Bin
  imports Slate_V4
begin

unbundle bit_operations_syntax

text \<open>
  The binary form of a slate, \<open>grin-wallet/libwallet/src/slate_versions/v4_bin.rs\<close>. A \<open>Writer\<close> is the list of
  bytes written; a \<open>Reader\<close> takes the bytes that are left and returns the value with the bytes after
  it, an error, or a panic where the code unwraps. How \<open>grin_core\<close> writes and reads integers, byte
  strings, keys, signatures, commitments, proofs, features and fees are fields of \<open>BinLib\<close>.
\<close>

section \<open>Readers and writers\<close>

datatype SerError = SerLibError | CorruptedData | UnexpectedData u8

type_synonym 'a reader = "bytes \<Rightarrow> (SerError, 'a \<times> bytes) result proc"

definition rd_return :: "'a \<Rightarrow> 'a reader" where
  "rd_return x bs = Ret (Ok (x, bs))"

definition rd_bind :: "'a reader \<Rightarrow> ('a \<Rightarrow> 'b reader) \<Rightarrow> 'b reader" where
  "rd_bind r f bs = try_bind (r bs) (\<lambda>(x, bs). f x bs)"

definition rd_unwrap :: "'a option \<Rightarrow> 'a reader" where
  "rd_unwrap v bs = pbind (unwrap ''unwrap'' v) (\<lambda>x. Ret (Ok (x, bs)))"

text \<open>The loop \<open>for _ in 0..n\<close> that pushes what it reads.\<close>

fun read_times :: "nat \<Rightarrow> 'a reader \<Rightarrow> 'a list reader" where
  "read_times 0 r = rd_return []"
| "read_times (Suc n) r = rd_bind r (\<lambda>x. rd_bind (read_times n r) (\<lambda>xs. rd_return (x # xs)))"

definition read_if :: "bool \<Rightarrow> 'a reader \<Rightarrow> 'a \<Rightarrow> 'a reader" where
  "read_if c r d = (if c then r else rd_return d)"

definition rd_lib :: "(bytes \<Rightarrow> ('a \<times> bytes) option) \<Rightarrow> 'a reader" where
  "rd_lib r bs = Ret (ok_or SerLibError (r bs))"

record BinLib = GrinLib +
  \<comment> \<open>integers, fixed bytes and length-prefixed bytes of \<open>grin_core::ser\<close>; \<open>uuid\<close>\<close>
  ser_u8 :: "u8 \<Rightarrow> bytes"
  de_u8 :: "bytes \<Rightarrow> (u8 \<times> bytes) option"
  ser_u16 :: "u16 \<Rightarrow> bytes"
  de_u16 :: "bytes \<Rightarrow> (u16 \<times> bytes) option"
  ser_u32 :: "u32 \<Rightarrow> bytes"
  de_u32 :: "bytes \<Rightarrow> (u32 \<times> bytes) option"
  ser_u64 :: "u64 \<Rightarrow> bytes"
  de_u64 :: "bytes \<Rightarrow> (u64 \<times> bytes) option"
  ser_fixed :: "bytes \<Rightarrow> bytes"
  de_fixed :: "nat \<Rightarrow> bytes \<Rightarrow> (bytes \<times> bytes) option"
  ser_var :: "bytes \<Rightarrow> bytes"
  de_var :: "bytes \<Rightarrow> (bytes \<times> bytes) option"
  uuid_as_bytes :: "Uuid \<Rightarrow> bytes"
  uuid_from_bytes :: "bytes \<Rightarrow> Uuid"
  \<comment> \<open>the types of \<open>grin_core\<close> and \<open>secp\<close>\<close>
  ser_public_key :: "PublicKey \<Rightarrow> bytes"
  de_public_key :: "bytes \<Rightarrow> (PublicKey \<times> bytes) option"
  ser_signature :: "Signature \<Rightarrow> bytes"
  de_signature :: "bytes \<Rightarrow> (Signature \<times> bytes) option"
  ser_commitment :: "Commitment \<Rightarrow> bytes"
  de_commitment :: "bytes \<Rightarrow> (Commitment \<times> bytes) option"
  ser_range_proof :: "RangeProof \<Rightarrow> bytes"
  de_range_proof :: "bytes \<Rightarrow> (RangeProof \<times> bytes) option"
  ser_blinding :: "BlindingFactor \<Rightarrow> bytes"
  de_blinding :: "bytes \<Rightarrow> (BlindingFactor \<times> bytes) option"
  ser_features :: "OutputFeatures \<Rightarrow> bytes"
  de_features :: "bytes \<Rightarrow> (OutputFeatures \<times> bytes) option"
  ser_fee :: "FeeFields \<Rightarrow> bytes"
  de_fee :: "bytes \<Rightarrow> (FeeFields \<times> bytes) option"
  dalek_public_key :: "bytes \<Rightarrow> bytes option"
  dalek_signature :: "bytes \<Rightarrow> bytes option"

abbreviation read_u8 :: "('z BinLib_scheme) \<Rightarrow> u8 reader" where "read_u8 B \<equiv> rd_lib (de_u8 B)"
abbreviation read_u16 :: "('z BinLib_scheme) \<Rightarrow> u16 reader" where "read_u16 B \<equiv> rd_lib (de_u16 B)"
abbreviation read_u32 :: "('z BinLib_scheme) \<Rightarrow> u32 reader" where "read_u32 B \<equiv> rd_lib (de_u32 B)"
abbreviation read_u64 :: "('z BinLib_scheme) \<Rightarrow> u64 reader" where "read_u64 B \<equiv> rd_lib (de_u64 B)"
abbreviation read_fixed_bytes :: "('z BinLib_scheme) \<Rightarrow> nat \<Rightarrow> bytes reader" where
  "read_fixed_bytes B n \<equiv> rd_lib (de_fixed B n)"

section \<open>The slate\<close>

fun state_byte :: "SlateStateV4 \<Rightarrow> u8" where
  "state_byte V4Unknown = 0"
| "state_byte V4Standard1 = 1"
| "state_byte V4Standard2 = 2"
| "state_byte V4Standard3 = 3"
| "state_byte V4Invoice1 = 4"
| "state_byte V4Invoice2 = 5"
| "state_byte V4Invoice3 = 6"

definition write_state :: "('z BinLib_scheme) \<Rightarrow> SlateStateV4 \<Rightarrow> bytes" where
  "write_state B s = ser_u8 B (state_byte s)"

definition read_state :: "('z BinLib_scheme) \<Rightarrow> SlateStateV4 reader" where
  "read_state B = rd_bind (read_u8 B) (\<lambda>b. rd_return
     (if b = 1 then V4Standard1 else if b = 2 then V4Standard2 else if b = 3 then V4Standard3
      else if b = 4 then V4Invoice1 else if b = 5 then V4Invoice2 else if b = 6 then V4Invoice3
      else V4Unknown))"

definition write_uuid :: "('z BinLib_scheme) \<Rightarrow> Uuid \<Rightarrow> bytes" where
  "write_uuid B u = ser_fixed B (uuid_as_bytes B u)"

definition read_uuid :: "('z BinLib_scheme) \<Rightarrow> Uuid reader" where
  "read_uuid B = rd_bind (read_fixed_bytes B 16) (\<lambda>b. rd_return (uuid_from_bytes B b))"

text \<open>The optional fields; a status byte says which are present.\<close>

record SlateOptFields =
  opt_num_parts :: u8
  opt_amt :: u64
  opt_fee :: FeeFields
  opt_feat :: u8
  opt_ttl :: u64

definition opt_status :: "('z BinLib_scheme) \<Rightarrow> SlateOptFields \<Rightarrow> u8" where
  "opt_status B f =
     (if opt_num_parts f \<noteq> 2 then 0x01 else 0) OR (if opt_amt f > 0 then 0x02 else 0) OR
     (if fee_at B (opt_fee f) (2 * YEAR_HEIGHT B) > 0 then 0x04 else 0) OR
     (if opt_feat f > 0 then 0x08 else 0) OR (if opt_ttl f > 0 then 0x10 else 0)"

definition write_opt_fields :: "('z BinLib_scheme) \<Rightarrow> SlateOptFields \<Rightarrow> bytes" where
  "write_opt_fields B f =
     (let status = opt_status B f
      in ser_u8 B status
         @ (if status AND 0x01 > 0 then ser_u8 B (opt_num_parts f) else [])
         @ (if status AND 0x02 > 0 then ser_u64 B (opt_amt f) else [])
         @ (if status AND 0x04 > 0 then ser_fee B (opt_fee f) else [])
         @ (if status AND 0x08 > 0 then ser_u8 B (opt_feat f) else [])
         @ (if status AND 0x10 > 0 then ser_u64 B (opt_ttl f) else []))"

definition read_opt_fields :: "('z BinLib_scheme) \<Rightarrow> SlateOptFields reader" where
  "read_opt_fields B =
     rd_bind (read_u8 B) (\<lambda>status.
     rd_bind (read_if (status AND 0x01 > 0) (read_u8 B) 2) (\<lambda>np.
     rd_bind (read_if (status AND 0x02 > 0) (read_u64 B) 0) (\<lambda>am.
     rd_bind (read_if (status AND 0x04 > 0) (rd_lib (de_fee B)) (fee_fields_zero B)) (\<lambda>fe.
     rd_bind (read_if (status AND 0x08 > 0) (read_u8 B) 0) (\<lambda>ft.
     rd_bind (read_if (status AND 0x10 > 0) (read_u64 B) 0) (\<lambda>tt.
     rd_return \<lparr>opt_num_parts = np, opt_amt = am, opt_fee = fe, opt_feat = ft, opt_ttl = tt\<rparr>))))))"

definition write_sig :: "('z BinLib_scheme) \<Rightarrow> ParticipantDataV4 \<Rightarrow> bytes" where
  "write_sig B s =
     ser_u8 B (if part_v4 s \<noteq> None then 1 else 0) @ ser_public_key B (xs_v4 s) @ ser_public_key B (nonce_v4 s)
     @ (case part_v4 s of Some p \<Rightarrow> ser_signature B p | None \<Rightarrow> [])"

definition write_sigs :: "('z BinLib_scheme) \<Rightarrow> ParticipantDataV4 list \<Rightarrow> bytes" where
  "write_sigs B ss = ser_u8 B (of_nat (length ss)) @ concat (map (write_sig B) ss)"

definition read_sig :: "('z BinLib_scheme) \<Rightarrow> ParticipantDataV4 reader" where
  "read_sig B =
     rd_bind (read_u8 B) (\<lambda>has_partial.
     rd_bind (rd_lib (de_public_key B)) (\<lambda>x.
     rd_bind (rd_lib (de_public_key B)) (\<lambda>n.
     rd_bind (if has_partial = 1 then rd_bind (rd_lib (de_signature B)) (\<lambda>s. rd_return (Some s)) else rd_return None) (\<lambda>p.
     rd_return \<lparr>xs_v4 = x, nonce_v4 = n, part_v4 = p\<rparr>))))"

definition read_sigs :: "('z BinLib_scheme) \<Rightarrow> ParticipantDataV4 list reader" where
  "read_sigs B = rd_bind (read_u8 B) (\<lambda>sigs_len. read_times (unat sigs_len) (read_sig B))"

definition write_com :: "('z BinLib_scheme) \<Rightarrow> CommitsV4 \<Rightarrow> bytes" where
  "write_com B c =
     ser_u8 B (if com_p c \<noteq> None then 1 else 0) @ ser_features B (features_from_v4 (com_f c)) @ ser_commitment B (com_c c)
     @ (case com_p c of Some p \<Rightarrow> ser_range_proof B p | None \<Rightarrow> [])"

definition write_coms :: "('z BinLib_scheme) \<Rightarrow> CommitsV4 list \<Rightarrow> bytes" where
  "write_coms B cs = ser_u16 B (of_nat (length cs)) @ concat (map (write_com B) cs)"

definition read_com :: "('z BinLib_scheme) \<Rightarrow> CommitsV4 reader" where
  "read_com B =
     rd_bind (read_u8 B) (\<lambda>is_output.
     rd_bind (rd_lib (de_features B)) (\<lambda>f.
     rd_bind (rd_lib (de_commitment B)) (\<lambda>c.
     rd_bind (if is_output = 1 then rd_bind (rd_lib (de_range_proof B)) (\<lambda>p. rd_return (Some p)) else rd_return None) (\<lambda>p.
     rd_return \<lparr>com_f = features_to_v4 f, com_c = c, com_p = p\<rparr>))))"

definition read_coms :: "('z BinLib_scheme) \<Rightarrow> CommitsV4 list reader" where
  "read_coms B = rd_bind (read_u16 B) (\<lambda>coms_len. read_times (unat coms_len) (read_com B))"

definition write_proof :: "('z BinLib_scheme) \<Rightarrow> PaymentInfoV4 \<Rightarrow> bytes" where
  "write_proof B p =
     ser_fixed B (saddr p) @ ser_fixed B (raddr p) @ (case rsig p of Some s \<Rightarrow> ser_u8 B 1 @ ser_fixed B s | None \<Rightarrow> ser_u8 B 0)"

definition read_proof :: "('z BinLib_scheme) \<Rightarrow> PaymentInfoV4 reader" where
  "read_proof B =
     rd_bind (read_fixed_bytes B 32) (\<lambda>b. rd_bind (rd_unwrap (dalek_public_key B b)) (\<lambda>s.
     rd_bind (read_fixed_bytes B 32) (\<lambda>b. rd_bind (rd_unwrap (dalek_public_key B b)) (\<lambda>r.
     rd_bind (read_u8 B) (\<lambda>t.
     rd_bind (if t = 0 then rd_return None
              else rd_bind (read_fixed_bytes B 64) (\<lambda>b. rd_bind (rd_unwrap (dalek_signature B b)) (\<lambda>x. rd_return (Some x))))
       (\<lambda>sig.
     rd_return \<lparr>saddr = s, raddr = r, rsig = sig\<rparr>))))))"

definition structs_status :: "CommitsV4 list option \<Rightarrow> PaymentInfoV4 option \<Rightarrow> u8" where
  "structs_status c p = (if c \<noteq> None then 0x01 else 0) OR (if p \<noteq> None then 0x02 else 0)"

definition write_opt_structs :: "('z BinLib_scheme) \<Rightarrow> CommitsV4 list option \<Rightarrow> PaymentInfoV4 option \<Rightarrow> bytes" where
  "write_opt_structs B c p =
     ser_u8 B (structs_status c p)
     @ (case c of Some c \<Rightarrow> write_coms B c | None \<Rightarrow> [])
     @ (case p of Some p \<Rightarrow> write_proof B p | None \<Rightarrow> [])"

definition read_opt_structs :: "('z BinLib_scheme) \<Rightarrow> (CommitsV4 list option \<times> PaymentInfoV4 option) reader" where
  "read_opt_structs B =
     rd_bind (read_u8 B) (\<lambda>status.
     rd_bind (read_if (status AND 0x01 > 0) (rd_bind (read_coms B) (\<lambda>c. rd_return (Some c))) None) (\<lambda>c.
     rd_bind (read_if (status AND 0x02 > 0) (rd_bind (read_proof B) (\<lambda>p. rd_return (Some p))) None) (\<lambda>p.
     rd_return (c, p))))"

definition write_slate_bin :: "('z BinLib_scheme) \<Rightarrow> SlateV4 \<Rightarrow> bytes" where
  "write_slate_bin B v4 =
     ser_u16 B (v4_version (ver v4)) @ ser_u16 B (v4_block_header_version (ver v4))
     @ write_uuid B (id_v4 v4) @ write_state B (sta v4) @ ser_blinding B (off v4)
     @ write_opt_fields B \<lparr>opt_num_parts = num_parts v4, opt_amt = amt v4, opt_fee = fee_v4 v4,
                           opt_feat = feat v4, opt_ttl = ttl v4\<rparr>
     @ write_sigs B (sigs v4) @ write_opt_structs B (coms v4) (proof_v4 v4)
     @ (if feat v4 = 2
        then ser_u64 B (case feat_args v4 of Some l \<Rightarrow> lock_hgt l | None \<Rightarrow> 0)
        else [])"

definition read_slate_bin :: "('z BinLib_scheme) \<Rightarrow> SlateV4 reader" where
  "read_slate_bin B =
     rd_bind (read_u16 B) (\<lambda>v. rd_bind (read_u16 B) (\<lambda>h.
     rd_bind (read_uuid B) (\<lambda>i. rd_bind (read_state B) (\<lambda>st. rd_bind (rd_lib (de_blinding B)) (\<lambda>o_f.
     rd_bind (read_opt_fields B) (\<lambda>opts.
     rd_bind (read_sigs B) (\<lambda>ss.
     rd_bind (read_opt_structs B) (\<lambda>(c, p).
     rd_bind (if opt_feat opts = 2 then rd_bind (read_u64 B) (\<lambda>l. rd_return (Some \<lparr>lock_hgt = l\<rparr>)) else rd_return None) (\<lambda>fa.
     rd_return \<lparr>ver = \<lparr>v4_version = v, v4_block_header_version = h\<rparr>, id_v4 = i, sta = st, off = o_f,
       num_parts = opt_num_parts opts, amt = opt_amt opts, fee_v4 = opt_fee opts, feat = opt_feat opts,
       ttl = opt_ttl opts, sigs = ss, coms = c, proof_v4 = p, feat_args = fa\<rparr>)))))))))"

text \<open>\<open>grin_ser::serialize\<close> and \<open>deserialize\<close> on a whole slate; bytes after the slate are ignored.\<close>

definition serialize_slate_bin :: "('z BinLib_scheme) \<Rightarrow> SlateV4 \<Rightarrow> bytes" where
  "serialize_slate_bin B v4 = write_slate_bin B v4"

definition deserialize_slate_bin :: "('z BinLib_scheme) \<Rightarrow> bytes \<Rightarrow> (SerError, SlateV4) result proc" where
  "deserialize_slate_bin B bs = try_bind (read_slate_bin B bs) (\<lambda>(s, _). Ret (Ok s))"

section \<open>Prefix codecs\<close>

text \<open>The contract of a writer and its reader: what was written is read back and exactly the bytes
  written are consumed.\<close>

locale bin_codec =
  fixes wr :: "'a \<Rightarrow> bytes" and rd :: "'a reader" and ok :: "'a \<Rightarrow> bool"
  assumes roundtrip: "ok x \<Longrightarrow> rd (wr x @ rest) = Ret (Ok (x, rest))"
begin

lemma roundtrip_list:
  "\<forall>x \<in> set xs. ok x \<Longrightarrow> read_times (length xs) rd (concat (map wr xs) @ rest) = Ret (Ok (xs, rest))"
  by (induction xs) (simp_all add: rd_return_def rd_bind_def roundtrip)

lemma prefix_free:
  assumes "ok x" "ok y" "wr x @ r = wr y @ r'"
  shows "x = y \<and> r = r'"
proof -
  have "rd (wr y @ r') = Ret (Ok (x, r))" using roundtrip [OF assms(1), of r] unfolding assms(3) .
  then show ?thesis using roundtrip [OF assms(2), of r'] by simp
qed

end

lemma rd_return_simp [simp]: "rd_return x bs = Ret (Ok (x, bs))"
  by (simp add: rd_return_def)

text \<open>What \<open>grin_core\<close> reads back of a value it wrote.\<close>

definition reads_back :: "('a \<Rightarrow> bytes) \<Rightarrow> (bytes \<Rightarrow> ('a \<times> bytes) option) \<Rightarrow> 'a \<Rightarrow> bool" where
  "reads_back ser de x \<longleftrightarrow> (\<forall>rest. de (ser x @ rest) = Some (x, rest))"

lemma rd_lib_back [simp]: "reads_back ser de x \<Longrightarrow> rd_lib de (ser x @ rest) = Ret (Ok (x, rest))"
  by (simp add: rd_lib_def reads_back_def)

text \<open>Integers and short byte strings are read back; an id is its sixteen bytes.\<close>

definition bin_laws :: "('z BinLib_scheme) \<Rightarrow> bool" where
  "bin_laws B \<longleftrightarrow>
     (\<forall>x. reads_back (ser_u8 B) (de_u8 B) x) \<and> (\<forall>x. reads_back (ser_u16 B) (de_u16 B) x) \<and>
     (\<forall>x. reads_back (ser_u32 B) (de_u32 B) x) \<and> (\<forall>x. reads_back (ser_u64 B) (de_u64 B) x) \<and>
     (\<forall>b. length b \<le> 255 \<longrightarrow> reads_back (ser_fixed B) (de_fixed B (length b)) b) \<and>
     (\<forall>u. length (uuid_as_bytes B u) = 16 \<and> uuid_from_bytes B (uuid_as_bytes B u) = u)"

lemma bin_lawsD [simp]:
  assumes "bin_laws B"
  shows "rd_lib (de_u8 B) (ser_u8 B a @ rest) = Ret (Ok (a, rest))"
    "rd_lib (de_u16 B) (ser_u16 B b @ rest) = Ret (Ok (b, rest))"
    "rd_lib (de_u32 B) (ser_u32 B c @ rest) = Ret (Ok (c, rest))"
    "rd_lib (de_u64 B) (ser_u64 B d @ rest) = Ret (Ok (d, rest))"
    "length f = n \<Longrightarrow> n \<le> 255 \<Longrightarrow> rd_lib (de_fixed B n) (ser_fixed B f @ rest) = Ret (Ok (f, rest))"
    "length (uuid_as_bytes B u) = 16" "uuid_from_bytes B (uuid_as_bytes B u) = u"
  using assms unfolding bin_laws_def by (auto intro!: rd_lib_back)

interpretation uuid: bin_codec "write_uuid B" "read_uuid B" "\<lambda>_. bin_laws B" for B :: "'z BinLib_scheme"
  by unfold_locales (simp add: read_uuid_def write_uuid_def rd_bind_def)

interpretation state: bin_codec "write_state B" "read_state B" "\<lambda>_. bin_laws B" for B :: "'z BinLib_scheme"
proof unfold_locales
  show "read_state B (write_state B x @ rest) = Ret (Ok (x, rest))" if "bin_laws B" for x rest
    using that by (cases x) (simp_all add: read_state_def write_state_def rd_bind_def)
qed

section \<open>The parts of a slate\<close>

definition sig_ok :: "('z BinLib_scheme) \<Rightarrow> ParticipantDataV4 \<Rightarrow> bool" where
  "sig_ok B s \<longleftrightarrow> bin_laws B \<and>
     reads_back (ser_public_key B) (de_public_key B) (xs_v4 s) \<and> reads_back (ser_public_key B) (de_public_key B) (nonce_v4 s) \<and>
     (case part_v4 s of Some p \<Rightarrow> reads_back (ser_signature B) (de_signature B) p | None \<Rightarrow> True)"

interpretation sig: bin_codec "write_sig B" "read_sig B" "sig_ok B" for B :: "'z BinLib_scheme"
proof unfold_locales
  show "read_sig B (write_sig B s @ rest) = Ret (Ok (s, rest))" if "sig_ok B s" for s rest
    using that by (cases "part_v4 s") (simp_all add: sig_ok_def read_sig_def write_sig_def rd_bind_def)
qed

interpretation sigs: bin_codec "write_sigs B" "read_sigs B" "\<lambda>ss. bin_laws B \<and> length ss < 256 \<and> (\<forall>s \<in> set ss. sig_ok B s)"
  for B :: "'z BinLib_scheme"
  by unfold_locales (simp add: read_sigs_def write_sigs_def rd_bind_def unat_of_nat sig.roundtrip_list)

definition com_ok :: "('z BinLib_scheme) \<Rightarrow> CommitsV4 \<Rightarrow> bool" where
  "com_ok B c \<longleftrightarrow> bin_laws B \<and>
     features_to_v4 (features_from_v4 (com_f c)) = com_f c \<and>
     reads_back (ser_features B) (de_features B) (features_from_v4 (com_f c)) \<and>
     reads_back (ser_commitment B) (de_commitment B) (com_c c) \<and>
     (case com_p c of Some p \<Rightarrow> reads_back (ser_range_proof B) (de_range_proof B) p | None \<Rightarrow> True)"

interpretation com: bin_codec "write_com B" "read_com B" "com_ok B" for B :: "'z BinLib_scheme"
proof unfold_locales
  show "read_com B (write_com B c @ rest) = Ret (Ok (c, rest))" if "com_ok B c" for c rest
    using that by (cases "com_p c") (simp_all add: com_ok_def read_com_def write_com_def rd_bind_def)
qed

interpretation coms: bin_codec "write_coms B" "read_coms B" "\<lambda>cs. bin_laws B \<and> length cs < 65536 \<and> (\<forall>c \<in> set cs. com_ok B c)"
  for B :: "'z BinLib_scheme"
  by unfold_locales (simp add: read_coms_def write_coms_def rd_bind_def unat_of_nat com.roundtrip_list)

definition proof_ok :: "('z BinLib_scheme) \<Rightarrow> PaymentInfoV4 \<Rightarrow> bool" where
  "proof_ok B p \<longleftrightarrow> bin_laws B \<and>
     length (saddr p) = 32 \<and> dalek_public_key B (saddr p) = Some (saddr p) \<and>
     length (raddr p) = 32 \<and> dalek_public_key B (raddr p) = Some (raddr p) \<and>
     (case rsig p of Some s \<Rightarrow> length s = 64 \<and> dalek_signature B s = Some s | None \<Rightarrow> True)"

interpretation payment: bin_codec "write_proof B" "read_proof B" "proof_ok B" for B :: "'z BinLib_scheme"
proof unfold_locales
  show "read_proof B (write_proof B p @ rest) = Ret (Ok (p, rest))" if "proof_ok B p" for p rest
    using that by (cases "rsig p") (simp_all add: proof_ok_def read_proof_def write_proof_def rd_bind_def rd_unwrap_def)
qed

lemma status_bits:
  "((if a then 0x01 else 0) OR (if b then 0x02 else 0) OR (if c then 0x04 else 0) OR
    (if d then 0x08 else 0) OR (if e then 0x10 else 0) :: u8) AND m > 0 \<longleftrightarrow>
   a \<and> m = 0x01 \<or> b \<and> m = 0x02 \<or> c \<and> m = 0x04 \<or> d \<and> m = 0x08 \<or> e \<and> m = 0x10"
  if "m \<in> {0x01, 0x02, 0x04, 0x08, 0x10}" for m :: u8
  using that by (cases a; cases b; cases c; cases d; cases e) auto

definition fields_ok :: "('z BinLib_scheme) \<Rightarrow> SlateOptFields \<Rightarrow> bool" where
  "fields_ok B f \<longleftrightarrow> bin_laws B \<and>
     (if fee_at B (opt_fee f) (2 * YEAR_HEIGHT B) > 0 then reads_back (ser_fee B) (de_fee B) (opt_fee f)
      else opt_fee f = fee_fields_zero B)"

lemma word_gt_0_iff: "0 < w \<longleftrightarrow> w \<noteq> 0" for w :: "'a::len word"
  by (simp add: word_neq_0_conv)

interpretation fields: bin_codec "write_opt_fields B" "read_opt_fields B" "fields_ok B" for B :: "'z BinLib_scheme"
proof unfold_locales
  show "read_opt_fields B (write_opt_fields B f @ rest) = Ret (Ok (f, rest))" if "fields_ok B f" for f rest
    using that
    by (cases f) (auto simp: fields_ok_def read_opt_fields_def write_opt_fields_def Let_def rd_bind_def read_if_def
        opt_status_def status_bits word_gt_0_iff)
qed

definition structs_ok :: "('z BinLib_scheme) \<Rightarrow> CommitsV4 list option \<times> PaymentInfoV4 option \<Rightarrow> bool" where
  "structs_ok B s \<longleftrightarrow> bin_laws B \<and>
     (case fst s of Some cs \<Rightarrow> length cs < 65536 \<and> (\<forall>c \<in> set cs. com_ok B c) | None \<Rightarrow> True) \<and>
     (case snd s of Some p \<Rightarrow> proof_ok B p | None \<Rightarrow> True)"

interpretation structs: bin_codec "\<lambda>(c, p). write_opt_structs B c p" "read_opt_structs B" "structs_ok B" for B :: "'z BinLib_scheme"
proof unfold_locales
  show "read_opt_structs B ((case s of (c, p) \<Rightarrow> write_opt_structs B c p) @ rest) = Ret (Ok (s, rest))"
    if "structs_ok B s" for s rest
    using that
    by (cases s; cases "fst s"; cases "snd s")
      (simp_all add: structs_ok_def read_opt_structs_def write_opt_structs_def rd_bind_def read_if_def structs_status_def
        coms.roundtrip payment.roundtrip)
qed

section \<open>The whole slate\<close>

text \<open>What the format has room for: at most 255 participants and 65535 commitments, values the
  library reads back, and a fee that is either visible under the mask or zero.\<close>

definition slate_bin_ok :: "('z BinLib_scheme) \<Rightarrow> SlateV4 \<Rightarrow> bool" where
  "slate_bin_ok B v \<longleftrightarrow> bin_laws B \<and>
     reads_back (ser_blinding B) (de_blinding B) (off v) \<and>
     fields_ok B \<lparr>opt_num_parts = num_parts v, opt_amt = amt v, opt_fee = fee_v4 v, opt_feat = feat v, opt_ttl = ttl v\<rparr> \<and>
     length (sigs v) < 256 \<and> (\<forall>s \<in> set (sigs v). sig_ok B s) \<and> structs_ok B (coms v, proof_v4 v)"

lemma read_slate_bin_back:
  assumes "slate_bin_ok B v"
  shows "read_slate_bin B (write_slate_bin B v @ rest) =
    Ret (Ok (v\<lparr>feat_args := if feat v = 2 then Some (case feat_args v of Some a \<Rightarrow> a | None \<Rightarrow> \<lparr>lock_hgt = 0\<rparr>) else None\<rparr>, rest))"
  using assms structs.roundtrip [of B "(coms v, proof_v4 v)"]
  by (cases v; cases "feat_args v")
    (auto simp: slate_bin_ok_def read_slate_bin_def write_slate_bin_def rd_bind_def
      uuid.roundtrip state.roundtrip fields.roundtrip sigs.roundtrip)

lemma feat_args_kept:
  assumes "slate_kernel_features s = 2 \<longleftrightarrow> kernel_features_args s \<noteq> None"
  shows "(slate_to_v4 s)\<lparr>feat_args := if feat (slate_to_v4 s) = 2
      then Some (case feat_args (slate_to_v4 s) of Some a \<Rightarrow> a | None \<Rightarrow> \<lparr>lock_hgt = 0\<rparr>) else None\<rparr> = slate_to_v4 s"
  using assms by (cases "kernel_features_args s") (simp_all add: slate_to_v4_def)

lemma deserialize_back:
  assumes "slate_bin_ok B (slate_to_v4 s)" "slate_kernel_features s = 2 \<longleftrightarrow> kernel_features_args s \<noteq> None"
  shows "deserialize_slate_bin B (serialize_slate_bin B (slate_to_v4 s) @ rest) = Ret (Ok (slate_to_v4 s))"
  using read_slate_bin_back [OF assms(1), of rest]
  unfolding feat_args_kept [OF assms(2)] by (simp add: deserialize_slate_bin_def serialize_slate_bin_def)

lemmas deserialize_whole = deserialize_back [where rest = "[]", unfolded append_Nil2]

text \<open>
  C27. The binary form of a slate carries it whole. For a slate within the limits of the format, with
  the lock height present exactly when the kernel is height-locked, reading what was written gives
  the slate back, whatever follows it in the buffer: every field, all participants with their
  signatures, all commitments with their proofs and the payment proof. The other party's slate is
  then the one that was sent with its transaction rebuilt, as for the text form.
\<close>

theorem slate_binary_roundtrip:
  assumes "slate_bin_ok B (slate_to_v4 s)" "slate_kernel_features s = 2 \<longleftrightarrow> kernel_features_args s \<noteq> None"
  shows "deserialize_slate_bin B (serialize_slate_bin B (slate_to_v4 s) @ rest) = Ret (Ok (slate_to_v4 s)) \<and>
    slate_from_v4 B (slate_to_v4 s) = s\<lparr>slate_tx := tx_from_slate_v4 B (slate_to_v4 s)\<rparr>"
  using deserialize_back [OF assms] slate_from_to_v4 [of B s] by (simp add: rebuilt_def)

text \<open>
  The binary form loses the relative lock height of a no-recent-duplicate kernel: only
  height-locked kernels have theirs written. The slate that is read back is the one that was
  written without its kernel arguments, and no kernel can be built from it.
\<close>

theorem binary_loses_relative_height:
  assumes "slate_bin_ok B (slate_to_v4 s)" "slate_kernel_features s = 3" "kernel_features_args s = Some a"
  shows "\<exists>v. deserialize_slate_bin B (serialize_slate_bin B (slate_to_v4 s)) = Ret (Ok v) \<and>
    v = (slate_to_v4 s)\<lparr>feat_args := None\<rparr> \<and>
    kernel_features B (slate_from_v4 B v) = Err (KernelFeaturesMissing ''lock_height'')"
proof -
  have "feat (slate_to_v4 s) = 3" using assms(2) by (simp add: slate_to_v4_def)
  then show ?thesis
    using read_slate_bin_back [OF assms(1), of "[]"] assms(2)
    by (simp add: deserialize_slate_bin_def serialize_slate_bin_def kernel_features_def slate_from_v4_def slate_to_v4_def)
qed

end
