(* ===== verification/Slatepack.thy ===== *)
theory Slatepack
  imports Slate_Bin
begin

text \<open>
  Slatepacks, \<open>grin-wallet/libwallet/src/slatepack\<close>: the addresses, the binary form of a slatepack and of
  its encrypted metadata, encryption and decryption of the payload, the armor and the packer. A
  Rust \<open>String\<close> is the list of its UTF-8 bytes as characters. Encryption (\<open>age\<close>), hashing, base 58,
  bech32 and the JSON form are fields of \<open>SlatepackLib\<close>; encrypting draws fresh randomness.
  Arithmetic on \<open>u32\<close> wraps, as in a release build. The field \<open>future_test_mode\<close> is false outside of the
  tests and left out.
\<close>

section \<open>Data\<close>

record SlatepackVersion =
  sp_major :: u8
  sp_minor :: u8

record SlatepackEncMetadata =
  em_sender :: "SlatepackAddress option"
  em_recipients :: "SlatepackAddress list"

record Slatepack =
  sp_slatepack :: SlatepackVersion
  sp_mode :: u8
  sp_sender :: "SlatepackAddress option"
  sp_encrypted_meta :: SlatepackEncMetadata
  sp_payload :: bytes

datatype AgeDecryptor = AgeRecipients | AgePassphrase

record SlatepackLib = BinLib +
  bech32_encode :: "string \<Rightarrow> bytes \<Rightarrow> string option"
  bech32_decode :: "string \<Rightarrow> (string \<times> bytes) option"
  bs58_encode :: "bytes \<Rightarrow> string"
  bs58_decode :: "string \<Rightarrow> bytes option"
  sha256 :: "bytes \<Rightarrow> bytes"
  sha512 :: "bytes \<Rightarrow> bytes"
  x25519_public :: "bytes \<Rightarrow> bytes option"
  age_encrypt :: "bytes \<Rightarrow> bytes list \<Rightarrow> bytes \<Rightarrow> bytes option"
  age_decryptor :: "bytes \<Rightarrow> AgeDecryptor option"
  age_decrypt :: "bytes \<Rightarrow> bytes \<Rightarrow> bytes option"
  from_json_slatepack :: "string \<Rightarrow> Slatepack option"
  max_tx_weight :: u64
  is_mainnet :: bool

definition SLATEPACK_MAJOR_VERSION :: u8 where "SLATEPACK_MAJOR_VERSION = 1"
definition SLATEPACK_MINOR_VERSION :: u8 where "SLATEPACK_MINOR_VERSION = 0"

definition default_enc_metadata :: SlatepackEncMetadata where
  "default_enc_metadata = \<lparr>em_sender = None, em_recipients = []\<rparr>"

definition slatepack_default :: Slatepack where
  "slatepack_default =
     \<lparr>sp_slatepack = \<lparr>sp_major = SLATEPACK_MAJOR_VERSION, sp_minor = SLATEPACK_MINOR_VERSION\<rparr>, sp_mode = 0,
      sp_sender = None, sp_encrypted_meta = default_enc_metadata, sp_payload = []\<rparr>"

section \<open>Text\<close>

definition as_bytes :: "string \<Rightarrow> bytes" where
  "as_bytes s = map (of_nat \<circ> of_char) s"

definition bytes_str :: "bytes \<Rightarrow> string" where
  "bytes_str b = map (\<lambda>x. char_of (unat x)) b"

text \<open>Well-formed UTF-8.\<close>

definition utf8_cont :: "u8 \<Rightarrow> bool" where
  "utf8_cont b \<longleftrightarrow> 0x80 \<le> b \<and> b \<le> 0xBF"

fun utf8_valid :: "bytes \<Rightarrow> bool" where
  "utf8_valid [] = True"
| "utf8_valid (a # bs) =
     (if a < 0x80 then utf8_valid bs
      else
        (case bs of
           [] \<Rightarrow> False
         | b # cs \<Rightarrow>
             if 0xC2 \<le> a \<and> a \<le> 0xDF then utf8_cont b \<and> utf8_valid cs
             else
               (case cs of
                  [] \<Rightarrow> False
                | c # ds \<Rightarrow>
                    if 0xE0 \<le> a \<and> a \<le> 0xEF
                    then utf8_cont b \<and> (a = 0xE0 \<longrightarrow> 0xA0 \<le> b) \<and> (a = 0xED \<longrightarrow> b \<le> 0x9F) \<and> utf8_cont c \<and> utf8_valid ds
                    else
                      (case ds of
                         [] \<Rightarrow> False
                       | d # es \<Rightarrow>
                           0xF0 \<le> a \<and> a \<le> 0xF4 \<and> utf8_cont b \<and> (a = 0xF0 \<longrightarrow> 0x90 \<le> b) \<and> (a = 0xF4 \<longrightarrow> b \<le> 0x8F) \<and>
                           utf8_cont c \<and> utf8_cont d \<and> utf8_valid es))))"

definition from_utf8 :: "bytes \<Rightarrow> string option" where
  "from_utf8 b = (if utf8_valid b then Some (bytes_str b) else None)"

section \<open>Addresses\<close>

definition slatepack_address_new :: "('z SlatepackLib_scheme) \<Rightarrow> bytes \<Rightarrow> SlatepackAddress" where
  "slatepack_address_new S key = \<lparr>spa_hrp = (if is_mainnet S then ''grin'' else ''tgrin''), spa_pub_key = key\<rparr>"

definition address_to_string :: "('z SlatepackLib_scheme) \<Rightarrow> SlatepackAddress \<Rightarrow> string option" where
  "address_to_string S addr = bech32_encode S (spa_hrp addr) (spa_pub_key addr)"

definition address_from_string :: "('z SlatepackLib_scheme) \<Rightarrow> string \<Rightarrow> SlatepackAddress option" where
  "address_from_string S encoded =
     (case bech32_decode S encoded of
        None \<Rightarrow> None
      | Some (hrp, b) \<Rightarrow> map_option (\<lambda>k. \<lparr>spa_hrp = hrp, spa_pub_key = k\<rparr>) (dalek_public_key S b))"

definition address_encoded_len :: "('z SlatepackLib_scheme) \<Rightarrow> SlatepackAddress \<Rightarrow> nat option" where
  "address_encoded_len S addr = map_option (\<lambda>s. length (as_bytes s) + 1) (address_to_string S addr)"

definition write_address :: "('z SlatepackLib_scheme) \<Rightarrow> SlatepackAddress \<Rightarrow> (SerError, bytes) result" where
  "write_address S addr =
     (case address_to_string S addr of
        None \<Rightarrow> Err CorruptedData
      | Some encoded \<Rightarrow>
          if length (as_bytes encoded) > 255 then Err CorruptedData
          else Ok (ser_u8 S (of_nat (length (as_bytes encoded))) @ ser_fixed S (as_bytes encoded)))"

definition rd_corrupted :: "'a option \<Rightarrow> 'a reader" where
  "rd_corrupted v bs = Ret (rbind (ok_or CorruptedData v) (\<lambda>x. Ok (x, bs)))"

definition read_address :: "('z SlatepackLib_scheme) \<Rightarrow> SlatepackAddress reader" where
  "read_address S =
     rd_bind (read_u8 S) (\<lambda>len.
     rd_bind (read_fixed_bytes S (unat len)) (\<lambda>b.
     rd_bind (rd_corrupted (from_utf8 b)) (\<lambda>encoded.
     rd_corrupted (address_from_string S encoded))))"

text \<open>Reading an address as part of a header that counts its bytes.\<close>

definition read_counted_address :: "('z SlatepackLib_scheme) \<Rightarrow> (SlatepackAddress \<times> u32) reader" where
  "read_counted_address S =
     rd_bind (read_address S) (\<lambda>addr.
     rd_bind (rd_corrupted (address_encoded_len S addr)) (\<lambda>len.
     rd_return (addr, of_nat len)))"

text \<open>The loop that reads and drops the bytes of unknown fields.\<close>

definition skip_bytes :: "('z SlatepackLib_scheme) \<Rightarrow> u32 \<Rightarrow> unit reader" where
  "skip_bytes S n = rd_bind (read_times (unat n) (read_u8 S)) (\<lambda>_. rd_return ())"

section \<open>The binary slatepack\<close>

definition opt_fields_len :: "('z SlatepackLib_scheme) \<Rightarrow> Slatepack \<Rightarrow> nat proc" where
  "opt_fields_len S sp =
     (case sp_sender sp of None \<Rightarrow> Ret 0 | Some s \<Rightarrow> unwrap ''encoded_len'' (address_encoded_len S s))"

definition write_slatepack :: "('z SlatepackLib_scheme) \<Rightarrow> Slatepack \<Rightarrow> (SerError, bytes) result proc" where
  "write_slatepack S sp =
     pbind (opt_fields_len S sp) (\<lambda>len.
     Ret (rbind (case sp_sender sp of None \<Rightarrow> Ok [] | Some s \<Rightarrow> write_address S s) (\<lambda>sender_bytes.
       Ok (ser_u8 S (sp_major (sp_slatepack sp)) @ ser_u8 S (sp_minor (sp_slatepack sp)) @ ser_u8 S (sp_mode sp)
           @ ser_u16 S (if sp_sender sp \<noteq> None then 0x01 else 0) @ ser_u32 S (of_nat len) @ sender_bytes
           @ ser_var S (sp_payload sp)))))"

definition read_mode :: "('z SlatepackLib_scheme) \<Rightarrow> u8 reader" where
  "read_mode S = rd_bind (read_u8 S) (\<lambda>m bs. if m > 1 then Ret (Err (UnexpectedData m)) else Ret (Ok (m, bs)))"

definition read_slatepack :: "('z SlatepackLib_scheme) \<Rightarrow> Slatepack reader" where
  "read_slatepack S =
     rd_bind (read_u8 S) (\<lambda>major. rd_bind (read_u8 S) (\<lambda>minor.
     rd_bind (read_mode S) (\<lambda>mode.
     rd_bind (read_u16 S) (\<lambda>opt_flags.
     rd_bind (read_u32 S) (\<lambda>bytes_to_payload.
     rd_bind (if opt_flags AND 0x01 > 0
              then rd_bind (read_counted_address S) (\<lambda>(addr, len). rd_return (Some addr, bytes_to_payload - len))
              else rd_return (None, bytes_to_payload)) (\<lambda>(sender, bytes_to_payload).
     rd_bind (skip_bytes S bytes_to_payload) (\<lambda>_.
     rd_bind (rd_lib (de_var S)) (\<lambda>payload.
     rd_return \<lparr>sp_slatepack = \<lparr>sp_major = major, sp_minor = minor\<rparr>, sp_mode = mode, sp_sender = sender,
       sp_encrypted_meta = default_enc_metadata, sp_payload = payload\<rparr>))))))))"

section \<open>Encrypted metadata\<close>

definition meta_encoded_len :: "('z SlatepackLib_scheme) \<Rightarrow> SlatepackEncMetadata \<Rightarrow> nat option" where
  "meta_encoded_len S m =
     (case (case em_sender m of None \<Rightarrow> Some 0 | Some s \<Rightarrow> address_encoded_len S s) of
        None \<Rightarrow> None
      | Some l \<Rightarrow>
          (case those (map (address_encoded_len S) (em_recipients m)) of
             None \<Rightarrow> None
           | Some ls \<Rightarrow> Some (2 + l + (if em_recipients m = [] then 0 else 2 + sum_list ls))))"

fun write_addresses :: "('z SlatepackLib_scheme) \<Rightarrow> SlatepackAddress list \<Rightarrow> (SerError, bytes) result" where
  "write_addresses S [] = Ok []"
| "write_addresses S (a # as) = rbind (write_address S a) (\<lambda>b. rbind (write_addresses S as) (\<lambda>bs. Ok (b @ bs)))"

text \<open>The check \<open>len as u16 > u16::MAX\<close> never holds, so a list that is too long is cut by the cast.\<close>

definition write_meta :: "('z SlatepackLib_scheme) \<Rightarrow> SlatepackEncMetadata \<Rightarrow> (SerError, bytes) result" where
  "write_meta S m =
     rbind (ok_or CorruptedData (meta_encoded_len S m)) (\<lambda>len.
     rbind (case em_sender m of None \<Rightarrow> Ok [] | Some s \<Rightarrow> write_address S s) (\<lambda>sender_bytes.
     rbind (if em_recipients m = [] then Ok []
            else rbind (write_addresses S (em_recipients m)) (\<lambda>b.
                 Ok (ser_u16 S (of_nat (length (em_recipients m))) @ b))) (\<lambda>rec_bytes.
     Ok (ser_u32 S (of_nat len)
         @ ser_u16 S ((if em_sender m \<noteq> None then 0x01 else 0) OR (if em_recipients m \<noteq> [] then 0x02 else 0))
         @ sender_bytes @ rec_bytes))))"

fun read_counted_addresses :: "nat \<Rightarrow> ('z SlatepackLib_scheme) \<Rightarrow> u32 \<Rightarrow> (SlatepackAddress list \<times> u32) reader" where
  "read_counted_addresses 0 S remaining = rd_return ([], remaining)"
| "read_counted_addresses (Suc n) S remaining =
     rd_bind (read_counted_address S) (\<lambda>(addr, len).
     rd_bind (read_counted_addresses n S (remaining - len)) (\<lambda>(addrs, remaining).
     rd_return (addr # addrs, remaining)))"

definition read_meta :: "('z SlatepackLib_scheme) \<Rightarrow> SlatepackEncMetadata reader" where
  "read_meta S =
     rd_bind (read_u32 S) (\<lambda>bytes_remaining.
     rd_bind (read_u16 S) (\<lambda>opt_flags.
     let bytes_remaining = bytes_remaining - 2
     in rd_bind (if opt_flags AND 0x01 > 0
                 then rd_bind (read_counted_address S) (\<lambda>(addr, len). rd_return (Some addr, bytes_remaining - len))
                 else rd_return (None, bytes_remaining)) (\<lambda>(sender, bytes_remaining).
        rd_bind (if opt_flags AND 0x02 > 0
                 then rd_bind (read_u16 S) (\<lambda>count.
                      read_counted_addresses (unat count) S (bytes_remaining - 2))
                 else rd_return ([], bytes_remaining)) (\<lambda>(recipients, bytes_remaining).
        rd_bind (skip_bytes S bytes_remaining) (\<lambda>_.
        rd_return \<lparr>em_sender = sender, em_recipients = recipients\<rparr>)))))"

section \<open>Encryption\<close>

definition try_encrypt_payload ::
  "('z SlatepackLib_scheme) \<Rightarrow> SlatepackAddress list \<Rightarrow> Slatepack \<Rightarrow> (WalletError, Slatepack) result proc" where
  "try_encrypt_payload S recipients sp =
     (if recipients = [] then Ret (Ok sp)
      else
        let meta = (sp_encrypted_meta sp)\<lparr>em_sender := sp_sender sp\<rparr>
        in case write_meta S meta of
             Inl _ \<Rightarrow> Ret (Err SlatepackSer)
           | Inr bin_meta \<Rightarrow>
               let to_encrypt = bin_meta @ sp_payload sp
               in case those (map (\<lambda>addr. x25519_public S (spa_pub_key addr)) recipients) of
                    None \<Rightarrow> Ret (Err ED25519KeyError)
                  | Some keys \<Rightarrow>
                      pbind fresh_key (\<lambda>seed.
                      case age_encrypt S seed keys to_encrypt of
                        None \<Rightarrow> Ret (Err AgeError)
                      | Some encrypted \<Rightarrow>
                          Ret (Ok (sp\<lparr>sp_encrypted_meta := meta, sp_sender := None, sp_payload := encrypted, sp_mode := 1\<rparr>))))"

definition open_payload ::
  "('z SlatepackLib_scheme) \<Rightarrow> bytes \<Rightarrow> Slatepack \<Rightarrow> (WalletError, Slatepack) result proc" where
  "open_payload S decrypted sp =
     (if length decrypted < 4 then Panic ''range end index out of range''
      else
        let meta_len = unat (word_of_int (be_int (take 4 decrypted)) :: u32)
        in if length decrypted < meta_len + 4 then Panic ''split_off''
           else
             pbind (read_meta S (take (meta_len + 4) decrypted)) (\<lambda>r.
             case r of
               Inl _ \<Rightarrow> Ret (Err SlatepackSer)
             | Inr (meta, _) \<Rightarrow>
                 Ret (Ok (sp\<lparr>sp_payload := drop (meta_len + 4) decrypted, sp_sender := em_sender meta,
                             sp_encrypted_meta := (sp_encrypted_meta sp)\<lparr>em_recipients := em_recipients meta\<rparr>,
                             sp_mode := 0\<rparr>))))"

definition try_decrypt_payload ::
  "('z SlatepackLib_scheme) \<Rightarrow> bytes option \<Rightarrow> Slatepack \<Rightarrow> (WalletError, Slatepack) result proc" where
  "try_decrypt_payload S dec_key sp =
     (if sp_mode sp = 0 then Ret (Ok sp)
      else
        (case dec_key of
           None \<Rightarrow> Ret (Ok sp)
         | Some k \<Rightarrow>
             let key = take 32 (sha512 S k)
             in case age_decryptor S (sp_payload sp) of
                  None \<Rightarrow> Ret (Err AgeError)
                | Some AgePassphrase \<Rightarrow> Panic ''internal error: entered unreachable code''
                | Some AgeRecipients \<Rightarrow>
                    (case age_decrypt S key (sp_payload sp) of
                       None \<Rightarrow> Ret (Err AgeError)
                     | Some decrypted \<Rightarrow> open_payload S decrypted sp)))"

definition add_recipient :: "SlatepackAddress \<Rightarrow> Slatepack \<Rightarrow> Slatepack" where
  "add_recipient addr sp =
     sp\<lparr>sp_encrypted_meta := (sp_encrypted_meta sp)\<lparr>em_recipients := em_recipients (sp_encrypted_meta sp) @ [addr]\<rparr>\<rparr>"

section \<open>The armor\<close>

definition HEADER :: string where "HEADER = ''BEGINSLATEPACK.''"
definition FOOTER :: string where "FOOTER = ''. ENDSLATEPACK.''"
definition WORD_LENGTH :: nat where "WORD_LENGTH = 15"
definition WORDS_PER_LINE :: nat where "WORDS_PER_LINE = 200"
definition WEIGHT_RATIO :: u64 where "WEIGHT_RATIO = 32"

definition saturating_mul :: "u64 \<Rightarrow> u64 \<Rightarrow> u64" where
  "saturating_mul a b = (if unat a * unat b < 2 ^ 64 then a * b else - 1)"

definition saturating_add :: "u64 \<Rightarrow> u64 \<Rightarrow> u64" where
  "saturating_add a b = (if unat a + unat b < 2 ^ 64 then a + b else - 1)"

definition max_size :: "('z SlatepackLib_scheme) \<Rightarrow> u64" where
  "max_size S =
     saturating_add (saturating_add (saturating_mul (max_tx_weight S) WEIGHT_RATIO) (of_nat (length HEADER)))
       (of_nat (length FOOTER))"

definition min_size :: u64 where
  "min_size = of_nat (length HEADER)"

definition WHITESPACE_LIST :: bytes where
  "WHITESPACE_LIST = as_bytes (''>'' @ [CHR 0x0A, CHR 0x0D, CHR 0x09] @ '' '')"

text \<open>The regular expressions: a word between characters of the white space class.\<close>

definition framing_matches :: "string \<Rightarrow> string \<Rightarrow> bool" where
  "framing_matches framing s \<longleftrightarrow>
     (let ws = (\<lambda>c. c \<in> set (''>'' @ [CHR 0x0A, CHR 0x0D, CHR 0x09] @ '' ''))
      in rev (dropWhile ws (rev (dropWhile ws s))) = framing)"

definition check_framing :: "string \<Rightarrow> string \<Rightarrow> bytes \<Rightarrow> (WalletError, unit) result" where
  "check_framing framing msg b =
     (case from_utf8 b of
        None \<Rightarrow> Err (SlatepackDeser ''Bad bytes'')
      | Some s \<Rightarrow> if framing_matches framing s then Ok () else Err (InvalidSlatepackData msg))"

definition check_header :: "bytes \<Rightarrow> (WalletError, unit) result" where
  "check_header header = check_framing ''BEGINSLATEPACK'' ''Bad armor header'' header"

definition check_footer :: "bytes \<Rightarrow> (WalletError, unit) result" where
  "check_footer footer = check_framing ''ENDSLATEPACK'' ''Bad armor footer'' footer"

definition generate_check :: "('z SlatepackLib_scheme) \<Rightarrow> bytes \<Rightarrow> bytes" where
  "generate_check S payload = take 4 (sha256 S (sha256 S payload))"

definition error_check :: "('z SlatepackLib_scheme) \<Rightarrow> bytes \<Rightarrow> bytes \<Rightarrow> (WalletError, unit) result" where
  "error_check S error_code slate_bytes =
     (if error_code = generate_check S slate_bytes then Ok ()
      else Err (InvalidSlatepackData ''Bad slate error code- some data was corrupted''))"

definition base58check :: "('z SlatepackLib_scheme) \<Rightarrow> bytes \<Rightarrow> string" where
  "base58check S slate = bs58_encode S (generate_check S slate @ slate)"

text \<open>What the formatter puts before the character at a position.\<close>

definition separator :: "nat \<Rightarrow> string" where
  "separator i =
     (if i \<noteq> 0 \<and> i mod WORD_LENGTH = 0
      then (if WORDS_PER_LINE \<noteq> 0 \<and> i mod (WORD_LENGTH * WORDS_PER_LINE) = 0 then [CHR 0x0A] else '' '')
      else [])"

definition format_slatepack :: "string \<Rightarrow> string" where
  "format_slatepack s = concat (map (\<lambda>(i, c). separator i @ [c]) (List.enumerate 0 s))"

definition not_period :: "u8 \<Rightarrow> bool" where
  "not_period b \<longleftrightarrow> b \<noteq> 0x2E"

definition armor_decode :: "('z SlatepackLib_scheme) \<Rightarrow> bytes \<Rightarrow> (WalletError, bytes) result proc" where
  "armor_decode S armor_bytes =
     (let header_bytes = takeWhile not_period armor_bytes
      in case check_header header_bytes of
           Inl e \<Rightarrow> Ret (Err e)
         | Inr _ \<Rightarrow>
             let header_len = length header_bytes + 1
             in if length armor_bytes < header_len then Panic ''range start index out of range''
                else
                  let payload_bytes = takeWhile not_period (drop header_len armor_bytes);
                      consumed_bytes = header_len + length payload_bytes + 1
                  in if length armor_bytes < consumed_bytes then Panic ''range start index out of range''
                     else
                       (case check_footer (takeWhile not_period (drop consumed_bytes armor_bytes)) of
                          Inl e \<Rightarrow> Ret (Err e)
                        | Inr _ \<Rightarrow>
                            let clean_payload = filter (\<lambda>b. b \<notin> set WHITESPACE_LIST) payload_bytes
                            in case bs58_decode S (bytes_str clean_payload) of
                                 None \<Rightarrow> Ret (Err (SlatepackDeser ''Bad bytes''))
                               | Some base_decode \<Rightarrow>
                                   if length base_decode < 4 then Panic ''range end index out of range''
                                   else
                                     Ret (rbind (error_check S (take 4 base_decode) (drop 4 base_decode)) (\<lambda>_.
                                          Ok (drop 4 base_decode)))))"

definition armor_encode :: "('z SlatepackLib_scheme) \<Rightarrow> Slatepack \<Rightarrow> (WalletError, string) result proc" where
  "armor_encode S sp =
     pbind (write_slatepack S sp) (\<lambda>r.
     case r of
       Inl _ \<Rightarrow> Ret (Err SlatepackSer)
     | Inr slatepack_bytes \<Rightarrow>
         Ret (Ok (format_slatepack (HEADER @ base58check S slatepack_bytes) @ FOOTER @ [CHR 0x0A])))"

section \<open>The packer\<close>

record SlatepackerArgs =
  spk_sender :: "SlatepackAddress option"
  spk_recipients :: "SlatepackAddress list"
  spk_dec_key :: "bytes option"

definition deser_slatepack ::
  "('z SlatepackLib_scheme) \<Rightarrow> SlatepackerArgs \<Rightarrow> bytes \<Rightarrow> bool \<Rightarrow> (WalletError, Slatepack) result proc" where
  "deser_slatepack S args data decrypt =
     (let data_len = of_nat (length data) :: u64
      in if data_len < min_size \<or> data_len > max_size S then Ret (Err (SlatepackDeser ''Data invalid length''))
         else
           try_bind (if from_utf8 (take (length HEADER) data) = Some HEADER then armor_decode S data else Ret (Ok data)) (\<lambda>data.
           try_bind (pbind (read_slatepack S data) (\<lambda>r.
             case r of
               Inr (sp, _) \<Rightarrow> Ret (Ok sp)
             | Inl _ \<Rightarrow>
                 Ret (rbind (ok_or SlatepackDeserLib (from_utf8 data)) (\<lambda>content.
                      ok_or SlatepackDeserLib (from_json_slatepack S content))))) (\<lambda>sp.
           if decrypt then try_decrypt_payload S (spk_dec_key args) sp else Ret (Ok sp))))"

definition create_slatepack ::
  "('z SlatepackLib_scheme) \<Rightarrow> SlatepackerArgs \<Rightarrow> Slate \<Rightarrow> (WalletError, Slatepack) result proc" where
  "create_slatepack S args slate =
     try_encrypt_payload S (spk_recipients args)
       (slatepack_default\<lparr>sp_payload := serialize_slate_bin S (slate_to_v4 slate), sp_sender := spk_sender args\<rparr>)"

definition armor_slatepack :: "('z SlatepackLib_scheme) \<Rightarrow> Slatepack \<Rightarrow> (WalletError, string) result proc" where
  "armor_slatepack S sp = armor_encode S sp"

definition get_slate :: "('z SlatepackLib_scheme) \<Rightarrow> Slatepack \<Rightarrow> (WalletError, Slate) result proc" where
  "get_slate S sp =
     pbind (deserialize_slate_bin S (sp_payload sp)) (\<lambda>r.
     case r of Inl _ \<Rightarrow> Ret (Err SlatepackDeserLib) | Inr v4 \<Rightarrow> Ret (upgrade S (V4 v4)))"

end
