(* ===== verification/Wallet_Api.thy ===== *)
theory Wallet_Api
  imports Wallet_Scan Slatepack
begin

text \<open>
  The wallet's interface, \<open>grin-wallet/libwallet/src/api_impl/owner.rs\<close> and \<open>foreign.rs\<close>: what the owner
  and what other wallets ask of it. Functions that exist elsewhere under the same name have the
  prefix of their file. What the world answers during one call (the clock, the node, the order of
  hash maps, and the fuel of the two loops) is the record \<open>ApiEnv\<close>. The wallet instance behind its
  mutex is the wallet; messages to the status channel are left out; \<open>use_test_rng\<close> is false.
\<close>

record ApiEnv =
  ae_fuel :: nat
  ae_scan_fuel :: nat
  ae_now :: u64
  ae_node :: NodeClient
  ae_hash_order :: "(Commitment \<times> wallet_output) list \<Rightarrow> (Commitment \<times> wallet_output) list"
  ae_parents_order :: "parents \<Rightarrow> parents"

text \<open>The public key of an ed25519 secret key; the fees of a transaction's kernels together.\<close>

record ApiLib = ScanLib +
  dalek_public_of :: "bytes \<Rightarrow> bytes"
  aggregate_fee_fields :: "Transaction \<Rightarrow> u64 \<Rightarrow> FeeFields option"

section \<open>Argument and result types\<close>

record IssueInvoiceTxArgs =
  ii_dest_acct_name :: "string option"
  ii_amount :: u64
  ii_target_slate_version :: "u16 option"

record NodeHeightResult =
  nh_height :: u64
  nh_header_hash :: string
  nh_updated_from_node :: bool

datatype SlateVersion = SlateV4Version

record VersionInfo =
  vi_foreign_api_version :: u16
  vi_supported_slate_versions :: "SlateVersion list"

record PaymentProof =
  pp_amount :: u64
  pp_excess :: Commitment
  pp_recipient_address :: SlatepackAddress
  pp_recipient_sig :: bytes
  pp_sender_address :: SlatepackAddress
  pp_sender_sig :: bytes

definition init_tx_args_default :: InitTxArgs where
  "init_tx_args_default =
     \<lparr>ita_src_acct_name = None, ita_amount = 0, ita_minimum_confirmations = 10, ita_max_outputs = 500,
      ita_num_change_outputs = 1, ita_selection_strategy_is_use_all = True, ita_target_slate_version = None,
      ita_ttl_blocks = None, ita_payment_proof_recipient_address = None, ita_estimate_only = Some False,
      ita_late_lock = Some False, ita_send_args = None\<rparr>"

definition issue_invoice_tx_args_default :: IssueInvoiceTxArgs where
  "issue_invoice_tx_args_default = \<lparr>ii_dest_acct_name = None, ii_amount = 0, ii_target_slate_version = None\<rparr>"

section \<open>Shared steps\<close>

text \<open>The account of a name, or the active one where there is none of that name.\<close>

definition acct_or_active :: "('z StoreLib_scheme) \<Rightarrow> LMDBBackend \<Rightarrow> string option \<Rightarrow> (WalletError, Identifier) result" where
  "acct_or_active L w name =
     (case name of
        None \<Rightarrow> Ok (lm_parent_key_id w)
      | Some d \<Rightarrow>
          rbind (get_acct_path L w d) (\<lambda>pm.
          Ok (case pm of Some p \<Rightarrow> acct_path p | None \<Rightarrow> lm_parent_key_id w)))"

text \<open>A batch that writes, or deletes, a context.\<close>

definition put_context ::
  "('z StoreLib_scheme) \<Rightarrow> SecretKey option \<Rightarrow> Uuid \<Rightarrow> Context \<Rightarrow> LMDBBackend \<Rightarrow>
   ((WalletError, unit) result \<times> LMDBBackend) proc" where
  "put_context L keychain_mask uuid context w =
     try_r (keychain L w keychain_mask) w (\<lambda>k.
     try_r (save_private_context L k (uuid_bytes L uuid) context (lm_db w)) w (\<lambda>d.
     Ret (Ok (), commit_batch d w)))"

definition drop_context ::
  "('z StoreLib_scheme) \<Rightarrow> SecretKey option \<Rightarrow> Uuid \<Rightarrow> LMDBBackend \<Rightarrow> ((WalletError, unit) result \<times> LMDBBackend) proc" where
  "drop_context L keychain_mask uuid w =
     try_r (keychain L w keychain_mask) w (\<lambda>_.
     Ret (Ok (), commit_batch (delete_private_context L (uuid_bytes L uuid) (lm_db w)) w))"

definition check_ttl :: "('z StoreLib_scheme) \<Rightarrow> LMDBBackend \<Rightarrow> Slate \<Rightarrow> (WalletError, unit) result" where
  "check_ttl L w slate =
     rbind (last_confirmed_height L w) (\<lambda>last_height.
     if ttl_cutoff_height slate \<noteq> 0 \<and> last_height \<ge> ttl_cutoff_height slate then Err TransactionExpired else Ok ())"

definition set_version :: "u16 option \<Rightarrow> Slate \<Rightarrow> Slate" where
  "set_version v slate =
     (case v of Some v \<Rightarrow> slate\<lparr>version_info := (version_info slate)\<lparr>version := v\<rparr>\<rparr> | None \<Rightarrow> slate)"

section \<open>Accounts\<close>

definition owner_accounts :: "LMDBBackend \<Rightarrow> (WalletError, AcctPathMapping list) result" where
  "owner_accounts w = accounts w"

definition create_account_path ::
  "('z WalletLib_scheme) \<Rightarrow> SecretKey option \<Rightarrow> string \<Rightarrow> LMDBBackend \<Rightarrow> (WalletError, Identifier) result \<times> LMDBBackend" where
  "create_account_path L keychain_mask label w = new_acct_path L keychain_mask label w"

definition set_active_account :: "string \<Rightarrow> LMDBBackend \<Rightarrow> (WalletError, unit) result \<times> LMDBBackend" where
  "set_active_account label w = set_parent_key_id_by_name label w"

section \<open>Slatepacks\<close>

definition address_key ::
  "('z WalletLib_scheme) \<Rightarrow> SecretKey option \<Rightarrow> u32 \<Rightarrow> LMDBBackend \<Rightarrow> (WalletError, SecretKey) result proc" where
  "address_key L keychain_mask index w =
     try_bind (Ret (keychain L w keychain_mask)) (\<lambda>k.
     address_from_derivation_path L k (lm_parent_key_id w) index)"

definition address_of_key ::
  "('z ApiLib_scheme) \<Rightarrow> ('y SlatepackLib_scheme) \<Rightarrow> SecretKey \<Rightarrow> (WalletError, SlatepackAddress) result" where
  "address_of_key L S key =
     (case dalek_secret L key of
        None \<Rightarrow> Err ED25519KeyError
      | Some d_skey \<Rightarrow> Ok (slatepack_address_new S (dalek_public_of L d_skey)))"

definition get_slatepack_address ::
  "('z ApiLib_scheme) \<Rightarrow> ('y SlatepackLib_scheme) \<Rightarrow> SecretKey option \<Rightarrow> u32 \<Rightarrow> LMDBBackend \<Rightarrow>
   (WalletError, SlatepackAddress) result proc" where
  "get_slatepack_address L S keychain_mask index w =
     try_bind (address_key L keychain_mask index w) (\<lambda>sec_addr_key. Ret (address_of_key L S sec_addr_key))"

definition get_slatepack_secret_key ::
  "('z WalletLib_scheme) \<Rightarrow> SecretKey option \<Rightarrow> u32 \<Rightarrow> LMDBBackend \<Rightarrow> (WalletError, bytes) result proc" where
  "get_slatepack_secret_key L keychain_mask index w =
     try_bind (address_key L keychain_mask index w) (\<lambda>sec_addr_key.
     Ret (ok_or OnionV3AddressError (dalek_secret L sec_addr_key)))"

definition create_slatepack_message ::
  "('z ApiLib_scheme) \<Rightarrow> ('y SlatepackLib_scheme) \<Rightarrow> SecretKey option \<Rightarrow> Slate \<Rightarrow> u32 option \<Rightarrow> SlatepackAddress list \<Rightarrow>
   LMDBBackend \<Rightarrow> (WalletError, string) result proc" where
  "create_slatepack_message L S keychain_mask slate sender_index recipients w =
     try_bind (case sender_index of
                 Some i \<Rightarrow> try_bind (get_slatepack_address L S keychain_mask i w) (\<lambda>a. Ret (Ok (Some a)))
               | None \<Rightarrow> Ret (Ok None)) (\<lambda>sender.
     try_bind (create_slatepack S \<lparr>spk_sender = sender, spk_recipients = recipients, spk_dec_key = None\<rparr> slate) (\<lambda>slatepack.
     armor_slatepack S slatepack))"

abbreviation packer_with :: "bytes option \<Rightarrow> SlatepackerArgs" where
  "packer_with key \<equiv> \<lparr>spk_sender = None, spk_recipients = [], spk_dec_key = key\<rparr>"

text \<open>The loop over the indices: the first key that opens the slatepack.\<close>

fun open_with_keys ::
  "('z WalletLib_scheme) \<Rightarrow> ('y SlatepackLib_scheme) \<Rightarrow> SecretKey option \<Rightarrow> string \<Rightarrow> u32 list \<Rightarrow> LMDBBackend \<Rightarrow>
   (WalletError, Slatepack option) result proc" where
  "open_with_keys L S keychain_mask slatepack [] w = Ret (Ok None)"
| "open_with_keys L S keychain_mask slatepack (index # indices) w =
     try_bind (get_slatepack_secret_key L keychain_mask index w) (\<lambda>dec_key.
     pbind (deser_slatepack S (packer_with (Some dec_key)) (as_bytes slatepack) True) (\<lambda>res.
     case res of
       Inr sp \<Rightarrow> Ret (Ok (Some sp))
     | Inl _ \<Rightarrow> open_with_keys L S keychain_mask slatepack indices w))"

definition slate_from_slatepack_message ::
  "('z WalletLib_scheme) \<Rightarrow> ('y SlatepackLib_scheme) \<Rightarrow> SecretKey option \<Rightarrow> string \<Rightarrow> u32 list \<Rightarrow> LMDBBackend \<Rightarrow>
   (WalletError, Slate) result proc" where
  "slate_from_slatepack_message L S keychain_mask slatepack secret_indices w =
     (if secret_indices = []
      then try_bind (deser_slatepack S (packer_with None) (as_bytes slatepack) True) (get_slate S)
      else
        try_bind (open_with_keys L S keychain_mask slatepack secret_indices w) (\<lambda>sp.
        case sp of
          Some sp \<Rightarrow> get_slate S sp
        | None \<Rightarrow> Ret (Err (SlatepackDecryption
            ''Could not decrypt slatepack with any provided index on the address derivation path''))))"

definition decode_slatepack_message ::
  "('z WalletLib_scheme) \<Rightarrow> ('y SlatepackLib_scheme) \<Rightarrow> SecretKey option \<Rightarrow> string \<Rightarrow> u32 list \<Rightarrow> LMDBBackend \<Rightarrow>
   (WalletError, Slatepack) result proc" where
  "decode_slatepack_message L S keychain_mask slatepack secret_indices w =
     (if secret_indices = [] then deser_slatepack S (packer_with None) (as_bytes slatepack) False
      else
        try_bind (open_with_keys L S keychain_mask slatepack secret_indices w) (\<lambda>sp.
        case sp of
          Some sp \<Rightarrow> Ret (Ok sp)
        | None \<Rightarrow> deser_slatepack S (packer_with None) (as_bytes slatepack) False))"

section \<open>Updating the wallet\<close>

definition update_outputs ::
  "ApiEnv \<Rightarrow> ('z WalletLib_scheme) \<Rightarrow> SecretKey option \<Rightarrow> bool \<Rightarrow> LMDBBackend \<Rightarrow>
   ((WalletError, bool) result \<times> LMDBBackend) proc" where
  "update_outputs E L keychain_mask update_all w =
     pbind (refresh_outputs L (ae_now E) (ae_node E) (ae_hash_order E) keychain_mask (lm_parent_key_id w) update_all w)
       (\<lambda>(r, w).
     case r of
       Inr _ \<Rightarrow> Ret (Ok True, w)
     | Inl e \<Rightarrow> if e = InvalidKeychainMask then Ret (Err e, w) else Ret (Ok False, w))"

text \<open>The loop of \<open>update_txs_via_kernel\<close>; the transactions come back with their flags.\<close>

fun confirm_by_kernel ::
  "ApiEnv \<Rightarrow> ('z WalletLib_scheme) \<Rightarrow> SecretKey option \<Rightarrow> u64 \<Rightarrow> Identifier \<Rightarrow> TxLogEntry list \<Rightarrow> LMDBBackend \<Rightarrow>
   ((WalletError, bool \<times> TxLogEntry list) result \<times> LMDBBackend) proc" where
  "confirm_by_kernel E L keychain_mask height parent [] w = Ret (Ok (True, []), w)"
| "confirm_by_kernel E L keychain_mask height parent (tx # txs) w =
     (let next = (\<lambda>tx w. try_w (confirm_by_kernel E L keychain_mask height parent txs w)
                          (\<lambda>(ok, txs) w. Ret (Ok (ok, tx # txs), w)))
      in if le_confirmed tx \<or> le_amount_debited tx \<noteq> 0 \<and> le_amount_credited tx \<noteq> 0 then next tx w
         else
           (case le_kernel_excess tx of
              None \<Rightarrow> next tx w
            | Some e \<Rightarrow>
                (case get_kernel (ae_node E) e (le_kernel_lookup_min_height tx) (Some height) of
                   Inl _ \<Rightarrow> Ret (Ok (False, tx # txs), w)
                 | Inr None \<Rightarrow> next tx w
                 | Inr (Some _) \<Rightarrow>
                     try_r (keychain L w keychain_mask) w (\<lambda>_.
                     let tx = update_confirmation_ts (ae_now E) (tx\<lparr>le_confirmed := True\<rparr>)
                     in next tx (commit_batch (save_tx_log_entry L tx parent (lm_db w)) w)))))"

definition update_txs_via_kernel ::
  "ApiEnv \<Rightarrow> ('z WalletLib_scheme) \<Rightarrow> SecretKey option \<Rightarrow> TxLogEntry list \<Rightarrow> LMDBBackend \<Rightarrow>
   ((WalletError, bool \<times> TxLogEntry list) result \<times> LMDBBackend) proc" where
  "update_txs_via_kernel E L keychain_mask txs w =
     (case get_chain_tip (ae_node E) of
        Inl _ \<Rightarrow> Ret (Ok (False, txs), w)
      | Inr (height, _) \<Rightarrow> confirm_by_kernel E L keychain_mask height (lm_parent_key_id w) txs w)"

definition block_to_scan_from ::
  "('z StoreLib_scheme) \<Rightarrow> u64 \<times> string \<Rightarrow> LMDBBackend \<Rightarrow> (WalletError, ScannedBlockInfo) result" where
  "block_to_scan_from L tip w =
     rbind (init_status L w) (\<lambda>status.
     case status of
       InitNeedsScanning \<Rightarrow> Ok \<lparr>sb_height = 0, sb_hash = [], sb_start_pmmr_index = 0, sb_last_pmmr_index = 0\<rparr>
     | InitNoScanning \<Rightarrow> Ok \<lparr>sb_height = fst tip, sb_hash = snd tip, sb_start_pmmr_index = 0, sb_last_pmmr_index = 0\<rparr>
     | InitComplete \<Rightarrow> last_scanned_block L w)"

text \<open>The last loop: transactions past their time to live are cancelled.\<close>

definition cancel_expired ::
  "('z WalletLib_scheme) \<Rightarrow> SecretKey option \<Rightarrow> u64 \<Rightarrow> TxLogEntry \<Rightarrow> LMDBBackend \<Rightarrow>
   ((WalletError, unit) result \<times> LMDBBackend) proc" where
  "cancel_expired L keychain_mask tip_h tx w =
     (case le_ttl_cutoff_height tx of
        Some e \<Rightarrow> if tip_h \<ge> e then cancel_tx L keychain_mask (lm_parent_key_id w) (Some (le_id tx)) None w
                  else Ret (Ok (), w)
      | None \<Rightarrow> Ret (Ok (), w))"

definition update_wallet_state ::
  "ApiEnv \<Rightarrow> ('z ScanLib_scheme) \<Rightarrow> SecretKey option \<Rightarrow> bool \<Rightarrow> LMDBBackend \<Rightarrow>
   ((WalletError, bool) result \<times> LMDBBackend) proc" where
  "update_wallet_state E L keychain_mask update_all w =
     try_w (update_outputs E L keychain_mask update_all w) (\<lambda>result w.
     if \<not> result then Ret (Ok False, w)
     else
       try_r (retrieve_txs w None None (Some (lm_parent_key_id w)) True) w (\<lambda>txs.
       try_w (update_txs_via_kernel E L keychain_mask txs w) (\<lambda>(result, txs) w.
       if \<not> result then Ret (Ok False, w)
       else
         (case get_chain_tip (ae_node E) of
            Inl _ \<Rightarrow> Ret (Ok False, w)
          | Inr tip \<Rightarrow>
              try_r (block_to_scan_from L tip w) w (\<lambda>last_block.
              let start_index = saturating_sub (sb_height last_block) 100
              in try_w (scan (ae_scan_fuel E) L (ae_now E) (ae_node E) (ae_parents_order E) keychain_mask False start_index
                          (fst tip) w) (\<lambda>info w.
              try_r (keychain L w keychain_mask) w (\<lambda>_.
              let w = commit_batch (save_init_status L InitComplete
                        (save_last_scanned_block L (info\<lparr>sb_hash := snd tip\<rparr>) (lm_db w))) w
              in try_w (for_wallet (cancel_expired L keychain_mask (fst tip)) txs w) (\<lambda>_ w.
                 Ret (Ok True, w))))))))) "

definition owner_scan ::
  "ApiEnv \<Rightarrow> ('z ScanLib_scheme) \<Rightarrow> SecretKey option \<Rightarrow> u64 option \<Rightarrow> bool \<Rightarrow> LMDBBackend \<Rightarrow>
   ((WalletError, unit) result \<times> LMDBBackend) proc" where
  "owner_scan E L keychain_mask start_height delete_unconfirmed w =
     try_w (update_outputs E L keychain_mask True w) (\<lambda>_ w.
     try_r (get_chain_tip (ae_node E)) w (\<lambda>tip.
     let start_height = (case start_height of Some h \<Rightarrow> h | None \<Rightarrow> 1)
     in try_w (scan (ae_scan_fuel E) L (ae_now E) (ae_node E) (ae_parents_order E) keychain_mask delete_unconfirmed
                 start_height (fst tip) w) (\<lambda>info w.
     try_r (keychain L w keychain_mask) w (\<lambda>_.
     Ret (Ok (), commit_batch (save_last_scanned_block L (info\<lparr>sb_hash := snd tip\<rparr>) (lm_db w)) w)))))"

section \<open>Reading\<close>

definition refresh_if ::
  "ApiEnv \<Rightarrow> ('z ScanLib_scheme) \<Rightarrow> SecretKey option \<Rightarrow> bool \<Rightarrow> LMDBBackend \<Rightarrow> ((WalletError, bool) result \<times> LMDBBackend) proc" where
  "refresh_if E L keychain_mask refresh_from_node w =
     (if refresh_from_node then update_wallet_state E L keychain_mask False w else Ret (Ok False, w))"

definition owner_retrieve_outputs ::
  "ApiEnv \<Rightarrow> ('z ScanLib_scheme) \<Rightarrow> SecretKey option \<Rightarrow> bool \<Rightarrow> bool \<Rightarrow> u32 option \<Rightarrow> LMDBBackend \<Rightarrow>
   ((WalletError, bool \<times> OutputCommitMapping list) result \<times> LMDBBackend) proc" where
  "owner_retrieve_outputs E L keychain_mask include_spent refresh_from_node tx_id w =
     try_w (refresh_if E L keychain_mask refresh_from_node w) (\<lambda>validated w.
     pbind (retrieve_outputs L keychain_mask include_spent tx_id (Some (lm_parent_key_id w)) w) (\<lambda>r.
     try_r r w (\<lambda>outputs. Ret (Ok (validated, outputs), w))))"

definition owner_retrieve_txs ::
  "ApiEnv \<Rightarrow> ('z ScanLib_scheme) \<Rightarrow> SecretKey option \<Rightarrow> bool \<Rightarrow> u32 option \<Rightarrow> Uuid option \<Rightarrow> LMDBBackend \<Rightarrow>
   ((WalletError, bool \<times> TxLogEntry list) result \<times> LMDBBackend) proc" where
  "owner_retrieve_txs E L keychain_mask refresh_from_node tx_id tx_slate_id w =
     try_w (refresh_if E L keychain_mask refresh_from_node w) (\<lambda>validated w.
     try_r (retrieve_txs w tx_id tx_slate_id (Some (lm_parent_key_id w)) False) w (\<lambda>txs.
     Ret (Ok (validated, txs), w)))"

definition retrieve_summary_info ::
  "ApiEnv \<Rightarrow> ('z ScanLib_scheme) \<Rightarrow> SecretKey option \<Rightarrow> bool \<Rightarrow> u64 \<Rightarrow> LMDBBackend \<Rightarrow>
   ((WalletError, bool \<times> WalletInfo) result \<times> LMDBBackend) proc" where
  "retrieve_summary_info E L keychain_mask refresh_from_node minimum_confirmations w =
     try_w (refresh_if E L keychain_mask refresh_from_node w) (\<lambda>validated w.
     try_r (retrieve_info L (lm_parent_key_id w) minimum_confirmations w) w (\<lambda>info.
     Ret (Ok (validated, info), w)))"

definition proof_amount :: "('z GrinLib_scheme) \<Rightarrow> TxLogEntry \<Rightarrow> u64" where
  "proof_amount L tx =
     (if le_amount_credited tx \<ge> le_amount_debited tx then le_amount_credited tx - le_amount_debited tx
      else
        let fee = (case le_fee tx of Some f \<Rightarrow> fee_at L f (2 * YEAR_HEIGHT L) | None \<Rightarrow> 0)
        in le_amount_debited tx - le_amount_credited tx - fee)"

definition proof_of_entry ::
  "('z GrinLib_scheme) \<Rightarrow> ('y SlatepackLib_scheme) \<Rightarrow> TxLogEntry \<Rightarrow> (WalletError, PaymentProof) result" where
  "proof_of_entry L S tx =
     rbind (ok_or (PaymentProofRetrieval ''Transaction does not contain a payment proof'') (le_payment_proof tx)) (\<lambda>proof.
     rbind (ok_or (PaymentProofRetrieval ''Transaction does not contain kernel excess'') (le_kernel_excess tx)) (\<lambda>excess.
     rbind (ok_or (PaymentProofRetrieval ''Proof does not contain receiver signature '') (spi_receiver_signature proof)) (\<lambda>r_sig.
     rbind (ok_or (PaymentProofRetrieval ''Proof does not contain sender signature '') (spi_sender_signature proof)) (\<lambda>s_sig.
     Ok \<lparr>pp_amount = proof_amount L tx, pp_excess = excess,
         pp_recipient_address = slatepack_address_new S (spi_receiver_address proof), pp_recipient_sig = r_sig,
         pp_sender_address = slatepack_address_new S (spi_sender_address proof), pp_sender_sig = s_sig\<rparr>))))"

definition retrieve_payment_proof ::
  "ApiEnv \<Rightarrow> ('z ScanLib_scheme) \<Rightarrow> ('y SlatepackLib_scheme) \<Rightarrow> SecretKey option \<Rightarrow> bool \<Rightarrow> u32 option \<Rightarrow> Uuid option \<Rightarrow>
   LMDBBackend \<Rightarrow> ((WalletError, PaymentProof) result \<times> LMDBBackend) proc" where
  "retrieve_payment_proof E L S keychain_mask refresh_from_node tx_id tx_slate_id w =
     (if tx_id = None \<and> tx_slate_id = None
      then Ret (Err (PaymentProofRetrieval ''Transaction ID or Slate UUID must be specified''), w)
      else
        try_w (refresh_if E L keychain_mask refresh_from_node w) (\<lambda>_ w.
        try_w (owner_retrieve_txs E L keychain_mask refresh_from_node tx_id tx_slate_id w) (\<lambda>(_, txs) w.
        if length txs \<noteq> 1 then Ret (Err (PaymentProofRetrieval ''Transaction doesn't exist''), w)
        else try_r (proof_of_entry L S (hd txs)) w (\<lambda>proof. Ret (Ok proof, w)))))"

definition node_height ::
  "ApiEnv \<Rightarrow> ('z ScanLib_scheme) \<Rightarrow> SecretKey option \<Rightarrow> LMDBBackend \<Rightarrow>
   ((WalletError, NodeHeightResult) result \<times> LMDBBackend) proc" where
  "node_height E L keychain_mask w =
     (case get_chain_tip (ae_node E) of
        Inr (height, hash) \<Rightarrow> Ret (Ok \<lparr>nh_height = height, nh_header_hash = hash, nh_updated_from_node = True\<rparr>, w)
      | Inl _ \<Rightarrow>
          try_w (owner_retrieve_outputs E L keychain_mask True False None w) (\<lambda>(_, outputs) w.
          let height = (case map (\<lambda>m. od_height (ocm_output m)) outputs of [] \<Rightarrow> 0 | h # hs \<Rightarrow> fold max hs h)
          in Ret (Ok \<lparr>nh_height = height, nh_header_hash = [], nh_updated_from_node = False\<rparr>, w)))"

end
