(* ===== verification/Wallet_Flow.thy ===== *)
theory Wallet_Flow
  imports Wallet_Api
begin

text \<open>
  The steps of a transaction as the wallet's interface offers them: \<open>owner.rs\<close> (starting, invoices,
  locking, finishing, cancelling, posting and proving) and \<open>foreign.rs\<close> (receiving, finishing an
  invoice). A slate goes from one wallet to the other between these calls.
\<close>

section \<open>Starting\<close>

text \<open>The proof a sender asks for: its own address from the key at index 0, and the receiver's.\<close>

definition ask_for_proof ::
  "('z WalletLib_scheme) \<Rightarrow> SecretKey option \<Rightarrow> Identifier \<Rightarrow> SlatepackAddress option \<Rightarrow> Slate \<Rightarrow> Context \<Rightarrow> LMDBBackend \<Rightarrow>
   (WalletError, Slate \<times> Context) result proc" where
  "ask_for_proof L keychain_mask parent recipient slate context w =
     (case recipient of
        None \<Rightarrow> Ret (Ok (slate, context))
      | Some a \<Rightarrow>
          try_bind (Ret (keychain L w keychain_mask)) (\<lambda>k.
          try_bind (address_from_derivation_path L k parent 0) (\<lambda>sec_addr_key.
          Ret (rbind (ok_or OnionV3AddressError (onion_ed25519 L sec_addr_key)) (\<lambda>addr.
               Ok (slate\<lparr>payment_proof := Some \<lparr>sender_address = addr, receiver_address = spa_pub_key a,
                                               receiver_signature = None\<rparr>\<rparr>,
                   context\<lparr>payment_proof_derivation_index := Some 0\<rparr>))))))"

definition init_send_tx ::
  "ApiEnv \<Rightarrow> ('z WalletLib_scheme) \<Rightarrow> SecretKey option \<Rightarrow> InitTxArgs \<Rightarrow> LMDBBackend \<Rightarrow>
   ((WalletError, Slate) result \<times> LMDBBackend) proc" where
  "init_send_tx E L keychain_mask args w =
     try_r (acct_or_active L w (ita_src_acct_name args)) w (\<lambda>parent.
     pbind (new_tx_slate L (ae_node E) (ita_amount args) False 2 (ita_ttl_blocks args)) (\<lambda>r.
     try_r r w (\<lambda>slate.
     let slate = set_version (ita_target_slate_version args) slate
     in if ita_estimate_only args = Some True
        then try_w (estimate_send_tx (ae_fuel E) L (ae_now E) (ae_node E) (ae_hash_order E) keychain_mask (ita_amount args)
                      (ita_minimum_confirmations args) (unat (ita_max_outputs args)) (unat (ita_num_change_outputs args))
                      (ita_selection_strategy_is_use_all args) parent w) (\<lambda>(tot, fee) w.
             pbind (unwrap ''try_into'' (fee_from_u64 L fee)) (\<lambda>ff.
             Ret (Ok (slate\<lparr>slate_amount := tot, fee_fields := ff\<rparr>), w)))
        else
          try_r (get_chain_tip (ae_node E)) w (\<lambda>(height, _).
          try_w (if ita_late_lock args = Some True
                 then create_late_lock_context (ae_fuel E) L (ae_now E) (ae_node E) (ae_hash_order E) keychain_mask slate
                        height args parent w
                 else add_inputs_to_slate (ae_fuel E) L (ae_now E) (ae_node E) (ae_hash_order E) keychain_mask slate height
                        (ita_minimum_confirmations args) (unat (ita_max_outputs args)) (unat (ita_num_change_outputs args))
                        (ita_selection_strategy_is_use_all args) parent True w) (\<lambda>(context, slate) w.
          pbind (ask_for_proof L keychain_mask parent (ita_payment_proof_recipient_address args) slate context w) (\<lambda>r.
          try_r r w (\<lambda>(slate, context).
          try_w (put_context L keychain_mask (slate_id slate) context w) (\<lambda>_ w.
          try_r (Libwallet_Slate.compact slate) w (\<lambda>slate. Ret (Ok slate, w)))))))))) "

definition issue_invoice_tx ::
  "ApiEnv \<Rightarrow> ('z WalletLib_scheme) \<Rightarrow> SecretKey option \<Rightarrow> IssueInvoiceTxArgs \<Rightarrow> LMDBBackend \<Rightarrow>
   ((WalletError, Slate) result \<times> LMDBBackend) proc" where
  "issue_invoice_tx E L keychain_mask args w =
     try_r (acct_or_active L w (ii_dest_acct_name args)) w (\<lambda>parent.
     pbind (new_tx_slate L (ae_node E) (ii_amount args) True 2 None) (\<lambda>r.
     try_r r w (\<lambda>slate.
     try_r (get_chain_tip (ae_node E)) w (\<lambda>(height, _).
     try_w (add_output_to_slate L (ae_now E) keychain_mask slate height parent True w) (\<lambda>(context, slate) w.
     let slate = set_version (ii_target_slate_version args) slate
     in try_w (put_context L keychain_mask (slate_id slate) context w) (\<lambda>_ w.
        try_r (Libwallet_Slate.compact slate) w (\<lambda>slate. Ret (Ok slate, w))))))))"

section \<open>Paying an invoice\<close>

text \<open>A wallet that pays its own invoice merges the stored context of the other side into its own.\<close>

definition merge_contexts :: "(WalletError, Context) result \<Rightarrow> Context \<Rightarrow> Context" where
  "merge_contexts context_res context =
     (case context_res of
        Inl _ \<Rightarrow> context
      | Inr c \<Rightarrow>
          context\<lparr>initial_sec_key := initial_sec_key c, initial_sec_nonce := initial_sec_nonce c, ctx_fee := ctx_fee c,
                  ctx_amount := ctx_amount c, output_ids := output_ids context @ output_ids c,
                  input_ids := input_ids context @ input_ids c\<rparr>)"

definition process_invoice_tx ::
  "ApiEnv \<Rightarrow> ('z WalletLib_scheme) \<Rightarrow> SecretKey option \<Rightarrow> Slate \<Rightarrow> InitTxArgs \<Rightarrow> LMDBBackend \<Rightarrow>
   ((WalletError, Slate) result \<times> LMDBBackend) proc" where
  "process_invoice_tx E L keychain_mask slate args w =
     try_r (check_ttl L w slate) w (\<lambda>_.
     try_r (acct_or_active L w (ita_src_acct_name args)) w (\<lambda>parent.
     try_r (retrieve_txs w None (Some (slate_id slate)) (Some parent) False) w (\<lambda>txs.
     if \<exists>t \<in> set txs. le_tx_type t = TxSent
     then Ret (Err (TransactionAlreadyReceived (uuid_to_string L (slate_id slate))), w)
     else
       try_r (get_chain_tip (ae_node E)) w (\<lambda>(height, _).
       let ret_slate = (case ita_ttl_blocks args of Some b \<Rightarrow> slate\<lparr>ttl_cutoff_height := height + b\<rparr> | None \<Rightarrow> slate);
           ret_slate = ret_slate\<lparr>slate_tx := Some (empty_transaction L)\<rparr>;
           context_res = get_private_context L w keychain_mask (uuid_bytes L (slate_id slate))
       in try_w (add_inputs_to_slate (ae_fuel E) L (ae_now E) (ae_node E) (ae_hash_order E) keychain_mask ret_slate height
                   (ita_minimum_confirmations args) (unat (ita_max_outputs args)) (unat (ita_num_change_outputs args))
                   (ita_selection_strategy_is_use_all args) parent False w) (\<lambda>(context, ret_slate) w.
       try_r (keychain L w keychain_mask) w (\<lambda>_.
       try_r (adjust_offset L ret_slate
                (case context_res of Inr _ \<Rightarrow> context\<lparr>input_ids := [], output_ids := []\<rparr> | Inl _ \<Rightarrow> context)) w (\<lambda>ret_slate.
       try_r (calc_excess L ret_slate) w (\<lambda>excess.
       let context = merge_contexts context_res (context\<lparr>calculated_excess := Some excess\<rparr>)
       in try_r (repopulate_tx L keychain_mask ret_slate context False w) w (\<lambda>ret_slate.
       try_w (put_context L keychain_mask (slate_id slate) context w) (\<lambda>_ w.
       let ret_slate = ret_slate\<lparr>slate_amount := 0\<rparr>
       in try_r (remove_other_sigdata L ret_slate (sec_nonce context) (sec_key context)) w (\<lambda>ret_slate.
       Ret (Ok (ret_slate\<lparr>slate_state := Invoice2\<rparr>), w))))))))))))"

section \<open>Locking and finishing\<close>

definition tx_lock_outputs ::
  "ApiEnv \<Rightarrow> ('z WalletLib_scheme) \<Rightarrow> SecretKey option \<Rightarrow> Slate \<Rightarrow> LMDBBackend \<Rightarrow>
   ((WalletError, unit) result \<times> LMDBBackend) proc" where
  "tx_lock_outputs E L keychain_mask slate w =
     try_r (get_private_context L w keychain_mask (uuid_bytes L (slate_id slate))) w (\<lambda>context.
     try_r (if slate_tx slate = None
            then repopulate_tx L keychain_mask (slate\<lparr>slate_tx := Some (empty_transaction L)\<rparr>) context True w
            else Ok slate) w (\<lambda>sl.
     let excess_override = (if length (participant_data slate) = 1 then calculated_excess context else None)
     in try_r (get_chain_tip (ae_node E)) w (\<lambda>(height, _).
        lock_tx_context L (ae_now E) keychain_mask sl height context excess_override w)))"

text \<open>A transaction that was to be locked late selects its coins now, for the fee that was agreed on.\<close>

definition late_lock ::
  "ApiEnv \<Rightarrow> ('z WalletLib_scheme) \<Rightarrow> Keychain \<Rightarrow> SecretKey option \<Rightarrow> Slate \<Rightarrow> Context \<Rightarrow> LMDBBackend \<Rightarrow>
   ((WalletError, Context) result \<times> LMDBBackend) proc" where
  "late_lock E L kc keychain_mask sl context w =
     (case late_lock_args context of
        None \<Rightarrow> Ret (Ok context, w)
      | Some args \<Rightarrow>
          let context = context\<lparr>late_lock_args := None\<rparr>
          in try_r (get_chain_tip (ae_node E)) w (\<lambda>(current_height, _).
             pbind (new_tx_slate L (ae_node E) (ctx_amount context) False 2 (ita_ttl_blocks args)) (\<lambda>r.
             try_r r w (\<lambda>temp_sl.
             try_w (build_send_tx (ae_fuel E) L kc keychain_mask temp_sl current_height (ita_minimum_confirmations args)
                      (unat (ita_max_outputs args)) (unat (ita_num_change_outputs args))
                      (ita_selection_strategy_is_use_all args)
                      (Some (case ctx_fee context of Some f \<Rightarrow> fee_at L f current_height | None \<Rightarrow> 0))
                      (lm_parent_key_id w) w) (\<lambda>(temp_context, _) w.
             let context = context\<lparr>input_ids := input_ids temp_context, output_ids := output_ids temp_context\<rparr>
             in try_w (put_context L keychain_mask (slate_id sl) context w) (\<lambda>_ w.
                try_w (tx_lock_outputs E L keychain_mask sl w) (\<lambda>_ w.
                Ret (Ok context, w)))))))) "

definition finalize_tx ::
  "ApiEnv \<Rightarrow> ('z WalletLib_scheme) \<Rightarrow> SecretKey option \<Rightarrow> Slate \<Rightarrow> LMDBBackend \<Rightarrow>
   ((WalletError, Slate) result \<times> LMDBBackend) proc" where
  "finalize_tx E L keychain_mask slate w =
     try_r (check_ttl L w slate) w (\<lambda>_.
     try_r (get_private_context L w keychain_mask (uuid_bytes L (slate_id slate))) w (\<lambda>context.
     try_r (keychain L w keychain_mask) w (\<lambda>kc.
     let parent = lm_parent_key_id w
     in try_w (late_lock E L kc keychain_mask slate context w) (\<lambda>context w.
     try_r (adjust_offset L slate context) w (\<lambda>sl.
     try_r (repopulate_tx L keychain_mask sl context True w) w (\<lambda>sl.
     pbind (complete_tx L keychain_mask sl context w) (\<lambda>r.
     try_r r w (\<lambda>sl.
     pbind (verify_slate_payment_proof L keychain_mask parent context sl w) (\<lambda>r.
     try_r r w (\<lambda>_.
     try_w (update_stored_tx L keychain_mask context sl False w) (\<lambda>_ w.
     try_w (drop_context L keychain_mask (slate_id sl) w) (\<lambda>_ w.
     Ret (Ok (sl\<lparr>slate_state := Standard3, slate_amount := 0\<rparr>), w)))))))))))))"

definition owner_cancel_tx ::
  "ApiEnv \<Rightarrow> ('z ScanLib_scheme) \<Rightarrow> SecretKey option \<Rightarrow> u32 option \<Rightarrow> Uuid option \<Rightarrow> LMDBBackend \<Rightarrow>
   ((WalletError, unit) result \<times> LMDBBackend) proc" where
  "owner_cancel_tx E L keychain_mask tx_id tx_slate_id w =
     try_w (update_wallet_state E L keychain_mask False w) (\<lambda>validated w.
     if \<not> validated
     then Ret (Err (TransactionCancellationError ''Can't contact running Grin node. Not Cancelling.''), w)
     else cancel_tx L keychain_mask (lm_parent_key_id w) tx_id tx_slate_id w)"

definition owner_get_stored_tx ::
  "('z ApiLib_scheme) \<Rightarrow> u32 option \<Rightarrow> Uuid option \<Rightarrow> LMDBBackend \<Rightarrow> (WalletError, Slate option) result proc" where
  "owner_get_stored_tx L tx_id sid w =
     (let uuid = (case tx_id of
                    Some i \<Rightarrow> (case find (\<lambda>t. le_id t = i) (tx_log_iter (lm_db w)) of
                                Some t \<Rightarrow> le_tx_slate_id t | None \<Rightarrow> None)
                  | None \<Rightarrow> None);
          uuid = (if uuid = None then sid else uuid)
      in case uuid of
           None \<Rightarrow> Ret (Err (StoredTxError ''Both the provided Transaction Id and Slate UUID are invalid.''))
         | Some u \<Rightarrow>
             try_bind (get_stored_tx L w (uuid_to_string L u)) (\<lambda>tx_res.
             case tx_res of
               None \<Rightarrow> Ret (Ok None)
             | Some tx \<Rightarrow>
                 FreshUuid (\<lambda>fresh.
                 pbind (unwrap ''aggregate_fee_fields'' (aggregate_fee_fields L tx 0)) (\<lambda>ff.
                 Ret (Ok (Some ((blank L fresh 2 False)\<lparr>slate_tx := Some tx, fee_fields := ff, slate_id := u,
                            slate_offset := tx_offset tx, slate_state := Standard3\<rparr>))))))) "

definition post_tx :: "NodeClient \<Rightarrow> Transaction \<Rightarrow> bool \<Rightarrow> (WalletError, unit) result" where
  "post_tx client tx fluff = node_post_tx client tx fluff"

section \<open>Proving a payment\<close>

definition verify_payment_proof ::
  "ApiEnv \<Rightarrow> ('z ApiLib_scheme) \<Rightarrow> SecretKey option \<Rightarrow> PaymentProof \<Rightarrow> LMDBBackend \<Rightarrow>
   (WalletError, bool \<times> bool) result proc" where
  "verify_payment_proof E L keychain_mask proof w =
     (let sender_pubkey = spa_pub_key (pp_sender_address proof);
          recipient_pubkey = spa_pub_key (pp_recipient_address proof);
          msg = payment_proof_message (pp_amount proof) (pp_excess proof) sender_pubkey
      in try_bind (Ret (keychain L w keychain_mask)) (\<lambda>kc.
         case get_kernel (ae_node E) (pp_excess proof) None None of
           Inl _ \<Rightarrow> Ret (Err (PaymentProofError ''Error retrieving kernel from chain''))
         | Inr None \<Rightarrow> Ret (Err (PaymentProofError ''Transaction kernel not found on chain''))
         | Inr (Some _) \<Rightarrow>
             if \<not> dalek_verify L recipient_pubkey msg (pp_recipient_sig proof)
             then Ret (Err (PaymentProofError ''Invalid recipient signature''))
             else if \<not> dalek_verify L sender_pubkey msg (pp_sender_sig proof)
             then Ret (Err (PaymentProofError ''Invalid sender signature''))
             else
               try_bind (address_from_derivation_path L kc (lm_parent_key_id w) 0) (\<lambda>key.
               case dalek_secret L key of
                 None \<Rightarrow> Ret (Err ED25519KeyError)
               | Some d_skey \<Rightarrow>
                   let mine = dalek_public_of L d_skey
                   in Ret (Ok (mine = sender_pubkey, mine = recipient_pubkey)))))"

section \<open>What other wallets call\<close>

definition FOREIGN_API_VERSION :: u16 where "FOREIGN_API_VERSION = 2"

definition check_version :: VersionInfo where
  "check_version = \<lparr>vi_foreign_api_version = FOREIGN_API_VERSION, vi_supported_slate_versions = [SlateV4Version]\<rparr>"

definition foreign_build_coinbase ::
  "('z WalletLib_scheme) \<Rightarrow> SecretKey option \<Rightarrow> BlockFees \<Rightarrow> bool \<Rightarrow> LMDBBackend \<Rightarrow>
   ((WalletError, CbData) result \<times> LMDBBackend) proc" where
  "foreign_build_coinbase L keychain_mask block_fees test_mode w = build_coinbase L keychain_mask block_fees test_mode w"

text \<open>The receiver signs the proof the sender asked for with the key of its address.\<close>

definition sign_proof ::
  "('z WalletLib_scheme) \<Rightarrow> Keychain \<Rightarrow> Identifier \<Rightarrow> Commitment \<Rightarrow> Slate \<Rightarrow> (WalletError, Slate) result proc" where
  "sign_proof L kc parent excess slate =
     (case payment_proof slate of
        None \<Rightarrow> Ret (Ok slate)
      | Some p \<Rightarrow>
          try_bind (address_from_derivation_path L kc parent 0) (\<lambda>key.
          Ret (rbind (create_payment_proof_signature L (slate_amount slate) excess (sender_address p) key) (\<lambda>sig.
               Ok (slate\<lparr>payment_proof := Some (p\<lparr>receiver_signature := Some sig\<rparr>)\<rparr>)))))"

definition receive_tx ::
  "ApiEnv \<Rightarrow> ('z WalletLib_scheme) \<Rightarrow> SecretKey option \<Rightarrow> Slate \<Rightarrow> string option \<Rightarrow> LMDBBackend \<Rightarrow>
   ((WalletError, Slate) result \<times> LMDBBackend) proc" where
  "receive_tx E L keychain_mask slate dest_acct_name w =
     try_r (check_ttl L w slate) w (\<lambda>_.
     try_r (acct_or_active L w dest_acct_name) w (\<lambda>parent.
     try_r (retrieve_txs w None (Some (slate_id slate)) (Some parent) False) w (\<lambda>txs.
     if \<exists>t \<in> set txs. le_tx_type t = TxReceived
     then Ret (Err (TransactionAlreadyReceived (uuid_to_string L (slate_id slate))), w)
     else
       let ret_slate = slate\<lparr>slate_tx := Some (empty_transaction L)\<rparr>
       in try_r (last_confirmed_height L w) w (\<lambda>height.
          try_r (keychain L w keychain_mask) w (\<lambda>kc.
          try_w (add_output_to_slate L (ae_now E) keychain_mask ret_slate height parent False w) (\<lambda>(context, ret_slate) w.
          try_r (adjust_offset L ret_slate context) w (\<lambda>ret_slate.
          try_r (calc_excess L ret_slate) w (\<lambda>excess.
          pbind (sign_proof L kc parent excess ret_slate) (\<lambda>r.
          try_r r w (\<lambda>ret_slate.
          let ret_slate = ret_slate\<lparr>slate_amount := 0, fee_fields := fee_fields_zero L\<rparr>
          in try_r (remove_other_sigdata L ret_slate (sec_nonce context) (sec_key context)) w (\<lambda>ret_slate.
          Ret (Ok (ret_slate\<lparr>slate_state := Standard2\<rparr>), w))))))))))))"

definition foreign_finalize_tx ::
  "ApiEnv \<Rightarrow> ('z WalletLib_scheme) \<Rightarrow> SecretKey option \<Rightarrow> Slate \<Rightarrow> bool \<Rightarrow> LMDBBackend \<Rightarrow>
   ((WalletError, Slate) result \<times> LMDBBackend) proc" where
  "foreign_finalize_tx E L keychain_mask slate post_automatically w =
     try_r (get_private_context L w keychain_mask (uuid_bytes L (slate_id slate))) w (\<lambda>context.
     try_w (if slate_state slate = Invoice2
            then
              try_r (check_ttl L w slate) w (\<lambda>_.
              try_r (keychain L w keychain_mask) w (\<lambda>_.
              try_r (adjust_offset L slate context) w (\<lambda>sl.
              let temp_ctx = context\<lparr>sec_key := initial_sec_key context, sec_nonce := initial_sec_nonce context\<rparr>
              in try_r (repopulate_tx L keychain_mask sl temp_ctx False w) w (\<lambda>sl.
                 pbind (complete_tx L keychain_mask sl context w) (\<lambda>r.
                 try_r r w (\<lambda>sl.
                 try_w (update_stored_tx L keychain_mask context sl True w) (\<lambda>_ w.
                 try_w (drop_context L keychain_mask (slate_id sl) w) (\<lambda>_ w.
                 Ret (Ok (sl\<lparr>slate_state := Invoice3, slate_amount := 0\<rparr>), w)))))))))
            else finalize_tx E L keychain_mask slate w) (\<lambda>sl w.
     if post_automatically
     then try_r (tx_or_err sl) w (\<lambda>tx. try_r (post_tx (ae_node E) tx True) w (\<lambda>_. Ret (Ok sl, w)))
     else Ret (Ok sl, w)))"

end
