(* ===== verification/Wallet_Invariant.thy ===== *)
theory Wallet_Invariant
  imports Wallet_Flow Wallet_Refresh
begin

text \<open>
  The invariant of the wallet's database and that every operation of the wallet's interface keeps
  it, whatever its arguments are, whatever the node answers, and whether it succeeds or fails.
\<close>

section \<open>What every result of a computation satisfies\<close>

named_theorems ensuresI \<open>introduction rules for what a computation ensures\<close>

definition ensures :: "('a \<Rightarrow> bool) \<Rightarrow> 'a proc \<Rightarrow> bool" where
  "ensures P p \<longleftrightarrow> (\<forall>es x es'. replay p es = (Done x, es') \<longrightarrow> P x)"

lemma ensures_pbind:
  "ensures Q p \<Longrightarrow> (\<And>x. Q x \<Longrightarrow> ensures P (f x)) \<Longrightarrow> ensures P (pbind p f)"
  unfolding ensures_def replay_pbind by (force split: prod.splits outcome.splits)

lemma ensures_mono: "ensures Q p \<Longrightarrow> (\<And>x. Q x \<Longrightarrow> P x) \<Longrightarrow> ensures P p"
  unfolding ensures_def by blast

lemma ensures_any: "(\<And>x. ensures P (f x)) \<Longrightarrow> ensures P (pbind p f)"
  by (rule ensures_pbind [of "\<lambda>_. True"]) (simp_all add: ensures_def)

lemma ensures_simps [simp]:
  "ensures P (Ret x) \<longleftrightarrow> P x" "ensures P (Panic m)" "ensures P NoFuel"
  "ensures (\<lambda>_. True) p"
  by (auto simp: ensures_def)

lemma ensures_unwrap [simp]:
  "ensures P (unwrap m v) \<longleftrightarrow> (\<forall>x. v = Some x \<longrightarrow> P x)"
  "ensures P (unwrap_res m r) \<longleftrightarrow> (\<forall>x. r = Inr x \<longrightarrow> P x)"
  by (cases v; cases r; simp)+

lemma ensures_fresh [ensuresI]: "(\<And>u. ensures P (k u)) \<Longrightarrow> ensures P (FreshUuid k)"
  unfolding ensures_def by (auto split: list.splits event.splits)

lemma ensures_if [ensuresI]: "(b \<Longrightarrow> ensures P p) \<Longrightarrow> (\<not> b \<Longrightarrow> ensures P q) \<Longrightarrow> ensures P (if b then p else q)"
  by simp

lemma ensures_case [ensuresI]:
  "(v = None \<Longrightarrow> ensures P p) \<Longrightarrow> (\<And>x. v = Some x \<Longrightarrow> ensures P (q x)) \<Longrightarrow>
     ensures P (case v of None \<Rightarrow> p | Some x \<Rightarrow> q x)"
  "(\<And>e. r = Inl e \<Longrightarrow> ensures P (p' e)) \<Longrightarrow> (\<And>x. r = Inr x \<Longrightarrow> ensures P (q' x)) \<Longrightarrow>
     ensures P (case r of Inl e \<Rightarrow> p' e | Inr x \<Rightarrow> q' x)"
  "(\<And>a b. pr = (a, b) \<Longrightarrow> ensures P (g a b)) \<Longrightarrow> ensures P (case pr of (a, b) \<Rightarrow> g a b)"
  by (cases v; cases r; cases pr; simp)+

section \<open>The invariant\<close>

text \<open>The prefixes under which a value of a kind is stored, and the key of a value that carries it.\<close>

definition kind_prefixes :: "db_value \<Rightarrow> u8 set" where
  "kind_prefixes v =
     (case v of
        VOutput _ \<Rightarrow> {OUTPUT_PREFIX} | VIndex _ \<Rightarrow> {DERIV_PREFIX, TX_LOG_ID_PREFIX} | VHeight _ \<Rightarrow> {CONFIRMED_HEIGHT_PREFIX}
      | VContext _ \<Rightarrow> {PRIVATE_TX_CONTEXT_PREFIX} | VTxLog _ \<Rightarrow> {TX_LOG_ENTRY_PREFIX} | VAcct _ \<Rightarrow> {ACCOUNT_PATH_MAPPING_PREFIX}
      | VScanned _ \<Rightarrow> {LAST_SCANNED_BLOCK} | VInit _ \<Rightarrow> {WALLET_INIT_STATUS})"

abbreviation log_key :: "('z StoreLib_scheme) \<Rightarrow> Identifier \<Rightarrow> u32 \<Rightarrow> bytes" where
  "log_key L parent i \<equiv> to_key_u64 L TX_LOG_ENTRY_PREFIX parent (ucast i)"

abbreviation label_key :: "('z StoreLib_scheme) \<Rightarrow> string \<Rightarrow> bytes" where
  "label_key L label \<equiv> to_key L ACCOUNT_PATH_MAPPING_PREFIX (str_bytes label)"

definition filed :: "('z StoreLib_scheme) \<Rightarrow> bytes \<Rightarrow> db_value \<Rightarrow> bool" where
  "filed L k v \<longleftrightarrow> (\<exists>p \<in> kind_prefixes v. take 1 k = [p]) \<and>
     (case v of
        VOutput out \<Rightarrow> k = output_key L (od_key_id out) (od_mmr_index out)
      | VTxLog t \<Rightarrow> k = log_key L (le_parent_key_id t) (le_id t)
      | VAcct a \<Rightarrow> k = label_key L (acct_label a)
      | _ \<Rightarrow> True)"

definition wallet_ok :: "('z StoreLib_scheme) \<Rightarrow> db \<Rightarrow> bool" where
  "wallet_ok L d \<longleftrightarrow> db_wf d \<and> (\<forall>(k, v) \<in> set d. filed L k v)"

lemma wallet_ok_put: "wallet_ok L d \<Longrightarrow> filed L k v \<Longrightarrow> wallet_ok L (db_put k v d)"
proof -
  assume a: "wallet_ok L d" "filed L k v"
  have "set (db_put k v d) \<subseteq> insert (k, v) (set d)" by (induction k v d rule: db_put.induct) auto
  with a db.wf_put [of d k v] show "wallet_ok L (db_put k v d)" by (auto simp: wallet_ok_def)
qed

lemma wallet_ok_delete: "wallet_ok L d \<Longrightarrow> wallet_ok L (db_delete k d)"
  using db.wf_del [of d k] by (auto simp: wallet_ok_def db_delete_def)

text \<open>Every write of the backend files its value.\<close>

named_theorems wallet_okI \<open>writes that keep the invariant\<close>

lemma wallet_ok_writes [wallet_okI]:
  assumes "store_key_laws L" "wallet_ok L d"
  shows "wallet_ok L (batch_save L out d)" "wallet_ok L (lock_output L out d)" "wallet_ok L (batch_delete L i m d)"
    "le_parent_key_id t = parent \<Longrightarrow> wallet_ok L (save_tx_log_entry L t parent d)"
    "wallet_ok L (save_last_confirmed_height L parent h d)" "wallet_ok L (save_child_index L parent c d)"
    "wallet_ok L (save_last_scanned_block L info d)" "wallet_ok L (save_init_status L st d)"
    "wallet_ok L (save_acct_path L a d)" "wallet_ok L (delete_private_context L sid d)"
  using assms
  by (auto simp: batch_save_def lock_output_def batch_delete_def save_tx_log_entry_def save_last_confirmed_height_def
      save_child_index_def save_last_scanned_block_def save_init_status_def save_acct_path_def delete_private_context_def
      filed_def kind_prefixes_def output_key_prefix take_1_key
      simp del: One_nat_def intro!: wallet_ok_put wallet_ok_delete)

lemma wallet_ok_steps:
  "next_tx_log_id L parent d = Inr (i, d') \<Longrightarrow> store_key_laws L \<Longrightarrow> wallet_ok L d \<Longrightarrow> wallet_ok L d'"
  "save_private_context L k sid ctx d = Inr d' \<Longrightarrow> store_key_laws L \<Longrightarrow> wallet_ok L d \<Longrightarrow> wallet_ok L d'"
  by (auto simp: next_tx_log_id_def save_private_context_def rbind_eq_Ok Let_def filed_def kind_prefixes_def take_1_key
      simp del: One_nat_def intro!: wallet_ok_put)

lemma wallet_ok_fold [wallet_okI]:
  "wallet_ok L d \<Longrightarrow> (\<And>x d. x \<in> set xs \<Longrightarrow> wallet_ok L d \<Longrightarrow> wallet_ok L (f x d)) \<Longrightarrow> wallet_ok L (fold f xs d)"
  by (induction xs arbitrary: d) auto

text \<open>An operation on the wallet keeps the invariant, and in the same way the account it works on.\<close>

definition keeps :: "('z StoreLib_scheme) \<Rightarrow> ('a \<Rightarrow> bool) \<Rightarrow> ((WalletError, 'a) result \<times> LMDBBackend) proc \<Rightarrow> bool" where
  "keeps L P p \<longleftrightarrow> ensures (\<lambda>(r, w). wallet_ok L (lm_db w) \<and> (\<forall>x. r = Inr x \<longrightarrow> P x)) p"

abbreviation keeps_ok :: "('z StoreLib_scheme) \<Rightarrow> ((WalletError, 'a) result \<times> LMDBBackend) proc \<Rightarrow> bool" where
  "keeps_ok L \<equiv> keeps L (\<lambda>_. True)"

lemma keeps_Ret [ensuresI]: "wallet_ok L (lm_db w) \<Longrightarrow> (\<And>x. r = Inr x \<Longrightarrow> P x) \<Longrightarrow> keeps L P (Ret (r, w))"
  by (simp add: keeps_def)

lemma keeps_try_with:
  "keeps L Q p \<Longrightarrow> (\<And>x w. Q x \<Longrightarrow> wallet_ok L (lm_db w) \<Longrightarrow> keeps L P (f x w)) \<Longrightarrow> keeps L P (try_w p f)"
  unfolding keeps_def try_w_def by (rule ensures_pbind, assumption) (auto split: sum.splits)

lemma keeps_try_w [ensuresI]:
  "keeps_ok L p \<Longrightarrow> (\<And>x w. wallet_ok L (lm_db w) \<Longrightarrow> keeps L P (f x w)) \<Longrightarrow> keeps L P (try_w p f)"
  by (rule keeps_try_with)

lemma keeps_try_r [ensuresI]:
  "wallet_ok L (lm_db w) \<Longrightarrow> (\<And>x. r = Inr x \<Longrightarrow> keeps L P (f x)) \<Longrightarrow> keeps L P (try_r r w f)"
  by (cases r) (simp_all add: try_r_def keeps_def)

lemma keeps_any [ensuresI]: "(\<And>x. keeps L P (f x)) \<Longrightarrow> keeps L P (pbind p f)"
  unfolding keeps_def by (rule ensures_any)

lemma keeps_unwrap [ensuresI]: "(\<And>x. v = Some x \<Longrightarrow> keeps L P (f x)) \<Longrightarrow> keeps L P (pbind (unwrap m v) f)"
  by (cases v) (simp_all add: keeps_def)

lemma keeps_Panic [ensuresI]: "keeps L P (Panic m)" "keeps L P NoFuel"
  by (simp_all add: keeps_def)

lemma keeps_if [ensuresI]: "(b \<Longrightarrow> keeps L P p) \<Longrightarrow> (\<not> b \<Longrightarrow> keeps L P q) \<Longrightarrow> keeps L P (if b then p else q)"
  by simp

lemma keeps_case [ensuresI]:
  "(v = None \<Longrightarrow> keeps L P p) \<Longrightarrow> (\<And>x. v = Some x \<Longrightarrow> keeps L P (q x)) \<Longrightarrow>
     keeps L P (case v of None \<Rightarrow> p | Some x \<Rightarrow> q x)"
  "(\<And>e. r = Inl e \<Longrightarrow> keeps L P (p' e)) \<Longrightarrow> (\<And>x. r = Inr x \<Longrightarrow> keeps L P (q' x)) \<Longrightarrow>
     keeps L P (case r of Inl e \<Rightarrow> p' e | Inr x \<Rightarrow> q' x)"
  "(\<And>a b. pr = (a, b) \<Longrightarrow> keeps L P (g a b)) \<Longrightarrow> keeps L P (case pr of (a, b) \<Rightarrow> g a b)"
  "(\<And>a b. pr = (a, b) \<Longrightarrow> keeps L P (g' a b w)) \<Longrightarrow> keeps L P ((case pr of (a, b) \<Rightarrow> g' a b) w)"
  by (cases v; cases r; cases pr; simp)+

lemma keeps_fresh [ensuresI]: "(\<And>u. keeps L P (k u)) \<Longrightarrow> keeps L P (FreshUuid k)"
  unfolding keeps_def by (rule ensures_fresh)

lemma keeps_Let [ensuresI]: "keeps L P (f v) \<Longrightarrow> keeps L P (Let v f)"
  by simp

lemma keeps_op: "keeps L P (pbind p (\<lambda>(r, w). f r w))"
  if "keeps L (\<lambda>_. True) p" "\<And>r w. wallet_ok L (lm_db w) \<Longrightarrow> keeps L P (f r w)"
  using that unfolding keeps_def by (auto intro: ensures_pbind split: prod.splits)

lemma keeps_mono: "keeps L Q p \<Longrightarrow> (\<And>x. Q x \<Longrightarrow> P x) \<Longrightarrow> keeps L P p"
  unfolding keeps_def by (erule ensures_mono) auto

section \<open>Keys and coin selection\<close>

lemma keeps_next_child [ensuresI]:
  assumes "store_key_laws L" "wallet_ok L (lm_db w)"
  shows "keeps_ok L (next_child L keychain_mask w)"
  using assms unfolding next_child_def Let_def by (intro ensuresI) (auto intro!: wallet_okI)

lemma keeps_next_available_key [ensuresI]:
  "store_key_laws L \<Longrightarrow> wallet_ok L (lm_db w) \<Longrightarrow> keeps_ok L (next_available_key L keychain_mask w)"
  unfolding next_available_key_def by (intro ensuresI) auto

abbreviation db_kept :: "('z StoreLib_scheme) \<Rightarrow> 'a \<times> LMDBBackend \<Rightarrow> bool" where
  "db_kept L x \<equiv> wallet_ok L (lm_db (snd x))"

lemma keeps_db_kept: "keeps L P p \<Longrightarrow> ensures (db_kept L) p"
  unfolding keeps_def by (erule ensures_mono) auto

lemma ensures_build_change:
  "store_key_laws L \<Longrightarrow> wallet_ok L (lm_db w) \<Longrightarrow> ensures (db_kept L) (build_change L keychain_mask amts w)"
proof (induction amts arbitrary: w)
  case (Cons amt amts)
  then have "ensures (db_kept L) (build_change L keychain_mask amts w)" if "wallet_ok L (lm_db w)" for w
    using that by blast
  then have "ensures (db_kept L) (pbind (unwrap_res m r) (\<lambda>key.
      pbind (build_change L keychain_mask amts w) (\<lambda>(rest, w). Ret (f key rest, w))))"
    if "wallet_ok L (lm_db w)" for m r f and w
    using that by (intro ensures_any ensures_pbind [of "db_kept L"]) auto
  then show ?case
    using keeps_db_kept [OF keeps_next_child [OF Cons.prems]]
    by (auto intro!: ensures_pbind [of "db_kept L"])
qed simp

lemma keeps_inputs_and_change [ensuresI]:
  "store_key_laws L \<Longrightarrow> wallet_ok L (lm_db w) \<Longrightarrow>
   keeps_ok L (inputs_and_change L coins keychain_mask amount fee n incl w)"
  using ensures_build_change [of L w keychain_mask]
  by (auto simp: inputs_and_change_def Let_def keeps_def intro!: ensures_pbind [of "db_kept L"])

lemma keeps_select_send_tx [ensuresI]:
  "store_key_laws L \<Longrightarrow> wallet_ok L (lm_db w) \<Longrightarrow>
   keeps_ok L (select_send_tx fuel L keychain_mask amount h minc max_outputs change use_all parent incl w)"
  unfolding select_send_tx_def by (intro ensuresI) auto

lemma keeps_build_send_tx [ensuresI]:
  "store_key_laws L \<Longrightarrow> wallet_ok L (lm_db w) \<Longrightarrow>
   keeps_ok L (build_send_tx fuel L kc keychain_mask slate h minc max_outputs change use_all fixed_fee parent w)"
  unfolding build_send_tx_def by (intro ensuresI) auto

section \<open>Locking and receiving\<close>

lemma ensures_lock_coins:
  "store_key_laws L \<Longrightarrow> wallet_ok L d \<Longrightarrow> ensures (\<lambda>(_, d). wallet_ok L d) (lock_coins L log_id ids debited d)"
  by (induction L log_id ids debited d rule: lock_coins.induct)
    (auto simp: Let_def intro!: wallet_okI ensures_any)

lemma ensures_save_changes:
  "store_key_laws L \<Longrightarrow> wallet_ok L d \<Longrightarrow>
   ensures (\<lambda>(t', d). wallet_ok L d \<and> le_parent_key_id t' = le_parent_key_id t)
     (save_changes L log_id parent h commits ids t d)"
proof (induction L log_id parent h commits ids t d rule: save_changes.induct)
  case (2 L log_id parent h commits i m v ids t d)
  then show ?case
    using wallet_ok_writes(1) [OF "2.prems"] by (auto intro!: ensures_any)
qed simp

text \<open>The two loops within the batch of an operation.\<close>

lemma keeps_lock_coins:
  assumes "store_key_laws L" "wallet_ok L d" "\<And>a d. wallet_ok L d \<Longrightarrow> keeps L P (f a d)"
  shows "keeps L P (pbind (lock_coins L log_id ids debited d) (\<lambda>(a, d). f a d))"
  unfolding keeps_def
  by (rule ensures_pbind [OF ensures_lock_coins [OF assms(1,2)]]) (use assms(3) in \<open>auto simp: keeps_def\<close>)

lemma keeps_save_changes:
  assumes "store_key_laws L" "wallet_ok L d"
    and "\<And>t' d. wallet_ok L d \<Longrightarrow> le_parent_key_id t' = le_parent_key_id t \<Longrightarrow> keeps L P (f t' d)"
  shows "keeps L P (pbind (save_changes L log_id parent h commits ids t d) (\<lambda>(t, d). f t d))"
  unfolding keeps_def
  by (rule ensures_pbind [OF ensures_save_changes [OF assms(1,2)]]) (use assms(3) in \<open>auto simp: keeps_def\<close>)

lemma keeps_lock_tx_context [ensuresI]:
  "store_key_laws L \<Longrightarrow> wallet_ok L (lm_db w) \<Longrightarrow>
   keeps_ok L (lock_tx_context L now keychain_mask slate h context excess w)"
  unfolding lock_tx_context_def Let_def
  by (intro keeps_lock_coins keeps_save_changes ensuresI) (auto intro!: wallet_okI dest: wallet_ok_steps simp: tx_log_entry_new_def)

lemma keeps_build_recipient_output:
  "store_key_laws L \<Longrightarrow> wallet_ok L (lm_db w) \<Longrightarrow>
   keeps L (\<lambda>(_, _, t, _). le_parent_key_id t = parent)
     (build_recipient_output L now keychain_mask slate h parent w)"
  unfolding build_recipient_output_def Let_def
  by (intro keeps_op ensuresI) (auto intro!: wallet_okI dest: wallet_ok_steps simp: tx_log_entry_new_def)

section \<open>Refreshing, cancelling and the steps of a transaction\<close>

lemma wallet_ok_confirm_entry [wallet_okI]:
  "store_key_laws L \<Longrightarrow> wallet_ok L d \<Longrightarrow> wallet_ok L (confirm_entry L now parent out d)"
  by (auto simp: confirm_entry_def Let_def update_confirmation_ts_def find_Some_iff intro!: wallet_okI split: option.splits)

lemma wallet_ok_apply_output:
  assumes "store_key_laws L" "wallet_ok L d" "apply_output L now api reverted h parent e d = Inr d'"
  shows "wallet_ok L d'"
proof -
  obtain c i m x where e: "e = (c, i, m, x)" by (cases e)
  have coinbase: "wallet_ok L d2" if "next_tx_log_id L parent d = Inr (li, d1)"
    "coinbase_entry L now h parent c out li = Inr t" "d2 = save_tx_log_entry L t parent d1" for li d1 t d2 out
    unfolding that(3) using wallet_ok_steps(1) [OF that(1) assms(1,2)] that(2) assms(1)
    by (intro wallet_okI)
      (auto simp: coinbase_entry_def rbind_eq_Ok update_confirmation_ts_def tx_log_entry_new_def)
  show ?thesis
  proof (cases "get_output L d i m")
    case (Inr out)
    show ?thesis
    proof (cases "api c")
      case None
      then show ?thesis using assms Inr by (auto simp: apply_output_def e intro!: wallet_okI)
    next
      case (Some a)
      with assms(3) Inr obtain out' d1 where
        first: "(if od_is_coinbase out \<and> od_status out = Unconfirmed
                 then rbind (next_tx_log_id L parent d) (\<lambda>(log_id, d).
                   rbind (coinbase_entry L now h parent c out log_id) (\<lambda>t.
                   Ok (out\<lparr>od_tx_log_entry := Some log_id\<rparr>, save_tx_log_entry L t parent d)))
                 else Ok (out, d)) = Inr (out', d1)"
        and d': "d' = batch_save L (mark_unspent (out'\<lparr>od_height := fst (snd a)\<rparr>))
          (if \<not> od_is_coinbase out' \<and> od_status out' \<in> {Unconfirmed, Reverted} then confirm_entry L now parent out' d1 else d1)"
        by (auto simp: apply_output_def e rbind_eq_Ok Let_def simp del: split_paired_Ex)
      have "wallet_ok L d1"
        using first assms(2) by (auto simp: rbind_eq_Ok intro: coinbase split: if_splits)
      then show ?thesis unfolding d' using assms(1) by (auto intro!: wallet_okI)
    qed
  qed (use assms in \<open>auto simp: apply_output_def e\<close>)
qed

lemma wallet_ok_apply_outputs:
  "store_key_laws L \<Longrightarrow> wallet_ok L d \<Longrightarrow> apply_outputs L now api reverted h parent es d = Inr d' \<Longrightarrow> wallet_ok L d'"
  by (induction es arbitrary: d) (auto simp: rbind_eq_Ok dest: wallet_ok_apply_output)

lemma keeps_apply_api_outputs [ensuresI]:
  "store_key_laws L \<Longrightarrow> wallet_ok L (lm_db w) \<Longrightarrow>
   keeps_ok L (Ret (apply_api_outputs L now keychain_mask outs api reverted h parent w))"
  by (auto simp: apply_api_outputs_def keeps_def Let_def rbind_eq_Ok revert_entry_def
      intro!: wallet_okI dest: wallet_ok_apply_outputs split: sum.splits)

lemma keeps_refresh_outputs [ensuresI]:
  "store_key_laws L \<Longrightarrow> wallet_ok L (lm_db w) \<Longrightarrow>
   keeps_ok L (refresh_outputs L now nc order keychain_mask parent update_all w)"
proof -
  assume laws: "store_key_laws L" and ok: "wallet_ok L (lm_db w)"
  have clean: "keeps_ok L (Ret (clean_old_unconfirmed L keychain_mask h w))" if "wallet_ok L (lm_db w)" for h w
    using laws that by (auto simp: clean_old_unconfirmed_def keeps_def Let_def intro!: wallet_okI split: sum.splits)
  show ?thesis
    unfolding refresh_outputs_def refresh_output_state_def Let_def
    by (intro keeps_apply_api_outputs clean ensuresI) (use laws ok in auto)
qed

lemma retrieve_txs_parent:
  "retrieve_txs w tx_id uuid (Some parent) b = Inr txs \<Longrightarrow> t \<in> set txs \<Longrightarrow> le_parent_key_id t = parent"
  by (auto simp: retrieve_txs_def)

lemma keeps_cancel_tx [ensuresI]:
  assumes "store_key_laws L" "wallet_ok L (lm_db w)"
  shows "keeps_ok L (cancel_tx L keychain_mask parent tx_id tx_slate_id w)"
proof -
  have out: "wallet_ok L (cancel_output L out d)" if "wallet_ok L d" for out d
    using assms(1) that by (auto simp: cancel_output_def Let_def intro!: wallet_okI)
  have run: "keeps_ok L (Ret (cancel_tx_and_outputs L keychain_mask t outs parent w))" if "le_parent_key_id t = parent" for t outs
    using assms that
    by (auto simp: cancel_tx_and_outputs_def keeps_def Let_def intro!: wallet_okI out split: sum.splits)
  have hd: "le_parent_key_id (hd txs) = parent"
    if "retrieve_txs w tx_id tx_slate_id (Some parent) False = Inr txs" "length txs = 1" for txs
    using retrieve_txs_parent [OF that(1), of "hd txs"] that(2) by (cases txs) auto
  show ?thesis
    unfolding cancel_tx_def Let_def
    by (intro run ensuresI) (use assms hd in auto)
qed

lemma keeps_estimate_send_tx [ensuresI]:
  "store_key_laws L \<Longrightarrow> wallet_ok L (lm_db w) \<Longrightarrow>
   keeps_ok L (estimate_send_tx fuel L now nc order keychain_mask amount minc max_outputs change use_all parent w)"
  unfolding estimate_send_tx_def by (intro ensuresI) auto

lemma keeps_add_inputs_to_slate [ensuresI]:
  "store_key_laws L \<Longrightarrow> wallet_ok L (lm_db w) \<Longrightarrow>
   keeps_ok L (add_inputs_to_slate fuel L now nc order keychain_mask slate h minc max_outputs change use_all parent init w)"
  unfolding add_inputs_to_slate_def Let_def by (intro ensuresI) auto

lemma keeps_add_output_to_slate [ensuresI]:
  assumes "store_key_laws L" "wallet_ok L (lm_db w)"
  shows "keeps_ok L (add_output_to_slate L now keychain_mask slate h parent init w)"
  unfolding add_output_to_slate_def Let_def
  by (intro keeps_try_with [OF keeps_build_recipient_output [OF assms]] ensuresI)
    (use assms in \<open>auto intro!: wallet_okI\<close>)

lemma keeps_create_late_lock_context [ensuresI]:
  "store_key_laws L \<Longrightarrow> wallet_ok L (lm_db w) \<Longrightarrow>
   keeps_ok L (create_late_lock_context fuel L now nc order keychain_mask slate h args parent w)"
  unfolding create_late_lock_context_def Let_def by (intro ensuresI) auto

lemma keeps_update_stored_tx [ensuresI]:
  "store_key_laws L \<Longrightarrow> wallet_ok L (lm_db w) \<Longrightarrow> keeps_ok L (update_stored_tx L keychain_mask context slate invoiced w)"
  unfolding update_stored_tx_def Let_def by (intro ensuresI) (auto intro!: wallet_okI)

lemma keeps_build_coinbase [ensuresI]:
  "store_key_laws L \<Longrightarrow> wallet_ok L (lm_db w) \<Longrightarrow> keeps_ok L (build_coinbase L keychain_mask fees test w)"
  unfolding build_coinbase_def receive_coinbase_def Let_def by (intro ensuresI) (auto intro!: wallet_okI)

section \<open>Scanning\<close>

lemma keeps_for_wallet [ensuresI]:
  "wallet_ok L (lm_db w) \<Longrightarrow> (\<And>x w. x \<in> set xs \<Longrightarrow> wallet_ok L (lm_db w) \<Longrightarrow> keeps_ok L (f x w)) \<Longrightarrow>
   keeps_ok L (for_wallet f xs w)"
  by (induction xs arbitrary: w) (auto intro!: ensuresI)

lemma restored_entry_parent [simp]: "le_parent_key_id (restored_entry now parent out i) = parent"
  by (simp add: restored_entry_def update_confirmation_ts_def tx_log_entry_new_def)

lemma ensures_restore_log:
  "store_key_laws L \<Longrightarrow> wallet_ok L d \<Longrightarrow>
   ensures (\<lambda>r. \<forall>x. r = Inr x \<longrightarrow> wallet_ok L (snd (snd x))) (restore_log L now parent out stats d)"
  by (auto simp: restore_log_def rbind_eq_Ok intro!: wallet_okI ensuresI ensures_any dest: wallet_ok_steps
      split: option.splits)

lemma keeps_restore_missing_output [ensuresI]:
  assumes "store_key_laws L" "wallet_ok L (lm_db w)"
  shows "keeps_ok L (restore_missing_output L now keychain_mask out parents stats w)"
proof -
  have log: "keeps_ok L (pbind (restore_log L now parent out stats d) (\<lambda>r. try_r r w (\<lambda>(i, stats, d). f i stats d)))"
    if "wallet_ok L d" "\<And>i stats d. wallet_ok L d \<Longrightarrow> keeps_ok L (f i stats d)" for parent stats d f
    unfolding keeps_def
    by (rule ensures_pbind [OF ensures_restore_log [OF assms(1) that(1)]])
      (use assms(2) that(2) [unfolded keeps_def] in \<open>auto simp: try_r_def split: sum.splits\<close>)
  show ?thesis
    unfolding restore_missing_output_def Let_def
    by (intro log ensuresI)
      (use assms in \<open>auto simp: rbind_eq_Ok intro!: wallet_okI dest: wallet_ok_steps split: option.splits if_splits\<close>)
qed

lemma keeps_restore_outputs [ensuresI]:
  "store_key_laws L \<Longrightarrow> wallet_ok L (lm_db w) \<Longrightarrow> keeps_ok L (restore_outputs L now keychain_mask ms parents w)"
  by (induction ms arbitrary: parents w) (auto intro!: ensuresI)

lemma keeps_cancel_tx_log_entry [ensuresI]:
  assumes "store_key_laws L" "wallet_ok L (lm_db w)"
  shows "keeps_ok L (Ret (cancel_tx_log_entry L keychain_mask out w))"
proof -
  have e: "le_parent_key_id e = parent"
    if "retrieve_txs w i None (Some parent) False = Inr (e # es)" for i parent e es
    using retrieve_txs_parent [OF that, of e] by simp
  let ?parent = "parent_path L (od_key_id out)"
  show ?thesis
  proof (cases "od_tx_log_entry out")
    case (Some i)
    obtain entries where entries: "retrieve_txs w (Some i) None (Some ?parent) False = Inr entries"
      by (simp add: retrieve_txs_def)
    show ?thesis
    proof (cases entries)
      case (Cons t ts)
      with e entries have "le_parent_key_id t = ?parent" by blast
      with Some Cons entries assms show ?thesis
        by (cases "le_tx_type t")
          (auto simp: cancel_tx_log_entry_def keeps_def Let_def intro!: wallet_okI split: sum.splits)
    qed (use Some entries assms in \<open>auto simp: cancel_tx_log_entry_def keeps_def Let_def split: sum.splits\<close>)
  qed (use assms in \<open>auto simp: cancel_tx_log_entry_def keeps_def Let_def split: sum.splits\<close>)
qed

lemma keeps_set_acct_path [ensuresI]:
  "store_key_laws L \<Longrightarrow> wallet_ok L (lm_db w) \<Longrightarrow> keeps_ok L (Ret (set_acct_path L keychain_mask label i w))"
  by (auto simp: set_acct_path_def keeps_def intro!: wallet_okI split: sum.splits)

lemma keeps_restore_accounts [ensuresI]:
  "store_key_laws L \<Longrightarrow> wallet_ok L (lm_db w) \<Longrightarrow> keeps_ok L (restore_accounts L keychain_mask accts n ps w)"
proof (induction ps arbitrary: n w)
  case (Cons p ps)
  obtain path m where p: "p = (path, m)" by (cases p)
  show ?case
    unfolding p restore_accounts.simps Let_def
    by (intro Cons.IH keeps_set_acct_path ensuresI) (use Cons.prems in \<open>auto intro!: wallet_okI\<close>)
qed (auto intro: ensuresI)

lemma keeps_scan [ensuresI]:
  assumes "store_key_laws L" "wallet_ok L (lm_db w)"
  shows "keeps_ok L (scan fuel L now nc order keychain_mask del h h' w)"
proof -
  have un: "keeps_ok L (unspend_output L keychain_mask out w)" if "wallet_ok L (lm_db w)" for out w
    unfolding unspend_output_def Let_def
    by (intro keeps_cancel_tx_log_entry ensuresI) (use assms that in \<open>auto intro!: wallet_okI\<close>)
  have del: "keeps_ok L (delete_output L keychain_mask out w)" if "wallet_ok L (lm_db w)" for out w
    unfolding delete_output_def
    by (intro keeps_cancel_tx_log_entry ensuresI) (use assms that in \<open>auto intro!: wallet_okI\<close>)
  show ?thesis
    unfolding scan_def Let_def by (intro un del ensuresI) (use assms in auto)
qed

section \<open>The interface\<close>

lemma keeps_put_context [ensuresI]:
  "store_key_laws L \<Longrightarrow> wallet_ok L (lm_db w) \<Longrightarrow> keeps_ok L (put_context L keychain_mask uuid context w)"
  unfolding put_context_def by (intro ensuresI) (auto dest: wallet_ok_steps)

lemma keeps_drop_context [ensuresI]:
  "store_key_laws L \<Longrightarrow> wallet_ok L (lm_db w) \<Longrightarrow> keeps_ok L (drop_context L keychain_mask uuid w)"
  unfolding drop_context_def by (intro ensuresI) (auto intro!: wallet_okI)

lemma keeps_update_outputs [ensuresI]:
  "store_key_laws L \<Longrightarrow> wallet_ok L (lm_db w) \<Longrightarrow> keeps_ok L (update_outputs E L keychain_mask update_all w)"
  unfolding update_outputs_def by (intro keeps_op ensuresI) auto

lemma keeps_confirm_by_kernel:
  "store_key_laws L \<Longrightarrow> wallet_ok L (lm_db w) \<Longrightarrow> (\<And>t. t \<in> set txs \<Longrightarrow> le_parent_key_id t = parent) \<Longrightarrow>
   keeps_ok L (confirm_by_kernel E L keychain_mask h parent txs w)"
proof (induction txs arbitrary: w)
  case (Cons tx txs)
  show ?case
    unfolding confirm_by_kernel.simps Let_def
    by (intro Cons.IH ensuresI)
      (use Cons.prems in \<open>auto intro!: wallet_okI simp: update_confirmation_ts_def\<close>)
qed (auto intro: ensuresI)

lemma keeps_update_txs_via_kernel:
  "store_key_laws L \<Longrightarrow> wallet_ok L (lm_db w) \<Longrightarrow>
   retrieve_txs w tx_id uuid (Some (lm_parent_key_id w)) b = Inr txs \<Longrightarrow>
   keeps_ok L (update_txs_via_kernel E L keychain_mask txs w)"
  unfolding update_txs_via_kernel_def
  by (intro keeps_confirm_by_kernel ensuresI) (auto dest: retrieve_txs_parent)

lemma keeps_cancel_expired [ensuresI]:
  "store_key_laws L \<Longrightarrow> wallet_ok L (lm_db w) \<Longrightarrow> keeps_ok L (cancel_expired L keychain_mask h tx w)"
  unfolding cancel_expired_def by (intro ensuresI) auto

lemma keeps_update_wallet_state [ensuresI]:
  "store_key_laws L \<Longrightarrow> wallet_ok L (lm_db w) \<Longrightarrow> keeps_ok L (update_wallet_state E L keychain_mask update_all w)"
  unfolding update_wallet_state_def Let_def
  by (intro keeps_update_txs_via_kernel ensuresI) (auto intro!: wallet_okI)

lemma keeps_owner_scan [ensuresI]:
  "store_key_laws L \<Longrightarrow> wallet_ok L (lm_db w) \<Longrightarrow> keeps_ok L (owner_scan E L keychain_mask h del w)"
  unfolding owner_scan_def Let_def by (intro ensuresI) (auto intro!: wallet_okI)

lemma keeps_refresh_if [ensuresI]:
  "store_key_laws L \<Longrightarrow> wallet_ok L (lm_db w) \<Longrightarrow> keeps_ok L (refresh_if E L keychain_mask b w)"
  unfolding refresh_if_def by (intro ensuresI) auto

lemma keeps_init_send_tx [ensuresI]:
  "store_key_laws L \<Longrightarrow> wallet_ok L (lm_db w) \<Longrightarrow> keeps_ok L (init_send_tx E L keychain_mask args w)"
  unfolding init_send_tx_def Let_def by (intro ensuresI) auto

lemma keeps_issue_invoice_tx [ensuresI]:
  "store_key_laws L \<Longrightarrow> wallet_ok L (lm_db w) \<Longrightarrow> keeps_ok L (issue_invoice_tx E L keychain_mask iargs w)"
  unfolding issue_invoice_tx_def Let_def by (intro ensuresI) auto

lemma keeps_process_invoice_tx [ensuresI]:
  "store_key_laws L \<Longrightarrow> wallet_ok L (lm_db w) \<Longrightarrow> keeps_ok L (process_invoice_tx E L keychain_mask slate args w)"
  unfolding process_invoice_tx_def Let_def by (intro ensuresI) auto

lemma keeps_tx_lock_outputs [ensuresI]:
  "store_key_laws L \<Longrightarrow> wallet_ok L (lm_db w) \<Longrightarrow> keeps_ok L (tx_lock_outputs E L keychain_mask slate w)"
  unfolding tx_lock_outputs_def Let_def by (intro ensuresI) auto

lemma keeps_late_lock [ensuresI]:
  "store_key_laws L \<Longrightarrow> wallet_ok L (lm_db w) \<Longrightarrow> keeps_ok L (late_lock E L kc keychain_mask sl context w)"
  unfolding late_lock_def Let_def by (intro ensuresI) auto

lemma keeps_finalize_tx [ensuresI]:
  "store_key_laws L \<Longrightarrow> wallet_ok L (lm_db w) \<Longrightarrow> keeps_ok L (finalize_tx E L keychain_mask slate w)"
  unfolding finalize_tx_def Let_def by (intro ensuresI) auto

lemma keeps_receive_tx [ensuresI]:
  "store_key_laws L \<Longrightarrow> wallet_ok L (lm_db w) \<Longrightarrow> keeps_ok L (receive_tx E L keychain_mask slate acct w)"
  unfolding receive_tx_def Let_def by (intro ensuresI) auto

lemma keeps_foreign_finalize_tx [ensuresI]:
  "store_key_laws L \<Longrightarrow> wallet_ok L (lm_db w) \<Longrightarrow> keeps_ok L (foreign_finalize_tx E L keychain_mask slate post w)"
  unfolding foreign_finalize_tx_def Let_def by (intro ensuresI) auto

lemma keeps_owner_cancel_tx [ensuresI]:
  "store_key_laws L \<Longrightarrow> wallet_ok L (lm_db w) \<Longrightarrow> keeps_ok L (owner_cancel_tx E L keychain_mask tx_id uuid w)"
  unfolding owner_cancel_tx_def by (intro ensuresI) auto

lemma keeps_accounts [ensuresI]:
  assumes "store_key_laws L" "wallet_ok L (lm_db w)"
  shows "keeps_ok L (Ret (create_account_path L keychain_mask label w))" "keeps_ok L (Ret (set_active_account label w))"
  using assms
  by (auto simp: create_account_path_def new_acct_path_def set_active_account_def set_parent_key_id_by_name_def keeps_def
      Let_def intro!: wallet_okI split: sum.splits option.splits)

end
