(* ===== verification/Wallet_Reachable.thy ===== *)
theory Wallet_Reachable
  imports Wallet_Invariant
begin

text \<open>
  The wallets that can be reached by any sequence of calls to the wallet's interface, and that their
  databases are consistent.
\<close>

section \<open>Reachable wallets\<close>

text \<open>The calls of the owner and of other wallets that change the wallet.\<close>

datatype api_call =
    CreateAccount string
  | SetActiveAccount string
  | InitSendTx InitTxArgs
  | IssueInvoice IssueInvoiceTxArgs
  | ProcessInvoice Slate InitTxArgs
  | LockOutputs Slate
  | FinalizeTx Slate
  | CancelTx "u32 option" "Uuid option"
  | UpdateWalletState bool
  | ScanChain "u64 option" bool
  | ReceiveTx Slate "string option"
  | ForeignFinalizeTx Slate bool
  | BuildCoinbase BlockFees bool

abbreviation wallet_after :: "('a \<times> LMDBBackend) proc \<Rightarrow> LMDBBackend proc" where
  "wallet_after p \<equiv> pbind p (\<lambda>(_, w). Ret w)"

fun api_run :: "ApiEnv \<Rightarrow> ('z ScanLib_scheme) \<Rightarrow> SecretKey option \<Rightarrow> api_call \<Rightarrow> LMDBBackend \<Rightarrow> LMDBBackend proc" where
  "api_run E L m (CreateAccount label) w = wallet_after (Ret (create_account_path L m label w))"
| "api_run E L m (SetActiveAccount label) w = wallet_after (Ret (set_active_account label w))"
| "api_run E L m (InitSendTx args) w = wallet_after (init_send_tx E L m args w)"
| "api_run E L m (IssueInvoice args) w = wallet_after (issue_invoice_tx E L m args w)"
| "api_run E L m (ProcessInvoice slate args) w = wallet_after (process_invoice_tx E L m slate args w)"
| "api_run E L m (LockOutputs slate) w = wallet_after (tx_lock_outputs E L m slate w)"
| "api_run E L m (FinalizeTx slate) w = wallet_after (finalize_tx E L m slate w)"
| "api_run E L m (CancelTx tx_id uuid) w = wallet_after (owner_cancel_tx E L m tx_id uuid w)"
| "api_run E L m (UpdateWalletState all) w = wallet_after (update_wallet_state E L m all w)"
| "api_run E L m (ScanChain h del) w = wallet_after (owner_scan E L m h del w)"
| "api_run E L m (ReceiveTx slate dest) w = wallet_after (receive_tx E L m slate dest w)"
| "api_run E L m (ForeignFinalizeTx slate post) w = wallet_after (foreign_finalize_tx E L m slate post w)"
| "api_run E L m (BuildCoinbase fees test) w = wallet_after (foreign_build_coinbase L m fees test w)"

text \<open>A wallet that was created, then opened, closed and used any number of times, with any arguments
  and any answers of the node, whether the calls succeeded or not.\<close>

inductive reachable :: "('z ScanLib_scheme) \<Rightarrow> LMDBBackend \<Rightarrow> bool" for L where
  created: "reachable L (lmdb_new L [] files)"
| opened: "reachable L w \<Longrightarrow> replay (set_keychain L k with_mask w) es = (Done (r, w'), []) \<Longrightarrow> reachable L w'"
| closed: "reachable L w \<Longrightarrow> reachable L (close_wallet w)"
| called: "reachable L w \<Longrightarrow> replay (api_run E L keychain_mask c w) es = (Done w', []) \<Longrightarrow> reachable L w'"

lemma ensures_wallet_after: "keeps_ok L p \<Longrightarrow> ensures (\<lambda>w. wallet_ok L (lm_db w)) (wallet_after p)"
  by (rule ensures_pbind [OF keeps_db_kept]) auto

lemmas keeps_api_calls =
  keeps_accounts keeps_init_send_tx keeps_issue_invoice_tx keeps_process_invoice_tx keeps_tx_lock_outputs keeps_finalize_tx
  keeps_owner_cancel_tx keeps_update_wallet_state keeps_owner_scan keeps_receive_tx keeps_foreign_finalize_tx
  keeps_build_coinbase

lemma ensures_api_run:
  assumes "store_key_laws L" "wallet_ok L (lm_db w)"
  shows "ensures (\<lambda>w. wallet_ok L (lm_db w)) (api_run E L m c w)"
  by (cases c)
    (simp_all only: api_run.simps ensures_wallet_after foreign_build_coinbase_def keeps_api_calls [OF assms])

lemma reachable_ok: "reachable L w \<Longrightarrow> store_key_laws L \<Longrightarrow> wallet_ok L (lm_db w)"
proof (induction rule: reachable.induct)
  case (created files)
  then show ?case
    by (simp add: lmdb_new_def Let_def wallet_ok_def db_wf_def filed_def kind_prefixes_def take_1_key del: One_nat_def)
next
  case (opened w k with_mask es r w')
  have "ensures (\<lambda>(_, w'). lm_db w' = lm_db w) (set_keychain L k with_mask w)"
    by (auto simp: set_keychain_def Let_def fresh_key_def ensures_def split: option.splits if_splits list.splits event.splits)
  with opened show ?case unfolding ensures_def by force
next
  case (called w E keychain_mask c es w')
  then show ?case using ensures_api_run [of L w E keychain_mask c] unfolding ensures_def by blast
qed (simp add: close_wallet_def)

text \<open>What the invariant gives: values are found where they are looked for, and only there.\<close>

lemma wallet_ok_mem: "wallet_ok L d \<Longrightarrow> (k, v) \<in> set d \<Longrightarrow> db_get d k = Some v \<and> filed L k v"
  by (auto simp: wallet_ok_def db_get_mem)

lemma wallet_ok_scan:
  assumes "wallet_ok L d"
  shows "out \<in> set (od_iter d) \<Longrightarrow> db_get d (output_key L (od_key_id out) (od_mmr_index out)) = Some (VOutput out)"
    and "t \<in> set (tx_log_iter d) \<Longrightarrow> db_get d (log_key L (le_parent_key_id t) (le_id t)) = Some (VTxLog t)"
    and "a \<in> set (acct_path_iter d) \<Longrightarrow> db_get d (label_key L (acct_label a)) = Some (VAcct a)"
proof -
  have "\<exists>k. (k, v) \<in> set d" if "v \<in> set (db_scan p d)" for p v using that by (auto simp: db_scan_def)
  then have get: "\<exists>k. db_get d k = Some v \<and> filed L k v" if "v \<in> set (db_scan p d)" for p v
    using that wallet_ok_mem [OF assms] by metis
  have sel: "as_output v = Some out \<longleftrightarrow> v = VOutput out" "as_tx_log v = Some t \<longleftrightarrow> v = VTxLog t"
    "as_acct v = Some a \<longleftrightarrow> v = VAcct a" for v by (cases v; simp)+
  show "out \<in> set (od_iter d) \<Longrightarrow> db_get d (output_key L (od_key_id out) (od_mmr_index out)) = Some (VOutput out)"
    using get [of "VOutput out"] by (auto simp: od_iter_def List.map_filter_def sel filed_def)
  show "t \<in> set (tx_log_iter d) \<Longrightarrow> db_get d (log_key L (le_parent_key_id t) (le_id t)) = Some (VTxLog t)"
    using get [of "VTxLog t"] by (auto simp: tx_log_iter_def List.map_filter_def sel filed_def)
  show "a \<in> set (acct_path_iter d) \<Longrightarrow> db_get d (label_key L (acct_label a)) = Some (VAcct a)"
    using get [of "VAcct a"] by (auto simp: acct_path_iter_def List.map_filter_def sel filed_def)
qed

lemma filed_prefix: "filed L k v \<Longrightarrow> take 1 k = [p] \<Longrightarrow> p \<in> kind_prefixes v"
  by (auto simp: filed_def)

lemma wallet_ok_store_ok:
  assumes "wallet_ok L d"
  shows "store_ok L d"
proof -
  have "at_home L (k, v)" if "filed L k v" for k v
    using that by (cases v) (auto simp: at_home_def filed_def kind_prefixes_def prefix_defs simp del: One_nat_def)
  with assms show ?thesis by (auto simp: wallet_ok_def store_ok_def)
qed

lemma get_output_typed:
  assumes "wallet_ok L d" "store_key_laws L"
  shows "get_output L d i m \<in> {Inl NotFoundErr} \<union> Inr ` set (od_iter d)"
proof (cases "db_get d (output_key L i m)")
  case (Some v)
  then have f: "filed L (output_key L i m) v" "(output_key L i m, v) \<in> set d"
    using assms(1) by (auto simp: wallet_ok_def db_get_mem)
  then obtain out where out: "v = VOutput out"
    using output_key_prefix [OF assms(2)]
    by (cases v) (auto simp: filed_def kind_prefixes_def prefix_defs simp del: One_nat_def)
  then have "out \<in> set (od_iter d)"
    using od_iter_iff [OF wallet_ok_store_ok [OF assms(1)] assms(2), of out] f(1) Some by (simp add: filed_def)
  then show ?thesis using get_output_iff [of L d i m out] Some out by auto
qed (simp add: get_output_def get_ser_def option_to_not_found_def ok_or_def)

text \<open>
  C13. The database of a wallet stays consistent over any use of its interface. In every wallet that
  can be reached, through any sequence of calls with any arguments and node answers, successful
  or not, an output is found under its own key, an output that is looked for is there or reported as
  missing (a value of another kind is never in its place), two entries of the log with the same
  account and number are the same entry, and an account is found under its label.
\<close>

theorem reachable_wallet_consistent:
  assumes "reachable L w" "store_key_laws L"
  shows "store_ok L (lm_db w) \<and>
    (\<forall>out \<in> set (od_iter (lm_db w)). get_output L (lm_db w) (od_key_id out) (od_mmr_index out) = Inr out) \<and>
    (\<forall>i m. get_output L (lm_db w) i m \<in> {Inl NotFoundErr} \<union> Inr ` set (od_iter (lm_db w))) \<and>
    (\<forall>t \<in> set (tx_log_iter (lm_db w)). \<forall>u \<in> set (tx_log_iter (lm_db w)).
       le_parent_key_id t = le_parent_key_id u \<and> le_id t = le_id u \<longrightarrow> t = u) \<and>
    (\<forall>a \<in> set (acct_path_iter (lm_db w)). get_acct_path L w (acct_label a) = Inr (Some a))"
proof -
  have ok: "wallet_ok L (lm_db w)" by (rule reachable_ok [OF assms])
  note found = wallet_ok_scan [OF ok]
  have "t = u" if "t \<in> set (tx_log_iter (lm_db w))" "u \<in> set (tx_log_iter (lm_db w))"
    "le_parent_key_id t = le_parent_key_id u" "le_id t = le_id u" for t u
    using found(2) [OF that(1)] found(2) [OF that(2)] unfolding that(3,4) by (metis db_value.inject(5) option.inject)
  moreover have "get_output L (lm_db w) (od_key_id out) (od_mmr_index out) = Inr out"
    if "out \<in> set (od_iter (lm_db w))" for out using found(1) [OF that] by (simp add: get_output_iff)
  moreover have "get_acct_path L w (acct_label a) = Inr (Some a)" if "a \<in> set (acct_path_iter (lm_db w))" for a
    using found(3) [OF that] by (simp add: get_acct_path_def get_ser_def)
  ultimately show ?thesis
    using wallet_ok_store_ok [OF ok] get_output_typed [OF ok assms(2)] by blast
qed

end
