(* ===== verification/Wallet_Once.thy ===== *)
theory Wallet_Once
  imports Wallet_Reachable
begin

text \<open>
  Receiving and finishing happen once. What a completed \<open>receive_tx\<close> and a completed
  \<open>finalize_tx\<close> leave in the wallet, and that a second call for the same slate changes nothing.
\<close>

section \<open>Taking runs of the wallet apart\<close>

named_theorems once_simps \<open>inversion of runs on the wallet that succeed\<close>

lemma run_try_w [once_simps]:
  "replay (try_w p f) es = (Done (Inr y, w'), es') \<longleftrightarrow>
   (\<exists>x w1 es1. replay p es = (Done (Inr x, w1), es1) \<and> replay (f x w1) es1 = (Done (Inr y, w'), es'))"
proof -
  have "replay (case r of (Inl e, w) \<Rightarrow> Ret (Err e, w) | (Inr x, w) \<Rightarrow> f x w) es1 = (Done (Inr y, w'), es') \<longleftrightarrow>
    (\<exists>x w1. r = (Inr x, w1) \<and> replay (f x w1) es1 = (Done (Inr y, w'), es'))" for r es1
    by (cases r; cases "fst r") (auto simp: run_Ret)
  then show ?thesis unfolding try_w_def run_pbind by (simp only: cong: conj_cong) blast
qed

lemma run_try_r [once_simps]:
  "replay (try_r r w f) es = (Done (Inr y, w'), es') \<longleftrightarrow>
   (\<exists>x. r = Inr x \<and> replay (f x) es = (Done (Inr y, w'), es'))"
  unfolding try_r_def by (auto simp: run_simps split: sum.splits)

lemmas once_runs = once_simps run_pbind run_Ret run_Panic run_unwrap run_if run_fresh_key

section \<open>What the steps of a slate keep\<close>

named_theorems kept_id \<open>steps that keep the id of a slate\<close>

lemma ids_kept [kept_id]:
  "add_participant_info L s ctx sig = Inr s' \<Longrightarrow> slate_id s' = slate_id s"
  "fill_round_1 L s ctx = Inr s' \<Longrightarrow> slate_id s' = slate_id s"
  "adjust_offset L s ctx = Inr s' \<Longrightarrow> slate_id s' = slate_id s"
  "remove_other_sigdata L s nonce key = Inr s' \<Longrightarrow> slate_id s' = slate_id s"
  "update_kernel L s = Inr s' \<Longrightarrow> slate_id s' = slate_id s"
  by (auto simp: add_participant_info_def fill_round_1_def adjust_offset_def remove_other_sigdata_def update_kernel_def
      rbind_eq_Ok Let_def)

lemma id_add_transaction_elements [kept_id]:
  "add_transaction_elements L k elems s = Inr (s', b) \<Longrightarrow> slate_id s' = slate_id s"
  by (auto simp: add_transaction_elements_def rbind_eq_Ok split: if_splits prod.splits dest: kept_id)

lemma id_repopulate_tx [kept_id]:
  "repopulate_tx L m s ctx u w = Inr s' \<Longrightarrow> slate_id s' = slate_id s"
  by (auto simp: repopulate_tx_def rbind_eq_Ok Let_def split: if_splits prod.splits dest!: kept_id)

lemma id_fill_round_2 [kept_id]:
  "replay (fill_round_2 L s key nonce) es = (Done (Inr s'), es') \<Longrightarrow> slate_id s' = slate_id s"
  by (auto simp: fill_round_2_def add_my_sig_def run_pbind run_Ret split: sum.splits prod.splits)

lemma id_finalize [kept_id]:
  "replay (finalize L s) es = (Done (Inr s'), es') \<Longrightarrow>
     slate_id s' = slate_id s \<and> (\<exists>tx. slate_tx s' = Some tx \<and> tx_validate L tx)"
  by (auto simp: finalize_def finalize_transaction_def Let_def run_Ret run_Panic
      split: sum.splits prod.splits if_splits list.splits)

lemma run_try_bind_Ok:
  "replay (try_bind p f) es = (Done (Inr y), es') \<longleftrightarrow>
   (\<exists>x es1. replay p es = (Done (Inr x), es1) \<and> replay (f x) es1 = (Done (Inr y), es'))"
  unfolding run_try_bind by auto

lemma id_complete_tx [kept_id]:
  "replay (complete_tx L m s ctx w) es = (Done (Inr s'), es') \<Longrightarrow>
     slate_id s' = slate_id s \<and> (\<exists>tx. slate_tx s' = Some tx \<and> tx_validate L tx)"
  by (auto simp: complete_tx_def run_try_bind_Ok run_Ret split: sum.splits prod.splits dest!: kept_id)

lemma id_sign_proof [kept_id]:
  "replay (sign_proof L kc parent excess s) es = (Done (Inr s'), es') \<Longrightarrow> slate_id s' = slate_id s"
  by (auto simp: sign_proof_def run_try_bind_Ok run_Ret rbind_eq_Ok split: option.splits)

section \<open>Receiving\<close>

text \<open>The values under keys of other kinds are not changed by a write.\<close>

lemma get_put_prefix: "take 1 k \<noteq> take 1 k' \<Longrightarrow> db_get (db_put k' v d) k = db_get d k"
  by (auto simp: db.get_put)

lemma next_child_run:
  assumes "replay (next_child L m w) es = (Done (Inr i, w1), es')" "store_key_laws L"
  shows "lm_parent_key_id w1 = lm_parent_key_id w \<and> lm_keychain w1 = lm_keychain w \<and>
    (\<forall>k. take 1 k \<noteq> [DERIV_PREFIX] \<longrightarrow> db_get (lm_db w1) k = db_get (lm_db w) k)"
  using assms
  by (auto simp: next_child_def Let_def run_Ret run_Panic commit_batch_def save_child_index_def db.get_put take_1_key
      simp del: One_nat_def split: sum.splits if_splits)

lemma db_scan_mem: "db_get d k = Some v \<Longrightarrow> take 1 k = [p] \<Longrightarrow> v \<in> set (db_scan p d)"
  unfolding db_get_def db_scan_def by (drule map_of_SomeD) (auto intro!: image_eqI [of v snd "(k, v)"])

lemma map_filter_mem: "v \<in> set vs \<Longrightarrow> f v = Some x \<Longrightarrow> x \<in> set (List.map_filter f vs)"
  by (force simp: List.map_filter_def)

lemma iter_mem:
  assumes "store_key_laws L"
  shows "db_get d (log_key L p i) = Some (VTxLog t) \<Longrightarrow> t \<in> set (tx_log_iter d)"
    and "db_get d (output_key L k n) = Some (VOutput out) \<Longrightarrow> out \<in> set (od_iter d)"
  unfolding tx_log_iter_def od_iter_def
  by (rule map_filter_mem, erule db_scan_mem, simp_all only: take_1_key [OF assms] output_key_prefix [OF assms] as_tx_log.simps as_output.simps)+

lemma prefix_distinct: "TX_LOG_ENTRY_PREFIX \<noteq> PRIVATE_TX_CONTEXT_PREFIX"
  by (simp add: prefix_defs)

lemma log_output_keys: "store_key_laws L \<Longrightarrow> to_key_u64 L TX_LOG_ENTRY_PREFIX p n \<noteq> output_key L i k"
  using take_1_key(2) [of L TX_LOG_ENTRY_PREFIX p n] output_key_prefix [of L i k]
  by (auto simp: prefix_defs simp del: One_nat_def)

text \<open>What a received payment of a slate is in the wallet: its entry in the log and its output.\<close>

definition received_in :: "('z StoreLib_scheme) \<Rightarrow> Slate \<Rightarrow> Identifier \<Rightarrow> db \<Rightarrow> TxLogEntry \<Rightarrow> OutputData \<Rightarrow> bool" where
  "received_in L slate parent d t out \<longleftrightarrow>
     le_tx_type t = TxReceived \<and> le_tx_slate_id t = Some (slate_id slate) \<and> le_parent_key_id t = parent \<and>
     le_amount_credited t = slate_amount slate \<and> \<not> le_confirmed t \<and>
     db_get d (log_key L parent (le_id t)) = Some (VTxLog t) \<and>
     od_root_key_id out = parent \<and> od_value out = slate_amount slate \<and> od_status out = Unconfirmed \<and>
     od_tx_log_entry out = Some (le_id t) \<and>
     db_get d (output_key L (od_key_id out) (od_mmr_index out)) = Some (VOutput out)"

lemma build_recipient_output_run:
  assumes "replay (build_recipient_output L now m s height parent w) es = (Done (Inr (i, ctx, t, s'), w1), es')"
    and L: "store_key_laws L"
  shows "(\<exists>out. received_in L s parent (lm_db w1) t out) \<and> slate_id s' = slate_id s \<and>
    lm_parent_key_id w1 = lm_parent_key_id w \<and>
    (\<forall>k. take 1 k \<in> {[ACCOUNT_PATH_MAPPING_PREFIX], [CONFIRMED_HEIGHT_PREFIX]} \<longrightarrow> db_get (lm_db w1) k = db_get (lm_db w) k)"
proof -
  from assms(1) obtain w0 es0 log_id d commit where
    child: "replay (next_child L m w) es = (Done (Inr i, w0), es0)" and
    id: "slate_id s' = slate_id s" and
    log: "next_tx_log_id L parent (lm_db w0) = Inr (log_id, d)" and
    t: "t = (tx_log_entry_new now parent TxReceived log_id)
               \<lparr>le_tx_slate_id := Some (slate_id s'),
                le_amount_credited := slate_amount s,
                le_num_outputs := 1,
                le_ttl_cutoff_height := (if ttl_cutoff_height s' = 0 then None else Some (ttl_cutoff_height s')),
                le_kernel_excess := (case calc_excess L s' of Inr e \<Rightarrow> Some e | Inl _ \<Rightarrow> None),
                le_kernel_lookup_min_height := Some height\<rparr>" and
    w1: "w1 = commit_batch (save_tx_log_entry L t parent (batch_save L \<lparr>od_root_key_id = parent, od_key_id = i,
               od_n_child = last_path_index L (to_path L i), od_commit = commit, od_mmr_index = None,
               od_value = slate_amount s, od_status = Unconfirmed, od_height = height, od_lock_height = 0,
               od_is_coinbase = False, od_tx_log_entry = Some log_id\<rparr> d)) w0"
    unfolding build_recipient_output_def Let_def by (fastforce simp: once_runs dest: kept_id split: prod.splits)
  note frame = next_child_run [OF child L]
  from log have d: "db_get d k = db_get (lm_db w0) k" if "take 1 k \<noteq> [TX_LOG_ID_PREFIX]" for k
    using that by (auto simp: next_tx_log_id_def rbind_eq_Ok Let_def db.get_put take_1_key [OF L] simp del: One_nat_def)
  have "received_in L s parent (lm_db w1) t \<lparr>od_root_key_id = parent, od_key_id = i,
               od_n_child = last_path_index L (to_path L i), od_commit = commit, od_mmr_index = None,
               od_value = slate_amount s, od_status = Unconfirmed, od_height = height, od_lock_height = 0,
               od_is_coinbase = False, od_tx_log_entry = Some log_id\<rparr>"
    using log_output_keys [OF L, of parent "ucast log_id" i None]
    by (simp add: received_in_def w1 commit_batch_def save_tx_log_entry_def batch_save_def db.get_put t tx_log_entry_new_def id)
  moreover have "db_get (lm_db w1) k = db_get (lm_db w) k"
    if "take 1 k \<in> {[ACCOUNT_PATH_MAPPING_PREFIX], [CONFIRMED_HEIGHT_PREFIX]}" for k
  proof -
    have "db_get (lm_db w1) k = db_get d k"
      using that by (auto simp: w1 commit_batch_def save_tx_log_entry_def batch_save_def db.get_put take_1_key [OF L]
          output_key_prefix [OF L] prefix_defs simp del: One_nat_def)
    with that frame d [of k] show ?thesis by (auto simp: prefix_defs simp del: One_nat_def)
  qed
  ultimately show ?thesis using id frame by (auto simp: w1 commit_batch_def simp del: One_nat_def)
qed

lemma add_output_to_slate_run:
  assumes "replay (add_output_to_slate L now m s height parent False w) es = (Done (Inr (ctx, s'), w1), es')"
    and L: "store_key_laws L"
  shows "(\<exists>t out. received_in L s parent (lm_db w1) t out) \<and> slate_id s' = slate_id s \<and>
    lm_parent_key_id w1 = lm_parent_key_id w \<and>
    (\<forall>k. take 1 k \<in> {[ACCOUNT_PATH_MAPPING_PREFIX], [CONFIRMED_HEIGHT_PREFIX]} \<longrightarrow> db_get (lm_db w1) k = db_get (lm_db w) k)"
proof -
  from assms(1) obtain i ctx0 t s0 w0 es0 excess where
    built: "replay (build_recipient_output L now m s height parent w) es = (Done (Inr (i, ctx0, t, s0), w0), es0)" and
    id: "slate_id s' = slate_id s0" and
    w1: "w1 = commit_batch (save_tx_log_entry L (t\<lparr>le_kernel_excess := Some excess\<rparr>) parent (lm_db w0)) w0"
    unfolding add_output_to_slate_def Let_def by (fastforce simp: once_runs dest: kept_id split: prod.splits)
  note r = build_recipient_output_run [OF built L]
  then obtain out where out: "received_in L s parent (lm_db w0) t out" by blast
  have "received_in L s parent (lm_db w1) (t\<lparr>le_kernel_excess := Some excess\<rparr>) out"
    using out log_output_keys [OF L, of parent "ucast (le_id t)" "od_key_id out" "od_mmr_index out"]
    by (auto simp: received_in_def w1 commit_batch_def save_tx_log_entry_def db.get_put)
  moreover have "db_get (lm_db w1) k = db_get (lm_db w0) k"
    if "take 1 k \<in> {[ACCOUNT_PATH_MAPPING_PREFIX], [CONFIRMED_HEIGHT_PREFIX]}" for k
    using that by (auto simp: w1 commit_batch_def save_tx_log_entry_def db.get_put take_1_key [OF L] prefix_defs
        simp del: One_nat_def)
  ultimately show ?thesis using r id by (auto simp: w1 commit_batch_def simp del: One_nat_def)
qed

lemma accounts_cong:
  assumes "store_key_laws L" "lm_parent_key_id w1 = lm_parent_key_id w"
    "\<forall>k. take 1 k \<in> {[ACCOUNT_PATH_MAPPING_PREFIX], [CONFIRMED_HEIGHT_PREFIX]} \<longrightarrow> db_get (lm_db w1) k = db_get (lm_db w) k"
  shows "acct_or_active L w1 dest = acct_or_active L w dest" "check_ttl L w1 s = check_ttl L w s"
  using assms
  by (auto simp: acct_or_active_def get_acct_path_def check_ttl_def last_confirmed_height_def get_ser_def take_1_key
      simp del: One_nat_def split: option.splits)

lemma receive_tx_run:
  assumes "replay (receive_tx E L m slate dest w) es = (Done (Inr slate', w'), es')" "store_key_laws L"
  shows "slate_id slate' = slate_id slate \<and> slate_state slate' = Standard2 \<and> slate_amount slate' = 0 \<and>
    check_ttl L w slate = Inr () \<and>
    (\<exists>parent t out. acct_or_active L w dest = Inr parent \<and> received_in L slate parent (lm_db w') t out) \<and>
    (\<forall>s2 dest2. acct_or_active L w' dest2 = acct_or_active L w dest2 \<and> check_ttl L w' s2 = check_ttl L w s2)"
proof -
  from assms(1) obtain parent ctx s0 height es1 es2 where
    acct: "acct_or_active L w dest = Inr parent" and ttl: "check_ttl L w slate = Inr ()" and
    run: "replay (add_output_to_slate L (ae_now E) m (slate\<lparr>slate_tx := Some (empty_transaction L)\<rparr>) height parent False w) es1
      = (Done (Inr (ctx, s0), w'), es2)" and
    res: "slate_id slate' = slate_id s0" "slate_state slate' = Standard2" "slate_amount slate' = 0"
    unfolding receive_tx_def Let_def
    by (fastforce simp: once_runs remove_other_sigdata_def rbind_eq_Ok dest: kept_id split: prod.splits)
  note r = add_output_to_slate_run [OF run assms(2)]
  from r have "\<exists>t out. received_in L slate parent (lm_db w') t out" by (simp add: received_in_def)
  moreover have "acct_or_active L w' d2 = acct_or_active L w d2" "check_ttl L w' s2 = check_ttl L w s2" for d2 s2
    using accounts_cong [OF assms(2), of w' w] r by blast+
  moreover have "slate_id s0 = slate_id slate" using r by simp
  ultimately show ?thesis using acct ttl res by auto
qed

lemma receive_tx_refused:
  assumes "acct_or_active L w dest = Inr parent" "t \<in> set (tx_log_iter (lm_db w))"
    "le_tx_type t = TxReceived" "le_tx_slate_id t = Some (slate_id s)" "le_parent_key_id t = parent"
  shows "receive_tx E L m s dest w =
    Ret (case check_ttl L w s of Inl e \<Rightarrow> Inl e | Inr _ \<Rightarrow> Inl (TransactionAlreadyReceived (uuid_to_string L (slate_id s))), w)"
  using assms by (auto simp: receive_tx_def try_r_def retrieve_txs_def split: sum.splits)


section \<open>Finishing\<close>

abbreviation context_key :: "('z StoreLib_scheme) \<Rightarrow> Uuid \<Rightarrow> bytes" where
  "context_key L u \<equiv> to_key_u64 L PRIVATE_TX_CONTEXT_PREFIX (uuid_bytes L u) 0"

lemma no_context: "db_get (lm_db w) (context_key L u) = None \<Longrightarrow> \<exists>e. get_private_context L w m (uuid_bytes L u) = Inl e"
  by (cases "get_private_context L w m (uuid_bytes L u)")
    (auto simp: get_private_context_def rbind_eq_Ok option_to_not_found_def get_ser_def ok_or_def)

lemma no_context_refused:
  assumes "db_get (lm_db w) (context_key L (slate_id s)) = None"
  shows "\<exists>e. finalize_tx E L m s w = Ret (Inl e, w)" "\<exists>e. tx_lock_outputs E L m s w = Ret (Inl e, w)"
    "\<exists>e. foreign_finalize_tx E L m s post w = Ret (Inl e, w)"
  using no_context [OF assms, of m]
  by (auto simp: finalize_tx_def tx_lock_outputs_def foreign_finalize_tx_def try_r_def split: sum.splits)

text \<open>The stored transaction of a slate.\<close>

abbreviation tx_file :: "('z WalletLib_scheme) \<Rightarrow> Uuid \<Rightarrow> string" where
  "tx_file L u \<equiv> uuid_to_string L u @ ''.grintx''"

lemma stored_entry_mem: "stored_entry b ts = Some t \<Longrightarrow> t \<in> set ts \<and> le_tx_type t = (if b then TxReceived else TxSent)"
  by (auto simp: stored_entry_def find_Some_iff)

lemma update_stored_tx_run:
  assumes "replay (update_stored_tx L m ctx s b w) es = (Done (Inr u, w1), es')" "slate_tx s = Some tx"
  shows "lm_saved_txs w1 (tx_file L (slate_id s)) = Some (hex_text (tx_ser_vec L tx)) \<and>
    (\<exists>t. db_get (lm_db w1) (log_key L (le_parent_key_id t) (le_id t)) = Some (VTxLog t) \<and>
       le_tx_slate_id t = Some (slate_id s) \<and> le_tx_type t = (if b then TxReceived else TxSent) \<and>
       map_option Inr (le_kernel_excess t) = Some (calc_excess L s))"
proof -
  from assms(1) obtain t0 excess t es1 sid tx' where
    t0: "stored_entry b (sort_key le_creation_ts (filter (\<lambda>t. le_tx_slate_id t = Some (slate_id s)) (tx_log_iter (lm_db w)))) = Some t0" and
    excess: "calc_excess L s = Inr excess" and
    step: "replay (case payment_proof s of None \<Rightarrow> Ret (Ok (t0\<lparr>le_kernel_excess := Some excess\<rparr>))
       | Some p \<Rightarrow> try_bind (finished_proof L m ctx s w p)
           (\<lambda>pr. Ret (Ok (t0\<lparr>le_kernel_excess := Some excess, le_payment_proof := Some pr\<rparr>)))) es = (Done (Inr t), es1)" and
    w1: "le_tx_slate_id t = Some sid" "tx_or_err s = Inr tx'"
      "w1 = commit_batch (save_tx_log_entry L t (le_parent_key_id t) (lm_db w)) (store_tx L (uuid_to_string L sid) tx' w)"
    unfolding update_stored_tx_def Let_def once_runs retrieve_txs_def
    by (auto simp: run_Ret store_tx_def)
  from step have "le_tx_slate_id t = le_tx_slate_id t0" "le_tx_type t = le_tx_type t0" "le_kernel_excess t = Some excess"
    by (auto simp: run_try_bind_Ok run_Ret split: option.splits)
  with stored_entry_mem [OF t0] excess w1(1)
  have t: "sid = slate_id s" "le_tx_type t = (if b then TxReceived else TxSent)"
    "map_option Inr (le_kernel_excess t) = Some (calc_excess L s)" by simp_all
  have tx': "tx' = tx" using w1(2) assms(2) by (simp add: tx_or_err_def ok_or_def)
  show ?thesis
    by (rule conjI, simp add: w1(3) t(1) tx' commit_batch_def store_tx_def)
      (rule exI [of _ t], simp add: t w1(1) w1(3) commit_batch_def save_tx_log_entry_def db.get_put)
qed

lemma drop_context_run:
  "replay (drop_context L m u w) es = (Done (Inr x, w1), es') \<Longrightarrow>
     db_get (lm_db w1) (context_key L u) = None \<and> lm_saved_txs w1 = lm_saved_txs w \<and>
     (\<forall>k. k \<noteq> context_key L u \<longrightarrow> db_get (lm_db w1) k = db_get (lm_db w) k)"
  by (auto simp: drop_context_def once_runs commit_batch_def delete_private_context_def db.get_del)

text \<open>What a finished transaction is in the wallet: stored, in the log, and without a context.\<close>

definition finished_in :: "('z WalletLib_scheme) \<Rightarrow> TxLogEntryType \<Rightarrow> Slate \<Rightarrow> LMDBBackend \<Rightarrow> bool" where
  "finished_in L ty s w \<longleftrightarrow>
     (\<exists>tx. slate_tx s = Some tx \<and> tx_validate L tx \<and>
        lm_saved_txs w (tx_file L (slate_id s)) = Some (hex_text (tx_ser_vec L tx))) \<and>
     (\<exists>t \<in> set (tx_log_iter (lm_db w)). le_tx_slate_id t = Some (slate_id s) \<and> le_tx_type t = ty \<and>
        map_option Inr (le_kernel_excess t) = Some (calc_excess L s)) \<and>
     db_get (lm_db w) (context_key L (slate_id s)) = None"

lemma finished_inI:
  assumes "replay (update_stored_tx L m ctx s b w) es = (Done (Inr u, w1), es1)"
    "replay (drop_context L m (slate_id s) w1) es1 = (Done (Inr v, w2), es2)"
    "\<exists>tx. slate_tx s = Some tx \<and> tx_validate L tx" "store_key_laws L"
  shows "finished_in L (if b then TxReceived else TxSent) (s\<lparr>slate_state := st, slate_amount := 0\<rparr>) w2"
proof -
  obtain tx where tx: "slate_tx s = Some tx" "tx_validate L tx" using assms(3) by blast
  note drop = drop_context_run [OF assms(2)]
  obtain t where t: "db_get (lm_db w1) (log_key L (le_parent_key_id t) (le_id t)) = Some (VTxLog t)"
      "le_tx_slate_id t = Some (slate_id s)" "le_tx_type t = (if b then TxReceived else TxSent)"
      "map_option Inr (le_kernel_excess t) = Some (calc_excess L s)"
    using update_stored_tx_run [OF assms(1) tx(1)] by blast
  have "log_key L (le_parent_key_id t) (le_id t) \<noteq> context_key L (slate_id s)"
    using take_1_key(2) [OF assms(4)] by (metis prefix_distinct list.inject)
  with t(1) drop have "t \<in> set (tx_log_iter (lm_db w2))" using iter_mem(1) [OF assms(4)] by metis
  moreover have "calc_excess L (s\<lparr>slate_state := st, slate_amount := 0\<rparr>) = calc_excess L s"
    by (simp add: calc_excess_def pub_blind_sum_def)
  ultimately show ?thesis
    using update_stored_tx_run [OF assms(1) tx(1)] tx drop t(2-4) unfolding finished_in_def by auto
qed

lemma finalize_tx_run:
  assumes "replay (finalize_tx E L m s w) es = (Done (Inr s', w'), es')" "store_key_laws L"
  shows "slate_id s' = slate_id s \<and> slate_state s' = Standard3 \<and> slate_amount s' = 0 \<and> finished_in L TxSent s' w'"
proof -
  from assms(1) obtain s1 s2 s3 ctx w1 w2 es1 es2 es3 es4 u v where
    steps: "adjust_offset L s ctx = Inr s1" "repopulate_tx L m s1 ctx True w1 = Inr s2" and
    comp: "replay (complete_tx L m s2 ctx w1) es1 = (Done (Inr s3), es2)" and
    upd: "replay (update_stored_tx L m ctx s3 False w1) es3 = (Done (Inr u, w2), es4)" and
    drop: "replay (drop_context L m (slate_id s3) w2) es4 = (Done (Inr v, w'), es')" and
    s': "s' = s3\<lparr>slate_state := Standard3, slate_amount := 0\<rparr>"
    unfolding finalize_tx_def Let_def by (auto simp: once_runs)
  note c = id_complete_tx [OF comp]
  from finished_inI [OF upd drop _ assms(2), of Standard3] c have "finished_in L TxSent s' w'" by (simp add: s')
  with c kept_id(3) [OF steps(1)] id_repopulate_tx [OF steps(2)] show ?thesis by (simp add: s')
qed

lemma foreign_finalize_tx_run:
  assumes "replay (foreign_finalize_tx E L m s post w) es = (Done (Inr s', w'), es')" "store_key_laws L"
  shows "slate_id s' = slate_id s \<and> slate_amount s' = 0 \<and>
    (if slate_state s = Invoice2 then slate_state s' = Invoice3 \<and> finished_in L TxReceived s' w'
     else slate_state s' = Standard3 \<and> finished_in L TxSent s' w')"
proof (cases "slate_state s = Invoice2")
  case True
  with assms(1) obtain s1 s2 s3 ctx ctx0 w2 es1 es2 es3 es4 u v where
    steps: "adjust_offset L s ctx = Inr s1" "repopulate_tx L m s1 ctx0 False w = Inr s2" and
    comp: "replay (complete_tx L m s2 ctx w) es1 = (Done (Inr s3), es2)" and
    upd: "replay (update_stored_tx L m ctx s3 True w) es3 = (Done (Inr u, w2), es4)" and
    drop: "replay (drop_context L m (slate_id s3) w2) es4 = (Done (Inr v, w'), es')" and
    s': "s' = s3\<lparr>slate_state := Invoice3, slate_amount := 0\<rparr>"
    unfolding foreign_finalize_tx_def Let_def by (auto simp: once_runs)
  note c = id_complete_tx [OF comp]
  from finished_inI [OF upd drop _ assms(2), of Invoice3] c have "finished_in L TxReceived s' w'" by (simp add: s')
  with True c kept_id(3) [OF steps(1)] id_repopulate_tx [OF steps(2)] show ?thesis by (simp add: s')
next
  case False
  with assms(1) obtain es1 es2 where "replay (finalize_tx E L m s w) es1 = (Done (Inr s', w'), es2)"
    unfolding foreign_finalize_tx_def Let_def by (auto simp: once_runs)
  from finalize_tx_run [OF this assms(2)] False show ?thesis by simp
qed

text \<open>
  C15. A transaction is finished once, whether by its sender or, for an invoice, by the one who is
  paid. Afterwards the slate carries a transaction that is valid, with the amount taken out; this
  transaction is stored under the slate's id, the log has the entry of the sent (or invoiced)
  payment with the kernel's excess, and the secrets of the slate are gone from the database. So
  every later call that would sign or lock for a slate with this id fails and leaves the wallet as
  it is: the nonce of a finished transaction does not sign again.
\<close>

theorem finalize_once:
  assumes "store_key_laws L"
    and "replay (finalize_tx E L m s w) es = (Done (Inr s', w'), es') \<or>
         replay (foreign_finalize_tx E L m s post w) es = (Done (Inr s', w'), es')"
  shows "slate_id s' = slate_id s \<and> slate_amount s' = 0 \<and>
    (slate_state s' = Standard3 \<and> finished_in L TxSent s' w' \<or>
     slate_state s' = Invoice3 \<and> finished_in L TxReceived s' w') \<and>
    (\<forall>E2 m2 s2 post2. slate_id s2 = slate_id s \<longrightarrow>
       (\<exists>e. finalize_tx E2 L m2 s2 w' = Ret (Err e, w')) \<and>
       (\<exists>e. foreign_finalize_tx E2 L m2 s2 post2 w' = Ret (Err e, w')) \<and>
       (\<exists>e. tx_lock_outputs E2 L m2 s2 w' = Ret (Err e, w')))"
proof -
  have r: "slate_id s' = slate_id s \<and> slate_amount s' = 0 \<and>
    (slate_state s' = Standard3 \<and> finished_in L TxSent s' w' \<or> slate_state s' = Invoice3 \<and> finished_in L TxReceived s' w')"
    using assms(2) finalize_tx_run [OF _ assms(1)] foreign_finalize_tx_run [OF _ assms(1)] by (meson)
  then have "db_get (lm_db w') (context_key L (slate_id s)) = None" unfolding finished_in_def by (elim conjE disjE) simp_all
  then show ?thesis using r no_context_refused [of w' L] by metis
qed

end
