(* ===== verification/Api_Instance.thy ===== *)
theory Api_Instance
  imports Wallet_Run Wallet_Once
begin

text \<open>
  The small library with what the interface and the scan need besides: a range proof that carries
  its amount and key, and a node with a few outputs. The theorems about the interface at concrete
  inputs.
\<close>

definition small_rewind :: "Keychain \<Rightarrow> Commitment \<Rightarrow> RangeProof \<Rightarrow> (u64 \<times> Identifier \<times> bool) option option" where
  "small_rewind k c p = Some (if take 1 p = [9] then Some (word_of_int (be_int (take 8 c)), drop 8 c, True) else None)"

definition small_api :: ApiLib where
  "small_api =
     ScanLib.extend
       (WalletLib.extend (small\<lparr>tx_fee_of := (\<lambda>t h. 100)\<rparr>)
         (ScanLib.fields (\<lambda>k c p. Some None) small_rewind 10080
            (\<lambda>i. small_from_path \<lparr>path_depth = 2, path_path = (path_path (small_to_path i))[2 := 0]\<rparr>)))
       (ApiLib.fields (\<lambda>k. k) (\<lambda>t h. Some 0))"

lemma small_api_store [simp]: "to_key small_api = to_key small" "to_key_u64 small_api = to_key_u64 small"
  by (simp_all add: small_api_def WalletLib.extend_def ScanLib.extend_def)

lemma small_api_laws [simp]: "store_key_laws small_api"
  using small_store_keys by (simp add: store_key_laws_def)

definition small_node :: NodeClient where
  "small_node = \<lparr>get_chain_tip = Ok (30, ''tip''), get_kernel = (\<lambda>c a b. Ok None), get_outputs_from_node = (\<lambda>cs. Ok (\<lambda>c. if c \<in> set cs then Some ([], 10, 1) else None)),
     get_outputs_by_pmmr_index = (\<lambda>s e n. Ok (4, 4, [])), height_range_to_pmmr_indices = (\<lambda>a b. Ok (1, 4)),
     node_post_tx = (\<lambda>t f. Ok ())\<rparr>"

definition small_env :: ApiEnv where
  "small_env = \<lparr>ae_fuel = 10, ae_scan_fuel = 10, ae_now = 100, ae_node = small_node, ae_hash_order = (\<lambda>x. x),
     ae_parents_order = (\<lambda>x. x)\<rparr>"

section \<open>A reachable wallet\<close>

definition fresh_wallet :: LMDBBackend where "fresh_wallet = lmdb_new small_api [] Map.empty"

definition opened_wallet :: LMDBBackend where
  "opened_wallet = (case replay (set_keychain small_api [7] False fresh_wallet) [] of (Done (_, w), _) \<Rightarrow> w | _ \<Rightarrow> fresh_wallet)"

definition paid_slate :: Slate where
  "paid_slate = (blank small 5 2 False)\<lparr>slate_amount := 40, slate_tx := None\<rparr>"

definition paid_wallet :: LMDBBackend where
  "paid_wallet = (case replay (api_run small_env small_api None (ReceiveTx paid_slate None) opened_wallet) [EKey [1], EKey [2]] of
     (Done w, _) \<Rightarrow> w | _ \<Rightarrow> opened_wallet)"

lemma opened_run: "\<exists>r. replay (set_keychain small_api [7] False fresh_wallet) [] = (Done (r, opened_wallet), [])"
proof -
  have "(case replay (set_keychain small_api [7] False fresh_wallet) [] of (Done _, []) \<Rightarrow> True | _ \<Rightarrow> False)" by code_simp
  then show ?thesis unfolding opened_wallet_def by (auto split: prod.splits outcome.splits list.splits)
qed

lemma paid_run:
  "replay (api_run small_env small_api None (ReceiveTx paid_slate None) opened_wallet) [EKey [1], EKey [2]] = (Done paid_wallet, [])"
proof -
  have "(case replay (api_run small_env small_api None (ReceiveTx paid_slate None) opened_wallet) [EKey [1], EKey [2]] of
    (Done _, []) \<Rightarrow> True | _ \<Rightarrow> False)" by code_simp
  then show ?thesis unfolding paid_wallet_def by (auto split: prod.splits outcome.splits list.splits)
qed

theorem reachable_wallet_consistent_witness:
  "reachable small_api paid_wallet \<and> store_ok small_api (lm_db paid_wallet) \<and>
   (\<exists>out. od_iter (lm_db paid_wallet) = [out] \<and> od_value out = 40 \<and>
      get_output small_api (lm_db paid_wallet) (od_key_id out) (od_mmr_index out) = Inr out)"
proof -
  have r: "reachable small_api paid_wallet"
    using reachable.created [of small_api Map.empty] opened_run paid_run reachable.opened reachable.called
    unfolding fresh_wallet_def by metis
  have "(case od_iter (lm_db paid_wallet) of [out] \<Rightarrow> od_value out = 40 | _ \<Rightarrow> False)" by code_simp
  then obtain out where "od_iter (lm_db paid_wallet) = [out]" "od_value out = 40" by (auto split: list.splits)
  with reachable_wallet_consistent [OF r small_api_laws] r show ?thesis by auto
qed

section \<open>Receiving and finishing\<close>

lemma Ok_run:
  "(case replay p es of (Done (Inr x, w), []) \<Rightarrow> P x w | _ \<Rightarrow> False) \<Longrightarrow> \<exists>x w. replay p es = (Done (Inr x, w), []) \<and> P x w"
proof -
  assume a: "case replay p es of (Done (Inr x, w), []) \<Rightarrow> P x w | _ \<Rightarrow> False"
  obtain r es' where r: "replay p es = (r, es')" by fastforce
  with a obtain x where x: "r = Done x" "es' = []" by (cases r; cases es') (auto split: prod.splits sum.splits)
  with a r show ?thesis by (cases x; cases "fst x") auto
qed



definition sent_wallet :: LMDBBackend where
  "sent_wallet =
     (case put_context small_api None 5 (small_context\<lparr>ctx_amount := 40, ctx_fee := Some 5\<rparr>) small_locked of
        Ret (Inr _, w) \<Rightarrow> w | _ \<Rightarrow> small_wallet)"

definition answered_slate :: Slate where
  "answered_slate = paid_slate\<lparr>slate_state := Standard2, slate_tx := Some (empty_transaction small),
     participant_data := [\<lparr>public_blind_excess = [3], public_nonce = [4], part_sig = Some [5]\<rparr>]\<rparr>"

theorem finalize_once_witness:
  "\<exists>s' w'. replay (finalize_tx small_env small_api None answered_slate sent_wallet) [] = (Done (Inr s', w'), []) \<and>
     slate_state s' = Standard3 \<and> finished_in small_api TxSent s' w' \<and>
     (\<exists>e. finalize_tx small_env small_api None answered_slate w' = Ret (Err e, w'))"
proof -
  have "(case replay (finalize_tx small_env small_api None answered_slate sent_wallet) [] of
    (Done (Inr s', _), []) \<Rightarrow> slate_state s' = Standard3 | _ \<Rightarrow> False)" by code_simp
  from Ok_run [OF this] obtain s' w' where
    r: "replay (finalize_tx small_env small_api None answered_slate sent_wallet) [] = (Done (Inr s', w'), [])"
      "slate_state s' = Standard3" by blast
  from finalize_once [OF small_api_laws disjI1 [OF r(1)]] r show ?thesis by auto
qed

end
