(* ===== verification/Scan_Restore.thy ===== *)
theory Scan_Restore
  imports Wallet_Once
begin

text \<open>
  What a scan of the chain finds and repairs: the pages of outputs that the node hands out are all
  read, and afterwards the wallet has the outputs the chain has.
\<close>

section \<open>Reading the chain\<close>

abbreviation co_index :: "chain_output \<Rightarrow> u64" where
  "co_index out \<equiv> snd (snd (snd (snd out)))"

definition outputs_between :: "u64 \<Rightarrow> u64 \<Rightarrow> chain_output list \<Rightarrow> chain_output list" where
  "outputs_between a b outs = filter (\<lambda>out. a \<le> co_index out \<and> co_index out \<le> b) outs"

text \<open>What the node documents of \<open>get_outputs_by_pmmr_index\<close>: a page begins at the index asked for
  and holds every output up to the last index it reports, which is the highest one at most.\<close>

definition serves :: "NodeClient \<Rightarrow> chain_output list \<Rightarrow> u64 option \<Rightarrow> u64 \<Rightarrow> bool" where
  "serves nc outs e highest \<longleftrightarrow> sorted (map co_index outs) \<and>
     (\<forall>s. s \<le> highest \<longrightarrow> (\<exists>last. s \<le> last \<and> last \<le> highest \<and>
        get_outputs_by_pmmr_index nc s e 1000 = Ok (highest, last, outputs_between s last outs)))"

lemma word_succ: "l < (h :: 'a :: len word) \<Longrightarrow> unat (l + 1) = unat l + 1"
proof -
  assume "l < h"
  then have "unat l + 1 \<le> unat h" by (simp add: word_less_nat_alt Suc_le_eq)
  also have "unat h < 2 ^ LENGTH('a)" by (rule unsigned_less)
  finally have "unat l + 1 < 2 ^ LENGTH('a)" .
  then show ?thesis by (simp add: unat_word_ariths)
qed

lemma word_succ_le: "l < (h :: 'a :: len word) \<Longrightarrow> l + 1 \<le> y \<longleftrightarrow> l < y"
  by (simp add: word_succ word_less_nat_alt word_le_nat_alt Suc_le_eq)

lemma filter_split:
  assumes "sorted (map f xs)" "a \<le> l" "l < h"
  shows "filter (\<lambda>x. a \<le> f x \<and> f x \<le> (h :: u64)) xs = filter (\<lambda>x. a \<le> f x \<and> f x \<le> l) xs @ filter (\<lambda>x. l + 1 \<le> f x \<and> f x \<le> h) xs"
  using assms(1)
proof (induction xs)
  case (Cons x xs)
  note s = word_succ_le [OF assms(3)]
  show ?case
  proof (cases "f x \<le> l")
    case True
    with Cons assms(2,3) s show ?thesis by (auto dest: less_le_trans)
  next
    case False
    with Cons.prems have "\<forall>y \<in> set xs. \<not> f y \<le> l" by auto
    then have "filter (\<lambda>x. a \<le> f x \<and> f x \<le> l) xs = []" by (auto simp: filter_empty_conv)
    with Cons False assms(2) s show ?thesis by auto
  qed
qed simp

lemma outputs_between_split:
  "sorted (map co_index outs) \<Longrightarrow> a \<le> l \<Longrightarrow> l < h \<Longrightarrow>
   outputs_between a h outs = outputs_between a l outs @ outputs_between (l + 1) h outs"
  unfolding outputs_between_def by (rule filter_split)

lemma identify_append:
  "identify_utxo_outputs L kc (xs @ ys) =
   rbind (identify_utxo_outputs L kc xs) (\<lambda>a. rbind (identify_utxo_outputs L kc ys) (\<lambda>b. Ok (a @ b)))"
proof (induction xs)
  case (Cons x xs)
  then show ?case
    by (cases "rewind_output L kc x"; cases "identify_utxo_outputs L kc xs"; cases "identify_utxo_outputs L kc ys")
      (auto split: option.splits)
qed (cases "identify_utxo_outputs L kc ys"; simp)

lemma collect_loop_pages:
  assumes "serves nc outs e h"
  shows "s \<le> h \<Longrightarrow> unat h - unat s < n \<Longrightarrow>
    collect_loop n L kc nc e s acc = Ret (rbind (identify_utxo_outputs L kc (outputs_between s h outs)) (\<lambda>found. Ok (acc @ found, h)))"
proof (induction n arbitrary: s acc)
  case (Suc n)
  from assms Suc.prems(1) obtain l where l: "s \<le> l" "l \<le> h"
    "get_outputs_by_pmmr_index nc s e 1000 = Ok (h, l, outputs_between s l outs)" unfolding serves_def by blast
  show ?case
  proof (cases "h \<le> l")
    case True
    with l show ?thesis by (cases "identify_utxo_outputs L kc (outputs_between s h outs)") auto
  next
    case False
    then have lh: "l < h" by simp
    note u = word_succ [OF lh]
    have le: "l + 1 \<le> h" using word_succ_le [OF lh] lh by simp
    have "unat h - unat (l + 1) < n"
      using u Suc.prems(2) l(1) lh by (simp add: word_le_nat_alt word_less_nat_alt)
    note rec = Suc.IH [OF le this]
    have "sorted (map co_index outs)" using assms unfolding serves_def by simp
    note split = outputs_between_split [OF this l(1) lh]
    show ?thesis unfolding split identify_append using l(3) False rec
      by (cases "identify_utxo_outputs L kc (outputs_between s l outs)";
          cases "identify_utxo_outputs L kc (outputs_between (l + 1) h outs)") auto
  qed
qed simp

text \<open>
  C19. The scan reads the whole chain and ends. However the node cuts the outputs into pages, as long
  as every page makes progress, reading them page by page gives what one pass over all outputs
  from the first index to the highest one gives: the wallet's own outputs in their order, or the
  first error of rewinding a proof. Fuel for as many rounds as there are indices is enough.
\<close>

theorem scan_reads_chain:
  assumes "serves nc outs e h" "start \<le> h" "unat h - unat start < fuel"
  shows "collect_chain_outputs fuel L kc nc start e =
    Ret (rbind (identify_utxo_outputs L kc (outputs_between start h outs)) (\<lambda>found. Ok (found, h)))"
  unfolding collect_chain_outputs_def collect_loop_pages [OF assms] by simp

section \<open>Repairing\<close>

text \<open>Two databases that differ under keys of some kinds only.\<close>

definition frames :: "u8 set \<Rightarrow> db \<Rightarrow> db \<Rightarrow> bool" where
  "frames P d d' \<longleftrightarrow> (\<forall>k. take 1 k \<notin> (\<lambda>p. [p]) ` P \<longrightarrow> db_get d' k = db_get d k)"

lemma frames_refl [simp]: "frames P d d" by (simp add: frames_def)

lemma frames_trans: "frames P d d1 \<Longrightarrow> frames Q d1 d2 \<Longrightarrow> frames (P \<union> Q) d d2"
  by (simp add: frames_def image_Un)

lemma keeps_Ret_ok: "keeps L P p \<Longrightarrow> p = Ret (r, w) \<Longrightarrow> wallet_ok L (lm_db w)"
  by (simp add: keeps_def)

lemma keychain_db [simp]: "keychain L (w\<lparr>lm_db := d\<rparr>) m = keychain L w m"
  by (simp add: keychain_def cong: option.case_cong)

lemma index_typed:
  assumes "wallet_ok L d" "store_key_laws L" "p = DERIV_PREFIX \<or> p = TX_LOG_ID_PREFIX"
  shows "\<exists>i. index_or_zero (get_ser as_index d (to_key L p k)) = Inr i"
proof (cases "db_get d (to_key L p k)")
  case (Some v)
  then have "filed L (to_key L p k) v" using assms(1) by (auto simp: wallet_ok_def db_get_mem)
  then obtain i where "v = VIndex i"
    using take_1_key(1) [OF assms(2), of p k] assms(3)
    by (cases v) (auto simp: filed_def kind_prefixes_def prefix_defs simp del: One_nat_def)
  with Some show ?thesis by (simp add: index_or_zero_def get_ser_def)
qed (simp add: index_or_zero_def get_ser_def)

lemma keeps_unspend_output:
  "store_key_laws L \<Longrightarrow> wallet_ok L (lm_db w) \<Longrightarrow> keeps_ok L (unspend_output L m out w)"
  unfolding unspend_output_def Let_def by (intro keeps_cancel_tx_log_entry ensuresI) (auto intro!: wallet_okI)

lemma cancel_tx_log_entry_ok:
  assumes "keychain L w m = Inr kc" "store_key_laws L"
  shows "\<exists>d. cancel_tx_log_entry L m out w = (Inr (), w\<lparr>lm_db := d\<rparr>) \<and> frames {TX_LOG_ENTRY_PREFIX} (lm_db w) d"
proof -
  let ?parent = "parent_path L (od_key_id out)"
  have "\<exists>upd. cancel_tx_log_entry L m out w =
    (Inr (), commit_batch (case upd of Some t \<Rightarrow> save_tx_log_entry L t ?parent (lm_db w) | None \<Rightarrow> lm_db w) w)"
    unfolding cancel_tx_log_entry_def Let_def retrieve_txs_def
    by (cases "od_tx_log_entry out") (simp add: assms(1), rule exI [of _ None], simp, simp add: assms(1), rule exI, rule refl)
  then obtain upd where "cancel_tx_log_entry L m out w =
    (Inr (), commit_batch (case upd of Some t \<Rightarrow> save_tx_log_entry L t ?parent (lm_db w) | None \<Rightarrow> lm_db w) w)" by blast
  then show ?thesis
    by (intro exI conjI, simp only: commit_batch_def)
      (auto simp: frames_def save_tx_log_entry_def db.get_put take_1_key [OF assms(2)] simp del: One_nat_def split: option.splits)
qed

lemma unspend_output_ok:
  assumes "keychain L w m = Inr kc" "store_key_laws L"
  shows "\<exists>d. unspend_output L m out w = Ret (Inr (), w\<lparr>lm_db := d\<rparr>) \<and>
    (\<forall>k. take 1 k \<noteq> [TX_LOG_ENTRY_PREFIX] \<longrightarrow>
       db_get d k = (if k = home_key L out then Some (VOutput (out\<lparr>od_status := Unspent\<rparr>)) else db_get (lm_db w) k))"
proof -
  obtain d where d: "cancel_tx_log_entry L m (out\<lparr>od_status := Unspent\<rparr>) w = (Inr (), w\<lparr>lm_db := d\<rparr>)"
    "frames {TX_LOG_ENTRY_PREFIX} (lm_db w) d" using cancel_tx_log_entry_ok [OF assms] by blast
  show ?thesis
    by (rule exI [of _ "batch_save L (out\<lparr>od_status := Unspent\<rparr>) d"])
      (use d assms(1) in \<open>auto simp: unspend_output_def Let_def try_w_def try_r_def commit_batch_def batch_save_def db.get_put
         frames_def\<close>)
qed

text \<open>Giving a list of outputs back, each of them stored under its own key.\<close>

lemma unspend_outputs_ok:
  assumes "keychain L w m = Inr kc" "store_key_laws L"
  shows "\<exists>d. for_wallet (unspend_output L m) outs w = Ret (Inr (), w\<lparr>lm_db := d\<rparr>) \<and>
    (\<forall>k. take 1 k \<noteq> [TX_LOG_ENTRY_PREFIX] \<longrightarrow>
       (\<exists>out \<in> set outs. k = home_key L out \<and> db_get d k = Some (VOutput (out\<lparr>od_status := Unspent\<rparr>))) \<or>
       k \<notin> home_key L ` set outs \<and> db_get d k = db_get (lm_db w) k)"
  using assms(1)
proof (induction outs arbitrary: w)
  case Nil
  then show ?case by (auto intro: exI [of _ "lm_db w"])
next
  case (Cons out outs)
  obtain d where d: "unspend_output L m out w = Ret (Inr (), w\<lparr>lm_db := d\<rparr>)"
    "\<forall>k. take 1 k \<noteq> [TX_LOG_ENTRY_PREFIX] \<longrightarrow>
       db_get d k = (if k = home_key L out then Some (VOutput (out\<lparr>od_status := Unspent\<rparr>)) else db_get (lm_db w) k)"
    using unspend_output_ok [OF Cons.prems assms(2)] by blast
  obtain d2 where d2: "for_wallet (unspend_output L m) outs (w\<lparr>lm_db := d\<rparr>) = Ret (Inr (), w\<lparr>lm_db := d2\<rparr>)"
    "\<forall>k. take 1 k \<noteq> [TX_LOG_ENTRY_PREFIX] \<longrightarrow>
       (\<exists>out \<in> set outs. k = home_key L out \<and> db_get d2 k = Some (VOutput (out\<lparr>od_status := Unspent\<rparr>))) \<or>
       k \<notin> home_key L ` set outs \<and> db_get d2 k = db_get d k"
    using Cons.IH [of "w\<lparr>lm_db := d\<rparr>"] Cons.prems by auto
  have "for_wallet (unspend_output L m) (out # outs) w = Ret (Inr (), w\<lparr>lm_db := d2\<rparr>)"
    using d(1) d2(1) by (simp add: try_w_def)
  moreover have "(\<exists>x \<in> set (out # outs). k = home_key L x \<and> db_get d2 k = Some (VOutput (x\<lparr>od_status := Unspent\<rparr>))) \<or>
       k \<notin> home_key L ` set (out # outs) \<and> db_get d2 k = db_get (lm_db w) k" if "take 1 k \<noteq> [TX_LOG_ENTRY_PREFIX]" for k
    using d(2) d2(2) that by (cases "k = home_key L out") auto
  ultimately show ?case by blast
qed

text \<open>Restoring an output that the wallet does not have.\<close>

abbreviation chain_key :: "('z ScanLib_scheme) \<Rightarrow> OutputResult \<Rightarrow> bytes" where
  "chain_key L c \<equiv> output_key L (or_key_id c) (Some (or_mmr_index c))"

abbreviation acct_of :: "('z ScanLib_scheme) \<Rightarrow> OutputResult \<Rightarrow> Identifier" where
  "acct_of L c \<equiv> parent_path L (or_key_id c)"

definition restored_in :: "('z ScanLib_scheme) \<Rightarrow> Keychain \<Rightarrow> OutputResult \<Rightarrow> db_value option \<Rightarrow> bool" where
  "restored_in L kc c v \<longleftrightarrow>
     (\<exists>commit log_id. kc_commit L kc (or_value c) (or_key_id c) = Some commit \<and>
        v = Some (VOutput
          \<lparr>od_root_key_id = acct_of L c, od_key_id = or_key_id c, od_n_child = or_n_child c, od_commit = Some (hex_text commit),
           od_mmr_index = Some (or_mmr_index c), od_value = or_value c, od_status = Unspent, od_height = or_height c,
           od_lock_height = or_lock_height c, od_is_coinbase = or_is_coinbase c, od_tx_log_entry = Some log_id\<rparr>))"

text \<open>The largest child index of each account.\<close>

definition max_children :: "('z ScanLib_scheme) \<Rightarrow> OutputResult \<Rightarrow> parents \<Rightarrow> parents \<Rightarrow> bool" where
  "max_children L c ps ps' \<longleftrightarrow>
     (\<forall>q. map_of ps' q = (if q = acct_of L c then Some (max (or_n_child c) (case map_of ps q of Some i \<Rightarrow> i | None \<Rightarrow> 0)) else map_of ps q)) \<and>
     (distinct (map fst ps) \<longrightarrow> distinct (map fst ps'))"

lemma next_tx_log_id_ok:
  assumes "wallet_ok L d" "store_key_laws L"
  shows "\<exists>i d'. next_tx_log_id L parent d = Inr (i, d') \<and> frames {TX_LOG_ID_PREFIX} d d'"
  using index_typed [OF assms, of TX_LOG_ID_PREFIX parent] assms(2)
  by (auto simp: next_tx_log_id_def Let_def frames_def db.get_put take_1_key simp del: One_nat_def)

lemma restore_missing_output_ok:
  assumes kc: "keychain L w m = Inr kc" and L: "store_key_laws L" and ok: "wallet_ok L (lm_db w)"
    and com: "kc_commit L kc (or_value c) (or_key_id c) \<noteq> None"
  shows "\<exists>d ps'. restore_missing_output L now m c ps None w = Ret (Inr (ps', None), w\<lparr>lm_db := d\<rparr>) \<and>
    restored_in L kc c (db_get d (chain_key L c)) \<and> max_children L c ps ps' \<and>
    (\<forall>k. take 1 k \<notin> {[TX_LOG_ENTRY_PREFIX], [TX_LOG_ID_PREFIX]} \<longrightarrow> k \<noteq> chain_key L c \<longrightarrow> db_get d k = db_get (lm_db w) k)"
proof -
  obtain commit where commit: "kc_commit L kc (or_value c) (or_key_id c) = Some commit" using com by blast
  obtain i d1 where log: "next_tx_log_id L (acct_of L c) (lm_db w) = Inr (i, d1)" "frames {TX_LOG_ID_PREFIX} (lm_db w) d1"
    using next_tx_log_id_ok [OF ok L] by blast
  let ?p = "acct_of L c"
  let ?ps0 = "if map_of ps ?p = None then AList.update ?p 0 ps else ps"
  let ?ps' = "if or_n_child c \<ge> the (map_of ?ps0 ?p) then AList.update ?p (or_n_child c) ?ps0 else ?ps0"
  let ?out = "restored_output ?p (Some (hex_text commit)) i c"
  let ?d = "batch_save L ?out (save_tx_log_entry L (restored_entry now ?p c i) ?p d1)"
  obtain mx where mx: "map_of ?ps0 ?p = Some mx" by (cases "map_of ps ?p") (auto simp: update_conv)
  have "restore_missing_output L now m c ps None w = Ret (Inr (?ps', None), w\<lparr>lm_db := ?d\<rparr>)"
    unfolding restore_missing_output_def Let_def restore_log_def
    using kc commit log(1) mx
    by (simp add: try_r_def calc_commit_for_cache_def commit_batch_def ok_or_def cong: if_cong)
  moreover have "max_children L c ps ?ps'"
    unfolding max_children_def by (auto simp: update_conv max_def distinct_update split: option.splits)
  moreover have "home_key L ?out = chain_key L c" by (simp add: restored_output_def)
  moreover have "db_get (save_tx_log_entry L (restored_entry now ?p c i) ?p d1) k = db_get (lm_db w) k"
    if "take 1 k \<notin> {[TX_LOG_ENTRY_PREFIX], [TX_LOG_ID_PREFIX]}" for k
    using that log(2) by (auto simp: save_tx_log_entry_def db.get_put frames_def take_1_key [OF L] simp del: One_nat_def)
  ultimately show ?thesis
    using commit by (intro exI [of _ ?d] exI [of _ ?ps']) (auto simp: restored_in_def restored_output_def batch_save_def db.get_put simp del: One_nat_def)
qed

lemma max_children_mono:
  "max_children L c ps ps' \<Longrightarrow> map_of ps q = Some i \<Longrightarrow> \<exists>j \<ge> i. map_of ps' q = Some j"
  "max_children L c ps ps' \<Longrightarrow> \<exists>j \<ge> or_n_child c. map_of ps' (acct_of L c) = Some j"
  by (auto simp: max_children_def split: option.splits)

lemma max_children_bound:
  "max_children L c ps ps' \<Longrightarrow> or_n_child c \<noteq> - 1 \<Longrightarrow> map_of ps q \<noteq> Some (- 1) \<Longrightarrow> map_of ps' q \<noteq> Some (- 1)"
  by (auto simp: max_children_def max_def split: option.splits if_splits)

lemma restore_outputs_ok:
  assumes "keychain L w m = Inr kc" "store_key_laws L" "wallet_ok L (lm_db w)"
    "\<forall>c \<in> set cs. kc_commit L kc (or_value c) (or_key_id c) \<noteq> None" "distinct (map (chain_key L) cs)"
  shows "\<exists>d ps'. restore_outputs L now m cs ps w = Ret (Inr ps', w\<lparr>lm_db := d\<rparr>) \<and> wallet_ok L d \<and>
    (\<forall>c \<in> set cs. restored_in L kc c (db_get d (chain_key L c)) \<and> (\<exists>j \<ge> or_n_child c. map_of ps' (acct_of L c) = Some j)) \<and>
    (\<forall>q i. map_of ps q = Some i \<longrightarrow> (\<exists>j \<ge> i. map_of ps' q = Some j)) \<and> (distinct (map fst ps) \<longrightarrow> distinct (map fst ps')) \<and>
    ((\<forall>c \<in> set cs. or_n_child c \<noteq> - 1) \<longrightarrow> (\<forall>q. map_of ps q \<noteq> Some (- 1)) \<longrightarrow> (\<forall>q. map_of ps' q \<noteq> Some (- 1))) \<and>
    (\<forall>k. take 1 k \<notin> {[TX_LOG_ENTRY_PREFIX], [TX_LOG_ID_PREFIX]} \<longrightarrow> k \<notin> chain_key L ` set cs \<longrightarrow> db_get d k = db_get (lm_db w) k)"
  using assms(1,3-5)
proof (induction cs arbitrary: w ps)
  case Nil
  then show ?case by (auto intro!: exI [of _ "lm_db w"])
next
  case (Cons c cs)
  obtain d1 ps1 where r1: "restore_missing_output L now m c ps None w = Ret (Inr (ps1, None), w\<lparr>lm_db := d1\<rparr>)"
    "restored_in L kc c (db_get d1 (chain_key L c))" and mx: "max_children L c ps ps1" and
    f1: "\<forall>k. take 1 k \<notin> {[TX_LOG_ENTRY_PREFIX], [TX_LOG_ID_PREFIX]} \<longrightarrow> k \<noteq> chain_key L c \<longrightarrow> db_get d1 k = db_get (lm_db w) k"
    using restore_missing_output_ok [OF Cons.prems(1) assms(2) Cons.prems(2), of c] Cons.prems(3) by fastforce
  have ok1: "wallet_ok L d1" using keeps_Ret_ok [OF keeps_restore_missing_output [OF assms(2) Cons.prems(2)] r1(1)] by simp
  obtain d ps' where r: "restore_outputs L now m cs ps1 (w\<lparr>lm_db := d1\<rparr>) = Ret (Inr ps', w\<lparr>lm_db := d\<rparr>)" and
    ok: "wallet_ok L d" and
    res: "\<forall>c \<in> set cs. restored_in L kc c (db_get d (chain_key L c)) \<and> (\<exists>j \<ge> or_n_child c. map_of ps' (acct_of L c) = Some j)" and
    mono: "\<forall>q i. map_of ps1 q = Some i \<longrightarrow> (\<exists>j \<ge> i. map_of ps' q = Some j)" and
    dist: "distinct (map fst ps1) \<longrightarrow> distinct (map fst ps')" and
    bnd: "(\<forall>c \<in> set cs. or_n_child c \<noteq> - 1) \<longrightarrow> (\<forall>q. map_of ps1 q \<noteq> Some (- 1)) \<longrightarrow> (\<forall>q. map_of ps' q \<noteq> Some (- 1))" and
    f2: "\<forall>k. take 1 k \<notin> {[TX_LOG_ENTRY_PREFIX], [TX_LOG_ID_PREFIX]} \<longrightarrow> k \<notin> chain_key L ` set cs \<longrightarrow> db_get d k = db_get d1 k"
    using Cons.IH [of "w\<lparr>lm_db := d1\<rparr>" ps1] Cons.prems ok1 by auto
  have pre: "take 1 (chain_key L c) \<notin> {[TX_LOG_ENTRY_PREFIX], [TX_LOG_ID_PREFIX]}"
    using output_key_prefix [OF assms(2)] by (simp add: prefix_defs del: One_nat_def)
  have "chain_key L c \<notin> chain_key L ` set cs" using Cons.prems(4) by auto
  with f2 pre r1(2) have "restored_in L kc c (db_get d (chain_key L c))" by simp
  moreover have "\<exists>j \<ge> or_n_child c. map_of ps' (acct_of L c) = Some j"
    using max_children_mono(2) [OF mx] mono by (meson order_trans)
  moreover have "\<exists>j \<ge> i. map_of ps' q = Some j" if "map_of ps q = Some i" for q i
    using max_children_mono(1) [OF mx that] mono by (meson order_trans)
  moreover have "distinct (map fst ps) \<longrightarrow> distinct (map fst ps')" using mx dist by (simp add: max_children_def)
  moreover have "restore_outputs L now m (c # cs) ps w = Ret (Inr ps', w\<lparr>lm_db := d\<rparr>)" using r1(1) r by (simp add: try_w_def)
  moreover have "(\<forall>x \<in> set (c # cs). or_n_child x \<noteq> - 1) \<longrightarrow> (\<forall>q. map_of ps q \<noteq> Some (- 1)) \<longrightarrow> (\<forall>q. map_of ps' q \<noteq> Some (- 1))"
    using max_children_bound [OF mx] bnd by auto
  ultimately show ?case using ok res f1 f2
    by (intro exI [of _ d] exI [of _ ps']) (simp del: One_nat_def)
qed

text \<open>The next child of an account that was found is above every child of it that was restored.\<close>

lemma index_above: "(i :: u32) \<noteq> - 1 \<Longrightarrow> i < i + 1"
proof -
  assume "i \<noteq> - 1"
  then have "i < - 1" using word_order.extremum [of i] by (simp add: less_le)
  from word_succ [OF this] show "i < i + 1" by (simp add: word_less_nat_alt)
qed

lemma account_step:
  assumes "keychain L w m = Inr kc" "store_key_laws L" "wallet_ok L (lm_db w)"
  shows "\<exists>d. restore_accounts L m accts n ((p, mx) # ps) w =
      restore_accounts L m accts (if p \<notin> set accts then n + 1 else n) ps (w\<lparr>lm_db := d\<rparr>) \<and>
    wallet_ok L d \<and> frames {ACCOUNT_PATH_MAPPING_PREFIX, DERIV_PREFIX} (lm_db w) d \<and>
    (\<forall>q. q \<noteq> p \<longrightarrow> db_get d (to_key L DERIV_PREFIX q) = db_get (lm_db w) (to_key L DERIV_PREFIX q)) \<and>
    (mx \<noteq> - 1 \<longrightarrow> (\<exists>i > mx. index_or_zero (get_ser as_index d (to_key L DERIV_PREFIX p)) = Inr i))"
proof -
  define d0 where "d0 = (if p \<in> set accts then lm_db w
    else save_acct_path L \<lparr>acct_label = ''account_'' @ show_nat n, acct_path = p\<rparr> (lm_db w))"
  have ok: "wallet_ok L d0" using assms(2,3) by (simp add: d0_def wallet_okI)
  have f0: "frames {ACCOUNT_PATH_MAPPING_PREFIX} (lm_db w) d0"
    by (auto simp: d0_def frames_def save_acct_path_def db.get_put take_1_key [OF assms(2)] simp del: One_nat_def)
  obtain cur where cur: "index_or_zero (get_ser as_index d0 (to_key L DERIV_PREFIX p)) = Inr cur"
    using index_typed [OF ok assms(2)] by blast
  define d where "d = (if mx \<ge> cur then save_child_index L p (mx + 1) d0 else d0)"
  have "restore_accounts L m accts n ((p, mx) # ps) w =
      restore_accounts L m accts (if p \<notin> set accts then n + 1 else n) ps (w\<lparr>lm_db := d\<rparr>)"
    using assms(1) cur
    by (simp add: try_w_def try_r_def set_acct_path_def commit_batch_def current_child_index_def d_def d0_def split del: if_split cong: if_cong)
      (auto simp: commit_batch_def)
  moreover have "wallet_ok L d" using ok assms(2) by (simp add: d_def wallet_okI)
  moreover have "frames {ACCOUNT_PATH_MAPPING_PREFIX, DERIV_PREFIX} (lm_db w) d"
    using f0 by (auto simp: d_def frames_def save_child_index_def db.get_put take_1_key [OF assms(2)] simp del: One_nat_def)
  moreover have "db_get d (to_key L DERIV_PREFIX q) = db_get (lm_db w) (to_key L DERIV_PREFIX q)" if "q \<noteq> p" for q
    using f0 that store_key_lawsD(3) [OF assms(2), of DERIV_PREFIX q p]
    by (auto simp: d_def frames_def save_child_index_def db.get_put take_1_key [OF assms(2)] prefix_defs simp del: One_nat_def)
  moreover have "\<exists>i > mx. index_or_zero (get_ser as_index d (to_key L DERIV_PREFIX p)) = Inr i" if "mx \<noteq> - 1"
    using cur index_above [OF that]
    by (auto simp: d_def save_child_index_def index_or_zero_def get_ser_def db.get_put)
  ultimately show ?thesis by blast
qed

lemma restore_accounts_ok:
  assumes "keychain L w m = Inr kc" "store_key_laws L" "wallet_ok L (lm_db w)" "distinct (map fst ps)"
  shows "\<exists>d. restore_accounts L m accts n ps w = Ret (Inr (), w\<lparr>lm_db := d\<rparr>) \<and>
    frames {ACCOUNT_PATH_MAPPING_PREFIX, DERIV_PREFIX} (lm_db w) d \<and>
    (\<forall>q. q \<notin> fst ` set ps \<longrightarrow> db_get d (to_key L DERIV_PREFIX q) = db_get (lm_db w) (to_key L DERIV_PREFIX q)) \<and>
    (\<forall>(p, mx) \<in> set ps. mx \<noteq> - 1 \<longrightarrow> (\<exists>i > mx. index_or_zero (get_ser as_index d (to_key L DERIV_PREFIX p)) = Inr i))"
  using assms(1,3,4)
proof (induction ps arbitrary: w n)
  case Nil
  then show ?case by (auto intro!: exI [of _ "lm_db w"])
next
  case (Cons pm ps)
  obtain p mx where pm: "pm = (p, mx)" by fastforce
  obtain d1 where r1: "restore_accounts L m accts n (pm # ps) w =
      restore_accounts L m accts (if p \<notin> set accts then n + 1 else n) ps (w\<lparr>lm_db := d1\<rparr>)" and
    ok1: "wallet_ok L d1" and f1: "frames {ACCOUNT_PATH_MAPPING_PREFIX, DERIV_PREFIX} (lm_db w) d1" and
    o1: "\<forall>q. q \<noteq> p \<longrightarrow> db_get d1 (to_key L DERIV_PREFIX q) = db_get (lm_db w) (to_key L DERIV_PREFIX q)" and
    c1: "mx \<noteq> - 1 \<longrightarrow> (\<exists>i > mx. index_or_zero (get_ser as_index d1 (to_key L DERIV_PREFIX p)) = Inr i)"
    unfolding pm using account_step [OF Cons.prems(1) assms(2) Cons.prems(2)] by metis
  obtain d where r: "restore_accounts L m accts (if p \<notin> set accts then n + 1 else n) ps (w\<lparr>lm_db := d1\<rparr>) = Ret (Inr (), w\<lparr>lm_db := d\<rparr>)" and
    f: "frames {ACCOUNT_PATH_MAPPING_PREFIX, DERIV_PREFIX} d1 d" and
    o: "\<forall>q. q \<notin> fst ` set ps \<longrightarrow> db_get d (to_key L DERIV_PREFIX q) = db_get d1 (to_key L DERIV_PREFIX q)" and
    c: "\<forall>(p, mx) \<in> set ps. mx \<noteq> - 1 \<longrightarrow> (\<exists>i > mx. index_or_zero (get_ser as_index d (to_key L DERIV_PREFIX p)) = Inr i)"
    using Cons.IH [of "w\<lparr>lm_db := d1\<rparr>" "if p \<notin> set accts then n + 1 else n"] Cons.prems ok1 by auto
  have p: "p \<notin> fst ` set ps" using Cons.prems(3) by (simp add: pm)
  then have "db_get d (to_key L DERIV_PREFIX p) = db_get d1 (to_key L DERIV_PREFIX p)" using o by blast
  then have "mx \<noteq> - 1 \<longrightarrow> (\<exists>i > mx. index_or_zero (get_ser as_index d (to_key L DERIV_PREFIX p)) = Inr i)"
    using c1 by (simp add: get_ser_def)
  with r1 r f1 f o o1 c show ?case by (intro exI [of _ d]) (auto simp: pm dest: frames_trans)
qed

section \<open>The scan\<close>

lemma retrieve_all_outputs:
  assumes "retrieve_outputs L m True None None w = Ret (Inr wos)"
  shows "set (map ocm_output wos) = set (od_iter (lm_db w))"
proof -
  have same: "map ocm_output ys = xs"
    if "list_all2 (\<lambda>x y. pbind (output_commitment L kc x) (\<lambda>c. Ret \<lparr>ocm_output = x, ocm_commit = c\<rparr>) = Ret y) xs ys"
    for kc xs ys using that by (induction rule: list_all2_induct) (auto simp: pbind_eq_Ret)
  from assms obtain kc where
    "map_proc (\<lambda>out. pbind (output_commitment L kc out) (\<lambda>c. Ret \<lparr>ocm_output = out, ocm_commit = c\<rparr>))
       (sort_key od_n_child (od_iter (lm_db w))) = Ret wos"
    by (auto simp: retrieve_outputs_def Let_def pbind_eq_Ret split: sum.splits)
  then have "map ocm_output wos = sort_key od_n_child (od_iter (lm_db w))" by (intro same) (simp add: map_proc_eq_Ret)
  then show ?thesis by (simp del: set_map)
qed

lemma matched_out_mem: "matched_out wos c = Some out \<Longrightarrow> out \<in> set (map ocm_output wos)"
  by (auto simp: matched_out_def find_Some_iff)

lemma outs_with_status_iff:
  "out \<in> set (outs_with_status st wos cs) \<longleftrightarrow> od_status out = st \<and> Some out \<in> matched_out wos ` set cs"
  by (auto simp: outs_with_status_def List.map_filter_def image_iff) (metis option.sel option.distinct(1))+

text \<open>The three repairs one after the other: what is in the database at the keys of outputs, and the
  next child of the accounts.\<close>

lemma repairs_ok:
  assumes kc: "keychain L w m = Inr kc" and L: "store_key_laws L" and ok: "wallet_ok L (lm_db w)"
    and com: "\<forall>c \<in> set missing. kc_commit L kc (or_value c) (or_key_id c) \<noteq> None \<and> or_n_child c \<noteq> - 1"
    and dist: "distinct (map (chain_key L) missing)"
    and order: "\<forall>ps. mset (order ps) = mset ps"
  shows "\<exists>d1 d2 d fp.
    for_wallet (unspend_output L m) spent w = Ret (Inr (), w\<lparr>lm_db := d1\<rparr>) \<and>
    restore_outputs L now m missing [] (w\<lparr>lm_db := d1\<rparr>) = Ret (Inr fp, w\<lparr>lm_db := d2\<rparr>) \<and>
    restore_accounts L m (accts d2) (n d2) (order fp) (w\<lparr>lm_db := d2\<rparr>) = Ret (Inr (), w\<lparr>lm_db := d\<rparr>) \<and>
    (\<forall>c \<in> set missing. restored_in L kc c (db_get d (chain_key L c)) \<and>
       (\<exists>i > or_n_child c. current_child_index L (w\<lparr>lm_db := d\<rparr>) (acct_of L c) = Inr i)) \<and>
    (\<forall>k. take 1 k = [OUTPUT_PREFIX] \<longrightarrow> k \<notin> chain_key L ` set missing \<longrightarrow>
       (\<exists>out \<in> set spent. k = home_key L out \<and> db_get d k = Some (VOutput (out\<lparr>od_status := Unspent\<rparr>))) \<or>
       k \<notin> home_key L ` set spent \<and> db_get d k = db_get (lm_db w) k)"
proof -
  obtain d1 where r1: "for_wallet (unspend_output L m) spent w = Ret (Inr (), w\<lparr>lm_db := d1\<rparr>)" and
    k1: "\<forall>k. take 1 k \<noteq> [TX_LOG_ENTRY_PREFIX] \<longrightarrow>
       (\<exists>out \<in> set spent. k = home_key L out \<and> db_get d1 k = Some (VOutput (out\<lparr>od_status := Unspent\<rparr>))) \<or>
       k \<notin> home_key L ` set spent \<and> db_get d1 k = db_get (lm_db w) k"
    using unspend_outputs_ok [OF kc L, of spent] by blast
  have "keeps_ok L (for_wallet (unspend_output L m) spent w)"
    by (rule keeps_for_wallet [OF ok]) (simp add: keeps_unspend_output L)
  from keeps_Ret_ok [OF this r1] have ok1: "wallet_ok L d1" by simp
  obtain d2 fp where r2: "restore_outputs L now m missing [] (w\<lparr>lm_db := d1\<rparr>) = Ret (Inr fp, w\<lparr>lm_db := d2\<rparr>)" and
    ok2: "wallet_ok L d2" and
    res: "\<forall>c \<in> set missing. restored_in L kc c (db_get d2 (chain_key L c)) \<and> (\<exists>j \<ge> or_n_child c. map_of fp (acct_of L c) = Some j)" and
    fp: "distinct (map fst fp)" "\<forall>q. map_of fp q \<noteq> Some (- 1)" and
    k2: "\<forall>k. take 1 k \<notin> {[TX_LOG_ENTRY_PREFIX], [TX_LOG_ID_PREFIX]} \<longrightarrow> k \<notin> chain_key L ` set missing \<longrightarrow> db_get d2 k = db_get d1 k"
    using restore_outputs_ok [of L "w\<lparr>lm_db := d1\<rparr>" m kc missing now "[]"] kc L ok1 com dist by auto
  have ord: "set (order fp) = set fp" "distinct (map fst (order fp))"
    using order fp(1) by (metis mset_eq_setD, metis mset_map mset_eq_imp_distinct_iff)
  obtain d where r3: "restore_accounts L m (accts d2) (n d2) (order fp) (w\<lparr>lm_db := d2\<rparr>) = Ret (Inr (), w\<lparr>lm_db := d\<rparr>)" and
    f3: "frames {ACCOUNT_PATH_MAPPING_PREFIX, DERIV_PREFIX} d2 d" and
    c3: "\<forall>(p, mx) \<in> set fp. mx \<noteq> - 1 \<longrightarrow> (\<exists>i > mx. index_or_zero (get_ser as_index d (to_key L DERIV_PREFIX p)) = Inr i)"
    using restore_accounts_ok [of L "w\<lparr>lm_db := d2\<rparr>" m kc "order fp" "accts d2" "n d2"] kc L ok2 ord by auto
  have out: "db_get d k = db_get d2 k" if "take 1 k = [OUTPUT_PREFIX]" for k
    using f3 that by (simp add: frames_def prefix_defs del: One_nat_def)
  have child: "\<exists>i > or_n_child c. current_child_index L (w\<lparr>lm_db := d\<rparr>) (acct_of L c) = Inr i" if c: "c \<in> set missing" for c
  proof -
    obtain j where j: "or_n_child c \<le> j" "map_of fp (acct_of L c) = Some j" using res c by blast
    then have "j \<noteq> - 1" "(acct_of L c, j) \<in> set fp" using fp(2) by (auto dest: map_of_SomeD)
    with c3 obtain i where "j < i" "index_or_zero (get_ser as_index d (to_key L DERIV_PREFIX (acct_of L c))) = Inr i" by blast
    with j(1) show ?thesis by (auto simp: current_child_index_def intro: le_less_trans)
  qed
  have "(\<exists>out \<in> set spent. k = home_key L out \<and> db_get d k = Some (VOutput (out\<lparr>od_status := Unspent\<rparr>))) \<or>
       k \<notin> home_key L ` set spent \<and> db_get d k = db_get (lm_db w) k"
    if k: "take 1 k = [OUTPUT_PREFIX]" "k \<notin> chain_key L ` set missing" for k
  proof -
    have "db_get d k = db_get d1 k" using out [OF k(1)] k2 k by (simp add: prefix_defs del: One_nat_def)
    moreover have "take 1 k \<noteq> [TX_LOG_ENTRY_PREFIX]" using k(1) by (simp add: prefix_defs del: One_nat_def)
    ultimately show ?thesis using k1 by simp
  qed
  moreover have "restored_in L kc c (db_get d (chain_key L c))" if "c \<in> set missing" for c
    using res that out [OF output_key_prefix [OF L]] by simp
  ultimately show ?thesis using r1 r2 r3 child by blast
qed

lemma scan_is_repairs:
  assumes "keychain L w m = Inr kc" "height_range_to_pmmr_indices nc from (Some to) = Inr (s, e)"
    "collect_chain_outputs fuel L kc nc s (Some e) = Ret (Inr (chain, h))"
    "retrieve_outputs L m True None None w = Ret (Inr wos)"
    "for_wallet (unspend_output L m) (outs_with_status Spent wos chain) w = Ret (Inr (), w\<lparr>lm_db := d1\<rparr>)"
    "restore_outputs L now m (missing_outs wos chain) [] (w\<lparr>lm_db := d1\<rparr>) = Ret (Inr fp, w\<lparr>lm_db := d2\<rparr>)"
    "restore_accounts L m (map acct_path (acct_path_iter d2)) (length (acct_path_iter d2)) (order fp) (w\<lparr>lm_db := d2\<rparr>)
       = Ret (Inr (), w\<lparr>lm_db := d\<rparr>)"
  shows "scan fuel L now nc order m False from to w =
    Ret (Ok \<lparr>sb_height = to, sb_hash = [], sb_start_pmmr_index = s, sb_last_pmmr_index = h\<rparr>, w\<lparr>lm_db := d\<rparr>)"
  using assms by (simp add: scan_def try_r_def try_w_def Let_def)

lemma known_output_after:
  assumes L: "store_key_laws L" and ok: "wallet_ok L (lm_db w)"
    and wos: "retrieve_outputs L m True None None w = Ret (Inr wos)"
    and new: "\<forall>c \<in> set (missing_outs wos chain). chain_key L c \<notin> home_key L ` set (od_iter (lm_db w))"
    and keys: "\<forall>k. take 1 k = [OUTPUT_PREFIX] \<longrightarrow> k \<notin> chain_key L ` set (missing_outs wos chain) \<longrightarrow>
       (\<exists>out \<in> set (outs_with_status Spent wos chain). k = home_key L out \<and> db_get d k = Some (VOutput (out\<lparr>od_status := Unspent\<rparr>))) \<or>
       k \<notin> home_key L ` set (outs_with_status Spent wos chain) \<and> db_get d k = db_get (lm_db w) k"
    and out: "out \<in> set (od_iter (lm_db w))"
  shows "get_output L d (od_key_id out) (od_mmr_index out) =
      Inr (if out \<in> set (outs_with_status Spent wos chain) then out\<lparr>od_status := Unspent\<rparr> else out)"
proof -
  let ?spent = "outs_with_status Spent wos chain"
  note home = wallet_ok_scan(1) [OF ok]
  have "home_key L out \<notin> chain_key L ` set (missing_outs wos chain)"
    using new out by (metis (no_types, lifting) image_eqI imageE)
  with keys output_key_prefix [OF L] have
    "(\<exists>x \<in> set ?spent. home_key L out = home_key L x \<and> db_get d (home_key L out) = Some (VOutput (x\<lparr>od_status := Unspent\<rparr>))) \<or>
     home_key L out \<notin> home_key L ` set ?spent \<and> db_get d (home_key L out) = db_get (lm_db w) (home_key L out)" by blast
  then consider
    (un) x where "x \<in> set ?spent" "home_key L out = home_key L x" "db_get d (home_key L out) = Some (VOutput (x\<lparr>od_status := Unspent\<rparr>))"
  | (same) "out \<notin> set ?spent" "db_get d (home_key L out) = db_get (lm_db w) (home_key L out)"
    by blast
  then show ?thesis
  proof cases
    case (un x)
    then have "x \<in> set (od_iter (lm_db w))"
      using matched_out_mem retrieve_all_outputs [OF wos] by (fastforce simp: outs_with_status_iff)
    from home [OF this] home [OF out] un(2) have "x = out" by (metis db_value.inject(1) option.inject)
    with un show ?thesis by (simp add: get_output_iff)
  next
    case same
    with home [OF out] show ?thesis by (simp add: get_output_iff)
  qed
qed

text \<open>
  C18. A scan that deletes nothing brings the wallet in line with the chain, and succeeds. For every
  output of the chain that the wallet's keys open: one the wallet does not know is restored, as
  unspent, with the value, height and position the chain has, under its account, and the account's
  next child is above it, so its key is not derived a second time; one the wallet took for spent is
  unspent again; any other is as it was. Outputs the chain does not have stay as they are.
\<close>

theorem scan_restores:
  assumes L: "store_key_laws L" and ok: "wallet_ok L (lm_db w)" and kc: "keychain L w m = Inr kc"
    and range: "height_range_to_pmmr_indices nc from (Some to) = Inr (s, e)"
    and node: "serves nc outs (Some e) h" "s \<le> h" "unat h - unat s < fuel"
    and chain: "identify_utxo_outputs L kc (outputs_between s h outs) = Inr chain" "distinct (map (chain_key L) chain)"
      "\<forall>c \<in> set chain. kc_commit L kc (or_value c) (or_key_id c) \<noteq> None \<and> or_n_child c \<noteq> - 1"
    and wos: "retrieve_outputs L m True None None w = Ret (Inr wos)"
    and new: "\<forall>c \<in> set (missing_outs wos chain). chain_key L c \<notin> home_key L ` set (od_iter (lm_db w))"
    and order: "\<forall>ps. mset (order ps) = mset ps"
  shows "\<exists>w'. scan fuel L now nc order m False from to w =
      Ret (Ok \<lparr>sb_height = to, sb_hash = [], sb_start_pmmr_index = s, sb_last_pmmr_index = h\<rparr>, w') \<and> store_ok L (lm_db w') \<and>
    (\<forall>c \<in> set chain.
       case matched_out wos c of
         None \<Rightarrow> restored_in L kc c (db_get (lm_db w') (chain_key L c)) \<and>
                 (\<exists>i > or_n_child c. current_child_index L w' (acct_of L c) = Inr i)
       | Some out \<Rightarrow> get_output L (lm_db w') (od_key_id out) (od_mmr_index out) =
                      Inr (if od_status out = Spent then out\<lparr>od_status := Unspent\<rparr> else out)) \<and>
    (\<forall>out \<in> set (od_iter (lm_db w)). Some out \<notin> matched_out wos ` set chain \<longrightarrow>
       get_output L (lm_db w') (od_key_id out) (od_mmr_index out) = Inr out)"
proof -
  let ?spent = "outs_with_status Spent wos chain" and ?missing = "missing_outs wos chain"
  have coll: "collect_chain_outputs fuel L kc nc s (Some e) = Ret (Inr (chain, h))"
    unfolding collect_chain_outputs_def collect_loop_pages [OF node] using chain(1) by simp
  have mis: "set ?missing = {c \<in> set chain. matched_out wos c = None}" by (auto simp: missing_outs_def)
  have dist: "distinct (map (chain_key L) ?missing)" using chain(2) by (simp add: missing_outs_def distinct_map_filter)
  have com: "\<forall>c \<in> set ?missing. kc_commit L kc (or_value c) (or_key_id c) \<noteq> None \<and> or_n_child c \<noteq> - 1"
    using chain(3) mis by blast
  obtain d1 d2 d fp where
    r: "for_wallet (unspend_output L m) ?spent w = Ret (Inr (), w\<lparr>lm_db := d1\<rparr>)"
      "restore_outputs L now m ?missing [] (w\<lparr>lm_db := d1\<rparr>) = Ret (Inr fp, w\<lparr>lm_db := d2\<rparr>)"
      "restore_accounts L m (map acct_path (acct_path_iter d2)) (length (acct_path_iter d2)) (order fp) (w\<lparr>lm_db := d2\<rparr>)
         = Ret (Inr (), w\<lparr>lm_db := d\<rparr>)" and
    res: "\<forall>c \<in> set ?missing. restored_in L kc c (db_get d (chain_key L c)) \<and>
       (\<exists>i > or_n_child c. current_child_index L (w\<lparr>lm_db := d\<rparr>) (acct_of L c) = Inr i)" and
    keys: "\<forall>k. take 1 k = [OUTPUT_PREFIX] \<longrightarrow> k \<notin> chain_key L ` set ?missing \<longrightarrow>
       (\<exists>out \<in> set ?spent. k = home_key L out \<and> db_get d k = Some (VOutput (out\<lparr>od_status := Unspent\<rparr>))) \<or>
       k \<notin> home_key L ` set ?spent \<and> db_get d k = db_get (lm_db w) k"
    using repairs_ok [OF kc L ok com dist order, of ?spent now "\<lambda>d. map acct_path (acct_path_iter d)" "\<lambda>d. length (acct_path_iter d)"]
    by blast
  note run = scan_is_repairs [where order = order, OF kc range coll wos r]
  have ok': "store_ok L d"
    using keeps_Ret_ok [OF keeps_scan [OF L ok] run] by (simp add: wallet_ok_store_ok)
  note known = known_output_after [OF L ok wos new keys]
  have mem: "out \<in> set (od_iter (lm_db w))" if "matched_out wos c = Some out" for c out
    using matched_out_mem [OF that] retrieve_all_outputs [OF wos] by simp
  have spent: "out \<in> set ?spent \<longleftrightarrow> od_status out = Spent" if "matched_out wos c = Some out" "c \<in> set chain" for c out
    using that unfolding outs_with_status_iff by force
  show ?thesis
  proof (intro exI [of _ "w\<lparr>lm_db := d\<rparr>"] conjI ballI impI)
    fix c assume "c \<in> set chain"
    then show "case matched_out wos c of
         None \<Rightarrow> restored_in L kc c (db_get (lm_db (w\<lparr>lm_db := d\<rparr>)) (chain_key L c)) \<and>
                 (\<exists>i > or_n_child c. current_child_index L (w\<lparr>lm_db := d\<rparr>) (acct_of L c) = Inr i)
       | Some out \<Rightarrow> get_output L (lm_db (w\<lparr>lm_db := d\<rparr>)) (od_key_id out) (od_mmr_index out) =
                      Inr (if od_status out = Spent then out\<lparr>od_status := Unspent\<rparr> else out)"
      using res mis known mem spent by (auto split: option.splits)
  next
    fix out assume "out \<in> set (od_iter (lm_db w))" "Some out \<notin> matched_out wos ` set chain"
    then show "get_output L (lm_db (w\<lparr>lm_db := d\<rparr>)) (od_key_id out) (od_mmr_index out) = Inr out"
      using known by (simp add: outs_with_status_iff)
  qed (use run ok' in simp_all)
qed

end
