(* ===== verification/Scan_Run.thy ===== *)
theory Scan_Run
  imports Api_Instance Scan_Restore
begin

text \<open>
  The scan at a concrete chain: three outputs in pages of two positions, one of them of somebody
  else, one that the wallet holds as spent and one that it does not know.
\<close>

definition scan_key :: "u32 \<Rightarrow> Identifier" where
  "scan_key i = small_from_path \<lparr>path_depth = 3, path_path = [0, 0, i, 0]\<rparr>"

definition scan_chain :: "chain_output list" where
  "scan_chain = [(be_bytes 8 30 @ scan_key 3, [9], False, 12, 2), ([1], [8], False, 13, 3), (be_bytes 8 25 @ scan_key 5, [9], False, 14, 4)]"

definition scan_node :: NodeClient where
  "scan_node = small_node\<lparr>get_outputs_by_pmmr_index := (\<lambda>s e n.
     let last = (if s < 4 then s + 1 else 4) in Ok (4, last, outputs_between s last scan_chain))\<rparr>"

lemma scan_node_serves: "serves scan_node scan_chain (Some 4) 4"
proof -
  have "s \<le> s + 1" "s + 1 \<le> 4" if "s < 4" for s :: u64
    by (simp add: word_le_nat_alt word_succ [OF that], simp only: word_succ_le [OF that] that)
  then show ?thesis by (auto simp: serves_def scan_node_def scan_chain_def Let_def)
qed

theorem scan_reads_chain_witness:
  "\<exists>found. collect_chain_outputs 4 small_api [7] scan_node 1 (Some 4) = Ret (Inr (found, 4)) \<and> map or_value found = [30, 25]"
proof -
  have "(case identify_utxo_outputs small_api [7] (outputs_between 1 4 scan_chain) of Inr f \<Rightarrow> map or_value f = [30, 25] | _ \<Rightarrow> False)"
    by code_simp
  then obtain f where "identify_utxo_outputs small_api [7] (outputs_between 1 4 scan_chain) = Inr f" "map or_value f = [30, 25]"
    by (auto split: sum.splits)
  with scan_reads_chain [OF scan_node_serves, of 1 4 small_api "[7]"] show ?thesis by simp
qed

definition scan_coin :: OutputData where
  "scan_coin = (small_coin 1 30)\<lparr>od_key_id := scan_key 3, od_status := Spent\<rparr>"

definition scan_wallet :: LMDBBackend where
  "scan_wallet = opened_wallet\<lparr>lm_db := batch_save small_api scan_coin (lm_db opened_wallet)\<rparr>"

lemma opened_reachable: "reachable small_api opened_wallet"
  using reachable.created [of small_api Map.empty] opened_run reachable.opened unfolding fresh_wallet_def by metis

lemma scan_wallet_ok: "wallet_ok small_api (lm_db scan_wallet)"
  using reachable_ok [OF opened_reachable] by (simp add: scan_wallet_def wallet_okI)

lemma scan_found:
  "\<exists>a b. identify_utxo_outputs small_api [7] (outputs_between 1 4 scan_chain) = Inr [a, b] \<and>
     or_commit a = be_bytes 8 30 @ scan_key 3 \<and> or_commit b = be_bytes 8 25 @ scan_key 5 \<and>
     or_key_id a = scan_key 3 \<and> or_key_id b = scan_key 5 \<and> or_mmr_index a = 2 \<and> or_mmr_index b = 4 \<and>
     or_value b = 25 \<and> or_n_child a = 3 \<and> or_n_child b = 5"
proof -
  have "(case identify_utxo_outputs small_api [7] (outputs_between 1 4 scan_chain) of
     Inr [a, b] \<Rightarrow> or_commit a = be_bytes 8 30 @ scan_key 3 \<and> or_commit b = be_bytes 8 25 @ scan_key 5 \<and>
     or_key_id a = scan_key 3 \<and> or_key_id b = scan_key 5 \<and> or_mmr_index a = 2 \<and> or_mmr_index b = 4 \<and>
     or_value b = 25 \<and> or_n_child a = 3 \<and> or_n_child b = 5 | _ \<Rightarrow> False)" by code_simp
  then show ?thesis by (auto split: sum.splits list.splits)
qed

lemma scan_wallet_outputs: "retrieve_outputs small_api None True None None scan_wallet =
    Ret (Inr [\<lparr>ocm_output = scan_coin, ocm_commit = be_bytes 8 30 @ scan_key 3\<rparr>])"
proof -
  have "(case retrieve_outputs small_api None True None None scan_wallet of
    Ret (Inr os) \<Rightarrow> os = [\<lparr>ocm_output = scan_coin, ocm_commit = be_bytes 8 30 @ scan_key 3\<rparr>] | _ \<Rightarrow> False)" by code_simp
  then show ?thesis by (auto split: proc.splits sum.splits)
qed

lemma scan_wallet_iter: "od_iter (lm_db scan_wallet) = [scan_coin]"
  by code_simp

theorem scan_restores_witness:
  "\<exists>info w'. scan 4 small_api 100 scan_node (\<lambda>x. x) None False 0 20 scan_wallet = Ret (Ok info, w') \<and>
     get_output small_api (lm_db w') (scan_key 3) None = Inr (scan_coin\<lparr>od_status := Unspent\<rparr>) \<and>
     (\<exists>out. get_output small_api (lm_db w') (scan_key 5) (Some 4) = Inr out \<and> od_value out = 25 \<and> od_status out = Unspent)"
proof -
  obtain a b where f: "identify_utxo_outputs small_api [7] (outputs_between 1 4 scan_chain) = Inr [a, b]"
    and ab: "or_commit a = be_bytes 8 30 @ scan_key 3" "or_commit b = be_bytes 8 25 @ scan_key 5"
     "or_key_id a = scan_key 3" "or_key_id b = scan_key 5" "or_mmr_index a = 2" "or_mmr_index b = 4"
     "or_value b = 25" "or_n_child a = 3" "or_n_child b = 5" using scan_found by auto
  let ?wos = "[\<lparr>ocm_output = scan_coin, ocm_commit = be_bytes 8 30 @ scan_key 3\<rparr>]"
  have ne: "be_bytes 8 30 @ scan_key 3 \<noteq> be_bytes 8 25 @ scan_key 5" by code_simp
  have m: "matched_out ?wos a = Some scan_coin" "matched_out ?wos b = None"
    using ne by (simp_all add: matched_out_def ab)
  have kc: "keychain small_api scan_wallet None = Inr [7]" by code_simp
  have range: "height_range_to_pmmr_indices scan_node 0 (Some 20) = Inr (1, 4)" by (simp add: scan_node_def small_node_def)
  have keys: "output_key small_api (scan_key 3) (Some 2) \<noteq> output_key small_api (scan_key 5) (Some 4)"
    "output_key small_api (scan_key 5) (Some 4) \<noteq> output_key small_api (scan_key 3) None" by code_simp+
  have com: "kc_commit small_api [7] v i \<noteq> None" for v i by (simp add: small_api_def WalletLib.extend_def ScanLib.extend_def)
  have home: "home_key small_api scan_coin = output_key small_api (scan_key 3) None" "od_status scan_coin = Spent"
    "od_key_id scan_coin = scan_key 3" "od_mmr_index scan_coin = None" by (simp_all add: scan_coin_def small_coin_def)
  have "\<exists>w'. scan 4 small_api 100 scan_node (\<lambda>x. x) None False 0 20 scan_wallet =
      Ret (Ok \<lparr>sb_height = 20, sb_hash = [], sb_start_pmmr_index = 1, sb_last_pmmr_index = 4\<rparr>, w') \<and> store_ok small_api (lm_db w') \<and>
    (\<forall>c \<in> set [a, b].
       case matched_out ?wos c of
         None \<Rightarrow> restored_in small_api [7] c (db_get (lm_db w') (chain_key small_api c)) \<and>
                 (\<exists>i > or_n_child c. current_child_index small_api w' (acct_of small_api c) = Inr i)
       | Some out \<Rightarrow> get_output small_api (lm_db w') (od_key_id out) (od_mmr_index out) =
                      Inr (if od_status out = Spent then out\<lparr>od_status := Unspent\<rparr> else out)) \<and>
    (\<forall>out \<in> set (od_iter (lm_db scan_wallet)). Some out \<notin> matched_out ?wos ` set [a, b] \<longrightarrow>
       get_output small_api (lm_db w') (od_key_id out) (od_mmr_index out) = Inr out)"
    by (rule scan_restores [OF small_api_laws scan_wallet_ok kc range scan_node_serves _ _ f _ _ scan_wallet_outputs])
      (use keys com m home in \<open>simp_all add: ab missing_outs_def scan_wallet_iter\<close>)
  then obtain w' where r: "scan 4 small_api 100 scan_node (\<lambda>x. x) None False 0 20 scan_wallet =
      Ret (Ok \<lparr>sb_height = 20, sb_hash = [], sb_start_pmmr_index = 1, sb_last_pmmr_index = 4\<rparr>, w')"
    "get_output small_api (lm_db w') (scan_key 3) None = Inr (scan_coin\<lparr>od_status := Unspent\<rparr>)"
    "restored_in small_api [7] b (db_get (lm_db w') (output_key small_api (scan_key 5) (Some 4)))"
    using m home by (auto simp: ab)
  then show ?thesis by (auto simp: restored_in_def get_output_iff restored_output_def ab)
qed

end
