(* ===== verification/Wallet_Node.thy ===== *)
theory Wallet_Node
  imports Wallet_Scan
begin

text \<open>
  \<open>impls/src/node_clients/http.rs\<close> and \<open>impls/src/client_utils/json_rpc.rs\<close>: the wallet's client of a
  Grin node over HTTP, as the provider of the operations (\<open>NodeClient\<close>) that the wallet calls. The
  transport and the reading of JSON values at the types of the node's interface are parameters;
  building the requests, taking the responses apart, and cutting a query into chunks are the code's.
\<close>

section \<open>Requests and responses\<close>

datatype Json = JNull | JBool bool | JNum u64 | JStr string | JArr "Json list" | JObj "(string \<times> Json) list"

record NodeRequest =
  rq_method :: string
  rq_params :: Json
  rq_id :: Json
  rq_jsonrpc :: "string option"

record NodeRpcError =
  re_code :: int
  re_message :: string
  re_data :: "Json option"

record NodeResponse =
  rs_result :: "Json option"
  rs_error :: "NodeRpcError option"
  rs_id :: Json
  rs_jsonrpc :: "string option"

datatype NodeRpcFailure =
    JsonFailure string
  | HyperFailure string
  | RpcFailure NodeRpcError
  | NonceMismatch
  | VersionMismatch
  | EmptyBatch
  | WrongBatchResponseSize
  | BatchDuplicateResponseId Json
  | WrongBatchResponseId Json

definition build_request :: "string \<Rightarrow> Json \<Rightarrow> NodeRequest" where
  "build_request name params =
     \<lparr>rq_method = name, rq_params = params, rq_id = JNum 1, rq_jsonrpc = Some ''2.0''\<rparr>"

text \<open>Indexing a value by a name; null where it is no object or has no such field.\<close>

fun json_field :: "string \<Rightarrow> Json \<Rightarrow> Json" where
  "json_field name (JObj members) = (case map_of members name of Some v \<Rightarrow> v | None \<Rightarrow> JNull)"
| "json_field name _ = JNull"

text \<open>\<open>serde_json::from_value\<close> at the type that is asked for is an argument.\<close>

definition response_result :: "(Json \<Rightarrow> string + 'a) \<Rightarrow> NodeResponse \<Rightarrow> (NodeRpcFailure, 'a) result" where
  "response_result de r =
     (case rs_error r of
        Some e \<Rightarrow> Err (RpcFailure e)
      | None \<Rightarrow>
          (case de (case rs_result r of Some v \<Rightarrow> json_field ''Ok'' v | None \<Rightarrow> JNull) of
             Inl e \<Rightarrow> Err (JsonFailure e)
           | Inr x \<Rightarrow> Ok x))"

definition into_result :: "(Json \<Rightarrow> string + 'a) \<Rightarrow> NodeResponse \<Rightarrow> (NodeRpcFailure, 'a) result" where
  "into_result de r =
     (case rs_error r of Some e \<Rightarrow> Err (RpcFailure e) | None \<Rightarrow> response_result de r)"

section \<open>The node's interface\<close>

text \<open>Types of \<open>grin_api\<close>, with the fields the client reads.\<close>

record GetTipResp =
  tip_height :: u64
  last_block_pushed :: string
  prev_block_to_last :: string
  total_difficulty :: u64

record GetVersionResp =
  gv_node_version :: string
  gv_block_header_version :: u16

record NodeVersionInfo =
  nv_node_version :: string
  nv_block_header_version :: u16
  nv_verified :: "bool option"

record LocatedTxKernel =
  lk_tx_kernel :: TxKernel
  lk_height :: u64
  lk_mmr_index :: u64

datatype OutputType = CoinbaseOutput | TransactionOutput

record OutputPrintable =
  op_output_type :: OutputType
  op_commit :: Commitment
  op_spent :: bool
  op_range_proof :: "string + RangeProof"
  op_block_height :: "u64 option"
  op_mmr_index :: u64

record OutputListing =
  ol_highest_index :: u64
  ol_last_retrieved_index :: u64
  ol_outputs :: "OutputPrintable list"

text \<open>The transport (\<open>Client::post\<close>), reading at the types above, a transaction as JSON, and the
  texts of errors and responses that the code prints or searches.\<close>

record NodeLib =
  post :: "string \<Rightarrow> string option \<Rightarrow> NodeRequest \<Rightarrow> string + NodeResponse"
  de_value :: "Json \<Rightarrow> string + Json"
  de_tip :: "Json \<Rightarrow> string + GetTipResp"
  de_version :: "Json \<Rightarrow> string + GetVersionResp"
  de_kernel :: "Json \<Rightarrow> string + LocatedTxKernel"
  de_outputs :: "Json \<Rightarrow> string + OutputPrintable list"
  de_listing :: "Json \<Rightarrow> string + OutputListing"
  tx_json :: "Transaction \<Rightarrow> Json"
  show_failure :: "NodeRpcFailure \<Rightarrow> string"
  debug_response :: "NodeResponse \<Rightarrow> string"
  debug_commit :: "Commitment \<Rightarrow> string"
  debug_output :: "OutputPrintable \<Rightarrow> string"

section \<open>The client\<close>

record HTTPNodeClient =
  hc_node_url :: string
  hc_node_api_secret :: "string option"
  hc_node_version_info :: "NodeVersionInfo option"

definition ENDPOINT :: string where "ENDPOINT = ''/v2/foreign''"

definition http_client_new :: "string \<Rightarrow> string option \<Rightarrow> HTTPNodeClient" where
  "http_client_new node_url node_api_secret =
     \<lparr>hc_node_url = node_url, hc_node_api_secret = node_api_secret, hc_node_version_info = None\<rparr>"

definition set_node_url :: "string \<Rightarrow> HTTPNodeClient \<Rightarrow> HTTPNodeClient" where
  "set_node_url url c = c\<lparr>hc_node_url := url\<rparr>"

definition set_node_api_secret :: "string option \<Rightarrow> HTTPNodeClient \<Rightarrow> HTTPNodeClient" where
  "set_node_api_secret secret c = c\<lparr>hc_node_api_secret := secret\<rparr>"

definition node_post :: "('z NodeLib_scheme) \<Rightarrow> HTTPNodeClient \<Rightarrow> string \<Rightarrow> Json \<Rightarrow> string + NodeResponse" where
  "node_post N c meth params =
     post N (hc_node_url c @ ENDPOINT) (hc_node_api_secret c) (build_request meth params)"

definition send_json_request ::
  "('z NodeLib_scheme) \<Rightarrow> HTTPNodeClient \<Rightarrow> (Json \<Rightarrow> string + 'a) \<Rightarrow> string \<Rightarrow> Json \<Rightarrow> (WalletError, 'a) result" where
  "send_json_request N c de meth params =
     (case node_post N c meth params of
        Inl e \<Rightarrow> Err (NodeError (''Error calling '' @ meth @ '': '' @ e))
      | Inr inner \<Rightarrow>
          (case into_result de inner of
             Inr r \<Rightarrow> Ok r
           | Inl e \<Rightarrow> Err (NodeError (''Unable to parse response for '' @ meth @ '': '' @ show_failure N e))))"

definition contains :: "string \<Rightarrow> string \<Rightarrow> bool" where
  "contains pat s \<longleftrightarrow> (\<exists>i \<in> set [0..<Suc (length s)]. take (length pat) (drop i s) = pat)"

text \<open>How a callback error is shown (\<open>libwallet/src/error.rs\<close>); requests give no other error.\<close>

fun show_wallet_error :: "WalletError \<Rightarrow> string" where
  "show_wallet_error (NodeError s) = ''Client Callback Error: '' @ s"
| "show_wallet_error _ = []"

definition get_version_info :: "('z NodeLib_scheme) \<Rightarrow> HTTPNodeClient \<Rightarrow> NodeVersionInfo option \<times> HTTPNodeClient" where
  "get_version_info N c =
     (case hc_node_version_info c of
        Some v \<Rightarrow> (Some v, c)
      | None \<Rightarrow>
          (case send_json_request N c (de_version N) ''get_version'' JNull of
             Inr n \<Rightarrow>
               let v = \<lparr>nv_node_version = gv_node_version n, nv_block_header_version = gv_block_header_version n,
                        nv_verified = Some True\<rparr>
               in (Some v, c\<lparr>hc_node_version_info := Some v\<rparr>)
           | Inl e \<Rightarrow>
               if contains ''404'' (show_wallet_error e)
               then (Some \<lparr>nv_node_version = ''1.0.0'', nv_block_header_version = 1, nv_verified = Some False\<rparr>, c)
               else (None, c)))"

definition http_post_tx :: "('z NodeLib_scheme) \<Rightarrow> HTTPNodeClient \<Rightarrow> Transaction \<Rightarrow> bool \<Rightarrow> (WalletError, unit) result" where
  "http_post_tx N c tx fluff =
     rbind (send_json_request N c (de_value N) ''push_transaction'' (JArr [tx_json N tx, JBool fluff])) (\<lambda>_. Ok ())"

definition http_get_chain_tip :: "('z NodeLib_scheme) \<Rightarrow> HTTPNodeClient \<Rightarrow> (WalletError, u64 \<times> string) result" where
  "http_get_chain_tip N c =
     rbind (send_json_request N c (de_tip N) ''get_tip'' JNull) (\<lambda>result.
     Ok (tip_height result, last_block_pushed result))"

definition chain_height :: "('z NodeLib_scheme) \<Rightarrow> HTTPNodeClient \<Rightarrow> (WalletError, u64 \<times> string) result" where
  "chain_height N c = http_get_chain_tip N c"

definition json_opt :: "u64 option \<Rightarrow> Json" where
  "json_opt v = (case v of Some n \<Rightarrow> JNum n | None \<Rightarrow> JNull)"

definition http_get_kernel ::
  "('z NodeLib_scheme) \<Rightarrow> HTTPNodeClient \<Rightarrow> Commitment \<Rightarrow> u64 option \<Rightarrow> u64 option \<Rightarrow>
   (WalletError, (TxKernel \<times> u64 \<times> u64) option) result" where
  "http_get_kernel N c excess min_height max_height =
     (let meth = ''get_kernel''
      in case node_post N c meth (JArr [JStr (hex_text excess), json_opt min_height, json_opt max_height]) of
           Inl e \<Rightarrow> Err (NodeError (''Error calling '' @ meth @ '': '' @ e))
         | Inr inner \<Rightarrow>
             (case into_result (de_kernel N) inner of
                Inr r \<Rightarrow> Ok (Some (lk_tx_kernel r, lk_height r, lk_mmr_index r))
              | Inl e \<Rightarrow>
                  if contains ''NotFound'' (debug_response N inner) then Ok None
                  else Err (NodeError (''Unable to parse response for '' @ meth @ '': '' @ show_failure N e))))"

section \<open>Outputs\<close>

text \<open>\<open>slice::chunks\<close>, which panics for chunks of length zero.\<close>

fun chunks_of :: "nat \<Rightarrow> 'a list \<Rightarrow> 'a list list" where
  "chunks_of n [] = []"
| "chunks_of n (x # xs) = (x # take (n - 1) xs) # chunks_of n (drop (n - 1) xs)"

definition chunk_default :: nat where "chunk_default = 500"

definition chunk_size :: "string option \<Rightarrow> nat" where
  "chunk_size var =
     (case var of
        Some s \<Rightarrow> (case parse_u64 s of Some c \<Rightarrow> unat c | None \<Rightarrow> chunk_default)
      | None \<Rightarrow> chunk_default)"

text \<open>\<open>try_collect\<close> over answers in the order in which they come in: the first error, or all of them.\<close>

fun try_collect :: "('e, 'a) result list \<Rightarrow> ('e, 'a list) result" where
  "try_collect [] = Ok []"
| "try_collect (r # rs) = rbind r (\<lambda>x. rbind (try_collect rs) (\<lambda>xs. Ok (x # xs)))"

fun parse_responses :: "('z NodeLib_scheme) \<Rightarrow> NodeResponse list \<Rightarrow> (WalletError, OutputPrintable list) result" where
  "parse_responses N [] = Ok []"
| "parse_responses N (r # rs) =
     (case into_result (de_outputs N) r of
        Inl e \<Rightarrow> Err (NodeError (''Unable to parse response for get_outputs: '' @ show_failure N e))
      | Inr outs \<Rightarrow> rbind (parse_responses N rs) (\<lambda>rest. Ok (outs @ rest)))"

fun index_outputs ::
  "('z NodeLib_scheme) \<Rightarrow> OutputPrintable list \<Rightarrow> (Commitment \<Rightarrow> (string \<times> u64 \<times> u64) option) \<Rightarrow>
   (WalletError, Commitment \<Rightarrow> (string \<times> u64 \<times> u64) option) result" where
  "index_outputs N [] api_outputs = Ok api_outputs"
| "index_outputs N (out # outs) api_outputs =
     (case op_block_height out of
        None \<Rightarrow> Err (NodeError (''Missing block height for output '' @ debug_commit N (op_commit out)))
      | Some height \<Rightarrow>
          index_outputs N outs (api_outputs(op_commit out \<mapsto> (hex_text (op_commit out), height, op_mmr_index out))))"

text \<open>The value of the environment variable, and the order in which the answers come in, are
  arguments.\<close>

definition http_get_outputs_from_node ::
  "('z NodeLib_scheme) \<Rightarrow> string option \<Rightarrow> ((string + NodeResponse) list \<Rightarrow> (string + NodeResponse) list) \<Rightarrow>
   HTTPNodeClient \<Rightarrow> Commitment list \<Rightarrow> (WalletError, Commitment \<Rightarrow> (string \<times> u64 \<times> u64) option) result proc" where
  "http_get_outputs_from_node N query_size arrival c wallet_outputs =
     (if wallet_outputs = [] then Ret (Ok Map.empty)
      else
        let query_params = map hex_text wallet_outputs;
            size = chunk_size query_size
        in if size = 0 then Panic ''chunk size must be non-zero''
           else
             let answers = map (\<lambda>ch. node_post N c ''get_outputs''
                                  (JArr [JArr (map JStr ch), JNull, JNull, JBool False, JBool False]))
                             (chunks_of size query_params)
             in Ret (case try_collect (arrival answers) of
                       Inl e \<Rightarrow> Err (NodeError (''Getting outputs by id: '' @ e))
                     | Inr resps \<Rightarrow>
                         rbind (parse_responses N resps) (\<lambda>results. index_outputs N results Map.empty)))"

fun unspent_listing :: "('z NodeLib_scheme) \<Rightarrow> OutputPrintable list \<Rightarrow> (WalletError, chain_output list) result" where
  "unspent_listing N [] = Ok []"
| "unspent_listing N (out # outs) =
     (if op_spent out then unspent_listing N outs
      else
        (case op_range_proof out of
           Inl e \<Rightarrow> Err (NodeError (''Unexpected error in returned output (missing range proof): '' @ debug_commit N (op_commit out) @ ''. '' @
             debug_output N out @ '', '' @ e))
         | Inr proof \<Rightarrow>
             (case op_block_height out of
                None \<Rightarrow> Err (NodeError (''Unexpected error in returned output (missing block height): '' @ debug_commit N (op_commit out) @ ''. '' @
                  debug_output N out))
              | Some height \<Rightarrow>
                  rbind (unspent_listing N outs) (\<lambda>rest.
                  Ok ((op_commit out, proof, op_output_type out = CoinbaseOutput, height, op_mmr_index out) # rest)))))"

definition http_get_outputs_by_pmmr_index ::
  "('z NodeLib_scheme) \<Rightarrow> HTTPNodeClient \<Rightarrow> u64 \<Rightarrow> u64 option \<Rightarrow> u64 \<Rightarrow>
   (WalletError, u64 \<times> u64 \<times> chain_output list) result" where
  "http_get_outputs_by_pmmr_index N c start_index end_index max_outputs =
     rbind (send_json_request N c (de_listing N) ''get_unspent_outputs''
              (JArr [JNum start_index, json_opt end_index, JNum max_outputs, JBool True])) (\<lambda>res.
     rbind (unspent_listing N (ol_outputs res)) (\<lambda>api_outputs.
     Ok (ol_highest_index res, ol_last_retrieved_index res, api_outputs)))"

definition http_height_range_to_pmmr_indices ::
  "('z NodeLib_scheme) \<Rightarrow> HTTPNodeClient \<Rightarrow> u64 \<Rightarrow> u64 option \<Rightarrow> (WalletError, u64 \<times> u64) result" where
  "http_height_range_to_pmmr_indices N c start_height end_height =
     rbind (send_json_request N c (de_listing N) ''get_pmmr_indices'' (JArr [JNum start_height, json_opt end_height])) (\<lambda>res.
     Ok (ol_last_retrieved_index res, ol_highest_index res))"

text \<open>The client as the wallet sees it. A call that panics does not come back to the wallet.\<close>

definition http_node_client ::
  "('z NodeLib_scheme) \<Rightarrow> string option \<Rightarrow> ((string + NodeResponse) list \<Rightarrow> (string + NodeResponse) list) \<Rightarrow>
   HTTPNodeClient \<Rightarrow> NodeClient" where
  "http_node_client N query_size arrival c =
     \<lparr>get_chain_tip = http_get_chain_tip N c,
      get_kernel = http_get_kernel N c,
      get_outputs_from_node = (\<lambda>cs.
        case http_get_outputs_from_node N query_size arrival c cs of Ret r \<Rightarrow> r | _ \<Rightarrow> Err (NodeError ''panicked'')),
      get_outputs_by_pmmr_index = http_get_outputs_by_pmmr_index N c,
      height_range_to_pmmr_indices = http_height_range_to_pmmr_indices N c,
      node_post_tx = http_post_tx N c\<rparr>"

end
