(* ===== verification/Node_Query.thy ===== *)
theory Node_Query
  imports Wallet_Node Scan_Restore
begin

text \<open>
  What the HTTP client makes of a node's answers: a query cut into chunks finds what one query would,
  in whatever order the answers come in, and the pages of the chain are what a scan relies on.
\<close>

section \<open>Queries in chunks\<close>

lemma chunks_of_concat: "0 < n \<Longrightarrow> concat (chunks_of n xs) = xs"
  by (induction n xs rule: chunks_of.induct) auto

lemma chunks_of_map: "chunks_of n (map f xs) = map (map f) (chunks_of n xs)"
  by (induction n xs rule: chunks_of.induct) (auto simp: take_map drop_map)

lemma chunks_of_size: "0 < n \<Longrightarrow> ch \<in> set (chunks_of n xs) \<Longrightarrow> ch \<noteq> [] \<and> length ch \<le> n"
  by (induction n xs rule: chunks_of.induct) auto

lemma try_collect_Ok: "try_collect (map Inr xs) = Inr xs"
  by (induction xs) auto

lemma permuted_map:
  assumes "mset ys = mset (map f xs)"
  shows "\<exists>zs. mset zs = mset xs \<and> ys = map f zs"
proof -
  from assms have "mset ys = image_mset f (mset xs)" by simp
  then show ?thesis
  proof (induction ys arbitrary: xs)
    case (Cons y ys)
    then obtain x where x: "x \<in> set xs" "y = f x" by (metis (no_types, lifting) image_iff list.set_intros(1) set_image_mset set_mset_mset)
    then have "mset ys = image_mset f (mset (remove1 x xs))"
      using Cons.prems by (simp add: image_mset_Diff) (metis add_mset_remove_trivial)
    from Cons.IH [OF this] obtain zs where "mset zs = mset (remove1 x xs)" "ys = map f zs" by blast
    with x show ?case by (intro exI [of _ "x # zs"]) simp
  qed simp
qed

text \<open>The node answers a query with the outputs it knows among those asked for.\<close>

definition outputs_query :: "Commitment list \<Rightarrow> Json" where
  "outputs_query cs = JArr [JArr (map (\<lambda>c. JStr (hex_text c)) cs), JNull, JNull, JBool False, JBool False]"

definition answers_queries :: "('z NodeLib_scheme) \<Rightarrow> HTTPNodeClient \<Rightarrow> (Commitment \<Rightarrow> OutputPrintable option) \<Rightarrow> bool" where
  "answers_queries N c known \<longleftrightarrow>
     (\<forall>x out. known x = Some out \<longrightarrow> op_commit out = x \<and> op_block_height out \<noteq> None) \<and>
     (\<forall>cs. \<exists>r. node_post N c ''get_outputs'' (outputs_query cs) = Inr r \<and>
        into_result (de_outputs N) r = Inr (List.map_filter known cs))"

definition output_info :: "OutputPrintable \<Rightarrow> string \<times> u64 \<times> u64" where
  "output_info out = (hex_text (op_commit out), the (op_block_height out), op_mmr_index out)"

lemma index_outputs_known:
  assumes "\<forall>out \<in> set outs. known (op_commit out) = Some out \<and> op_block_height out \<noteq> None"
  shows "index_outputs N outs m = Inr (\<lambda>x. if x \<in> op_commit ` set outs then map_option output_info (known x) else m x)"
  using assms
proof (induction outs arbitrary: m)
  case (Cons out outs)
  then obtain h where h: "op_block_height out = Some h" "known (op_commit out) = Some out" by auto
  have "index_outputs N (out # outs) m = index_outputs N outs (m(op_commit out \<mapsto> output_info out))"
    by (simp add: h output_info_def)
  also have "\<dots> = Inr (\<lambda>x. if x \<in> op_commit ` set outs then map_option output_info (known x)
      else (m(op_commit out \<mapsto> output_info out)) x)"
    using Cons.prems by (intro Cons.IH) simp
  finally show ?case using h(2) by (auto simp: fun_eq_iff)
qed simp

lemma map_filter_set: "set (List.map_filter f xs) = {y. \<exists>x \<in> set xs. f x = Some y}"
  by (force simp: List.map_filter_def)

lemma parse_responses_map:
  "(\<And>x. x \<in> set xs \<Longrightarrow> into_result (de_outputs N) (f x) = Inr (g x)) \<Longrightarrow> parse_responses N (map f xs) = Inr (concat (map g xs))"
  by (induction xs) auto

lemma chunked_query_ok:
  assumes known: "answers_queries N c known" and arrival: "\<forall>xs. mset (arrival xs) = mset xs" and size: "chunk_size var \<noteq> 0"
  shows "http_get_outputs_from_node N var arrival c cs =
    Ret (Ok (\<lambda>x. if x \<in> set cs then map_option output_info (known x) else None))"
proof (cases "cs = []")
  case False
  let ?chunks = "chunks_of (chunk_size var) cs"
  obtain f where f: "\<And>ch. node_post N c ''get_outputs'' (outputs_query ch) = Inr (f ch)"
    "\<And>ch. into_result (de_outputs N) (f ch) = Inr (List.map_filter known ch)"
    using known unfolding answers_queries_def by metis
  have ans: "map (\<lambda>ch. node_post N c ''get_outputs'' (JArr [JArr (map JStr ch), JNull, JNull, JBool False, JBool False]))
      (chunks_of (chunk_size var) (map hex_text cs)) = map (\<lambda>ch. Inr (f ch)) ?chunks"
    using f(1) unfolding outputs_query_def by (simp add: chunks_of_map o_def)
  obtain zs where zs: "mset zs = mset ?chunks" "arrival (map (\<lambda>ch. Inr (f ch)) ?chunks) = map (\<lambda>ch. Inr (f ch)) zs"
    using permuted_map [of "arrival (map (\<lambda>ch. Inr (f ch)) ?chunks)" "\<lambda>ch. Inr (f ch)" ?chunks] arrival by auto
  let ?outs = "concat (map (List.map_filter known) zs)"
  have col: "try_collect (map (\<lambda>ch. Inr (f ch)) zs) = Inr (map f zs)"
    using try_collect_Ok [of "map f zs"] by (simp add: o_def)
  have outs: "set ?outs = {out. \<exists>x \<in> set cs. known x = Some out}"
  proof -
    have "set zs = set ?chunks" using zs(1) by (metis set_mset_mset)
    then have "set (concat zs) = set cs" using chunks_of_concat [of "chunk_size var" cs] size by (metis set_concat neq0_conv)
    then have "\<exists>ch \<in> set zs. x \<in> set ch \<Longrightarrow> x \<in> set cs" "x \<in> set cs \<Longrightarrow> \<exists>ch \<in> set zs. x \<in> set ch" for x by auto
    then show ?thesis by (simp add: map_filter_set) blast
  qed
  have kn: "\<forall>out \<in> set ?outs. known (op_commit out) = Some out \<and> op_block_height out \<noteq> None"
    using known unfolding outs answers_queries_def by auto
  have "index_outputs N ?outs Map.empty = Inr (\<lambda>x. if x \<in> set cs then map_option output_info (known x) else None)"
    unfolding index_outputs_known [OF kn] outs
    using known unfolding answers_queries_def by (auto simp: fun_eq_iff image_iff) (metis option.exhaust)+
  then show ?thesis
    using False size unfolding http_get_outputs_from_node_def Let_def ans zs(2) col
    by (simp add: parse_responses_map [of zs N f "List.map_filter known"] f(2))
qed (simp add: http_get_outputs_from_node_def)

section \<open>The pages of the chain\<close>

definition chain_view :: "OutputPrintable \<Rightarrow> chain_output" where
  "chain_view out = (op_commit out, projr (op_range_proof out), op_output_type out = CoinbaseOutput,
     the (op_block_height out), op_mmr_index out)"

text \<open>The outputs a scan can find: those that are not spent.\<close>

definition utxos :: "OutputPrintable list \<Rightarrow> chain_output list" where
  "utxos chain = map chain_view (filter (\<lambda>out. \<not> op_spent out) chain)"

text \<open>The node lists its outputs in pages; each page begins at the position asked for and is complete up
  to the position it reports.\<close>

definition lists_chain :: "('z NodeLib_scheme) \<Rightarrow> HTTPNodeClient \<Rightarrow> OutputPrintable list \<Rightarrow> u64 option \<Rightarrow> u64 \<Rightarrow> bool" where
  "lists_chain N c chain e highest \<longleftrightarrow> sorted (map op_mmr_index chain) \<and>
     (\<forall>out \<in> set chain. \<not> op_spent out \<longrightarrow> \<not> isl (op_range_proof out) \<and> op_block_height out \<noteq> None) \<and>
     (\<forall>s. s \<le> highest \<longrightarrow> (\<exists>r last. s \<le> last \<and> last \<le> highest \<and>
        node_post N c ''get_unspent_outputs'' (JArr [JNum s, json_opt e, JNum 1000, JBool True]) = Inr r \<and>
        into_result (de_listing N) r = Inr \<lparr>ol_highest_index = highest, ol_last_retrieved_index = last,
          ol_outputs = filter (\<lambda>out. s \<le> op_mmr_index out \<and> op_mmr_index out \<le> last) chain\<rparr>))"

lemma unspent_listing_ok:
  "\<forall>out \<in> set outs. \<not> op_spent out \<longrightarrow> \<not> isl (op_range_proof out) \<and> op_block_height out \<noteq> None \<Longrightarrow>
   unspent_listing N outs = Inr (utxos outs)"
proof (induction outs)
  case (Cons out outs)
  then have "unspent_listing N outs = Inr (utxos outs)" by simp
  with Cons.prems show ?case
    by (cases "op_spent out"; cases "op_range_proof out") (auto simp: utxos_def chain_view_def)
qed (simp add: utxos_def)

lemma utxos_between:
  "utxos (filter (\<lambda>out. a \<le> op_mmr_index out \<and> op_mmr_index out \<le> b) chain) = outputs_between a b (utxos chain)"
  by (induction chain) (auto simp: utxos_def outputs_between_def chain_view_def)

lemma http_serves:
  assumes "lists_chain N c chain e h"
  shows "serves (http_node_client N var arrival c) (utxos chain) e h"
proof -
  have ok: "\<forall>out \<in> set (filter (\<lambda>out. s \<le> op_mmr_index out \<and> op_mmr_index out \<le> l) chain).
      \<not> op_spent out \<longrightarrow> \<not> isl (op_range_proof out) \<and> op_block_height out \<noteq> None" for s l
    using assms unfolding lists_chain_def by auto
  have "sorted (map op_mmr_index (filter (\<lambda>out. \<not> op_spent out) chain))"
    using assms unfolding lists_chain_def by (simp add: sorted_filter)
  then have "sorted (map co_index (utxos chain))" by (simp add: utxos_def chain_view_def o_def)
  moreover have "\<exists>last. s \<le> last \<and> last \<le> h \<and> get_outputs_by_pmmr_index (http_node_client N var arrival c) s e 1000 =
      Ok (h, last, outputs_between s last (utxos chain))" if s: "s \<le> h" for s
  proof -
    from assms s obtain r l where l: "s \<le> l" "l \<le> h"
      and post: "node_post N c ''get_unspent_outputs'' (JArr [JNum s, json_opt e, JNum 1000, JBool True]) = Inr r"
      and res: "into_result (de_listing N) r = Inr \<lparr>ol_highest_index = h, ol_last_retrieved_index = l,
          ol_outputs = filter (\<lambda>out. s \<le> op_mmr_index out \<and> op_mmr_index out \<le> l) chain\<rparr>"
      unfolding lists_chain_def by blast
    have "get_outputs_by_pmmr_index (http_node_client N var arrival c) s e 1000 = Ok (h, l, outputs_between s l (utxos chain))"
      using post res unspent_listing_ok [OF ok [of s l], of N]
      by (simp add: http_node_client_def http_get_outputs_by_pmmr_index_def send_json_request_def utxos_between)
    with l show ?thesis by blast
  qed
  ultimately show ?thesis unfolding serves_def by blast
qed

text \<open>
  C20. The HTTP client gives the wallet the view of the chain it relies on. For a node that answers
  queries with the outputs it knows, a query for any number of outputs, cut into chunks of any
  size above zero and answered in any order, gives for each commitment asked for what the node
  knows of it, and nothing else. For a node that lists its outputs in pages, the pages the wallet
  gets are the unspent outputs between their ends, which is what a scan needs to read the chain.
\<close>

theorem http_client_provides:
  assumes "answers_queries N c known" "\<forall>xs. mset (arrival xs) = mset xs" "chunk_size var \<noteq> 0"
    and "lists_chain N c chain e h"
  shows "(\<forall>cs. get_outputs_from_node (http_node_client N var arrival c) cs =
       Ok (\<lambda>x. if x \<in> set cs then map_option output_info (known x) else None)) \<and>
    serves (http_node_client N var arrival c) (utxos chain) e h"
proof (intro conjI allI)
  show "get_outputs_from_node (http_node_client N var arrival c) cs =
      Ok (\<lambda>x. if x \<in> set cs then map_option output_info (known x) else None)" for cs
    using chunked_query_ok [OF assms(1-3)] by (simp add: http_node_client_def)
qed (rule http_serves [OF assms(4)])

end
