(* ===== verification/Node_Run.thy ===== *)
theory Node_Run
  imports Node_Query Lib_Instance
begin

text \<open>
  The HTTP client against a small node with three outputs, one of them spent. The node answers a
  query with the texts it was sent, which are read back as outputs, and a listing with its start.
\<close>

definition node_output :: "u8 \<Rightarrow> bool \<Rightarrow> OutputPrintable" where
  "node_output i spent =
     \<lparr>op_output_type = TransactionOutput, op_commit = [i], op_spent = spent, op_range_proof = Inr [9], op_block_height = Some 7,
      op_mmr_index = ucast i\<rparr>"

definition node_chain :: "OutputPrintable list" where
  "node_chain = [node_output 1 False, node_output 2 True, node_output 3 False]"

definition node_known :: "Commitment \<Rightarrow> OutputPrintable option" where
  "node_known c = find (\<lambda>out. op_commit out = c \<and> \<not> op_spent out) node_chain"

fun read_output :: "Json \<Rightarrow> OutputPrintable option" where
  "read_output (JStr s) = find (\<lambda>out. hex_text (op_commit out) = s \<and> \<not> op_spent out) node_chain"
| "read_output _ = None"

fun small_post :: "string \<Rightarrow> string option \<Rightarrow> NodeRequest \<Rightarrow> string + NodeResponse" where
  "small_post url secret r =
     Inr \<lparr>rs_result = Some (JObj [(''Ok'', case rq_params r of JArr (p # _) \<Rightarrow> p | _ \<Rightarrow> JNull)]), rs_error = None,
          rs_id = rq_id r, rs_jsonrpc = rq_jsonrpc r\<rparr>"

definition small_rpc :: NodeLib where
  "small_rpc = \<lparr>post = small_post, de_value = Inr, de_tip = (\<lambda>_. Inl []), de_version = (\<lambda>_. Inl []), de_kernel = (\<lambda>_. Inl []),
     de_outputs = (\<lambda>j. case j of JArr xs \<Rightarrow> Inr (List.map_filter read_output xs) | _ \<Rightarrow> Inl []),
     de_listing = (\<lambda>j. case j of
        JNum s \<Rightarrow> Inr \<lparr>ol_highest_index = 3, ol_last_retrieved_index = s,
                      ol_outputs = filter (\<lambda>out. s \<le> op_mmr_index out \<and> op_mmr_index out \<le> s) node_chain\<rparr>
      | _ \<Rightarrow> Inl []),
     tx_json = (\<lambda>_. JNull), show_failure = (\<lambda>_. []), debug_response = (\<lambda>_. []), debug_commit = hex_text, debug_output = (\<lambda>_. [])\<rparr>"

abbreviation small_http :: HTTPNodeClient where
  "small_http \<equiv> http_client_new ''http://localhost'' None"

lemma hex_text_inject: "hex_text a = hex_text b \<longleftrightarrow> a = b"
  using toy_hex unfolding hex_laws_def by (metis option.inject)

lemma read_known: "read_output (JStr (hex_text c)) = node_known c"
  unfolding node_known_def by (simp add: hex_text_inject)

lemma small_answers: "answers_queries small_rpc small_http node_known"
proof -
  have "List.map_filter read_output (map (\<lambda>c. JStr (hex_text c)) cs) = List.map_filter node_known cs" for cs
    by (induction cs) (simp_all add: List.map_filter_simps read_known del: read_output.simps split: option.splits)
  then show ?thesis
    by (auto simp: answers_queries_def node_known_def node_chain_def node_output_def node_post_def small_rpc_def outputs_query_def
        build_request_def into_result_def response_result_def split: if_splits)
qed

lemma small_lists: "lists_chain small_rpc small_http node_chain e 3"
proof -
  let ?r = "\<lambda>s. \<lparr>rs_result = Some (JObj [(''Ok'', JNum s)]), rs_error = None, rs_id = JNum 1, rs_jsonrpc = Some ''2.0''\<rparr>"
  have post: "node_post small_rpc small_http ''get_unspent_outputs'' (JArr [JNum s, json_opt e, JNum 1000, JBool True]) = Inr (?r s)" for s
    by (simp add: node_post_def small_rpc_def build_request_def)
  have listing: "into_result (de_listing small_rpc) (?r s) = Inr \<lparr>ol_highest_index = 3, ol_last_retrieved_index = s,
      ol_outputs = filter (\<lambda>out. s \<le> op_mmr_index out \<and> op_mmr_index out \<le> s) node_chain\<rparr>" for s
    by (simp add: small_rpc_def into_result_def response_result_def)
  have "sorted (map op_mmr_index node_chain)" and
    "\<forall>out \<in> set node_chain. \<not> op_spent out \<longrightarrow> \<not> isl (op_range_proof out) \<and> op_block_height out \<noteq> None"
    by (simp_all add: node_chain_def node_output_def)
  then show ?thesis unfolding lists_chain_def
  proof (intro conjI allI impI)
    fix s :: u64 assume "s \<le> 3"
    then show "\<exists>r last. s \<le> last \<and> last \<le> 3 \<and>
        node_post small_rpc small_http ''get_unspent_outputs'' (JArr [JNum s, json_opt e, JNum 1000, JBool True]) = Inr r \<and>
        into_result (de_listing small_rpc) r = Inr \<lparr>ol_highest_index = 3, ol_last_retrieved_index = last,
          ol_outputs = filter (\<lambda>out. s \<le> op_mmr_index out \<and> op_mmr_index out \<le> last) node_chain\<rparr>"
      by (intro exI [of _ "?r s"] exI [of _ s] conjI order_refl post listing)
  qed
qed

theorem http_client_provides_witness:
  "get_outputs_from_node (http_node_client small_rpc (Some (show_u64 2)) rev small_http) [[1], [2], [3], [4]] =
     Ok [[1] \<mapsto> (hex_text [1], 7, 1), [3] \<mapsto> (hex_text [3], 7, 3)] \<and>
   serves (http_node_client small_rpc (Some (show_u64 2)) rev small_http) (utxos node_chain) None 3"
proof -
  have "chunk_size (Some (show_u64 2)) \<noteq> 0" by (simp add: chunk_size_def u64_text.dec_enc)
  from http_client_provides [OF small_answers _ this small_lists, of rev None]
  have "get_outputs_from_node (http_node_client small_rpc (Some (show_u64 2)) rev small_http) [[1], [2], [3], [4]] =
       Ok (\<lambda>x. if x \<in> set [[1], [2], [3], [4]] then map_option output_info (node_known x) else None)"
    "serves (http_node_client small_rpc (Some (show_u64 2)) rev small_http) (utxos node_chain) None 3" by auto
  then show ?thesis
    by (auto simp: fun_eq_iff node_known_def node_chain_def node_output_def output_info_def)
qed

end
