(* ===== verification/Slatepack_Transport.thy ===== *)
theory Slatepack_Transport
  imports Slatepack
begin

unbundle bit_operations_syntax

text \<open>
  A slate survives its transport in a slatepack: armor, binary form and encryption are undone by the
  receiver.
\<close>

section \<open>The armor\<close>

definition base58_alphabet :: string where
  "base58_alphabet = ''123456789ABCDEFGHJKLMNPQRSTUVWXYZabcdefghijkmnopqrstuvwxyz''"

text \<open>What \<open>bs58\<close> and \<open>sha2\<close> document.\<close>

definition base58_laws :: "('z SlatepackLib_scheme) \<Rightarrow> bool" where
  "base58_laws S \<longleftrightarrow>
     (\<forall>b. bs58_decode S (bs58_encode S b) = Some b) \<and> (\<forall>b. set (bs58_encode S b) \<subseteq> set base58_alphabet) \<and>
     (\<forall>b. length (sha256 S b) = 32)"

abbreviation armor_space :: "char \<Rightarrow> bool" where
  "armor_space c \<equiv> c \<in> set (''>'' @ [CHR 0x0A, CHR 0x0D, CHR 0x09] @ '' '')"

lemma as_bytes_append [simp]: "as_bytes (s @ t) = as_bytes s @ as_bytes t"
  by (simp add: as_bytes_def)

lemma length_as_bytes [simp]: "length (as_bytes s) = length s"
  by (simp add: as_bytes_def)

lemma unat_char: "unat (of_nat (of_char c) :: u8) = of_char c"
  by (simp add: unat_of_nat)

lemma bytes_str_as_bytes [simp]: "bytes_str (as_bytes s) = s"
  by (induction s) (simp_all add: bytes_str_def as_bytes_def unat_char)

lemma byte_char_eq: "(of_nat (of_char c) :: u8) = of_nat (of_char d) \<longleftrightarrow> c = d"
  by (metis of_char_eq_iff unat_char)

lemma as_bytes_mem: "(of_nat (of_char c) :: u8) \<in> set (as_bytes s) \<longleftrightarrow> c \<in> set s"
  by (auto simp: as_bytes_def byte_char_eq)

lemma as_bytes_period: "(0x2E :: u8) \<in> set (as_bytes s) \<longleftrightarrow> CHR ''.'' \<in> set s"
  using as_bytes_mem [of "CHR ''.''" s] by simp

lemma as_bytes_space: "(of_nat (of_char c) :: u8) \<in> set WHITESPACE_LIST \<longleftrightarrow> armor_space c"
  unfolding WHITESPACE_LIST_def by (rule as_bytes_mem)

text \<open>The formatter from a position on; it adds white space only.\<close>

definition fmt :: "nat \<Rightarrow> string \<Rightarrow> string" where
  "fmt n s = concat (map (\<lambda>(i, c). separator i @ [c]) (List.enumerate n s))"

lemma fmt_simps [simp]: "fmt n [] = []" "fmt n (c # s) = separator n @ c # fmt (Suc n) s"
  by (simp_all add: fmt_def)

lemma fmt_append: "fmt n (s @ t) = fmt n s @ fmt (n + length s) t"
  by (induction s arbitrary: n) simp_all

lemma fmt_header: "fmt 0 HEADER = HEADER"
  by (simp add: HEADER_def separator_def WORD_LENGTH_def)

lemma separator_space: "c \<in> set (separator n) \<Longrightarrow> armor_space c"
  by (auto simp: separator_def split: if_splits)

lemma alphabet_apart: "c \<in> set base58_alphabet \<Longrightarrow> \<not> armor_space c \<and> c \<noteq> CHR ''.''"
  by (auto simp: base58_alphabet_def)

lemma fmt_filter: "set s \<subseteq> set base58_alphabet \<Longrightarrow> filter (\<lambda>c. \<not> armor_space c) (fmt n s) = s"
proof (induction s arbitrary: n)
  case (Cons c s)
  have "filter (\<lambda>c. \<not> armor_space c) (separator n) = []" using separator_space by (auto simp: filter_empty_conv)
  with Cons alphabet_apart show ?case by simp
qed simp

lemma fmt_period: "set s \<subseteq> set base58_alphabet \<Longrightarrow> CHR ''.'' \<notin> set (fmt n s)"
proof (induction s arbitrary: n)
  case (Cons c s)
  then show ?case using separator_space [of "CHR ''.''" n] alphabet_apart [of c] by auto
qed simp

lemma filter_space_bytes: "filter (\<lambda>b. b \<notin> set WHITESPACE_LIST) (as_bytes s) = as_bytes (filter (\<lambda>c. \<not> armor_space c) s)"
  by (induction s) (simp_all add: as_bytes_def as_bytes_space del: set_append)

lemma takeWhile_period: "(0x2E :: u8) \<notin> set xs \<Longrightarrow> takeWhile not_period (xs @ 0x2E # ys) = xs"
  by (induction xs) (auto simp: not_period_def)

lemma framing_checks:
  "check_header (as_bytes ''BEGINSLATEPACK'') = Ok ()" "check_footer (as_bytes '' ENDSLATEPACK'') = Ok ()"
  by code_simp+

lemma armor_decode_encode:
  assumes "base58_laws S"
  shows "armor_decode S (as_bytes (format_slatepack (HEADER @ base58check S b) @ FOOTER @ [CHR 0x0A])) = Ret (Ok b)"
proof -
  let ?p = "fmt 15 (base58check S b)"
  have alpha: "set (base58check S b) \<subseteq> set base58_alphabet"
    using assms by (simp add: base58_laws_def base58check_def)
  have shape: "as_bytes (format_slatepack (HEADER @ base58check S b) @ FOOTER @ [CHR 0x0A]) =
      as_bytes ''BEGINSLATEPACK'' @ 0x2E # as_bytes ?p @ 0x2E # as_bytes '' ENDSLATEPACK'' @ 0x2E # [0x0A]"
  proof -
    have "format_slatepack (HEADER @ base58check S b) = fmt 0 HEADER @ ?p"
      unfolding format_slatepack_def fmt_def [symmetric] fmt_append by (simp add: HEADER_def eval_nat_numeral)
    then show ?thesis by (simp add: fmt_header) (simp add: HEADER_def FOOTER_def as_bytes_def)
  qed
  have per: "(0x2E :: u8) \<notin> set (as_bytes ''BEGINSLATEPACK'')" "(0x2E :: u8) \<notin> set (as_bytes ?p)"
    "(0x2E :: u8) \<notin> set (as_bytes '' ENDSLATEPACK'')"
    using fmt_period [OF alpha] by (auto simp: as_bytes_period)
  have clean: "bytes_str (filter (\<lambda>b. b \<notin> set WHITESPACE_LIST) (as_bytes ?p)) = base58check S b"
    unfolding filter_space_bytes fmt_filter [OF alpha] by simp
  have "length (generate_check S b) = 4" using assms by (simp add: generate_check_def base58_laws_def)
  moreover have "bs58_decode S (base58check S b) = Some (generate_check S b @ b)"
    using assms by (simp add: base58check_def base58_laws_def)
  ultimately show ?thesis
    unfolding shape armor_decode_def Let_def
    by (simp add: takeWhile_period per framing_checks clean error_check_def)
qed

section \<open>Addresses\<close>

definition address_ok :: "('z SlatepackLib_scheme) \<Rightarrow> SlatepackAddress \<Rightarrow> bool" where
  "address_ok S a \<longleftrightarrow>
     (\<exists>enc. address_to_string S a = Some enc \<and> length enc \<le> 255 \<and> utf8_valid (as_bytes enc) \<and>
        address_from_string S enc = Some a)"

definition address_text :: "('z SlatepackLib_scheme) \<Rightarrow> SlatepackAddress \<Rightarrow> string" where
  "address_text S a = the (address_to_string S a)"

abbreviation address_bytes :: "('z SlatepackLib_scheme) \<Rightarrow> SlatepackAddress \<Rightarrow> bytes" where
  "address_bytes S a \<equiv> ser_u8 S (of_nat (length (address_text S a))) @ ser_fixed S (as_bytes (address_text S a))"

lemma write_address_ok:
  assumes "address_ok S a"
  shows "write_address S a = Ok (address_bytes S a)" "address_encoded_len S a = Some (length (address_text S a) + 1)"
  using assms by (auto simp: address_ok_def write_address_def address_encoded_len_def address_text_def)

interpretation address: bin_codec "address_bytes S" "read_address S" "\<lambda>a. bin_laws S \<and> address_ok S a"
  for S :: "'z SlatepackLib_scheme"
proof unfold_locales
  fix a :: SlatepackAddress and rest
  assume "bin_laws S \<and> address_ok S a"
  then show "read_address S (address_bytes S a @ rest) = Ret (Ok (a, rest))"
    by (auto simp: address_ok_def address_text_def read_address_def rd_bind_def unat_of_nat rd_corrupted_def from_utf8_def)
qed

interpretation counted_address: bin_codec "\<lambda>(a, n). address_bytes S a" "read_counted_address S"
  "\<lambda>(a, n). bin_laws S \<and> address_ok S a \<and> n = of_nat (length (address_text S a) + 1)" for S :: "'z SlatepackLib_scheme"
proof unfold_locales
  fix an :: "SlatepackAddress \<times> u32" and rest
  assume "case an of (a, n) \<Rightarrow> bin_laws S \<and> address_ok S a \<and> n = of_nat (length (address_text S a) + 1)"
  then show "read_counted_address S ((case an of (a, n) \<Rightarrow> address_bytes S a) @ rest) = Ret (Ok (an, rest))"
    using address.roundtrip [of S "fst an" rest]
    by (cases an) (simp add: read_counted_address_def rd_bind_def rd_corrupted_def write_address_ok del: append_assoc)
qed

lemma read_counted_address_back:
  "bin_laws S \<Longrightarrow> address_ok S a \<Longrightarrow>
   read_counted_address S (ser_u8 S (of_nat (length (address_text S a))) @ ser_fixed S (as_bytes (address_text S a)) @ rest) =
     Ret (Ok ((a, of_nat (length (address_text S a) + 1)), rest))"
  using counted_address.roundtrip [of S "(a, of_nat (length (address_text S a) + 1))" rest] by simp

section \<open>The binary slatepack\<close>

definition slatepack_ok :: "('z SlatepackLib_scheme) \<Rightarrow> Slatepack \<Rightarrow> bool" where
  "slatepack_ok S sp \<longleftrightarrow> bin_laws S \<and> sp_mode sp \<le> 1 \<and> (case sp_sender sp of Some a \<Rightarrow> address_ok S a | None \<Rightarrow> True) \<and>
     reads_back (ser_var S) (de_var S) (sp_payload sp)"

lemma skip_none [simp]: "skip_bytes S 0 bs = Ret (Ok ((), bs))"
  by (simp add: skip_bytes_def rd_bind_def)

lemma slatepack_write_read:
  assumes "slatepack_ok S sp"
  shows "\<exists>b. write_slatepack S sp = Ret (Ok b) \<and>
    (\<forall>rest. read_slatepack S (b @ rest) = Ret (Ok (sp\<lparr>sp_encrypted_meta := default_enc_metadata\<rparr>, rest)))"
proof (cases "sp_sender sp")
  case None
  with assms show ?thesis
    by (simp add: slatepack_ok_def write_slatepack_def opt_fields_len_def read_slatepack_def rd_bind_def read_mode_def not_less)
next
  case (Some a)
  with assms have a: "address_ok S a" "bin_laws S" by (simp_all add: slatepack_ok_def)
  show ?thesis using assms Some
    by (simp add: slatepack_ok_def write_slatepack_def opt_fields_len_def read_slatepack_def rd_bind_def read_mode_def not_less
        write_address_ok [OF a(1)] read_counted_address_back [OF a(2,1)])
qed

section \<open>Encryption\<close>

text \<open>The lengths \<open>grin_core\<close> writes, big-endian integers, and what \<open>age\<close> promises: the holder of one of
  the recipients' keys reads the text back.\<close>

definition length_laws :: "('z SlatepackLib_scheme) \<Rightarrow> bool" where
  "length_laws S \<longleftrightarrow> (\<forall>x. length (ser_u8 S x) = 1) \<and> (\<forall>x. length (ser_u16 S x) = 2) \<and>
     (\<forall>x. ser_u32 S x = be_bytes 4 (uint x)) \<and> (\<forall>b. length (ser_fixed S b) = length b)"

definition age_laws :: "('z SlatepackLib_scheme) \<Rightarrow> bytes \<Rightarrow> bytes list \<Rightarrow> bool" where
  "age_laws S k keys \<longleftrightarrow>
     (\<forall>seed t. \<exists>c. age_encrypt S seed keys t = Some c \<and> age_decryptor S c = Some AgeRecipients \<and>
        age_decrypt S (take 32 (sha512 S k)) c = Some t)"

definition meta_ok :: "('z SlatepackLib_scheme) \<Rightarrow> SlatepackEncMetadata \<Rightarrow> bool" where
  "meta_ok S m \<longleftrightarrow> bin_laws S \<and> length_laws S \<and> (case em_sender m of Some a \<Rightarrow> address_ok S a | None \<Rightarrow> True) \<and>
     (\<forall>a \<in> set (em_recipients m). address_ok S a) \<and> length (em_recipients m) < 65536"

lemma write_addresses_ok:
  "\<forall>a \<in> set as. address_ok S a \<Longrightarrow> write_addresses S as = Ok (concat (map (address_bytes S) as))"
  by (induction as) (simp_all add: write_address_ok)

abbreviation addresses_len :: "('z SlatepackLib_scheme) \<Rightarrow> SlatepackAddress list \<Rightarrow> nat" where
  "addresses_len S as \<equiv> sum_list (map (\<lambda>a. length (address_text S a) + 1) as)"

lemma addresses_lens:
  "\<forall>a \<in> set as. address_ok S a \<Longrightarrow>
   those (map (address_encoded_len S) as) = Some (map (\<lambda>a. length (address_text S a) + 1) as)"
  by (induction as) (simp_all add: write_address_ok)

lemma addresses_bytes_len:
  "length_laws S \<Longrightarrow> length (concat (map (address_bytes S) as)) = addresses_len S as"
  by (induction as) (simp_all add: length_laws_def)

lemma read_counted_addresses_back:
  assumes "bin_laws S"
  shows "\<forall>a \<in> set as. address_ok S a \<Longrightarrow>
    read_counted_addresses (length as) S r (concat (map (address_bytes S) as) @ rest) =
      Ret (Ok ((as, r - of_nat (addresses_len S as)), rest))"
proof (induction as arbitrary: r)
  case (Cons a as)
  then show ?case
    using read_counted_address_back [OF assms, of a] by (simp add: rd_bind_def algebra_simps)
qed (simp add: rd_bind_def)

abbreviation sender_len :: "('z SlatepackLib_scheme) \<Rightarrow> SlatepackEncMetadata \<Rightarrow> nat" where
  "sender_len S m \<equiv> (case em_sender m of None \<Rightarrow> 0 | Some a \<Rightarrow> length (address_text S a) + 1)"

definition meta_len :: "('z SlatepackLib_scheme) \<Rightarrow> SlatepackEncMetadata \<Rightarrow> nat" where
  "meta_len S m = 2 + sender_len S m + (if em_recipients m = [] then 0 else 2 + addresses_len S (em_recipients m))"

definition meta_body :: "('z SlatepackLib_scheme) \<Rightarrow> SlatepackEncMetadata \<Rightarrow> bytes" where
  "meta_body S m =
     ser_u16 S ((if em_sender m \<noteq> None then 0x01 else 0) OR (if em_recipients m \<noteq> [] then 0x02 else 0))
     @ (case em_sender m of None \<Rightarrow> [] | Some a \<Rightarrow> address_bytes S a)
     @ (if em_recipients m = [] then []
        else ser_u16 S (of_nat (length (em_recipients m))) @ concat (map (address_bytes S) (em_recipients m)))"

lemma write_meta_ok:
  assumes "meta_ok S m"
  shows "write_meta S m = Ok (ser_u32 S (of_nat (meta_len S m)) @ meta_body S m)" "length (meta_body S m) = meta_len S m"
proof -
  have as: "write_addresses S (em_recipients m) = Ok (concat (map (address_bytes S) (em_recipients m)))"
    "those (map (address_encoded_len S) (em_recipients m)) = Some (map (\<lambda>a. length (address_text S a) + 1) (em_recipients m))"
    using assms write_addresses_ok addresses_lens by (auto simp: meta_ok_def)
  then show "write_meta S m = Ok (ser_u32 S (of_nat (meta_len S m)) @ meta_body S m)"
    using assms
    by (cases "em_sender m")
      (simp_all add: write_meta_def meta_encoded_len_def meta_len_def meta_body_def meta_ok_def write_address_ok)
  have "length (concat (map (address_bytes S) (em_recipients m))) = addresses_len S (em_recipients m)"
    using assms by (intro addresses_bytes_len) (simp add: meta_ok_def)
  then show "length (meta_body S m) = meta_len S m"
    using assms by (cases "em_sender m") (simp_all add: meta_body_def meta_len_def meta_ok_def length_laws_def)
qed

lemma flag_bits:
  "((if a then 0x01 else 0) OR (if b then 0x02 else 0) :: u16) AND 0x01 > 0 \<longleftrightarrow> a"
  "((if a then 0x01 else 0) OR (if b then 0x02 else 0) :: u16) AND 0x02 > 0 \<longleftrightarrow> b"
  by (cases a; cases b; simp)+

lemma read_meta_back:
  assumes "meta_ok S m"
  shows "read_meta S (ser_u32 S (of_nat (meta_len S m)) @ meta_body S m @ rest) = Ret (Ok (m, rest))"
proof -
  have laws: "bin_laws S" and rs: "\<forall>a \<in> set (em_recipients m). address_ok S a" "length (em_recipients m) < 65536"
    using assms by (simp_all add: meta_ok_def)
  note rb = read_counted_addresses_back [OF laws rs(1)]
  have n: "unat (of_nat (length (em_recipients m)) :: u16) = length (em_recipients m)"
    using rs(2) by (simp add: unat_of_nat)
  show ?thesis
  proof (cases "em_sender m")
    case None
    then show ?thesis using laws rb n
      by (cases m) (auto simp: read_meta_def meta_body_def meta_len_def rd_bind_def Let_def flag_bits)
  next
    case (Some a)
    then have "address_ok S a" using assms by (simp add: meta_ok_def)
    from read_counted_address_back [OF laws this] Some laws rb n show ?thesis
      by (cases m) (auto simp: read_meta_def meta_body_def meta_len_def rd_bind_def Let_def flag_bits)
  qed
qed

lemma meta_len_bound:
  assumes "meta_ok S m"
  shows "meta_len S m < 2 ^ 32"
proof -
  have len: "length (address_text S a) \<le> 255" if "address_ok S a" for a
    using that by (auto simp: address_ok_def address_text_def)
  have "addresses_len S as \<le> 256 * length as" if "\<forall>a \<in> set as. address_ok S a" for as
    using that len by (induction as) fastforce+
  then have "addresses_len S (em_recipients m) \<le> 256 * length (em_recipients m)"
    using assms by (simp add: meta_ok_def)
  moreover have "sender_len S m \<le> 256" using assms len by (auto simp: meta_ok_def split: option.splits)
  moreover have "length (em_recipients m) < 65536" using assms by (simp add: meta_ok_def)
  ultimately show ?thesis unfolding meta_len_def by simp
qed

lemma open_payload_back:
  assumes "meta_ok S m"
  shows "open_payload S (ser_u32 S (of_nat (meta_len S m)) @ meta_body S m @ p) sp =
    Ret (Ok (sp\<lparr>sp_payload := p, sp_sender := em_sender m,
      sp_encrypted_meta := (sp_encrypted_meta sp)\<lparr>em_recipients := em_recipients m\<rparr>, sp_mode := 0\<rparr>))"
proof -
  let ?n = "of_nat (meta_len S m) :: u32"
  have u32: "ser_u32 S ?n = be_bytes 4 (uint ?n)" using assms by (simp add: meta_ok_def length_laws_def)
  have n: "unat ?n = meta_len S m" using meta_len_bound [OF assms] by (simp add: unat_of_nat)
  have "uint ?n mod 256 ^ 4 = uint ?n" using uint_bounded [of ?n] by simp
  then have word: "word_of_int (be_int (be_bytes 4 (uint ?n))) = ?n" by (simp add: be_int_be_bytes)
  have len: "length (meta_body S m) = meta_len S m" by (rule write_meta_ok(2) [OF assms])
  have split: "take (meta_len S m + 4) (ser_u32 S ?n @ meta_body S m @ p) = ser_u32 S ?n @ meta_body S m"
    "drop (meta_len S m + 4) (ser_u32 S ?n @ meta_body S m @ p) = p"
    "take 4 (ser_u32 S ?n @ meta_body S m @ p) = be_bytes 4 (uint ?n)"
    "length (ser_u32 S ?n @ meta_body S m @ p) = 4 + meta_len S m + length p"
    using len by (simp_all add: u32)
  show ?thesis
    unfolding open_payload_def Let_def split word n
    using read_meta_back [OF assms, of "[]"] by simp
qed


section \<open>Transport\<close>

lemma header_read:
  assumes "length (HEADER @ t) \<le> unat (max_size S)"
  shows "\<not> of_nat (length (as_bytes (HEADER @ t))) < min_size" "\<not> of_nat (length (as_bytes (HEADER @ t))) > max_size S"
    "from_utf8 (take (length HEADER) (as_bytes (HEADER @ t))) = Some HEADER"
proof -
  have "length (HEADER @ t) < 2 ^ 64" using assms unat_le_max64 [of "max_size S"] by simp
  then have n: "unat (of_nat (length (as_bytes (HEADER @ t))) :: u64) = length (HEADER @ t)"
    unfolding length_as_bytes by (simp add: unat_of_nat del: of_nat_add length_append)
  have min: "unat min_size = length HEADER" by code_simp
  show "\<not> of_nat (length (as_bytes (HEADER @ t))) < min_size" "\<not> of_nat (length (as_bytes (HEADER @ t))) > max_size S"
    unfolding word_less_nat_alt n min using assms by simp_all
  have "from_utf8 (as_bytes HEADER) = Some HEADER" by code_simp
  then show "from_utf8 (take (length HEADER) (as_bytes (HEADER @ t))) = Some HEADER" by simp
qed

text \<open>
  C28. A slate survives its way through a slatepack. A packer without recipients makes a slatepack of
  a slate that the binary format has room for, and armors it; any packer that is given the text,
  within the size limit, gives back a slatepack with the sender's address, whose slate is the one that
  was packed with its transaction rebuilt: framing, words and lines, base 58, checksum and binary form
  are all undone.
\<close>

theorem slatepack_transport_roundtrip:
  assumes "base58_laws S" "spk_recipients args = []"
    and "slatepack_ok S (slatepack_default\<lparr>sp_payload := serialize_slate_bin S (slate_to_v4 s), sp_sender := spk_sender args\<rparr>)"
    and "slate_bin_ok S (slate_to_v4 s)" "slate_kernel_features s = 2 \<longleftrightarrow> kernel_features_args s \<noteq> None"
  shows "\<exists>sp armored. create_slatepack S args s = Ret (Ok sp) \<and> armor_slatepack S sp = Ret (Ok armored) \<and>
    (\<forall>args' decrypt. length armored \<le> unat (max_size S) \<longrightarrow>
       (\<exists>sp'. deser_slatepack S args' (as_bytes armored) decrypt = Ret (Ok sp') \<and> sp_sender sp' = spk_sender args \<and>
          get_slate S sp' = Ret (Ok (s\<lparr>slate_tx := tx_from_slate_v4 S (slate_to_v4 s)\<rparr>))))"
proof -
  let ?v = "slate_to_v4 s"
  let ?sp = "slatepack_default\<lparr>sp_payload := serialize_slate_bin S ?v, sp_sender := spk_sender args\<rparr>"
  obtain b where b: "write_slatepack S ?sp = Ret (Ok b)"
    "read_slatepack S b = Ret (Ok (?sp\<lparr>sp_encrypted_meta := default_enc_metadata\<rparr>, []))"
    using slatepack_write_read [OF assms(3)] by (metis append_Nil2)
  let ?p = "fmt 15 (base58check S b) @ FOOTER @ [CHR 0x0A]"
  have armored: "armor_slatepack S ?sp = Ret (Ok (HEADER @ ?p))"
  proof -
    have "format_slatepack (HEADER @ base58check S b) = fmt 0 HEADER @ fmt 15 (base58check S b)"
      unfolding format_slatepack_def fmt_def [symmetric] fmt_append by (simp add: HEADER_def eval_nat_numeral)
    then show ?thesis by (simp add: armor_slatepack_def armor_encode_def b(1) fmt_header)
  qed
  have decoded: "armor_decode S (as_bytes (HEADER @ ?p)) = Ret (Ok b)"
    using armored armor_decode_encode [OF assms(1), of b] by (simp add: armor_slatepack_def armor_encode_def b(1))
  have deser: "deser_slatepack S args' (as_bytes (HEADER @ ?p)) decrypt = Ret (Ok (?sp\<lparr>sp_encrypted_meta := default_enc_metadata\<rparr>))"
    if "length (HEADER @ ?p) \<le> unat (max_size S)" for args' decrypt
    unfolding deser_slatepack_def Let_def
    using header_read [OF that] decoded b(2) by (simp del: as_bytes_append length_as_bytes add: try_decrypt_payload_def slatepack_default_def)
  have "slate_from_v4 S ?v = s\<lparr>slate_tx := tx_from_slate_v4 S ?v\<rparr>"
    using slate_from_to_v4 [of S s] by (simp add: rebuilt_def)
  then have slate: "get_slate S (?sp\<lparr>sp_encrypted_meta := default_enc_metadata\<rparr>) = Ret (Ok (s\<lparr>slate_tx := tx_from_slate_v4 S ?v\<rparr>))"
    using deserialize_whole [OF assms(4,5)] by (simp add: get_slate_def upgrade_def)
  show ?thesis
    using deser slate armored assms(2)
    by (intro exI [of _ ?sp] exI [of _ "HEADER @ ?p"]) (auto simp: create_slatepack_def try_encrypt_payload_def)
qed

text \<open>
  Armor that was cut off is a crash. On a text that begins with the header and has no second
  period, \<open>decode\<close> slices beyond the end of the text and panics; so does the packer that is given it,
  instead of reporting a malformed slatepack.
\<close>

theorem armor_truncated_panics:
  assumes "CHR ''.'' \<notin> set p" "length (HEADER @ p) \<le> unat (max_size S)"
  shows "armor_decode S (as_bytes (HEADER @ p)) = Panic ''range start index out of range'' \<and>
    deser_slatepack S args (as_bytes (HEADER @ p)) decrypt = Panic ''range start index out of range''"
proof -
  have shape: "as_bytes (HEADER @ p) = as_bytes ''BEGINSLATEPACK'' @ 0x2E # as_bytes p"
    by (simp add: HEADER_def) (simp add: as_bytes_def)
  have per: "(0x2E :: u8) \<notin> set (as_bytes ''BEGINSLATEPACK'')" by (auto simp: as_bytes_period)
  have tail: "takeWhile not_period (as_bytes p) = as_bytes p"
    using assms(1) as_bytes_period [of p] by (auto simp: takeWhile_eq_all_conv not_period_def)
  have "armor_decode S (as_bytes (HEADER @ p)) = Panic ''range start index out of range''"
    unfolding shape armor_decode_def Let_def by (simp add: takeWhile_period per framing_checks tail)
  then show ?thesis
    unfolding deser_slatepack_def Let_def
    using header_read [OF assms(2)] by (simp del: as_bytes_append length_as_bytes)
qed

end
