(* ===== verification/Slatepack_Run.thy ===== *)
theory Slatepack_Run
  imports Slatepack_Transport
begin

text \<open>
  The exchange of slates at concrete inputs, on a small library with the documented behaviour of
  \<open>grin_core\<close>, \<open>bech32\<close>, \<open>bs58\<close>, \<open>sha2\<close> and \<open>age\<close>.
\<close>

section \<open>The library\<close>

definition de_take :: "nat \<Rightarrow> bytes \<Rightarrow> (bytes \<times> bytes) option" where
  "de_take n b = (if length b < n then None else Some (take n b, drop n b))"

definition de_int :: "nat \<Rightarrow> bytes \<Rightarrow> ('a::len word \<times> bytes) option" where
  "de_int n b = (if length b < n then None else Some (word_of_int (be_int (take n b)), drop n b))"

definition de_counted :: "bytes \<Rightarrow> (bytes \<times> bytes) option" where
  "de_counted b = (let n = length (takeWhile (\<lambda>x. x = 1) b) in de_take n (drop (n + 1) b))"

definition letter :: "nat \<Rightarrow> char" where
  "letter n = ''abcdefghjkmnpqrs'' ! n"

definition unletter :: "char \<Rightarrow> nat" where
  "unletter c = length (takeWhile (\<lambda>d. d \<noteq> c) ''abcdefghjkmnpqrs'')"

definition letters :: "bytes \<Rightarrow> string" where
  "letters b = concat (map (\<lambda>x. [letter (unat x div 16), letter (unat x mod 16)]) b)"

fun unletters :: "string \<Rightarrow> bytes" where
  "unletters (a # b # s) = of_nat (unletter a * 16 + unletter b) # unletters s"
| "unletters s = []"

definition pack :: SlatepackLib where
  "pack = \<lparr>
     hex_encode = hex_text, hex_decode = (\<lambda>s. Some []),
     ZERO_KEY = replicate 32 0,
     sk_from_slice = Some,
     sk_add_assign = (\<lambda>a b. Some a),
     sk_neg_assign = Some,
     pk_new = [], pk_is_valid = (\<lambda>p. True), pk_from_secret_key = Some,
     pk_from_combination = (\<lambda>ps. Some (concat ps)), pk_from_slice = Some, pk_serialize_vec = (\<lambda>p. p),
     com_from_vec = (\<lambda>b. b), com_from_pubkey = Some, secp_commit = (\<lambda>v k. Some (be_bytes 8 (uint v) @ k)),
     commit_sum = (\<lambda>ps ns. Some (concat ps)), bullet_proof = (\<lambda>v k r p. [1]), verify_bullet_proof = (\<lambda>c p. p = [1]),
     bullet_proof_multisig = (\<lambda>v blind nonce tau t1 t2 cs p step. \<lparr>ms_proof = None, ms_tau_x = [], ms_t_1 = [], ms_t_2 = []\<rparr>),
     sign_single = (\<lambda>m key nonce x r p r'. Some key), verify_single = (\<lambda>sig m r p ks x. True),
     calculate_partial_sig = (\<lambda>key nonce r p m. Some key), verify_partial_sig = (\<lambda>sig r p ks m. True),
     add_signatures = (\<lambda>sigs r. Some (concat sigs)), verify_completed_sig = (\<lambda>sig p ks m. True),
     sig_to_raw_data = (\<lambda>s. s), sig_from_raw_data = (\<lambda>s. s),
     blind_sum_new = \<lparr>positive_blinding_factors = [], negative_blinding_factors = []\<rparr>,
     add_blinding_factor = (\<lambda>b k. b), sub_blinding_factor = (\<lambda>b k. b), blind_sum = (\<lambda>b. Some []),
     bf_from_secret_key = (\<lambda>k. k), bf_secret_key = Some, bf_split = (\<lambda>b o'. Some b), bf_zero = [],
     tx_fee = (\<lambda>i out k. of_nat (i + out + k)), fee_fields_new = (\<lambda>s f. Some f), fee_fields_zero = 0,
     fee_at = (\<lambda>f h. f), nrd_relative_height_new = Some, YEAR_HEIGHT = 524160,
     amount_to_hr_string = (\<lambda>a t. show_u64 a), identifier_zero = [], derive_key = (\<lambda>a i. Some i),
     inputs_len = (\<lambda>i. case i of CommitOnly cs \<Rightarrow> length cs | FeaturesAndCommit is \<Rightarrow> length is),
     inputs_from = FeaturesAndCommit,
     tx_empty = \<lparr>tx_offset = [], tx_inputs = FeaturesAndCommit [], tx_outputs = [], tx_kernels = []\<rparr>,
     tx_new = (\<lambda>i os ks. \<lparr>tx_offset = [], tx_inputs = i, tx_outputs = os, tx_kernels = ks\<rparr>),
     with_output = (\<lambda>out t. t\<lparr>tx_outputs := tx_outputs t @ [out]\<rparr>),
     with_kernel = (\<lambda>k t. t\<lparr>tx_kernels := tx_kernels t @ [k]\<rparr>),
     replace_kernel = (\<lambda>k t. t\<lparr>tx_kernels := [k]\<rparr>), replace_inputs = (\<lambda>i t. t\<lparr>tx_inputs := i\<rparr>),
     replace_outputs = (\<lambda>os t. t\<lparr>tx_outputs := os\<rparr>),
     kernel_with_features = (\<lambda>f. \<lparr>ker_features = f, ker_excess = [], ker_excess_sig = []\<rparr>),
     kernel_sig_msg = (\<lambda>f. Some []), kernel_verify = (\<lambda>k. True), tx_validate = (\<lambda>t. True), tx_fee_of = (\<lambda>t h. 0),
     ser_u8 = (\<lambda>x. [x]), de_u8 = (\<lambda>b. case b of [] \<Rightarrow> None | x # r \<Rightarrow> Some (x, r)),
     ser_u16 = (\<lambda>x. be_bytes 2 (uint x)), de_u16 = de_int 2, ser_u32 = (\<lambda>x. be_bytes 4 (uint x)), de_u32 = de_int 4,
     ser_u64 = (\<lambda>x. be_bytes 8 (uint x)), de_u64 = de_int 8,
     ser_fixed = (\<lambda>b. b), de_fixed = de_take,
     ser_var = (\<lambda>b. replicate (length b) 1 @ 0 # b), de_var = de_counted,
     uuid_as_bytes = (\<lambda>u. be_bytes 16 (uint u)), uuid_from_bytes = (\<lambda>b. word_of_int (be_int b)),
     ser_public_key = (\<lambda>b. b), de_public_key = de_take 33, ser_signature = (\<lambda>b. b), de_signature = de_take 64,
     ser_commitment = (\<lambda>b. b), de_commitment = de_take 33, ser_range_proof = (\<lambda>b. b), de_range_proof = de_take 3,
     ser_blinding = (\<lambda>b. b), de_blinding = de_take 32,
     ser_features = (\<lambda>f. [features_to_v4 f]),
     de_features = (\<lambda>b. case b of [] \<Rightarrow> None | x # r \<Rightarrow> Some (features_from_v4 x, r)),
     ser_fee = (\<lambda>x. be_bytes 8 (uint x)), de_fee = de_int 8,
     dalek_public_key = (\<lambda>b. if length b = 32 then Some b else None),
     dalek_signature = (\<lambda>b. if length b = 64 then Some b else None),
     bech32_encode = (\<lambda>h b. Some (h @ ''1'' @ letters b)),
     bech32_decode = (\<lambda>s. Some (takeWhile (\<lambda>c. c \<noteq> CHR ''1'') s, unletters (drop 1 (dropWhile (\<lambda>c. c \<noteq> CHR ''1'') s)))),
     bs58_encode = letters, bs58_decode = (\<lambda>s. Some (unletters s)),
     sha256 = (\<lambda>b. take 32 (b @ replicate 32 0)), sha512 = (\<lambda>b. take 64 (b @ replicate 64 0)),
     x25519_public = Some, age_encrypt = (\<lambda>seed ks t. Some (hd ks @ t)),
     age_decryptor = (\<lambda>b. Some AgeRecipients),
     age_decrypt = (\<lambda>k b. if take 32 b = k then Some (drop 32 b) else None),
     from_json_slatepack = (\<lambda>s. None), max_tx_weight = 40000, is_mainnet = False\<rparr>"

lemma pack_sel [simp]:
  "hex_encode pack = hex_text"
  "hex_decode pack = (\<lambda>s. Some [])"
  "ZERO_KEY pack = replicate 32 0"
  "sk_from_slice pack = Some"
  "sk_add_assign pack = (\<lambda>a b. Some a)"
  "sk_neg_assign pack = Some"
  "pk_new pack = []"
  "pk_is_valid pack = (\<lambda>p. True)"
  "pk_from_secret_key pack = Some"
  "pk_from_combination pack = (\<lambda>ps. Some (concat ps))"
  "pk_from_slice pack = Some"
  "pk_serialize_vec pack = (\<lambda>p. p)"
  "com_from_vec pack = (\<lambda>b. b)"
  "com_from_pubkey pack = Some"
  "secp_commit pack = (\<lambda>v k. Some (be_bytes 8 (uint v) @ k))"
  "commit_sum pack = (\<lambda>ps ns. Some (concat ps))"
  "bullet_proof pack = (\<lambda>v k r p. [1])"
  "verify_bullet_proof pack = (\<lambda>c p. p = [1])"
  "bullet_proof_multisig pack = (\<lambda>v blind nonce tau t1 t2 cs p step. \<lparr>ms_proof = None, ms_tau_x = [], ms_t_1 = [], ms_t_2 = []\<rparr>)"
  "sign_single pack = (\<lambda>m key nonce x r p r'. Some key)"
  "verify_single pack = (\<lambda>sig m r p ks x. True)"
  "calculate_partial_sig pack = (\<lambda>key nonce r p m. Some key)"
  "verify_partial_sig pack = (\<lambda>sig r p ks m. True)"
  "add_signatures pack = (\<lambda>sigs r. Some (concat sigs))"
  "verify_completed_sig pack = (\<lambda>sig p ks m. True)"
  "sig_to_raw_data pack = (\<lambda>s. s)"
  "sig_from_raw_data pack = (\<lambda>s. s)"
  "blind_sum_new pack = \<lparr>positive_blinding_factors = [], negative_blinding_factors = []\<rparr>"
  "add_blinding_factor pack = (\<lambda>b k. b)"
  "sub_blinding_factor pack = (\<lambda>b k. b)"
  "blind_sum pack = (\<lambda>b. Some [])"
  "bf_from_secret_key pack = (\<lambda>k. k)"
  "bf_secret_key pack = Some"
  "bf_split pack = (\<lambda>b o'. Some b)"
  "bf_zero pack = []"
  "tx_fee pack = (\<lambda>i out k. of_nat (i + out + k))"
  "fee_fields_new pack = (\<lambda>s f. Some f)"
  "fee_fields_zero pack = 0"
  "fee_at pack = (\<lambda>f h. f)"
  "nrd_relative_height_new pack = Some"
  "YEAR_HEIGHT pack = 524160"
  "amount_to_hr_string pack = (\<lambda>a t. show_u64 a)"
  "identifier_zero pack = []"
  "derive_key pack = (\<lambda>a i. Some i)"
  "inputs_len pack = (\<lambda>i. case i of CommitOnly cs \<Rightarrow> length cs | FeaturesAndCommit is \<Rightarrow> length is)"
  "inputs_from pack = FeaturesAndCommit"
  "tx_empty pack = \<lparr>tx_offset = [], tx_inputs = FeaturesAndCommit [], tx_outputs = [], tx_kernels = []\<rparr>"
  "tx_new pack = (\<lambda>i os ks. \<lparr>tx_offset = [], tx_inputs = i, tx_outputs = os, tx_kernels = ks\<rparr>)"
  "with_output pack = (\<lambda>out t. t\<lparr>tx_outputs := tx_outputs t @ [out]\<rparr>)"
  "with_kernel pack = (\<lambda>k t. t\<lparr>tx_kernels := tx_kernels t @ [k]\<rparr>)"
  "replace_kernel pack = (\<lambda>k t. t\<lparr>tx_kernels := [k]\<rparr>)"
  "replace_inputs pack = (\<lambda>i t. t\<lparr>tx_inputs := i\<rparr>)"
  "replace_outputs pack = (\<lambda>os t. t\<lparr>tx_outputs := os\<rparr>)"
  "kernel_with_features pack = (\<lambda>f. \<lparr>ker_features = f, ker_excess = [], ker_excess_sig = []\<rparr>)"
  "kernel_sig_msg pack = (\<lambda>f. Some [])"
  "kernel_verify pack = (\<lambda>k. True)"
  "tx_validate pack = (\<lambda>t. True)"
  "tx_fee_of pack = (\<lambda>t h. 0)"
  "ser_u8 pack = (\<lambda>x. [x])"
  "de_u8 pack = (\<lambda>b. case b of [] \<Rightarrow> None | x # r \<Rightarrow> Some (x, r))"
  "ser_u16 pack = (\<lambda>x. be_bytes 2 (uint x))"
  "de_u16 pack = de_int 2"
  "ser_u32 pack = (\<lambda>x. be_bytes 4 (uint x))"
  "de_u32 pack = de_int 4"
  "ser_u64 pack = (\<lambda>x. be_bytes 8 (uint x))"
  "de_u64 pack = de_int 8"
  "ser_fixed pack = (\<lambda>b. b)"
  "de_fixed pack = de_take"
  "ser_var pack = (\<lambda>b. replicate (length b) 1 @ 0 # b)"
  "de_var pack = de_counted"
  "uuid_as_bytes pack = (\<lambda>u. be_bytes 16 (uint u))"
  "uuid_from_bytes pack = (\<lambda>b. word_of_int (be_int b))"
  "ser_public_key pack = (\<lambda>b. b)"
  "de_public_key pack = de_take 33"
  "ser_signature pack = (\<lambda>b. b)"
  "de_signature pack = de_take 64"
  "ser_commitment pack = (\<lambda>b. b)"
  "de_commitment pack = de_take 33"
  "ser_range_proof pack = (\<lambda>b. b)"
  "de_range_proof pack = de_take 3"
  "ser_blinding pack = (\<lambda>b. b)"
  "de_blinding pack = de_take 32"
  "ser_features pack = (\<lambda>f. [features_to_v4 f])"
  "de_features pack = (\<lambda>b. case b of [] \<Rightarrow> None | x # r \<Rightarrow> Some (features_from_v4 x, r))"
  "ser_fee pack = (\<lambda>x. be_bytes 8 (uint x))"
  "de_fee pack = de_int 8"
  "dalek_public_key pack = (\<lambda>b. if length b = 32 then Some b else None)"
  "dalek_signature pack = (\<lambda>b. if length b = 64 then Some b else None)"
  "bech32_encode pack = (\<lambda>h b. Some (h @ ''1'' @ letters b))"
  "bech32_decode pack = (\<lambda>s. Some (takeWhile (\<lambda>c. c \<noteq> CHR ''1'') s, unletters (drop 1 (dropWhile (\<lambda>c. c \<noteq> CHR ''1'') s))))"
  "bs58_encode pack = letters"
  "bs58_decode pack = (\<lambda>s. Some (unletters s))"
  "sha256 pack = (\<lambda>b. take 32 (b @ replicate 32 0))"
  "sha512 pack = (\<lambda>b. take 64 (b @ replicate 64 0))"
  "x25519_public pack = Some"
  "age_encrypt pack = (\<lambda>seed ks t. Some (hd ks @ t))"
  "age_decryptor pack = (\<lambda>b. Some AgeRecipients)"
  "age_decrypt pack = (\<lambda>k b. if take 32 b = k then Some (drop 32 b) else None)"
  "from_json_slatepack pack = (\<lambda>s. None)"
  "max_tx_weight pack = 40000"
  "is_mainnet pack = False"
  by (simp_all add: pack_def)

lemma letter_range: "n < 16 \<Longrightarrow> unletter (letter n) = n \<and> letter n \<in> set base58_alphabet"
proof -
  assume "n < 16"
  moreover have "\<forall>n \<in> set [0..<16]. unletter (letter n) = n \<and> letter n \<in> set base58_alphabet" by code_simp
  ultimately show ?thesis by simp
qed

lemma letters_Cons: "letters (x # b) = letter (unat x div 16) # letter (unat x mod 16) # letters b"
  by (simp add: letters_def)

lemma unletters_letters [simp]: "unletters (letters b) = b"
proof (induction b)
  case (Cons x b)
  have "unat x div 16 < 16" "unat x mod 16 < 16" by simp_all
  with Cons letter_range show ?case
    by (simp add: letters_Cons del: of_nat_add of_nat_mult)
qed (simp add: letters_def)

lemma letters_alphabet: "set (letters b) \<subseteq> set base58_alphabet"
  using letter_range by (induction b) (auto simp: letters_Cons, simp add: letters_def)

lemma pack_base58 [simp]: "base58_laws pack"
  using letters_alphabet by (auto simp: base58_laws_def min_def)

lemma de_take_back [simp]: "length b = n \<Longrightarrow> de_take n (b @ rest) = Some (b, rest)"
  by (simp add: de_take_def)

lemma de_int_back: "256 ^ n = (2 :: int) ^ LENGTH('a) \<Longrightarrow> de_int n (be_bytes n (uint x) @ rest) = Some (x, rest)" for x :: "'a::len word"
proof -
  assume "256 ^ n = (2 :: int) ^ LENGTH('a)"
  then have "uint x mod 256 ^ n = uint x" using uint_bounded [of x] by simp
  then show ?thesis by (simp add: de_int_def be_int_be_bytes)
qed

lemma pack_bin [simp]: "bin_laws pack"
proof -
  have "word_of_int (be_int (be_bytes 16 (uint u))) = u" for u :: Uuid
  proof -
    have "uint u mod 256 ^ 16 = uint u" using uint_bounded [of u] by simp
    then show ?thesis by (simp add: be_int_be_bytes)
  qed
  then show ?thesis by (simp add: bin_laws_def reads_back_def de_int_back)
qed

lemma pack_length [simp]: "length_laws pack"
  by (simp add: length_laws_def)

lemma reads_back_pack [simp]:
  "reads_back (\<lambda>b. replicate (length b) 1 @ 0 # b) de_counted c"
  "length c = n \<Longrightarrow> reads_back (\<lambda>b. b) (de_take n) c"
  "reads_back (\<lambda>x. be_bytes 8 (uint x)) (de_int 8) (f :: u64)"
  "reads_back (\<lambda>f. [features_to_v4 f]) (\<lambda>b. case b of [] \<Rightarrow> None | x # r \<Rightarrow> Some (features_from_v4 x, r)) g"
proof -
  have "takeWhile (\<lambda>x. x = 1) (replicate n 1 @ (0 :: u8) # b) = replicate n 1" for n b
    by (induction n) simp_all
  then show "reads_back (\<lambda>b. replicate (length b) 1 @ 0 # b) de_counted c"
    by (simp add: reads_back_def de_counted_def Let_def)
qed (simp_all add: reads_back_def de_int_back)

lemma pack_age [simp]: "length k = 32 \<Longrightarrow> age_laws pack k [k]"
  by (simp add: age_laws_def)

section \<open>A slate\<close>

abbreviation pack_address :: SlatepackAddress where
  "pack_address \<equiv> \<lparr>spa_hrp = ''tgrin'', spa_pub_key = replicate 32 0xA7\<rparr>"

lemma pack_address_ok [simp]: "address_ok pack pack_address"
proof -
  let ?enc = "''tgrin1'' @ letters (replicate 32 0xA7)"
  have "utf8_valid (as_bytes ?enc)" by code_simp
  moreover have "length ?enc \<le> 255" by code_simp
  moreover have "address_from_string pack ?enc = Some pack_address"
    by (simp add: address_from_string_def)
  moreover have "address_to_string pack pack_address = Some ?enc" by (simp add: address_to_string_def)
  ultimately show ?thesis unfolding address_ok_def by blast
qed

definition pack_slate :: Slate where
  "pack_slate = (blank pack 77 2 False)\<lparr>slate_amount := 1000, fee_fields := 8, slate_offset := replicate 32 1,
     participant_data := [\<lparr>public_blind_excess = replicate 33 2, public_nonce = replicate 33 3, part_sig = Some (replicate 64 4)\<rparr>],
     slate_tx := Some \<lparr>tx_offset = [], tx_inputs = FeaturesAndCommit [\<lparr>inp_features = Coinbase, inp_commit = replicate 33 8\<rparr>],
       tx_outputs = [\<lparr>out_features = Plain, out_commit = replicate 33 9, out_proof = [1, 2, 3]\<rparr>], tx_kernels = []\<rparr>,
     payment_proof := Some \<lparr>sender_address = replicate 32 5, receiver_address = replicate 32 6, receiver_signature = None\<rparr>\<rparr>"

lemma pack_slate_ok [simp]: "slate_bin_ok pack (slate_to_v4 pack_slate)"
  by (simp add: slate_bin_ok_def pack_slate_def slate_to_v4_def fields_ok_def sig_ok_def structs_ok_def com_ok_def proof_ok_def
      participant_to_v4_def payment_to_v4_def coms_to_v4_def output_to_v4_def input_to_v4_def
      features_from_v4_def)

lemma pack_slate_kernel [simp]: "slate_kernel_features pack_slate = 0" "kernel_features_args pack_slate = None"
  by (simp_all add: pack_slate_def blank_def blank_with_kernel_features_def)

theorem slate_binary_roundtrip_witness:
  "deserialize_slate_bin pack (serialize_slate_bin pack (slate_to_v4 pack_slate) @ [1, 2]) = Ret (Ok (slate_to_v4 pack_slate))"
  using slate_binary_roundtrip [OF pack_slate_ok, of "[1, 2]"] by simp

theorem binary_loses_relative_height_witness:
  "\<exists>v. deserialize_slate_bin pack (serialize_slate_bin pack
        (slate_to_v4 (pack_slate\<lparr>slate_kernel_features := 3, kernel_features_args := Some \<lparr>lock_height = 60\<rparr>\<rparr>))) = Ret (Ok v) \<and>
      kernel_features pack (slate_from_v4 pack v) = Err (KernelFeaturesMissing ''lock_height'')"
proof -
  let ?s = "pack_slate\<lparr>slate_kernel_features := 3, kernel_features_args := Some \<lparr>lock_height = 60\<rparr>\<rparr>"
  have "slate_bin_ok pack (slate_to_v4 ?s)"
    using pack_slate_ok by (simp add: slate_bin_ok_def slate_to_v4_def coms_to_v4_def fields_ok_def split: if_splits)
  from binary_loses_relative_height [OF this] show ?thesis by auto
qed

section \<open>A slatepack\<close>


text \<open>The sizes stay within the limit.\<close>

lemma pack_bytes_length: "length (serialize_slate_bin pack (slate_to_v4 pack_slate)) \<le> 500"
  by (simp add: serialize_slate_bin_def write_slate_bin_def write_uuid_def write_state_def write_opt_fields_def Let_def
      write_sigs_def write_sig_def write_opt_structs_def write_coms_def write_com_def write_proof_def slate_to_v4_def
      participant_to_v4_def payment_to_v4_def coms_to_v4_def output_to_v4_def input_to_v4_def pack_slate_def)

lemma length_letters: "length (letters b) = 2 * length b"
  by (induction b) (simp_all add: letters_Cons, simp add: letters_def)

lemma length_fmt: "length (fmt n s) \<le> 2 * length s"
proof (induction s arbitrary: n)
  case (Cons c s)
  have "length (separator n) \<le> 1" by (simp add: separator_def)
  with Cons [of "Suc n"] show ?case by simp
qed simp

lemma pack_armor_length:
  assumes "armor_slatepack pack (slatepack_default\<lparr>sp_payload := p, sp_sender := Some pack_address\<rparr>) = Ret (Ok armored)"
    "length p \<le> 500"
  shows "length armored \<le> unat (max_size pack)"
proof -
  have atext: "length (address_text pack pack_address) = 70"
    by (simp add: address_text_def address_to_string_def length_letters)
  from assms(1) obtain r where r: "write_slatepack pack (slatepack_default\<lparr>sp_payload := p, sp_sender := Some pack_address\<rparr>) = Ret r"
    "(case r of Inl _ \<Rightarrow> Ret (Err SlatepackSer)
      | Inr b \<Rightarrow> Ret (Ok (format_slatepack (HEADER @ base58check pack b) @ FOOTER @ [CHR 0x0A]))) = Ret (Ok armored)"
    unfolding armor_slatepack_def armor_encode_def pbind_eq_Ret by blast
  then obtain b where b: "write_slatepack pack (slatepack_default\<lparr>sp_payload := p, sp_sender := Some pack_address\<rparr>) = Ret (Ok b)"
    "armored = format_slatepack (HEADER @ base58check pack b) @ FOOTER @ [CHR 0x0A]"
    by (cases r) auto
  have "length b = 9 + 71 + (2 * length p + 1)"
    using b(1) write_address_ok [OF pack_address_ok] atext
    by (auto simp: write_slatepack_def opt_fields_len_def slatepack_default_def pbind_eq_Ret)
  then have "length (base58check pack b) \<le> 2 * (4 + (9 + 71 + 1001))"
    using assms(2) by (simp add: base58check_def length_letters generate_check_def)
  then have "length armored \<le> 2 * (15 + 2 * 1085) + 16"
    using length_fmt [of 0 "HEADER @ base58check pack b"]
    by (simp add: b(2) format_slatepack_def fmt_def [symmetric] HEADER_def FOOTER_def)
  moreover have "unat (max_size pack) = 1280030"
    by (simp add: max_size_def saturating_add_def saturating_mul_def HEADER_def FOOTER_def WEIGHT_RATIO_def)
  ultimately show ?thesis by simp
qed

theorem slatepack_transport_roundtrip_witness:
  "\<exists>sp armored sp'. create_slatepack pack \<lparr>spk_sender = Some pack_address, spk_recipients = [], spk_dec_key = None\<rparr> pack_slate = Ret (Ok sp) \<and>
    armor_slatepack pack sp = Ret (Ok armored) \<and>
    deser_slatepack pack \<lparr>spk_sender = None, spk_recipients = [], spk_dec_key = None\<rparr> (as_bytes armored) True = Ret (Ok sp') \<and>
    sp_sender sp' = Some pack_address \<and>
    get_slate pack sp' = Ret (Ok (pack_slate\<lparr>slate_tx := tx_from_slate_v4 pack (slate_to_v4 pack_slate)\<rparr>))"
proof -
  let ?args = "\<lparr>spk_sender = Some pack_address, spk_recipients = [], spk_dec_key = None\<rparr>"
  have "slatepack_ok pack (slatepack_default\<lparr>sp_payload := serialize_slate_bin pack (slate_to_v4 pack_slate), sp_sender := spk_sender ?args\<rparr>)"
    by (simp add: slatepack_ok_def slatepack_default_def)
  from slatepack_transport_roundtrip [OF pack_base58 _ this pack_slate_ok] obtain sp armored where
    r: "create_slatepack pack ?args pack_slate = Ret (Ok sp)" "armor_slatepack pack sp = Ret (Ok armored)"
    "\<forall>args' decrypt. length armored \<le> unat (max_size pack) \<longrightarrow>
       (\<exists>sp'. deser_slatepack pack args' (as_bytes armored) decrypt = Ret (Ok sp') \<and> sp_sender sp' = Some pack_address \<and>
          get_slate pack sp' = Ret (Ok (pack_slate\<lparr>slate_tx := tx_from_slate_v4 pack (slate_to_v4 pack_slate)\<rparr>)))" by auto
  have "sp = slatepack_default\<lparr>sp_payload := serialize_slate_bin pack (slate_to_v4 pack_slate), sp_sender := Some pack_address\<rparr>"
    using r(1) by (simp add: create_slatepack_def try_encrypt_payload_def)
  then have "length armored \<le> unat (max_size pack)" using r(2) pack_bytes_length pack_armor_length by simp
  with r show ?thesis by blast
qed

theorem armor_truncated_panics_witness:
  "armor_decode pack (as_bytes (HEADER @ ''abc'')) = Panic ''range start index out of range''"
proof -
  have "length (HEADER @ ''abc'') \<le> unat (max_size pack)"
    by (simp add: max_size_def saturating_add_def saturating_mul_def HEADER_def FOOTER_def WEIGHT_RATIO_def)
  from armor_truncated_panics [OF _ this] show ?thesis by auto
qed

end
